(* ===== verification/Prelude.thy ===== *)
theory Prelude
  imports Complex_Main "HOL-Library.AList"
begin

text \<open>
  Shared vocabulary of the development: JavaScript values and numbers as the sources
  inspect them, strings, the insertion-ordered \<open>Map\<close> of JavaScript, and actions that
  carry a state and may throw.  Collections of rules used by the component theories are
  declared here.
\<close>

named_theorems wp_rules \<open>weakest-precondition equations of actions\<close>
named_theorems ok_rules \<open>reading off what a returned value satisfies\<close>
named_theorems keep_rules \<open>actions that keep a predicate of the state\<close>
named_theorems omap_simps \<open>equations of the insertion-ordered map\<close>

section \<open>Numbers and dynamic values\<close>

text \<open>
  A JavaScript number.  Finite doubles are rationals; the model keeps their exact value
  and does not round results of arithmetic.
\<close>

datatype jsnum = JFin rat | JPosInf | JNegInf | JNaN

datatype jsval =
    JUndef
  | JNull
  | JBool bool
  | JNum jsnum
  | JStr string
  | JArr "jsval list"
  | JObj "(string \<times> jsval) list"

definition ratIsInt :: "rat \<Rightarrow> bool" where
  "ratIsInt q \<longleftrightarrow> of_int \<lfloor>q\<rfloor> = q"

definition maxSafe :: rat where
  "maxSafe = 9007199254740991"

fun numberIsFinite :: "jsval \<Rightarrow> bool" where
  "numberIsFinite (JNum (JFin q)) = True"
| "numberIsFinite v = False"

fun numberIsInteger :: "jsval \<Rightarrow> bool" where
  "numberIsInteger (JNum (JFin q)) = ratIsInt q"
| "numberIsInteger v = False"

fun numberIsSafeInteger :: "jsval \<Rightarrow> bool" where
  "numberIsSafeInteger (JNum (JFin q)) = (ratIsInt q \<and> \<bar>q\<bar> \<le> maxSafe)"
| "numberIsSafeInteger v = False"

text \<open>The finite value of a number; only used behind one of the guards above.\<close>

fun numOf :: "jsval \<Rightarrow> rat" where
  "numOf (JNum (JFin q)) = q"
| "numOf v = 0"

text \<open>\<open>a ?? b\<close>\<close>

definition nullish :: "jsval \<Rightarrow> jsval \<Rightarrow> jsval" where
  "nullish v d = (if v = JUndef \<or> v = JNull then d else v)"

fun truthy :: "jsval \<Rightarrow> bool" where
  "truthy JUndef = False"
| "truthy JNull = False"
| "truthy (JBool b) = b"
| "truthy (JNum n) = (case n of JFin q \<Rightarrow> q \<noteq> 0 | JNaN \<Rightarrow> False | _ \<Rightarrow> True)"
| "truthy (JStr s) = (s \<noteq> [])"
| "truthy (JArr xs) = True"
| "truthy (JObj ps) = True"

text \<open>Own properties of an object; reading an absent one gives \<open>undefined\<close>.\<close>

fun getProp :: "jsval \<Rightarrow> string \<Rightarrow> jsval" where
  "getProp (JObj ps) k = (case map_of ps k of Some v \<Rightarrow> v | None \<Rightarrow> JUndef)"
| "getProp v k = JUndef"

fun hasProp :: "jsval \<Rightarrow> string \<Rightarrow> bool" where
  "hasProp (JObj ps) k = (k \<in> fst ` set ps)"
| "hasProp v k = False"

lemma ratIsInt_of_int [simp]: "ratIsInt (of_int z)"
  by (simp add: ratIsInt_def)

lemma ratIsInt_iff: "ratIsInt q \<longleftrightarrow> q \<in> \<int>"
  by (metis Ints_cases Ints_of_int floor_of_int ratIsInt_def)

lemma ratIsInt_numeral [simp]: "ratIsInt (numeral n)" "ratIsInt 0" "ratIsInt 1"
  by (simp_all add: ratIsInt_def)

lemma numberIsInteger_D: "numberIsInteger v \<Longrightarrow> \<exists>z. v = JNum (JFin (of_int z))"
  by (cases v rule: numberIsInteger.cases) (auto simp: ratIsInt_iff elim: Ints_cases)

lemma numberIsSafeInteger_D:
  "numberIsSafeInteger v \<Longrightarrow> \<exists>z. v = JNum (JFin (of_int z)) \<and> \<bar>of_int z\<bar> \<le> maxSafe"
  by (cases v rule: numberIsSafeInteger.cases) (auto simp: ratIsInt_iff elim!: Ints_cases)

section \<open>Strings\<close>

text \<open>
  Strings are lists of \<open>char\<close>: the model covers texts whose UTF-16 code units are below
  256, and \<open>length\<close> counts code units as the sources do.
\<close>

definition charCode :: "char \<Rightarrow> nat" where
  "charCode c = of_char c"

lemma charCode_char_of [simp]: "charCode (char_of (n :: nat)) = n mod 256"
  by (simp add: charCode_def)

definition isControl :: "char \<Rightarrow> bool" where
  "isControl c \<longleftrightarrow> charCode c < 32 \<or> charCode c = 127"

definition isDigit :: "char \<Rightarrow> bool" where
  "isDigit c \<longleftrightarrow> 48 \<le> charCode c \<and> charCode c \<le> 57"

definition isUpper :: "char \<Rightarrow> bool" where
  "isUpper c \<longleftrightarrow> 65 \<le> charCode c \<and> charCode c \<le> 90"

definition isLower :: "char \<Rightarrow> bool" where
  "isLower c \<longleftrightarrow> 97 \<le> charCode c \<and> charCode c \<le> 122"

definition isAlnum :: "char \<Rightarrow> bool" where
  "isAlnum c \<longleftrightarrow> isDigit c \<or> isUpper c \<or> isLower c"

text \<open>\<open>\s\<close> of a regular expression, on the code units covered.\<close>

definition isSpace :: "char \<Rightarrow> bool" where
  "isSpace c \<longleftrightarrow> (9 \<le> charCode c \<and> charCode c \<le> 13) \<or> charCode c = 32 \<or> charCode c = 160"

definition lowerChar :: "char \<Rightarrow> char" where
  "lowerChar c =
     (let n = charCode c in
      if (65 \<le> n \<and> n \<le> 90) \<or> (192 \<le> n \<and> n \<le> 222 \<and> n \<noteq> 215) then char_of (n + 32) else c)"

definition toLowerCase :: "string \<Rightarrow> string" where
  "toLowerCase s = map lowerChar s"

definition startsWith :: "string \<Rightarrow> string \<Rightarrow> bool" where
  "startsWith s p \<longleftrightarrow> take (length p) s = p"

definition endsWith :: "string \<Rightarrow> string \<Rightarrow> bool" where
  "endsWith s p \<longleftrightarrow> length p \<le> length s \<and> drop (length s - length p) s = p"

definition trimStart :: "string \<Rightarrow> string" where
  "trimStart s = dropWhile isSpace s"

definition trim :: "string \<Rightarrow> string" where
  "trim s = rev (dropWhile isSpace (rev (dropWhile isSpace s)))"

text \<open>\<open>s.includes(p)\<close>\<close>

fun includesStr :: "string \<Rightarrow> string \<Rightarrow> bool" where
  "includesStr [] p = (p = [])"
| "includesStr (c # cs) p = (take (length p) (c # cs) = p \<or> includesStr cs p)"

text \<open>\<open>s.split(d)\<close> for a separator of one character: never empty.\<close>

fun splitChar :: "char \<Rightarrow> string \<Rightarrow> string list" where
  "splitChar d [] = [[]]"
| "splitChar d (c # cs) =
     (if c = d then [] # splitChar d cs
      else (case splitChar d cs of [] \<Rightarrow> [[c]] | w # ws \<Rightarrow> (c # w) # ws))"

fun joinStr :: "string \<Rightarrow> string list \<Rightarrow> string" where
  "joinStr d [] = []"
| "joinStr d [w] = w"
| "joinStr d (w # v # ws) = w @ d @ joinStr d (v # ws)"

lemma splitChar_not_Nil [simp]: "splitChar d s \<noteq> []"
  by (cases s) (auto split: list.splits)

lemma splitChar_join: "joinStr [d] (splitChar d s) = s"
proof (induction s)
  case Nil
  then show ?case by simp
next
  case (Cons c cs)
  obtain w ws where w: "splitChar d cs = w # ws"
    using splitChar_not_Nil [of d cs] by (cases "splitChar d cs") auto
  from Cons w show ?case by (cases ws) auto
qed

lemma splitChar_parts: "w \<in> set (splitChar d s) \<Longrightarrow> d \<notin> set w"
proof (induction s arbitrary: w)
  case Nil
  then show ?case by simp
next
  case (Cons c cs)
  then show ?case by (auto split: if_splits list.splits)
qed

lemma splitChar_no_sep: "d \<notin> set s \<Longrightarrow> splitChar d s = [s]"
  by (induction s) auto

lemma splitChar_append_sep:
  "d \<notin> set w \<Longrightarrow> splitChar d (w @ d # s) = w # splitChar d s"
  by (induction w) auto

lemma joinStr_split:
  "ws \<noteq> [] \<Longrightarrow> (\<And>w. w \<in> set ws \<Longrightarrow> d \<notin> set w) \<Longrightarrow> splitChar d (joinStr [d] ws) = ws"
proof (induction "[d]" ws rule: joinStr.induct)
  case 1
  then show ?case by simp
next
  case (2 w)
  then show ?case by (simp add: splitChar_no_sep)
next
  case (3 w v ws)
  then show ?case by (simp add: splitChar_append_sep)
qed

lemma joinStr_all: "list_all (list_all P) ws \<Longrightarrow> list_all P d \<Longrightarrow> list_all P (joinStr d ws)"
  by (induction d ws rule: joinStr.induct) auto

lemma startsWith_append [simp]: "startsWith (p @ s) p"
  by (simp add: startsWith_def)

lemma startsWith_iff: "startsWith s p \<longleftrightarrow> (\<exists>t. s = p @ t)"
  by (metis append_take_drop_id append_eq_conv_conj startsWith_def)

lemma endsWith_iff: "endsWith s p \<longleftrightarrow> (\<exists>t. s = t @ p)"
  unfolding endsWith_def
  by (metis append_take_drop_id diff_diff_cancel length_append length_drop le_add2
      append_eq_conv_conj add_diff_cancel_right')

section \<open>Insertion-ordered maps\<close>

text \<open>
  A JavaScript \<open>Map\<close> is an association list in insertion order: \<open>set\<close> overwrites in
  place or appends, which is \<^const>\<open>AList.update\<close>; \<open>delete\<close> is \<^const>\<open>AList.delete\<close>;
  the oldest key is the first.
\<close>

type_synonym ('k, 'v) omap = "('k \<times> 'v) list"

abbreviation oget :: "('k, 'v) omap \<Rightarrow> 'k \<Rightarrow> 'v option" where
  "oget m k \<equiv> map_of m k"

abbreviation oset :: "'k \<Rightarrow> 'v \<Rightarrow> ('k, 'v) omap \<Rightarrow> ('k, 'v) omap" where
  "oset k v m \<equiv> AList.update k v m"

abbreviation odelete :: "'k \<Rightarrow> ('k, 'v) omap \<Rightarrow> ('k, 'v) omap" where
  "odelete k m \<equiv> AList.delete k m"

abbreviation okeys :: "('k, 'v) omap \<Rightarrow> 'k list" where
  "okeys m \<equiv> map fst m"

abbreviation owf :: "('k, 'v) omap \<Rightarrow> bool" where
  "owf m \<equiv> distinct (map fst m)"

lemma oget_oset [omap_simps]: "oget (oset k v m) k' = (if k' = k then Some v else oget m k')"
  by (simp add: update_conv')

lemma oget_odelete [omap_simps]: "oget (odelete k m) k' = (if k' = k then None else oget m k')"
  by (simp add: delete_conv')

lemma owf_oset [omap_simps]: "owf m \<Longrightarrow> owf (oset k v m)"
  by (simp add: distinct_update)

lemma owf_odelete [omap_simps]: "owf m \<Longrightarrow> owf (odelete k m)"
  by (simp add: distinct_delete)

lemma oset_fresh: "k \<notin> set (okeys m) \<Longrightarrow> oset k v m = m @ [(k, v)]"
  by (induction m) auto

lemma okeys_oset: "okeys (oset k v m) = (if k \<in> set (okeys m) then okeys m else okeys m @ [k])"
  by (induction m) auto

lemma okeys_odelete: "okeys (odelete k m) = filter (\<lambda>x. x \<noteq> k) (okeys m)"
  by (induction m) (auto simp: AList.delete_eq)

lemma odelete_hd: "owf ((k, v) # m) \<Longrightarrow> odelete k ((k, v) # m) = m"
  by (auto simp: AList.delete_eq filter_id_conv rev_image_eqI)

lemma odelete_fresh: "k \<notin> set (okeys m) \<Longrightarrow> odelete k m = m"
  by (auto simp: AList.delete_eq filter_id_conv rev_image_eqI)

text \<open>\<open>m.delete(m.keys().next().value)\<close>\<close>

lemma odelete_oldest: "owf m \<Longrightarrow> (case m of [] \<Rightarrow> m | (k, v) # rest \<Rightarrow> odelete k m) = tl m"
  by (cases m) (auto simp: odelete_fresh)

lemma list_all_tl: "list_all P m \<Longrightarrow> list_all P (tl m)"
  by (cases m) auto

lemma owf_tl: "owf m \<Longrightarrow> owf (tl m)"
  by (cases m) auto

lemma oget_None_iff: "oget m k = None \<longleftrightarrow> k \<notin> set (okeys m)"
  by (auto simp: map_of_eq_None_iff)

lemma length_odelete_le: "length (odelete k m) \<le> length m"
  by (simp add: AList.delete_eq)

lemma length_oset_le: "length (oset k v m) \<le> Suc (length m)"
  by (induction m) auto

section \<open>Results\<close>

text \<open>A function that may throw returns a sum; the continuation runs on a normal return.\<close>

definition bindR :: "'e + 'a \<Rightarrow> ('a \<Rightarrow> 'e + 'b) \<Rightarrow> 'e + 'b" where
  "bindR m f = (case m of Inl e \<Rightarrow> Inl e | Inr x \<Rightarrow> f x)"

text \<open>\<open>if (bad) throw e;\<close>\<close>

definition guardR :: "bool \<Rightarrow> 'e \<Rightarrow> 'e + unit" where
  "guardR bad e = (if bad then Inl e else Inr ())"

text \<open>\<open>xs.map((x, index) => f(index, x))\<close> with a function that may throw\<close>

primrec mapR :: "(nat \<Rightarrow> 'a \<Rightarrow> 'e + 'b) \<Rightarrow> nat \<Rightarrow> 'a list \<Rightarrow> 'e + 'b list" where
  "mapR f i [] = Inr []"
| "mapR f i (x # xs) = bindR (f i x) (\<lambda>y. bindR (mapR f (Suc i) xs) (\<lambda>ys. Inr (y # ys)))"

lemma bindR_simps [simp]: "bindR (Inl e) f = Inl e" "bindR (Inr x) f = f x"
  by (simp_all add: bindR_def)

lemma bindR_E: "bindR m f = Inr y \<Longrightarrow> (\<And>x. m = Inr x \<Longrightarrow> f x = Inr y \<Longrightarrow> P) \<Longrightarrow> P"
  by (auto simp: bindR_def split: sum.splits)

lemma bindR_Inr: "bindR m f = Inr y \<longleftrightarrow> (\<exists>x. m = Inr x \<and> f x = Inr y)"
  by (auto simp: bindR_def split: sum.splits)

lemma guardR_Inr [simp]: "guardR bad e = Inr u \<longleftrightarrow> \<not> bad" "guardR bad e = Inl e' \<longleftrightarrow> bad \<and> e' = e"
  by (auto simp: guardR_def)

lemma bindR_guard: "bindR (guardR bad e) f = Inr y \<longleftrightarrow> \<not> bad \<and> f () = Inr y"
  by (simp add: guardR_def)

lemma mapR_all: "mapR f i xs = Inr ys \<Longrightarrow> (\<And>j x y. f j x = Inr y \<Longrightarrow> P y) \<Longrightarrow> list_all P ys"
  by (induction xs arbitrary: i ys) (auto simp: bindR_Inr)

lemma mapR_length: "mapR f i xs = Inr ys \<Longrightarrow> length ys = length xs"
  by (induction xs arbitrary: i ys) (auto simp: bindR_Inr)

text \<open>What holds of the result of a function that may throw, when it returns.\<close>

definition ifOk :: "('a \<Rightarrow> bool) \<Rightarrow> 'e + 'a \<Rightarrow> bool" where
  "ifOk P m \<longleftrightarrow> (\<forall>x. m = Inr x \<longrightarrow> P x)"

lemma ifOkI: "(\<And>x. m = Inr x \<Longrightarrow> P x) \<Longrightarrow> ifOk P m"
  by (simp add: ifOk_def)

lemma ifOkD: "ifOk P m \<Longrightarrow> m = Inr x \<Longrightarrow> P x"
  by (simp add: ifOk_def)

lemma ifOk_value [ok_rules]: "ifOk P (Inr x) \<longleftrightarrow> P x" "ifOk P (Inl e)"
  by (simp_all add: ifOk_def)

lemma ifOk_bind [ok_rules]: "ifOk P (bindR m f) \<longleftrightarrow> (\<forall>x. m = Inr x \<longrightarrow> ifOk P (f x))"
  by (cases m) (simp_all add: ifOk_def)

lemma ifOk_if [ok_rules]: "ifOk P (if b then m else n) \<longleftrightarrow> (b \<longrightarrow> ifOk P m) \<and> (\<not> b \<longrightarrow> ifOk P n)"
  by simp

lemma ifOk_option [ok_rules]:
  "ifOk P (case v of None \<Rightarrow> m | Some x \<Rightarrow> f x) \<longleftrightarrow> (v = None \<longrightarrow> ifOk P m) \<and> (\<forall>x. v = Some x \<longrightarrow> ifOk P (f x))"
  by (cases v) simp_all

section \<open>Actions\<close>

text \<open>
  An action reads and writes a state and either returns (\<open>Inr\<close>) or throws (\<open>Inl\<close>); a
  throw keeps the writes made before it, as an exception does.
\<close>

type_synonym ('s, 'e, 'a) act = "'s \<Rightarrow> ('e + 'a) \<times> 's"

definition act_return :: "'a \<Rightarrow> ('s, 'e, 'a) act" where
  "act_return x = (\<lambda>s. (Inr x, s))"

definition act_throw :: "'e \<Rightarrow> ('s, 'e, 'a) act" where
  "act_throw e = (\<lambda>s. (Inl e, s))"

definition act_bind :: "('s, 'e, 'a) act \<Rightarrow> ('a \<Rightarrow> ('s, 'e, 'b) act) \<Rightarrow> ('s, 'e, 'b) act" where
  "act_bind m f = (\<lambda>s. case m s of (Inl e, t) \<Rightarrow> (Inl e, t) | (Inr x, t) \<Rightarrow> f x t)"

definition act_then :: "('s, 'e, 'a) act \<Rightarrow> ('s, 'e, 'b) act \<Rightarrow> ('s, 'e, 'b) act" where
  "act_then m n = act_bind m (\<lambda>_. n)"

definition act_get :: "('s \<Rightarrow> 'a) \<Rightarrow> ('s, 'e, 'a) act" where
  "act_get f = (\<lambda>s. (Inr (f s), s))"

definition act_modify :: "('s \<Rightarrow> 's) \<Rightarrow> ('s, 'e, unit) act" where
  "act_modify f = (\<lambda>s. (Inr (), f s))"

text \<open>\<open>if (bad) throw e;\<close>\<close>

definition act_throwIf :: "bool \<Rightarrow> 'e \<Rightarrow> ('s, 'e, unit) act" where
  "act_throwIf bad e = (if bad then act_throw e else act_return ())"

definition act_lift :: "('e + 'a) \<Rightarrow> ('s, 'e, 'a) act" where
  "act_lift r = (\<lambda>s. (r, s))"

definition act_catch :: "('s, 'e, 'a) act \<Rightarrow> ('e \<Rightarrow> ('s, 'f, 'a) act) \<Rightarrow> ('s, 'f, 'a) act" where
  "act_catch m h = (\<lambda>s. case m s of (Inl e, t) \<Rightarrow> h e t | (Inr x, t) \<Rightarrow> (Inr x, t))"

lemmas act_defs = act_return_def act_throw_def act_bind_def act_then_def act_get_def
  act_modify_def act_throwIf_def act_lift_def act_catch_def

text \<open>
  The weakest precondition of an action for a postcondition on a normal return and one on
  a throw.
\<close>

definition wp :: "('s, 'e, 'a) act \<Rightarrow> ('a \<Rightarrow> 's \<Rightarrow> bool) \<Rightarrow> ('e \<Rightarrow> 's \<Rightarrow> bool) \<Rightarrow> 's \<Rightarrow> bool" where
  "wp m Q E s = (case m s of (Inl e, t) \<Rightarrow> E e t | (Inr x, t) \<Rightarrow> Q x t)"

lemma wp_return [wp_rules]: "wp (act_return x) Q E = Q x"
  by (rule ext) (simp add: wp_def act_return_def)

lemma wp_throw [wp_rules]: "wp (act_throw e) Q E = E e"
  by (rule ext) (simp add: wp_def act_throw_def)

lemma wp_bind [wp_rules]: "wp (act_bind m f) Q E s = wp m (\<lambda>x. wp (f x) Q E) E s"
  by (simp add: wp_def act_bind_def split: prod.splits sum.splits)

lemma wp_then [wp_rules]: "wp (act_then m n) Q E s = wp m (\<lambda>_. wp n Q E) E s"
  by (simp add: act_then_def wp_bind)

lemma wp_get [wp_rules]: "wp (act_get f) Q E s = Q (f s) s"
  by (simp add: wp_def act_get_def)

lemma wp_modify [wp_rules]: "wp (act_modify f) Q E s = Q () (f s)"
  by (simp add: wp_def act_modify_def)

lemma wp_throwIf [wp_rules]: "wp (act_throwIf b e) Q E s = (if b then E e s else Q () s)"
  by (simp add: act_throwIf_def wp_return wp_throw)

lemma wp_lift [wp_rules]: "wp (act_lift r) Q E s = (case r of Inl e \<Rightarrow> E e s | Inr x \<Rightarrow> Q x s)"
  by (simp add: wp_def act_lift_def split: sum.splits)

lemma wp_catch [wp_rules]: "wp (act_catch m h) Q E s = wp m Q (\<lambda>e. wp (h e) Q E) s"
  by (simp add: wp_def act_catch_def split: prod.splits sum.splits)

lemma wp_if [wp_rules]: "wp (if b then m else n) Q E = (if b then wp m Q E else wp n Q E)"
  by simp

lemma wp_mono:
  "wp m Q E s \<Longrightarrow> (\<And>x t. Q x t \<Longrightarrow> Q' x t) \<Longrightarrow> (\<And>e t. E e t \<Longrightarrow> E' e t) \<Longrightarrow> wp m Q' E' s"
  by (auto simp: wp_def split: prod.splits sum.splits)

lemma wp_conj: "wp m Q E s \<Longrightarrow> wp m Q' E' s \<Longrightarrow>
    wp m (\<lambda>x t. Q x t \<and> Q' x t) (\<lambda>e t. E e t \<and> E' e t) s"
  by (auto simp: wp_def split: prod.splits sum.splits)

lemma act_map_snd: "snd (act_bind m (\<lambda>x. act_return (f x)) s) = snd (m s)"
  by (simp add: act_defs split: prod.splits sum.splits)

lemma act_map_fst: "fst (act_bind m (\<lambda>x. act_return (f x)) s) = map_sum id f (fst (m s))"
  by (simp add: act_defs split: prod.splits sum.splits)

text \<open>An action keeps a state predicate, whether it returns or throws.\<close>

definition keeps :: "('s \<Rightarrow> bool) \<Rightarrow> ('s, 'e, 'a) act \<Rightarrow> bool" where
  "keeps P m \<longleftrightarrow> (\<forall>s. P s \<longrightarrow> P (snd (m s)))"

lemma keeps_wp: "keeps P m \<longleftrightarrow> (\<forall>s. P s \<longrightarrow> wp m (\<lambda>_. P) (\<lambda>_. P) s)"
  by (simp add: keeps_def wp_def split: prod.splits sum.splits) (metis prod.collapse snd_conv)

lemma keepsD: "keeps P m \<Longrightarrow> P s \<Longrightarrow> m s = (r, t) \<Longrightarrow> P t"
  by (metis keeps_def snd_conv)

lemma wp_Inr: "wp m Q E s \<Longrightarrow> m s = (Inr x, t) \<Longrightarrow> Q x t"
  by (simp add: wp_def)

lemma wp_Inl: "wp m Q E s \<Longrightarrow> m s = (Inl e, t) \<Longrightarrow> E e t"
  by (simp add: wp_def)

lemma wpI: "(\<And>x t. m s = (Inr x, t) \<Longrightarrow> Q x t) \<Longrightarrow> (\<And>e t. m s = (Inl e, t) \<Longrightarrow> E e t) \<Longrightarrow> wp m Q E s"
  by (auto simp: wp_def split: prod.splits sum.splits)

lemma keeps_return [keep_rules]: "keeps P (act_return x)"
  and keeps_throw [keep_rules]: "keeps P (act_throw e)"
  and keeps_get [keep_rules]: "keeps P (act_get f)"
  by (simp_all add: keeps_def act_defs)

lemma keeps_modify: "(\<And>s. P s \<Longrightarrow> P (f s)) \<Longrightarrow> keeps P (act_modify f)"
  by (simp add: keeps_def act_modify_def)

lemma keeps_bind [keep_rules]: "keeps P m \<Longrightarrow> (\<And>x. keeps P (f x)) \<Longrightarrow> keeps P (act_bind m f)"
  by (auto simp: keeps_wp wp_bind elim!: wp_mono)

lemma keeps_catch [keep_rules]: "keeps P m \<Longrightarrow> (\<And>e. keeps P (h e)) \<Longrightarrow> keeps P (act_catch m h)"
  by (auto simp: keeps_wp wp_catch elim!: wp_mono)

lemma keeps_if [keep_rules]: "(b \<Longrightarrow> keeps P m) \<Longrightarrow> (\<not> b \<Longrightarrow> keeps P n) \<Longrightarrow> keeps P (if b then m else n)"
  by simp

lemma keeps_case_option [keep_rules]:
  "keeps P m \<Longrightarrow> (\<And>x. keeps P (f x)) \<Longrightarrow> keeps P (case v of None \<Rightarrow> m | Some x \<Rightarrow> f x)"
  by (cases v) simp_all

lemma keeps_case_prod [keep_rules]: "(\<And>x y. keeps P (f x y)) \<Longrightarrow> keeps P (case v of (x, y) \<Rightarrow> f x y)"
  by (cases v) simp

lemma keeps_case_sum [keep_rules]:
  "(\<And>x. keeps P (m x)) \<Longrightarrow> (\<And>e. keeps P (f e)) \<Longrightarrow> keeps P (case v of Inl e \<Rightarrow> f e | Inr x \<Rightarrow> m x)"
  by (cases v) simp_all

lemma keeps_throwIf [keep_rules]: "keeps P (act_throwIf b e)"
  and keeps_lift [keep_rules]: "keeps P (act_lift r)"
  by (simp_all add: keeps_def act_defs)

lemma keeps_then [keep_rules]: "keeps P m \<Longrightarrow> keeps P n \<Longrightarrow> keeps P (act_then m n)"
  unfolding act_then_def by (rule keeps_bind)

text \<open>Sequencing when nothing is claimed of a throw.\<close>

lemma wp_any: "(\<And>x t. Q x t) \<Longrightarrow> (\<And>e t. E e t) \<Longrightarrow> wp m Q E s"
  by (simp add: wp_def split: prod.splits sum.splits)

lemma wp_continue:
  "wp m P (\<lambda>_ _. True) s \<Longrightarrow> (\<And>x t. P x t \<Longrightarrow> wp (f x) Q (\<lambda>_ _. True) t) \<Longrightarrow> wp (act_bind m f) Q (\<lambda>_ _. True) s"
  by (auto simp: wp_bind elim!: wp_mono)

lemma wp_next:
  "wp m (\<lambda>x _. P x) (\<lambda>_ _. True) s \<Longrightarrow> (\<And>x t. P x \<Longrightarrow> wp (f x) Q (\<lambda>_ _. True) t) \<Longrightarrow> wp (act_bind m f) Q (\<lambda>_ _. True) s"
  by (rule wp_continue)

lemma wp_after:
  "wp m (\<lambda>_ _. P) (\<lambda>_ _. True) s \<Longrightarrow> (\<And>t. P \<Longrightarrow> wp n Q (\<lambda>_ _. True) t) \<Longrightarrow> wp (act_then m n) Q (\<lambda>_ _. True) s"
  unfolding act_then_def by (rule wp_continue)

lemma wp_bind_any: "(\<And>x t. wp (f x) Q (\<lambda>_ _. True) t) \<Longrightarrow> wp (act_bind m f) Q (\<lambda>_ _. True) s"
  unfolding wp_bind by (rule wp_any) simp_all

lemma pred_option_code [code]: "pred_option P None = True" "pred_option P (Some x) = P x"
  by simp_all

end
