(* ===== verification/ControlLease.thy ===== *)
theory ControlLease
  imports Prelude
begin

text \<open>
  The human handoff lease of \<open>src/browser/control-lease.ts\<close>: the state of
  \<open>ControlLeaseManager\<close>, each of its methods as an action that may throw, the expiry
  timers it schedules, and the clock and token source it is given.

  Requests are dynamic values, because the methods check them at run time.  The clock is a
  function from the number of readings made so far to what the reading returns, so nothing
  is assumed of it: it may go backwards or return a number that is not finite.  Timers are
  the pending entries (handle, captured generation, delay); a timer event fires one.
\<close>

section \<open>State\<close>

datatype actor = Agent | User | System

datatype controlOwner = OwnerAgent | OwnerUser | OwnerNone

datatype controlState = AGENT_CONTROLLED | USER_CONTROLLED | INACTIVE

datatype handoffState = H_NONE | H_PENDING | H_ACTIVE | H_RELEASED | H_EXPIRED | H_USER_ACTIVE

datatype leaseErrorCode =
  MANUAL_TAKEOVER_ACTIVE | HUMAN_HANDOFF_EXPIRED | INVALID_STATE | INVALID_ARGUMENT

text \<open>Code, message and the \<open>field\<close> of the details.\<close>

datatype leaseError = LeaseError (errCode: leaseErrorCode) (errMessage: string) (errField: "string option")

record leaseRecord =
  generation :: nat
  digest :: "nat list"
  issuedAt :: rat
  expiresAt :: rat
  activatedAt :: "rat option"

text \<open>What one call of the injected token source does.\<close>

datatype tokenDraw = DrawThrows | DrawBytes "nat list" | DrawString string | DrawOther

text \<open>The injected clock and token source, and SHA-256 as a function to bytes.\<close>

record leaseEnv =
  clock :: "nat \<Rightarrow> jsnum"
  randomToken :: "nat \<Rightarrow> rat \<Rightarrow> tokenDraw"
  sha256 :: "string \<Rightarrow> nat list"

record leaseState =
  cfgTtlMs :: rat
  cfgMaxTtlMs :: rat
  cfgTokenBytes :: rat
  control :: controlState
  handoffSt :: handoffState
  owner :: controlOwner
  currentLease :: "leaseRecord option"
  expiryTimer :: "nat option"
  nextGeneration :: nat
  releasedAt :: "rat option"
  expiredAt :: "rat option"
  lastIssuedAt :: "rat option"
  lastActivatedAt :: "rat option"
  lastExpiresAt :: "rat option"
  readings :: nat
  draws :: nat
  pendingTimers :: "(nat \<times> nat \<times> rat) list"
  nextTimer :: nat

type_synonym 'a lease_act = "(leaseState, leaseError, 'a) act"

definition invalidArgument :: "string \<Rightarrow> string \<Rightarrow> leaseError" where
  "invalidArgument message field = LeaseError INVALID_ARGUMENT message (Some field)"

definition invalidState :: "string \<Rightarrow> leaseError" where
  "invalidState message = LeaseError INVALID_STATE message None"

definition expiredError :: leaseError where
  "expiredError = LeaseError HUMAN_HANDOFF_EXPIRED ''The human handoff has expired.'' None"

definition manualTakeoverError :: leaseError where
  "manualTakeoverError = LeaseError MANUAL_TAKEOVER_ACTIVE ''Manual takeover is active.'' None"

section \<open>Validation of arguments\<close>

definition DEFAULT_TTL_MS :: rat where "DEFAULT_TTL_MS = 5 * 60000"
definition DEFAULT_MAX_TTL_MS :: rat where "DEFAULT_MAX_TTL_MS = 60 * 60000"
definition DEFAULT_TOKEN_BYTES :: rat where "DEFAULT_TOKEN_BYTES = 32"
definition MIN_TOKEN_BYTES :: rat where "MIN_TOKEN_BYTES = 16"
definition MAX_TOKEN_BYTES :: rat where "MAX_TOKEN_BYTES = 128"
definition MAX_REASON_LENGTH :: nat where "MAX_REASON_LENGTH = 200"

definition validateDuration :: "jsval \<Rightarrow> string \<Rightarrow> leaseError + rat" where
  "validateDuration v field =
     (if \<not> numberIsInteger v \<or> numOf v \<le> 0 \<or> numOf v > 2147000000
      then Inl (invalidArgument (field @ '' must be a positive bounded integer.'') field)
      else Inr (numOf v))"

definition validateTokenBytes :: "jsval \<Rightarrow> leaseError + rat" where
  "validateTokenBytes v =
     (if \<not> numberIsInteger v \<or> numOf v < MIN_TOKEN_BYTES \<or> numOf v > MAX_TOKEN_BYTES
      then Inl (invalidArgument ''tokenBytes is outside the supported range.'' ''tokenBytes'')
      else Inr (numOf v))"

text \<open>The class \<open>[\u0000-\u0008\u000b\u000c\u000e-\u001f\u007f]\<close>: control characters but tab, LF and CR.\<close>

definition reasonControl :: "char \<Rightarrow> bool" where
  "reasonControl c \<longleftrightarrow> isControl c \<and> charCode c \<noteq> 9 \<and> charCode c \<noteq> 10 \<and> charCode c \<noteq> 13"

fun validateReason :: "jsval \<Rightarrow> leaseError + unit" where
  "validateReason JUndef = Inr ()"
| "validateReason (JStr s) =
     (if length s > MAX_REASON_LENGTH \<or> list_ex reasonControl s
      then Inl (invalidArgument ''reason is invalid.'' ''reason'') else Inr ())"
| "validateReason v = Inl (invalidArgument ''reason is invalid.'' ''reason'')"

fun assertObject :: "jsval \<Rightarrow> string \<Rightarrow> leaseError + unit" where
  "assertObject (JObj ps) field = Inr ()"
| "assertObject v field = Inl (invalidArgument (field @ '' must be an object.'') field)"

definition normalizeActor :: "jsval \<Rightarrow> actor \<Rightarrow> leaseError + actor" where
  "normalizeActor v fallback =
     (if v = JUndef then Inr fallback
      else if v = JStr ''agent'' then Inr Agent
      else if v = JStr ''user'' then Inr User
      else if v = JStr ''system'' then Inr System
      else Inl (invalidArgument ''actor is invalid.'' ''actor''))"

fun normalizeTokenRequest :: "jsval \<Rightarrow> jsval \<Rightarrow> leaseError + jsval" where
  "normalizeTokenRequest (JStr t) positional =
     Inr (JObj [(''leaseToken'', JStr t), (''userConfirmed'', nullish positional (JBool False))])"
| "normalizeTokenRequest (JObj ps) positional =
     (if \<not> hasProp (JObj ps) ''leaseToken''
      then Inl (invalidArgument ''leaseToken is required.'' ''leaseToken'') else Inr (JObj ps))"
| "normalizeTokenRequest (JArr xs) positional =
     Inl (invalidArgument ''leaseToken is required.'' ''leaseToken'')"
| "normalizeTokenRequest v positional =
     Inl (invalidArgument ''A handoff request is required.'' ''request'')"

fun matchesTokenShape :: "jsval \<Rightarrow> bool" where
  "matchesTokenShape (JStr s) = (s \<noteq> [] \<and> \<not> list_ex isControl s)"
| "matchesTokenShape v = False"

definition assertUserConfirmation :: "jsval \<Rightarrow> leaseError + unit" where
  "assertUserConfirmation v =
     (if v \<noteq> JBool True then Inl (invalidArgument ''userConfirmed must be true.'' ''userConfirmed'')
      else Inr ())"

section \<open>Clock, timers and tokens\<close>

definition readNow :: "leaseEnv \<Rightarrow> rat lease_act" where
  "readNow env = (\<lambda>s.
     let t = s\<lparr>readings := Suc (readings s)\<rparr> in
     case clock env (readings s) of
       JFin q \<Rightarrow> (Inr q, t)
     | _ \<Rightarrow> (Inl (invalidArgument ''The injected clock returned an invalid time.'' ''clock''), t))"

definition clearExpiryTimer :: "leaseState \<Rightarrow> leaseState" where
  "clearExpiryTimer s =
     (case expiryTimer s of
        None \<Rightarrow> s
      | Some h \<Rightarrow> s\<lparr>pendingTimers := filter (\<lambda>(h', _). h' \<noteq> h) (pendingTimers s),
                   expiryTimer := None\<rparr>)"

definition scheduleTimer :: "nat \<Rightarrow> rat \<Rightarrow> leaseState \<Rightarrow> leaseState" where
  "scheduleTimer g delay s =
     s\<lparr>pendingTimers := pendingTimers s @ [(nextTimer s, g, delay)],
       expiryTimer := Some (nextTimer s), nextTimer := Suc (nextTimer s)\<rparr>"

definition scheduleExpiry :: "nat \<Rightarrow> rat \<Rightarrow> leaseState \<Rightarrow> leaseState" where
  "scheduleExpiry g ttl s = scheduleTimer g ttl (clearExpiryTimer s)"

definition clearDigest :: "leaseState \<Rightarrow> leaseState" where
  "clearDigest s =
     s\<lparr>currentLease :=
         map_option (\<lambda>l. l\<lparr>digest := replicate (length (digest l)) 0\<rparr>) (currentLease s)\<rparr>"

definition expireLease :: "leaseEnv \<Rightarrow> nat \<Rightarrow> unit lease_act" where
  "expireLease env g = act_bind (act_get id) (\<lambda>s.
     case currentLease s of
       None \<Rightarrow> act_return ()
     | Some lease \<Rightarrow>
         if generation lease \<noteq> g \<or> handoffSt s = H_EXPIRED then act_return ()
         else act_bind (readNow env) (\<lambda>now.
           let remaining = expiresAt lease - now in
           if remaining > 0 then act_modify (scheduleTimer g remaining)
           else
             act_then (act_modify clearExpiryTimer)
            (act_then (act_modify clearDigest)
            (act_then (act_modify (\<lambda>s. s\<lparr>control := INACTIVE, owner := OwnerNone, handoffSt := H_EXPIRED\<rparr>))
            (act_bind (readNow env) (\<lambda>tm.
             act_modify (\<lambda>s. s\<lparr>expiredAt := Some tm, releasedAt := None\<rparr>)))))))"

definition expireIfDue :: "leaseEnv \<Rightarrow> bool lease_act" where
  "expireIfDue env = act_bind (act_get id) (\<lambda>s.
     case currentLease s of
       None \<Rightarrow> act_return False
     | Some lease \<Rightarrow>
         if handoffSt s \<noteq> H_PENDING \<and> handoffSt s \<noteq> H_ACTIVE then act_return False
         else act_bind (readNow env) (\<lambda>now.
           if now < expiresAt lease then act_return False
           else act_then (expireLease env (generation lease)) (act_return True)))"

text \<open>Base64url without padding, as \<open>Buffer.toString('base64url')\<close>.\<close>

definition base64Char :: "nat \<Rightarrow> char" where
  "base64Char n =
     (if n < 26 then char_of (n + 65) else if n < 52 then char_of (n + 71)
      else if n < 62 then char_of (n - 4) else if n = 62 then CHR ''-'' else CHR ''_'')"

fun base64url :: "nat list \<Rightarrow> string" where
  "base64url [] = []"
| "base64url [a] = [base64Char (a div 4), base64Char (a mod 4 * 16)]"
| "base64url [a, b] =
     [base64Char (a div 4), base64Char (a mod 4 * 16 + b div 16), base64Char (b mod 16 * 4)]"
| "base64url (a # b # c # bytes) =
     [base64Char (a div 4), base64Char (a mod 4 * 16 + b div 16),
      base64Char (b mod 16 * 4 + c div 64), base64Char (c mod 64)] @ base64url bytes"

definition issueToken :: "leaseEnv \<Rightarrow> (string \<times> nat list) lease_act" where
  "issueToken env = (\<lambda>s.
     let t = s\<lparr>draws := Suc (draws s)\<rparr>;
         checked = (\<lambda>token.
           if token = [] \<or> list_ex isControl token
           then Inl (invalidArgument ''The token source returned an invalid token.'' ''randomToken'')
           else Inr (token, sha256 env token))
     in (case randomToken env (draws s) (cfgTokenBytes s) of
           DrawThrows \<Rightarrow> Inl (LeaseError INVALID_ARGUMENT ''The injected token source failed.'' (Some ''randomToken''))
         | DrawString token \<Rightarrow> checked token
         | DrawBytes bytes \<Rightarrow> checked (base64url bytes)
         | DrawOther \<Rightarrow> checked [], t))"

definition matchesToken :: "leaseEnv \<Rightarrow> leaseState \<Rightarrow> jsval \<Rightarrow> bool" where
  "matchesToken env s v =
     (case currentLease s of
        None \<Rightarrow> False
      | Some lease \<Rightarrow>
          (case v of
             JStr token \<Rightarrow>
               token \<noteq> [] \<and> length (sha256 env token) = length (digest lease)
               \<and> sha256 env token = digest lease
           | _ \<Rightarrow> False))"

definition assertToken :: "leaseEnv \<Rightarrow> jsval \<Rightarrow> unit lease_act" where
  "assertToken env v =
     act_then (act_throwIf (\<not> matchesTokenShape v) (invalidArgument ''leaseToken is invalid.'' ''leaseToken''))
    (act_bind (act_get id) (\<lambda>s.
       act_throwIf (\<not> matchesToken env s v) (invalidArgument ''leaseToken is invalid.'' ''leaseToken'')))"

section \<open>Status\<close>

text \<open>
  The public status; the aliases \<open>state\<close>, \<open>leaseState\<close>, \<open>phase\<close> and \<open>hasActiveLease\<close>
  of the object repeat the fields \<open>st_control\<close>, \<open>st_handoff\<close> and \<open>st_leaseActive\<close>.
\<close>

record leaseStatus =
  st_control :: controlState
  st_owner :: controlOwner
  st_handoff :: handoffState
  st_hardStop :: bool
  st_agentWriteAllowed :: bool
  st_userControlActive :: bool
  st_leaseActive :: bool
  st_issuedAt :: "rat option"
  st_activatedAt :: "rat option"
  st_expiresAt :: "rat option"
  st_releasedAt :: "rat option"
  st_expiredAt :: "rat option"

definition statusUnsafe :: "leaseState \<Rightarrow> leaseStatus" where
  "statusUnsafe s =
     (let agentWrite = (control s = AGENT_CONTROLLED \<and> handoffSt s = H_NONE \<and> owner s = OwnerAgent);
          userControl = (control s = USER_CONTROLLED \<and> handoffSt s = H_ACTIVE \<and> owner s = OwnerUser);
          leaseActive = (currentLease s \<noteq> None \<and> (handoffSt s = H_PENDING \<or> handoffSt s = H_ACTIVE));
          times = (case currentLease s of
                     Some l \<Rightarrow> (Some (issuedAt l), activatedAt l, Some (expiresAt l))
                   | None \<Rightarrow> if handoffSt s = H_EXPIRED
                             then (lastIssuedAt s, lastActivatedAt s, lastExpiresAt s)
                             else (None, None, None))
      in \<lparr>st_control = control s, st_owner = owner s, st_handoff = handoffSt s,
          st_hardStop = (\<not> agentWrite), st_agentWriteAllowed = agentWrite,
          st_userControlActive = userControl, st_leaseActive = leaseActive,
          st_issuedAt = fst times, st_activatedAt = fst (snd times), st_expiresAt = snd (snd times),
          st_releasedAt = releasedAt s, st_expiredAt = expiredAt s\<rparr>)"

definition status :: "leaseEnv \<Rightarrow> leaseStatus lease_act" where
  "status env = act_then (expireIfDue env) (act_get statusUnsafe)"

section \<open>Operations\<close>

definition newLeaseManager :: "leaseEnv \<Rightarrow> jsval \<Rightarrow> (leaseError + leaseState)" where
  "newLeaseManager env opts =
     (case validateDuration (nullish (getProp opts ''maxTtlMs'') (JNum (JFin DEFAULT_MAX_TTL_MS))) ''maxTtlMs'' of
        Inl e \<Rightarrow> Inl e
      | Inr maxTtl \<Rightarrow>
     (case validateDuration (nullish (getProp opts ''ttlMs'') (JNum (JFin DEFAULT_TTL_MS))) ''ttlMs'' of
        Inl e \<Rightarrow> Inl e
      | Inr ttl \<Rightarrow>
     if ttl > maxTtl then Inl (invalidArgument ''ttlMs must not exceed maxTtlMs'' ''ttlMs'')
     else
     (case validateTokenBytes (nullish (getProp opts ''tokenBytes'') (JNum (JFin DEFAULT_TOKEN_BYTES))) of
        Inl e \<Rightarrow> Inl e
      | Inr bytes \<Rightarrow>
     (case readNow env
         \<lparr>cfgTtlMs = ttl, cfgMaxTtlMs = maxTtl, cfgTokenBytes = bytes,
          control = AGENT_CONTROLLED, handoffSt = H_NONE, owner = OwnerAgent,
          currentLease = None, expiryTimer = None, nextGeneration = 0,
          releasedAt = None, expiredAt = None,
          lastIssuedAt = None, lastActivatedAt = None, lastExpiresAt = None,
          readings = 0, draws = 0, pendingTimers = [], nextTimer = 0\<rparr> of
        (Inl e, s) \<Rightarrow> Inl e
      | (Inr _, s) \<Rightarrow> Inr s))))"

text \<open>An absent request is the default \<open>{}\<close>.\<close>

definition defaulted :: "jsval \<Rightarrow> jsval" where
  "defaulted v = (if v = JUndef then JObj [] else v)"

definition requestHandoff :: "leaseEnv \<Rightarrow> jsval \<Rightarrow> (leaseStatus \<times> string) lease_act" where
  "requestHandoff env v =
     (let opts = defaulted v in
      act_then (act_lift (assertObject opts ''handoff request''))
     (act_then (expireIfDue env)
     (act_bind (act_lift (normalizeActor (getProp opts ''actor'') Agent)) (\<lambda>who.
      act_then (act_throwIf (who \<noteq> Agent) (invalidState ''Only the agent may initiate a handoff.''))
     (act_then (act_lift (validateReason (getProp opts ''reason'')))
     (act_bind (act_get id) (\<lambda>s.
      act_then (act_throwIf (handoffSt s = H_ACTIVE \<or> control s = USER_CONTROLLED) manualTakeoverError)
     (act_then (act_throwIf (handoffSt s = H_PENDING) (invalidState ''A human handoff is already pending.''))
     (act_then (act_throwIf (handoffSt s = H_RELEASED)
                  (invalidState ''The handoff was released; resume agent control first.''))
     (act_bind (act_lift (validateDuration
                  (nullish (getProp opts ''ttlMs'') (JNum (JFin (cfgTtlMs s)))) ''ttlMs'')) (\<lambda>ttl.
      act_then (act_throwIf (ttl > cfgMaxTtlMs s)
                  (invalidArgument ''ttlMs must not exceed maxTtlMs'' ''ttlMs''))
     (act_bind (readNow env) (\<lambda>issued.
      act_bind (issueToken env) (\<lambda>(token, dig).
      act_then (act_modify (\<lambda>s.
        (let g = Suc (nextGeneration s) in
         scheduleExpiry g ttl
          (s\<lparr>nextGeneration := g,
             currentLease := Some \<lparr>generation = g, digest = dig, issuedAt = issued,
                                   expiresAt = issued + ttl, activatedAt = None\<rparr>,
             lastIssuedAt := Some issued, lastActivatedAt := None,
             lastExpiresAt := Some (issued + ttl),
             control := INACTIVE, owner := OwnerNone, handoffSt := H_PENDING,
             releasedAt := None, expiredAt := None\<rparr>))))
      (act_get (\<lambda>s. (statusUnsafe s, token)))))))))))))))))"

definition takeover :: "leaseEnv \<Rightarrow> jsval \<Rightarrow> jsval \<Rightarrow> leaseStatus lease_act" where
  "takeover env arg positional =
     act_bind (act_lift (normalizeTokenRequest arg positional)) (\<lambda>req.
     act_then (expireIfDue env)
    (act_bind (act_lift (normalizeActor (getProp req ''actor'') User)) (\<lambda>who.
     act_then (act_lift (assertUserConfirmation (getProp req ''userConfirmed'')))
    (act_then (act_throwIf (who \<noteq> User) (invalidState ''Only a confirmed user may take over control.''))
    (act_bind (act_get id) (\<lambda>s.
     act_then (act_throwIf (handoffSt s = H_EXPIRED) expiredError)
    (act_then (act_throwIf (handoffSt s = H_NONE) (invalidState ''No human handoff is pending.''))
    (act_then (act_throwIf (handoffSt s = H_RELEASED) (invalidState ''The handoff was already released.''))
    (if handoffSt s = H_ACTIVE then
       (if matchesToken env s (getProp req ''leaseToken'') then act_get statusUnsafe
        else act_throw manualTakeoverError)
     else
       act_then (assertToken env (getProp req ''leaseToken''))
      (act_bind (readNow env) (\<lambda>tm.
       act_bind (act_get id) (\<lambda>s.
       (case currentLease s of
          None \<Rightarrow> act_throw (invalidState ''The handoff lease is unavailable.'')
        | Some lease \<Rightarrow>
            act_then (act_modify (\<lambda>s.
              s\<lparr>currentLease := Some (lease\<lparr>activatedAt := Some tm\<rparr>), lastActivatedAt := Some tm,
                control := USER_CONTROLLED, owner := OwnerUser, handoffSt := H_ACTIVE\<rparr>))
            (act_get statusUnsafe))))))))))))))"

definition release :: "leaseEnv \<Rightarrow> jsval \<Rightarrow> jsval \<Rightarrow> leaseStatus lease_act" where
  "release env arg positional =
     act_bind (act_lift (normalizeTokenRequest arg positional)) (\<lambda>req.
     act_then (expireIfDue env)
    (act_bind (act_lift (normalizeActor (getProp req ''actor'') User)) (\<lambda>who.
     act_then (act_lift (assertUserConfirmation (getProp req ''userConfirmed'')))
    (act_then (act_throwIf (who \<noteq> User) (invalidState ''Only a confirmed user may release control.''))
    (act_bind (act_get id) (\<lambda>s.
     act_then (act_throwIf (handoffSt s = H_EXPIRED) expiredError)
    (act_then (act_throwIf (handoffSt s \<noteq> H_ACTIVE) (invalidState ''User control is not active.''))
    (act_then (assertToken env (getProp req ''leaseToken''))
    (act_then (act_modify clearExpiryTimer)
    (act_then (act_modify clearDigest)
    (act_then (act_modify (\<lambda>s.
        s\<lparr>currentLease := None, control := INACTIVE, owner := OwnerNone, handoffSt := H_RELEASED\<rparr>))
    (act_bind (readNow env) (\<lambda>tm.
     act_then (act_modify (\<lambda>s. s\<lparr>releasedAt := Some tm, expiredAt := None\<rparr>))
    (act_get statusUnsafe))))))))))))))"

definition resume :: "leaseEnv \<Rightarrow> jsval \<Rightarrow> leaseStatus lease_act" where
  "resume env v =
     (let req = defaulted v in
      act_then (act_lift (assertObject req ''resume request''))
     (act_then (expireIfDue env)
     (act_bind (act_lift (normalizeActor (getProp req ''actor'') Agent)) (\<lambda>who.
      act_then (act_throwIf (who \<noteq> Agent) (invalidState ''Only the agent may resume control.''))
     (act_bind (act_get id) (\<lambda>s.
      act_then (act_throwIf (handoffSt s = H_ACTIVE \<or> control s = USER_CONTROLLED) manualTakeoverError)
     (act_then (act_throwIf (handoffSt s = H_EXPIRED) expiredError)
     (act_then (act_throwIf (handoffSt s = H_PENDING)
                  (invalidState ''The user has not released the pending handoff.''))
     (if handoffSt s = H_NONE then
        (if control s = AGENT_CONTROLLED then act_get statusUnsafe
         else act_throw (invalidState ''Agent control is unavailable.''))
      else
        act_then (act_throwIf (handoffSt s \<noteq> H_RELEASED)
                    (invalidState ''The handoff cannot be resumed from its current state.''))
       (act_then (act_modify (\<lambda>s.
           s\<lparr>control := AGENT_CONTROLLED, owner := OwnerAgent, handoffSt := H_NONE,
             releasedAt := None, expiredAt := None\<rparr>))
       (act_get statusUnsafe)))))))))))"

definition recoverExpired :: "leaseEnv \<Rightarrow> jsval \<Rightarrow> leaseStatus lease_act" where
  "recoverExpired env req =
     act_then (act_lift (assertObject req ''expired recovery request''))
    (act_then (expireIfDue env)
    (act_bind (act_lift (normalizeActor (getProp req ''actor'') User)) (\<lambda>who.
     act_then (act_lift (assertUserConfirmation (getProp req ''userConfirmed'')))
    (act_then (act_throwIf (who \<noteq> User)
                 (invalidState ''Only a confirmed user may recover an expired handoff.''))
    (act_bind (act_get id) (\<lambda>s.
     act_then (act_throwIf (handoffSt s \<noteq> H_EXPIRED)
                 (invalidState ''There is no expired handoff to recover.''))
    (act_then (act_modify (\<lambda>s.
        s\<lparr>control := INACTIVE, owner := OwnerNone, handoffSt := H_RELEASED, currentLease := None\<rparr>))
    (act_bind (readNow env) (\<lambda>tm.
     act_then (act_modify (\<lambda>s. s\<lparr>releasedAt := Some tm, expiredAt := None\<rparr>))
    (act_get statusUnsafe))))))))))"

definition assertAgentControl :: "leaseEnv \<Rightarrow> unit lease_act" where
  "assertAgentControl env =
     act_then (expireIfDue env)
    (act_bind (act_get id) (\<lambda>s.
     act_then (act_throwIf (handoffSt s = H_EXPIRED) expiredError)
    (act_then (act_throwIf (handoffSt s = H_ACTIVE \<or> control s = USER_CONTROLLED) manualTakeoverError)
    (act_throwIf (handoffSt s \<noteq> H_NONE \<or> control s \<noteq> AGENT_CONTROLLED)
       (invalidState ''Agent control is not active.'')))))"

definition assertUserControl :: "leaseEnv \<Rightarrow> jsval \<Rightarrow> unit lease_act" where
  "assertUserControl env token =
     act_then (expireIfDue env)
    (act_bind (act_get id) (\<lambda>s.
     act_then (act_throwIf (handoffSt s = H_EXPIRED) expiredError)
    (act_then (act_throwIf (handoffSt s \<noteq> H_ACTIVE \<or> control s \<noteq> USER_CONTROLLED)
                 (invalidState ''User control is not active.''))
    (assertToken env token))))"

definition assertCanAct :: "leaseEnv \<Rightarrow> jsval \<Rightarrow> jsval \<Rightarrow> unit lease_act" where
  "assertCanAct env who token =
     (if who = JStr ''agent'' then assertAgentControl env
      else if who = JStr ''user'' then
        (if token = JUndef then act_throw (invalidArgument ''leaseToken is required for user control.'' ''leaseToken'')
         else assertUserControl env token)
      else act_throw (invalidState ''The system actor cannot perform browser writes through this lease.''))"

definition canAgentAct :: "leaseEnv \<Rightarrow> bool lease_act" where
  "canAgentAct env = act_bind (status env) (\<lambda>st. act_return (st_agentWriteAllowed st))"

definition canUserAct :: "leaseEnv \<Rightarrow> jsval \<Rightarrow> bool lease_act" where
  "canUserAct env token =
     (if token = JUndef then act_return False
      else act_catch (act_then (assertUserControl env token) (act_return True)) (\<lambda>_. act_return False))"

definition isHardStop :: "leaseEnv \<Rightarrow> bool lease_act" where
  "isHardStop env = act_bind (status env) (\<lambda>st. act_return (st_hardStop st))"

definition dispose :: "leaseEnv \<Rightarrow> unit lease_act" where
  "dispose env =
     act_then (act_modify clearExpiryTimer)
    (act_then (act_modify clearDigest)
    (act_then (act_modify (\<lambda>s.
        s\<lparr>currentLease := None, control := INACTIVE, owner := OwnerNone, handoffSt := H_EXPIRED\<rparr>))
    (act_bind (readNow env) (\<lambda>tm. act_modify (\<lambda>s. s\<lparr>expiredAt := Some tm\<rparr>)))))"

text \<open>The callback of a pending timer; it leaves the pending list when it fires.\<close>

definition fireTimer :: "leaseEnv \<Rightarrow> nat \<Rightarrow> unit lease_act" where
  "fireTimer env h = act_bind (act_get id) (\<lambda>s.
     case map_of (pendingTimers s) h of
       None \<Rightarrow> act_return ()
     | Some (g, delay) \<Rightarrow>
         act_then (act_modify (\<lambda>s. s\<lparr>pendingTimers := filter (\<lambda>(h', _). h' \<noteq> h) (pendingTimers s)\<rparr>))
                  (expireLease env g))"

section \<open>Aliases of the operations\<close>

definition getStatus :: "leaseEnv \<Rightarrow> leaseStatus lease_act" where
  "getStatus env = status env"

definition handoff :: "leaseEnv \<Rightarrow> jsval \<Rightarrow> (leaseStatus \<times> string) lease_act" where
  "handoff env v = requestHandoff env (defaulted v)"

definition createHandoff :: "leaseEnv \<Rightarrow> jsval \<Rightarrow> (leaseStatus \<times> string) lease_act" where
  "createHandoff env v = requestHandoff env (defaulted v)"

definition confirmTakeover :: "leaseEnv \<Rightarrow> jsval \<Rightarrow> jsval \<Rightarrow> leaseStatus lease_act" where
  "confirmTakeover env arg positional =
     (case arg of
        JStr t \<Rightarrow> takeover env (JStr t) (nullish positional (JBool False))
      | _ \<Rightarrow> takeover env arg JUndef)"

definition resumeAgentControl :: "leaseEnv \<Rightarrow> jsval \<Rightarrow> leaseStatus lease_act" where
  "resumeAgentControl env v = resume env (defaulted v)"

definition authorizeAgentResume :: "leaseEnv \<Rightarrow> jsval \<Rightarrow> leaseStatus lease_act" where
  "authorizeAgentResume env v = recoverExpired env v"

end
