(* ===== verification/LeaseSafety.thy ===== *)
theory LeaseSafety
  imports ControlLease
begin

text \<open>
  What the handoff lease guarantees over any interleaving of calls, timer callbacks and
  clock readings: the invariant that ties the three control fields and the lease record
  together, the abstract machine of the phases, and the safety of the token and the expiry.
\<close>

named_theorems lease_wp \<open>weakest preconditions of the lease operations\<close>

section \<open>Events and runs\<close>

datatype leaseEvent =
    EvStatus
  | EvHandoff jsval
  | EvTakeover jsval jsval
  | EvRelease jsval jsval
  | EvResume jsval
  | EvRecover jsval
  | EvAssertAgent
  | EvAssertUser jsval
  | EvTimer nat
  | EvDispose

fun leaseStep :: "leaseEnv \<Rightarrow> leaseEvent \<Rightarrow> leaseState \<Rightarrow> leaseState" where
  "leaseStep env EvStatus s = snd (status env s)"
| "leaseStep env (EvHandoff v) s = snd (requestHandoff env v s)"
| "leaseStep env (EvTakeover a p) s = snd (takeover env a p s)"
| "leaseStep env (EvRelease a p) s = snd (release env a p s)"
| "leaseStep env (EvResume v) s = snd (resume env v s)"
| "leaseStep env (EvRecover v) s = snd (recoverExpired env v s)"
| "leaseStep env EvAssertAgent s = snd (assertAgentControl env s)"
| "leaseStep env (EvAssertUser v) s = snd (assertUserControl env v s)"
| "leaseStep env (EvTimer h) s = snd (fireTimer env h s)"
| "leaseStep env EvDispose s = snd (dispose env s)"

definition leaseRun :: "leaseEnv \<Rightarrow> leaseEvent list \<Rightarrow> leaseState \<Rightarrow> leaseState" where
  "leaseRun env es s = fold (leaseStep env) es s"

inductive leaseReach :: "leaseEnv \<Rightarrow> leaseState \<Rightarrow> bool" for env :: leaseEnv where
  start: "newLeaseManager env opts = Inr s \<Longrightarrow> leaseReach env s"
| step: "leaseReach env s \<Longrightarrow> leaseReach env (leaseStep env e s)"

lemma leaseReach_run: "leaseReach env s \<Longrightarrow> leaseReach env (leaseRun env es s)"
  unfolding leaseRun_def
  by (induction es arbitrary: s) (auto intro: leaseReach.step)

section \<open>The invariant\<close>

fun controlOf :: "handoffState \<Rightarrow> controlState" where
  "controlOf H_NONE = AGENT_CONTROLLED"
| "controlOf H_ACTIVE = USER_CONTROLLED"
| "controlOf _ = INACTIVE"

fun ownerOf :: "handoffState \<Rightarrow> controlOwner" where
  "ownerOf H_NONE = OwnerAgent"
| "ownerOf H_ACTIVE = OwnerUser"
| "ownerOf _ = OwnerNone"

text \<open>Which lease record each phase has.\<close>

definition leaseOk :: "nat \<Rightarrow> rat \<Rightarrow> handoffState \<Rightarrow> leaseRecord option \<Rightarrow> bool" where
  "leaseOk gens maxTtl p lo =
     (case lo of
        None \<Rightarrow> p = H_NONE \<or> p = H_RELEASED \<or> p = H_EXPIRED
      | Some l \<Rightarrow>
          generation l = gens \<and> 0 < gens \<and> issuedAt l < expiresAt l \<and> expiresAt l \<le> issuedAt l + maxTtl
          \<and> (p = H_PENDING \<and> activatedAt l = None
             \<or> p = H_ACTIVE \<and> activatedAt l \<noteq> None
             \<or> p = H_EXPIRED \<and> list_all (\<lambda>b. b = 0) (digest l)))"

definition timersOk :: "nat \<Rightarrow> nat \<Rightarrow> (nat \<times> nat \<times> rat) list \<Rightarrow> bool" where
  "timersOk gens nxt ts \<longleftrightarrow>
     distinct (map fst ts) \<and> list_all (\<lambda>(h, g, d). h < nxt \<and> 0 < g \<and> g \<le> gens \<and> 0 < d) ts"

definition leaseInv :: "leaseState \<Rightarrow> bool" where
  "leaseInv s \<longleftrightarrow>
     control s = controlOf (handoffSt s) \<and> owner s = ownerOf (handoffSt s)
     \<and> handoffSt s \<noteq> H_USER_ACTIVE
     \<and> 0 < cfgTtlMs s \<and> cfgTtlMs s \<le> cfgMaxTtlMs s \<and> cfgMaxTtlMs s \<le> 2147000000
     \<and> leaseOk (nextGeneration s) (cfgMaxTtlMs s) (handoffSt s) (currentLease s)
     \<and> timersOk (nextGeneration s) (nextTimer s) (pendingTimers s)"

subsection \<open>Building blocks\<close>

lemma wp_readNow [lease_wp]:
  "wp (readNow env) Q E s =
     (case clock env (readings s) of
        JFin q \<Rightarrow> Q q (s\<lparr>readings := Suc (readings s)\<rparr>)
      | _ \<Rightarrow> E (invalidArgument ''The injected clock returned an invalid time.'' ''clock'')
               (s\<lparr>readings := Suc (readings s)\<rparr>))"
  by (simp add: wp_def readNow_def Let_def split: jsnum.splits)

lemma wp_id: "wp (act_bind (act_get id) f) Q E s = wp (f s) Q E s"
  by (simp add: wp_rules)

lemma timersOk_filter: "timersOk g n ts \<Longrightarrow> timersOk g n (filter P ts)"
  by (auto simp: timersOk_def list_all_iff distinct_map_filter)

lemma timersOk_append:
  "timersOk g n ts \<Longrightarrow> 0 < k \<Longrightarrow> k \<le> g \<Longrightarrow> 0 < d \<Longrightarrow> timersOk g (Suc n) (ts @ [(n, k, d)])"
  by (fastforce simp: timersOk_def list_all_iff)

lemma timersOk_mono: "timersOk g n ts \<Longrightarrow> g \<le> g' \<Longrightarrow> timersOk g' n ts"
  by (fastforce simp: timersOk_def list_all_iff)

text \<open>The helpers that touch only timers and the digest.\<close>

lemma clearExpiryTimer_fields [simp]:
  "control (clearExpiryTimer s) = control s" "handoffSt (clearExpiryTimer s) = handoffSt s"
  "owner (clearExpiryTimer s) = owner s" "currentLease (clearExpiryTimer s) = currentLease s"
  "nextGeneration (clearExpiryTimer s) = nextGeneration s" "readings (clearExpiryTimer s) = readings s"
  "cfgTtlMs (clearExpiryTimer s) = cfgTtlMs s" "cfgMaxTtlMs (clearExpiryTimer s) = cfgMaxTtlMs s"
  "nextTimer (clearExpiryTimer s) = nextTimer s" "draws (clearExpiryTimer s) = draws s"
  by (simp_all add: clearExpiryTimer_def split: option.splits)

lemma clearDigest_fields [simp]:
  "control (clearDigest s) = control s" "handoffSt (clearDigest s) = handoffSt s"
  "owner (clearDigest s) = owner s" "nextGeneration (clearDigest s) = nextGeneration s"
  "readings (clearDigest s) = readings s" "cfgTtlMs (clearDigest s) = cfgTtlMs s"
  "cfgMaxTtlMs (clearDigest s) = cfgMaxTtlMs s" "nextTimer (clearDigest s) = nextTimer s"
  "draws (clearDigest s) = draws s" "pendingTimers (clearDigest s) = pendingTimers s"
  "currentLease (clearDigest s) = None \<longleftrightarrow> currentLease s = None"
  by (simp_all add: clearDigest_def)

lemma clearExpiryTimer_timers:
  "timersOk g n (pendingTimers s) \<Longrightarrow> timersOk g n (pendingTimers (clearExpiryTimer s))"
  by (auto simp: clearExpiryTimer_def timersOk_filter split: option.splits)

lemma leaseInv_clearExpiryTimer: "leaseInv s \<Longrightarrow> leaseInv (clearExpiryTimer s)"
  by (simp add: leaseInv_def clearExpiryTimer_timers)

lemma leaseInv_readings: "leaseInv (s\<lparr>readings := n\<rparr>) = leaseInv s"
  by (simp add: leaseInv_def)

lemma leaseInv_draws: "leaseInv (s\<lparr>draws := n\<rparr>) = leaseInv s"
  by (simp add: leaseInv_def)

lemma leaseInv_times:
  "leaseInv (s\<lparr>releasedAt := a\<rparr>) = leaseInv s" "leaseInv (s\<lparr>expiredAt := b\<rparr>) = leaseInv s"
  by (simp_all add: leaseInv_def)

lemmas leaseInv_frame [simp] = leaseInv_readings leaseInv_draws leaseInv_times

lemma leaseInv_schedule:
  "leaseInv s \<Longrightarrow> 0 < g \<Longrightarrow> g \<le> nextGeneration s \<Longrightarrow> 0 < d \<Longrightarrow> leaseInv (scheduleTimer g d s)"
  by (simp add: leaseInv_def scheduleTimer_def timersOk_append)

text \<open>Clearing the digest and entering \<open>H_EXPIRED\<close>.\<close>

definition expireWrites :: "leaseState \<Rightarrow> leaseState" where
  "expireWrites s =
     (clearDigest (clearExpiryTimer s))\<lparr>control := INACTIVE, owner := OwnerNone, handoffSt := H_EXPIRED\<rparr>"

lemma leaseInv_expireWrites: "leaseInv s \<Longrightarrow> leaseInv (expireWrites s)"
  by (auto simp: leaseInv_def expireWrites_def clearDigest_def leaseOk_def clearExpiryTimer_timers
      list_all_iff split: option.splits)

lemma expireWrites_fields [simp]:
  "handoffSt (expireWrites s) = H_EXPIRED" "readings (expireWrites s) = readings s"
  "control (expireWrites s) = INACTIVE" "owner (expireWrites s) = OwnerNone"
  "nextGeneration (expireWrites s) = nextGeneration s" "cfgTtlMs (expireWrites s) = cfgTtlMs s"
  "cfgMaxTtlMs (expireWrites s) = cfgMaxTtlMs s"
  by (simp_all add: expireWrites_def clearDigest_def)

lemma wp_expireLease [lease_wp]:
  "wp (expireLease env g) Q E s =
     (case currentLease s of
        None \<Rightarrow> Q () s
      | Some lease \<Rightarrow>
          if generation lease \<noteq> g \<or> handoffSt s = H_EXPIRED then Q () s
          else wp (readNow env) (\<lambda>now t.
             if expiresAt lease - now > 0 then Q () (scheduleTimer g (expiresAt lease - now) t)
             else wp (readNow env)
               (\<lambda>tm u. Q () (u\<lparr>expiredAt := Some tm, releasedAt := None\<rparr>)) E (expireWrites t)) E s)"
  by (cases "currentLease s"; cases "clock env (readings s)"; cases "clock env (Suc (readings s))")
    (simp_all add: expireLease_def wp_rules wp_readNow Let_def expireWrites_def if_distribR)

lemma wp_expireIfDue [lease_wp]:
  "wp (expireIfDue env) Q E s =
     (case currentLease s of
        None \<Rightarrow> Q False s
      | Some lease \<Rightarrow>
          if handoffSt s \<noteq> H_PENDING \<and> handoffSt s \<noteq> H_ACTIVE then Q False s
          else wp (readNow env) (\<lambda>now t.
             if now < expiresAt lease then Q False t
             else wp (expireLease env (generation lease)) (\<lambda>_. Q True) E t) E s)"
  by (cases "currentLease s"; cases "clock env (readings s)")
    (simp_all add: expireIfDue_def wp_rules wp_readNow if_distribR)


lemma leaseOk_gen: "leaseInv s \<Longrightarrow> currentLease s = Some l \<Longrightarrow>
    generation l = nextGeneration s \<and> 0 < generation l"
  by (simp add: leaseInv_def leaseOk_def)

lemma keeps_readNow: "(\<And>s n. P (s\<lparr>readings := n\<rparr>) = P s) \<Longrightarrow> keeps P (readNow env)"
  by (simp add: keeps_wp wp_readNow split: jsnum.splits)

lemma keeps_expireLease: "keeps leaseInv (expireLease env g)"
proof -
  have "wp (expireLease env g) (\<lambda>_. leaseInv) (\<lambda>_. leaseInv) s" if "leaseInv s" for s
    using that leaseOk_gen [OF that]
    by (cases "currentLease s"; cases "clock env (readings s)"; cases "clock env (Suc (readings s))")
      (auto simp: wp_expireLease wp_readNow leaseInv_expireWrites intro!: leaseInv_schedule)
  then show ?thesis by (simp add: keeps_wp)
qed

section \<open>The phases\<close>

text \<open>
  The documented machine of the phases, one event at a time: a due lease expires first, then
  the event makes at most one transition of its own.
\<close>

inductive phaseExpiry :: "handoffState \<Rightarrow> handoffState \<Rightarrow> bool" where
  not_due: "phaseExpiry p p"
| due_pending: "phaseExpiry H_PENDING H_EXPIRED"
| due_active: "phaseExpiry H_ACTIVE H_EXPIRED"

text \<open>The event carries the explicit confirmation of the user.\<close>

fun confirmed :: "leaseEvent \<Rightarrow> bool" where
  "confirmed (EvTakeover a p) =
     (case normalizeTokenRequest a p of Inr req \<Rightarrow> getProp req ''userConfirmed'' = JBool True | Inl _ \<Rightarrow> False)"
| "confirmed (EvRelease a p) =
     (case normalizeTokenRequest a p of Inr req \<Rightarrow> getProp req ''userConfirmed'' = JBool True | Inl _ \<Rightarrow> False)"
| "confirmed (EvRecover v) = (getProp v ''userConfirmed'' = JBool True)"
| "confirmed _ = False"

inductive phaseOwn :: "leaseEvent \<Rightarrow> handoffState \<Rightarrow> handoffState \<Rightarrow> bool" where
  refused: "phaseOwn e p p"
| handoff: "phaseOwn (EvHandoff v) H_NONE H_PENDING"
| handoff_again: "phaseOwn (EvHandoff v) H_EXPIRED H_PENDING"
| takeover: "confirmed (EvTakeover a p) \<Longrightarrow> phaseOwn (EvTakeover a p) H_PENDING H_ACTIVE"
| release: "confirmed (EvRelease a p) \<Longrightarrow> phaseOwn (EvRelease a p) H_ACTIVE H_RELEASED"
| resume: "phaseOwn (EvResume v) H_RELEASED H_NONE"
| recover: "confirmed (EvRecover v) \<Longrightarrow> phaseOwn (EvRecover v) H_EXPIRED H_RELEASED"
| dispose: "phaseOwn EvDispose p H_EXPIRED"

definition phaseStep :: "leaseEvent \<Rightarrow> handoffState \<Rightarrow> handoffState \<Rightarrow> bool" where
  "phaseStep e p r \<longleftrightarrow> (\<exists>q. phaseExpiry p q \<and> phaseOwn e q r)"

inductive_simps phaseExpiry_simps:
  "phaseExpiry H_NONE q" "phaseExpiry H_PENDING q" "phaseExpiry H_ACTIVE q"
  "phaseExpiry H_RELEASED q" "phaseExpiry H_EXPIRED q"

lemmas phase_intros = phaseExpiry.intros phaseOwn.intros

lemma phaseStep_stay: "phaseExpiry p q \<Longrightarrow> phaseStep e p q"
  unfolding phaseStep_def by (blast intro: phase_intros)

text \<open>What the lease record keeps: while it is live, its digest.\<close>

definition livePhase :: "handoffState \<Rightarrow> bool" where
  "livePhase p \<longleftrightarrow> p = H_PENDING \<or> p = H_ACTIVE"

definition liveDigest :: "leaseState \<Rightarrow> nat list option" where
  "liveDigest s = (if livePhase (handoffSt s) then map_option digest (currentLease s) else None)"

definition isHandoffEvent :: "leaseEvent \<Rightarrow> bool" where
  "isHandoffEvent e = (case e of EvHandoff v \<Rightarrow> True | _ \<Rightarrow> False)"

definition stepOut :: "leaseEvent \<Rightarrow> leaseState \<Rightarrow> leaseState \<Rightarrow> bool" where
  "stepOut e s t \<longleftrightarrow>
     leaseInv t \<and> phaseStep e (handoffSt s) (handoffSt t)
     \<and> (liveDigest t = liveDigest s \<or> liveDigest t = None \<or> isHandoffEvent e)
     \<and> cfgMaxTtlMs t = cfgMaxTtlMs s \<and> cfgTtlMs t = cfgTtlMs s"

text \<open>What a check for expiry leaves behind.\<close>

definition expiryOut :: "leaseState \<Rightarrow> leaseState \<Rightarrow> bool" where
  "expiryOut s t \<longleftrightarrow>
     leaseInv t \<and> phaseExpiry (handoffSt s) (handoffSt t)
     \<and> (handoffSt t = handoffSt s \<longrightarrow> currentLease t = currentLease s)
     \<and> nextGeneration t = nextGeneration s \<and> cfgMaxTtlMs t = cfgMaxTtlMs s
     \<and> cfgTtlMs t = cfgTtlMs s \<and> draws t = draws s"

lemma expiryOut_refl: "leaseInv s \<Longrightarrow> expiryOut s s"
  by (simp add: expiryOut_def phase_intros)

lemma expiryOut_readings: "expiryOut s t \<Longrightarrow> expiryOut s (t\<lparr>readings := n\<rparr>)"
  by (simp add: expiryOut_def)

lemma expiryOut_schedule:
  "expiryOut s t \<Longrightarrow> 0 < g \<Longrightarrow> g \<le> nextGeneration t \<Longrightarrow> 0 < d \<Longrightarrow> expiryOut s (scheduleTimer g d t)"
  by (simp add: expiryOut_def leaseInv_schedule) (simp add: scheduleTimer_def)

lemma expiryOut_expire:
  "expiryOut s t \<Longrightarrow> handoffSt t = handoffSt s \<Longrightarrow> livePhase (handoffSt s) \<Longrightarrow> expiryOut s (expireWrites t)"
  by (auto simp: expiryOut_def leaseInv_expireWrites livePhase_def phase_intros)
     (simp_all add: expireWrites_def)

lemma expiryOut_times:
  "expiryOut s (t\<lparr>expiredAt := a, releasedAt := b\<rparr>) = expiryOut s t"
  by (simp add: expiryOut_def leaseInv_def)

lemma livePhase_lease: "leaseInv s \<Longrightarrow> currentLease s = Some l \<Longrightarrow> handoffSt s \<noteq> H_EXPIRED \<Longrightarrow>
    livePhase (handoffSt s)"
  by (auto simp: leaseInv_def leaseOk_def livePhase_def)

lemma expireLease_out:
  assumes inv: "leaseInv s"
  shows "wp (expireLease env g) (\<lambda>_. expiryOut s) (\<lambda>_. expiryOut s) s"
proof (cases "currentLease s")
  case None
  then show ?thesis by (simp add: wp_expireLease expiryOut_refl inv)
next
  case (Some l)
  show ?thesis
  proof (cases "generation l \<noteq> g \<or> handoffSt s = H_EXPIRED")
    case True
    then show ?thesis by (simp add: wp_expireLease Some expiryOut_refl inv)
  next
    case False
    have g: "0 < g" "g \<le> nextGeneration s" using leaseOk_gen [OF inv Some] False by auto
    have p: "livePhase (handoffSt s)" using livePhase_lease [OF inv Some] False by auto
    have r: "expiryOut s (s\<lparr>readings := n\<rparr>)" for n
      by (simp add: expiryOut_readings expiryOut_refl inv)
    have w: "expiryOut s (expireWrites (s\<lparr>readings := n\<rparr>))" for n
      by (rule expiryOut_expire [OF r]) (simp_all add: p)
    have d: "expiryOut s (scheduleTimer g d (s\<lparr>readings := n\<rparr>))" if "0 < d" for d n
      using g that by (intro expiryOut_schedule [OF r]) simp_all
    show ?thesis
      by (cases "clock env (readings s)"; cases "clock env (Suc (readings s))")
        (auto simp: wp_expireLease wp_readNow Some False expiryOut_times r w d expiryOut_refl inv
          intro!: expiryOut_readings)
  qed
qed

lemma expireIfDue_out:
  assumes inv: "leaseInv s"
  shows "wp (expireIfDue env) (\<lambda>_. expiryOut s) (\<lambda>_. expiryOut s) s"
proof (cases "currentLease s")
  case None
  then show ?thesis by (simp add: wp_expireIfDue expiryOut_refl inv)
next
  case (Some l)
  have r: "expiryOut s (s\<lparr>readings := n\<rparr>)" for n
    by (simp add: expiryOut_readings expiryOut_refl inv)
  have eq: "expiryOut (s\<lparr>readings := n\<rparr>) t \<Longrightarrow> expiryOut s t" for n t
    by (simp add: expiryOut_def)
  have e: "wp (expireLease env g) (\<lambda>_. expiryOut s) (\<lambda>_. expiryOut s) (s\<lparr>readings := n\<rparr>)" for g n
    by (rule wp_mono [OF expireLease_out]) (auto simp: inv dest: eq)
  show ?thesis
    by (cases "clock env (readings s)") (simp_all add: wp_expireIfDue wp_readNow Some r e expiryOut_refl inv)
qed

lemma wp_expireIfDueI:
  "leaseInv s \<Longrightarrow> (\<And>b t. expiryOut s t \<Longrightarrow> Q b t) \<Longrightarrow> (\<And>e t. expiryOut s t \<Longrightarrow> E e t)
    \<Longrightarrow> wp (expireIfDue env) Q E s"
  by (rule wp_mono [OF expireIfDue_out])

section \<open>Each operation takes one step of the machine\<close>

lemma stepOut_expiry: "expiryOut s t \<Longrightarrow> stepOut e s t"
  by (auto simp: stepOut_def expiryOut_def phaseStep_stay liveDigest_def livePhase_def
      elim: phaseExpiry.cases)

lemma stepOut_refl: "leaseInv s \<Longrightarrow> stepOut e s s"
  by (simp add: stepOut_expiry expiryOut_refl)

text \<open>After the expiry check, a transition of the event itself.\<close>

lemma stepOut_own:
  "expiryOut s t \<Longrightarrow> leaseInv u \<Longrightarrow> phaseOwn e (handoffSt t) (handoffSt u)
    \<Longrightarrow> (liveDigest u = liveDigest t \<or> liveDigest u = None \<or> isHandoffEvent e)
    \<Longrightarrow> cfgMaxTtlMs u = cfgMaxTtlMs t \<Longrightarrow> cfgTtlMs u = cfgTtlMs t \<Longrightarrow> stepOut e s u"
  by (auto simp: stepOut_def expiryOut_def phaseStep_def liveDigest_def livePhase_def
      elim: phaseExpiry.cases)

lemma stepOut_readings: "stepOut e s (t\<lparr>readings := n\<rparr>) = stepOut e s t"
  by (simp add: stepOut_def liveDigest_def)

lemma stepOut_times:
  "stepOut e s (t\<lparr>releasedAt := a\<rparr>) = stepOut e s t"
  "stepOut e s (t\<lparr>expiredAt := b\<rparr>) = stepOut e s t"
  by (simp_all add: stepOut_def liveDigest_def)

lemma wp_expiryStepI:
  "leaseInv s \<Longrightarrow> (\<And>b t. expiryOut s t \<Longrightarrow> \<forall>e. stepOut e s t \<Longrightarrow> Q b t)
    \<Longrightarrow> (\<And>e t. expiryOut s t \<Longrightarrow> \<forall>e. stepOut e s t \<Longrightarrow> E e t) \<Longrightarrow> wp (expireIfDue env) Q E s"
  by (rule wp_expireIfDueI) (simp_all add: stepOut_expiry)

lemma status_out: "leaseInv s \<Longrightarrow> wp (status env) (\<lambda>_. stepOut EvStatus s) (\<lambda>_. stepOut EvStatus s) s"
  by (auto simp: status_def wp_rules intro!: wp_expiryStepI)

lemma assertAgent_out: "leaseInv s \<Longrightarrow>
    wp (assertAgentControl env) (\<lambda>_. stepOut EvAssertAgent s) (\<lambda>_. stepOut EvAssertAgent s) s"
  by (auto simp: assertAgentControl_def wp_rules intro!: wp_expiryStepI)

lemma assertUser_out: "leaseInv s \<Longrightarrow>
    wp (assertUserControl env v) (\<lambda>_. stepOut (EvAssertUser v) s) (\<lambda>_. stepOut (EvAssertUser v) s) s"
  by (auto simp: assertUserControl_def assertToken_def wp_rules intro!: wp_expiryStepI)

lemma phaseOwn_refused_iff [simp]: "phaseOwn e p p"
  by (rule refused)

text \<open>The writes of an accepted operation, after the expiry check.\<close>

lemma resume_writes:
  "expiryOut s t \<Longrightarrow> handoffSt t = H_RELEASED \<Longrightarrow>
    stepOut (EvResume v) s (t\<lparr>control := AGENT_CONTROLLED, owner := OwnerAgent, handoffSt := H_NONE,
      releasedAt := None, expiredAt := None\<rparr>)"
  by (rule stepOut_own, assumption)
      (auto simp: expiryOut_def leaseInv_def leaseOk_def liveDigest_def livePhase_def phase_intros
        clearExpiryTimer_timers split: option.splits)

lemma recover_writes:
  "confirmed (EvRecover v) \<Longrightarrow> expiryOut s t \<Longrightarrow> handoffSt t = H_EXPIRED \<Longrightarrow>
    stepOut (EvRecover v) s (t\<lparr>control := INACTIVE, owner := OwnerNone, handoffSt := H_RELEASED,
      currentLease := None\<rparr>)"
  by (rule stepOut_own, assumption)
      (auto simp: expiryOut_def leaseInv_def leaseOk_def liveDigest_def livePhase_def phase_intros
        clearExpiryTimer_timers split: option.splits)

lemma takeover_writes:
  "confirmed (EvTakeover a p) \<Longrightarrow> expiryOut s t \<Longrightarrow> handoffSt t \<noteq> H_EXPIRED \<Longrightarrow> handoffSt t \<noteq> H_ACTIVE \<Longrightarrow> currentLease t = Some l \<Longrightarrow>
    stepOut (EvTakeover a p) s (t\<lparr>readings := n, currentLease := Some (l\<lparr>activatedAt := Some tm\<rparr>),
      lastActivatedAt := Some tm, control := USER_CONTROLLED, owner := OwnerUser, handoffSt := H_ACTIVE\<rparr>)"
  by (rule stepOut_own, assumption)
      (auto simp: expiryOut_def leaseInv_def leaseOk_def liveDigest_def livePhase_def phase_intros
        clearExpiryTimer_timers split: option.splits)

lemma release_writes:
  "confirmed (EvRelease a p) \<Longrightarrow> expiryOut s t \<Longrightarrow> handoffSt t = H_ACTIVE \<Longrightarrow>
    stepOut (EvRelease a p) s ((clearDigest (clearExpiryTimer t))\<lparr>currentLease := None,
      control := INACTIVE, owner := OwnerNone, handoffSt := H_RELEASED\<rparr>)"
  by (rule stepOut_own, assumption)
      (auto simp: expiryOut_def leaseInv_def leaseOk_def liveDigest_def livePhase_def phase_intros
        clearExpiryTimer_timers split: option.splits)

lemma resume_out: "leaseInv s \<Longrightarrow>
    wp (resume env v) (\<lambda>_. stepOut (EvResume v) s) (\<lambda>_. stepOut (EvResume v) s) s"
  by (auto simp: resume_def Let_def wp_rules stepOut_refl resume_writes split: sum.splits
      intro!: wp_expiryStepI)

lemma recover_out: "leaseInv s \<Longrightarrow>
    wp (recoverExpired env v) (\<lambda>_. stepOut (EvRecover v) s) (\<lambda>_. stepOut (EvRecover v) s) s"
  by (auto simp: recoverExpired_def wp_rules wp_readNow stepOut_refl stepOut_readings stepOut_times
      recover_writes assertUserConfirmation_def split: sum.splits if_splits jsnum.splits intro!: wp_expiryStepI)

lemma dispose_out:
  assumes inv: "leaseInv s"
  shows "wp (dispose env) (\<lambda>_. stepOut EvDispose s) (\<lambda>_. stepOut EvDispose s) s"
proof -
  have "stepOut EvDispose s (clearDigest (clearExpiryTimer s)
      \<lparr>currentLease := None, control := INACTIVE, owner := OwnerNone, handoffSt := H_EXPIRED\<rparr>)"
    using inv
    by (intro stepOut_own [OF expiryOut_refl])
      (auto simp: leaseInv_def leaseOk_def liveDigest_def livePhase_def phase_intros clearExpiryTimer_timers)
  then show ?thesis
    by (auto simp: dispose_def wp_rules wp_readNow stepOut_readings stepOut_times split: jsnum.splits)
qed

lemma fireTimer_out:
  assumes inv: "leaseInv s"
  shows "wp (fireTimer env h) (\<lambda>_. stepOut (EvTimer h) s) (\<lambda>_. stepOut (EvTimer h) s) s"
proof -
  let ?s = "s\<lparr>pendingTimers := filter (\<lambda>(h', _). h' \<noteq> h) (pendingTimers s)\<rparr>"
  have "leaseInv ?s" using inv by (simp add: leaseInv_def timersOk_filter)
  moreover have "expiryOut ?s t \<Longrightarrow> expiryOut s t" for t by (simp add: expiryOut_def)
  ultimately have "wp (expireLease env g) (\<lambda>_. stepOut (EvTimer h) s) (\<lambda>_. stepOut (EvTimer h) s) ?s" for g
    by (blast intro: wp_mono [OF expireLease_out] stepOut_expiry)
  then show ?thesis
    by (auto simp: fireTimer_def wp_rules stepOut_refl inv split: option.splits)
qed

lemma takeover_out: "leaseInv s \<Longrightarrow>
    wp (takeover env a p) (\<lambda>_. stepOut (EvTakeover a p) s) (\<lambda>_. stepOut (EvTakeover a p) s) s"
  by (auto simp: takeover_def assertToken_def wp_rules wp_readNow stepOut_refl stepOut_readings
      takeover_writes assertUserConfirmation_def split: sum.splits if_splits jsnum.splits option.splits intro!: wp_expiryStepI)

lemma release_out: "leaseInv s \<Longrightarrow>
    wp (release env a p) (\<lambda>_. stepOut (EvRelease a p) s) (\<lambda>_. stepOut (EvRelease a p) s) s"
  by (auto simp: release_def assertToken_def wp_rules wp_readNow stepOut_refl stepOut_readings stepOut_times
      release_writes assertUserConfirmation_def split: sum.splits if_splits jsnum.splits option.splits intro!: wp_expiryStepI)

lemma wp_issueToken [lease_wp]:
  "(\<And>tok. tok \<noteq> [] \<Longrightarrow> list_all (\<lambda>c. \<not> isControl c) tok \<Longrightarrow>
        Q (tok, sha256 env tok) (s\<lparr>draws := Suc (draws s)\<rparr>))
    \<Longrightarrow> (\<And>e. E e (s\<lparr>draws := Suc (draws s)\<rparr>)) \<Longrightarrow> wp (issueToken env) Q E s"
  by (auto simp: wp_def issueToken_def Let_def list_ex_iff list_all_iff split: tokenDraw.splits)

lemma validateDuration_range: "validateDuration v f = Inr q \<Longrightarrow> 0 < q \<and> q \<le> 2147000000 \<and> ratIsInt q"
  by (cases v rule: numberIsInteger.cases) (auto simp: validateDuration_def split: if_splits)

text \<open>The writes of a granted handoff.\<close>

definition grantWrites :: "rat \<Rightarrow> rat \<Rightarrow> nat list \<Rightarrow> leaseState \<Rightarrow> leaseState" where
  "grantWrites issued ttl dig s =
     scheduleExpiry (Suc (nextGeneration s)) ttl
       (s\<lparr>nextGeneration := Suc (nextGeneration s),
          currentLease := Some \<lparr>generation = Suc (nextGeneration s), digest = dig, issuedAt = issued,
                                expiresAt = issued + ttl, activatedAt = None\<rparr>,
          lastIssuedAt := Some issued, lastActivatedAt := None, lastExpiresAt := Some (issued + ttl),
          control := INACTIVE, owner := OwnerNone, handoffSt := H_PENDING,
          releasedAt := None, expiredAt := None\<rparr>)"

lemma grantWrites_fields [simp]:
  "handoffSt (grantWrites i ttl d s) = H_PENDING" "cfgMaxTtlMs (grantWrites i ttl d s) = cfgMaxTtlMs s"
  "cfgTtlMs (grantWrites i ttl d s) = cfgTtlMs s"
  "currentLease (grantWrites i ttl d s) =
     Some \<lparr>generation = Suc (nextGeneration s), digest = d, issuedAt = i, expiresAt = i + ttl, activatedAt = None\<rparr>"
  by (simp_all add: grantWrites_def scheduleExpiry_def scheduleTimer_def)

lemma leaseInv_grantWrites:
  assumes "leaseInv s" "0 < ttl" "ttl \<le> cfgMaxTtlMs s"
  shows "leaseInv (grantWrites i ttl d s)"
  unfolding grantWrites_def scheduleExpiry_def
  by (rule leaseInv_schedule, rule leaseInv_clearExpiryTimer)
    (use assms timersOk_mono [of "nextGeneration s" "nextTimer s" "pendingTimers s" "Suc (nextGeneration s)"]
      in \<open>auto simp: leaseInv_def leaseOk_def\<close>)

lemma handoff_writes:
  assumes "expiryOut s t" "handoffSt t \<noteq> H_ACTIVE" "handoffSt t \<noteq> H_PENDING" "handoffSt t \<noteq> H_RELEASED"
    "0 < ttl" "ttl \<le> cfgMaxTtlMs t"
  shows "stepOut (EvHandoff v) s (grantWrites i ttl d (t\<lparr>readings := n, draws := m\<rparr>))"
proof (rule stepOut_own [OF assms(1)])
  have inv: "leaseInv t" using assms(1) by (simp add: expiryOut_def)
  show "leaseInv (grantWrites i ttl d (t\<lparr>readings := n, draws := m\<rparr>))"
    using assms inv by (intro leaseInv_grantWrites) simp_all
  have "handoffSt t = H_NONE \<or> handoffSt t = H_EXPIRED"
    using inv assms(2-4) by (cases "handoffSt t") (auto simp: leaseInv_def)
  then show "phaseOwn (EvHandoff v) (handoffSt t) (handoffSt (grantWrites i ttl d (t\<lparr>readings := n, draws := m\<rparr>)))"
    by (auto intro: phase_intros)
qed (simp_all add: isHandoffEvent_def)

lemma stepOut_draws: "stepOut e s (t\<lparr>draws := n\<rparr>) = stepOut e s t"
  by (simp add: stepOut_def liveDigest_def)

lemma handoff_out: "leaseInv s \<Longrightarrow>
    wp (requestHandoff env v) (\<lambda>_. stepOut (EvHandoff v) s) (\<lambda>_. stepOut (EvHandoff v) s) s"
  by (auto simp: requestHandoff_def Let_def wp_rules wp_readNow stepOut_refl stepOut_readings stepOut_draws
      handoff_writes simp flip: grantWrites_def dest!: validateDuration_range
      split: sum.splits jsnum.splits intro!: wp_expiryStepI wp_issueToken)

lemmas op_out = status_out handoff_out takeover_out release_out resume_out recover_out
  assertAgent_out assertUser_out fireTimer_out dispose_out

lemma wp_snd: "wp m (\<lambda>_. P) (\<lambda>_. P) s \<Longrightarrow> P (snd (m s))"
  by (simp add: wp_def split: prod.splits sum.splits)

lemma leaseStep_out: "leaseInv s \<Longrightarrow> stepOut e s (leaseStep env e s)"
  by (cases e) (simp_all add: op_out [THEN wp_snd])


section \<open>Reachable states\<close>

lemma newLeaseManager_fields:
  assumes "newLeaseManager env opts = Inr s"
  shows "leaseInv s" "handoffSt s = H_NONE" "currentLease s = None" "pendingTimers s = []"
  using assms validateDuration_range
  by (auto simp: newLeaseManager_def readNow_def Let_def leaseInv_def leaseOk_def timersOk_def
      split: sum.splits if_splits jsnum.splits)

lemma reach_inv: "leaseReach env s \<Longrightarrow> leaseInv s"
  by (induction rule: leaseReach.induct)
    (use newLeaseManager_fields(1) leaseStep_out in \<open>auto simp: stepOut_def\<close>)

lemma reach_step: "leaseReach env s \<Longrightarrow> phaseStep e (handoffSt s) (handoffSt (leaseStep env e s))"
  using leaseStep_out [OF reach_inv] by (auto simp: stepOut_def)

inductive_cases phaseOwn_toNone: "phaseOwn e p H_NONE"
inductive_cases phaseOwn_toReleased: "phaseOwn e p H_RELEASED"
inductive_cases phaseExpiry_toNone: "phaseExpiry p H_NONE"
inductive_cases phaseExpiry_toReleased: "phaseExpiry p H_RELEASED"

text \<open>Only a confirmed user leaves the hard stop.\<close>

lemma phaseStep_held:
  "phaseStep e p r \<Longrightarrow> \<not> confirmed e \<Longrightarrow> p \<noteq> H_NONE \<Longrightarrow> p \<noteq> H_RELEASED \<Longrightarrow> r \<noteq> H_NONE \<and> r \<noteq> H_RELEASED"
  by (auto simp: phaseStep_def elim!: phaseOwn_toNone phaseOwn_toReleased phaseExpiry_toNone
      phaseExpiry_toReleased)

lemma run_held:
  "leaseReach env s \<Longrightarrow> list_all (\<lambda>e. \<not> confirmed e) es \<Longrightarrow> handoffSt s \<noteq> H_NONE \<Longrightarrow> handoffSt s \<noteq> H_RELEASED
    \<Longrightarrow> handoffSt (leaseRun env es s) \<noteq> H_NONE \<and> handoffSt (leaseRun env es s) \<noteq> H_RELEASED"
proof (induction es arbitrary: s)
  case Nil
  then show ?case by (simp add: leaseRun_def)
next
  case (Cons e es)
  have "handoffSt (leaseStep env e s) \<noteq> H_NONE \<and> handoffSt (leaseStep env e s) \<noteq> H_RELEASED"
    using phaseStep_held [OF reach_step] Cons.prems by simp
  then show ?case
    using Cons.IH [OF leaseReach.step [OF Cons.prems(1)]] Cons.prems(2) by (simp add: leaseRun_def)
qed

text \<open>Agent control is granted in no phase but \<open>H_NONE\<close>.\<close>

lemma assertAgent_refused:
  assumes "leaseInv s" "handoffSt s \<noteq> H_NONE"
  shows "wp (assertAgentControl env) (\<lambda>_ _. False) (\<lambda>_ _. True) s"
  using assms
  by (auto simp: assertAgentControl_def wp_rules intro!: wp_expireIfDueI)
    (auto simp: expiryOut_def elim: phaseExpiry.cases)

lemma canAgent_refused:
  assumes "leaseInv s" "handoffSt s \<noteq> H_NONE"
  shows "wp (canAgentAct env) (\<lambda>b _. \<not> b) (\<lambda>_ _. True) s"
  using assms
  by (auto simp: canAgentAct_def status_def wp_rules statusUnsafe_def Let_def intro!: wp_expireIfDueI)
    (auto simp: expiryOut_def elim: phaseExpiry.cases)

text \<open>The digest of a live lease is the one the last handoff put there.\<close>

lemma run_digest:
  "leaseReach env s \<Longrightarrow> list_all (\<lambda>e. \<not> isHandoffEvent e) es \<Longrightarrow>
     liveDigest (leaseRun env es s) = liveDigest s \<or> liveDigest (leaseRun env es s) = None"
proof (induction es arbitrary: s)
  case Nil
  then show ?case by (simp add: leaseRun_def)
next
  case (Cons e es)
  have "liveDigest (leaseStep env e s) = liveDigest s \<or> liveDigest (leaseStep env e s) = None"
    using leaseStep_out [OF reach_inv [OF Cons.prems(1)], of e] Cons.prems(2) by (auto simp: stepOut_def)
  then show ?case
    using Cons.IH [OF leaseReach.step [OF Cons.prems(1)], of e] Cons.prems(2)
    by (auto simp: leaseRun_def)
qed

section \<open>Tokens\<close>

text \<open>The token an event presents, and whether the operation accepts the event.\<close>

definition presentedIn :: "jsval \<Rightarrow> jsval \<Rightarrow> jsval" where
  "presentedIn a p = (case normalizeTokenRequest a p of Inr req \<Rightarrow> getProp req ''leaseToken'' | Inl _ \<Rightarrow> JUndef)"

fun presented :: "leaseEvent \<Rightarrow> jsval option" where
  "presented (EvTakeover a p) = Some (presentedIn a p)"
| "presented (EvRelease a p) = Some (presentedIn a p)"
| "presented (EvAssertUser v) = Some v"
| "presented _ = None"

fun accepted :: "leaseEnv \<Rightarrow> leaseEvent \<Rightarrow> leaseState \<Rightarrow> bool" where
  "accepted env (EvTakeover a p) s = (case fst (takeover env a p s) of Inr _ \<Rightarrow> True | Inl _ \<Rightarrow> False)"
| "accepted env (EvRelease a p) s = (case fst (release env a p s) of Inr _ \<Rightarrow> True | Inl _ \<Rightarrow> False)"
| "accepted env (EvAssertUser v) s = (case fst (assertUserControl env v s) of Inr _ \<Rightarrow> True | Inl _ \<Rightarrow> False)"
| "accepted env _ s = False"

lemma wp_accepted: "wp m (\<lambda>_ _. P) (\<lambda>_ _. True) s \<Longrightarrow>
    (case fst (m s) of Inr _ \<Rightarrow> True | Inl _ \<Rightarrow> False) \<Longrightarrow> P"
  by (auto simp: wp_def split: prod.splits sum.splits)

definition tokenFits :: "leaseEnv \<Rightarrow> leaseState \<Rightarrow> jsval \<Rightarrow> bool" where
  "tokenFits env s v \<longleftrightarrow> (case v of JStr tok \<Rightarrow> liveDigest s = Some (sha256 env tok) | _ \<Rightarrow> False)"

lemma matches_fits:
  assumes "expiryOut s t" "matchesToken env t v" "handoffSt t \<noteq> H_EXPIRED"
  shows "tokenFits env s v"
proof -
  obtain l where l: "currentLease t = Some l" "\<exists>tok. v = JStr tok \<and> sha256 env tok = digest l"
    using assms(2) by (auto simp: matchesToken_def split: option.splits jsval.splits)
  have inv: "leaseInv t" and eq: "handoffSt t = handoffSt s" "currentLease s = currentLease t"
    using assms by (auto simp: expiryOut_def elim: phaseExpiry.cases)
  then show ?thesis
    using l livePhase_lease [OF inv l(1) assms(3)] by (auto simp: tokenFits_def liveDigest_def)
qed

lemma takeover_token: "leaseInv s \<Longrightarrow>
    wp (takeover env a p) (\<lambda>_ _. tokenFits env s (presentedIn a p)) (\<lambda>_ _. True) s"
  by (auto simp: takeover_def assertToken_def wp_rules wp_readNow presentedIn_def matches_fits
      split: sum.splits jsnum.splits option.splits intro!: wp_expireIfDueI)

lemma release_token: "leaseInv s \<Longrightarrow>
    wp (release env a p) (\<lambda>_ _. tokenFits env s (presentedIn a p)) (\<lambda>_ _. True) s"
  by (auto simp: release_def assertToken_def wp_rules wp_readNow presentedIn_def matches_fits
      split: sum.splits jsnum.splits option.splits intro!: wp_expireIfDueI)

lemma assertUser_token: "leaseInv s \<Longrightarrow>
    wp (assertUserControl env v) (\<lambda>_ _. tokenFits env s v) (\<lambda>_ _. True) s"
  by (auto simp: assertUserControl_def assertToken_def wp_rules matches_fits
      split: sum.splits jsnum.splits option.splits intro!: wp_expireIfDueI)

lemma accepted_fits: "leaseInv s \<Longrightarrow> accepted env e s \<Longrightarrow> presented e = Some v \<Longrightarrow> tokenFits env s v"
  by (cases e) (auto dest: takeover_token [THEN wp_accepted] release_token [THEN wp_accepted]
      assertUser_token [THEN wp_accepted])

lemma handoff_token: "leaseInv s \<Longrightarrow>
    wp (requestHandoff env v) (\<lambda>(st, tok) t. liveDigest t = Some (sha256 env tok) \<and> st = statusUnsafe t)
      (\<lambda>_ _. True) s"
  by (auto simp: requestHandoff_def Let_def wp_rules wp_readNow liveDigest_def livePhase_def
      simp flip: grantWrites_def
      split: sum.splits jsnum.splits intro!: wp_expireIfDueI wp_issueToken)

section \<open>Expiry\<close>

text \<open>From now on the clock reads at least \<open>d\<close>.\<close>

definition clockFrom :: "leaseEnv \<Rightarrow> nat \<Rightarrow> rat \<Rightarrow> bool" where
  "clockFrom env n d \<longleftrightarrow> (\<forall>k\<ge>n. \<exists>q. clock env k = JFin q \<and> d \<le> q)"

definition leaseDead :: "leaseState \<Rightarrow> bool" where
  "leaseDead s \<longleftrightarrow> handoffSt s = H_EXPIRED
     \<and> (case currentLease s of None \<Rightarrow> True | Some l \<Rightarrow> list_all (\<lambda>b. b = 0) (digest l))"

lemma expireWrites_dead: "leaseDead (expireWrites s)"
  by (auto simp: leaseDead_def expireWrites_def clearDigest_def list_all_iff split: option.splits)

lemma expireIfDue_due:
  assumes "currentLease s = Some l" "livePhase (handoffSt s)" "clockFrom env (readings s) (expiresAt l)"
  shows "wp (expireIfDue env) (\<lambda>_. leaseDead) (\<lambda>_ _. False) s"
proof -
  have c: "\<exists>q. clock env k = JFin q \<and> expiresAt l \<le> q" if "readings s \<le> k" for k
    using assms(3) that by (simp add: clockFrom_def)
  obtain q0 q1 q2 where q: "clock env (readings s) = JFin q0" "expiresAt l \<le> q0"
    "clock env (Suc (readings s)) = JFin q1" "expiresAt l \<le> q1"
    "clock env (Suc (Suc (readings s))) = JFin q2"
    using c [of "readings s"] c [of "Suc (readings s)"] c [of "Suc (Suc (readings s))"] by auto
  have dead: "leaseDead ((expireWrites u)\<lparr>readings := n, expiredAt := a, releasedAt := b\<rparr>)" for u n a b
    using expireWrites_dead [of u] by (simp add: leaseDead_def)
  show ?thesis
    using assms(1,2) q dead
    by (auto simp: wp_expireIfDue wp_expireLease wp_readNow livePhase_def)
qed

text \<open>A lease that is not due is left alone.\<close>

lemma expireIfDue_early:
  assumes "clock env (readings s) = JFin q" "\<And>l. currentLease s = Some l \<Longrightarrow> q < expiresAt l"
  shows "\<exists>n. expireIfDue env s = (Inr False, s\<lparr>readings := n\<rparr>)"
proof (cases "currentLease s")
  case None
  then show ?thesis by (intro exI [of _ "readings s"]) (simp add: expireIfDue_def act_defs)
next
  case (Some l)
  show ?thesis
  proof (cases "livePhase (handoffSt s)")
    case True
    with Some assms show ?thesis
      by (intro exI [of _ "Suc (readings s)"])
        (auto simp: expireIfDue_def act_defs readNow_def livePhase_def)
  next
    case False
    with Some show ?thesis
      by (intro exI [of _ "readings s"]) (simp add: expireIfDue_def act_defs livePhase_def)
  qed
qed

lemma takeover_dead: "normalizeTokenRequest a p = Inr req \<Longrightarrow>
    normalizeActor (getProp req ''actor'') User = Inr User \<Longrightarrow> getProp req ''userConfirmed'' = JBool True \<Longrightarrow>
    wp (expireIfDue env) (\<lambda>_. leaseDead) (\<lambda>_ _. False) s \<Longrightarrow>
    wp (takeover env a p) (\<lambda>_ _. False) (\<lambda>e _. e = expiredError) s"
  by (simp add: takeover_def wp_rules assertUserConfirmation_def)
    (erule wp_mono, auto simp: leaseDead_def wp_rules)

lemma release_dead: "normalizeTokenRequest a p = Inr req \<Longrightarrow>
    normalizeActor (getProp req ''actor'') User = Inr User \<Longrightarrow> getProp req ''userConfirmed'' = JBool True \<Longrightarrow>
    wp (expireIfDue env) (\<lambda>_. leaseDead) (\<lambda>_ _. False) s \<Longrightarrow>
    wp (release env a p) (\<lambda>_ _. False) (\<lambda>e _. e = expiredError) s"
  by (simp add: release_def wp_rules assertUserConfirmation_def)
    (erule wp_mono, auto simp: leaseDead_def wp_rules)

lemma assertUser_dead: "wp (expireIfDue env) (\<lambda>_. leaseDead) (\<lambda>_ _. False) s \<Longrightarrow>
    wp (assertUserControl env v) (\<lambda>_ _. False) (\<lambda>e _. e = expiredError) s"
  by (simp add: assertUserControl_def wp_rules) (erule wp_mono, auto simp: leaseDead_def wp_rules)

lemma wp_throws: "wp m (\<lambda>_ _. False) (\<lambda>e _. e = x) s \<Longrightarrow> fst (m s) = Inl x"
  by (auto simp: wp_def split: prod.splits sum.splits)

section \<open>A complete handoff\<close>

text \<open>Base64url of bytes: never a control character.\<close>

lemma base64Char_ok: "n < 64 \<Longrightarrow> \<not> isControl (base64Char n)"
  by (auto simp: base64Char_def isControl_def) (simp_all add: charCode_def)

lemma base64url_shape:
  "list_all (\<lambda>b. b < 256) bs \<Longrightarrow> bs \<noteq> [] \<Longrightarrow>
     base64url bs \<noteq> [] \<and> list_all (\<lambda>c. \<not> isControl c) (base64url bs)"
proof (induction bs rule: base64url.induct)
  case (4 a b c bytes)
  then show ?case by (cases bytes) (auto intro!: base64Char_ok)
qed (auto intro!: base64Char_ok)

text \<open>One operation each, while the clock has not reached the expiry.\<close>

definition inWindow :: "leaseEnv \<Rightarrow> rat \<Rightarrow> rat \<Rightarrow> bool" where
  "inWindow env a b \<longleftrightarrow> (\<forall>k. \<exists>q. clock env k = JFin q \<and> a \<le> q \<and> q < b)"

lemma inWindow_now: "inWindow env a b \<Longrightarrow> \<exists>q. clock env k = JFin q \<and> a \<le> q"
  by (auto simp: inWindow_def)

lemma inWindow_early:
  assumes "inWindow env a b" "\<And>l. currentLease s = Some l \<Longrightarrow> b \<le> expiresAt l"
    "\<And>n. Q False (s\<lparr>readings := n\<rparr>)"
  shows "wp (expireIfDue env) Q E s"
proof -
  obtain q where q: "clock env (readings s) = JFin q" "q < b" using assms(1) by (auto simp: inWindow_def)
  have "\<exists>n. expireIfDue env s = (Inr False, s\<lparr>readings := n\<rparr>)"
    using assms(2) q(2) by (intro expireIfDue_early [where q = q] q(1)) force
  then show ?thesis using assms(3) by (auto simp: wp_def)
qed

definition waiting :: "leaseEnv \<Rightarrow> handoffState \<Rightarrow> rat \<Rightarrow> string \<Rightarrow> leaseState \<Rightarrow> bool" where
  "waiting env p b tok s \<longleftrightarrow> handoffSt s = p \<and> leaseInv s
     \<and> (\<exists>l. currentLease s = Some l \<and> digest l = sha256 env tok \<and> b \<le> expiresAt l)"

lemma handoff_grants:
  assumes inv: "leaseInv s" and p: "handoffSt s = H_NONE"
    and w: "inWindow env c (c + cfgTtlMs s)" and ttl: "ratIsInt (cfgTtlMs s)"
    and tok: "randomToken env (draws s) (cfgTokenBytes s) = DrawBytes bs" "bs \<noteq> []" "list_all (\<lambda>b. b < 256) bs"
  shows "wp (requestHandoff env (JObj []))
    (\<lambda>(st, tok) t. tok = base64url bs \<and> waiting env H_PENDING (c + cfgTtlMs s) tok t) (\<lambda>_ _. False) s"
proof -
  have lease: "currentLease s \<noteq> Some l" for l using inv p by (auto simp: leaseInv_def leaseOk_def)
  have shape: "base64url bs \<noteq> []" "\<not> list_ex isControl (base64url bs)"
    using base64url_shape [OF tok(3,2)] by (auto simp: list_all_iff list_ex_iff)
  have issue: "wp (issueToken env) Q E t = Q (base64url bs, sha256 env (base64url bs)) (t\<lparr>draws := Suc (draws t)\<rparr>)"
    if "draws t = draws s" "cfgTokenBytes t = cfgTokenBytes s" for Q E t
    using that tok(1) shape by (simp add: wp_def issueToken_def)
  have ttl': "validateDuration (JNum (JFin (cfgTtlMs s))) ''ttlMs'' = Inr (cfgTtlMs s)"
    "0 < cfgTtlMs s" "\<not> cfgMaxTtlMs s < cfgTtlMs s" "cfgTtlMs s \<le> cfgMaxTtlMs s" "control s = AGENT_CONTROLLED"
    using ttl inv p by (auto simp: validateDuration_def leaseInv_def)
  have inv': "leaseInv (grantWrites i (cfgTtlMs s) d (s\<lparr>readings := n, draws := m\<rparr>))" for i d n m
    by (rule leaseInv_grantWrites) (simp_all add: inv ttl')
  have "wp (readNow env) Q E t"
    if "\<And>q. c \<le> q \<Longrightarrow> Q q (t\<lparr>readings := Suc (readings t)\<rparr>)" for t Q E
    using that inWindow_now [OF w, of "readings t"] by (auto simp: wp_readNow)
  then show ?thesis
    by (auto simp: requestHandoff_def Let_def wp_rules defaulted_def normalizeActor_def nullish_def p ttl'
        waiting_def inv' lease issue simp flip: grantWrites_def intro!: inWindow_early [OF w])
qed

lemma window_wp_now:
  assumes "inWindow env a b" "\<And>q. a \<le> q \<Longrightarrow> Q q (t\<lparr>readings := Suc (readings t)\<rparr>)"
  shows "wp (readNow env) Q E t"
  using assms(2) inWindow_now [OF assms(1), of "readings t"] by (auto simp: wp_readNow)

lemma takeover_grants:
  assumes "waiting env H_PENDING b tok s" "inWindow env c b" "tok \<noteq> []" "\<not> list_ex isControl tok"
  shows "wp (takeover env (JStr tok) (JBool True))
    (\<lambda>st t. st_userControlActive st \<and> waiting env H_ACTIVE b tok t) (\<lambda>_ _. False) s"
  using assms(1,3,4)
  by (auto simp: takeover_def assertToken_def wp_rules nullish_def normalizeActor_def assertUserConfirmation_def
      waiting_def matchesToken_def statusUnsafe_def leaseInv_def leaseOk_def
      intro!: inWindow_early [OF assms(2)] window_wp_now [OF assms(2)])

lemma release_grants:
  assumes "waiting env H_ACTIVE b tok s" "inWindow env c b" "tok \<noteq> []" "\<not> list_ex isControl tok"
  shows "wp (release env (JStr tok) (JBool True))
    (\<lambda>st t. st_hardStop st \<and> leaseInv t \<and> handoffSt t = H_RELEASED \<and> currentLease t = None) (\<lambda>_ _. False) s"
  using assms(1,3,4)
  by (auto simp: release_def assertToken_def wp_rules nullish_def normalizeActor_def assertUserConfirmation_def
      waiting_def matchesToken_def statusUnsafe_def leaseInv_def leaseOk_def clearExpiryTimer_timers
      intro!: inWindow_early [OF assms(2)] window_wp_now [OF assms(2)])

lemma resume_grants:
  assumes "leaseInv s" "handoffSt s = H_RELEASED" "currentLease s = None"
  shows "wp (resume env (JObj [])) (\<lambda>st t. st_agentWriteAllowed st \<and> handoffSt t = H_NONE) (\<lambda>_ _. False) s"
  using assms
  by (auto simp: resume_def wp_rules normalizeActor_def defaulted_def wp_expireIfDue statusUnsafe_def Let_def
      leaseInv_def)

section \<open>Properties\<close>

text \<open>A fixed clock, one token and a table for SHA-256, for the witnesses.\<close>

definition demoEnv :: leaseEnv where
  "demoEnv = \<lparr>clock = (\<lambda>_. JFin 1000), randomToken = (\<lambda>_ _. DrawBytes [104, 105]),
     sha256 = (\<lambda>s. map charCode s)\<rparr>"

definition lateEnv :: leaseEnv where
  "lateEnv = demoEnv\<lparr>clock := (\<lambda>n. if n < 3 then JFin 1000 else JFin 301000)\<rparr>"

definition demoStart :: leaseState where
  "demoStart = \<lparr>cfgTtlMs = 300000, cfgMaxTtlMs = 3600000, cfgTokenBytes = 32,
     control = AGENT_CONTROLLED, handoffSt = H_NONE, owner = OwnerAgent,
     currentLease = None, expiryTimer = None, nextGeneration = 0, releasedAt = None, expiredAt = None,
     lastIssuedAt = None, lastActivatedAt = None, lastExpiresAt = None,
     readings = 1, draws = 0, pendingTimers = [], nextTimer = 0\<rparr>"

definition demoPending :: leaseState where
  "demoPending = demoStart\<lparr>readings := Suc 1, draws := 1, nextGeneration := 1, nextTimer := 1,
     currentLease := Some \<lparr>generation = 1, digest = map charCode ''aGk'', issuedAt = 1000,
                           expiresAt = 301000, activatedAt = None\<rparr>,
     expiryTimer := Some 0, pendingTimers := [(0, 1, 300000)],
     lastIssuedAt := Some 1000, lastExpiresAt := Some 301000,
     control := INACTIVE, owner := OwnerNone, handoffSt := H_PENDING\<rparr>"

lemma demo_new: "newLeaseManager demoEnv (JObj []) = Inr demoStart" "newLeaseManager lateEnv (JObj []) = Inr demoStart"
  by (simp_all add: newLeaseManager_def demoEnv_def lateEnv_def demoStart_def validateDuration_def nullish_def
      validateTokenBytes_def readNow_def DEFAULT_MAX_TTL_MS_def DEFAULT_TTL_MS_def DEFAULT_TOKEN_BYTES_def
      MIN_TOKEN_BYTES_def MAX_TOKEN_BYTES_def)

lemma demo_token: "base64url [104, 105] = ''aGk''"
  by code_simp

lemma demo_handoff:
  "requestHandoff demoEnv (JObj []) demoStart = (Inr (statusUnsafe demoPending, ''aGk''), demoPending)"
  "requestHandoff lateEnv (JObj []) demoStart = (Inr (statusUnsafe demoPending, ''aGk''), demoPending)"
  by (simp_all add: requestHandoff_def act_defs demoStart_def demoEnv_def lateEnv_def demoPending_def expireIfDue_def
      readNow_def issueToken_def defaulted_def normalizeActor_def validateDuration_def nullish_def
      demo_token isControl_def charCode_def scheduleExpiry_def scheduleTimer_def clearExpiryTimer_def Let_def
      del: base64url.simps)

lemma demo_reach: "leaseReach demoEnv demoStart" "leaseReach lateEnv demoStart"
  by (rule leaseReach.start [OF demo_new(1)], rule leaseReach.start [OF demo_new(2)])

lemma demo_reach_pending: "leaseReach demoEnv demoPending" "leaseReach lateEnv demoPending"
  using leaseReach.step [OF demo_reach(1), of "EvHandoff (JObj [])"]
    leaseReach.step [OF demo_reach(2), of "EvHandoff (JObj [])"] by (simp_all add: demo_handoff)



text \<open>C3. Every call and every timer callback, accepted or refused, completed or cut short by a throw, moves the
  phase of the handoff as the documented machine allows: a due lease expires, and then the event makes at most its
  own transition, with the confirmation of the user for takeover, release and recovery.\<close>

theorem lease_refines_machine:
  "leaseReach env s \<Longrightarrow> phaseStep e (handoffSt s) (handoffSt (leaseStep env e s))"
  by (rule reach_step)

lemma lease_refines_machine_witness:
  "phaseStep (EvHandoff (JObj [])) H_NONE H_PENDING"
  using lease_refines_machine [OF demo_reach(1), of "EvHandoff (JObj [])"]
  by (simp add: demo_handoff) (simp add: demoStart_def demoPending_def)

text \<open>C1. No agent reclaims control: once a handoff is pending, active or expired, no sequence of events without
  a confirmed takeover, release or recovery ends the hard stop; the agent's write guard keeps throwing.\<close>

theorem agent_cannot_reclaim:
  assumes "leaseReach env s" "handoffSt s \<noteq> H_NONE" "handoffSt s \<noteq> H_RELEASED"
    "list_all (\<lambda>e. \<not> confirmed e) es"
  shows "handoffSt (leaseRun env es s) \<noteq> H_NONE
    \<and> wp (assertAgentControl env) (\<lambda>_ _. False) (\<lambda>_ _. True) (leaseRun env es s)
    \<and> wp (canAgentAct env) (\<lambda>b _. \<not> b) (\<lambda>_ _. True) (leaseRun env es s)"
proof -
  have p: "handoffSt (leaseRun env es s) \<noteq> H_NONE" using run_held [OF assms(1,4,2,3)] by simp
  note inv = reach_inv [OF leaseReach_run [OF assms(1)]]
  show ?thesis using p assertAgent_refused [OF inv p] canAgent_refused [OF inv p] by simp
qed

lemma agent_cannot_reclaim_witness:
  "handoffSt (leaseRun demoEnv [EvResume (JObj []), EvHandoff (JObj []), EvAssertAgent] demoPending) \<noteq> H_NONE"
  using agent_cannot_reclaim [OF demo_reach_pending(1), of "[EvResume (JObj []), EvHandoff (JObj []), EvAssertAgent]"]
  by (simp add: demoPending_def)

text \<open>C2. A takeover, a release or a user write is accepted only with the token of the handoff: after a granted
  handoff, and any events that grant no other one, an accepted event presented a string with the SHA-256 of the
  token that grant returned.\<close>

theorem token_required:
  assumes "leaseReach env s" "requestHandoff env v s = (Inr (st, tok), t)"
    "list_all (\<lambda>e. \<not> isHandoffEvent e) es"
    "presented e = Some w" "accepted env e (leaseRun env es t)"
  shows "\<exists>tok'. w = JStr tok' \<and> sha256 env tok' = sha256 env tok"
proof -
  have t: "leaseReach env t" using leaseReach.step [OF assms(1), of "EvHandoff v"] assms(2) by simp
  have "liveDigest t = Some (sha256 env tok)"
    using wp_Inr [OF handoff_token [OF reach_inv [OF assms(1)]] assms(2)] by simp
  then have "tokenFits env (leaseRun env es t) w \<Longrightarrow> ?thesis"
    using run_digest [OF t assms(3)] by (auto simp: tokenFits_def split: jsval.splits)
  then show ?thesis
    using accepted_fits [OF reach_inv [OF leaseReach_run [OF t]] assms(5,4)] by simp
qed

lemma demo_takeover: "accepted demoEnv (EvTakeover (JStr ''aGk'') (JBool True)) (leaseRun demoEnv [EvStatus] demoPending)"
  by (simp add: leaseRun_def status_def takeover_def act_defs expireIfDue_def readNow_def demoEnv_def demoPending_def
      nullish_def normalizeActor_def assertUserConfirmation_def assertToken_def matchesToken_def
      demoStart_def isControl_def charCode_def)

lemma token_required_witness:
  "\<exists>tok'. JStr ''aGk'' = JStr tok' \<and> sha256 demoEnv tok' = sha256 demoEnv ''aGk''"
  by (rule token_required [OF demo_reach(1) demo_handoff(1), of "[EvStatus]", OF _ _ demo_takeover])
    (simp_all add: isHandoffEvent_def presentedIn_def)

text \<open>Expiry is enforced without the timer: when the clock has reached the deadline of a live lease, a
  well-formed takeover or release, and every user write, throws \<open>HUMAN_HANDOFF_EXPIRED\<close>, and any look at the
  status leaves the handoff expired with its digest zeroed.\<close>

lemma expiry_enforced:
  assumes "leaseReach env s" "currentLease s = Some l" "handoffSt s \<noteq> H_EXPIRED"
    "clockFrom env (readings s) (expiresAt l)"
    "normalizeTokenRequest a p = Inr req" "normalizeActor (getProp req ''actor'') User = Inr User"
    "getProp req ''userConfirmed'' = JBool True"
  shows "fst (takeover env a p s) = Inl expiredError \<and> fst (release env a p s) = Inl expiredError
    \<and> fst (assertUserControl env v s) = Inl expiredError \<and> leaseDead (leaseStep env EvStatus s)"
proof -
  have d: "wp (expireIfDue env) (\<lambda>_. leaseDead) (\<lambda>_ _. False) s"
    using livePhase_lease [OF reach_inv [OF assms(1)] assms(2,3)] by (rule expireIfDue_due [OF assms(2) _ assms(4)])
  have "wp (status env) (\<lambda>_. leaseDead) (\<lambda>_. leaseDead) s"
    unfolding status_def wp_rules by (rule wp_mono [OF d]) (simp_all add: wp_rules)
  then have "leaseDead (leaseStep env EvStatus s)" by (simp add: wp_snd)
  then show ?thesis
    using takeover_dead [OF assms(5-7) d] release_dead [OF assms(5-7) d] assertUser_dead [OF d]
    by (simp add: wp_throws)
qed

definition lateStart :: leaseState where
  "lateStart = leaseStep lateEnv EvStatus demoPending"

lemma lateStart_eq: "lateStart = demoPending\<lparr>readings := Suc 2\<rparr>"
  by (simp add: lateStart_def status_def act_defs expireIfDue_def readNow_def lateEnv_def demoEnv_def
      demoPending_def demoStart_def)

lemma expiry_enforced_witness:
  "fst (takeover lateEnv (JStr ''aGk'') (JBool True) lateStart) = Inl expiredError"
proof -
  let ?l = "\<lparr>generation = 1, digest = map charCode ''aGk'', issuedAt = 1000, expiresAt = 301000, activatedAt = None\<rparr>"
  let ?req = "JObj [(''leaseToken'', JStr ''aGk''), (''userConfirmed'', JBool True)]"
  have "leaseReach lateEnv lateStart"
    unfolding lateStart_def by (rule leaseReach.step [OF demo_reach_pending(2)])
  moreover have "currentLease lateStart = Some ?l" "handoffSt lateStart \<noteq> H_EXPIRED" "readings lateStart = 3"
    by (simp_all add: lateStart_eq demoPending_def)
  moreover have "clockFrom lateEnv 3 301000" by (simp add: clockFrom_def lateEnv_def)
  moreover have "normalizeTokenRequest (JStr ''aGk'') (JBool True) = Inr ?req"
    "normalizeActor (getProp ?req ''actor'') User = Inr User" "getProp ?req ''userConfirmed'' = JBool True"
    by (simp_all add: nullish_def normalizeActor_def)
  ultimately show ?thesis
    using expiry_enforced [of lateEnv lateStart ?l "JStr ''aGk''" "JBool True" ?req] by simp
qed

text \<open>A timer never ends a lease before its deadline: when the host fires the timer of the current lease early,
  the phase, the record and both control fields stay, and a new timer is pending for exactly the time that
  remains; the timer of any other generation changes nothing but its own entry.\<close>

lemma early_timer_rearms:
  assumes "leaseReach env s" "currentLease s = Some l" "handoffSt s \<noteq> H_EXPIRED"
    "map_of (pendingTimers s) h = Some (g, d)"
    "clock env (readings s) = JFin q" "q < expiresAt l"
  shows "let t = leaseStep env (EvTimer h) s in
     handoffSt t = handoffSt s \<and> currentLease t = Some l \<and> control t = control s \<and> owner t = owner s
     \<and> pendingTimers t = filter (\<lambda>(h', _). h' \<noteq> h) (pendingTimers s)
         @ (if g = generation l then [(nextTimer s, g, expiresAt l - q)] else [])"
  using assms
  by (auto simp: fireTimer_def expireLease_def act_defs readNow_def scheduleTimer_def)

lemma early_timer_rearms_witness:
  "pendingTimers (leaseStep demoEnv (EvTimer 0) demoPending) = [(1, 1, 300000)]"
proof -
  let ?l = "\<lparr>generation = 1, digest = map charCode ''aGk'', issuedAt = 1000, expiresAt = 301000, activatedAt = None\<rparr>"
  have "currentLease demoPending = Some ?l" "handoffSt demoPending \<noteq> H_EXPIRED"
    "map_of (pendingTimers demoPending) 0 = Some (1, 300000)" "clock demoEnv (readings demoPending) = JFin 1000"
    by (simp_all add: demoPending_def demoEnv_def)
  then show ?thesis
    using early_timer_rearms [OF demo_reach_pending(1), of ?l 0 1 300000 1000]
    by (simp add: Let_def) (simp add: demoPending_def demoStart_def)
qed

definition handoffCycle :: "leaseEnv \<Rightarrow> (leaseStatus \<times> leaseStatus \<times> leaseStatus) lease_act" where
  "handoffCycle env =
     act_bind (requestHandoff env (JObj [])) (\<lambda>(st, tok).
     act_bind (takeover env (JStr tok) (JBool True)) (\<lambda>st1.
     act_bind (release env (JStr tok) (JBool True)) (\<lambda>st2.
     act_bind (resume env (JObj [])) (\<lambda>st3. act_return (st1, st2, st3)))))"

text \<open>C10. The whole cycle completes: an agent that has control hands off, and while the clock stays before the
  deadline the user takes over and releases with the returned token and the agent resumes, each call succeeding,
  after which the agent may write again.\<close>

theorem handoff_cycle:
  assumes "leaseReach env s" "handoffSt s = H_NONE" "inWindow env c (c + cfgTtlMs s)" "ratIsInt (cfgTtlMs s)"
    "randomToken env (draws s) (cfgTokenBytes s) = DrawBytes bs" "bs \<noteq> []" "list_all (\<lambda>b. b < 256) bs"
  shows "\<exists>st1 st2 st3 t. handoffCycle env s = (Inr (st1, st2, st3), t) \<and> st_userControlActive st1
     \<and> st_hardStop st2 \<and> st_agentWriteAllowed st3 \<and> handoffSt t = H_NONE"
proof -
  note inv = reach_inv [OF assms(1)]
  have shape: "base64url bs \<noteq> []" "\<not> list_ex isControl (base64url bs)"
    using base64url_shape [OF assms(7,6)] by (auto simp: list_all_iff list_ex_iff)
  have "wp (handoffCycle env) (\<lambda>(st1, st2, st3) t. st_userControlActive st1 \<and> st_hardStop st2
      \<and> st_agentWriteAllowed st3 \<and> handoffSt t = H_NONE) (\<lambda>_ _. False) s"
    unfolding handoffCycle_def wp_rules
    by (rule wp_mono [OF handoff_grants [OF inv assms(2-7)]])
      (auto simp: wp_rules intro!: wp_mono [OF takeover_grants [OF _ assms(3) shape]]
        wp_mono [OF release_grants [OF _ assms(3) shape]] wp_mono [OF resume_grants])
  then show ?thesis by (auto simp: wp_def split: prod.splits sum.splits)
qed

lemma handoff_cycle_witness:
  "\<exists>st1 st2 st3 t. handoffCycle demoEnv demoStart = (Inr (st1, st2, st3), t) \<and> st_userControlActive st1
     \<and> st_hardStop st2 \<and> st_agentWriteAllowed st3 \<and> handoffSt t = H_NONE"
  by (rule handoff_cycle [OF demo_reach(1), of 1000 "[104, 105]"])
    (simp_all add: demoStart_def inWindow_def demoEnv_def)

end
