(* ===== verification/Domain.thy ===== *)
theory Domain
  imports Prelude
begin

text \<open>
  The public error vocabulary of \<open>src/domain.ts\<close>: the codes with their default messages,
  categories and retry hints, the construction of a \<open>BrowserToolError\<close> and the redaction
  of its message and details.

  \<open>new URL\<close> is a parameter: a function from a text to the origin and the path it parses
  to, or \<open>None\<close> when the constructor throws.  Details are dynamic values; \<open>Date\<close> and
  \<open>Error\<close> instances are outside the model.
\<close>

section \<open>Codes\<close>

datatype errorCode =
    E_INVALID_INPUT
  | E_INVALID_ARGUMENT
  | E_UNAUTHENTICATED
  | E_PERMISSION_DENIED
  | E_POLICY_DENIED
  | E_DOMAIN_NOT_ALLOWED
  | E_NETWORK_BLOCKED
  | E_PRIVATE_NETWORK_DENIED
  | E_NAVIGATION_DENIED
  | E_NAVIGATION_BLOCKED
  | E_RESOURCE_BLOCKED
  | E_DOWNLOAD_BLOCKED
  | E_RATE_LIMITED
  | E_APPROVAL_REQUIRED
  | E_SESSION_NOT_FOUND
  | E_SESSION_EXPIRED
  | E_WORKSPACE_NOT_FOUND
  | E_INVALID_STATE
  | E_SESSION_BUSY
  | E_SESSION_STATE_CONFLICT
  | E_SESSION_PAUSED_CHALLENGE
  | E_USER_CONTROL_HARD_STOP
  | E_PAGE_REVISION_MISMATCH
  | E_ACTION_ID_CONFLICT
  | E_SNAPSHOT_NOT_FOUND
  | E_SNAPSHOT_EXPIRED
  | E_SNAPSHOT_ID_CONFLICT
  | E_STALE_TARGET
  | E_TARGET_NOT_FOUND
  | E_TARGET_AMBIGUOUS
  | E_TARGET_NOT_ACTIONABLE
  | E_NAVIGATION_TIMEOUT
  | E_ACTION_TIMEOUT
  | E_TIMEOUT
  | E_WORKFLOW_STEP_LIMIT_EXCEEDED
  | E_TAB_LIMIT_EXCEEDED
  | E_CHALLENGE_DETECTED
  | E_CHALLENGE_REQUIRES_HUMAN
  | E_AUTOMATION_PAUSED
  | E_MANUAL_TAKEOVER_ACTIVE
  | E_HUMAN_HANDOFF_EXPIRED
  | E_TAKEOVER_UNAVAILABLE
  | E_RESOURCE_EXHAUSTED
  | E_BROWSER_CRASHED
  | E_BROWSER_LAUNCH_FAILED
  | E_AUDIT_UNAVAILABLE
  | E_INTERNAL
  | E_INTERNAL_ERROR

datatype errorCategory =
  CatINPUT | CatAUTH | CatPOLICY | CatQUOTA | CatSESSION | CatACTION | CatBROWSER | CatSAFETY | CatINTERNAL

primrec codeName :: "errorCode \<Rightarrow> string" where
  "codeName E_INVALID_INPUT = ''INVALID_INPUT''"
| "codeName E_INVALID_ARGUMENT = ''INVALID_ARGUMENT''"
| "codeName E_UNAUTHENTICATED = ''UNAUTHENTICATED''"
| "codeName E_PERMISSION_DENIED = ''PERMISSION_DENIED''"
| "codeName E_POLICY_DENIED = ''POLICY_DENIED''"
| "codeName E_DOMAIN_NOT_ALLOWED = ''DOMAIN_NOT_ALLOWED''"
| "codeName E_NETWORK_BLOCKED = ''NETWORK_BLOCKED''"
| "codeName E_PRIVATE_NETWORK_DENIED = ''PRIVATE_NETWORK_DENIED''"
| "codeName E_NAVIGATION_DENIED = ''NAVIGATION_DENIED''"
| "codeName E_NAVIGATION_BLOCKED = ''NAVIGATION_BLOCKED''"
| "codeName E_RESOURCE_BLOCKED = ''RESOURCE_BLOCKED''"
| "codeName E_DOWNLOAD_BLOCKED = ''DOWNLOAD_BLOCKED''"
| "codeName E_RATE_LIMITED = ''RATE_LIMITED''"
| "codeName E_APPROVAL_REQUIRED = ''APPROVAL_REQUIRED''"
| "codeName E_SESSION_NOT_FOUND = ''SESSION_NOT_FOUND''"
| "codeName E_SESSION_EXPIRED = ''SESSION_EXPIRED''"
| "codeName E_WORKSPACE_NOT_FOUND = ''WORKSPACE_NOT_FOUND''"
| "codeName E_INVALID_STATE = ''INVALID_STATE''"
| "codeName E_SESSION_BUSY = ''SESSION_BUSY''"
| "codeName E_SESSION_STATE_CONFLICT = ''SESSION_STATE_CONFLICT''"
| "codeName E_SESSION_PAUSED_CHALLENGE = ''SESSION_PAUSED_CHALLENGE''"
| "codeName E_USER_CONTROL_HARD_STOP = ''USER_CONTROL_HARD_STOP''"
| "codeName E_PAGE_REVISION_MISMATCH = ''PAGE_REVISION_MISMATCH''"
| "codeName E_ACTION_ID_CONFLICT = ''ACTION_ID_CONFLICT''"
| "codeName E_SNAPSHOT_NOT_FOUND = ''SNAPSHOT_NOT_FOUND''"
| "codeName E_SNAPSHOT_EXPIRED = ''SNAPSHOT_EXPIRED''"
| "codeName E_SNAPSHOT_ID_CONFLICT = ''SNAPSHOT_ID_CONFLICT''"
| "codeName E_STALE_TARGET = ''STALE_TARGET''"
| "codeName E_TARGET_NOT_FOUND = ''TARGET_NOT_FOUND''"
| "codeName E_TARGET_AMBIGUOUS = ''TARGET_AMBIGUOUS''"
| "codeName E_TARGET_NOT_ACTIONABLE = ''TARGET_NOT_ACTIONABLE''"
| "codeName E_NAVIGATION_TIMEOUT = ''NAVIGATION_TIMEOUT''"
| "codeName E_ACTION_TIMEOUT = ''ACTION_TIMEOUT''"
| "codeName E_TIMEOUT = ''TIMEOUT''"
| "codeName E_WORKFLOW_STEP_LIMIT_EXCEEDED = ''WORKFLOW_STEP_LIMIT_EXCEEDED''"
| "codeName E_TAB_LIMIT_EXCEEDED = ''TAB_LIMIT_EXCEEDED''"
| "codeName E_CHALLENGE_DETECTED = ''CHALLENGE_DETECTED''"
| "codeName E_CHALLENGE_REQUIRES_HUMAN = ''CHALLENGE_REQUIRES_HUMAN''"
| "codeName E_AUTOMATION_PAUSED = ''AUTOMATION_PAUSED''"
| "codeName E_MANUAL_TAKEOVER_ACTIVE = ''MANUAL_TAKEOVER_ACTIVE''"
| "codeName E_HUMAN_HANDOFF_EXPIRED = ''HUMAN_HANDOFF_EXPIRED''"
| "codeName E_TAKEOVER_UNAVAILABLE = ''TAKEOVER_UNAVAILABLE''"
| "codeName E_RESOURCE_EXHAUSTED = ''RESOURCE_EXHAUSTED''"
| "codeName E_BROWSER_CRASHED = ''BROWSER_CRASHED''"
| "codeName E_BROWSER_LAUNCH_FAILED = ''BROWSER_LAUNCH_FAILED''"
| "codeName E_AUDIT_UNAVAILABLE = ''AUDIT_UNAVAILABLE''"
| "codeName E_INTERNAL = ''INTERNAL''"
| "codeName E_INTERNAL_ERROR = ''INTERNAL_ERROR''"

definition BROWSER_ERROR_CODES :: "errorCode list" where
  "BROWSER_ERROR_CODES =
    [E_INVALID_INPUT, E_INVALID_ARGUMENT, E_UNAUTHENTICATED, E_PERMISSION_DENIED,
     E_POLICY_DENIED, E_DOMAIN_NOT_ALLOWED, E_NETWORK_BLOCKED, E_PRIVATE_NETWORK_DENIED,
     E_NAVIGATION_DENIED, E_NAVIGATION_BLOCKED, E_RESOURCE_BLOCKED, E_DOWNLOAD_BLOCKED,
     E_RATE_LIMITED, E_APPROVAL_REQUIRED, E_SESSION_NOT_FOUND, E_SESSION_EXPIRED,
     E_WORKSPACE_NOT_FOUND, E_INVALID_STATE, E_SESSION_BUSY, E_SESSION_STATE_CONFLICT,
     E_SESSION_PAUSED_CHALLENGE, E_USER_CONTROL_HARD_STOP, E_PAGE_REVISION_MISMATCH, E_ACTION_ID_CONFLICT,
     E_SNAPSHOT_NOT_FOUND, E_SNAPSHOT_EXPIRED, E_SNAPSHOT_ID_CONFLICT, E_STALE_TARGET,
     E_TARGET_NOT_FOUND, E_TARGET_AMBIGUOUS, E_TARGET_NOT_ACTIONABLE, E_NAVIGATION_TIMEOUT,
     E_ACTION_TIMEOUT, E_TIMEOUT, E_WORKFLOW_STEP_LIMIT_EXCEEDED, E_TAB_LIMIT_EXCEEDED,
     E_CHALLENGE_DETECTED, E_CHALLENGE_REQUIRES_HUMAN, E_AUTOMATION_PAUSED, E_MANUAL_TAKEOVER_ACTIVE,
     E_HUMAN_HANDOFF_EXPIRED, E_TAKEOVER_UNAVAILABLE, E_RESOURCE_EXHAUSTED, E_BROWSER_CRASHED,
     E_BROWSER_LAUNCH_FAILED, E_AUDIT_UNAVAILABLE, E_INTERNAL, E_INTERNAL_ERROR]"

text \<open>\<open>isBrowserToolErrorCode\<close>: membership of a dynamic value in the vocabulary.\<close>

fun isBrowserToolErrorCode :: "jsval \<Rightarrow> bool" where
  "isBrowserToolErrorCode (JStr s) = list_ex (\<lambda>c. codeName c = s) BROWSER_ERROR_CODES"
| "isBrowserToolErrorCode v = False"

primrec defaultMessage :: "errorCode \<Rightarrow> string" where
  "defaultMessage E_INVALID_INPUT = ''The request is invalid.''"
| "defaultMessage E_INVALID_ARGUMENT = ''The request contains an invalid argument.''"
| "defaultMessage E_UNAUTHENTICATED = ''Authentication is required.''"
| "defaultMessage E_PERMISSION_DENIED = ''The requested operation is not permitted.''"
| "defaultMessage E_POLICY_DENIED = ''The requested operation is not permitted by policy.''"
| "defaultMessage E_DOMAIN_NOT_ALLOWED = ''The host is outside the approved domain set.''"
| "defaultMessage E_NETWORK_BLOCKED = ''The network destination was blocked by policy.''"
| "defaultMessage E_PRIVATE_NETWORK_DENIED = ''The destination resolves to a protected network.''"
| "defaultMessage E_NAVIGATION_DENIED = ''Navigation was denied by policy.''"
| "defaultMessage E_NAVIGATION_BLOCKED = ''Navigation was blocked by policy.''"
| "defaultMessage E_RESOURCE_BLOCKED = ''The resource was blocked by policy.''"
| "defaultMessage E_DOWNLOAD_BLOCKED = ''Downloads are blocked by policy.''"
| "defaultMessage E_RATE_LIMITED = ''The request rate is limited.''"
| "defaultMessage E_APPROVAL_REQUIRED = ''This operation requires approval.''"
| "defaultMessage E_SESSION_NOT_FOUND = ''The browser session was not found.''"
| "defaultMessage E_SESSION_EXPIRED = ''The browser session has expired.''"
| "defaultMessage E_WORKSPACE_NOT_FOUND = ''The browser workspace was not found.''"
| "defaultMessage E_INVALID_STATE = ''The session is in an invalid state for this operation.''"
| "defaultMessage E_SESSION_BUSY = ''The browser session is busy.''"
| "defaultMessage E_SESSION_STATE_CONFLICT = ''The session state does not allow this operation.''"
| "defaultMessage E_SESSION_PAUSED_CHALLENGE = ''Automation is paused because a challenge was detected.''"
| "defaultMessage E_USER_CONTROL_HARD_STOP = ''Automation is stopped because the workspace is under user control.''"
| "defaultMessage E_PAGE_REVISION_MISMATCH = ''The page changed; obtain a fresh snapshot.''"
| "defaultMessage E_ACTION_ID_CONFLICT = ''The action id was already used with different input.''"
| "defaultMessage E_SNAPSHOT_NOT_FOUND = ''The base snapshot is not available.''"
| "defaultMessage E_SNAPSHOT_EXPIRED = ''The base snapshot has expired.''"
| "defaultMessage E_SNAPSHOT_ID_CONFLICT = ''The snapshot id conflicts with an existing observation.''"
| "defaultMessage E_STALE_TARGET = ''The target is stale; obtain a fresh snapshot.''"
| "defaultMessage E_TARGET_NOT_FOUND = ''The target was not found.''"
| "defaultMessage E_TARGET_AMBIGUOUS = ''The target is ambiguous.''"
| "defaultMessage E_TARGET_NOT_ACTIONABLE = ''The target is not actionable.''"
| "defaultMessage E_NAVIGATION_TIMEOUT = ''Navigation timed out.''"
| "defaultMessage E_ACTION_TIMEOUT = ''The browser action timed out.''"
| "defaultMessage E_TIMEOUT = ''The operation timed out.''"
| "defaultMessage E_WORKFLOW_STEP_LIMIT_EXCEEDED = ''The workflow contains too many steps.''"
| "defaultMessage E_TAB_LIMIT_EXCEEDED = ''The session has reached its tab limit.''"
| "defaultMessage E_CHALLENGE_DETECTED = ''Automation is paused because a challenge was detected.''"
| "defaultMessage E_CHALLENGE_REQUIRES_HUMAN = ''A human must handle the challenge before automation can continue.''"
| "defaultMessage E_AUTOMATION_PAUSED = ''Automation is paused.''"
| "defaultMessage E_MANUAL_TAKEOVER_ACTIVE = ''Manual takeover is active.''"
| "defaultMessage E_HUMAN_HANDOFF_EXPIRED = ''The human handoff has expired.''"
| "defaultMessage E_TAKEOVER_UNAVAILABLE = ''Manual takeover is unavailable in this browser mode.''"
| "defaultMessage E_RESOURCE_EXHAUSTED = ''A configured resource limit was reached.''"
| "defaultMessage E_BROWSER_CRASHED = ''The browser worker crashed.''"
| "defaultMessage E_BROWSER_LAUNCH_FAILED = ''The browser could not be started.''"
| "defaultMessage E_AUDIT_UNAVAILABLE = ''The audit log is unavailable.''"
| "defaultMessage E_INTERNAL = ''An internal error occurred.''"
| "defaultMessage E_INTERNAL_ERROR = ''An internal error occurred.''"

definition DEFAULT_RETRYABLE :: "errorCode list" where
  "DEFAULT_RETRYABLE =
    [E_RATE_LIMITED, E_RESOURCE_EXHAUSTED, E_SESSION_BUSY, E_SESSION_STATE_CONFLICT,
     E_PAGE_REVISION_MISMATCH, E_STALE_TARGET, E_TARGET_NOT_FOUND, E_TARGET_NOT_ACTIONABLE,
     E_NAVIGATION_TIMEOUT, E_ACTION_TIMEOUT, E_TIMEOUT, E_BROWSER_CRASHED]"

primrec categoryForCode :: "errorCode \<Rightarrow> errorCategory" where
  "categoryForCode E_INVALID_INPUT = CatINPUT"
| "categoryForCode E_INVALID_ARGUMENT = CatINPUT"
| "categoryForCode E_UNAUTHENTICATED = CatAUTH"
| "categoryForCode E_PERMISSION_DENIED = CatAUTH"
| "categoryForCode E_POLICY_DENIED = CatPOLICY"
| "categoryForCode E_DOMAIN_NOT_ALLOWED = CatPOLICY"
| "categoryForCode E_NETWORK_BLOCKED = CatPOLICY"
| "categoryForCode E_PRIVATE_NETWORK_DENIED = CatPOLICY"
| "categoryForCode E_NAVIGATION_DENIED = CatPOLICY"
| "categoryForCode E_NAVIGATION_BLOCKED = CatPOLICY"
| "categoryForCode E_RESOURCE_BLOCKED = CatPOLICY"
| "categoryForCode E_DOWNLOAD_BLOCKED = CatPOLICY"
| "categoryForCode E_RATE_LIMITED = CatQUOTA"
| "categoryForCode E_APPROVAL_REQUIRED = CatPOLICY"
| "categoryForCode E_SESSION_NOT_FOUND = CatSESSION"
| "categoryForCode E_SESSION_EXPIRED = CatSESSION"
| "categoryForCode E_WORKSPACE_NOT_FOUND = CatSESSION"
| "categoryForCode E_INVALID_STATE = CatSESSION"
| "categoryForCode E_SESSION_BUSY = CatSESSION"
| "categoryForCode E_SESSION_STATE_CONFLICT = CatSESSION"
| "categoryForCode E_SESSION_PAUSED_CHALLENGE = CatSESSION"
| "categoryForCode E_USER_CONTROL_HARD_STOP = CatSAFETY"
| "categoryForCode E_PAGE_REVISION_MISMATCH = CatSESSION"
| "categoryForCode E_ACTION_ID_CONFLICT = CatACTION"
| "categoryForCode E_SNAPSHOT_NOT_FOUND = CatACTION"
| "categoryForCode E_SNAPSHOT_EXPIRED = CatACTION"
| "categoryForCode E_SNAPSHOT_ID_CONFLICT = CatACTION"
| "categoryForCode E_STALE_TARGET = CatACTION"
| "categoryForCode E_TARGET_NOT_FOUND = CatACTION"
| "categoryForCode E_TARGET_AMBIGUOUS = CatACTION"
| "categoryForCode E_TARGET_NOT_ACTIONABLE = CatACTION"
| "categoryForCode E_NAVIGATION_TIMEOUT = CatBROWSER"
| "categoryForCode E_ACTION_TIMEOUT = CatBROWSER"
| "categoryForCode E_TIMEOUT = CatBROWSER"
| "categoryForCode E_WORKFLOW_STEP_LIMIT_EXCEEDED = CatQUOTA"
| "categoryForCode E_TAB_LIMIT_EXCEEDED = CatQUOTA"
| "categoryForCode E_CHALLENGE_DETECTED = CatSAFETY"
| "categoryForCode E_CHALLENGE_REQUIRES_HUMAN = CatSAFETY"
| "categoryForCode E_AUTOMATION_PAUSED = CatSAFETY"
| "categoryForCode E_MANUAL_TAKEOVER_ACTIVE = CatSAFETY"
| "categoryForCode E_HUMAN_HANDOFF_EXPIRED = CatSAFETY"
| "categoryForCode E_TAKEOVER_UNAVAILABLE = CatSAFETY"
| "categoryForCode E_RESOURCE_EXHAUSTED = CatQUOTA"
| "categoryForCode E_BROWSER_CRASHED = CatBROWSER"
| "categoryForCode E_BROWSER_LAUNCH_FAILED = CatBROWSER"
| "categoryForCode E_AUDIT_UNAVAILABLE = CatSAFETY"
| "categoryForCode E_INTERNAL = CatINTERNAL"
| "categoryForCode E_INTERNAL_ERROR = CatINTERNAL"

section \<open>Redaction of texts\<close>

definition urlChar :: "char \<Rightarrow> bool" where
  "urlChar c \<longleftrightarrow> \<not> isSpace c \<and> c \<notin> {CHR ''<'', CHR ''>'', CHR 0x22, CHR 0x27, CHR 0x60}"

text \<open>Length of the match of \<open>URL_IN_TEXT\<close> at the start of a text; 0 when there is none.\<close>

definition schemeLength :: "string \<Rightarrow> nat" where
  "schemeLength s =
     (if toLowerCase (take 8 s) = ''https://'' then 8
      else if toLowerCase (take 7 s) = ''http://'' then 7 else 0)"

definition URL_IN_TEXT :: "string \<Rightarrow> nat" where
  "URL_IN_TEXT s =
     (let k = schemeLength s; m = length (takeWhile urlChar (drop k s)) in
      if k = 0 \<or> m = 0 then 0 else k + m)"

definition trailingPunct :: "char \<Rightarrow> bool" where
  "trailingPunct c \<longleftrightarrow> c \<in> set '').,;!?''"

definition redactUrl :: "(string \<Rightarrow> (string \<times> string) option) \<Rightarrow> string \<Rightarrow> string" where
  "redactUrl parse candidate =
     (let core = rev (dropWhile trailingPunct (rev candidate));
          punctuation = rev (takeWhile trailingPunct (rev candidate)) in
      case parse core of
        Some (origin, pathname) \<Rightarrow> origin @ pathname @ punctuation
      | None \<Rightarrow> takeWhile (\<lambda>c. c \<noteq> CHR ''?'' \<and> c \<noteq> CHR ''#'') core @ punctuation)"

lemma lower_take_length: "toLowerCase (take k s) = w \<Longrightarrow> length w = k \<Longrightarrow> k \<le> length s"
  by (auto simp: toLowerCase_def)

lemma URL_IN_TEXT_le: "URL_IN_TEXT s \<le> length s"
proof -
  have "schemeLength s \<le> length s"
    using lower_take_length [of 8 s "''https://''"] lower_take_length [of 7 s "''http://''"]
    by (simp add: schemeLength_def)
  moreover have "length (takeWhile urlChar (drop k s)) \<le> length s - k" for k
    using length_takeWhile_le [of urlChar "drop k s"] by simp
  ultimately show ?thesis
    by (simp add: URL_IN_TEXT_def Let_def) (metis Nat.le_diff_conv2 add.commute)
qed

function removeUrlQuery :: "(string \<Rightarrow> (string \<times> string) option) \<Rightarrow> string \<Rightarrow> string" where
  "removeUrlQuery parse s =
     (case s of
        [] \<Rightarrow> []
      | c # cs \<Rightarrow>
          (let n = URL_IN_TEXT s in
           if n = 0 then c # removeUrlQuery parse cs
           else redactUrl parse (take n s) @ removeUrlQuery parse (drop n s)))"
  by pat_completeness auto
termination
  by (relation "measure (\<lambda>(parse, s). length s)") auto

declare removeUrlQuery.simps [simp del]

section \<open>Redaction of structured details\<close>

definition SENSITIVE_SUBSTRINGS :: "string list" where
  "SENSITIVE_SUBSTRINGS =
    [''password'', ''passwd'', ''passcode'', ''passphrase'', ''pin'', ''secret'',
     ''token'', ''cookie'', ''authorization'', ''authheader'', ''auth-header'', ''auth_header'',
     ''setcookie'', ''set-cookie'', ''set_cookie'', ''credential'', ''privatekey'', ''private-key'',
     ''private_key'', ''apikey'', ''api-key'', ''api_key'', ''accesskey'', ''access-key'',
     ''access_key'', ''refreshtoken'', ''refresh-token'', ''refresh_token'', ''raw'', ''pagecontent'',
     ''page-content'', ''page_content'', ''storage'', ''header'', ''body'', ''payload'',
     ''formdata'', ''form-data'', ''form_data'', ''dom'', ''screenshot'', ''clipboard'',
     ''csrf'', ''jwt'', ''bearer'', ''html'', ''script'', ''query'',
     ''fragment'']"

definition SENSITIVE_EXACT :: "string list" where
  "SENSITIVE_EXACT =
    [''trace'', ''tracedata'', ''tracebody'', ''input'', ''inputtext'', ''inputvalue'',
     ''pagetext'', ''pagehtml'', ''pagecontent'', ''accessiblename'', ''accessibletext'', ''visibletext'',
     ''visiblecontent'', ''innertext'', ''innerhtml'', ''outerhtml'', ''text'', ''textcontent'',
     ''textvalue'', ''value'']"

definition SENSITIVE_KEY :: "string \<Rightarrow> bool" where
  "SENSITIVE_KEY key =
     (list_ex (includesStr (toLowerCase key)) SENSITIVE_SUBSTRINGS
      \<or> List.member SENSITIVE_EXACT (toLowerCase key))"

definition INPUT_KEY :: "string \<Rightarrow> bool" where
  "INPUT_KEY key =
     List.member [''input'', ''inputtext'', ''inputvalue'', ''text'', ''textvalue'', ''typed'',
       ''typedtext'', ''typedvalue'', ''value''] (toLowerCase key)"

text \<open>The \<open>.*\<close> before a suffix does not cross a line terminator.\<close>

definition PATH_KEY :: "string \<Rightarrow> bool" where
  "PATH_KEY key =
     (let k = toLowerCase key in
      List.member [''path'', ''root'', ''cwd'', ''workdir'', ''workingdirectory''] k
      \<or> list_ex (\<lambda>suffix. endsWith k suffix
            \<and> list_all (\<lambda>c. charCode c \<noteq> 10 \<and> charCode c \<noteq> 13) (take (length k - length suffix) k))
          [''path'', ''dir'', ''directory'', ''directoryname'', ''filename''])"

definition TARGET_SAFE_KEYS :: "string list" where
  "TARGET_SAFE_KEYS = [''role'', ''tag'', ''type'', ''inputtype'', ''kind'', ''locatortype'']"

fun sanitizeTargetEntries :: "(string \<times> jsval) list \<Rightarrow> (string, jsval) omap \<Rightarrow> (string, jsval) omap" where
  "sanitizeTargetEntries [] result = result"
| "sanitizeTargetEntries ((key, entry) # rest) result =
     sanitizeTargetEntries rest
       (if \<not> List.member TARGET_SAFE_KEYS (toLowerCase key) then result
        else case entry of
          JStr s \<Rightarrow> oset key (JStr (take 64 (filter (\<lambda>c. \<not> isControl c) s))) result
        | JNum n \<Rightarrow> oset key (JNum n) result
        | JBool b \<Rightarrow> oset key (JBool b) result
        | _ \<Rightarrow> result)"

fun sanitizeTarget :: "jsval \<Rightarrow> jsval" where
  "sanitizeTarget (JObj ps) = JObj (sanitizeTargetEntries ps [])"
| "sanitizeTarget v = JObj []"

fun sanitizeValue :: "(string \<Rightarrow> (string \<times> string) option) \<Rightarrow> jsval \<Rightarrow> nat \<Rightarrow> jsval"
  and sanitizeRecord :: "(string \<Rightarrow> (string \<times> string) option) \<Rightarrow> (string \<times> jsval) list \<Rightarrow> nat
    \<Rightarrow> (string, jsval) omap \<Rightarrow> (string, jsval) omap" where
  "sanitizeValue parse v depth =
     (if depth > 8 then JStr ''[omitted]''
      else case v of
        JStr s \<Rightarrow> JStr (removeUrlQuery parse s)
      | JNum n \<Rightarrow> JNum n
      | JBool b \<Rightarrow> JBool b
      | JNull \<Rightarrow> JNull
      | JArr xs \<Rightarrow> JArr (take 64 (map (\<lambda>entry. sanitizeValue parse entry (Suc depth)) xs))
      | JObj ps \<Rightarrow> JObj (sanitizeRecord parse ps (Suc depth) [])
      | JUndef \<Rightarrow> JStr ''[omitted]'')"
| "sanitizeRecord parse [] depth result = result"
| "sanitizeRecord parse ((key, entry) # rest) depth result =
     (let lowerKey = toLowerCase key in
      sanitizeRecord parse rest depth
       (if lowerKey = ''target'' then oset key (sanitizeTarget entry) result
        else if INPUT_KEY key then
          (case entry of JStr s \<Rightarrow> oset ''inputLength'' (JNum (JFin (of_nat (length s)))) result | _ \<Rightarrow> result)
        else if SENSITIVE_KEY key \<or> PATH_KEY key then result
        else if lowerKey = ''url'' \<or> endsWith lowerKey ''url'' \<or> lowerKey = ''location'' then
          (case entry of JStr s \<Rightarrow> oset key (JStr (removeUrlQuery parse s)) result
           | _ \<Rightarrow> oset key (sanitizeValue parse entry (Suc depth)) result)
        else oset key (sanitizeValue parse entry (Suc depth)) result))"

declare sanitizeValue.simps [simp del]

fun sanitizeErrorDetails :: "(string \<Rightarrow> (string \<times> string) option) \<Rightarrow> jsval \<Rightarrow> (string, jsval) omap" where
  "sanitizeErrorDetails parse (JObj ps) = sanitizeRecord parse ps 0 []"
| "sanitizeErrorDetails parse JUndef = []"
| "sanitizeErrorDetails parse (JStr s) = [(''reason'', JStr (removeUrlQuery parse s))]"
| "sanitizeErrorDetails parse v = [(''reason'', sanitizeValue parse v 0)]"


section \<open>The error object\<close>

primrec categoryName :: "errorCategory \<Rightarrow> string" where
  "categoryName CatINPUT = ''INPUT''"
| "categoryName CatAUTH = ''AUTH''"
| "categoryName CatPOLICY = ''POLICY''"
| "categoryName CatQUOTA = ''QUOTA''"
| "categoryName CatSESSION = ''SESSION''"
| "categoryName CatACTION = ''ACTION''"
| "categoryName CatBROWSER = ''BROWSER''"
| "categoryName CatSAFETY = ''SAFETY''"
| "categoryName CatINTERNAL = ''INTERNAL''"

record browserToolError =
  bteCode :: errorCode
  bteMessage :: string
  bteRetryable :: jsval
  bteCategory :: jsval
  bteDetails :: "(string, jsval) omap"
  bteSessionId :: jsval
  bteSessionState :: jsval
  bteTraceId :: jsval

definition isErrorOptions :: "jsval \<Rightarrow> bool" where
  "isErrorOptions v =
     list_ex (hasProp v) [''details'', ''retryable'', ''category'', ''cause'', ''sessionId'', ''sessionState'', ''traceId'']"

definition normalizedCode :: "jsval \<Rightarrow> errorCode" where
  "normalizedCode v =
     (if isBrowserToolErrorCode v
      then (case find (\<lambda>c. JStr (codeName c) = v) BROWSER_ERROR_CODES of Some c \<Rightarrow> c | None \<Rightarrow> E_INTERNAL_ERROR)
      else E_INTERNAL_ERROR)"

text \<open>The constructor; \<open>JUndef\<close> stands for an argument that is left out.\<close>

definition newBrowserToolError ::
  "(string \<Rightarrow> (string \<times> string) option) \<Rightarrow> jsval \<Rightarrow> jsval \<Rightarrow> jsval \<Rightarrow> jsval \<Rightarrow> browserToolError" where
  "newBrowserToolError parse code messageOrOptions optionsOrDetails legacyRetryable =
     (let c = normalizedCode code;
          thirdArgument = (case messageOrOptions of JStr s \<Rightarrow> optionsOrDetails | _ \<Rightarrow> messageOrOptions);
          options = (if isErrorOptions thirdArgument then thirdArgument else JUndef);
          details = (if isErrorOptions thirdArgument then getProp thirdArgument ''details'' else thirdArgument)
      in \<lparr>bteCode = c,
          bteMessage = removeUrlQuery parse (case messageOrOptions of JStr s \<Rightarrow> s | _ \<Rightarrow> defaultMessage c),
          bteRetryable = nullish legacyRetryable (nullish (getProp options ''retryable'')
                           (JBool (List.member DEFAULT_RETRYABLE c))),
          bteCategory = nullish (getProp options ''category'') (JStr (categoryName (categoryForCode c))),
          bteDetails = sanitizeErrorDetails parse details,
          bteSessionId = getProp options ''sessionId'',
          bteSessionState = getProp options ''sessionState'',
          bteTraceId = getProp options ''traceId''\<rparr>)"

text \<open>\<open>toJSON\<close>, which \<open>serialize\<close> returns; \<open>serializeJson\<close> prints it.\<close>

definition toJSON :: "(string \<Rightarrow> (string \<times> string) option) \<Rightarrow> browserToolError \<Rightarrow> (string, jsval) omap" where
  "toJSON parse e =
     [(''code'', JStr (codeName (bteCode e))),
      (''message'', JStr (removeUrlQuery parse (bteMessage e))),
      (''retryable'', bteRetryable e),
      (''category'', bteCategory e),
      (''details'', JObj (sanitizeErrorDetails parse (JObj (bteDetails e))))]"

section \<open>What redaction guarantees\<close>

text \<open>
  A redacted value: no key of the sensitive, input or path classes at any depth, targets reduced
  to short structural fields, arrays of at most 64 entries.
\<close>

definition targetEntry :: "string \<times> jsval \<Rightarrow> bool" where
  "targetEntry = (\<lambda>(k, x). List.member TARGET_SAFE_KEYS (toLowerCase k)
     \<and> (case x of JStr s \<Rightarrow> length s \<le> 64 \<and> list_all (\<lambda>c. \<not> isControl c) s
         | JNum n \<Rightarrow> True | JBool b \<Rightarrow> True | _ \<Rightarrow> False))"

fun cleanTarget :: "jsval \<Rightarrow> bool" where
  "cleanTarget (JObj ps) = list_all targetEntry ps"
| "cleanTarget v = False"

fun cleanVal :: "jsval \<Rightarrow> bool" where
  "cleanVal (JObj ps) = list_all (\<lambda>(k, v). if toLowerCase k = ''target'' then cleanTarget v
      else \<not> INPUT_KEY k \<and> \<not> SENSITIVE_KEY k \<and> \<not> PATH_KEY k \<and> cleanVal v) ps"
| "cleanVal (JArr xs) = (length xs \<le> 64 \<and> list_all cleanVal xs)"
| "cleanVal JUndef = False"
| "cleanVal v = True"

definition cleanEntry :: "string \<times> jsval \<Rightarrow> bool" where
  "cleanEntry = (\<lambda>(k, v). if toLowerCase k = ''target'' then cleanTarget v
      else \<not> INPUT_KEY k \<and> \<not> SENSITIVE_KEY k \<and> \<not> PATH_KEY k \<and> cleanVal v)"

lemma cleanVal_JObj [simp]: "cleanVal (JObj ps) = list_all cleanEntry ps"
  by (simp add: cleanEntry_def)

declare cleanVal.simps(1) [simp del]

lemma list_all_oset: "list_all P m \<Longrightarrow> P (k, v) \<Longrightarrow> list_all P (oset k v m)"
  by (induction m) auto

lemma take_filter_control: "list_all (\<lambda>c. \<not> isControl c) (take 64 (filter (\<lambda>c. \<not> isControl c) s))"
  by (auto simp: list_all_iff dest: in_set_takeD)

lemma sanitizeTargetEntries_clean:
  "list_all targetEntry result \<Longrightarrow> list_all targetEntry (sanitizeTargetEntries ps result)"
proof (induction ps result rule: sanitizeTargetEntries.induct)
  case (2 key entry rest result)
  from 2(2) have "list_all targetEntry
       (if \<not> List.member TARGET_SAFE_KEYS (toLowerCase key) then result
        else case entry of
          JStr s \<Rightarrow> oset key (JStr (take 64 (filter (\<lambda>c. \<not> isControl c) s))) result
        | JNum n \<Rightarrow> oset key (JNum n) result
        | JBool b \<Rightarrow> oset key (JBool b) result
        | _ \<Rightarrow> result)"
    by (cases entry) (auto intro!: list_all_oset simp: targetEntry_def take_filter_control)
  from 2(1) [OF this] show ?case by simp
qed simp

lemma sanitizeTarget_clean: "cleanTarget (sanitizeTarget v)"
  by (cases v) (simp_all add: sanitizeTargetEntries_clean)

lemma inputLength_clean: "cleanEntry (''inputLength'', JNum n)"
proof -
  have "toLowerCase ''inputLength'' \<noteq> ''target'' \<and> \<not> INPUT_KEY ''inputLength'' \<and> \<not> SENSITIVE_KEY ''inputLength''
    \<and> \<not> PATH_KEY ''inputLength''" by code_simp
  then show ?thesis by (simp add: cleanEntry_def)
qed

lemma clean_take: "(\<And>x. x \<in> set xs \<Longrightarrow> cleanVal (f x)) \<Longrightarrow> list_all cleanVal (take 64 (map f xs))"
  by (auto simp: list_all_iff dest!: in_set_takeD)

lemma sanitizeValue_str: "cleanVal (sanitizeValue parse (JStr s) d)"
  by (simp add: sanitizeValue.simps)

lemma sanitize_clean:
  "cleanVal (sanitizeValue parse v depth)"
  "list_all cleanEntry result \<Longrightarrow> list_all cleanEntry (sanitizeRecord parse ps depth result)"
proof (induction parse v depth and parse ps depth result rule: sanitizeValue_sanitizeRecord.induct)
  case (1 parse v depth)
  show ?case
    using 1 by (subst sanitizeValue.simps, cases v) (simp_all add: clean_take flip: take_map)
next
  case (2 parse depth result)
  then show ?case by simp
next
  case (3 parse key entry rest depth result)
  let ?next = "if toLowerCase key = ''target'' then oset key (sanitizeTarget entry) result
        else if INPUT_KEY key then
          (case entry of JStr s \<Rightarrow> oset ''inputLength'' (JNum (JFin (of_nat (length s)))) result | _ \<Rightarrow> result)
        else if SENSITIVE_KEY key \<or> PATH_KEY key then result
        else if toLowerCase key = ''url'' \<or> endsWith (toLowerCase key) ''url'' \<or> toLowerCase key = ''location'' then
          (case entry of JStr s \<Rightarrow> oset key (JStr (removeUrlQuery parse s)) result
           | _ \<Rightarrow> oset key (sanitizeValue parse entry (Suc depth)) result)
        else oset key (sanitizeValue parse entry (Suc depth)) result"
  have v: "cleanVal (sanitizeValue parse entry (Suc depth))"
    if "toLowerCase key \<noteq> ''target''" "\<not> INPUT_KEY key" "\<not> SENSITIVE_KEY key" "\<not> PATH_KEY key"
  proof -
    show ?thesis using that 3 by (cases entry) (auto simp: sanitizeValue_str)
  qed
  have keep: "list_all cleanEntry (oset k v result)" if "cleanEntry (k, v)" for k v
    using that "3.prems" by (simp add: list_all_oset)
  have il: "list_all cleanEntry (oset ''inputLength'' (JNum n) result)" for n
    by (rule keep) (rule inputLength_clean)
  have t: "list_all cleanEntry (oset key (sanitizeTarget entry) result)" if "toLowerCase key = ''target''"
    using that by (intro keep) (simp add: cleanEntry_def sanitizeTarget_clean)
  have w: "list_all cleanEntry (oset key x result)"
    if "cleanVal x" "toLowerCase key \<noteq> ''target''" "\<not> INPUT_KEY key" "\<not> SENSITIVE_KEY key" "\<not> PATH_KEY key" for x
    using that by (intro keep) (simp add: cleanEntry_def)
  have "list_all cleanEntry ?next"
    using w [OF v] t "3.prems" by (cases entry) (simp_all add: il w)
  from "3.IH"(8) [OF refl this] show ?case by (simp add: Let_def)
qed

lemma sanitizeErrorDetails_clean: "list_all cleanEntry (sanitizeErrorDetails parse v)"
proof -
  have r: "cleanEntry (''reason'', x)" if "cleanVal x" for x
  proof -
    have "toLowerCase ''reason'' \<noteq> ''target'' \<and> \<not> INPUT_KEY ''reason'' \<and> \<not> SENSITIVE_KEY ''reason''
      \<and> \<not> PATH_KEY ''reason''" by code_simp
    then show ?thesis using that by (simp add: cleanEntry_def)
  qed
  show ?thesis
    by (cases v) (simp_all add: sanitize_clean r)
qed

lemma all_codes: "c \<in> set BROWSER_ERROR_CODES"
  by (cases c) (simp_all add: BROWSER_ERROR_CODES_def)

lemma codeName_inj:
  assumes "codeName c = codeName d"
  shows "c = d"
proof -
  have "distinct (map codeName BROWSER_ERROR_CODES)" by code_simp
  then show ?thesis using assms all_codes [of c] all_codes [of d] by (auto simp: distinct_map dest: inj_onD)
qed

text \<open>C37. Whatever details an error is built with, its stored details and the details of its wire form hold no key of
  the sensitive, input or path classes at any depth, reduce targets to short structural fields and cut arrays at 64
  entries.\<close>

theorem error_details_redacted:
  "cleanVal (JObj (bteDetails (newBrowserToolError parse code m opts legacy)))
     \<and> (\<exists>ps. map_of (toJSON parse e) ''details'' = Some (JObj ps) \<and> cleanVal (JObj ps))"
  by (simp add: newBrowserToolError_def Let_def toJSON_def sanitizeErrorDetails_clean
      del: sanitizeErrorDetails.simps)

text \<open>The vocabulary is a faithful encoding: every code prints to a distinct name that reads back as itself, with
  the default retry hint and category of the code, and any other value becomes the internal error, which is not
  retryable.\<close>

lemma error_code_roundtrip:
  "normalizedCode (JStr (codeName c)) = c
     \<and> bteRetryable (newBrowserToolError parse (JStr (codeName c)) JUndef JUndef JUndef)
         = JBool (List.member DEFAULT_RETRYABLE c)
     \<and> (isBrowserToolErrorCode v \<or> normalizedCode v = E_INTERNAL_ERROR \<and> \<not> List.member DEFAULT_RETRYABLE (normalizedCode v))"
proof -
  have "isBrowserToolErrorCode (JStr (codeName c))" using all_codes [of c] by (auto simp: list_ex_iff)
  moreover have "find (\<lambda>d. JStr (codeName d) = JStr (codeName c)) BROWSER_ERROR_CODES = Some c"
  proof -
    obtain d where d: "find (\<lambda>d. JStr (codeName d) = JStr (codeName c)) BROWSER_ERROR_CODES = Some d"
      using all_codes [of c] by (cases "find (\<lambda>d. JStr (codeName d) = JStr (codeName c)) BROWSER_ERROR_CODES")
        (auto simp: find_None_iff)
    then have "codeName d = codeName c" by (auto simp: find_Some_iff)
    then show ?thesis using d codeName_inj by blast
  qed
  ultimately have n: "normalizedCode (JStr (codeName c)) = c" by (simp add: normalizedCode_def)
  moreover have "\<not> List.member DEFAULT_RETRYABLE E_INTERNAL_ERROR" by code_simp
  ultimately show ?thesis
    by (simp add: newBrowserToolError_def Let_def nullish_def isErrorOptions_def)
      (simp add: normalizedCode_def)
qed

end
