(* ===== verification/RuntimeGuard.thy ===== *)
theory RuntimeGuard
  imports Domain
begin

text \<open>
  The process-local guard of \<open>src/mcp/runtime-guard.ts\<close>: the token bucket of
  \<open>McpRuntimeGuard\<close>, the hard stops it enforces on writes and the metrics it records.  Clock
  readings are arguments of the calls; token counts are exact rationals where the code has
  doubles.
\<close>

section \<open>State and operations\<close>

record toolMetrics =
  calls :: nat
  successes :: nat
  failures :: nat
  totalDurationMs :: int
  maxDurationMs :: int

record guardState =
  ratePerSecond :: rat
  capacity :: rat
  tokens :: rat
  lastRefillMs :: rat
  metrics :: "(string, toolMetrics) omap"

text \<open>Code, details and the session state of the error; its retry hint.\<close>

datatype guardError = GuardError (guardCode: errorCode) (guardSessionState: "string option") (guardRetryable: bool)

definition boundedNumber :: "jsval \<Rightarrow> rat \<Rightarrow> rat \<Rightarrow> rat \<Rightarrow> rat" where
  "boundedNumber v minimum maximum fallback =
     (if v = JUndef \<or> \<not> numberIsFinite v then fallback else max minimum (min maximum (numOf v)))"

definition newRuntimeGuard :: "jsval \<Rightarrow> rat \<Rightarrow> guardState" where
  "newRuntimeGuard opts now =
     (let cap = boundedNumber (getProp opts ''burst'') 1 10000 40 in
      \<lparr>ratePerSecond = boundedNumber (getProp opts ''ratePerSecond'') (1/10) 1000 20,
       capacity = cap, tokens = cap, lastRefillMs = now, metrics = []\<rparr>)"

definition beforeCall :: "jsval \<Rightarrow> rat \<Rightarrow> (guardState, guardError, unit) act" where
  "beforeCall context now =
     act_then (act_throwIf (truthy (getProp context ''write'')
                  \<and> getProp context ''sessionState'' = JStr ''PAUSED_CHALLENGE'')
                 (GuardError E_SESSION_PAUSED_CHALLENGE (Some ''PAUSED_CHALLENGE'') False))
    (act_then (act_throwIf (truthy (getProp context ''write'')
                  \<and> getProp context ''controlState'' = JStr ''USER_CONTROLLED'')
                 (GuardError E_USER_CONTROL_HARD_STOP (Some ''USER_CONTROLLED'') False))
    (act_then (act_modify (\<lambda>g.
        let elapsedMs = max 0 (now - lastRefillMs g) in
        g\<lparr>tokens := min (capacity g) (tokens g + elapsedMs * ratePerSecond g / 1000),
          lastRefillMs := now\<rparr>))
    (act_bind (act_get id) (\<lambda>g.
     act_then (act_throwIf (tokens g < 1) (GuardError E_RATE_LIMITED None True))
              (act_modify (\<lambda>g. g\<lparr>tokens := tokens g - 1\<rparr>))))))"

definition recordCall :: "string \<Rightarrow> bool \<Rightarrow> rat \<Rightarrow> guardState \<Rightarrow> guardState" where
  "recordCall toolName success durationMs g =
     (let current = (case oget (metrics g) toolName of
                       Some m \<Rightarrow> m
                     | None \<Rightarrow> \<lparr>calls = 0, successes = 0, failures = 0, totalDurationMs = 0, maxDurationMs = 0\<rparr>);
          boundedDuration = max 0 (min 86400000 \<lfloor>durationMs\<rfloor>);
          next = current\<lparr>calls := calls current + 1,
                   successes := successes current + (if success then 1 else 0),
                   failures := failures current + (if success then 0 else 1),
                   totalDurationMs := totalDurationMs current + boundedDuration,
                   maxDurationMs := max (maxDurationMs current) boundedDuration\<rparr>
      in g\<lparr>metrics := oset toolName next (metrics g)\<rparr>)"

definition guardSnapshot :: "guardState \<Rightarrow> (string \<times> toolMetrics) list" where
  "guardSnapshot g = metrics g"

section \<open>The rate bound\<close>

definition guardOk :: "guardState \<Rightarrow> bool" where
  "guardOk g \<longleftrightarrow> 1/10 \<le> ratePerSecond g \<and> ratePerSecond g \<le> 1000
     \<and> 1 \<le> capacity g \<and> capacity g \<le> 10000 \<and> 0 \<le> tokens g \<and> tokens g \<le> capacity g"

lemma boundedNumber_range:
  "lo \<le> hi \<Longrightarrow> lo \<le> d \<Longrightarrow> d \<le> hi \<Longrightarrow> lo \<le> boundedNumber v lo hi d \<and> boundedNumber v lo hi d \<le> hi"
  by (auto simp: boundedNumber_def max_def min_def)

lemma newRuntimeGuard_ok: "guardOk (newRuntimeGuard opts now)"
  using boundedNumber_range [of "1/10" 1000 20 "getProp opts ''ratePerSecond''"]
    boundedNumber_range [of 1 10000 40 "getProp opts ''burst''"]
  by (simp add: guardOk_def newRuntimeGuard_def Let_def)

lemma beforeCall_wp:
  "wp (beforeCall context now) Q E g =
     (if truthy (getProp context ''write'') \<and> getProp context ''sessionState'' = JStr ''PAUSED_CHALLENGE''
      then E (GuardError E_SESSION_PAUSED_CHALLENGE (Some ''PAUSED_CHALLENGE'') False) g
      else if truthy (getProp context ''write'') \<and> getProp context ''controlState'' = JStr ''USER_CONTROLLED''
      then E (GuardError E_USER_CONTROL_HARD_STOP (Some ''USER_CONTROLLED'') False) g
      else (let t = min (capacity g) (tokens g + max 0 (now - lastRefillMs g) * ratePerSecond g / 1000);
                g' = g\<lparr>tokens := t, lastRefillMs := now\<rparr> in
            if t < 1 then E (GuardError E_RATE_LIMITED None True) g' else Q () (g'\<lparr>tokens := t - 1\<rparr>)))"
  by (simp add: beforeCall_def wp_rules Let_def)

text \<open>A sequence of calls with their clock readings, and how many were admitted.\<close>

fun callRun :: "(jsval \<times> rat) list \<Rightarrow> guardState \<Rightarrow> nat \<times> guardState" where
  "callRun [] g = (0, g)"
| "callRun ((context, now) # rest) g =
     (case beforeCall context now g of
        (r, g') \<Rightarrow> (case callRun rest g' of
          (n, g'') \<Rightarrow> ((case r of Inr _ \<Rightarrow> Suc n | Inl _ \<Rightarrow> n), g'')))"

text \<open>One call: what it admits is paid for by tokens.\<close>

lemma beforeCall_pays:
  assumes "guardOk g" "lastRefillMs g \<le> now" "beforeCall context now g = (r, g')"
  shows "guardOk g' \<and> ratePerSecond g' = ratePerSecond g \<and> capacity g' = capacity g
    \<and> lastRefillMs g \<le> lastRefillMs g' \<and> lastRefillMs g' \<le> now
    \<and> (case r of Inr _ \<Rightarrow> 1 | Inl _ \<Rightarrow> 0) + tokens g'
        \<le> tokens g + (lastRefillMs g' - lastRefillMs g) * ratePerSecond g / 1000"
proof -
  have inc: "0 \<le> (now - lastRefillMs g) * ratePerSecond g / 1000"
    using assms(1,2) by (simp add: guardOk_def)
  have "wp (beforeCall context now)
      (\<lambda>_ g'. guardOk g' \<and> ratePerSecond g' = ratePerSecond g \<and> capacity g' = capacity g
         \<and> lastRefillMs g \<le> lastRefillMs g' \<and> lastRefillMs g' \<le> now
         \<and> 1 + tokens g' \<le> tokens g + (lastRefillMs g' - lastRefillMs g) * ratePerSecond g / 1000)
      (\<lambda>_ g'. guardOk g' \<and> ratePerSecond g' = ratePerSecond g \<and> capacity g' = capacity g
         \<and> lastRefillMs g \<le> lastRefillMs g' \<and> lastRefillMs g' \<le> now
         \<and> tokens g' \<le> tokens g + (lastRefillMs g' - lastRefillMs g) * ratePerSecond g / 1000) g"
    using assms(1,2) inc
    by (auto simp: beforeCall_wp Let_def guardOk_def min_def max_def)
  then show ?thesis using assms(3) by (auto simp: wp_def split: sum.splits)
qed

lemma callRun_bound:
  "guardOk g \<Longrightarrow> sorted (lastRefillMs g # map snd cs) \<Longrightarrow> callRun cs g = (n, g')
    \<Longrightarrow> of_nat n + tokens g' \<le> tokens g + (lastRefillMs g' - lastRefillMs g) * ratePerSecond g / 1000
      \<and> (cs \<noteq> [] \<longrightarrow> lastRefillMs g' \<le> snd (last cs)) \<and> lastRefillMs g \<le> lastRefillMs g' \<and> guardOk g'"
proof (induction cs arbitrary: g n g')
  case Nil
  then show ?case by simp
next
  case (Cons c cs)
  obtain ctx now where c: "c = (ctx, now)" by (cases c)
  obtain r h where r: "beforeCall ctx now g = (r, h)" by fastforce
  obtain m k where m: "callRun cs h = (m, k)" by fastforce
  have now: "lastRefillMs g \<le> now" "sorted (now # map snd cs)" using Cons.prems(2) c by auto
  note p = beforeCall_pays [OF Cons.prems(1) now(1) r]
  have "sorted (lastRefillMs h # map snd cs)" using now p by auto
  note ih = Cons.IH [OF _ this m]
  have n: "n = (case r of Inr _ \<Rightarrow> Suc m | Inl _ \<Rightarrow> m)" "g' = k"
    using Cons.prems(3) by (auto simp: c r m split: sum.splits)
  have e: "(lastRefillMs k - lastRefillMs h) * ratePerSecond g / 1000
      + (lastRefillMs h - lastRefillMs g) * ratePerSecond g / 1000
      = (lastRefillMs k - lastRefillMs g) * ratePerSecond g / 1000"
    by (simp add: algebra_simps diff_divide_distrib)
  have "lastRefillMs k \<le> snd (last (c # cs))"
  proof (cases "cs = []")
    case True
    then show ?thesis using m p c by simp
  next
    case False
    then show ?thesis using ih p by simp
  qed
  then show ?case
    using p ih n e by (auto split: sum.splits)
qed

section \<open>Metrics\<close>

definition metricsOk :: "toolMetrics \<Rightarrow> bool" where
  "metricsOk m \<longleftrightarrow> calls m = successes m + failures m \<and> 0 \<le> maxDurationMs m
     \<and> maxDurationMs m \<le> totalDurationMs m \<and> maxDurationMs m \<le> 86400000
     \<and> totalDurationMs m \<le> 86400000 * int (calls m)"

definition guardMetricsOk :: "guardState \<Rightarrow> bool" where
  "guardMetricsOk g \<longleftrightarrow> owf (metrics g) \<and> list_all (metricsOk \<circ> snd) (metrics g)"

lemma metricsOk_step:
  assumes "metricsOk m" "0 \<le> b" "b \<le> 86400000" "a + c = 1"
  shows "metricsOk (m\<lparr>calls := calls m + 1, successes := successes m + a, failures := failures m + c,
    totalDurationMs := totalDurationMs m + b, maxDurationMs := max (maxDurationMs m) b\<rparr>)"
  using assms by (auto simp: metricsOk_def max_def)

lemma recordCall_ok:
  assumes "guardMetricsOk g"
  shows "guardMetricsOk (recordCall toolName success d g)"
proof -
  let ?b = "max 0 (min 86400000 \<lfloor>d\<rfloor>)"
  let ?z = "\<lparr>calls = 0, successes = 0, failures = 0, totalDurationMs = 0, maxDurationMs = 0\<rparr>"
  let ?m = "case oget (metrics g) toolName of Some m \<Rightarrow> m | None \<Rightarrow> ?z"
  have "metricsOk ?m"
    using assms map_of_SomeD [of "metrics g" toolName]
    by (auto simp: guardMetricsOk_def list_all_iff metricsOk_def split: option.split)
  then have "metricsOk (?m\<lparr>calls := calls ?m + 1, successes := successes ?m + (if success then 1 else 0),
      failures := failures ?m + (if success then 0 else 1),
      totalDurationMs := totalDurationMs ?m + ?b, maxDurationMs := max (maxDurationMs ?m) ?b\<rparr>)"
    by (rule metricsOk_step) auto
  then show ?thesis
    using assms unfolding guardMetricsOk_def recordCall_def Let_def
    by (simp add: owf_oset list_all_oset)
qed

section \<open>Properties\<close>

text \<open>C36. The bucket limits the rate: over any sequence of calls with non-decreasing clock readings, at most the
  burst capacity plus the sustained rate times the elapsed time is admitted, whatever the contexts of the calls.\<close>

theorem rate_bounded:
  assumes "sorted (start # map snd cs)" "cs \<noteq> []"
  shows "let g = newRuntimeGuard opts start in
    of_nat (fst (callRun cs g)) \<le> capacity g + (snd (last cs) - start) * ratePerSecond g / 1000"
proof -
  let ?g = "newRuntimeGuard opts start"
  obtain n g' where r: "callRun cs ?g = (n, g')" by fastforce
  have l: "lastRefillMs ?g = start" "tokens ?g = capacity ?g" by (simp_all add: newRuntimeGuard_def Let_def)
  note ok = newRuntimeGuard_ok [of opts start]
  have b: "of_nat n + tokens g' \<le> capacity ?g + (lastRefillMs g' - start) * ratePerSecond ?g / 1000"
    "lastRefillMs g' \<le> snd (last cs)" "guardOk g'"
    using callRun_bound [OF ok _ r] assms l by auto
  have "(lastRefillMs g' - start) * ratePerSecond ?g / 1000 \<le> (snd (last cs) - start) * ratePerSecond ?g / 1000"
    using b(2) ok by (intro divide_right_mono mult_right_mono) (auto simp: guardOk_def)
  then show ?thesis using b by (simp add: r Let_def guardOk_def)
qed

lemma rate_bounded_witness:
  "of_nat (fst (callRun [(JObj [], 0), (JObj [], 1), (JObj [], 100)] (newRuntimeGuard (JObj [(''burst'', JNum (JFin 1))]) 0)))
     \<le> (3 :: rat)"
  using rate_bounded [of 0 "[(JObj [], 0), (JObj [], 1), (JObj [], 100)]" "JObj [(''burst'', JNum (JFin 1))]"]
  by (simp add: Let_def newRuntimeGuard_def boundedNumber_def)

text \<open>Writes stop at the control boundary: no write is admitted while the session is paused on a challenge or the
  workspace is under user control, and the refused call costs no token.\<close>

lemma hard_stop_refuses_writes:
  assumes "truthy (getProp context ''write'')"
    "List.member [JStr ''PAUSED_CHALLENGE''] (getProp context ''sessionState'')
      \<or> List.member [JStr ''USER_CONTROLLED''] (getProp context ''controlState'')"
  shows "\<exists>e. beforeCall context now g = (Inl e, g) \<and> \<not> guardRetryable e
     \<and> categoryForCode (guardCode e) \<noteq> CatQUOTA"
  using assms by (auto simp: beforeCall_def act_defs)

lemma hard_stop_refuses_writes_witness:
  "\<exists>e. beforeCall (JObj [(''write'', JBool True), (''controlState'', JStr ''USER_CONTROLLED'')]) 5 (newRuntimeGuard (JObj []) 0)
       = (Inl e, newRuntimeGuard (JObj []) 0) \<and> \<not> guardRetryable e \<and> categoryForCode (guardCode e) \<noteq> CatQUOTA"
  by (rule hard_stop_refuses_writes) simp_all

end
