(* ===== verification/IpAddress.thy ===== *)
theory IpAddress
  imports Prelude "HOL-Library.Word"
begin

unbundle bit_operations_syntax

text \<open>
  IP literals as \<open>src/policy/url-policy.ts\<close> and \<open>src/config.ts\<close> use them: the tests of
  \<open>node:net\<close>, the IPv6 parser of the policy, the RFC 5952 form that \<open>new URL\<close> gives a
  literal, and the classification of protected addresses.
\<close>

section \<open>Digits\<close>

definition digitVal :: "char \<Rightarrow> nat" where
  "digitVal c = charCode c - 48"

definition isHexDigit :: "char \<Rightarrow> bool" where
  "isHexDigit c \<longleftrightarrow> isDigit c \<or> (65 \<le> charCode c \<and> charCode c \<le> 70) \<or> (97 \<le> charCode c \<and> charCode c \<le> 102)"

definition hexVal :: "char \<Rightarrow> nat" where
  "hexVal c = (if isDigit c then charCode c - 48 else if charCode c \<le> 70 then charCode c - 55 else charCode c - 87)"

definition decimalValue :: "string \<Rightarrow> nat" where
  "decimalValue s = foldl (\<lambda>a c. a * 10 + digitVal c) 0 s"

definition hexValue :: "string \<Rightarrow> nat" where
  "hexValue s = foldl (\<lambda>a c. a * 16 + hexVal c) 0 s"

definition digitChar :: "nat \<Rightarrow> char" where
  "digitChar n = (if n < 10 then char_of (n + 48) else char_of (n + 87))"

fun showDec :: "nat \<Rightarrow> string" where
  "showDec n = (if n < 10 then [digitChar n] else showDec (n div 10) @ [digitChar (n mod 10)])"

fun showHex :: "nat \<Rightarrow> string" where
  "showHex n = (if n < 16 then [digitChar n] else showHex (n div 16) @ [digitChar (n mod 16)])"

declare showDec.simps [simp del] showHex.simps [simp del]

section \<open>\<open>net.isIP\<close>\<close>

text \<open>One octet: decimal without leading zeros, at most 255.\<close>

definition isOctet :: "string \<Rightarrow> bool" where
  "isOctet w \<longleftrightarrow> w \<noteq> [] \<and> length w \<le> 3 \<and> list_all isDigit w \<and> (length w = 1 \<or> hd w \<noteq> CHR ''0'')
     \<and> decimalValue w \<le> 255"

definition isIPv4 :: "string \<Rightarrow> bool" where
  "isIPv4 s \<longleftrightarrow> length (splitChar (CHR ''.'') s) = 4 \<and> list_all isOctet (splitChar (CHR ''.'') s)"

text \<open>\<open>s.split('::')\<close>\<close>

fun splitDouble :: "string \<Rightarrow> string list" where
  "splitDouble [] = [[]]"
| "splitDouble [c] = [[c]]"
| "splitDouble (c # d # cs) =
     (if c = CHR '':'' \<and> d = CHR '':'' then [] # splitDouble cs
      else (case splitDouble (d # cs) of [] \<Rightarrow> [[c]] | w # ws \<Rightarrow> (c # w) # ws))"

definition isHextet :: "string \<Rightarrow> bool" where
  "isHextet w \<longleftrightarrow> w \<noteq> [] \<and> length w \<le> 4 \<and> list_all isHexDigit w"

text \<open>The number of groups of a part between compressions; the last one may end in an IPv4.\<close>

definition groupCount :: "bool \<Rightarrow> string \<Rightarrow> nat option" where
  "groupCount lastPart part =
     (if part = [] then Some 0
      else let ws = splitChar (CHR '':'') part in
        if list_all isHextet ws then Some (length ws)
        else if lastPart \<and> list_all isHextet (butlast ws) \<and> isIPv4 (last ws) then Some (Suc (length ws))
        else None)"

definition isIPv6Body :: "string \<Rightarrow> bool" where
  "isIPv6Body s \<longleftrightarrow>
     (case splitDouble s of
        [part] \<Rightarrow> groupCount True part = Some 8
      | [left, right] \<Rightarrow>
          (case (groupCount False left, groupCount True right) of
             (Some m, Some n) \<Rightarrow> m + n \<le> 7 | _ \<Rightarrow> False)
      | _ \<Rightarrow> False)"

definition isZoneChar :: "char \<Rightarrow> bool" where
  "isZoneChar c \<longleftrightarrow> isAlnum c \<or> c = CHR ''-'' \<or> c = CHR ''.'' \<or> c = CHR '':''"

definition isIPv6 :: "string \<Rightarrow> bool" where
  "isIPv6 s \<longleftrightarrow>
     (case dropWhile (\<lambda>c. c \<noteq> CHR ''%'') s of
        [] \<Rightarrow> isIPv6Body s
      | p # zone \<Rightarrow> isIPv6Body (takeWhile (\<lambda>c. c \<noteq> CHR ''%'') s) \<and> zone \<noteq> [] \<and> list_all isZoneChar zone)"

definition isIP :: "string \<Rightarrow> nat" where
  "isIP s = (if isIPv4 s then 4 else if isIPv6 s then 6 else 0)"

section \<open>Parsing and printing\<close>

definition unbracket :: "string \<Rightarrow> string" where
  "unbracket v =
     (if startsWith v ''['' \<and> endsWith v '']'' then take (length v - 2) (drop 1 v) else v)"

definition parseHextet :: "string \<Rightarrow> nat option" where
  "parseHextet w = (if isHextet w then Some (hexValue w) else None)"

fun parseHextets :: "string list \<Rightarrow> nat list option" where
  "parseHextets [] = Some []"
| "parseHextets (w # ws) =
     (case parseHextet w of None \<Rightarrow> None | Some g \<Rightarrow> map_option (Cons g) (parseHextets ws))"

definition parseHalf :: "string \<Rightarrow> nat list option" where
  "parseHalf h = (if h = [] then Some [] else parseHextets (splitChar (CHR '':'') h))"

text \<open>An embedded IPv4 tail becomes two groups; \<open>None\<close> where the code throws.\<close>

definition expandEmbedded :: "string \<Rightarrow> string option" where
  "expandEmbedded v =
     (if CHR ''.'' \<notin> set v then Some v
      else if CHR '':'' \<notin> set v then None
      else
        let ipv4 = rev (takeWhile (\<lambda>c. c \<noteq> CHR '':'') (rev v));
            before = rev (dropWhile (\<lambda>c. c \<noteq> CHR '':'') (rev v)) in
        if \<not> isIPv4 ipv4 then None
        else (case map decimalValue (splitChar (CHR ''.'') ipv4) of
                [a, b, c, d] \<Rightarrow> Some (before @ showHex (push_bit 8 a OR b) @ '':'' @ showHex (push_bit 8 c OR d))
              | _ \<Rightarrow> None))"

definition parseIpv6 :: "string \<Rightarrow> nat list option" where
  "parseIpv6 address =
     (case expandEmbedded (toLowerCase (unbracket address)) of
        None \<Rightarrow> None
      | Some v \<Rightarrow>
          (let halves = splitDouble v in
           if length halves > 2 then None
           else
             (case (parseHalf (hd halves), if length halves = 2 then parseHalf (halves ! 1) else Some []) of
                (Some left, Some right) \<Rightarrow>
                  if length left + length right + (if length halves = 2 then 1 else 0) > 8 then None
                  else Some (left @ replicate (8 - length left - length right) 0 @ right)
              | _ \<Rightarrow> None)))"

text \<open>The serializer of the URL standard: the first longest run of at least two zero groups is compressed.\<close>

definition zeroRun :: "nat list \<Rightarrow> nat \<Rightarrow> nat" where
  "zeroRun gs i = length (takeWhile (\<lambda>g. g = 0) (drop i gs))"

definition bestRun :: "nat list \<Rightarrow> (nat \<times> nat) option" where
  "bestRun gs =
     (let m = foldr max (map (zeroRun gs) [0..<length gs]) 0 in
      if m < 2 then None
      else map_option (\<lambda>i. (i, m)) (find (\<lambda>i. zeroRun gs i = m) [0..<length gs]))"

definition serializeIpv6 :: "nat list \<Rightarrow> string" where
  "serializeIpv6 gs =
     (case bestRun gs of
        None \<Rightarrow> joinStr '':'' (map showHex gs)
      | Some (i, m) \<Rightarrow>
          joinStr '':'' (map showHex (take i gs)) @ ''::'' @ joinStr '':'' (map showHex (drop (i + m) gs)))"

text \<open>
  \<open>new URL('http://[' + address + ']').hostname\<close> without the brackets; \<open>None\<close> where it throws,
  which for a text that \<open>net.isIPv6\<close> accepts is exactly when a zone follows the address.
\<close>

definition canonicalIpv6 :: "string \<Rightarrow> string option" where
  "canonicalIpv6 address =
     (if isIPv6Body address then map_option serializeIpv6 (parseIpv6 address) else None)"

definition canonicalAddress :: "string \<Rightarrow> string option" where
  "canonicalAddress address = (if isIP address = 6 then canonicalIpv6 address else Some address)"

section \<open>Classification\<close>

datatype addressReason = Loopback | PrivateNet | LinkLocal | Multicast | Reserved | Metadata

record addressClassification =
  blocked :: bool
  reason :: "addressReason option"
  version :: nat
  address :: string

definition METADATA_IPV6 :: "string list" where
  "METADATA_IPV6 = [''fd00:ec2::254'', ''fe80::a9fe:a9fe'']"

definition METADATA_IPV4 :: "string list" where
  "METADATA_IPV4 =
     [''169.254.169.254'', ''169.254.170.2'', ''169.254.170.23'', ''100.100.100.200'', ''168.63.129.16'']"

definition octetsReason :: "nat \<Rightarrow> nat \<Rightarrow> nat \<Rightarrow> nat \<Rightarrow> addressReason option" where
  "octetsReason first second third fourth =
     (let v = (((int first * 256 + int second) * 256 + int third) * 256 + int fourth) mod 2 ^ 32 in
      if first = 127 then Some Loopback
      else if first = 10 \<or> (first = 172 \<and> second \<ge> 16 \<and> second \<le> 31) \<or> (first = 192 \<and> second = 168)
        then Some PrivateNet
      else if first = 169 \<and> second = 254 then Some LinkLocal
      else if first \<ge> 224 then (if first \<ge> 240 then Some Reserved else Some Multicast)
      else if first = 0 then Some Reserved
      else if first = 100 \<and> second \<ge> 64 \<and> second \<le> 127 then Some Reserved
      else if first = 192 \<and> second = 0 \<and> third = 0 then Some Reserved
      else if first = 192 \<and> second = 0 \<and> third = 2 then Some Reserved
      else if first = 192 \<and> second = 88 \<and> third = 99 then Some Reserved
      else if first = 198 \<and> second \<ge> 18 \<and> second \<le> 19 then Some Reserved
      else if first = 198 \<and> second = 51 \<and> third = 100 then Some Reserved
      else if first = 203 \<and> second = 0 \<and> third = 113 then Some Reserved
      else if v = 0xffffffff then Some Reserved
      else None)"

definition classifyIpv4 :: "string \<Rightarrow> addressClassification" where
  "classifyIpv4 addr =
     (let octets = map decimalValue (splitChar (CHR ''.'') addr);
          r = (if List.member METADATA_IPV4 addr then Some Metadata
               else octetsReason (octets ! 0) (octets ! 1) (octets ! 2) (octets ! 3))
      in \<lparr>blocked = (r \<noteq> None), reason = r, version = 4, address = addr\<rparr>)"

definition isIpv4Mapped :: "nat list \<Rightarrow> string option" where
  "isIpv4Mapped gs =
     (if length gs \<noteq> 8 \<or> \<not> list_all (\<lambda>g. g = 0) (take 5 gs) \<or> gs ! 5 \<noteq> 0xffff then None
      else
        let high = gs ! 6; low = gs ! 7 in
        Some (showDec (drop_bit 8 high) @ ''.'' @ showDec (high AND 0xff) @ ''.''
              @ showDec (drop_bit 8 low) @ ''.'' @ showDec (low AND 0xff)))"

text \<open>The loop over the groups; a missing group counts as -1, a missing prefix entry as 0.\<close>

function prefixLoop :: "nat list \<Rightarrow> nat list \<Rightarrow> nat \<Rightarrow> nat \<Rightarrow> bool" where
  "prefixLoop groups prefix index remaining =
     (if remaining = 0 then True
      else
        let taken = min remaining 16;
            mask = (if taken = 16 then 0xffff else push_bit (16 - taken) 0xffff AND 0xffff) :: int;
            expected = (if index < length prefix then int (prefix ! index) else 0);
            grp = (if index < length groups then int (groups ! index) else - 1) in
        if (grp AND mask) \<noteq> (expected AND mask) then False
        else prefixLoop groups prefix (Suc index) (remaining - taken))"
  by pat_completeness auto
termination
  by (relation "measure (\<lambda>(groups, prefix, index, remaining). remaining)") auto

declare prefixLoop.simps [simp del]

definition hasIpv6Prefix :: "nat list \<Rightarrow> nat list \<Rightarrow> nat \<Rightarrow> bool" where
  "hasIpv6Prefix groups prefix bits = prefixLoop groups prefix 0 bits"

definition ipv6Reason :: "nat list \<Rightarrow> string \<Rightarrow> addressReason option" where
  "ipv6Reason groups canonical =
     (if List.member METADATA_IPV6 canonical then Some Metadata
      else if list_all (\<lambda>g. g = 0) groups then Some Reserved
      else if list_all (\<lambda>(g, i). if i = 7 then g = 1 else g = 0) (zip groups [0..<length groups]) then Some Loopback
      else if hasIpv6Prefix groups [0xfc00] 7 then Some PrivateNet
      else if hasIpv6Prefix groups [0xfe80] 10 then Some LinkLocal
      else if hasIpv6Prefix groups [0xff00] 8 then Some Multicast
      else if hasIpv6Prefix groups [0x2001, 0x0db8] 32 then Some Reserved
      else if hasIpv6Prefix groups [0x2001, 0x0000] 32 then Some Reserved
      else if hasIpv6Prefix groups [0x2001, 0x0002, 0x0000] 48 then Some Reserved
      else if hasIpv6Prefix groups [0x0100, 0x0000] 32 then Some Reserved
      else if hasIpv6Prefix groups [0, 0, 0, 0, 0, 0] 96 then Some Reserved
      else None)"

text \<open>\<open>None\<close> where the parser or \<open>new URL\<close> throws.\<close>

definition classifyAddress :: "string \<Rightarrow> addressClassification option" where
  "classifyAddress addr =
     (let v = toLowerCase (unbracket addr) in
      if isIP v = 4 then Some (classifyIpv4 v)
      else if isIP v = 6 then
        (case parseIpv6 v of
           None \<Rightarrow> None
         | Some groups \<Rightarrow>
             (case isIpv4Mapped groups of
                Some mapped \<Rightarrow> Some ((classifyIpv4 mapped)\<lparr>version := 6, address := v\<rparr>)
              | None \<Rightarrow>
                  (case canonicalIpv6 v of
                     None \<Rightarrow> None
                   | Some canonical \<Rightarrow>
                       (let r = ipv6Reason groups canonical in
                        Some \<lparr>blocked = (r \<noteq> None), reason = r, version = 6, address = v\<rparr>))))
      else Some \<lparr>blocked = True, reason = Some Reserved, version = 4, address = v\<rparr>)"

definition isSyntheticTunnelAddress :: "string \<Rightarrow> bool" where
  "isSyntheticTunnelAddress addr =
     (let v = unbracket addr; parts = splitChar (CHR ''.'') v in
      isIP v = 4 \<and> decimalValue (parts ! 0) = 198 \<and> 18 \<le> decimalValue (parts ! 1) \<and> decimalValue (parts ! 1) \<le> 19)"

section \<open>Numerals read back\<close>

definition isLowHex :: "char \<Rightarrow> bool" where
  "isLowHex c \<longleftrightarrow> isDigit c \<or> (97 \<le> charCode c \<and> charCode c \<le> 102)"

lemma digitChar_hex: "n < 16 \<Longrightarrow> isLowHex (digitChar n) \<and> hexVal (digitChar n) = n"
  by (auto simp: isLowHex_def digitChar_def hexVal_def isDigit_def)

lemma digitChar_dec: "n < 10 \<Longrightarrow> isDigit (digitChar n) \<and> digitVal (digitChar n) = n"
  by (auto simp: digitChar_def digitVal_def isDigit_def)

lemma isLowHex_hex: "isLowHex c \<Longrightarrow> isHexDigit c"
  by (auto simp: isLowHex_def isHexDigit_def)

lemma isLowHex_notin: "isLowHex c \<Longrightarrow> c \<noteq> CHR '':'' \<and> c \<noteq> CHR ''.'' \<and> c \<noteq> CHR ''['' \<and> c \<noteq> CHR ''%''"
  by (auto simp: isLowHex_def isDigit_def charCode_def)

lemma isLowHex_lower: "isLowHex c \<Longrightarrow> lowerChar c = c"
  by (auto simp: isLowHex_def isDigit_def lowerChar_def Let_def)

lemma showDec_digits: "list_all isDigit (showDec n) \<and> showDec n \<noteq> [] \<and> decimalValue (showDec n) = n"
proof (induction n rule: showDec.induct)
  case (1 n)
  then show ?case
    by (cases "n < 10") (simp_all add: showDec.simps [of n] digitChar_dec decimalValue_def)
qed

lemma showHex_digits: "list_all isLowHex (showHex n) \<and> showHex n \<noteq> [] \<and> hexValue (showHex n) = n"
proof (induction n rule: showHex.induct)
  case (1 n)
  then show ?case
    by (cases "n < 16") (simp_all add: showHex.simps [of n] digitChar_hex hexValue_def)
qed

lemma showHex_length: "n < 16 ^ k \<Longrightarrow> 0 < k \<Longrightarrow> length (showHex n) \<le> k"
proof (induction k arbitrary: n)
  case 0
  then show ?case by simp
next
  case (Suc k)
  show ?case
  proof (cases "n < 16")
    case True
    then show ?thesis by (simp add: showHex.simps [of n])
  next
    case False
    with Suc.prems have "0 < k" by (cases k) auto
    moreover have "n div 16 < 16 ^ k" using Suc.prems(1) by (simp add: less_mult_imp_div_less mult.commute)
    ultimately show ?thesis using Suc.IH [of "n div 16"] False by (simp add: showHex.simps [of n])
  qed
qed

lemma parseHextet_showHex: "n < 65536 \<Longrightarrow> parseHextet (showHex n) = Some n"
  using showHex_digits [of n] showHex_length [of n 4]
  by (auto simp: parseHextet_def isHextet_def list_all_iff isLowHex_hex)

lemma parseHextets_showHex: "list_all (\<lambda>g. g < 65536) gs \<Longrightarrow> parseHextets (map showHex gs) = Some gs"
  by (induction gs) (auto simp: parseHextet_showHex)

section \<open>The canonical form parses back\<close>

fun noDouble :: "string \<Rightarrow> bool" where
  "noDouble (c # d # cs) = (\<not> (c = CHR '':'' \<and> d = CHR '':'') \<and> noDouble (d # cs))"
| "noDouble cs = True"

lemma splitDouble_plain: "noDouble s \<Longrightarrow> splitDouble s = [s]"
  by (induction s rule: noDouble.induct) auto

lemma splitDouble_cut:
  "noDouble a \<Longrightarrow> a = [] \<or> last a \<noteq> CHR '':'' \<Longrightarrow> splitDouble (a @ CHR '':'' # CHR '':'' # b) = a # splitDouble b"
  by (induction a rule: noDouble.induct) auto

lemma noDouble_Cons: "noDouble b \<Longrightarrow> c \<noteq> CHR '':'' \<or> b = [] \<or> hd b \<noteq> CHR '':'' \<Longrightarrow> noDouble (c # b)"
  by (cases b) auto

lemma noDouble_append:
  "noDouble a \<Longrightarrow> noDouble b \<Longrightarrow> a = [] \<or> last a \<noteq> CHR '':'' \<or> b = [] \<or> hd b \<noteq> CHR '':'' \<Longrightarrow> noDouble (a @ b)"
  by (induction a rule: noDouble.induct) (auto intro: noDouble_Cons)

lemma noDouble_free: "CHR '':'' \<notin> set w \<Longrightarrow> noDouble w"
  by (induction w rule: noDouble.induct) auto

definition hexWords :: "string list \<Rightarrow> bool" where
  "hexWords ws \<longleftrightarrow> list_all (\<lambda>w. w \<noteq> [] \<and> list_all isLowHex w) ws"

lemma join_hex:
  "hexWords ws \<Longrightarrow> ws \<noteq> [] \<Longrightarrow> joinStr '':'' ws \<noteq> [] \<and> noDouble (joinStr '':'' ws)
     \<and> isLowHex (hd (joinStr '':'' ws)) \<and> isLowHex (last (joinStr '':'' ws))
     \<and> list_all (\<lambda>c. c = CHR '':'' \<or> isLowHex c) (joinStr '':'' ws)"
proof (induction "'':''" ws rule: joinStr.induct)
  case 1
  then show ?case by simp
next
  case (2 w)
  then have "CHR '':'' \<notin> set w" using isLowHex_notin by (fastforce simp: hexWords_def list_all_iff)
  with 2 show ?case
    by (auto simp: hexWords_def list_all_iff noDouble_free)
next
  case (3 w v ws)
  let ?r = "joinStr '':'' (v # ws)"
  have w: "w \<noteq> []" "list_all isLowHex w" and r: "hexWords (v # ws)"
    using 3(2) by (simp_all add: hexWords_def)
  have c: "CHR '':'' \<notin> set w" "isLowHex (last w)" "isLowHex (hd w)"
    using w isLowHex_notin by (fastforce simp: list_all_iff)+
  have n: "noDouble (CHR '':'' # ?r)"
    using 3(1) [OF r] isLowHex_notin [of "hd ?r"] by (cases ?r) auto
  have "last w \<noteq> CHR '':''" using isLowHex_notin [OF c(2)] by simp
  then have "noDouble (w @ CHR '':'' # ?r)" using noDouble_append [OF noDouble_free [OF c(1)] n] by simp
  then show ?case
    using 3(1) [OF r] w c by (auto simp: list_all_iff)
qed

lemma hexWords_show: "hexWords (map showHex gs)"
  using showHex_digits by (auto simp: hexWords_def list_all_iff)

lemma parseHalf_show: "list_all (\<lambda>g. g < 65536) gs \<Longrightarrow> parseHalf (joinStr '':'' (map showHex gs)) = Some gs"
proof (cases "gs = []")
  case False
  assume a: "list_all (\<lambda>g. g < 65536) gs"
  have "CHR '':'' \<notin> set w" if "w \<in> set (map showHex gs)" for w
    using that showHex_digits isLowHex_notin by (fastforce simp: list_all_iff)
  then have "splitChar (CHR '':'') (joinStr '':'' (map showHex gs)) = map showHex gs"
    using False by (intro joinStr_split) auto
  moreover have "joinStr '':'' (map showHex gs) \<noteq> []" using join_hex [OF hexWords_show, of gs] False by simp
  ultimately show ?thesis using parseHextets_showHex [OF a] by (simp add: parseHalf_def)
qed (simp add: parseHalf_def)

lemma bestRun_Some:
  assumes "bestRun gs = Some (i, m)"
  shows "2 \<le> m" "i + m \<le> length gs" "gs = take i gs @ replicate m 0 @ drop (i + m) gs"
proof -
  from assms have m: "2 \<le> m" and i: "zeroRun gs i = m"
    by (auto simp: bestRun_def Let_def find_Some_iff split: if_splits)
  from m show "2 \<le> m" .
  let ?z = "takeWhile (\<lambda>g. g = 0) (drop i gs)"
  have z: "length ?z = m" using i by (simp add: zeroRun_def)
  then show l: "i + m \<le> length gs" using length_takeWhile_le [of "\<lambda>g. g = 0" "drop i gs"] m by simp
  have "?z = replicate m 0" using z by (intro replicate_eqI) (auto dest: set_takeWhileD)
  then have "drop i gs = replicate m 0 @ drop m (drop i gs)"
    using z by (metis append_take_drop_id takeWhile_eq_take)
  then show "gs = take i gs @ replicate m 0 @ drop (i + m) gs"
    by (metis append_take_drop_id drop_drop add.commute)
qed

text \<open>Texts of hexadecimal digits and colons go through the first steps of the parser unchanged.\<close>

lemma plain_steps:
  assumes "list_all (\<lambda>c. c = CHR '':'' \<or> isLowHex c) s"
  shows "toLowerCase (unbracket s) = s" "expandEmbedded s = Some s"
proof -
  have "lowerChar c = c \<and> c \<noteq> CHR ''['' \<and> c \<noteq> CHR ''.''" if "c \<in> set s" for c
  proof -
    have "c = CHR '':'' \<or> isLowHex c" using assms that by (simp add: list_all_iff)
    then show ?thesis using isLowHex_lower [of c] isLowHex_notin [of c]
      by (auto simp: lowerChar_def charCode_def Let_def)
  qed
  then have low: "\<And>c. c \<in> set s \<Longrightarrow> lowerChar c = c" and c: "CHR ''['' \<notin> set s" "CHR ''.'' \<notin> set s" by auto
  have "\<not> startsWith s ''[''" using c(1) by (cases s) (auto simp: startsWith_def)
  then show "toLowerCase (unbracket s) = s"
    using low by (simp add: unbracket_def toLowerCase_def map_idI)
  show "expandEmbedded s = Some s" using c(2) by (auto simp: expandEmbedded_def)
qed

definition groupsOk :: "nat list \<Rightarrow> bool" where
  "groupsOk gs \<longleftrightarrow> length gs = 8 \<and> list_all (\<lambda>g. g < 65536) gs"

lemma join_steps:
  "splitDouble (joinStr '':'' (map showHex gs)) = [joinStr '':'' (map showHex gs)]"
  "list_all (\<lambda>c. c = CHR '':'' \<or> isLowHex c) (joinStr '':'' (map showHex gs))"
  "joinStr '':'' (map showHex gs) = [] \<or> last (joinStr '':'' (map showHex gs)) \<noteq> CHR '':''"
  using join_hex [OF hexWords_show, of gs] isLowHex_notin [of "last (joinStr '':'' (map showHex gs))"]
  by (cases "gs = []"; auto simp: splitDouble_plain)+

lemma parse_serialize:
  assumes "groupsOk gs"
  shows "parseIpv6 (serializeIpv6 gs) = Some gs"
proof (cases "bestRun gs")
  case None
  then show ?thesis
    using assms parseHalf_show [of gs]
    by (simp add: serializeIpv6_def parseIpv6_def plain_steps join_steps groupsOk_def)
next
  case (Some r)
  then obtain i m where r: "bestRun gs = Some (i, m)" by (cases r) auto
  note b = bestRun_Some [OF r]
  let ?l = "joinStr '':'' (map showHex (take i gs))" and ?r = "joinStr '':'' (map showHex (drop (i + m) gs))"
  have ok: "list_all (\<lambda>g. g < 65536) (take i gs)" "list_all (\<lambda>g. g < 65536) (drop (i + m) gs)"
    using assms by (auto simp: groupsOk_def list_all_iff dest: in_set_takeD in_set_dropD)
  have nd: "noDouble ?l"
    using join_hex [OF hexWords_show, of "take i gs"] by (cases "take i gs = []") auto
  have split: "splitDouble (?l @ ''::'' @ ?r) = [?l, ?r]"
    using splitDouble_cut [OF nd join_steps(3)] join_steps(1) by simp
  have all: "list_all (\<lambda>c. c = CHR '':'' \<or> isLowHex c) (?l @ ''::'' @ ?r)"
    using join_steps(2) [of "take i gs"] join_steps(2) [of "drop (i + m) gs"] by simp
  have len: "length gs = 8" using assms by (simp add: groupsOk_def)
  have "parseIpv6 (?l @ ''::'' @ ?r) = Some (take i gs @ replicate m 0 @ drop (i + m) gs)"
    unfolding parseIpv6_def plain_steps [OF all] option.case Let_def split
    using b(1,2) len by (simp add: parseHalf_show ok)
  then show ?thesis using b(3) by (simp add: serializeIpv6_def r)
qed

section \<open>Canonical addresses are classified like the texts they come from\<close>

lemma hexVal_less: "isHexDigit c \<Longrightarrow> hexVal c < 16"
  by (auto simp: isHexDigit_def hexVal_def isDigit_def)

lemma hexValue_less: "list_all isHexDigit w \<Longrightarrow> hexValue w < 16 ^ length w"
proof (induction w rule: rev_induct)
  case Nil
  then show ?case by (simp add: hexValue_def)
next
  case (snoc c w)
  then have "hexValue w < 16 ^ length w" "hexVal c < 16" by (simp_all add: hexVal_less)
  then show ?case by (simp add: hexValue_def)
qed

lemma parseHextet_less: "parseHextet w = Some g \<Longrightarrow> g < 65536"
proof -
  assume "parseHextet w = Some g"
  then have "g = hexValue w" "list_all isHexDigit w" "length w \<le> 4"
    by (auto simp: parseHextet_def isHextet_def split: if_splits)
  then have "g < 16 ^ length w" "(16::nat) ^ length w \<le> 16 ^ 4"
    using hexValue_less power_increasing [of "length w" 4 "16::nat"] by auto
  then show ?thesis by simp
qed

lemma parseHextets_less: "parseHextets ws = Some gs \<Longrightarrow> list_all (\<lambda>g. g < 65536) gs"
  by (induction ws arbitrary: gs) (auto split: option.splits dest: parseHextet_less)

lemma parseHalf_less: "parseHalf h = Some gs \<Longrightarrow> list_all (\<lambda>g. g < 65536) gs"
  by (auto simp: parseHalf_def parseHextets_less split: if_splits)

lemma list_all_replicate: "P x \<Longrightarrow> list_all P (replicate n x)"
  by (auto simp: list_all_iff)

lemma parseIpv6_ok: "parseIpv6 v = Some gs \<Longrightarrow> groupsOk gs"
  by (auto simp: parseIpv6_def groupsOk_def Let_def list_all_replicate dest!: parseHalf_less split: option.splits if_splits)

lemma isHextet_showHex: "n < 65536 \<Longrightarrow> isHextet (showHex n)"
  using showHex_digits [of n] showHex_length [of n 4]
  by (auto simp: isHextet_def list_all_iff isLowHex_hex)

lemma groupCount_show: "list_all (\<lambda>g. g < 65536) gs \<Longrightarrow> groupCount b (joinStr '':'' (map showHex gs)) = Some (length gs)"
proof (cases "gs = []")
  case False
  assume a: "list_all (\<lambda>g. g < 65536) gs"
  have "CHR '':'' \<notin> set w" if "w \<in> set (map showHex gs)" for w
    using that showHex_digits isLowHex_notin by (fastforce simp: list_all_iff)
  then have "splitChar (CHR '':'') (joinStr '':'' (map showHex gs)) = map showHex gs"
    using False by (intro joinStr_split) auto
  moreover have "joinStr '':'' (map showHex gs) \<noteq> []" using join_hex [OF hexWords_show, of gs] False by simp
  moreover have "list_all isHextet (map showHex gs)" using a by (auto simp: list_all_iff isHextet_showHex)
  ultimately show ?thesis by (simp add: groupCount_def)
qed (simp add: groupCount_def)

lemma serialize_body: "groupsOk gs \<Longrightarrow> isIPv6Body (serializeIpv6 gs)"
proof (cases "bestRun gs")
  case None
  assume "groupsOk gs"
  then show ?thesis using None
    by (simp add: serializeIpv6_def isIPv6Body_def join_steps groupCount_show groupsOk_def)
next
  case (Some r)
  assume g: "groupsOk gs"
  obtain i m where r: "bestRun gs = Some (i, m)" using Some by (cases r) auto
  note b = bestRun_Some [OF r]
  let ?l = "joinStr '':'' (map showHex (take i gs))" and ?r = "joinStr '':'' (map showHex (drop (i + m) gs))"
  have ok: "list_all (\<lambda>g. g < 65536) (take i gs)" "list_all (\<lambda>g. g < 65536) (drop (i + m) gs)" "length gs = 8"
    using g by (auto simp: groupsOk_def list_all_iff dest: in_set_takeD in_set_dropD)
  have nd: "noDouble ?l"
    using join_hex [OF hexWords_show, of "take i gs"] by (cases "take i gs = []") auto
  have split: "splitDouble (?l @ ''::'' @ ?r) = [?l, ?r]"
    using splitDouble_cut [OF nd join_steps(3)] join_steps(1) by simp
  have "isIPv6Body (?l @ ''::'' @ ?r)"
    unfolding isIPv6Body_def split using b(1,2) ok by (simp add: groupCount_show)
  then show ?thesis by (simp add: serializeIpv6_def r)
qed

lemma serialize_chars: "list_all (\<lambda>c. c = CHR '':'' \<or> isLowHex c) (serializeIpv6 gs)"
  by (auto simp: serializeIpv6_def join_steps split: option.splits prod.splits)

lemma serialize_isIP:
  assumes "groupsOk gs"
  shows "isIP (serializeIpv6 gs) = 6"
proof -
  have c: "c \<noteq> CHR ''.'' \<and> c \<noteq> CHR ''%''" if "c \<in> set (serializeIpv6 gs)" for c
  proof -
    have "c = CHR '':'' \<or> isLowHex c" using serialize_chars [of gs] that by (simp add: list_all_iff)
    then show ?thesis by (auto dest: isLowHex_notin)
  qed
  then have "CHR ''.'' \<notin> set (serializeIpv6 gs)" by blast
  then have "\<not> isIPv4 (serializeIpv6 gs)" by (simp add: isIPv4_def splitChar_no_sep)
  moreover have "dropWhile (\<lambda>c. c \<noteq> CHR ''%'') (serializeIpv6 gs) = []" using c by simp
  then have "isIPv6 (serializeIpv6 gs)" using serialize_body [OF assms] by (simp only: isIPv6_def list.case)
  ultimately show ?thesis by (simp add: isIP_def)
qed

lemma canonical_fix: "groupsOk gs \<Longrightarrow> canonicalIpv6 (serializeIpv6 gs) = Some (serializeIpv6 gs)"
  by (simp add: canonicalIpv6_def serialize_body parse_serialize)

lemma lowerChar_idem: "lowerChar (lowerChar c) = lowerChar c"
proof (cases "(65 \<le> charCode c \<and> charCode c \<le> 90) \<or> (192 \<le> charCode c \<and> charCode c \<le> 222 \<and> charCode c \<noteq> 215)")
  case True
  then have l: "lowerChar c = char_of (charCode c + 32)" by (simp only: lowerChar_def Let_def if_True)
  have n: "charCode (char_of (charCode c + 32)) = charCode c + 32" using True by (simp only: charCode_char_of) auto
  have "\<not> ((65 \<le> charCode c + 32 \<and> charCode c + 32 \<le> 90)
      \<or> (192 \<le> charCode c + 32 \<and> charCode c + 32 \<le> 222 \<and> charCode c + 32 \<noteq> 215))"
    using True by auto
  then show ?thesis unfolding l by (simp only: lowerChar_def Let_def n if_False)
next
  case False
  then have "lowerChar c = c" by (simp only: lowerChar_def Let_def if_False)
  then show ?thesis by simp
qed

lemma lower_lower [simp]: "toLowerCase (toLowerCase s) = toLowerCase s"
  by (simp add: toLowerCase_def lowerChar_idem)

text \<open>Lower-casing changes none of the tests.\<close>

lemma charCode_inj: "charCode c = charCode d \<longleftrightarrow> c = d"
  by (simp add: charCode_def)

lemma lowerChar_code:
  "charCode (lowerChar c) = charCode c
     \<or> (65 \<le> charCode c \<and> charCode c \<le> 90 \<or> 192 \<le> charCode c \<and> charCode c \<le> 222)
       \<and> charCode (lowerChar c) = charCode c + 32"
proof (cases "(65 \<le> charCode c \<and> charCode c \<le> 90) \<or> (192 \<le> charCode c \<and> charCode c \<le> 222 \<and> charCode c \<noteq> 215)")
  case True
  then have l: "lowerChar c = char_of (charCode c + 32)" by (simp only: lowerChar_def Let_def if_True)
  have "charCode (lowerChar c) = charCode c + 32" using True unfolding l by (simp only: charCode_char_of) auto
  then show ?thesis using True by auto
next
  case False
  then have "lowerChar c = c" by (simp only: lowerChar_def Let_def if_False)
  then show ?thesis by simp
qed

lemma charCode_lits:
  "c = CHR '':'' \<longleftrightarrow> charCode c = 58" "c = CHR ''.'' \<longleftrightarrow> charCode c = 46" "c = CHR ''%'' \<longleftrightarrow> charCode c = 37"
  "c = CHR ''['' \<longleftrightarrow> charCode c = 91" "c = CHR '']'' \<longleftrightarrow> charCode c = 93" "c = CHR ''0'' \<longleftrightarrow> charCode c = 48"
  "c = CHR ''-'' \<longleftrightarrow> charCode c = 45"
proof -
  have "charCode (CHR '':'') = 58" "charCode (CHR ''.'') = 46" "charCode (CHR ''%'') = 37" "charCode (CHR ''['') = 91"
    "charCode (CHR '']'') = 93" "charCode (CHR ''0'') = 48" "charCode (CHR ''-'') = 45"
    by (simp_all add: charCode_def)
  then show "c = CHR '':'' \<longleftrightarrow> charCode c = 58" "c = CHR ''.'' \<longleftrightarrow> charCode c = 46" "c = CHR ''%'' \<longleftrightarrow> charCode c = 37"
    "c = CHR ''['' \<longleftrightarrow> charCode c = 91" "c = CHR '']'' \<longleftrightarrow> charCode c = 93" "c = CHR ''0'' \<longleftrightarrow> charCode c = 48"
    "c = CHR ''-'' \<longleftrightarrow> charCode c = 45"
    by (metis charCode_inj)+
qed

lemma lowerChar_class [simp]:
  "isDigit (lowerChar c) = isDigit c" "isHexDigit (lowerChar c) = isHexDigit c"
  "isZoneChar (lowerChar c) = isZoneChar c"
  using lowerChar_code [of c]
  by (auto simp: isDigit_def isHexDigit_def isZoneChar_def isAlnum_def isUpper_def isLower_def charCode_lits)

lemma lowerChar_sep [simp]:
  "lowerChar c = CHR '':'' \<longleftrightarrow> c = CHR '':''" "lowerChar c = CHR ''.'' \<longleftrightarrow> c = CHR ''.''"
  "lowerChar c = CHR ''%'' \<longleftrightarrow> c = CHR ''%''" "lowerChar c = CHR ''['' \<longleftrightarrow> c = CHR ''[''"
  "lowerChar c = CHR '']'' \<longleftrightarrow> c = CHR '']''" "lowerChar c = CHR ''0'' \<longleftrightarrow> c = CHR ''0''"
  using lowerChar_code [of c] by (auto simp: charCode_lits)

lemma lowerChar_digit: "isDigit c \<Longrightarrow> lowerChar c = c"
  using lowerChar_code [of c] by (auto simp: isDigit_def charCode_inj)

lemma splitChar_lower:
  "(\<And>c. lowerChar c = d \<longleftrightarrow> c = d) \<Longrightarrow> splitChar d (toLowerCase s) = map toLowerCase (splitChar d s)"
  by (induction s) (auto simp: toLowerCase_def split: list.splits)

lemma splitDouble_lower: "splitDouble (toLowerCase s) = map toLowerCase (splitDouble s)"
  by (induction s rule: splitDouble.induct) (auto simp: toLowerCase_def split: list.splits)

lemma digits_lower: "list_all isDigit w \<Longrightarrow> toLowerCase w = w"
  by (simp add: toLowerCase_def list_all_iff lowerChar_digit map_idI)

lemma isOctet_lower [simp]: "isOctet (toLowerCase w) = isOctet w"
proof (cases "list_all isDigit w")
  case True
  then show ?thesis by (simp add: digits_lower)
next
  case False
  then show ?thesis by (auto simp: isOctet_def toLowerCase_def list_all_iff)
qed

lemma isIPv4_lower: "isIPv4 (toLowerCase s) = isIPv4 s"
  by (simp add: isIPv4_def splitChar_lower list_all_iff)

lemma isHextet_lower [simp]: "isHextet (toLowerCase w) = isHextet w"
  by (simp add: isHextet_def toLowerCase_def list_all_iff)

lemma lower_Nil [simp]: "toLowerCase s = [] \<longleftrightarrow> s = []"
  by (simp add: toLowerCase_def)

lemma groupCount_lower [simp]: "groupCount b (toLowerCase s) = groupCount b s"
proof -
  have sp: "splitChar (CHR '':'') (toLowerCase s) = map toLowerCase (splitChar (CHR '':'') s)"
    by (rule splitChar_lower) simp
  have "isIPv4 (last (map toLowerCase (splitChar (CHR '':'') s))) = isIPv4 (last (splitChar (CHR '':'') s))"
    by (simp add: last_map isIPv4_lower)
  moreover have "isHextet \<circ> toLowerCase = isHextet" by (rule ext) simp
  ultimately show ?thesis by (simp add: groupCount_def sp Let_def list.pred_map flip: map_butlast)
qed

lemma isIPv6Body_lower: "isIPv6Body (toLowerCase s) = isIPv6Body s"
  by (auto simp: isIPv6Body_def splitDouble_lower split: list.splits option.splits)

lemma isIP_lower: "isIP (toLowerCase s) = isIP s"
proof -
  have z: "dropWhile (\<lambda>c. c \<noteq> CHR ''%'') (toLowerCase s) = toLowerCase (dropWhile (\<lambda>c. c \<noteq> CHR ''%'') s)"
    "takeWhile (\<lambda>c. c \<noteq> CHR ''%'') (toLowerCase s) = toLowerCase (takeWhile (\<lambda>c. c \<noteq> CHR ''%'') s)"
    by (induction s) (simp_all add: toLowerCase_def)
  have "(case toLowerCase D of [] \<Rightarrow> isIPv6Body (toLowerCase s)
        | p # zone \<Rightarrow> isIPv6Body (toLowerCase B) \<and> zone \<noteq> [] \<and> list_all isZoneChar zone)
      = (case D of [] \<Rightarrow> isIPv6Body s | p # zone \<Rightarrow> isIPv6Body B \<and> zone \<noteq> [] \<and> list_all isZoneChar zone)" for B D
    by (cases D) (simp_all only: isIPv6Body_lower, simp_all add: toLowerCase_def list_all_iff)
  then have "isIPv6 (toLowerCase s) = isIPv6 s" unfolding isIPv6_def z by simp
  then show ?thesis by (simp add: isIP_def isIPv4_lower)
qed

lemma unbracket_lower: "unbracket (toLowerCase s) = toLowerCase (unbracket s)"
proof -
  have "startsWith (toLowerCase s) ''['' = startsWith s ''[''"
    by (cases s) (simp_all add: startsWith_def toLowerCase_def)
  moreover have "endsWith (toLowerCase s) '']'' = endsWith s '']''"
    by (cases s rule: rev_cases) (simp_all add: endsWith_def toLowerCase_def)
  ultimately show ?thesis by (simp add: unbracket_def toLowerCase_def take_map drop_map)
qed

lemma parseIpv6_lower: "parseIpv6 (toLowerCase s) = parseIpv6 s"
  by (simp add: parseIpv6_def unbracket_lower)

lemma canonicalIpv6_lower: "canonicalIpv6 (toLowerCase s) = canonicalIpv6 s"
  by (simp add: canonicalIpv6_def parseIpv6_lower isIPv6Body_lower)

lemma isIPv4_chars: "isIPv4 s \<Longrightarrow> list_all (\<lambda>c. isDigit c \<or> c = CHR ''.'') s"
proof -
  assume "isIPv4 s"
  then have "list_all (list_all (\<lambda>c. isDigit c \<or> c = CHR ''.'')) (splitChar (CHR ''.'') s)"
    by (auto simp: isIPv4_def isOctet_def list_all_iff)
  then have "list_all (\<lambda>c. isDigit c \<or> c = CHR ''.'') (joinStr ''.'' (splitChar (CHR ''.'') s))"
    by (rule joinStr_all) simp
  then show ?thesis by (simp add: splitChar_join)
qed

lemma splitDouble_join: "joinStr ''::'' (splitDouble s) = s"
proof (induction s rule: splitDouble.induct)
  case (3 c d cs)
  have ne: "splitDouble x \<noteq> []" for x
    by (induction x rule: splitDouble.induct) (auto split: list.splits)
  show ?case
  proof (cases "c = CHR '':'' \<and> d = CHR '':''")
    case True
    then show ?thesis using 3(1) ne [of cs] by (cases "splitDouble cs") auto
  next
    case False
    obtain w ws where w: "splitDouble (d # cs) = w # ws" using ne [of "d # cs"] by (cases "splitDouble (d # cs)") auto
    then show ?thesis using 3(2) [OF False] False by (cases ws) auto
  qed
qed auto

definition ipChar :: "char \<Rightarrow> bool" where
  "ipChar c \<longleftrightarrow> isHexDigit c \<or> c = CHR ''.'' \<or> c = CHR '':''"

lemma groupCount_chars: "groupCount b p = Some n \<Longrightarrow> list_all ipChar p"
proof -
  assume g: "groupCount b p = Some n"
  have h: "isHextet w \<Longrightarrow> list_all ipChar w" for w by (auto simp: isHextet_def ipChar_def list_all_iff)
  have o: "isIPv4 w \<Longrightarrow> list_all ipChar w" for w
    by (drule isIPv4_chars) (auto simp: ipChar_def isHexDigit_def list_all_iff)
  let ?ws = "splitChar (CHR '':'') p"
  have "p = [] \<or> list_all (list_all ipChar) ?ws"
  proof (cases "list_all isHextet ?ws")
    case True
    then show ?thesis using h by (auto simp: list_all_iff)
  next
    case False
    then have "p = [] \<or> list_all isHextet (butlast ?ws) \<and> isIPv4 (last ?ws)"
      using g by (auto simp: groupCount_def Let_def split: if_splits)
    moreover have "list_all (list_all ipChar) (bs @ [l])" if "list_all isHextet bs" "isIPv4 l" for bs l
      using that h o by (auto simp: list_all_iff)
    from this [of "butlast ?ws" "last ?ws"]
    have "list_all isHextet (butlast ?ws) \<Longrightarrow> isIPv4 (last ?ws) \<Longrightarrow> list_all (list_all ipChar) ?ws" by simp
    ultimately show ?thesis by blast
  qed
  then show ?thesis
    using joinStr_all [of ipChar ?ws "'':''"] by (auto simp: splitChar_join ipChar_def)
qed

lemma isIPv6Body_chars: "isIPv6Body s \<Longrightarrow> list_all ipChar s"
proof -
  assume "isIPv6Body s"
  then have "list_all (list_all ipChar) (splitDouble s)"
    by (auto simp: isIPv6Body_def dest: groupCount_chars split: list.splits option.splits)
  then show ?thesis using joinStr_all [of ipChar "splitDouble s" "''::''"] by (simp add: splitDouble_join ipChar_def)
qed

lemma isIP_unbracket:
  assumes "isIP s \<noteq> 0"
  shows "unbracket s = s"
proof -
  have "\<not> startsWith s ''[''"
  proof (rule notI)
    assume "startsWith s ''[''"
    then obtain t where s: "s = CHR ''['' # t" by (auto simp: startsWith_iff)
    have c: "\<not> ipChar (CHR ''['')" "\<not> (isDigit (CHR ''['') \<or> CHR ''['' = CHR ''.'')"
      by (simp_all add: ipChar_def isHexDigit_def isDigit_def charCode_def)
    have "\<not> list_all ipChar (CHR ''['' # w)" "\<not> list_all (\<lambda>c. isDigit c \<or> c = CHR ''.'') (CHR ''['' # w)" for w
      using c by simp_all
    then have "\<not> isIPv6Body (CHR ''['' # w)" "\<not> isIPv4 (CHR ''['' # w)" for w
      using isIPv6Body_chars isIPv4_chars by blast+
    then show False using assms unfolding s isIP_def isIPv6_def by (auto split: if_splits list.splits)
  qed
  then show ?thesis by (simp add: unbracket_def)
qed

lemma classify_canonical:
  assumes "isIP u \<noteq> 0" "classifyAddress u = Some r" "canonicalAddress u = Some c"
  shows "\<exists>r'. classifyAddress c = Some r' \<and> reason r' = reason r \<and> blocked r' = blocked r
     \<and> isSyntheticTunnelAddress (address r') = isSyntheticTunnelAddress (address r) \<and> isIP c = isIP u"
proof (cases "isIP u = 6")
  case False
  then show ?thesis using assms by (auto simp: canonicalAddress_def)
next
  case True
  note u = isIP_unbracket [OF assms(1)]
  obtain gs where gs: "isIPv6Body u" "parseIpv6 u = Some gs" "c = serializeIpv6 gs" "canonicalIpv6 u = Some c"
    using assms(3) True by (auto simp: canonicalAddress_def canonicalIpv6_def split: if_splits)
  note ok = parseIpv6_ok [OF gs(2)]
  note cc = plain_steps(1) [OF serialize_chars [of gs]] serialize_isIP [OF ok] parse_serialize [OF ok] canonical_fix [OF ok]
  have syn: "\<not> isSyntheticTunnelAddress (toLowerCase u)" "\<not> isSyntheticTunnelAddress c"
    using True u cc(2) isIP_lower [of u] isIP_unbracket [of c] by (simp_all add: isSyntheticTunnelAddress_def Let_def unbracket_lower gs(3))
  have r: "classifyAddress u = (case isIpv4Mapped gs of
        Some mapped \<Rightarrow> Some ((classifyIpv4 mapped)\<lparr>version := 6, address := toLowerCase u\<rparr>)
      | None \<Rightarrow> Some \<lparr>blocked = (ipv6Reason gs c \<noteq> None), reason = ipv6Reason gs c, version = 6, address = toLowerCase u\<rparr>)"
    using True u gs by (auto simp: classifyAddress_def Let_def isIP_lower parseIpv6_lower canonicalIpv6_lower split: option.splits)
  have r': "classifyAddress c = (case isIpv4Mapped gs of
        Some mapped \<Rightarrow> Some ((classifyIpv4 mapped)\<lparr>version := 6, address := c\<rparr>)
      | None \<Rightarrow> Some \<lparr>blocked = (ipv6Reason gs c \<noteq> None), reason = ipv6Reason gs c, version = 6, address = c\<rparr>)"
    using cc by (auto simp: classifyAddress_def Let_def gs(3) split: option.splits)
  show ?thesis
    using r r' assms(2) syn True cc(2) gs(3) by (cases "isIpv4Mapped gs") auto
qed

section \<open>IPv4: the classification as address ranges\<close>

text \<open>The protected ranges in CIDR form, over the 32-bit value of an address.\<close>

definition ipv4Value :: "string \<Rightarrow> nat" where
  "ipv4Value s = foldl (\<lambda>a w. a * 256 + decimalValue w) 0 (splitChar (CHR ''.'') s)"

definition inRange :: "nat \<Rightarrow> nat \<times> nat \<times> nat \<times> nat \<times> nat \<Rightarrow> bool" where
  "inRange v = (\<lambda>(a, b, c, d, len). v div 2 ^ (32 - len) = (((a * 256 + b) * 256 + c) * 256 + d) div 2 ^ (32 - len))"

definition metadataHosts :: "(nat \<times> nat \<times> nat \<times> nat \<times> nat) list" where
  "metadataHosts = [(169,254,169,254,32), (169,254,170,2,32), (169,254,170,23,32), (100,100,100,200,32), (168,63,129,16,32)]"

definition protectedRanges :: "(nat \<times> nat \<times> nat \<times> nat \<times> nat) list" where
  "protectedRanges =
     [(0,0,0,0,8), (10,0,0,0,8), (100,64,0,0,10), (127,0,0,0,8), (169,254,0,0,16), (172,16,0,0,12),
      (192,0,0,0,24), (192,0,2,0,24), (192,88,99,0,24), (192,168,0,0,16), (198,18,0,0,15),
      (198,51,100,0,24), (203,0,113,0,24), (224,0,0,0,4), (240,0,0,0,4)]"

lemma showDec_inj: "showDec m = showDec n \<longleftrightarrow> m = n"
  using showDec_digits [of m] showDec_digits [of n] by metis

lemma showDec_head: "0 < n \<Longrightarrow> hd (showDec n) \<noteq> CHR ''0''"
proof (induction n rule: showDec.induct)
  case (1 n)
  show ?case
  proof (cases "n < 10")
    case True
    then have "charCode (digitChar n) \<noteq> 48" using "1.prems" by (simp add: digitChar_def)
    then show ?thesis using True by (simp add: showDec.simps [of n] charCode_lits)
  next
    case False
    then show ?thesis using 1 showDec_digits [of "n div 10"] by (simp add: showDec.simps [of n])
  qed
qed

text \<open>A decimal without leading zeros is determined by its value.\<close>

lemma showDec_decimalValue:
  "list_all isDigit w \<Longrightarrow> w \<noteq> [] \<Longrightarrow> length w = 1 \<or> hd w \<noteq> CHR ''0'' \<Longrightarrow> showDec (decimalValue w) = w"
proof (induction w rule: rev_induct)
  case Nil
  then show ?case by simp
next
  case (snoc c u)
  have c: "digitVal c < 10" "digitChar (digitVal c) = c"
  proof -
    have d: "48 \<le> charCode c" "charCode c \<le> 57" using snoc.prems(1) by (simp_all add: isDigit_def)
    then show "digitVal c < 10" by (simp add: digitVal_def)
    have "charCode (digitChar (digitVal c)) = charCode c" using d by (simp add: digitChar_def digitVal_def)
    then show "digitChar (digitVal c) = c" by (simp only: charCode_inj)
  qed
  show ?case
  proof (cases "u = []")
    case True
    then show ?thesis using c by (simp add: decimalValue_def showDec.simps)
  next
    case False
    then have h: "hd u \<noteq> CHR ''0''" using snoc.prems(3) by simp
    have u: "showDec (decimalValue u) = u" using snoc False h by simp
    have "decimalValue u \<noteq> 0"
    proof
      assume "decimalValue u = 0"
      then have "u = [digitChar 0]" using u by (simp add: showDec.simps [of 0])
      then show False using h by (simp add: digitChar_def charCode_lits)
    qed
    moreover have "decimalValue (u @ [c]) = decimalValue u * 10 + digitVal c" by (simp add: decimalValue_def)
    ultimately show ?thesis using u c by (simp add: showDec.simps [of "decimalValue u * 10 + digitVal c"])
  qed
qed

lemma isOctet_show: "isOctet w \<Longrightarrow> showDec (decimalValue w) = w \<and> decimalValue w < 256"
  by (auto simp: isOctet_def intro: showDec_decimalValue)

lemma isIPv4_octets:
  assumes "isIPv4 s"
  obtains a b c d where "a < 256" "b < 256" "c < 256" "d < 256"
    "map decimalValue (splitChar (CHR ''.'') s) = [a, b, c, d]"
    "s = showDec a @ ''.'' @ showDec b @ ''.'' @ showDec c @ ''.'' @ showDec d"
proof -
  have "length (splitChar (CHR ''.'') s) = 4" using assms by (simp add: isIPv4_def)
  then obtain p q r t where w: "splitChar (CHR ''.'') s = [p, q, r, t]"
    by (auto simp: numeral_eq_Suc length_Suc_conv)
  have o: "isOctet p" "isOctet q" "isOctet r" "isOctet t" using assms by (simp_all add: isIPv4_def w)
  have "s = joinStr ''.'' [p, q, r, t]" by (simp flip: w add: splitChar_join)
  then have "s = p @ ''.'' @ q @ ''.'' @ r @ ''.'' @ t" by simp
  then have "s = showDec (decimalValue p) @ ''.'' @ showDec (decimalValue q) @ ''.'' @ showDec (decimalValue r)
      @ ''.'' @ showDec (decimalValue t)" using o by (simp only: isOctet_show)
  then show ?thesis using o w
    by (intro that [of "decimalValue p" "decimalValue q" "decimalValue r" "decimalValue t"])
      (simp_all add: isOctet_show)
qed

text \<open>Shifting a four-octet value.\<close>

lemma octets_div:
  assumes "a < (256::nat)" "b < 256" "c < 256" "d < 256"
  defines "v \<equiv> ((a * 256 + b) * 256 + c) * 256 + d"
  shows "v div 256 = (a * 256 + b) * 256 + c" "v div 65536 = a * 256 + b"
    "v div 131072 = a * 128 + b div 2" "v div 1048576 = a * 16 + b div 16"
    "v div 4194304 = a * 4 + b div 64" "v div 16777216 = a" "v div 268435456 = a div 16"
proof -
  show v1: "v div 256 = (a * 256 + b) * 256 + c" using assms by simp
  have "v div 65536 = v div 256 div 256" by (simp flip: div_mult2_eq)
  then show v2: "v div 65536 = a * 256 + b" using assms(3) v1 by simp
  have d: "v div 131072 = v div 65536 div 2" "v div 1048576 = v div 65536 div 16"
    "v div 4194304 = v div 65536 div 64" "v div 16777216 = v div 65536 div 256"
    "v div 268435456 = v div 65536 div 256 div 16" by (simp_all flip: div_mult2_eq)
  have v3: "(a * 256 + b) div 256 = a" using assms(2) by simp
  have "(a * 256 + b) div 2 = a * 128 + b div 2" "(a * 256 + b) div 16 = a * 16 + b div 16"
    "(a * 256 + b) div 64 = a * 4 + b div 64" by presburger+
  then show "v div 131072 = a * 128 + b div 2" "v div 1048576 = a * 16 + b div 16"
    "v div 4194304 = a * 4 + b div 64" "v div 16777216 = a" "v div 268435456 = a div 16"
    unfolding d v2 v3 by simp_all
qed

lemma digits_eq: "r < m \<Longrightarrow> y < m \<Longrightarrow> a * m + r = x * m + y \<longleftrightarrow> a = x \<and> r = (y::nat)"
  by (metis add.commute div_less div_mult_self3 add_0 mod_less mod_mult_self3 less_nat_zero_code)

lemma inRange_octets:
  assumes "a < 256" "b < 256" "c < 256" "d < 256"
  shows "list_ex (inRange (((a * 256 + b) * 256 + c) * 256 + d)) protectedRanges
    \<longleftrightarrow> octetsReason a b c d \<noteq> None"
proof -
  note dv = octets_div [OF assms]
  have r: "a div 16 = 14 \<longleftrightarrow> 224 \<le> a \<and> a < 240" "a div 16 = 15 \<longleftrightarrow> 240 \<le> a"
    using assms by auto
  have b: "b div 2 < 128" "b div 16 < 16" "b div 64 < 4" using assms by auto
  have r1: "a * 128 + b div 2 = 25353 \<longleftrightarrow> a = 198 \<and> 18 \<le> b \<and> b \<le> 19"
  proof -
    have e: "198 * 128 + 9 = (25353::nat)" "9 < (128::nat)" by simp_all
    have "b div 2 = 9 \<longleftrightarrow> 18 \<le> b \<and> b \<le> 19" by auto
    then show ?thesis using digits_eq [OF b(1) e(2), of a 198] unfolding e(1) by (simp only:)
  qed
  have r2: "a * 16 + b div 16 = 2753 \<longleftrightarrow> a = 172 \<and> 16 \<le> b \<and> b \<le> 31"
  proof -
    have e: "172 * 16 + 1 = (2753::nat)" "1 < (16::nat)" by simp_all
    have "b div 16 = 1 \<longleftrightarrow> 16 \<le> b \<and> b \<le> 31" by auto
    then show ?thesis using digits_eq [OF b(2) e(2), of a 172] unfolding e(1) by (simp only:)
  qed
  have r3: "a * 4 + b div 64 = 401 \<longleftrightarrow> a = 100 \<and> 64 \<le> b \<and> b \<le> 127"
  proof -
    have e: "100 * 4 + 1 = (401::nat)" "1 < (4::nat)" by simp_all
    have "b div 64 = 1 \<longleftrightarrow> 64 \<le> b \<and> b \<le> 127" by auto
    then show ?thesis using digits_eq [OF b(3) e(2), of a 100] unfolding e(1) by (simp only:)
  qed
  have r4: "a * 256 + b = 43518 \<longleftrightarrow> a = 169 \<and> b = 254"
  proof -
    have e: "169 * 256 + 254 = (43518::nat)" "254 < (256::nat)" by simp_all
    show ?thesis using digits_eq [OF assms(2) e(2), of a 169] unfolding e(1) .
  qed
  have r5: "a * 256 + b = 49320 \<longleftrightarrow> a = 192 \<and> b = 168"
  proof -
    have e: "192 * 256 + 168 = (49320::nat)" "168 < (256::nat)" by simp_all
    show ?thesis using digits_eq [OF assms(2) e(2), of a 192] unfolding e(1) .
  qed
  note r' = r1 r2 r3 r4 r5
  have t: "(a * 256 + b) * 256 + c = (x * 256 + y) * 256 + z \<longleftrightarrow> a = x \<and> b = y \<and> c = z"
    if "x < 256" "y < 256" "z < 256" for x y z
    using digits_eq [OF assms(3) that(3), of "a * 256 + b" "x * 256 + y"] digits_eq [OF assms(2) that(2), of a x]
    by (simp only: conj_assoc)
  have t1: "(a * 256 + b) * 256 + c = 12582912 \<longleftrightarrow> a = 192 \<and> b = 0 \<and> c = 0"
  proof -
    have e: "(192 * 256 + 0) * 256 + 0 = (12582912::nat)" by simp
    show ?thesis using t [of 192 0 0] unfolding e by simp
  qed
  have t2: "(a * 256 + b) * 256 + c = 12582914 \<longleftrightarrow> a = 192 \<and> b = 0 \<and> c = 2"
  proof -
    have e: "(192 * 256 + 0) * 256 + 2 = (12582914::nat)" by simp
    show ?thesis using t [of 192 0 2] unfolding e by simp
  qed
  have t3: "(a * 256 + b) * 256 + c = 12605539 \<longleftrightarrow> a = 192 \<and> b = 88 \<and> c = 99"
  proof -
    have e: "(192 * 256 + 88) * 256 + 99 = (12605539::nat)" by simp
    show ?thesis using t [of 192 88 99] unfolding e by simp
  qed
  have t4: "(a * 256 + b) * 256 + c = 12989284 \<longleftrightarrow> a = 198 \<and> b = 51 \<and> c = 100"
  proof -
    have e: "(198 * 256 + 51) * 256 + 100 = (12989284::nat)" by simp
    show ?thesis using t [of 198 51 100] unfolding e by simp
  qed
  have t5: "(a * 256 + b) * 256 + c = 13303921 \<longleftrightarrow> a = 203 \<and> b = 0 \<and> c = 113"
  proof -
    have e: "(203 * 256 + 0) * 256 + 113 = (13303921::nat)" by simp
    show ?thesis using t [of 203 0 113] unfolding e by simp
  qed
  note t' = t1 t2 t3 t4 t5
  have l: "list_ex (inRange (((a * 256 + b) * 256 + c) * 256 + d)) protectedRanges \<longleftrightarrow>
      a = 0 \<or> a = 10 \<or> (a = 100 \<and> 64 \<le> b \<and> b \<le> 127) \<or> a = 127 \<or> (a = 169 \<and> b = 254)
      \<or> (a = 172 \<and> 16 \<le> b \<and> b \<le> 31) \<or> (a = 192 \<and> b = 0 \<and> c = 0) \<or> (a = 192 \<and> b = 0 \<and> c = 2)
      \<or> (a = 192 \<and> b = 88 \<and> c = 99) \<or> (a = 192 \<and> b = 168) \<or> (a = 198 \<and> 18 \<le> b \<and> b \<le> 19)
      \<or> (a = 198 \<and> b = 51 \<and> c = 100) \<or> (a = 203 \<and> b = 0 \<and> c = 113) \<or> (224 \<le> a \<and> a < 240) \<or> 240 \<le> a"
  proof -
    define v where "v = ((a * 256 + b) * 256 + c) * 256 + d"
    have "list_ex (inRange v) protectedRanges \<longleftrightarrow>
        v div 16777216 = 0 \<or> v div 16777216 = 10 \<or> v div 4194304 = 401 \<or> v div 16777216 = 127
        \<or> v div 65536 = 43518 \<or> v div 1048576 = 2753 \<or> v div 256 = 12582912 \<or> v div 256 = 12582914
        \<or> v div 256 = 12605539 \<or> v div 65536 = 49320 \<or> v div 131072 = 25353 \<or> v div 256 = 12989284
        \<or> v div 256 = 13303921 \<or> v div 268435456 = 14 \<or> v div 268435456 = 15"
      by (simp add: protectedRanges_def inRange_def)
    then show ?thesis unfolding v_def dv r r' t' .
  qed
  let ?v = "((int a * 256 + int b) * 256 + int c) * 256 + int d"
  have "?v mod 2 ^ 32 = ?v" using assms by (intro mod_pos_pos_trivial) auto
  moreover have "240 \<le> a" if "?v = 0xffffffff"
  proof -
    have "int b \<le> 255" "int c \<le> 255" "int d \<le> 255" using assms by simp_all
    then have "240 \<le> int a" using that by (simp add: algebra_simps)
    then show ?thesis by simp
  qed
  ultimately have m: "?v mod 2 ^ 32 = 0xffffffff \<Longrightarrow> 240 \<le> a" by simp
  show ?thesis unfolding l octetsReason_def Let_def using m by auto
qed

text \<open>The string set of metadata addresses, by value.\<close>

lemma ipv4Value_octets:
  "map decimalValue (splitChar (CHR ''.'') s) = [a, b, c, d] \<Longrightarrow> ipv4Value s = ((a * 256 + b) * 256 + c) * 256 + d"
proof -
  assume m: "map decimalValue (splitChar (CHR ''.'') s) = [a, b, c, d]"
  have "ipv4Value s = foldl (\<lambda>x y. x * 256 + y) 0 (map decimalValue (splitChar (CHR ''.'') s))"
    by (simp add: ipv4Value_def foldl_map)
  then show ?thesis unfolding m by simp
qed

lemma ipv4Value_inj:
  assumes "isIPv4 s" "isIPv4 t"
  shows "ipv4Value s = ipv4Value t \<longleftrightarrow> s = t"
proof
  assume eq: "ipv4Value s = ipv4Value t"
  obtain a b c d where s: "a < 256" "b < 256" "c < 256" "d < 256"
    "map decimalValue (splitChar (CHR ''.'') s) = [a, b, c, d]"
    "s = showDec a @ ''.'' @ showDec b @ ''.'' @ showDec c @ ''.'' @ showDec d"
    by (rule isIPv4_octets [OF assms(1)])
  obtain a' b' c' d' where t: "a' < 256" "b' < 256" "c' < 256" "d' < 256"
    "map decimalValue (splitChar (CHR ''.'') t) = [a', b', c', d']"
    "t = showDec a' @ ''.'' @ showDec b' @ ''.'' @ showDec c' @ ''.'' @ showDec d'"
    by (rule isIPv4_octets [OF assms(2)])
  have "((a * 256 + b) * 256 + c) * 256 + d = ((a' * 256 + b') * 256 + c') * 256 + d'"
    using eq ipv4Value_octets [OF s(5)] ipv4Value_octets [OF t(5)] by simp
  then have "a = a'" "b = b'" "c = c'" "d = d'"
    using digits_eq [OF s(4) t(4), of "(a * 256 + b) * 256 + c" "(a' * 256 + b') * 256 + c'"]
      digits_eq [OF s(3) t(3), of "a * 256 + b" "a' * 256 + b'"] digits_eq [OF s(2) t(2), of a a'] by blast+
  then show "s = t" using s(6) t(6) by simp
qed simp

lemma metadata_literals:
  "list_all isIPv4 METADATA_IPV4" "map ipv4Value METADATA_IPV4 = [2852039166, 2852039170, 2852039191, 1684301000, 2822734096]"
  by (simp_all add: METADATA_IPV4_def isIPv4_def isOctet_def isDigit_def charCode_def decimalValue_def digitVal_def
      ipv4Value_def)

lemma metadata_hosts:
  assumes "isIPv4 s"
  shows "List.member METADATA_IPV4 s \<longleftrightarrow> list_ex (inRange (ipv4Value s)) metadataHosts"
proof -
  have "List.member METADATA_IPV4 s \<longleftrightarrow> List.member (map ipv4Value METADATA_IPV4) (ipv4Value s)"
    using ipv4Value_inj [OF assms] metadata_literals(1) by (auto simp: list_all_iff)
  also have "\<dots> \<longleftrightarrow> list_ex (inRange (ipv4Value s)) metadataHosts"
    unfolding metadata_literals(2) by (simp add: metadataHosts_def inRange_def)
  finally show ?thesis .
qed

text \<open>C13. The classification of an IPv4 literal is exactly its membership in the protected address blocks: it is blocked
  iff its 32-bit value lies in one of the reserved, private, loopback, link-local, multicast or shared blocks or is a
  cloud metadata address, and only the latter are reported as metadata.\<close>

theorem ipv4_blocked_iff:
  assumes "isIPv4 s"
  shows "(blocked (classifyIpv4 s) \<longleftrightarrow> list_ex (inRange (ipv4Value s)) (metadataHosts @ protectedRanges))
    \<and> (reason (classifyIpv4 s) = Some Metadata \<longleftrightarrow> list_ex (inRange (ipv4Value s)) metadataHosts)"
proof -
  obtain a b c d where o: "a < 256" "b < 256" "c < 256" "d < 256"
    "map decimalValue (splitChar (CHR ''.'') s) = [a, b, c, d]"
    by (rule isIPv4_octets [OF assms])
  have r: "reason (classifyIpv4 s) = (if List.member METADATA_IPV4 s then Some Metadata else octetsReason a b c d)"
    "blocked (classifyIpv4 s) \<longleftrightarrow> reason (classifyIpv4 s) \<noteq> None"
    unfolding classifyIpv4_def o(5) by (simp_all add: Let_def)
  have "octetsReason a b c d \<noteq> Some Metadata" by (simp add: octetsReason_def Let_def)
  then show ?thesis
    using inRange_octets [OF o(1-4)] ipv4Value_octets [OF o(5)] metadata_hosts [OF assms] r by auto
qed

lemma ipv4_blocked_iff_witness:
  "blocked (classifyIpv4 ''172.31.0.1'') \<longleftrightarrow> list_ex (inRange (ipv4Value ''172.31.0.1'')) (metadataHosts @ protectedRanges)"
  using ipv4_blocked_iff [of "''172.31.0.1''"]
  by (simp add: isIPv4_def isOctet_def isDigit_def charCode_def decimalValue_def digitVal_def)

text \<open>The canonical form of an IPv6 address is a fixed point and loses nothing: the eight groups print to a text that
  \<open>net.isIP\<close> accepts, that the policy's parser reads back as the same groups and that canonicalises to itself.\<close>

lemma ipv6_canonical_roundtrip:
  assumes "length gs = 8" "list_all (\<lambda>g. g < 65536) gs"
  shows "isIP (serializeIpv6 gs) = 6 \<and> parseIpv6 (serializeIpv6 gs) = Some gs
    \<and> canonicalIpv6 (serializeIpv6 gs) = Some (serializeIpv6 gs)"
  using assms serialize_isIP parse_serialize canonical_fix by (simp add: groupsOk_def)

lemma ipv6_canonical_roundtrip_witness:
  "parseIpv6 (serializeIpv6 [0xfe80, 0, 0, 0, 1, 0, 0, 0xabcd]) = Some [0xfe80, 0, 0, 0, 1, 0, 0, 0xabcd]"
  using ipv6_canonical_roundtrip [of "[0xfe80, 0, 0, 0, 1, 0, 0, 0xabcd]"] by simp

end
