(* ===== verification/HostRules.thy ===== *)
theory HostRules
  imports IpAddress
begin

text \<open>
  Host rules of \<open>src/config.ts\<close>: exact hosts and single-label wildcards, normalised to
  lower-case ASCII.  \<open>domainToASCII\<close> of \<open>node:url\<close> is a parameter, a function on texts.
\<close>

section \<open>Definitions\<close>

text \<open>What the functions throw: a configuration error, or the raw error of \<open>new URL\<close>.\<close>

datatype configFault = ConfigError (faultField: string) (faultReason: string) | UrlThrows

definition configError :: "string \<Rightarrow> string \<Rightarrow> configFault" where
  "configError field r = ConfigError field r"

text \<open>\<open>s.replace(/\.$/, '')\<close>\<close>

definition stripDot :: "string \<Rightarrow> string" where
  "stripDot s = (if s \<noteq> [] \<and> last s = CHR ''.'' then butlast s else s)"

definition isLabelChar :: "char \<Rightarrow> bool" where
  "isLabelChar c \<longleftrightarrow> isDigit c \<or> isLower c"

definition HOST_LABEL :: "string \<Rightarrow> bool" where
  "HOST_LABEL w \<longleftrightarrow> w \<noteq> [] \<and> length w \<le> 63 \<and> isLabelChar (hd w) \<and> isLabelChar (last w)
     \<and> list_all (\<lambda>c. isLabelChar c \<or> c = CHR ''-'') w"

definition IPV6_BRACKET :: "string \<Rightarrow> string option" where
  "IPV6_BRACKET v =
     (let body = take (length v - 2) (drop 1 v) in
      if startsWith v ''['' \<and> endsWith v '']'' \<and> 3 \<le> length v
         \<and> CHR ''['' \<notin> set body \<and> CHR '']'' \<notin> set body
      then Some body else None)"

definition canonicalIpv6Host :: "string \<Rightarrow> configFault + string" where
  "canonicalIpv6Host addr =
     (case canonicalIpv6 addr of None \<Rightarrow> Inl UrlThrows | Some c \<Rightarrow> Inr (''['' @ c @ '']''))"

definition isIpLiteralRule :: "string \<Rightarrow> bool" where
  "isIpLiteralRule v =
     (if startsWith v ''['' \<and> endsWith v '']'' then isIPv6 (take (length v - 2) (drop 1 v))
      else isIPv4 v \<or> isIPv6 v)"

definition normalizeHost :: "(string \<Rightarrow> string) \<Rightarrow> string \<Rightarrow> configFault + string" where
  "normalizeHost toASCII raw =
     (let v = trim raw;
          bad = (\<lambda>r. Inl (configError ''BROWSER_ALLOWED_HOSTS'' r)) in
      if v = [] \<or> CHR ''/'' \<in> set v \<or> CHR ''?'' \<in> set v \<or> CHR ''#'' \<in> set v
      then bad ''host rules must contain a hostname only''
      else if CHR '':'' \<in> set v \<and> IPV6_BRACKET v = None \<and> \<not> isIPv4 v \<and> \<not> isIPv6 v
      then bad ''ports are not allowed in host rules''
      else (case IPV6_BRACKET v of
        Some addr \<Rightarrow> if isIPv6 addr then canonicalIpv6Host addr else bad ''invalid IPv6 host rule''
      | None \<Rightarrow>
          if isIPv6 v then canonicalIpv6Host v
          else if isIPv4 v then Inr v
          else
            (let ascii = stripDot (toLowerCase (toASCII v)) in
             if ascii = [] \<or> length ascii > 253 \<or> includesStr ascii ''..'' then bad ''invalid hostname''
             else if list_ex (\<lambda>label. label = [] \<or> length label > 63 \<or> \<not> HOST_LABEL label) (splitChar (CHR ''.'') ascii)
             then bad ''invalid hostname label''
             else Inr ascii)))"

definition normalizeHostPattern :: "(string \<Rightarrow> string) \<Rightarrow> jsval \<Rightarrow> configFault + string" where
  "normalizeHostPattern toASCII raw =
     (let bad = (\<lambda>r. Inl (configError ''BROWSER_ALLOWED_HOSTS'' r)) in
      case raw of
        JStr s \<Rightarrow>
          (let v = trim s in
           if v = [] then bad ''host rule is empty''
           else if v = ''*'' then bad ''bare wildcard is not allowed''
           else if startsWith v ''*.'' then
             (case normalizeHost toASCII (drop 2 v) of
                Inl e \<Rightarrow> Inl e
              | Inr base \<Rightarrow>
                  if isIpLiteralRule base then bad ''wildcards cannot target an IP literal''
                  else if length (splitChar (CHR ''.'') base) < 2
                  then bad ''wildcards must target a registrable-style domain''
                  else Inr (''*.'' @ base))
           else if CHR ''*'' \<in> set v then bad ''wildcards must use the *.example.com form''
           else normalizeHost toASCII v)
      | _ \<Rightarrow> bad ''host rule must be text'')"

text \<open>The loop of \<open>parseHostList\<close>: errors of a rule are reported for the list's own field.\<close>

fun normalizeRules :: "(string \<Rightarrow> string) \<Rightarrow> string \<Rightarrow> string list \<Rightarrow> string list \<Rightarrow> configFault + string list" where
  "normalizeRules toASCII field [] result = Inr result"
| "normalizeRules toASCII field (v # vs) result =
     (case normalizeHostPattern toASCII (JStr v) of
        Inl (ConfigError f r) \<Rightarrow>
          Inl (if f = ''BROWSER_ALLOWED_HOSTS'' then ConfigError field r else ConfigError f r)
      | Inl UrlThrows \<Rightarrow> Inl UrlThrows
      | Inr n \<Rightarrow> normalizeRules toASCII field vs (if List.member result n then result else result @ [n]))"

definition parseHostList :: "(string \<Rightarrow> string) \<Rightarrow> jsval \<Rightarrow> string \<Rightarrow> configFault + string list" where
  "parseHostList toASCII raw field =
     (case raw of
        JStr s \<Rightarrow>
          if trim s = [] then Inl (configError field ''at least one host rule is required'')
          else
            (let vs = map trim (splitChar (CHR '','') s) in
             if list_ex (\<lambda>v. v = []) vs then Inl (configError field ''empty host rules are not allowed'')
             else normalizeRules toASCII field vs [])
      | _ \<Rightarrow> Inl (configError field ''at least one host rule is required''))"

section \<open>What a rule list contains\<close>

text \<open>A normalised rule: an IPv4, a bracketed canonical IPv6, a host name, or a wildcard over one.\<close>

definition hostName :: "string \<Rightarrow> bool" where
  "hostName s \<longleftrightarrow> s \<noteq> [] \<and> length s \<le> 253 \<and> list_all HOST_LABEL (splitChar (CHR ''.'') s)"

definition bracketed :: "string \<Rightarrow> bool" where
  "bracketed s \<longleftrightarrow> (\<exists>gs. groupsOk gs \<and> s = ''['' @ serializeIpv6 gs @ '']'')"

definition exactRule :: "string \<Rightarrow> bool" where
  "exactRule s \<longleftrightarrow> isIPv4 s \<or> bracketed s \<or> hostName s"

definition wildcardRule :: "string \<Rightarrow> bool" where
  "wildcardRule s \<longleftrightarrow> (\<exists>b. s = ''*.'' @ b \<and> hostName b \<and> 2 \<le> length (splitChar (CHR ''.'') b))"

lemma canonicalIpv6Host_bracketed: "canonicalIpv6Host a = Inr h \<Longrightarrow> bracketed h"
  by (auto simp: canonicalIpv6Host_def bracketed_def canonicalIpv6_def dest: parseIpv6_ok split: option.splits if_splits)

lemma normalizeHost_exact:
  "normalizeHost toASCII raw = Inr h \<Longrightarrow> exactRule h"
  by (auto simp: normalizeHost_def Let_def exactRule_def hostName_def list_all_iff list_ex_iff
      dest: canonicalIpv6Host_bracketed split: if_splits option.splits)

lemma bracketed_literal: "bracketed h \<Longrightarrow> isIpLiteralRule h"
proof -
  assume "bracketed h"
  then obtain gs where g: "groupsOk gs" "h = ''['' @ serializeIpv6 gs @ '']''" by (auto simp: bracketed_def)
  have "startsWith h ''[''" "endsWith h '']''" unfolding g(2) by (simp_all add: startsWith_def endsWith_def)
  moreover have "take (length h - 2) (drop 1 h) = serializeIpv6 gs" by (simp add: g(2))
  moreover have "isIPv6 (serializeIpv6 gs)" using serialize_isIP [OF g(1)] by (simp add: isIP_def split: if_splits)
  ultimately show ?thesis by (simp add: isIpLiteralRule_def)
qed

lemma normalizeHostPattern_rule:
  assumes "normalizeHostPattern toASCII raw = Inr p"
  shows "exactRule p \<or> wildcardRule p"
proof (cases raw)
  case (JStr s)
  show ?thesis
  proof (cases "startsWith (trim s) ''*.''")
    case True
    then obtain b where b: "normalizeHost toASCII (drop 2 (trim s)) = Inr b" "p = ''*.'' @ b"
      "\<not> isIpLiteralRule b" "2 \<le> length (splitChar (CHR ''.'') b)"
      using assms JStr by (auto simp: normalizeHostPattern_def Let_def split: if_splits sum.splits)
    have "\<not> bracketed b" using bracketed_literal b(3) by blast
    moreover have "\<not> isIPv4 b"
    proof
      assume v: "isIPv4 b"
      have "\<not> startsWith b ''[''"
        using isIPv4_chars [OF v] by (cases b) (auto simp: startsWith_def isDigit_def charCode_def)
      then show False using b(3) v by (simp add: isIpLiteralRule_def)
    qed
    ultimately have "hostName b" using normalizeHost_exact [OF b(1)] by (simp add: exactRule_def)
    then show ?thesis using b by (auto simp: wildcardRule_def)
  next
    case False
    then show ?thesis using assms JStr
      by (auto simp: normalizeHostPattern_def Let_def dest: normalizeHost_exact split: if_splits sum.splits)
  qed
qed (use assms in \<open>simp_all add: normalizeHostPattern_def Let_def\<close>)

lemma normalizeRules_rules:
  "normalizeRules toASCII field vs acc = Inr rules \<Longrightarrow> distinct acc \<Longrightarrow>
     list_all (\<lambda>p. exactRule p \<or> wildcardRule p) acc \<Longrightarrow>
     distinct rules \<and> list_all (\<lambda>p. exactRule p \<or> wildcardRule p) rules \<and> (vs \<noteq> [] \<or> acc \<noteq> [] \<longrightarrow> rules \<noteq> [])"
proof (induction vs arbitrary: acc)
  case (Cons v vs)
  then obtain n where n: "normalizeHostPattern toASCII (JStr v) = Inr n"
    by (auto split: sum.splits configFault.splits)
  have "exactRule n \<or> wildcardRule n" by (rule normalizeHostPattern_rule [OF n])
  then show ?case
    using Cons.prems Cons.IH [of "if List.member acc n then acc else acc @ [n]"] n by (auto split: if_splits)
qed auto

text \<open>
  \<open>net.isIPv6\<close> accepts a zone identifier, which \<open>new URL\<close> rejects: such a rule does not give a
  configuration error but the raw error of the URL parser.
\<close>

lemma zone_literal_throws:
  "isIPv6 ''fe80::1%eth0'' \<and> normalizeHost id ''fe80::1%eth0'' = Inl UrlThrows"
  by code_simp

text \<open>A configured rule list is never empty and never over-broad: when it is accepted it holds at least one rule, no
  rule twice, and each is an IP literal, a host name of well-formed labels, or a wildcard for one label below a name
  of at least two labels; in particular no bare wildcard and no wildcard over a single label or an address.\<close>

lemma host_rules_well_formed:
  assumes "parseHostList toASCII raw field = Inr rules"
  shows "rules \<noteq> [] \<and> distinct rules \<and> list_all (\<lambda>p. exactRule p \<or> wildcardRule p) rules"
proof -
  obtain s where "normalizeRules toASCII field (map trim (splitChar (CHR '','') s)) [] = Inr rules"
    using assms by (auto simp: parseHostList_def Let_def split: jsval.splits if_splits)
  then show ?thesis using normalizeRules_rules by fastforce
qed

lemma host_rules_example:
  "parseHostList id (JStr '' *.Ex.com., 10.0.0.1,*.ex.com'') ''x'' = Inr [''*.ex.com'', ''10.0.0.1'']"
  by code_simp

end
