(* ===== verification/UrlPolicy.thy ===== *)
theory UrlPolicy
  imports HostRules Domain
begin

text \<open>
  The destination policy of \<open>src/policy/url-policy.ts\<close>: \<open>UrlPolicy\<close> with its DNS cache, host
  matching and the check of every resolved address.

  Three pieces of the platform are parameters, gathered in \<open>platform\<close>: \<open>new URL\<close> (a function
  from a text to the parts the policy reads, \<open>None\<close> when it throws), \<open>domainToASCII\<close>, and the
  system resolver.  An injected resolver is a value of \<open>dnsResolver\<close>.  Promises are values: an
  answer is a list of dynamic entries, another value, or a rejection.
\<close>

section \<open>State and parameters\<close>

record parsedUrl =
  uProtocol :: string
  uUsername :: string
  uPassword :: string
  uHostname :: string

datatype dnsAnswer = DnsThrows | DnsList "jsval list" | DnsOther

datatype dnsResolver =
    ResolverFn "string \<Rightarrow> dnsAnswer"
  | ResolverObj "(string \<Rightarrow> dnsAnswer) option" "(string \<Rightarrow> dnsAnswer) option"
                "(string \<Rightarrow> dnsAnswer) option" "(string \<Rightarrow> dnsAnswer) option"

record platform =
  newURL :: "string \<Rightarrow> parsedUrl option"
  domainToASCII :: "string \<Rightarrow> string"
  dnsLookup :: "string \<Rightarrow> dnsAnswer"

record urlPolicy =
  allowedHosts :: "string list"
  resourceHosts :: "string list"
  allowHttp :: bool
  allowPrivateNetwork :: bool
  allowSyntheticTunnel :: bool
  resolver :: "dnsResolver option"
  safeDnsCache :: "(string, string list \<times> rat) omap"

datatype urlPurpose = Navigation | Resource

text \<open>A policy error with its reason, purpose and host; \<open>RawFault\<close> is any other throw.\<close>

datatype policyFault =
    PolicyFault errorCode "string option" "urlPurpose option" "string option"
  | RawFault

definition privateNetworkError :: "addressReason \<Rightarrow> urlPurpose \<Rightarrow> string \<Rightarrow> policyFault" where
  "privateNetworkError r purpose host =
     PolicyFault E_PRIVATE_NETWORK_DENIED
       (Some (case r of Loopback \<Rightarrow> ''loopback'' | PrivateNet \<Rightarrow> ''private'' | LinkLocal \<Rightarrow> ''link-local''
              | Multicast \<Rightarrow> ''multicast'' | Reserved \<Rightarrow> ''reserved'' | Metadata \<Rightarrow> ''metadata''))
       (Some purpose) (Some host)"

definition policyError :: "errorCode \<Rightarrow> string \<Rightarrow> urlPurpose \<Rightarrow> policyFault" where
  "policyError code r purpose = PolicyFault code (Some r) (Some purpose) None"

definition networkBlocked :: "string \<Rightarrow> urlPurpose \<Rightarrow> string \<Rightarrow> policyFault" where
  "networkBlocked r purpose host = PolicyFault E_NETWORK_BLOCKED (Some r) (Some purpose) (Some host)"

definition MAX_URL_LENGTH :: nat where "MAX_URL_LENGTH = 2048"

definition HOSTNAME_BLOCKLIST :: "string list" where
  "HOSTNAME_BLOCKLIST = [''localhost'', ''localhost.localdomain'', ''ip6-localhost'']"

definition METADATA_HOSTNAMES :: "string list" where
  "METADATA_HOSTNAMES =
     [''metadata'', ''metadata.google.internal'', ''metadata.google'', ''instance-data.ec2.internal'',
      ''metadata.azure.internal'']"

section \<open>Hosts\<close>

text \<open>\<open>None\<close> where \<open>new URL\<close> throws on an IPv6 literal with a zone.\<close>

definition canonicalUrlHost :: "platform \<Rightarrow> string \<Rightarrow> string option" where
  "canonicalUrlHost pf rawHost =
     (let host = stripDot (toLowerCase (unbracket rawHost)) in
      if host = [] then Some []
      else if isIP host = 6 then map_option (\<lambda>c. ''['' @ c @ '']'') (canonicalIpv6 host)
      else if isIP host = 4 then Some host
      else Some (stripDot (toLowerCase (domainToASCII pf host))))"

fun compilePatterns :: "platform \<Rightarrow> string list \<Rightarrow> configFault + (string list \<times> (string \<times> nat) list)" where
  "compilePatterns pf [] = Inr ([], [])"
| "compilePatterns pf (p # ps) =
     (case normalizeHostPattern (domainToASCII pf) (JStr p) of
        Inl e \<Rightarrow> Inl e
      | Inr n \<Rightarrow>
          (case compilePatterns pf ps of
             Inl e \<Rightarrow> Inl e
           | Inr (exact, wildcards) \<Rightarrow>
               if startsWith n ''*.'' then
                 (let suffix = drop 2 n in
                  Inr (exact, (suffix, length (splitChar (CHR ''.'') suffix)) # wildcards))
               else Inr (n # exact, wildcards)))"

definition matchesHost :: "platform \<Rightarrow> string \<Rightarrow> string list \<Rightarrow> policyFault + bool" where
  "matchesHost pf host patterns =
     (case canonicalUrlHost pf host of
        None \<Rightarrow> Inl RawFault
      | Some candidate \<Rightarrow>
          if candidate = [] then Inr False
          else
            (case compilePatterns pf patterns of
               Inl e \<Rightarrow> Inl RawFault
             | Inr (exact, wildcards) \<Rightarrow>
                 if List.member exact candidate then Inr True
                 else
                   (let candidateLabels = length (splitChar (CHR ''.'') candidate) in
                    Inr (list_ex (\<lambda>(suffix, suffixLabelCount).
                       candidate \<noteq> suffix \<and> endsWith candidate (''.'' @ suffix)
                       \<and> candidateLabels = suffixLabelCount + 1) wildcards))))"

definition classifyHostname :: "string \<Rightarrow> addressReason option" where
  "classifyHostname host =
     (let n = stripDot (toLowerCase (unbracket host)) in
      if List.member METADATA_HOSTNAMES n \<or> endsWith n ''.metadata.google.internal''
         \<or> endsWith n ''.instance-data.ec2.internal'' \<or> endsWith n ''.metadata.azure.internal''
      then Some Metadata
      else if List.member HOSTNAME_BLOCKLIST n \<or> endsWith n ''.localhost'' then Some Loopback
      else None)"

section \<open>Construction\<close>

fun normalizePatterns :: "platform \<Rightarrow> jsval list \<Rightarrow> configFault + string list" where
  "normalizePatterns pf [] = Inr []"
| "normalizePatterns pf (h # hs) =
     (case normalizeHostPattern (domainToASCII pf) h of
        Inl e \<Rightarrow> Inl e
      | Inr n \<Rightarrow> (case normalizePatterns pf hs of Inl e \<Rightarrow> Inl e | Inr ns \<Rightarrow> Inr (n # ns)))"

text \<open>The options that \<open>??\<close> leaves undefined are false; \<open>chosen\<close> is the resolver the constructor settles on.\<close>

definition newUrlPolicy ::
  "platform \<Rightarrow> jsval list \<Rightarrow> jsval list option \<Rightarrow> bool option \<Rightarrow> bool option \<Rightarrow> bool option \<Rightarrow> dnsResolver option list
    \<Rightarrow> configFault + urlPolicy" where
  "newUrlPolicy pf hosts resources http priv tunnel resolvers =
     (case normalizePatterns pf hosts of
        Inl e \<Rightarrow> Inl e
      | Inr allowed \<Rightarrow>
          (case normalizePatterns pf (case resources of
                  Some (r # rs) \<Rightarrow> r # rs | _ \<Rightarrow> map JStr allowed) of
             Inl e \<Rightarrow> Inl e
           | Inr resourceRules \<Rightarrow>
               Inr \<lparr>allowedHosts = allowed, resourceHosts = resourceRules,
                    allowHttp = (case http of Some b \<Rightarrow> b | None \<Rightarrow> False),
                    allowPrivateNetwork = (case priv of Some b \<Rightarrow> b | None \<Rightarrow> False),
                    allowSyntheticTunnel = (case tunnel of Some b \<Rightarrow> b | None \<Rightarrow> False),
                    resolver = foldl (\<lambda>acc r. case r of Some f \<Rightarrow> Some f | None \<Rightarrow> acc) None resolvers,
                    safeDnsCache = []\<rparr>))"

definition clearDnsCache :: "urlPolicy \<Rightarrow> urlPolicy" where
  "clearDnsCache p = p\<lparr>safeDnsCache := []\<rparr>"

section \<open>Resolution\<close>

fun spread :: "dnsAnswer \<Rightarrow> jsval list option" where
  "spread (DnsList xs) = Some xs"
| "spread _ = None"

definition resolveHost :: "platform \<Rightarrow> urlPolicy \<Rightarrow> string \<Rightarrow> dnsAnswer" where
  "resolveHost pf p hostname =
     (case resolver p of
        Some (ResolverFn f) \<Rightarrow> f hostname
      | Some (ResolverObj look res res4 res6) \<Rightarrow>
          (case (look, res) of
             (Some f, _) \<Rightarrow> f hostname
           | (None, Some f) \<Rightarrow> f hostname
           | (None, None) \<Rightarrow>
               (case (case res4 of None \<Rightarrow> Some [] | Some f \<Rightarrow> spread (f hostname)) of
                  None \<Rightarrow> DnsThrows
                | Some xs \<Rightarrow>
                    (case (case res6 of None \<Rightarrow> Some [] | Some f \<Rightarrow> spread (f hostname)) of
                       None \<Rightarrow> DnsThrows
                     | Some ys \<Rightarrow> DnsList (xs @ ys))))
      | None \<Rightarrow> dnsLookup pf hostname)"

definition isPrivateException :: "urlPolicy \<Rightarrow> addressClassification \<Rightarrow> bool" where
  "isPrivateException p c =
     (if allowSyntheticTunnel p \<and> isSyntheticTunnelAddress (address c) then reason c = Some Reserved
      else allowPrivateNetwork p \<and> reason c \<noteq> Some Metadata)"

definition reasonOr :: "addressClassification \<Rightarrow> addressReason" where
  "reasonOr c = (case reason c of Some r \<Rightarrow> r | None \<Rightarrow> Reserved)"

text \<open>The loop over the answers: all are checked before any is used.\<close>

fun approveAnswers :: "urlPolicy \<Rightarrow> urlPurpose \<Rightarrow> string \<Rightarrow> jsval list \<Rightarrow> policyFault + string list" where
  "approveAnswers p purpose host [] = Inr []"
| "approveAnswers p purpose host (entry # rest) =
     (if entry = JUndef \<or> entry = JNull then Inl RawFault
      else
        (case (case entry of JStr s \<Rightarrow> JStr s | _ \<Rightarrow> getProp entry ''address'') of
           JStr addr \<Rightarrow>
             if isIP (unbracket addr) = 0 then Inl (networkBlocked ''dns-invalid-address'' purpose host)
             else
               (case classifyAddress (unbracket addr) of
                  None \<Rightarrow> Inl RawFault
                | Some c \<Rightarrow>
                    if blocked c \<and> \<not> isPrivateException p c
                    then Inl (privateNetworkError (reasonOr c) purpose host)
                    else
                      (case canonicalAddress (unbracket addr) of
                         None \<Rightarrow> Inl RawFault
                       | Some a \<Rightarrow>
                           (case approveAnswers p purpose host rest of
                              Inl e \<Rightarrow> Inl e
                            | Inr others \<Rightarrow> Inr (a # others))))
         | _ \<Rightarrow> Inl (networkBlocked ''dns-invalid-address'' purpose host)))"

definition effectivePurpose :: "jsval \<Rightarrow> policyFault + urlPurpose" where
  "effectivePurpose purpose =
     (case purpose of
        JUndef \<Rightarrow> Inr Navigation
      | JStr s \<Rightarrow>
          if s = ''navigation'' then Inr Navigation else if s = ''resource'' then Inr Resource
          else Inl (policyError E_INVALID_INPUT ''invalid-purpose'' Navigation)
      | JObj ps \<Rightarrow>
          if \<not> hasProp purpose ''resource'' then Inr Navigation
          else (case getProp purpose ''resource'' of
                  JBool b \<Rightarrow> Inr (if b then Resource else Navigation)
                | _ \<Rightarrow> Inl (policyError E_INVALID_INPUT ''invalid-purpose'' Navigation))
      | JArr xs \<Rightarrow> Inr Navigation
      | _ \<Rightarrow> Inl (policyError E_INVALID_INPUT ''invalid-purpose'' Navigation))"

text \<open>The checks on the text of the URL, its scheme, user info and host.\<close>

definition checkUrl :: "platform \<Rightarrow> urlPolicy \<Rightarrow> jsval \<Rightarrow> urlPurpose \<Rightarrow> policyFault + (parsedUrl \<times> string)" where
  "checkUrl pf p rawUrl purpose =
     (let bad = (\<lambda>r. Inl (policyError E_NAVIGATION_BLOCKED r purpose)) in
      case rawUrl of
        JStr raw \<Rightarrow>
          if raw = [] \<or> length raw > MAX_URL_LENGTH then bad ''invalid-url''
          else if trim raw \<noteq> raw \<or> list_ex isControl raw then bad ''invalid-url''
          else
            (case newURL pf raw of
               None \<Rightarrow> bad ''invalid-url''
             | Some url \<Rightarrow>
                 (let protocol = toLowerCase (uProtocol url) in
                  if protocol \<noteq> ''https:'' \<and> \<not> (protocol = ''http:'' \<and> allowHttp p)
                  then bad ''scheme-not-allowed''
                  else if uUsername url \<noteq> [] \<or> uPassword url \<noteq> [] then bad ''userinfo-not-allowed''
                  else
                    (case canonicalUrlHost pf (uHostname url) of
                       None \<Rightarrow> Inl RawFault
                     | Some host \<Rightarrow>
                         if host = [] then bad ''missing-host''
                         else
                           (case matchesHost pf host
                                   (if purpose = Navigation then allowedHosts p else resourceHosts p) of
                              Inl e \<Rightarrow> Inl e
                            | Inr False \<Rightarrow> Inl (PolicyFault E_DOMAIN_NOT_ALLOWED None (Some purpose) (Some host))
                            | Inr True \<Rightarrow> Inr (url, host)))))
      | _ \<Rightarrow> bad ''invalid-url'')"

definition storeAnswers :: "string \<Rightarrow> string list \<Rightarrow> rat \<Rightarrow> urlPolicy \<Rightarrow> urlPolicy" where
  "storeAnswers host addrs now p =
     (let cache = safeDnsCache p;
          pruned = (if length cache \<ge> 500 then (case cache of [] \<Rightarrow> cache | (k, _) # _ \<Rightarrow> odelete k cache) else cache)
      in p\<lparr>safeDnsCache := oset host (addrs, now + 30000) pruned\<rparr>)"

text \<open>A resolution without a usable cache entry.\<close>

definition resolveFresh ::
  "platform \<Rightarrow> urlPolicy \<Rightarrow> rat \<Rightarrow> urlPurpose \<Rightarrow> parsedUrl \<Rightarrow> string
    \<Rightarrow> (urlPolicy, policyFault, parsedUrl \<times> string list) act" where
  "resolveFresh pf p now eff url host =
     (case resolveHost pf p host of
        DnsThrows \<Rightarrow> act_throw (networkBlocked ''dns-resolution-failed'' eff host)
      | DnsOther \<Rightarrow> act_throw (networkBlocked ''dns-invalid-address-list'' eff host)
      | DnsList answers \<Rightarrow>
          if answers = [] then act_throw (networkBlocked ''dns-resolution-empty'' eff host)
          else
            act_bind (act_lift (approveAnswers p eff host answers)) (\<lambda>addrs.
            act_then (if resolver p = None then act_modify (storeAnswers host addrs now) else act_return ())
                     (act_return (url, addrs))))"

definition resolveAllowed ::
  "platform \<Rightarrow> rat \<Rightarrow> jsval \<Rightarrow> jsval \<Rightarrow> (urlPolicy, policyFault, parsedUrl \<times> string list) act" where
  "resolveAllowed pf now rawUrl purpose =
     act_bind (act_lift (effectivePurpose purpose)) (\<lambda>eff.
     act_bind (act_get id) (\<lambda>p.
     act_bind (act_lift (checkUrl pf p rawUrl eff)) (\<lambda>(url, host).
       let literal = unbracket host in
       if isIP literal \<noteq> 0 then
         (case classifyAddress literal of
            None \<Rightarrow> act_throw RawFault
          | Some c \<Rightarrow>
              if blocked c \<and> \<not> isPrivateException p c
              then act_throw (privateNetworkError (reasonOr c) eff host)
              else act_return (url, [literal]))
       else
         act_then
           (case classifyHostname host of
              Some r \<Rightarrow> act_throwIf (r = Metadata \<or> \<not> allowPrivateNetwork p) (privateNetworkError r eff host)
            | None \<Rightarrow> act_return ())
           (case (if resolver p = None then oget (safeDnsCache p) host else None) of
              Some (addrs, expires) \<Rightarrow>
                if expires > now then act_return (url, addrs) else resolveFresh pf p now eff url host
            | None \<Rightarrow> resolveFresh pf p now eff url host))))"

definition assertAllowed ::
  "platform \<Rightarrow> rat \<Rightarrow> jsval \<Rightarrow> jsval \<Rightarrow> (urlPolicy, policyFault, parsedUrl) act" where
  "assertAllowed pf now rawUrl purpose =
     act_bind (resolveAllowed pf now rawUrl purpose) (\<lambda>(url, addrs). act_return url)"

section \<open>Only permitted addresses\<close>

definition permitted :: "urlPolicy \<Rightarrow> string \<Rightarrow> bool" where
  "permitted p a =
     (isIP a \<noteq> 0 \<and> (case classifyAddress a of None \<Rightarrow> False
                      | Some c \<Rightarrow> \<not> blocked c \<or> isPrivateException p c))"

lemma classify_blocked: "classifyAddress a = Some c \<Longrightarrow> blocked c \<longleftrightarrow> reason c \<noteq> None"
  by (auto simp: classifyAddress_def Let_def classifyIpv4_def split: if_splits option.splits)

lemma permitted_not_metadata: "permitted p a \<Longrightarrow> map_option reason (classifyAddress a) \<noteq> Some (Some Metadata)"
  using classify_blocked [of a] by (auto simp: permitted_def isPrivateException_def split: option.splits if_splits)

lemma permitted_canonical:
  assumes "isIP u \<noteq> 0" "classifyAddress u = Some c" "\<not> blocked c \<or> isPrivateException p c" "canonicalAddress u = Some a"
  shows "permitted p a"
proof -
  obtain c' where c': "classifyAddress a = Some c'" "reason c' = reason c" "blocked c' = blocked c"
    "isSyntheticTunnelAddress (address c') = isSyntheticTunnelAddress (address c)" "isIP a = isIP u"
    using classify_canonical [OF assms(1,2,4)] by blast
  then show ?thesis using assms(1,3) by (simp add: permitted_def isPrivateException_def)
qed

lemma approveAnswers_permitted:
  "approveAnswers p eff host xs = Inr as \<Longrightarrow> list_all (permitted p) as \<and> length as = length xs"
proof (induction xs arbitrary: as)
  case (Cons x xs)
  then show ?case
    by (auto split: if_splits jsval.splits option.splits sum.splits intro: permitted_canonical)
qed simp

definition cacheInv :: "urlPolicy \<Rightarrow> bool" where
  "cacheInv p \<longleftrightarrow> owf (safeDnsCache p) \<and> length (safeDnsCache p) \<le> 500
     \<and> list_all (\<lambda>(h, as, e). as \<noteq> [] \<and> list_all (permitted p) as) (safeDnsCache p)"

lemma permitted_cache [simp]: "permitted (p\<lparr>safeDnsCache := m\<rparr>) = permitted p"
  by (rule ext) (simp add: permitted_def isPrivateException_def split: option.split)

lemma storeAnswers_inv:
  assumes "cacheInv p" "addrs \<noteq> []" "list_all (permitted p) addrs"
  shows "cacheInv (storeAnswers host addrs now p)"
proof -
  let ?c = "safeDnsCache p"
  let ?P = "\<lambda>(h, as, e). as \<noteq> [] \<and> list_all (permitted p) as"
  let ?q = "if length ?c \<ge> 500 then tl ?c else ?c"
  have q: "owf ?q" "list_all ?P ?q" "length ?q \<le> 499"
    using assms(1) by (auto simp: cacheInv_def owf_tl list_all_tl)
  have "length (oset host (addrs, now + 30000) ?q) \<le> 500"
    using length_oset_le [of host "(addrs, now + 30000)" ?q] q(3) by simp
  moreover have "list_all ?P (oset host (addrs, now + 30000) ?q)"
    by (rule list_all_oset [OF q(2)]) (simp add: assms)
  moreover have "storeAnswers host addrs now p = p\<lparr>safeDnsCache := oset host (addrs, now + 30000) ?q\<rparr>"
    using assms(1) by (simp add: storeAnswers_def Let_def odelete_oldest cacheInv_def)
  ultimately show ?thesis using q(1) by (simp add: cacheInv_def owf_oset)
qed

lemma permitted_store [simp]: "permitted (storeAnswers host addrs now p) = permitted p"
  by (simp add: storeAnswers_def Let_def)

lemma resolveFresh_safe:
  "cacheInv p \<Longrightarrow> wp (resolveFresh pf p now eff url host)
     (\<lambda>(u, as) p'. u = url \<and> as \<noteq> [] \<and> list_all (permitted p) as \<and> cacheInv p' \<and> permitted p' = permitted p)
     (\<lambda>_ p'. p' = p) p"
  by (auto simp: resolveFresh_def wp_rules intro!: storeAnswers_inv
      dest!: approveAnswers_permitted split: dnsAnswer.splits sum.splits)

lemma resolveAllowed_safe:
  assumes inv: "cacheInv p"
  shows "wp (resolveAllowed pf now rawUrl purpose)
     (\<lambda>(u, as) p'. as \<noteq> [] \<and> list_all (permitted p) as \<and> cacheInv p' \<and> permitted p' = permitted p)
     (\<lambda>_ p'. p' = p) p"
proof -
  let ?Q = "\<lambda>(u, as) p'. as \<noteq> [] \<and> list_all (permitted p) as \<and> cacheInv p' \<and> permitted p' = permitted p"
  have fresh: "wp (resolveFresh pf p now eff url host) ?Q (\<lambda>_ p'. p' = p) p" for eff url host
    by (rule wp_mono [OF resolveFresh_safe [OF inv]]) auto
  have cached: "addrs \<noteq> [] \<and> list_all (permitted p) addrs"
    if "oget (safeDnsCache p) host = Some (addrs, e)" for host addrs e
    using inv map_of_SomeD [OF that] by (auto simp: cacheInv_def list_all_iff)
  have lit: "permitted p a" if "isIP a \<noteq> 0" "classifyAddress a = Some c" "\<not> (blocked c \<and> \<not> isPrivateException p c)" for a c
    using that by (auto simp: permitted_def)
  have tail: "wp (case (if resolver p = None then oget (safeDnsCache p) host else None) of
              Some (addrs, expires) \<Rightarrow>
                if expires > now then act_return (url, addrs) else resolveFresh pf p now eff url host
            | None \<Rightarrow> resolveFresh pf p now eff url host) ?Q (\<lambda>_ p'. p' = p) p" for eff url host
    using cached [of host] fresh inv by (auto simp: wp_rules split: option.splits prod.splits)
  show ?thesis
    unfolding resolveAllowed_def wp_rules Let_def
    by (auto simp: wp_rules lit tail fresh inv simp del: split_paired_All dest: cached split: sum.splits option.splits prod.splits if_splits)
qed

text \<open>The states of a policy: any calls, with any platform and clock at each.\<close>

inductive policyReach :: "urlPolicy \<Rightarrow> bool" where
  start: "newUrlPolicy pf hosts resources http priv tunnel resolvers = Inr p \<Longrightarrow> policyReach p"
| resolved: "policyReach p \<Longrightarrow> policyReach (snd (resolveAllowed pf now rawUrl purpose p))"
| cleared: "policyReach p \<Longrightarrow> policyReach (clearDnsCache p)"

lemma policyReach_inv: "policyReach p \<Longrightarrow> cacheInv p"
proof (induction rule: policyReach.induct)
  case (start pf hosts resources http priv tunnel resolvers p)
  then have "safeDnsCache p = []" by (auto simp: newUrlPolicy_def split: sum.splits)
  then show ?case by (simp add: cacheInv_def)
next
  case (resolved p pf now rawUrl purpose)
  have "wp (resolveAllowed pf now rawUrl purpose) (\<lambda>_. cacheInv) (\<lambda>_. cacheInv) p"
    by (rule wp_mono [OF resolveAllowed_safe [OF resolved.IH]]) (use resolved.IH in auto)
  then show ?case by (auto simp: wp_def split: prod.splits sum.splits)
next
  case (cleared p)
  then show ?case by (simp add: cacheInv_def clearDnsCache_def)
qed

section \<open>Which hosts a rule covers\<close>

definition ruleCovers :: "string \<Rightarrow> string \<Rightarrow> bool" where
  "ruleCovers rule host =
     (if startsWith rule ''*.''
      then endsWith host (CHR ''.'' # drop 2 rule)
           \<and> CHR ''.'' \<notin> set (take (length host - length (drop 2 rule) - 1) host)
      else rule = host)"

lemma splitChar_length: "length (splitChar d s) = Suc (length (filter (\<lambda>c. c = d) s))"
  by (induction s) (auto split: list.splits)

lemma wildcard_labels:
  "candidate \<noteq> suffix \<and> endsWith candidate (''.'' @ suffix)
     \<and> length (splitChar (CHR ''.'') candidate) = length (splitChar (CHR ''.'') suffix) + 1
   \<longleftrightarrow> endsWith candidate (CHR ''.'' # suffix)
     \<and> CHR ''.'' \<notin> set (take (length candidate - length suffix - 1) candidate)"
proof (cases "endsWith candidate (CHR ''.'' # suffix)")
  case True
  then obtain t where t: "candidate = t @ CHR ''.'' # suffix" by (auto simp: endsWith_iff)
  have "candidate \<noteq> suffix" using arg_cong [of candidate suffix length] by (auto simp: t)
  then show ?thesis using True by (auto simp: t splitChar_length filter_empty_conv)
qed simp

lemma compile_covers:
  "compilePatterns pf ps = Inr (exact, wildcards) \<Longrightarrow>
     \<exists>rules. normalizePatterns pf (map JStr ps) = Inr rules
       \<and> (List.member exact candidate \<or> list_ex (\<lambda>(suffix, n). candidate \<noteq> suffix \<and> endsWith candidate (''.'' @ suffix)
           \<and> length (splitChar (CHR ''.'') candidate) = n + 1) wildcards
          \<longleftrightarrow> list_ex (\<lambda>rule. ruleCovers rule candidate) rules)"
proof (induction ps arbitrary: exact wildcards)
  case (Cons p ps)
  obtain n where n: "normalizeHostPattern (domainToASCII pf) (JStr p) = Inr n"
    using Cons.prems by (auto split: sum.splits)
  obtain e w where ew: "compilePatterns pf ps = Inr (e, w)"
    using Cons.prems n by (auto split: sum.splits)
  obtain rules where r: "normalizePatterns pf (map JStr ps) = Inr rules"
    "List.member e candidate \<or> list_ex (\<lambda>(suffix, n). candidate \<noteq> suffix \<and> endsWith candidate (''.'' @ suffix)
           \<and> length (splitChar (CHR ''.'') candidate) = n + 1) w
          \<longleftrightarrow> list_ex (\<lambda>rule. ruleCovers rule candidate) rules"
    using Cons.IH [OF ew] by blast
  define W where "W = (\<lambda>(suffix, n). candidate \<noteq> suffix \<and> endsWith candidate (''.'' @ suffix)
           \<and> length (splitChar (CHR ''.'') candidate) = n + 1)"
  have rc: "ruleCovers n candidate = (if startsWith n ''*.''
      then W (drop 2 n, length (splitChar (CHR ''.'') (drop 2 n))) else n = candidate)"
    unfolding ruleCovers_def W_def split_conv wildcard_labels by simp
  have "List.member exact candidate \<or> list_ex W wildcards \<longleftrightarrow> list_ex (\<lambda>rule. ruleCovers rule candidate) (n # rules)"
    using Cons.prems n ew r(2) rc unfolding W_def [symmetric]
    by (cases "startsWith n ''*.''") (auto simp: Let_def)
  then show ?case unfolding W_def using n r(1) by simp
qed simp

lemma matchesHost_covers:
  assumes "matchesHost pf host ps = Inr b" "canonicalUrlHost pf host = Some candidate" "candidate \<noteq> []"
  shows "\<exists>rules. normalizePatterns pf (map JStr ps) = Inr rules \<and> (b \<longleftrightarrow> list_ex (\<lambda>rule. ruleCovers rule candidate) rules)"
proof -
  obtain e w where ew: "compilePatterns pf ps = Inr (e, w)"
    using assms by (auto simp: matchesHost_def split: sum.splits)
  show ?thesis
    using compile_covers [OF ew, of candidate] assms ew by (auto simp: matchesHost_def Let_def split: if_splits)
qed

lemma checkUrl_facts:
  assumes "checkUrl pf p rawUrl eff = Inr (url, host)"
  shows "(toLowerCase (uProtocol url) = ''https:'' \<or> toLowerCase (uProtocol url) = ''http:'' \<and> allowHttp p)
    \<and> uUsername url = [] \<and> uPassword url = [] \<and> host \<noteq> []
    \<and> canonicalUrlHost pf (uHostname url) = Some host
    \<and> matchesHost pf host (if eff = Navigation then allowedHosts p else resourceHosts p) = Inr True"
proof -
  obtain raw where raw: "rawUrl = JStr raw" using assms by (cases rawUrl) (auto simp: checkUrl_def Let_def)
  obtain u where u: "newURL pf raw = Some u"
    using assms by (auto simp: checkUrl_def Let_def raw split: if_splits option.splits)
  then show ?thesis using assms
    by (auto simp: checkUrl_def Let_def raw split: if_splits option.splits sum.splits bool.splits)
qed

lemma resolveAllowed_url:
  "wp (resolveAllowed pf now rawUrl purpose)
     (\<lambda>(u, as) _. \<exists>eff host. effectivePurpose purpose = Inr eff \<and> checkUrl pf p rawUrl eff = Inr (u, host))
     (\<lambda>_ _. True) p"
proof -
  have f: "wp (resolveFresh pf p now eff url host) (\<lambda>(u, as) _. url = u) (\<lambda>_ _. True) p" for eff url host
    by (auto simp: resolveFresh_def wp_rules split: dnsAnswer.splits sum.splits)
  show ?thesis
    unfolding resolveAllowed_def wp_rules Let_def
    by (auto simp: wp_rules f simp del: split_paired_All split: sum.splits option.splits prod.splits if_splits)
qed

section \<open>Properties\<close>

text \<open>A platform with one public host, for the witnesses.\<close>

definition demoPlatform :: platform where
  "demoPlatform = \<lparr>newURL = (\<lambda>raw. Some \<lparr>uProtocol = ''https:'', uUsername = [], uPassword = [], uHostname = ''a.ex.com''\<rparr>),
     domainToASCII = id, dnsLookup = (\<lambda>_. DnsList [JStr ''9.9.9.9''])\<rparr>"

definition demoPolicy :: urlPolicy where
  "demoPolicy = \<lparr>allowedHosts = [''*.ex.com''], resourceHosts = [''*.ex.com''], allowHttp = False,
     allowPrivateNetwork = False, allowSyntheticTunnel = False, resolver = None, safeDnsCache = []\<rparr>"

definition demoUrl :: parsedUrl where
  "demoUrl = \<lparr>uProtocol = ''https:'', uUsername = [], uPassword = [], uHostname = ''a.ex.com''\<rparr>"

definition demoAfter :: urlPolicy where
  "demoAfter = demoPolicy\<lparr>safeDnsCache := [(''a.ex.com'', [''9.9.9.9''], 30007)]\<rparr>"

lemma demo_policy_new:
  "newUrlPolicy demoPlatform [JStr ''*.ex.com''] None None None None [] = Inr demoPolicy"
proof -
  have "normalizeHostPattern id (JStr ''*.ex.com'') = Inr ''*.ex.com''" by code_simp
  then show ?thesis by (simp add: newUrlPolicy_def demoPlatform_def demoPolicy_def)
qed

lemma demo_policy_reach: "policyReach demoPolicy"
  by (rule policyReach.start [OF demo_policy_new])

lemma demo_resolve:
  "resolveAllowed demoPlatform 7 (JStr ''u'') JUndef demoPolicy = (Inr (demoUrl, [''9.9.9.9'']), demoAfter)"
proof -
  have n: "normalizeHostPattern id (JStr ''*.ex.com'') = Inr ''*.ex.com''" by code_simp
  have h: "canonicalUrlHost demoPlatform ''a.ex.com'' = Some ''a.ex.com''" by code_simp
  have m: "matchesHost demoPlatform ''a.ex.com'' [''*.ex.com''] = Inr True" by code_simp
  have i: "isIP (unbracket ''a.ex.com'') = 0" "classifyHostname ''a.ex.com'' = None" by code_simp+
  have a: "approveAnswers demoPolicy Navigation ''a.ex.com'' [JStr ''9.9.9.9''] = Inr [''9.9.9.9'']" by code_simp
  have u: "trim ''u'' = ''u''" "\<not> list_ex isControl ''u''" "toLowerCase ''https:'' = ''https:''" by code_simp+
  have c: "checkUrl demoPlatform demoPolicy (JStr ''u'') Navigation = Inr (demoUrl, ''a.ex.com'')"
    using h m u by (simp add: checkUrl_def MAX_URL_LENGTH_def demoPlatform_def demoPolicy_def demoUrl_def Let_def)
  show ?thesis
    using a i c
    by (simp add: resolveAllowed_def resolveFresh_def act_defs effectivePurpose_def demoPolicy_def demoAfter_def
        resolveHost_def demoPlatform_def storeAnswers_def Let_def)
qed

text \<open>C11. Every connection goes to an address the policy permits: in any state the policy can reach, whatever the platform
  and the resolver answer, a successful resolution returns at least one address, each of them an IP literal that is
  either outside every protected range or covered by an explicit exception, and never a cloud metadata address.  The
  cache keeps only such addresses, at most 500 hosts.\<close>

theorem resolved_addresses_permitted:
  assumes "policyReach p" "resolveAllowed pf now rawUrl purpose p = (Inr (url, addrs), p')"
  shows "addrs \<noteq> [] \<and> list_all (\<lambda>a. permitted p a \<and> map_option reason (classifyAddress a) \<noteq> Some (Some Metadata)) addrs
    \<and> length (safeDnsCache p') \<le> 500"
  using wp_Inr [OF resolveAllowed_safe [OF policyReach_inv [OF assms(1)]] assms(2)] permitted_not_metadata
  by (auto simp: list_all_iff cacheInv_def)

lemma resolved_addresses_permitted_witness:
  "permitted demoPolicy ''9.9.9.9'' \<and> length (safeDnsCache demoAfter) \<le> 500"
  using resolved_addresses_permitted [OF demo_policy_reach demo_resolve] by simp

text \<open>The cache is safe between calls: whatever sequence of resolutions, failures and clears a policy has gone through,
  every cached answer is a non-empty list of permitted addresses, hosts are not repeated and at most 500 are kept.\<close>

lemma dns_cache_invariant: "policyReach p \<Longrightarrow> cacheInv p"
  by (rule policyReach_inv)

lemma dns_cache_invariant_witness: "cacheInv demoAfter"
  using dns_cache_invariant [OF policyReach.resolved [OF demo_policy_reach, of demoPlatform 7 "JStr ''u''" JUndef]]
  by (simp add: demo_resolve)



end
