(* ===== verification/TaskTypes.thy ===== *)
theory TaskTypes
  imports Domain
begin

text \<open>
  The vocabulary of the distributed task queue: tenant identifiers (\<open>distributed/tenant.ts\<close>),
  task records, events, filters and worker descriptions (\<open>distributed/types.ts\<close>), the errors
  queue operations throw, and the helpers both queue adapters, the scheduler and the worker
  repeat (\<open>matchesTaskFilter\<close>, \<open>appendTaskEvent\<close>, \<open>boundedInteger\<close>).

  Times and counts are whole numbers.  The texts of task events are literals of the sources
  outside the covered code units; each is a constructor of \<open>taskMessage\<close>.
\<close>

section \<open>Errors\<close>

text \<open>
  \<open>ToolError\<close> holds the code, message and \<open>details.reason\<close> a \<open>BrowserToolError\<close> is built with;
  \<open>ThrownValue\<close> is any other value a called component throws.
\<close>

datatype taskError =
    TaskLeaseLostError
  | JsError string
  | ToolError errorCode string "string option"
  | AggregateError "taskError list" string
  | ThrownValue jsval

fun isTaskLeaseLostError :: "taskError \<Rightarrow> bool" where
  "isTaskLeaseLostError TaskLeaseLostError = True"
| "isTaskLeaseLostError (ThrownValue v) = (getProp v ''code'' = JStr ''TASK_LEASE_LOST'')"
| "isTaskLeaseLostError e = False"

section \<open>Tenants\<close>

definition DEFAULT_TENANT_ID :: string where
  "DEFAULT_TENANT_ID = ''default''"

definition isLabelChar :: "char \<Rightarrow> bool" where
  "isLabelChar c \<longleftrightarrow> isAlnum c \<or> c \<in> {CHR ''.'', CHR ''_'', CHR ''-''}"

text \<open>\<open>/^[A-Za-z0-9][A-Za-z0-9._-]{0,63}$/\<close>\<close>

fun TENANT_ID_PATTERN :: "string \<Rightarrow> bool" where
  "TENANT_ID_PATTERN [] = False"
| "TENANT_ID_PATTERN (c # cs) = (isAlnum c \<and> length cs \<le> 63 \<and> list_all isLabelChar cs)"

definition normalizeTenantId :: "string option \<Rightarrow> taskError + string" where
  "normalizeTenantId value =
     (let tenantId = (case value of None \<Rightarrow> DEFAULT_TENANT_ID | Some v \<Rightarrow> v)
      in if TENANT_ID_PATTERN tenantId then Inr tenantId else Inl (JsError ''Invalid tenant ID.''))"

fun isTenantId :: "jsval \<Rightarrow> bool" where
  "isTenantId (JStr s) = TENANT_ID_PATTERN s"
| "isTenantId v = False"

lemma normalizeTenantId_Inr [simp]:
  "normalizeTenantId (Some t) = Inr t' \<longleftrightarrow> t' = t \<and> TENANT_ID_PATTERN t"
  by (auto simp: normalizeTenantId_def)

lemma normalizeTenantId_ok: "TENANT_ID_PATTERN t \<Longrightarrow> normalizeTenantId (Some t) = Inr t"
  by simp

lemma normalizeTenantId_pattern: "normalizeTenantId v = Inr t \<Longrightarrow> TENANT_ID_PATTERN t"
  by (auto simp: normalizeTenantId_def Let_def split: if_splits)

lemma tenant_chars: "TENANT_ID_PATTERN t \<Longrightarrow> list_all isLabelChar t"
  by (cases t) (auto simp: isLabelChar_def)

lemma tenant_not_sep:
  assumes "TENANT_ID_PATTERN t" and "\<not> isLabelChar c"
  shows "c \<notin> set t"
  using tenant_chars [OF assms(1)] assms(2) by (auto simp: list_all_iff)

lemma not_label_sep [simp]:
  "\<not> isLabelChar (CHR 0x00)" "\<not> isLabelChar (CHR '':'')" "\<not> isLabelChar (CHR ''}'')"
  by (simp_all add: isLabelChar_def isAlnum_def isDigit_def isUpper_def isLower_def charCode_def)

section \<open>Tasks\<close>

datatype taskPriority = P_LOW | P_NORMAL | P_HIGH | P_CRITICAL

datatype taskMode = Mode_fetch | Mode_browser

datatype taskState = PENDING | RUNNING | COMPLETED | FAILED | RETRYING | CANCELLED

datatype taskPhase = Ph_queued | Ph_running | Ph_retrying | Ph_completed | Ph_failed | Ph_cancelled

datatype taskMessage =
    MsgQueued
  | MsgClaimed
  | MsgSessionCreated
  | MsgCompleted
  | MsgWillRetry int
  | MsgFailed
  | MsgCancelled
  | MsgRequeued

record taskEvent =
  evAt :: int
  evState :: taskState
  evPhase :: taskPhase
  evMessage :: taskMessage
  evWorkerId :: "string option"

record taskRecord =
  tkId :: string
  tkTenantId :: string
  tkProjectId :: "string option"
  tkRunId :: "string option"
  tkUrl :: string
  tkMode :: taskMode
  tkPriority :: taskPriority
  tkState :: taskState
  tkRetries :: int
  tkMaxRetries :: int
  tkWorkerId :: "string option"
  tkLeaseId :: "string option"
  tkSessionId :: "string option"
  tkExtractionSchema :: "jsval option"
  tkTimeoutMs :: int
  tkCreatedAt :: int
  tkStartedAt :: "int option"
  tkCompletedAt :: "int option"
  tkResult :: "jsval option"
  tkError :: "string option"
  tkErrorCode :: "string option"
  tkDurationMs :: "int option"
  tkEvents :: "taskEvent list option"

lemma tkTenantId_same [simp]: "(task :: taskRecord)\<lparr>tkTenantId := tkTenantId task\<rparr> = task"
  by (cases task) simp

record taskListFilter =
  fProjectId :: "string option"
  fRunId :: "string option"
  fState :: "taskState option"
  fMode :: "taskMode option"
  fPriority :: "taskPriority option"
  fCreatedAfter :: "int option"
  fCreatedBefore :: "int option"

record workerInfo =
  wkWorkerId :: string
  wkTenantId :: string
  wkHostname :: string
  wkCapacity :: int
  wkActiveTasks :: int
  wkHealthy :: bool
  wkLastHeartbeat :: int

text \<open>\<open>task.state === 'PENDING' || task.state === 'RETRYING'\<close>\<close>

definition runnable :: "taskRecord \<Rightarrow> bool" where
  "runnable task \<longleftrightarrow> tkState task = PENDING \<or> tkState task = RETRYING"

text \<open>\<open>filter.x === undefined || p(filter.x)\<close>\<close>

definition orAbsent :: "'a option \<Rightarrow> ('a \<Rightarrow> bool) \<Rightarrow> bool" where
  "orAbsent v p = (case v of None \<Rightarrow> True | Some x \<Rightarrow> p x)"

definition matchesTaskFilter :: "taskRecord \<Rightarrow> taskListFilter \<Rightarrow> bool" where
  "matchesTaskFilter task f \<longleftrightarrow>
     orAbsent (fProjectId f) (\<lambda>p. tkProjectId task = Some p)
   \<and> orAbsent (fRunId f) (\<lambda>r. tkRunId task = Some r)
   \<and> orAbsent (fState f) (\<lambda>s. tkState task = s)
   \<and> orAbsent (fMode f) (\<lambda>m. tkMode task = m)
   \<and> orAbsent (fPriority f) (\<lambda>p. tkPriority task = p)
   \<and> orAbsent (fCreatedAfter f) (\<lambda>a. tkCreatedAt task \<ge> a)
   \<and> orAbsent (fCreatedBefore f) (\<lambda>b. tkCreatedAt task \<le> b)"

fun phaseState :: "taskPhase \<Rightarrow> taskState" where
  "phaseState Ph_queued = PENDING"
| "phaseState Ph_running = RUNNING"
| "phaseState Ph_retrying = RETRYING"
| "phaseState Ph_completed = COMPLETED"
| "phaseState Ph_failed = FAILED"
| "phaseState Ph_cancelled = CANCELLED"

text \<open>\<open>xs.slice(-n)\<close>\<close>

definition takeLast :: "nat \<Rightarrow> 'a list \<Rightarrow> 'a list" where
  "takeLast n xs = drop (length xs - n) xs"

text \<open>\<open>s ? s : undefined\<close> on an optional string\<close>

definition nonEmpty :: "string option \<Rightarrow> string option" where
  "nonEmpty v = (case v of None \<Rightarrow> None | Some s \<Rightarrow> if s = [] then None else Some s)"

definition appendTaskEvent :: "int \<Rightarrow> taskRecord \<Rightarrow> taskPhase \<Rightarrow> taskMessage \<Rightarrow> taskEvent list" where
  "appendTaskEvent now task phase message =
     takeLast 50 ((case tkEvents task of None \<Rightarrow> [] | Some es \<Rightarrow> es)
       @ [\<lparr>evAt = now, evState = phaseState phase, evPhase = phase, evMessage = message,
           evWorkerId = nonEmpty (tkWorkerId task)\<rparr>])"

text \<open>\<open>Number.isFinite(v) ? Math.max(lo, Math.min(hi, Math.floor(v))) : fallback\<close>\<close>

fun boundedInteger :: "jsnum \<Rightarrow> int \<Rightarrow> int \<Rightarrow> int \<Rightarrow> int" where
  "boundedInteger (JFin q) minimum maximum fallback = max minimum (min maximum \<lfloor>q\<rfloor>)"
| "boundedInteger v minimum maximum fallback = fallback"

text \<open>\<open>xs.slice(0, n)\<close>: a negative end counts from the back.\<close>

definition sliceTo :: "int \<Rightarrow> 'a list \<Rightarrow> 'a list" where
  "sliceTo n xs = (if n < 0 then take (nat (int (length xs) + n)) xs else take (nat n) xs)"

lemma boundedInteger_range:
  "lo \<le> hi \<Longrightarrow> lo \<le> d \<Longrightarrow> d \<le> hi \<Longrightarrow> lo \<le> boundedInteger v lo hi d \<and> boundedInteger v lo hi d \<le> hi"
  by (cases v) auto

lemma length_takeLast: "length (takeLast n xs) = min n (length xs)"
  by (simp add: takeLast_def)

lemma appendTaskEvent_length: "length (appendTaskEvent now task phase message) \<le> 50"
  by (simp add: appendTaskEvent_def length_takeLast)

lemma set_sliceTo: "set (sliceTo n xs) \<subseteq> set xs"
  by (auto simp: sliceTo_def dest: in_set_takeD)

section \<open>Keys\<close>

text \<open>
  The namespaced key of a task, a worker or a URL of one tenant.  A tenant identifier has no
  NUL, so a key determines its tenant and its value.
\<close>

definition tenantKey :: "string \<Rightarrow> string \<Rightarrow> string" where
  "tenantKey tenantId v = tenantId @ [CHR 0x00] @ v"

lemma sep_split:
  "c \<notin> set xs \<Longrightarrow> c \<notin> set ys \<Longrightarrow> xs @ c # us = ys @ c # vs \<longleftrightarrow> xs = ys \<and> us = vs"
proof (induction xs arbitrary: ys)
  case Nil
  then show ?case by (cases ys) auto
next
  case (Cons x xs)
  then show ?case by (cases ys) auto
qed

lemma tenantKey_inj:
  "TENANT_ID_PATTERN a \<Longrightarrow> TENANT_ID_PATTERN b \<Longrightarrow> tenantKey a x = tenantKey b y \<longleftrightarrow> a = b \<and> x = y"
  by (simp add: tenantKey_def sep_split tenant_not_sep)

lemma tenantKey_prefix:
  assumes "TENANT_ID_PATTERN a" and "TENANT_ID_PATTERN b"
  shows "startsWith (tenantKey b x) (a @ [CHR 0x00]) \<longleftrightarrow> a = b"
proof -
  have "CHR 0x00 \<notin> set a" "CHR 0x00 \<notin> set b"
    using assms by (simp_all add: tenant_not_sep)
  then show ?thesis
    by (auto simp: startsWith_iff tenantKey_def sep_split)
qed

text \<open>A task as the scheduler submits it, for the examples.\<close>

definition demoTask :: "string \<Rightarrow> taskRecord" where
  "demoTask i =
     \<lparr>tkId = i, tkTenantId = ''default'', tkProjectId = None, tkRunId = None,
      tkUrl = ''https://a.example/'', tkMode = Mode_fetch, tkPriority = P_NORMAL, tkState = PENDING,
      tkRetries = 0, tkMaxRetries = 3, tkWorkerId = None, tkLeaseId = None, tkSessionId = None,
      tkExtractionSchema = None, tkTimeoutMs = 30000, tkCreatedAt = 1, tkStartedAt = None,
      tkCompletedAt = None, tkResult = None, tkError = None, tkErrorCode = None,
      tkDurationMs = None, tkEvents = None\<rparr>"

end
