(* ===== verification/TaskQueue.thy ===== *)
theory TaskQueue
  imports TaskTypes
begin

text \<open>
  The part of the interface \<open>TaskQueueAdapter\<close> a worker's ownership of a task rests on, as
  calls and replies, and the contract both adapters keep: the lease identifier drawn by a
  dequeue is a fencing token.
\<close>

section \<open>Calls\<close>

text \<open>
  Each call has the clock reading it makes; a dequeue also has the UUID it draws.  \<open>QElapse\<close>
  is time passing at the store, which may expire records.
\<close>

datatype queueCall =
    QEnqueue int taskRecord
  | QUpdate int taskRecord
  | QRenew int taskRecord
  | QDequeue int string string "string option" int
  | QElapse int

datatype queueReply = RDone | RBool bool | RTask "taskRecord option"

type_synonym 's queueStep = "queueCall \<Rightarrow> 's \<Rightarrow> (taskError + queueReply) \<times> 's"

text \<open>\<open>QDequeue now uuid workerId tenantId shard\<close> issues its UUID.\<close>

fun issues :: "queueCall \<Rightarrow> string option" where
  "issues (QDequeue now uuid w t sh) = Some uuid"
| "issues c = None"

text \<open>A write or renewal of the task \<open>(t, i)\<close> by a caller whose record has lease \<open>L\<close>.\<close>

definition writesAs :: "taskRecord \<Rightarrow> string \<times> string \<Rightarrow> string \<Rightarrow> bool" where
  "writesAs task k L \<longleftrightarrow> (tkTenantId task, tkId task) = k \<and> tkLeaseId task = Some L"

fun carries :: "queueCall \<Rightarrow> string \<times> string \<Rightarrow> string \<Rightarrow> bool" where
  "carries (QEnqueue now task) k L = writesAs task k L"
| "carries (QUpdate now task) k L = writesAs task k L"
| "carries (QRenew now task) k L = writesAs task k L"
| "carries c k L = False"

fun refused :: "taskError + queueReply \<Rightarrow> bool" where
  "refused (Inl e) = True"
| "refused (Inr r) = (r = RBool False)"

definition leaseOf :: "taskRecord option \<Rightarrow> string option" where
  "leaseOf r = (case r of None \<Rightarrow> None | Some task \<Rightarrow> nonEmpty (tkLeaseId task))"

text \<open>The state after a sequence of calls.\<close>

primrec queueRun :: "'s queueStep \<Rightarrow> queueCall list \<Rightarrow> 's \<Rightarrow> 's" where
  "queueRun step [] s = s"
| "queueRun step (c # cs) s = queueRun step cs (snd (step c s))"

lemma leaseOf_None [simp]: "leaseOf None = None"
  by (simp add: leaseOf_def)

lemma leaseOf_Some [simp]: "leaseOf (Some task) = nonEmpty (tkLeaseId task)"
  by (simp add: leaseOf_def)

lemma nonEmpty_Some_iff [simp]: "nonEmpty v = Some s \<longleftrightarrow> v = Some s \<and> s \<noteq> []"
  by (auto simp: nonEmpty_def split: option.splits)

lemma nonEmpty_None_iff: "nonEmpty v = None \<longleftrightarrow> v = None \<or> v = Some []"
  by (auto simp: nonEmpty_def split: option.splits)

lemma refused_cases: "refused r \<longleftrightarrow> (\<exists>e. r = Inl e) \<or> r = Inr (RBool False)"
  by (cases r) auto

section \<open>The contract\<close>

text \<open>
  \<open>tasks s t i\<close> is the record of task \<open>i\<close> of tenant \<open>t\<close>.  A task is \<open>sealed\<close> once the adapter
  checks the lease of every write to it.
\<close>

locale task_queue =
  fixes step :: "'s queueStep"
    and good :: "'s \<Rightarrow> bool"
    and tasks :: "'s \<Rightarrow> string \<Rightarrow> string \<Rightarrow> taskRecord option"
    and sealed :: "'s \<Rightarrow> string \<Rightarrow> string \<Rightarrow> bool"
  assumes good_step: "good s \<Longrightarrow> good (snd (step c s))"
    and sealed_step: "good s \<Longrightarrow> sealed s t i \<Longrightarrow> sealed (snd (step c s)) t i"
    and lease_origin:
      "good s \<Longrightarrow> sealed s t i \<Longrightarrow> leaseOf (tasks (snd (step c s)) t i) = Some L \<Longrightarrow>
         leaseOf (tasks s t i) = Some L \<or> issues c = Some L"
    and stale_refused:
      "good s \<Longrightarrow> sealed s t i \<Longrightarrow> carries c (t, i) L \<Longrightarrow> L \<noteq> [] \<Longrightarrow>
         leaseOf (tasks s t i) \<noteq> Some L \<Longrightarrow>
         refused (fst (step c s)) \<and> tasks (snd (step c s)) t i = tasks s t i"
    and claim_seals:
      "good s \<Longrightarrow> step (QDequeue now uuid w tn sh) s = (Inr (RTask (Some task)), s') \<Longrightarrow>
         tkLeaseId task = Some uuid \<and> sealed s' (tkTenantId task) (tkId task)
         \<and> tasks s' (tkTenantId task) (tkId task) = Some task"
begin

lemma good_run: "good s \<Longrightarrow> good (queueRun step cs s)"
  by (induction cs arbitrary: s) (simp_all add: good_step)

lemma superseded_run:
  "good s \<Longrightarrow> sealed s t i \<Longrightarrow> leaseOf (tasks s t i) \<noteq> Some L \<Longrightarrow>
     \<forall>c\<in>set cs. issues c \<noteq> Some L \<Longrightarrow>
     sealed (queueRun step cs s) t i \<and> leaseOf (tasks (queueRun step cs s) t i) \<noteq> Some L"
proof (induction cs arbitrary: s)
  case Nil
  then show ?case by simp
next
  case (Cons c cs)
  have "leaseOf (tasks (snd (step c s)) t i) \<noteq> Some L"
    using lease_origin [of s t i c L] Cons.prems by auto
  with Cons.IH [of "snd (step c s)"] sealed_step [of s t i c] good_step [of s c] Cons.prems
  show ?case by simp
qed

text \<open>
  After a claim that drew \<open>uuid\<close>, a caller with any other lease is refused and changes
  nothing, whatever calls come in between, as long as its lease is not drawn again.
\<close>

lemma fenced:
  assumes "good s"
    and "step (QDequeue now uuid w tn sh) s = (Inr (RTask (Some task)), s')"
    and "L \<noteq> []" and "L \<noteq> uuid" and "\<forall>c\<in>set cs. issues c \<noteq> Some L"
    and "carries c (tkTenantId task, tkId task) L"
  shows "refused (fst (step c (queueRun step cs s')))
    \<and> tasks (snd (step c (queueRun step cs s'))) (tkTenantId task) (tkId task)
        = tasks (queueRun step cs s') (tkTenantId task) (tkId task)"
proof -
  note claim = claim_seals [OF assms(1,2)]
  have good: "good s'"
    using good_step [OF assms(1), of "QDequeue now uuid w tn sh"] assms(2) by simp
  have "leaseOf (tasks s' (tkTenantId task) (tkId task)) \<noteq> Some L"
    using claim assms(4) by simp
  with superseded_run [OF good, of "tkTenantId task" "tkId task" L cs] claim assms(5)
  show ?thesis
    using stale_refused [OF good_run [OF good] _ assms(6,3)] by blast
qed

text \<open>
  The lease a sealed task has after some calls is the one it had or one drawn by a claim
  among them.
\<close>

lemma lease_from_claims:
  "good s \<Longrightarrow> sealed s t i \<Longrightarrow> leaseOf (tasks (queueRun step cs s) t i) = Some L \<Longrightarrow>
     leaseOf (tasks s t i) = Some L \<or> (\<exists>c\<in>set cs. issues c = Some L)"
  using superseded_run [of s t i L cs] by blast

end

section \<open>URL claims\<close>

text \<open>
  The calls on the URLs a tenant has seen, each with its clock reading, URLs, time to live in
  seconds and tenant.
\<close>

datatype urlCall =
    UClaim int "string list" int "string option"
  | URelease "string list" "string option"
  | UMark int string int "string option"
  | USeen int string "string option"

type_synonym 's urlStep = "urlCall \<Rightarrow> 's \<Rightarrow> (taskError + bool) \<times> 's"

primrec urlRun :: "'s urlStep \<Rightarrow> urlCall list \<Rightarrow> 's \<Rightarrow> 's" where
  "urlRun step [] s = s"
| "urlRun step (c # cs) s = urlRun step cs (snd (step c s))"

text \<open>
  A call made before \<open>e\<close> that neither releases URL \<open>u\<close> of tenant \<open>t\<close> nor marks it for less
  long.
\<close>

fun keepsClaim :: "string \<Rightarrow> string \<Rightarrow> int \<Rightarrow> urlCall \<Rightarrow> bool" where
  "keepsClaim t u e (UClaim now urls ttl tn) = (now < e)"
| "keepsClaim t u e (URelease urls tn) = (normalizeTenantId tn \<noteq> Inr t \<or> u \<notin> set urls)"
| "keepsClaim t u e (UMark now url ttl tn) =
     (normalizeTenantId tn \<noteq> Inr t \<or> url \<noteq> u \<or> e \<le> now + ttl * 1000)"
| "keepsClaim t u e (USeen now url tn) = (now < e)"

definition claimedUntil :: "int option \<Rightarrow> int \<Rightarrow> bool" where
  "claimedUntil x e \<longleftrightarrow> (\<exists>e'. x = Some e' \<and> e \<le> e')"

locale url_claims =
  fixes step :: "'s urlStep"
    and expiry :: "'s \<Rightarrow> string \<Rightarrow> string \<Rightarrow> int option"
  assumes claim_wins:
      "step (UClaim now urls ttl tn) s = (Inr True, s') \<Longrightarrow> normalizeTenantId tn = Inr t \<Longrightarrow>
         u \<in> set urls \<Longrightarrow> expiry s' t u = Some (now + ttl * 1000)"
    and claim_loses:
      "claimedUntil (expiry s t u) e \<Longrightarrow> now < e \<Longrightarrow> normalizeTenantId tn = Inr t \<Longrightarrow>
         u \<in> set urls \<Longrightarrow> fst (step (UClaim now urls ttl tn) s) = Inr False"
    and claim_kept:
      "TENANT_ID_PATTERN t \<Longrightarrow> claimedUntil (expiry s t u) e \<Longrightarrow> keepsClaim t u e c \<Longrightarrow>
         claimedUntil (expiry (snd (step c s)) t u) e"
begin

lemma claim_run:
  "TENANT_ID_PATTERN t \<Longrightarrow> claimedUntil (expiry s t u) e \<Longrightarrow> \<forall>c\<in>set cs. keepsClaim t u e c \<Longrightarrow>
     claimedUntil (expiry (urlRun step cs s) t u) e"
  by (induction cs arbitrary: s) (simp_all add: claim_kept)

text \<open>A won claim keeps every other one out until it expires or is released.\<close>

lemma claim_exclusive:
  assumes "step (UClaim now urls ttl tn) s = (Inr True, s')" and "normalizeTenantId tn = Inr t"
    and "u \<in> set urls" and "\<forall>c\<in>set cs. keepsClaim t u (now + ttl * 1000) c"
    and "normalizeTenantId tn' = Inr t" and "u \<in> set urls'" and "now' < now + ttl * 1000"
  shows "fst (step (UClaim now' urls' ttl' tn') (urlRun step cs s')) = Inr False"
proof -
  have "claimedUntil (expiry s' t u) (now + ttl * 1000)"
    using claim_wins [OF assms(1-3)] by (simp add: claimedUntil_def)
  from claim_run [OF normalizeTenantId_pattern [OF assms(2)] this assms(4)]
  show ?thesis
    by (rule claim_loses [OF _ assms(7,5,6)])
qed

end

end
