(* ===== verification/MemoryQueue.thy ===== *)
theory MemoryQueue
  imports TaskQueue
begin

text \<open>
  \<open>MemoryQueueAdapter\<close> of \<open>distributed/queue-adapter.ts\<close>: the task store, the queue of pending
  keys, the workers and the URL claims, with every operation of the adapter.  The clock
  reading of an operation and the UUID a dequeue draws are arguments.
\<close>

section \<open>State and operations\<close>

record memoryQueue =
  mqTasks :: "(string, taskRecord) omap"
  mqPending :: "string list"
  mqWorkers :: "(string, workerInfo) omap"
  mqSeen :: "(string, int) omap"

definition newMemoryQueue :: memoryQueue where
  "newMemoryQueue = \<lparr>mqTasks = [], mqPending = [], mqWorkers = [], mqSeen = []\<rparr>"

type_synonym 'a memAct = "(memoryQueue, taskError, 'a) act"

definition taskKey :: "string \<Rightarrow> string \<Rightarrow> string" where
  "taskKey tenantId v = tenantKey tenantId v"

definition assertLeaseOwnership :: "taskRecord option \<Rightarrow> taskRecord \<Rightarrow> taskError + unit" where
  "assertLeaseOwnership existing incoming =
     (case existing of
        None \<Rightarrow> Inr ()
      | Some e \<Rightarrow>
          if tkLeaseId e \<noteq> None
             \<and> (tkLeaseId incoming \<noteq> tkLeaseId e \<or> tkWorkerId incoming \<noteq> tkWorkerId e)
          then Inl TaskLeaseLostError else Inr ())"

text \<open>\<open>removePendingKey\<close>: every occurrence of the key is spliced out.\<close>

definition removePendingKey :: "string \<Rightarrow> string list \<Rightarrow> string list" where
  "removePendingKey key pending = removeAll key pending"

text \<open>The tenant check, the ownership check and the store shared by the two writes.\<close>

definition storeTask :: "taskRecord \<Rightarrow> (string \<times> taskRecord) memAct" where
  "storeTask task =
     act_bind (act_lift (normalizeTenantId (Some (tkTenantId task)))) (\<lambda>tenantId.
       let normalizedTask = task\<lparr>tkTenantId := tenantId\<rparr>;
           key = taskKey (tkTenantId normalizedTask) (tkId normalizedTask)
       in act_bind (act_get (\<lambda>q. oget (mqTasks q) key)) (\<lambda>existing.
            act_then (act_lift (assertLeaseOwnership existing normalizedTask))
           (act_then (act_modify (\<lambda>q. q\<lparr>mqTasks := oset key normalizedTask (mqTasks q)\<rparr>))
                     (act_return (key, normalizedTask)))))"

definition updatePending :: "string \<Rightarrow> taskRecord \<Rightarrow> string list \<Rightarrow> string list" where
  "updatePending key task pending =
     (if tkState task = PENDING \<or> tkState task = RETRYING
      then (if List.member pending key then pending else pending @ [key])
      else removePendingKey key pending)"

definition memEnqueueTask :: "taskRecord \<Rightarrow> unit memAct" where
  "memEnqueueTask task =
     act_bind (storeTask task) (\<lambda>(key, normalizedTask).
       act_modify (\<lambda>q. q\<lparr>mqPending := updatePending key normalizedTask (mqPending q)\<rparr>))"

primrec memEnqueueBatch :: "taskRecord list \<Rightarrow> unit memAct" where
  "memEnqueueBatch [] = act_return ()"
| "memEnqueueBatch (t # ts) = act_then (memEnqueueTask t) (memEnqueueBatch ts)"

definition memUpdateTask :: "taskRecord \<Rightarrow> unit memAct" where
  "memUpdateTask task = act_then (storeTask task) (act_return ())"

text \<open>\<open>xs.findIndex(p)\<close> and \<open>xs.splice(i, 1)\<close>\<close>

fun findIndex :: "('a \<Rightarrow> bool) \<Rightarrow> 'a list \<Rightarrow> nat option" where
  "findIndex p [] = None"
| "findIndex p (x # xs) = (if p x then Some 0 else map_option Suc (findIndex p xs))"

definition spliceOut :: "nat \<Rightarrow> 'a list \<Rightarrow> 'a list" where
  "spliceOut i xs = take i xs @ drop (Suc i) xs"

lemma findIndex_Some: "findIndex p xs = Some i \<Longrightarrow> i < length xs \<and> p (xs ! i)"
  by (induction xs arbitrary: i) (auto split: if_splits)

lemma length_spliceOut: "i < length xs \<Longrightarrow> length (spliceOut i xs) = length xs - 1"
  by (simp add: spliceOut_def)

text \<open>
  The loop of \<open>dequeueTask\<close>: the first pending key of the tenant is taken out; keys whose task
  is gone or not runnable are skipped.  The result is the key and task found, and the
  remaining queue.
\<close>

function claimLoop ::
  "string \<Rightarrow> (string, taskRecord) omap \<Rightarrow> string list \<Rightarrow> (string \<times> taskRecord) option \<times> string list" where
  "claimLoop prefix tasks pending =
     (case findIndex (\<lambda>key. startsWith key prefix) pending of
        None \<Rightarrow> (None, pending)
      | Some queueIndex \<Rightarrow>
          (let key = pending ! queueIndex; rest = spliceOut queueIndex pending in
           if key = [] then (None, rest)
           else (case oget tasks key of
                   None \<Rightarrow> claimLoop prefix tasks rest
                 | Some task \<Rightarrow>
                     if runnable task then (Some (key, task), rest)
                     else claimLoop prefix tasks rest)))"
  by pat_completeness auto
termination
  by (relation "measure (\<lambda>(prefix, tasks, pending). length pending)")
     (auto dest!: findIndex_Some simp: length_spliceOut)

declare claimLoop.simps [simp del]

definition leasedTask :: "int \<Rightarrow> string \<Rightarrow> string \<Rightarrow> taskRecord \<Rightarrow> taskRecord" where
  "leasedTask now uuid workerId task =
     task\<lparr>tkState := RUNNING, tkStartedAt := Some now, tkWorkerId := Some workerId,
          tkLeaseId := Some uuid\<rparr>"

definition memDequeueTask ::
  "int \<Rightarrow> string \<Rightarrow> string \<Rightarrow> string option \<Rightarrow> taskRecord option memAct" where
  "memDequeueTask now uuid workerId tenantId =
     act_bind (act_lift (normalizeTenantId tenantId)) (\<lambda>normalizedTenantId.
     act_bind (act_get (\<lambda>q. claimLoop (normalizedTenantId @ [CHR 0x00]) (mqTasks q) (mqPending q)))
       (\<lambda>(found, rest).
         act_then (act_modify (\<lambda>q. q\<lparr>mqPending := rest\<rparr>))
           (case found of
              None \<Rightarrow> act_return None
            | Some (key, task) \<Rightarrow>
                let leased = leasedTask now uuid workerId task
                in act_then (act_modify (\<lambda>q. q\<lparr>mqTasks := oset key leased (mqTasks q)\<rparr>))
                     (act_return (Some leased)))))"

text \<open>\<open>!task.leaseId || !task.workerId\<close>\<close>

definition memRenewTaskLease :: "taskRecord \<Rightarrow> bool memAct" where
  "memRenewTaskLease task =
     (if nonEmpty (tkLeaseId task) = None \<or> nonEmpty (tkWorkerId task) = None then act_return False
      else act_bind (act_lift (normalizeTenantId (Some (tkTenantId task)))) (\<lambda>tenantId.
             act_get (\<lambda>q. case oget (mqTasks q) (taskKey tenantId (tkId task)) of
                 None \<Rightarrow> False
               | Some e \<Rightarrow> tkState e = RUNNING \<and> tkWorkerId e = tkWorkerId task
                           \<and> tkLeaseId e = tkLeaseId task)))"

definition memGetTask :: "string \<Rightarrow> string option \<Rightarrow> taskRecord option memAct" where
  "memGetTask taskId tenantId =
     act_bind (act_lift (normalizeTenantId tenantId)) (\<lambda>t.
       act_get (\<lambda>q. oget (mqTasks q) (taskKey t taskId)))"

definition memListTasks ::
  "int \<Rightarrow> string option \<Rightarrow> taskListFilter option \<Rightarrow> taskRecord list memAct" where
  "memListTasks limit tenantId flt =
     act_bind (act_lift (normalizeTenantId tenantId)) (\<lambda>t.
       act_get (\<lambda>q. sliceTo limit
         (filter (\<lambda>task. case flt of None \<Rightarrow> True | Some f \<Rightarrow> matchesTaskFilter task f)
           (filter (\<lambda>task. tkTenantId task = t) (map snd (mqTasks q))))))"

definition memUpdateWorkerHeartbeat :: "int \<Rightarrow> workerInfo \<Rightarrow> unit memAct" where
  "memUpdateWorkerHeartbeat now worker =
     act_bind (act_lift (normalizeTenantId (Some (wkTenantId worker)))) (\<lambda>t.
       act_modify (\<lambda>q. q\<lparr>mqWorkers := oset (taskKey t (wkWorkerId worker))
         (worker\<lparr>wkTenantId := t, wkLastHeartbeat := now\<rparr>) (mqWorkers q)\<rparr>))"

definition memListWorkers :: "string option \<Rightarrow> workerInfo list memAct" where
  "memListWorkers tenantId =
     act_bind (act_lift (normalizeTenantId tenantId)) (\<lambda>t.
       act_get (\<lambda>q. filter (\<lambda>w. wkTenantId w = t) (map snd (mqWorkers q))))"

definition memIsUrlSeen :: "int \<Rightarrow> string \<Rightarrow> string option \<Rightarrow> bool memAct" where
  "memIsUrlSeen now url tenantId =
     act_bind (act_lift (normalizeTenantId tenantId)) (\<lambda>t.
       let key = taskKey t url in
       act_bind (act_get (\<lambda>q. oget (mqSeen q) key)) (\<lambda>expiresAt.
         case expiresAt of
           None \<Rightarrow> act_return False
         | Some e \<Rightarrow> (if e \<le> now
                     then act_then (act_modify (\<lambda>q. q\<lparr>mqSeen := odelete key (mqSeen q)\<rparr>))
                            (act_return False)
                     else act_return True)))"

definition DEFAULT_URL_TTL_SECONDS :: int where
  "DEFAULT_URL_TTL_SECONDS = 2592000"

text \<open>The two passes of \<open>claimUrls\<close>.\<close>

definition anyClaimed :: "int \<Rightarrow> (string, int) omap \<Rightarrow> string list \<Rightarrow> bool" where
  "anyClaimed now seen keys = list_ex (\<lambda>k. case oget seen k of None \<Rightarrow> False | Some e \<Rightarrow> e > now) keys"

definition setAll :: "int \<Rightarrow> string list \<Rightarrow> (string, int) omap \<Rightarrow> (string, int) omap" where
  "setAll expiresAt keys seen = fold (\<lambda>k. oset k expiresAt) keys seen"

definition deleteAll :: "string list \<Rightarrow> (string, int) omap \<Rightarrow> (string, int) omap" where
  "deleteAll keys seen = fold odelete keys seen"

definition memClaimUrls :: "int \<Rightarrow> string list \<Rightarrow> int \<Rightarrow> string option \<Rightarrow> bool memAct" where
  "memClaimUrls now urls ttlSeconds tenantId =
     (if urls = [] \<or> ttlSeconds \<le> 0 then act_return False
      else act_bind (act_lift (normalizeTenantId tenantId)) (\<lambda>t.
        let keys = map (taskKey t) urls in
        act_bind (act_get (\<lambda>q. anyClaimed now (mqSeen q) keys)) (\<lambda>taken.
          if taken then act_return False
          else act_then (act_modify (\<lambda>q. q\<lparr>mqSeen := setAll (now + ttlSeconds * 1000) keys (mqSeen q)\<rparr>))
                 (act_return True))))"

definition memClaimUrl :: "int \<Rightarrow> string \<Rightarrow> int \<Rightarrow> string option \<Rightarrow> bool memAct" where
  "memClaimUrl now url ttlSeconds tenantId = memClaimUrls now [url] ttlSeconds tenantId"

definition memReleaseUrls :: "string list \<Rightarrow> string option \<Rightarrow> unit memAct" where
  "memReleaseUrls urls tenantId =
     (if urls = [] then act_return ()
      else act_bind (act_lift (normalizeTenantId tenantId)) (\<lambda>t.
        act_modify (\<lambda>q. q\<lparr>mqSeen := deleteAll (map (taskKey t) urls) (mqSeen q)\<rparr>)))"

definition memMarkUrlSeen :: "int \<Rightarrow> string \<Rightarrow> int \<Rightarrow> string option \<Rightarrow> unit memAct" where
  "memMarkUrlSeen now url ttlSeconds tenantId =
     (if ttlSeconds \<le> 0 then act_return ()
      else act_bind (act_lift (normalizeTenantId tenantId)) (\<lambda>t.
        act_modify (\<lambda>q. q\<lparr>mqSeen := oset (taskKey t url) (now + ttlSeconds * 1000) (mqSeen q)\<rparr>)))"

definition memClose :: "unit memAct" where
  "memClose = act_modify (\<lambda>q. q\<lparr>mqTasks := [], mqPending := [], mqWorkers := [], mqSeen := []\<rparr>)"

section \<open>The invariant\<close>

text \<open>
  Every record is stored under its own key and tenant; the pending queue has no duplicates
  and only keys of stored tasks.
\<close>

definition entryOk :: "string \<times> taskRecord \<Rightarrow> bool" where
  "entryOk e \<longleftrightarrow> fst e = taskKey (tkTenantId (snd e)) (tkId (snd e))
     \<and> TENANT_ID_PATTERN (tkTenantId (snd e))"

definition memInv :: "memoryQueue \<Rightarrow> bool" where
  "memInv q \<longleftrightarrow> owf (mqTasks q) \<and> list_all entryOk (mqTasks q)
     \<and> distinct (mqPending q) \<and> set (mqPending q) \<subseteq> set (okeys (mqTasks q))"

definition memTask :: "memoryQueue \<Rightarrow> string \<Rightarrow> string \<Rightarrow> taskRecord option" where
  "memTask q t i = oget (mqTasks q) (taskKey t i)"

fun memStep :: "memoryQueue queueStep" where
  "memStep (QEnqueue now task) = act_then (memEnqueueTask task) (act_return RDone)"
| "memStep (QUpdate now task) = act_then (memUpdateTask task) (act_return RDone)"
| "memStep (QRenew now task) = act_bind (memRenewTaskLease task) (\<lambda>b. act_return (RBool b))"
| "memStep (QDequeue now uuid w t sh) =
     act_bind (memDequeueTask now uuid w t) (\<lambda>r. act_return (RTask r))"
| "memStep (QElapse d) = act_return RDone"

lemma taskKey_not_Nil [simp]: "taskKey t i \<noteq> []" "[] \<noteq> taskKey t i"
  by (simp_all add: taskKey_def tenantKey_def)

lemma taskKey_inj:
  "TENANT_ID_PATTERN a \<Longrightarrow> TENANT_ID_PATTERN b \<Longrightarrow> taskKey a x = taskKey b y \<longleftrightarrow> a = b \<and> x = y"
  by (simp add: taskKey_def tenantKey_inj)

lemma set_spliceOut: "i < length xs \<Longrightarrow> distinct xs \<Longrightarrow>
    distinct (spliceOut i xs) \<and> set (spliceOut i xs) = set xs - {xs ! i}"
proof -
  assume i: "i < length xs" and d: "distinct xs"
  have eq: "xs = take i xs @ xs ! i # drop (Suc i) xs"
    using i by (simp add: id_take_nth_drop)
  have dd: "distinct (take i xs @ xs ! i # drop (Suc i) xs)"
    using d eq by simp
  have "set xs = set (take i xs @ xs ! i # drop (Suc i) xs)"
    using eq by simp
  with dd show ?thesis
    unfolding spliceOut_def by auto
qed

lemma memInv_entry: "memInv q \<Longrightarrow> oget (mqTasks q) k = Some task \<Longrightarrow>
    k = taskKey (tkTenantId task) (tkId task) \<and> TENANT_ID_PATTERN (tkTenantId task)"
  by (auto simp: memInv_def list_all_iff entryOk_def dest!: map_of_SomeD)

lemma list_all_oset_entry: "list_all entryOk m \<Longrightarrow> entryOk (k, v) \<Longrightarrow> list_all entryOk (oset k v m)"
  by (induction m) auto

lemma memInv_store:
  assumes "memInv q" and "entryOk (k, task)" and "distinct p"
    and "set p \<subseteq> set (okeys (oset k task (mqTasks q)))"
  shows "memInv (q\<lparr>mqTasks := oset k task (mqTasks q), mqPending := p\<rparr>)"
  using assms by (simp add: memInv_def omap_simps list_all_oset_entry)

text \<open>A write goes through exactly when the lease matches; it stores the record as given.\<close>

definition writable :: "memoryQueue \<Rightarrow> taskRecord \<Rightarrow> bool" where
  "writable q task \<longleftrightarrow> TENANT_ID_PATTERN (tkTenantId task)
     \<and> assertLeaseOwnership (memTask q (tkTenantId task) (tkId task)) task = Inr ()"

lemma storeTask_eq:
  "storeTask task q =
     (if writable q task
      then (Inr (taskKey (tkTenantId task) (tkId task), task),
            q\<lparr>mqTasks := oset (taskKey (tkTenantId task) (tkId task)) task (mqTasks q)\<rparr>)
      else (Inl (if TENANT_ID_PATTERN (tkTenantId task) then TaskLeaseLostError
                 else JsError ''Invalid tenant ID.''), q))"
proof (cases "TENANT_ID_PATTERN (tkTenantId task)")
  case False
  then have "normalizeTenantId (Some (tkTenantId task)) = Inl (JsError ''Invalid tenant ID.'')"
    by (simp add: normalizeTenantId_def)
  with False show ?thesis
    by (simp add: storeTask_def act_defs writable_def)
next
  case True
  let ?own = "assertLeaseOwnership (oget (mqTasks q) (taskKey (tkTenantId task) (tkId task))) task"
  have "?own = Inr () \<or> ?own = Inl TaskLeaseLostError"
    by (auto simp: assertLeaseOwnership_def split: option.splits)
  with True show ?thesis
    by (elim disjE)
       (simp_all add: storeTask_def act_defs writable_def memTask_def normalizeTenantId_ok Let_def)
qed

lemma memEnqueueTask_eq:
  "memEnqueueTask task q =
     (case storeTask task q of
        (Inl e, q') \<Rightarrow> (Inl e, q')
      | (Inr (k, t), q') \<Rightarrow> (Inr (), q'\<lparr>mqPending := updatePending k t (mqPending q')\<rparr>))"
  by (simp add: memEnqueueTask_def act_defs split: prod.splits sum.splits)

lemma memUpdateTask_eq:
  "memUpdateTask task q =
     (case storeTask task q of (Inl e, q') \<Rightarrow> (Inl e, q') | (Inr r, q') \<Rightarrow> (Inr (), q'))"
  by (simp add: memUpdateTask_def act_defs split: prod.splits sum.splits)

lemma updatePending_ok:
  "distinct p \<Longrightarrow> set p \<subseteq> insert k K \<Longrightarrow>
     distinct (updatePending k t p) \<and> set (updatePending k t p) \<subseteq> insert k K"
  by (auto simp: updatePending_def removePendingKey_def distinct_removeAll)

lemma claimLoop_sound:
  "claimLoop prefix tasks pending = (found, rest) \<Longrightarrow> distinct pending \<Longrightarrow>
     distinct rest \<and> set rest \<subseteq> set pending
     \<and> (\<forall>key task. found = Some (key, task) \<longrightarrow>
          key \<in> set pending - set rest \<and> startsWith key prefix
          \<and> oget tasks key = Some task \<and> runnable task)"
proof (induction prefix tasks pending arbitrary: found rest rule: claimLoop.induct)
  case (1 prefix tasks pending)
  show ?case
  proof (cases "findIndex (\<lambda>key. startsWith key prefix) pending")
    case None
    with "1.prems" show ?thesis by (simp add: claimLoop.simps)
  next
    case (Some i)
    note i = findIndex_Some [OF Some]
    note cut = set_spliceOut [OF conjunct1 [OF i] "1.prems"(2)]
    note eq = claimLoop.simps [of prefix tasks pending]
    let ?rest = "spliceOut i pending"
    let ?sound = "\<lambda>p. distinct rest \<and> set rest \<subseteq> set p
      \<and> (\<forall>key task. found = Some (key, task) \<longrightarrow> key \<in> set p - set rest \<and> startsWith key prefix
           \<and> oget tasks key = Some task \<and> runnable task)"
    have widen: "?sound ?rest \<Longrightarrow> ?thesis"
      using cut by blast
    show ?thesis
    proof (cases "pending ! i = []")
      case True
      with Some have "claimLoop prefix tasks pending = (None, ?rest)"
        by (simp add: eq)
      with "1.prems"(1) cut show ?thesis by auto
    next
      case nonNil: False
      show ?thesis
      proof (cases "oget tasks (pending ! i)")
        case None
        with Some nonNil have "claimLoop prefix tasks pending = claimLoop prefix tasks ?rest"
          by (simp add: eq)
        with "1.prems"(1) have loop: "claimLoop prefix tasks ?rest = (found, rest)" by simp
        show ?thesis
          by (rule widen, rule "1.IH"(1) [OF Some refl refl nonNil None loop]) (simp add: cut)
      next
        case task: (Some t)
        show ?thesis
        proof (cases "runnable t")
          case True
          with Some nonNil task have "claimLoop prefix tasks pending = (Some (pending ! i, t), ?rest)"
            by (simp add: eq)
          moreover have "pending ! i \<in> set pending" using i by simp
          ultimately show ?thesis
            using "1.prems"(1) cut i task True by auto
        next
          case False
          with Some nonNil task have "claimLoop prefix tasks pending = claimLoop prefix tasks ?rest"
            by (simp add: eq)
          with "1.prems"(1) have loop: "claimLoop prefix tasks ?rest = (found, rest)" by simp
          show ?thesis
            by (rule widen, rule "1.IH"(2) [OF Some refl refl nonNil task False loop]) (simp add: cut)
        qed
      qed
    qed
  qed
qed

section \<open>Steps\<close>

lemma memDequeueTask_eq:
  "memDequeueTask now uuid w t q =
     (case normalizeTenantId t of
        Inl e \<Rightarrow> (Inl e, q)
      | Inr tn \<Rightarrow>
          (case claimLoop (tn @ [CHR 0x00]) (mqTasks q) (mqPending q) of
             (None, rest) \<Rightarrow> (Inr None, q\<lparr>mqPending := rest\<rparr>)
           | (Some (k, task), rest) \<Rightarrow>
               (Inr (Some (leasedTask now uuid w task)),
                q\<lparr>mqTasks := oset k (leasedTask now uuid w task) (mqTasks q), mqPending := rest\<rparr>)))"
  by (simp add: memDequeueTask_def act_defs Let_def split: sum.splits prod.splits option.splits)

lemma leasedTask_fields [simp]:
  "tkId (leasedTask now uuid w task) = tkId task"
  "tkTenantId (leasedTask now uuid w task) = tkTenantId task"
  "tkLeaseId (leasedTask now uuid w task) = Some uuid"
  "tkWorkerId (leasedTask now uuid w task) = Some w"
  "tkState (leasedTask now uuid w task) = RUNNING"
  by (simp_all add: leasedTask_def)

lemma memRenewTaskLease_state: "snd (memRenewTaskLease task q) = q"
  by (simp add: memRenewTaskLease_def act_defs split: sum.splits)

lemma memInv_writes:
  assumes "memInv q" and "writable q task"
  shows "memInv (snd (memEnqueueTask task q))" and "memInv (snd (memUpdateTask task q))"
proof -
  let ?k = "taskKey (tkTenantId task) (tkId task)"
  have entry: "entryOk (?k, task)"
    using assms(2) by (simp add: entryOk_def writable_def)
  have keys: "set (okeys (oset ?k task (mqTasks q))) = insert ?k (set (okeys (mqTasks q)))"
    by (auto simp: okeys_oset)
  have old: "distinct (mqPending q)" "set (mqPending q) \<subseteq> insert ?k (set (okeys (mqTasks q)))"
    using assms(1) by (auto simp: memInv_def)
  from updatePending_ok [OF old]
  show "memInv (snd (memEnqueueTask task q))"
    using memInv_store [OF assms(1) entry, of "updatePending ?k task (mqPending q)"] assms(2) keys
    by (simp add: memEnqueueTask_eq storeTask_eq)
  show "memInv (snd (memUpdateTask task q))"
    using memInv_store [OF assms(1) entry old(1)] old(2) assms(2) keys
    by (simp add: memUpdateTask_eq storeTask_eq)
qed

lemma memInv_dequeue:
  assumes "memInv q"
  shows "memInv (snd (memDequeueTask now uuid w t q))"
proof (cases "normalizeTenantId t")
  case (Inl e)
  with assms show ?thesis by (simp add: memDequeueTask_eq)
next
  case (Inr tn)
  obtain found rest where loop:
    "claimLoop (tn @ [CHR 0x00]) (mqTasks q) (mqPending q) = (found, rest)" by fastforce
  have dist: "distinct (mqPending q)" using assms by (simp add: memInv_def)
  note sound = claimLoop_sound [OF loop dist]
  show ?thesis
  proof (cases found)
    case None
    with Inr loop assms sound show ?thesis by (auto simp: memDequeueTask_eq memInv_def)
  next
    case (Some e)
    obtain k task where e: "e = (k, task)" by fastforce
    have k: "oget (mqTasks q) k = Some task" using sound Some e by simp
    have "entryOk (k, leasedTask now uuid w task)"
      using memInv_entry [OF assms k] by (simp add: entryOk_def)
    moreover have "set rest \<subseteq> set (okeys (oset k (leasedTask now uuid w task) (mqTasks q)))"
      using sound assms by (auto simp: memInv_def okeys_oset)
    ultimately show ?thesis
      using memInv_store [OF assms, of k "leasedTask now uuid w task" rest] sound Inr loop Some e
      by (simp add: memDequeueTask_eq)
  qed
qed

lemma memInv_step: "memInv q \<Longrightarrow> memInv (snd (memStep c q))"
proof (cases c)
  case (QEnqueue now task)
  assume "memInv q"
  with QEnqueue memInv_writes(1) [of q task] show ?thesis
    by (cases "writable q task")
       (simp_all add: act_defs memEnqueueTask_eq storeTask_eq)
next
  case (QUpdate now task)
  assume "memInv q"
  with QUpdate memInv_writes(2) [of q task] show ?thesis
    by (cases "writable q task")
       (simp_all add: act_defs memUpdateTask_eq storeTask_eq)
next
  case (QRenew now task)
  assume "memInv q"
  with QRenew memRenewTaskLease_state [of task q] show ?thesis
    by (simp add: act_map_snd)
next
  case (QDequeue now uuid w t sh)
  assume "memInv q"
  with QDequeue memInv_dequeue [of q now uuid w t] show ?thesis
    by (simp add: act_map_snd)
next
  case (QElapse d)
  assume "memInv q"
  with QElapse show ?thesis by (simp add: act_defs)
qed

text \<open>The task a write or a claim touches, and no other.\<close>

lemma memStep_write:
  assumes "c = QEnqueue now task \<or> c = QUpdate now task"
  shows "memTask (snd (memStep c q)) t i =
           (if writable q task \<and> taskKey t i = taskKey (tkTenantId task) (tkId task)
            then Some task else memTask q t i)"
    and "fst (memStep c q) = Inr RDone \<longleftrightarrow> writable q task"
    and "refused (fst (memStep c q)) \<longleftrightarrow> \<not> writable q task"
  using assms
  by (cases "writable q task";
      auto simp: act_defs memEnqueueTask_eq memUpdateTask_eq storeTask_eq memTask_def omap_simps)+

lemma memStep_dequeue:
  assumes "memInv q" and "memStep (QDequeue now uuid w tn sh) q = (r, q')"
  shows "(\<forall>t i. memTask q' t i = memTask q t i) \<and> (\<forall>task. r \<noteq> Inr (RTask (Some task)))
    \<or> (\<exists>task. r = Inr (RTask (Some (leasedTask now uuid w task)))
         \<and> memTask q (tkTenantId task) (tkId task) = Some task \<and> runnable task
         \<and> (\<forall>t i. memTask q' t i =
              (if taskKey t i = taskKey (tkTenantId task) (tkId task)
               then Some (leasedTask now uuid w task) else memTask q t i)))"
proof (cases "normalizeTenantId tn")
  case (Inl e)
  with assms(2) show ?thesis by (auto simp: memDequeueTask_eq act_defs)
next
  case (Inr tenant)
  obtain found rest where loop:
    "claimLoop (tenant @ [CHR 0x00]) (mqTasks q) (mqPending q) = (found, rest)" by fastforce
  have dist: "distinct (mqPending q)" using assms by (simp add: memInv_def)
  show ?thesis
  proof (cases found)
    case None
    with Inr loop assms(2) show ?thesis
      by (auto simp: memDequeueTask_eq memTask_def act_defs)
  next
    case (Some e)
    obtain k task where e: "e = (k, task)" by fastforce
    have k: "oget (mqTasks q) k = Some task" "runnable task"
      using claimLoop_sound [OF loop dist] Some e by simp_all
    with memInv_entry [OF assms(1) k(1)] Inr loop assms(2) Some e show ?thesis
      by (auto simp: memDequeueTask_eq memTask_def omap_simps act_defs)
  qed
qed

definition memSealed :: "memoryQueue \<Rightarrow> string \<Rightarrow> string \<Rightarrow> bool" where
  "memSealed q t i \<longleftrightarrow> (\<exists>task. memTask q t i = Some task \<and> tkLeaseId task \<noteq> None)"

lemma writable_lease:
  "writable q task \<Longrightarrow> memTask q (tkTenantId task) (tkId task) = Some e \<Longrightarrow> tkLeaseId e \<noteq> None \<Longrightarrow>
     tkLeaseId task = tkLeaseId e \<and> tkWorkerId task = tkWorkerId e"
  by (auto simp: writable_def assertLeaseOwnership_def split: if_splits)

lemma memTask_key: "taskKey t i = taskKey t' i' \<Longrightarrow> memTask q t i = memTask q t' i'"
  by (simp add: memTask_def)

text \<open>What one call does to the record of one task.\<close>

lemma memStep_effect:
  assumes "memInv q" and "memSealed q t i"
  shows "memTask (snd (memStep c q)) t i = memTask q t i
    \<or> (\<exists>task. memTask (snd (memStep c q)) t i = Some task
         \<and> tkLeaseId task \<noteq> None
         \<and> (Some (the (tkLeaseId task)) = issues c
            \<or> (\<exists>e. memTask q t i = Some e \<and> tkLeaseId task = tkLeaseId e)))"
proof (cases c)
  case (QEnqueue now task)
  then show ?thesis
    using memStep_write(1) [of c now task q t i] writable_lease [of q task] assms(2)
    by (auto simp: memSealed_def memTask_def split: if_splits)
next
  case (QUpdate now task)
  then show ?thesis
    using memStep_write(1) [of c now task q t i] writable_lease [of q task] assms(2)
    by (auto simp: memSealed_def memTask_def split: if_splits)
next
  case (QRenew now task)
  have "snd (memStep (QRenew now task) q) = q"
    using memRenewTaskLease_state [of task q] by (simp add: act_map_snd)
  with QRenew show ?thesis by simp
next
  case (QDequeue now uuid w tn sh)
  obtain r q' where "memStep (QDequeue now uuid w tn sh) q = (r, q')" by fastforce
  with memStep_dequeue [OF assms(1) this] QDequeue show ?thesis by auto
next
  case (QElapse d)
  then show ?thesis by (simp add: act_defs)
qed

lemma memStale:
  assumes "memSealed q t i" and "carries c (t, i) L" and "leaseOf (memTask q t i) \<noteq> Some L" and "L \<noteq> []"
  shows "refused (fst (memStep c q)) \<and> memTask (snd (memStep c q)) t i = memTask q t i"
proof (cases c)
  case (QEnqueue now task)
  with assms have "\<not> writable q task"
    using writable_lease [of q task] by (auto simp: memSealed_def writesAs_def)
  with QEnqueue memStep_write [of c now task q] show ?thesis by simp
next
  case (QUpdate now task)
  with assms have "\<not> writable q task"
    using writable_lease [of q task] by (auto simp: memSealed_def writesAs_def)
  with QUpdate memStep_write [of c now task q] show ?thesis by simp
next
  case (QRenew now task)
  have "memTask q t i = Some e \<Longrightarrow> tkLeaseId e \<noteq> tkLeaseId task" for e
    using assms QRenew by (auto simp: writesAs_def)
  with QRenew assms(2) memRenewTaskLease_state [of task q] show ?thesis
    by (auto simp: refused_cases memRenewTaskLease_def act_defs writesAs_def memTask_def
        split: sum.splits option.splits)
qed (use assms in simp_all)

lemma memClaim:
  assumes "memInv q" and "memStep (QDequeue now uuid w tn sh) q = (Inr (RTask (Some task)), q')"
  shows "tkLeaseId task = Some uuid \<and> memSealed q' (tkTenantId task) (tkId task)
    \<and> memTask q' (tkTenantId task) (tkId task) = Some task"
  using memStep_dequeue [OF assms] by (auto simp: memSealed_def)

interpretation mem: task_queue memStep memInv memTask memSealed
proof
  fix s c
  show "memInv s \<Longrightarrow> memInv (snd (memStep c s))" by (rule memInv_step)
next
  fix s t i c
  assume "memInv s" "memSealed s t i"
  from memStep_effect [OF this, of c] this(2) show "memSealed (snd (memStep c s)) t i"
    by (auto simp: memSealed_def)
next
  fix s t i c L
  assume "memInv s" "memSealed s t i" "leaseOf (memTask (snd (memStep c s)) t i) = Some L"
  with memStep_effect [of s t i c]
  show "leaseOf (memTask s t i) = Some L \<or> issues c = Some L"
    by (auto simp: leaseOf_def split: option.splits)
next
  fix s t i c L
  assume "memInv s" "memSealed s t i" "carries c (t, i) L" "L \<noteq> []" "leaseOf (memTask s t i) \<noteq> Some L"
  then show "refused (fst (memStep c s)) \<and> memTask (snd (memStep c s)) t i = memTask s t i"
    by (intro memStale)
next
  fix s now uuid w tn sh task s'
  assume "memInv s" "memStep (QDequeue now uuid w tn sh) s = (Inr (RTask (Some task)), s')"
  then show "tkLeaseId task = Some uuid \<and> memSealed s' (tkTenantId task) (tkId task)
    \<and> memTask s' (tkTenantId task) (tkId task) = Some task"
    by (rule memClaim)
qed

end
