(* ===== verification/MemoryQueueSpec.thy ===== *)
theory MemoryQueueSpec
  imports MemoryQueue
begin

text \<open>
  What \<open>MemoryQueueAdapter\<close> promises: every call is the call of an abstract queue that keeps,
  for each tenant on its own, a table of tasks and a first-in first-out list of waiting task
  identifiers; a claim fences every earlier owner; URL claims are exclusive.
\<close>

section \<open>The abstract queue\<close>

record tenantQueues =
  aqTasks :: "string \<Rightarrow> string \<Rightarrow> taskRecord option"
  aqWaiting :: "string \<Rightarrow> string list"

text \<open>A write is accepted from the owner of the current lease, or from anyone without one.\<close>

definition mayWrite :: "taskRecord option \<Rightarrow> taskRecord \<Rightarrow> bool" where
  "mayWrite current task \<longleftrightarrow>
     (case current of
        None \<Rightarrow> True
      | Some c \<Rightarrow> tkLeaseId c = None \<or> (tkLeaseId task = tkLeaseId c \<and> tkWorkerId task = tkWorkerId c))"

definition putTask :: "taskRecord \<Rightarrow> tenantQueues \<Rightarrow> tenantQueues" where
  "putTask task a = a\<lparr>aqTasks := (aqTasks a)(tkTenantId task :=
     (aqTasks a (tkTenantId task))(tkId task := Some task))\<rparr>"

definition putWaiting :: "string \<Rightarrow> string list \<Rightarrow> tenantQueues \<Rightarrow> tenantQueues" where
  "putWaiting t ids a = a\<lparr>aqWaiting := (aqWaiting a)(t := ids)\<rparr>"

definition requeue :: "taskRecord \<Rightarrow> string list \<Rightarrow> string list" where
  "requeue task ids =
     (if runnable task then (if tkId task \<in> set ids then ids else ids @ [tkId task])
      else removeAll (tkId task) ids)"

definition specWrite :: "bool \<Rightarrow> taskRecord \<Rightarrow> tenantQueues \<Rightarrow> (taskError + queueReply) \<times> tenantQueues" where
  "specWrite enq task a =
     (if \<not> TENANT_ID_PATTERN (tkTenantId task) then (Inl (JsError ''Invalid tenant ID.''), a)
      else if \<not> mayWrite (aqTasks a (tkTenantId task) (tkId task)) task then (Inl TaskLeaseLostError, a)
      else (Inr RDone,
            putTask task
              (if enq then putWaiting (tkTenantId task) (requeue task (aqWaiting a (tkTenantId task))) a
               else a)))"

definition waitingRunnable :: "tenantQueues \<Rightarrow> string \<Rightarrow> string \<Rightarrow> bool" where
  "waitingRunnable a t i \<longleftrightarrow> (case aqTasks a t i of None \<Rightarrow> False | Some task \<Rightarrow> runnable task)"

definition specDequeue ::
  "int \<Rightarrow> string \<Rightarrow> string \<Rightarrow> string option \<Rightarrow> tenantQueues \<Rightarrow> (taskError + queueReply) \<times> tenantQueues" where
  "specDequeue now uuid w tn a =
     (case normalizeTenantId tn of
        Inl e \<Rightarrow> (Inl e, a)
      | Inr t \<Rightarrow>
          (case dropWhile (\<lambda>i. \<not> waitingRunnable a t i) (aqWaiting a t) of
             [] \<Rightarrow> (Inr (RTask None), putWaiting t [] a)
           | i # ids \<Rightarrow>
               (let leased = leasedTask now uuid w (the (aqTasks a t i))
                in (Inr (RTask (Some leased)), putTask leased (putWaiting t ids a)))))"

definition specRenew :: "taskRecord \<Rightarrow> tenantQueues \<Rightarrow> (taskError + queueReply) \<times> tenantQueues" where
  "specRenew task a =
     (if nonEmpty (tkLeaseId task) = None \<or> nonEmpty (tkWorkerId task) = None then (Inr (RBool False), a)
      else if \<not> TENANT_ID_PATTERN (tkTenantId task) then (Inl (JsError ''Invalid tenant ID.''), a)
      else (Inr (RBool (\<exists>c. aqTasks a (tkTenantId task) (tkId task) = Some c \<and> tkState c = RUNNING
              \<and> tkWorkerId c = tkWorkerId task \<and> tkLeaseId c = tkLeaseId task)), a))"

fun specStep :: "queueCall \<Rightarrow> tenantQueues \<Rightarrow> (taskError + queueReply) \<times> tenantQueues" where
  "specStep (QEnqueue now task) a = specWrite True task a"
| "specStep (QUpdate now task) a = specWrite False task a"
| "specStep (QRenew now task) a = specRenew task a"
| "specStep (QDequeue now uuid w tn sh) a = specDequeue now uuid w tn a"
| "specStep (QElapse d) a = (Inr RDone, a)"

section \<open>The abstraction\<close>

definition tenantPrefix :: "string \<Rightarrow> string" where
  "tenantPrefix t = t @ [CHR 0x00]"

definition tenantIds :: "string \<Rightarrow> string list \<Rightarrow> string list" where
  "tenantIds t pending = map (drop (length (tenantPrefix t))) (filter (\<lambda>k. startsWith k (tenantPrefix t)) pending)"

definition absQueue :: "memoryQueue \<Rightarrow> tenantQueues" where
  "absQueue q =
     \<lparr>aqTasks = (\<lambda>t i. if TENANT_ID_PATTERN t then memTask q t i else None),
      aqWaiting = (\<lambda>t. if TENANT_ID_PATTERN t then tenantIds t (mqPending q) else [])\<rparr>"

text \<open>A pending key is the key of a task of some tenant.\<close>

definition taskKeyOk :: "string \<Rightarrow> bool" where
  "taskKeyOk k \<longleftrightarrow> (\<exists>t i. k = taskKey t i \<and> TENANT_ID_PATTERN t)"

lemma memInv_pending: "memInv q \<Longrightarrow> k \<in> set (mqPending q) \<Longrightarrow> taskKeyOk k"
proof -
  assume inv: "memInv q" and "k \<in> set (mqPending q)"
  then have "k \<in> set (okeys (mqTasks q))" by (auto simp: memInv_def)
  then obtain task where "oget (mqTasks q) k = Some task"
    by (metis oget_None_iff not_None_eq)
  from memInv_entry [OF inv this] show ?thesis
    by (auto simp: taskKeyOk_def)
qed

lemma startsWith_taskKey:
  "TENANT_ID_PATTERN a \<Longrightarrow> TENANT_ID_PATTERN b \<Longrightarrow>
     startsWith (taskKey b x) (tenantPrefix a) \<longleftrightarrow> a = b"
  by (simp add: taskKey_def tenantPrefix_def tenantKey_prefix)

lemma drop_taskKey [simp]: "drop (length (tenantPrefix t)) (taskKey t i) = i"
  by (simp add: taskKey_def tenantPrefix_def tenantKey_def)

lemma tenantIds_append: "tenantIds t (xs @ ys) = tenantIds t xs @ tenantIds t ys"
  by (simp add: tenantIds_def)

lemma tenantIds_key:
  "TENANT_ID_PATTERN t \<Longrightarrow> TENANT_ID_PATTERN t' \<Longrightarrow>
     tenantIds t (taskKey t' i # ks) = (if t = t' then i # tenantIds t ks else tenantIds t ks)"
  by (simp add: tenantIds_def startsWith_taskKey)

lemma in_tenantIds:
  assumes "TENANT_ID_PATTERN t" and "\<forall>k\<in>set ks. taskKeyOk k"
  shows "i \<in> set (tenantIds t ks) \<longleftrightarrow> taskKey t i \<in> set ks"
  using assms(2)
proof (induction ks)
  case Nil
  then show ?case by (simp add: tenantIds_def)
next
  case (Cons k ks)
  then obtain t' i' where "k = taskKey t' i'" "TENANT_ID_PATTERN t'"
    by (auto simp: taskKeyOk_def)
  with Cons assms(1) show ?case
    by (auto simp: tenantIds_key taskKey_inj)
qed

lemma tenantIds_removeAll:
  assumes "TENANT_ID_PATTERN t" and "TENANT_ID_PATTERN t'" and "\<forall>k\<in>set ks. taskKeyOk k"
  shows "tenantIds t (removeAll (taskKey t' i) ks)
    = (if t = t' then removeAll i (tenantIds t ks) else tenantIds t ks)"
  using assms(3)
proof (induction ks)
  case Nil
  then show ?case by (simp add: tenantIds_def)
next
  case (Cons k ks)
  then obtain t2 i2 where "k = taskKey t2 i2" "TENANT_ID_PATTERN t2"
    by (auto simp: taskKeyOk_def)
  with Cons assms(1,2) show ?case
    by (auto simp: tenantIds_key taskKey_inj)
qed

lemma tenantIds_updatePending:
  assumes "TENANT_ID_PATTERN t" and "TENANT_ID_PATTERN (tkTenantId task)" and "\<forall>k\<in>set ks. taskKeyOk k"
  shows "tenantIds t (updatePending (taskKey (tkTenantId task) (tkId task)) task ks)
    = (if t = tkTenantId task then requeue task (tenantIds t ks) else tenantIds t ks)"
  using in_tenantIds [OF assms(2,3), of "tkId task"] assms
  by (auto simp: updatePending_def requeue_def runnable_def removePendingKey_def tenantIds_removeAll
      tenantIds_append tenantIds_key)
     (simp_all add: tenantIds_def startsWith_taskKey)

section \<open>The claim loop takes the first runnable task\<close>

lemma findIndex_filter: "findIndex P xs = Some i \<Longrightarrow> filter P xs = xs ! i # filter P (spliceOut i xs)"
  by (induction xs arbitrary: i) (auto simp: spliceOut_def split: if_splits)

lemma findIndex_None: "findIndex P xs = None \<Longrightarrow> filter P xs = []"
  by (induction xs) (auto split: if_splits)

lemma filter_spliceOut:
  assumes "i < length xs" and "\<not> P (xs ! i)"
  shows "filter P (spliceOut i xs) = filter P xs"
proof -
  have "filter P xs = filter P (take i xs @ xs ! i # drop (Suc i) xs)"
    using assms(1) by (simp add: id_take_nth_drop [symmetric])
  with assms(2) show ?thesis by (simp add: spliceOut_def)
qed

definition readyIn :: "(string, taskRecord) omap \<Rightarrow> string \<Rightarrow> string \<Rightarrow> bool" where
  "readyIn tasks t i \<longleftrightarrow>
     (case oget tasks (taskKey t i) of None \<Rightarrow> False | Some task \<Rightarrow> runnable task)"

lemma claimLoop_spec:
  assumes t: "TENANT_ID_PATTERN t"
  shows "claimLoop (tenantPrefix t) tasks pending = (found, rest) \<Longrightarrow> \<forall>k\<in>set pending. taskKeyOk k \<Longrightarrow>
     found = (case dropWhile (\<lambda>i. \<not> readyIn tasks t i) (tenantIds t pending) of
                [] \<Rightarrow> None | i # ids \<Rightarrow> Some (taskKey t i, the (oget tasks (taskKey t i))))
     \<and> (\<forall>t'. TENANT_ID_PATTERN t' \<longrightarrow> tenantIds t' rest =
          (if t' = t then tl (dropWhile (\<lambda>i. \<not> readyIn tasks t i) (tenantIds t pending))
           else tenantIds t' pending))"
proof (induction "tenantPrefix t" tasks pending arbitrary: found rest rule: claimLoop.induct)
  case (1 tasks pending)
  note eq = claimLoop.simps [of "tenantPrefix t" tasks pending]
  show ?case
  proof (cases "findIndex (\<lambda>key. startsWith key (tenantPrefix t)) pending")
    case None
    with "1.prems"(1) eq have "found = None" "rest = pending" by simp_all
    with findIndex_None [OF None] show ?thesis by (simp add: tenantIds_def)
  next
    case (Some n)
    note n = findIndex_Some [OF Some]
    let ?rest = "spliceOut n pending"
    have "pending ! n \<in> set pending" using n by simp
    with "1.prems"(2) obtain t' i where k: "pending ! n = taskKey t' i" "TENANT_ID_PATTERN t'"
      by (auto simp: taskKeyOk_def)
    with n t have k: "pending ! n = taskKey t i"
      by (auto simp: startsWith_taskKey)
    have ids: "tenantIds t pending = i # tenantIds t ?rest"
      using findIndex_filter [OF Some] by (simp add: tenantIds_def k)
    have others: "tenantIds t' ?rest = tenantIds t' pending" if "TENANT_ID_PATTERN t'" "t' \<noteq> t" for t'
      unfolding tenantIds_def using n k t that by (subst filter_spliceOut) (auto simp: startsWith_taskKey)
    have ok: "\<forall>k\<in>set ?rest. taskKeyOk k"
      using "1.prems"(2) by (auto simp: spliceOut_def dest: in_set_takeD in_set_dropD)
    have nonNil: "pending ! n \<noteq> []" using k by simp
    show ?thesis
    proof (cases "readyIn tasks t i")
      case True
      then obtain task where task: "oget tasks (taskKey t i) = Some task" "runnable task"
        by (auto simp: readyIn_def split: option.splits)
      with "1.prems"(1) eq Some k have "found = Some (taskKey t i, task)" "rest = ?rest"
        by simp_all
      with True ids others task show ?thesis by simp
    next
      case False
      with eq Some k have "claimLoop (tenantPrefix t) tasks pending = claimLoop (tenantPrefix t) tasks ?rest"
        by (auto simp: readyIn_def split: option.splits)
      with "1.prems"(1) have loop: "claimLoop (tenantPrefix t) tasks ?rest = (found, rest)" by simp
      show ?thesis
      proof (cases "oget tasks (pending ! n)")
        case None
        with "1.hyps"(1) [OF Some refl refl nonNil None loop ok] False ids others show ?thesis by simp
      next
        case task: (Some task)
        then have "\<not> runnable task" using False k by (simp add: readyIn_def)
        with "1.hyps"(2) [OF Some refl refl nonNil task this loop ok] False ids others
        show ?thesis by simp
      qed
    qed
  qed
qed

section \<open>Refinement\<close>

lemma absQueue_sel:
  "TENANT_ID_PATTERN t \<Longrightarrow> aqTasks (absQueue q) t i = memTask q t i"
  "TENANT_ID_PATTERN t \<Longrightarrow> aqWaiting (absQueue q) t = tenantIds t (mqPending q)"
  by (simp_all add: absQueue_def)

lemma mayWrite_writable:
  "TENANT_ID_PATTERN (tkTenantId task) \<Longrightarrow>
     mayWrite (memTask q (tkTenantId task) (tkId task)) task \<longleftrightarrow> writable q task"
  by (auto simp: mayWrite_def writable_def assertLeaseOwnership_def split: option.splits)

lemma tenantQueues_eqI:
  "(\<And>t i. aqTasks a t i = aqTasks b t i) \<Longrightarrow> (\<And>t. aqWaiting a t = aqWaiting b t) \<Longrightarrow> a = (b :: tenantQueues)"
  by (cases a; cases b) (auto simp: fun_eq_iff)

lemma absQueue_store:
  assumes "TENANT_ID_PATTERN (tkTenantId task)"
  shows "absQueue (q\<lparr>mqTasks := oset (taskKey (tkTenantId task) (tkId task)) task (mqTasks q), mqPending := p\<rparr>)
    = putTask task (absQueue (q\<lparr>mqPending := p\<rparr>))"
  using assms
  by (intro tenantQueues_eqI)
     (auto simp: absQueue_def putTask_def memTask_def omap_simps taskKey_inj)

lemma absQueue_pending:
  assumes "TENANT_ID_PATTERN t" and "\<And>t'. TENANT_ID_PATTERN t' \<Longrightarrow>
      tenantIds t' p = (if t' = t then ids else tenantIds t' (mqPending q))"
  shows "absQueue (q\<lparr>mqPending := p\<rparr>) = putWaiting t ids (absQueue q)"
  using assms
  by (intro tenantQueues_eqI) (auto simp: absQueue_def putWaiting_def memTask_def)

lemma write_refines:
  assumes "memInv q" and "c = (if enq then QEnqueue now task else QUpdate now task)"
    and "memStep c q = (r, q')"
  shows "specWrite enq task (absQueue q) = (r, absQueue q')"
proof (cases "writable q task")
  case False
  with assms mayWrite_writable [of task q] show ?thesis
    by (auto simp: specWrite_def absQueue_sel memEnqueueTask_eq memUpdateTask_eq storeTask_eq act_defs
        split: if_splits)
next
  case True
  then have pat: "TENANT_ID_PATTERN (tkTenantId task)" by (simp add: writable_def)
  have may: "mayWrite (aqTasks (absQueue q) (tkTenantId task) (tkId task)) task"
    using True pat by (simp add: absQueue_sel mayWrite_writable)
  let ?k = "taskKey (tkTenantId task) (tkId task)"
  show ?thesis
  proof (cases enq)
    case True
    have "\<forall>k\<in>set (mqPending q). taskKeyOk k" using memInv_pending [OF assms(1)] by blast
    note ids = tenantIds_updatePending [OF _ pat this]
    have "absQueue (q\<lparr>mqPending := updatePending ?k task (mqPending q)\<rparr>)
      = putWaiting (tkTenantId task) (requeue task (tenantIds (tkTenantId task) (mqPending q))) (absQueue q)"
      by (rule absQueue_pending [OF pat]) (simp add: ids)
    with True assms \<open>writable q task\<close> pat may absQueue_store [OF pat, where q = q and p = "updatePending ?k task (mqPending q)"]
    show ?thesis
      by (auto simp: specWrite_def absQueue_sel memEnqueueTask_eq storeTask_eq act_defs)
  next
    case False
    with assms \<open>writable q task\<close> pat may absQueue_store [OF pat, where q = q and p = "mqPending q"]
    show ?thesis
      by (auto simp: specWrite_def absQueue_sel memUpdateTask_eq storeTask_eq act_defs)
  qed
qed

lemma dequeue_refines:
  assumes "memInv q" and "memStep (QDequeue now uuid w tn sh) q = (r, q')"
  shows "specDequeue now uuid w tn (absQueue q) = (r, absQueue q')"
proof (cases "normalizeTenantId tn")
  case (Inl e)
  with assms show ?thesis by (simp add: specDequeue_def memDequeueTask_eq act_defs)
next
  case (Inr t)
  have pat: "TENANT_ID_PATTERN t" by (rule normalizeTenantId_pattern [OF Inr])
  obtain found rest where loop:
    "claimLoop (tenantPrefix t) (mqTasks q) (mqPending q) = (found, rest)" by fastforce
  have keys: "\<forall>k\<in>set (mqPending q). taskKeyOk k" using memInv_pending [OF assms(1)] by blast
  note spec = claimLoop_spec [OF pat loop keys]
  have ready: "waitingRunnable (absQueue q) t = readyIn (mqTasks q) t"
    using pat by (auto simp: fun_eq_iff waitingRunnable_def readyIn_def absQueue_sel memTask_def)
  let ?ids = "dropWhile (\<lambda>i. \<not> readyIn (mqTasks q) t i) (tenantIds t (mqPending q))"
  have pending: "absQueue (q\<lparr>mqPending := rest\<rparr>) = putWaiting t (tl ?ids) (absQueue q)"
    using spec by (intro absQueue_pending [OF pat]) auto
  show ?thesis
  proof (cases ?ids)
    case Nil
    with spec have "found = None" by simp
    with assms(2) Inr loop pending Nil ready pat show ?thesis
      by (auto simp: specDequeue_def absQueue_sel memDequeueTask_eq act_defs tenantPrefix_def [symmetric]
          simp del: dropWhile_eq_Nil_conv)
  next
    case (Cons i ids)
    with spec have found: "found = Some (taskKey t i, the (memTask q t i))"
      by (simp add: memTask_def)
    have "readyIn (mqTasks q) t i"
      using Cons by (metis (mono_tags, lifting) dropWhile_eq_Cons_conv)
    then obtain task where task: "oget (mqTasks q) (taskKey t i) = Some task"
      by (auto simp: readyIn_def split: option.splits)
    have self: "tkTenantId task = t" "tkId task = i"
      using memInv_entry [OF assms(1) task] pat by (auto simp: taskKey_inj)
    let ?l = "leasedTask now uuid w task"
    have "absQueue (q\<lparr>mqTasks := oset (taskKey t i) ?l (mqTasks q), mqPending := rest\<rparr>)
      = putTask ?l (putWaiting t ids (absQueue q))"
      using absQueue_store [where task = ?l and q = q and p = rest] pat pending Cons by (simp add: self)
    with assms(2) Inr loop found Cons ready pat task show ?thesis
      by (auto simp: specDequeue_def absQueue_sel memTask_def memDequeueTask_eq act_defs
          tenantPrefix_def [symmetric])
  qed
qed

lemma nonEmpty_simps: "nonEmpty None = None" "nonEmpty (Some s) = (if s = [] then None else Some s)"
  by (simp_all add: nonEmpty_def)

lemma renew_refines:
  assumes "memStep (QRenew now task) q = (r, q')"
  shows "specRenew task (absQueue q) = (r, absQueue q')"
proof (cases "TENANT_ID_PATTERN (tkTenantId task)")
  case True
  with assms show ?thesis
    by (auto simp: specRenew_def memRenewTaskLease_def act_defs absQueue_sel memTask_def
        normalizeTenantId_ok nonEmpty_simps split: if_splits option.splits)
next
  case False
  then have "normalizeTenantId (Some (tkTenantId task)) = Inl (JsError ''Invalid tenant ID.'')"
    by (simp add: normalizeTenantId_def)
  with False assms show ?thesis
    by (auto simp: specRenew_def memRenewTaskLease_def act_defs nonEmpty_simps split: if_splits)
qed

section \<open>URL claims\<close>

fun memUrlStep :: "memoryQueue urlStep" where
  "memUrlStep (UClaim now urls ttl tn) = memClaimUrls now urls ttl tn"
| "memUrlStep (URelease urls tn) = act_then (memReleaseUrls urls tn) (act_return True)"
| "memUrlStep (UMark now url ttl tn) = act_then (memMarkUrlSeen now url ttl tn) (act_return True)"
| "memUrlStep (USeen now url tn) = memIsUrlSeen now url tn"

definition memExpiry :: "memoryQueue \<Rightarrow> string \<Rightarrow> string \<Rightarrow> int option" where
  "memExpiry q t u = oget (mqSeen q) (taskKey t u)"

lemma oget_setAll: "oget (setAll e keys seen) k = (if k \<in> set keys then Some e else oget seen k)"
  by (induction keys arbitrary: seen) (auto simp: setAll_def omap_simps)

lemma oget_deleteAll: "oget (deleteAll keys seen) k = (if k \<in> set keys then None else oget seen k)"
  by (induction keys arbitrary: seen) (auto simp: deleteAll_def omap_simps)

text \<open>The outcome and effect of a claim: all of the URLs or none.\<close>

lemma memClaimUrls_eq:
  "memClaimUrls now urls ttl tn q =
     (if urls = [] \<or> ttl \<le> 0 then (Inr False, q)
      else (case normalizeTenantId tn of
              Inl e \<Rightarrow> (Inl e, q)
            | Inr t \<Rightarrow>
                if \<exists>u\<in>set urls. \<exists>e. memExpiry q t u = Some e \<and> now < e then (Inr False, q)
                else (Inr True, q\<lparr>mqSeen := setAll (now + ttl * 1000) (map (taskKey t) urls) (mqSeen q)\<rparr>)))"
  by (auto simp: memClaimUrls_def act_defs anyClaimed_def list_ex_iff memExpiry_def Let_def
      split: sum.splits option.splits)

lemma memUrl_expiry:
  assumes "TENANT_ID_PATTERN t"
  shows "memExpiry (snd (memClaimUrls now urls ttl tn q)) t u =
      (if fst (memClaimUrls now urls ttl tn q) = Inr True \<and> normalizeTenantId tn = Inr t \<and> u \<in> set urls
       then Some (now + ttl * 1000) else memExpiry q t u)"
    and "memExpiry (snd (memReleaseUrls urls tn q)) t u =
      (if normalizeTenantId tn = Inr t \<and> u \<in> set urls then None else memExpiry q t u)"
    and "memExpiry (snd (memMarkUrlSeen now url ttl tn q)) t u =
      (if normalizeTenantId tn = Inr t \<and> u = url \<and> ttl > 0 then Some (now + ttl * 1000) else memExpiry q t u)"
    and "memExpiry (snd (memIsUrlSeen now url tn q)) t u =
      (if normalizeTenantId tn = Inr t \<and> u = url \<and> (\<exists>e. memExpiry q t u = Some e \<and> e \<le> now)
       then None else memExpiry q t u)"
proof -
  have key: "taskKey t u \<in> taskKey t' ` set urls \<longleftrightarrow> t = t' \<and> u \<in> set urls"
    if "normalizeTenantId tn = Inr t'" for t'
    using normalizeTenantId_pattern [OF that] assms by (auto simp: taskKey_inj)
  have key1: "taskKey t u = taskKey t' url \<longleftrightarrow> t = t' \<and> u = url"
    if "normalizeTenantId tn = Inr t'" for t'
    using normalizeTenantId_pattern [OF that] assms by (simp add: taskKey_inj)
  show "memExpiry (snd (memClaimUrls now urls ttl tn q)) t u =
      (if fst (memClaimUrls now urls ttl tn q) = Inr True \<and> normalizeTenantId tn = Inr t \<and> u \<in> set urls
       then Some (now + ttl * 1000) else memExpiry q t u)"
    unfolding memClaimUrls_eq
    by (cases "normalizeTenantId tn") (auto simp: memExpiry_def oget_setAll key)
  show "memExpiry (snd (memReleaseUrls urls tn q)) t u =
      (if normalizeTenantId tn = Inr t \<and> u \<in> set urls then None else memExpiry q t u)"
    by (cases "normalizeTenantId tn")
       (auto simp: memReleaseUrls_def act_defs memExpiry_def oget_deleteAll key)
  show "memExpiry (snd (memMarkUrlSeen now url ttl tn q)) t u =
      (if normalizeTenantId tn = Inr t \<and> u = url \<and> ttl > 0 then Some (now + ttl * 1000) else memExpiry q t u)"
    by (cases "normalizeTenantId tn")
       (auto simp: memMarkUrlSeen_def act_defs memExpiry_def omap_simps key1)
  show "memExpiry (snd (memIsUrlSeen now url tn q)) t u =
      (if normalizeTenantId tn = Inr t \<and> u = url \<and> (\<exists>e. memExpiry q t u = Some e \<and> e \<le> now)
       then None else memExpiry q t u)"
    by (cases "normalizeTenantId tn")
       (auto simp: memIsUrlSeen_def act_defs memExpiry_def omap_simps key1 Let_def split: option.splits)
qed

interpretation memUrls: url_claims memUrlStep memExpiry
proof
  fix now urls ttl tn s s' t u
  assume "memUrlStep (UClaim now urls ttl tn) s = (Inr True, s')"
    and t: "normalizeTenantId tn = Inr t" and u: "u \<in> set urls"
  then have claim: "memClaimUrls now urls ttl tn s = (Inr True, s')" by simp
  show "memExpiry s' t u = Some (now + ttl * 1000)"
    using memUrl_expiry(1) [OF normalizeTenantId_pattern [OF t], of now urls ttl tn s u] claim t u by simp
next
  fix s t u e now tn urls ttl
  assume "claimedUntil (memExpiry s t u) e" "now < e" "normalizeTenantId tn = Inr t" "u \<in> set urls"
  then show "fst (memUrlStep (UClaim now urls ttl tn) s) = Inr False"
    by (auto simp: memClaimUrls_eq claimedUntil_def dest!: bspec)
next
  fix t s u e c
  assume t: "TENANT_ID_PATTERN t" and held: "claimedUntil (memExpiry s t u) e" and keeps: "keepsClaim t u e c"
  show "claimedUntil (memExpiry (snd (memUrlStep c s)) t u) e"
  proof (cases c)
    case (UClaim now urls ttl tn)
    have "\<not> (fst (memClaimUrls now urls ttl tn s) = Inr True \<and> normalizeTenantId tn = Inr t \<and> u \<in> set urls)"
      using held keeps UClaim by (auto simp: memClaimUrls_eq claimedUntil_def dest!: bspec split: if_splits)
    with UClaim held show ?thesis by (auto simp: memUrl_expiry(1) [OF t])
  next
    case (URelease urls tn)
    with held keeps show ?thesis
      by (auto simp: act_map_snd act_then_def memUrl_expiry(2) [OF t])
  next
    case (UMark now url ttl tn)
    with held keeps show ?thesis
      by (auto simp: act_map_snd act_then_def memUrl_expiry(3) [OF t] claimedUntil_def)
  next
    case (USeen now url tn)
    with held keeps show ?thesis
      by (auto simp: memUrl_expiry(4) [OF t] claimedUntil_def)
  qed
qed

section \<open>Properties\<close>



text \<open>In the memory adapter a claim is a fence: after a dequeue handed a task to a worker
  with a new lease identifier, every later write or renewal of that task with any other lease
  identifier is refused and leaves its record unchanged, whatever calls come in between, as
  long as that identifier is not drawn again.\<close>

lemma memory_lease_fenced:
  assumes "memStep (QDequeue now uuid w tn sh) (queueRun memStep before newMemoryQueue)
      = (Inr (RTask (Some task)), q)"
    and "L \<noteq> []" and "L \<noteq> uuid" and "\<forall>c\<in>set cs. issues c \<noteq> Some L"
    and "carries c (tkTenantId task, tkId task) L"
  shows "refused (fst (memStep c (queueRun memStep cs q)))
    \<and> memTask (snd (memStep c (queueRun memStep cs q))) (tkTenantId task) (tkId task)
        = memTask (queueRun memStep cs q) (tkTenantId task) (tkId task)"
proof -
  have "memInv newMemoryQueue" by (simp add: memInv_def newMemoryQueue_def)
  from mem.fenced [OF mem.good_run [OF this] assms] show ?thesis .
qed

lemma memory_lease_fenced_witness:
  "let stale = leasedTask 2 ''u1'' ''w1'' (demoTask ''a'');
       before = [QEnqueue 1 (demoTask ''a''), QDequeue 2 ''u1'' ''w1'' None 0, QEnqueue 3 (stale\<lparr>tkState := PENDING\<rparr>)];
       out = memStep (QDequeue 5 ''u2'' ''w2'' None 0) (queueRun memStep before newMemoryQueue)
   in fst out = Inr (RTask (Some (leasedTask 5 ''u2'' ''w2'' (stale\<lparr>tkState := PENDING\<rparr>))))
      \<and> refused (fst (memStep (QUpdate 6 (stale\<lparr>tkState := COMPLETED\<rparr>)) (queueRun memStep [] (snd out))))"
proof -
  let ?stale = "leasedTask 2 ''u1'' ''w1'' (demoTask ''a'')"
  let ?before = "[QEnqueue 1 (demoTask ''a''), QDequeue 2 ''u1'' ''w1'' None 0, QEnqueue 3 (?stale\<lparr>tkState := PENDING\<rparr>)]"
  let ?out = "memStep (QDequeue 5 ''u2'' ''w2'' None 0) (queueRun memStep ?before newMemoryQueue)"
  let ?task = "leasedTask 5 ''u2'' ''w2'' (?stale\<lparr>tkState := PENDING\<rparr>)"
  have reply: "fst ?out = Inr (RTask (Some ?task))"
    by code_simp
  then have out: "?out = (Inr (RTask (Some ?task)), snd ?out)"
    by (metis prod.collapse)
  have carries: "carries (QUpdate 6 (?stale\<lparr>tkState := COMPLETED\<rparr>)) (tkTenantId ?task, tkId ?task) ''u1''"
    by code_simp
  from reply memory_lease_fenced [OF out _ _ _ carries, of "[]"] show ?thesis
    unfolding Let_def by simp
qed

text \<open>URL claims of the memory adapter are all-or-nothing and exclusive: a batch is claimed
  only when none of its URLs is held, an unsuccessful claim changes nothing, and once a batch
  is claimed every later claim of the same tenant that shares a URL with it is refused until
  the claim expires, as long as nobody releases the URL or marks it for less long.\<close>

lemma memory_url_claims_exclusive:
  assumes "memClaimUrls now urls ttl tn q = (Inr won, q')" and "normalizeTenantId tn = Inr t"
  shows "(\<not> won \<longrightarrow> q' = q)
    \<and> (won \<longleftrightarrow> urls \<noteq> [] \<and> 0 < ttl
          \<and> \<not> (\<exists>u\<in>set urls. \<exists>e. memExpiry q t u = Some e \<and> now < e))
    \<and> (won \<longrightarrow> (\<forall>u\<in>set urls. \<forall>cs urls' ttl' now' tn'.
          (\<forall>c\<in>set cs. keepsClaim t u (now + ttl * 1000) c)
          \<and> normalizeTenantId tn' = Inr t \<and> u \<in> set urls' \<and> now' < now + ttl * 1000
          \<longrightarrow> fst (memClaimUrls now' urls' ttl' tn' (urlRun memUrlStep cs q')) = Inr False))"
proof (intro conjI)
  show "\<not> won \<longrightarrow> q' = q"
    "won \<longleftrightarrow> urls \<noteq> [] \<and> 0 < ttl
          \<and> \<not> (\<exists>u\<in>set urls. \<exists>e. memExpiry q t u = Some e \<and> now < e)"
    using assms by (auto simp: memClaimUrls_eq split: if_splits)
  show "won \<longrightarrow> (\<forall>u\<in>set urls. \<forall>cs urls' ttl' now' tn'.
          (\<forall>c\<in>set cs. keepsClaim t u (now + ttl * 1000) c)
          \<and> normalizeTenantId tn' = Inr t \<and> u \<in> set urls' \<and> now' < now + ttl * 1000
          \<longrightarrow> fst (memClaimUrls now' urls' ttl' tn' (urlRun memUrlStep cs q')) = Inr False)"
  proof (intro impI ballI allI, elim conjE)
    fix u cs urls' ttl' now' tn'
    assume "won" "u \<in> set urls" "\<forall>c\<in>set cs. keepsClaim t u (now + ttl * 1000) c"
      "normalizeTenantId tn' = Inr t" "u \<in> set urls'" "now' < now + ttl * 1000"
    with memUrls.claim_exclusive [of now urls ttl tn q q' t u cs tn' urls' now' ttl'] assms
    show "fst (memClaimUrls now' urls' ttl' tn' (urlRun memUrlStep cs q')) = Inr False" by simp
  qed
qed

lemma memory_url_claims_exclusive_witness:
  "fst (memClaimUrls 0 [''a'', ''b''] 60 None newMemoryQueue) = Inr True
   \<and> fst (memClaimUrls 1000 [''c'', ''b''] 60 None
       (urlRun memUrlStep [URelease [''a''] None] (snd (memClaimUrls 0 [''a'', ''b''] 60 None newMemoryQueue))))
     = Inr False"
proof -
  let ?out = "memClaimUrls 0 [''a'', ''b''] 60 None newMemoryQueue"
  have reply: "fst ?out = Inr True" by code_simp
  then have out: "?out = (Inr True, snd ?out)" by (metis prod.collapse)
  have t: "normalizeTenantId None = Inr ''default''" by code_simp
  note claims = conjunct2 [OF conjunct2 [OF memory_url_claims_exclusive [OF out t]]]
  have "\<forall>c\<in>set [URelease [''a''] None]. keepsClaim ''default'' ''b'' (0 + 60 * 1000) c" by simp
  with claims t have "fst (memClaimUrls 1000 [''c'', ''b''] 60 None
       (urlRun memUrlStep [URelease [''a''] None] (snd ?out))) = Inr False"
    by (simp del: urlRun.simps)
  with reply show ?thesis by simp
qed

end
