(* ===== verification/RedisStore.thy ===== *)
theory RedisStore
  imports TaskQueue IpAddress "HOL-Library.Product_Lexorder" "HOL-Library.List_Lexorder"
begin

text \<open>
  The configuration of \<open>RedisQueueAdapter\<close> (\<open>distributed/redis-adapter.ts\<close>), the names of its
  keys, and the Redis commands its scripts use.

  Redis is modelled by the documented effect of each command on a store of string values with
  an optional expiry time and of sorted sets.  The JSON text of a record stands for the
  record: \<open>None\<close> is a text that does not decode to a table.  \<open>new URL\<close> and
  \<open>decodeURIComponent\<close> are parameters.
\<close>

section \<open>Options\<close>

record redisOptions =
  roRedisUrl :: "string option"
  roRedisMode :: "string option"
  roClusterNodes :: "string list option"
  roKeyPrefix :: "string option"
  roTaskTtlSeconds :: "jsnum option"
  roLeaseSeconds :: "jsnum option"
  roShardCount :: "jsnum option"

text \<open>The environment variables the constructor reads.\<close>

record redisEnv =
  envShardCount :: "string option"
  envClusterNodes :: "string option"
  envMode :: "string option"
  envUrl :: "string option"

text \<open>What \<open>new URL\<close> gives; the port is absent when it is the empty string.\<close>

record parsedUrl =
  puProtocol :: string
  puHostname :: string
  puPort :: "nat option"
  puUsername :: string
  puPassword :: string

type_synonym urlParser = "string \<Rightarrow> parsedUrl option"
type_synonym uriDecoder = "string \<Rightarrow> taskError + string"

definition parseRedisUrl :: "urlParser \<Rightarrow> string \<Rightarrow> taskError + parsedUrl" where
  "parseRedisUrl parse raw =
     (let value = (if includesStr raw ''://'' then raw else ''redis://'' @ raw) in
      case parse value of
        None \<Rightarrow> Inl (JsError ''Invalid Redis connection URL.'')
      | Some parsed \<Rightarrow>
          if puProtocol parsed \<noteq> ''redis:'' \<and> puProtocol parsed \<noteq> ''rediss:''
          then Inl (JsError ''Invalid Redis connection URL.'')
          else if puHostname parsed = [] then Inl (JsError ''Invalid Redis connection URL.'')
          else Inr parsed)"

definition parseClusterNode :: "urlParser \<Rightarrow> string \<Rightarrow> taskError + string \<times> nat" where
  "parseClusterNode parse raw =
     (case parseRedisUrl parse raw of
        Inl e \<Rightarrow> Inl e
      | Inr parsed \<Rightarrow>
          if puProtocol parsed \<noteq> ''redis:'' \<and> puProtocol parsed \<noteq> ''rediss:''
          then Inl (JsError ''Invalid Redis Cluster startup node.'')
          else (let port = (case puPort parsed of None \<Rightarrow> 6379 | Some p \<Rightarrow> p) in
                if puHostname parsed = [] \<or> port < 1 \<or> 65535 < port
                then Inl (JsError ''Invalid Redis Cluster startup node.'')
                else Inr (puHostname parsed, port)))"

definition parseClusterNodes :: "string option \<Rightarrow> taskError + string list" where
  "parseClusterNodes raw =
     (case raw of
        None \<Rightarrow> Inr []
      | Some r \<Rightarrow>
          if trim r = [] then Inr []
          else (let values = filter (\<lambda>v. v \<noteq> []) (map trim (splitChar (CHR '','') r)) in
                if values = [] then Inl (JsError ''REDIS_CLUSTER_NODES must contain at least one node.'')
                else Inr values))"

definition parseRedisMode :: "string option \<Rightarrow> bool \<Rightarrow> taskError + string" where
  "parseRedisMode raw hasClusterNodes =
     (case raw of
        None \<Rightarrow> Inr (if hasClusterNodes then ''cluster'' else ''standalone'')
      | Some r \<Rightarrow>
          if trim r = [] then Inr (if hasClusterNodes then ''cluster'' else ''standalone'')
          else (let value = toLowerCase (trim r) in
                if value = ''standalone'' \<or> value = ''cluster'' then Inr value
                else Inl (JsError ''REDIS_MODE must be standalone or cluster.'')))"

text \<open>\<open>Number(s)\<close> on decimal digits: from \<open>2^1024 - 2^970\<close> on it is \<open>Infinity\<close>.\<close>

definition numberOfDigits :: "string \<Rightarrow> jsnum" where
  "numberOfDigits s =
     (let n = int (decimalValue s) in if n \<ge> 2 ^ 1024 - 2 ^ 970 then JPosInf else JFin (of_int n))"

definition parseShardCount :: "string option \<Rightarrow> taskError + jsnum" where
  "parseShardCount raw =
     (case raw of
        None \<Rightarrow> Inr (JFin 16)
      | Some r \<Rightarrow>
          if trim r = [] then Inr (JFin 16)
          else if \<not> list_all isDigit (trim r) then Inl (JsError ''REDIS_SHARD_COUNT must be an integer.'')
          else Inr (numberOfDigits (trim r)))"

text \<open>The connection options given to the client.\<close>

record connectionOptions =
  coHost :: "(string \<times> nat) option"
  coUsername :: "string option"
  coPassword :: "string option"
  coTls :: bool

definition decodeTruthy :: "uriDecoder \<Rightarrow> string \<Rightarrow> taskError + string option" where
  "decodeTruthy decode v =
     (if v = [] then Inr None else (case decode v of Inl e \<Rightarrow> Inl e | Inr d \<Rightarrow> Inr (Some d)))"

definition credentials ::
  "uriDecoder \<Rightarrow> parsedUrl \<Rightarrow> (string \<times> nat) option \<Rightarrow> taskError + connectionOptions" where
  "credentials decode parsed endpoint =
     (case decodeTruthy decode (puUsername parsed) of
        Inl e \<Rightarrow> Inl e
      | Inr user \<Rightarrow>
          (case decodeTruthy decode (puPassword parsed) of
             Inl e \<Rightarrow> Inl e
           | Inr pass \<Rightarrow> Inr \<lparr>coHost = endpoint, coUsername = user, coPassword = pass,
                             coTls = (puProtocol parsed = ''rediss:'')\<rparr>))"

definition noOptions :: connectionOptions where
  "noOptions = \<lparr>coHost = None, coUsername = None, coPassword = None, coTls = False\<rparr>"

definition standaloneOptions ::
  "urlParser \<Rightarrow> uriDecoder \<Rightarrow> string option \<Rightarrow> taskError + connectionOptions" where
  "standaloneOptions parse decode redisUrl =
     (case nonEmpty redisUrl of
        None \<Rightarrow> Inr noOptions
      | Some url \<Rightarrow>
          (case parseRedisUrl parse url of
             Inl e \<Rightarrow> Inl e
           | Inr parsed \<Rightarrow>
               (case parseClusterNode parse url of
                  Inl e \<Rightarrow> Inl e
                | Inr endpoint \<Rightarrow> credentials decode parsed (Some endpoint))))"

definition clusterNodeOptions ::
  "urlParser \<Rightarrow> uriDecoder \<Rightarrow> string option \<Rightarrow> taskError + connectionOptions" where
  "clusterNodeOptions parse decode redisUrl =
     (case nonEmpty redisUrl of
        None \<Rightarrow> Inr noOptions
      | Some url \<Rightarrow>
          (case parseRedisUrl parse url of
             Inl e \<Rightarrow> Inl e
           | Inr parsed \<Rightarrow> credentials decode parsed None))"

datatype redisConnection =
    StandaloneClient connectionOptions
  | ClusterClient "(string \<times> nat) list" connectionOptions

fun mapThrow :: "('a \<Rightarrow> taskError + 'b) \<Rightarrow> 'a list \<Rightarrow> taskError + 'b list" where
  "mapThrow f [] = Inr []"
| "mapThrow f (x # xs) =
     (case f x of
        Inl e \<Rightarrow> Inl e
      | Inr y \<Rightarrow> (case mapThrow f xs of Inl e \<Rightarrow> Inl e | Inr ys \<Rightarrow> Inr (y # ys)))"

record redisConfig =
  rcPrefix :: string
  rcTaskTtlSeconds :: int
  rcLeaseSeconds :: int
  rcShardCount :: int

text \<open>The constructor: the limits, then the connection.\<close>

definition redisLimits :: "redisOptions \<Rightarrow> redisEnv \<Rightarrow> taskError + redisConfig" where
  "redisLimits options env =
     (case (case roShardCount options of Some n \<Rightarrow> Inr n | None \<Rightarrow> parseShardCount (envShardCount env)) of
        Inl e \<Rightarrow> Inl e
      | Inr shards \<Rightarrow>
          Inr \<lparr>rcPrefix = (case roKeyPrefix options of None \<Rightarrow> ''antigravity:crawler:'' | Some p \<Rightarrow> p),
               rcTaskTtlSeconds = boundedInteger
                 (case roTaskTtlSeconds options of None \<Rightarrow> JFin 604800 | Some n \<Rightarrow> n) 60 31536000 604800,
               rcLeaseSeconds = boundedInteger
                 (case roLeaseSeconds options of None \<Rightarrow> JFin 300 | Some n \<Rightarrow> n) 30 3600 300,
               rcShardCount = boundedInteger shards 1 64 16\<rparr>)"

definition redisConnect ::
  "urlParser \<Rightarrow> uriDecoder \<Rightarrow> redisOptions \<Rightarrow> redisEnv \<Rightarrow> taskError + redisConnection" where
  "redisConnect parse decode options env =
     (case (case roClusterNodes options of Some ns \<Rightarrow> Inr ns | None \<Rightarrow> parseClusterNodes (envClusterNodes env)) of
        Inl e \<Rightarrow> Inl e
      | Inr configuredNodes \<Rightarrow>
          (case (case roRedisMode options of
                   Some m \<Rightarrow> Inr m
                 | None \<Rightarrow> parseRedisMode (envMode env) (configuredNodes \<noteq> [])) of
             Inl e \<Rightarrow> Inl e
           | Inr mode \<Rightarrow>
               if mode = ''cluster'' then
                 (if configuredNodes = []
                  then Inl (JsError ''Redis Cluster mode requires REDIS_CLUSTER_NODES.'')
                  else (case mapThrow (parseClusterNode parse) configuredNodes of
                          Inl e \<Rightarrow> Inl e
                        | Inr nodes \<Rightarrow>
                            (case clusterNodeOptions parse decode (roRedisUrl options) of
                               Inl e \<Rightarrow> Inl e
                             | Inr opts \<Rightarrow> Inr (ClusterClient nodes opts))))
               else
                 (let url = (case roRedisUrl options of
                               Some u \<Rightarrow> u
                             | None \<Rightarrow> (case envUrl env of Some u \<Rightarrow> u | None \<Rightarrow> ''redis://127.0.0.1:6379'')) in
                  case standaloneOptions parse decode (Some url) of
                    Inl e \<Rightarrow> Inl e
                  | Inr opts \<Rightarrow> Inr (StandaloneClient opts))))"

definition newRedisAdapter ::
  "urlParser \<Rightarrow> uriDecoder \<Rightarrow> redisOptions \<Rightarrow> redisEnv \<Rightarrow> taskError + redisConfig \<times> redisConnection" where
  "newRedisAdapter parse decode options env =
     (case redisLimits options env of
        Inl e \<Rightarrow> Inl e
      | Inr cfg \<Rightarrow>
          (case redisConnect parse decode options env of
             Inl e \<Rightarrow> Inl e
           | Inr conn \<Rightarrow> Inr (cfg, conn)))"

definition leaseDurationMs :: "redisConfig \<Rightarrow> int" where
  "leaseDurationMs cfg = rcLeaseSeconds cfg * 1000"

section \<open>Keys\<close>

text \<open>FNV-1a over the code units on 32-bit words; \<open>Math.imul\<close> is word multiplication.\<close>

definition fnvStep :: "char \<Rightarrow> 32 word \<Rightarrow> 32 word" where
  "fnvStep c h = (h XOR of_nat (charCode c)) * 16777619"

definition taskShard :: "redisConfig \<Rightarrow> string \<Rightarrow> int" where
  "taskShard cfg taskId = uint (fold fnvStep taskId 2166136261) mod rcShardCount cfg"

definition normalizeShard :: "redisConfig \<Rightarrow> int \<Rightarrow> int" where
  "normalizeShard cfg shard = (if shard < 0 \<or> shard \<ge> rcShardCount cfg then 0 else shard)"

definition shardTag :: "redisConfig \<Rightarrow> string \<Rightarrow> int \<Rightarrow> string" where
  "shardTag cfg tenantId shard =
     ''{t:'' @ tenantId @ '':s:'' @ showDec (nat (normalizeShard cfg shard)) @ ''}''"

definition pendingKey :: "redisConfig \<Rightarrow> string \<Rightarrow> int \<Rightarrow> string" where
  "pendingKey cfg tenantId shard = rcPrefix cfg @ shardTag cfg tenantId shard @ '':queue:pending''"

definition processingKey :: "redisConfig \<Rightarrow> string \<Rightarrow> int \<Rightarrow> string" where
  "processingKey cfg tenantId shard = rcPrefix cfg @ shardTag cfg tenantId shard @ '':queue:processing''"

definition taskPrefix :: "redisConfig \<Rightarrow> string \<Rightarrow> int \<Rightarrow> string" where
  "taskPrefix cfg tenantId shard = rcPrefix cfg @ shardTag cfg tenantId shard @ '':task:''"

definition redisTaskKey :: "redisConfig \<Rightarrow> string \<Rightarrow> int \<Rightarrow> string \<Rightarrow> string" where
  "redisTaskKey cfg tenantId shard taskId = taskPrefix cfg tenantId shard @ taskId"

definition taskPattern :: "redisConfig \<Rightarrow> string \<Rightarrow> int \<Rightarrow> string" where
  "taskPattern cfg tenantId shard = taskPrefix cfg tenantId shard @ ''*''"

definition metaTag :: "string \<Rightarrow> string" where
  "metaTag tenantId = ''{t:'' @ tenantId @ '':meta}''"

definition seenKey :: "redisConfig \<Rightarrow> string \<Rightarrow> string" where
  "seenKey cfg tenantId = rcPrefix cfg @ metaTag tenantId @ '':seen_urls''"

definition workerKey :: "redisConfig \<Rightarrow> string \<Rightarrow> string \<Rightarrow> string" where
  "workerKey cfg tenantId workerId = rcPrefix cfg @ metaTag tenantId @ '':worker:'' @ workerId"

definition workerPattern :: "redisConfig \<Rightarrow> string \<Rightarrow> string" where
  "workerPattern cfg tenantId = rcPrefix cfg @ metaTag tenantId @ '':worker:*''"

section \<open>Commands\<close>

type_synonym zset = "(string, int) omap"

record redisDb =
  rdClock :: int
  rdTasks :: "(string, taskRecord option \<times> int option) omap"
  rdWorkers :: "(string, workerInfo option \<times> int option) omap"
  rdZsets :: "(string, zset) omap"

definition newRedisDb :: redisDb where
  "newRedisDb = \<lparr>rdClock = 0, rdTasks = [], rdWorkers = [], rdZsets = []\<rparr>"

text \<open>The value of an entry that has not expired.\<close>

definition alive :: "int \<Rightarrow> ('a \<times> int option) option \<Rightarrow> 'a option" where
  "alive now entry =
     (case entry of
        None \<Rightarrow> None
      | Some (v, e) \<Rightarrow> (case e of None \<Rightarrow> Some v | Some t \<Rightarrow> if t \<le> now then None else Some v))"

definition getTaskKey :: "string \<Rightarrow> redisDb \<Rightarrow> taskRecord option option" where
  "getTaskKey key s = alive (rdClock s) (oget (rdTasks s) key)"

definition setTaskKey :: "string \<Rightarrow> taskRecord \<Rightarrow> redisDb \<Rightarrow> redisDb" where
  "setTaskKey key task s = s\<lparr>rdTasks := oset key (Some task, None) (rdTasks s)\<rparr>"

text \<open>\<open>SET key value EX seconds\<close> and \<open>EXPIRE key seconds\<close>\<close>

definition setTaskKeyEx :: "string \<Rightarrow> taskRecord \<Rightarrow> int \<Rightarrow> redisDb \<Rightarrow> redisDb" where
  "setTaskKeyEx key task secs s =
     s\<lparr>rdTasks := oset key (Some task, Some (rdClock s + secs * 1000)) (rdTasks s)\<rparr>"

definition expireTaskKey :: "string \<Rightarrow> int \<Rightarrow> redisDb \<Rightarrow> redisDb" where
  "expireTaskKey key secs s =
     (case getTaskKey key s of
        None \<Rightarrow> s
      | Some v \<Rightarrow> s\<lparr>rdTasks := oset key (v, Some (rdClock s + secs * 1000)) (rdTasks s)\<rparr>)"

definition zsetAt :: "string \<Rightarrow> redisDb \<Rightarrow> zset" where
  "zsetAt key s = (case oget (rdZsets s) key of None \<Rightarrow> [] | Some z \<Rightarrow> z)"

definition putZset :: "string \<Rightarrow> zset \<Rightarrow> redisDb \<Rightarrow> redisDb" where
  "putZset key z s = s\<lparr>rdZsets := oset key z (rdZsets s)\<rparr>"

definition zadd :: "string \<Rightarrow> int \<Rightarrow> string \<Rightarrow> redisDb \<Rightarrow> redisDb" where
  "zadd key sc member s = putZset key (oset member sc (zsetAt key s)) s"

definition zrem :: "string \<Rightarrow> string \<Rightarrow> redisDb \<Rightarrow> redisDb" where
  "zrem key member s = putZset key (odelete member (zsetAt key s)) s"

definition zscore :: "string \<Rightarrow> string \<Rightarrow> redisDb \<Rightarrow> int option" where
  "zscore key member s = oget (zsetAt key s) member"

text \<open>Elements come by score, then by the bytes of the member.\<close>

definition zorder :: "string \<times> int \<Rightarrow> int \<times> nat list" where
  "zorder e = (snd e, map charCode (fst e))"

definition zsorted :: "zset \<Rightarrow> zset" where
  "zsorted z = sort_key zorder z"

text \<open>\<open>ZRANGEBYSCORE key -inf now\<close>, \<open>ZPOPMIN key 1\<close>, \<open>ZREMRANGEBYSCORE key 0 now\<close>\<close>

definition zupto :: "string \<Rightarrow> int \<Rightarrow> redisDb \<Rightarrow> string list" where
  "zupto key now s = map fst (filter (\<lambda>e. snd e \<le> now) (zsorted (zsetAt key s)))"

definition zpopmin :: "string \<Rightarrow> redisDb \<Rightarrow> string option \<times> redisDb" where
  "zpopmin key s =
     (case zsorted (zsetAt key s) of
        [] \<Rightarrow> (None, s)
      | (member, sc) # rest \<Rightarrow> (Some member, zrem key member s))"

definition zremUpto :: "string \<Rightarrow> int \<Rightarrow> redisDb \<Rightarrow> redisDb" where
  "zremUpto key now s =
     putZset key (filter (\<lambda>e. \<not> (0 \<le> snd e \<and> snd e \<le> now)) (zsetAt key s)) s"

text \<open>Time passes at the server.\<close>

definition elapse :: "int \<Rightarrow> redisDb \<Rightarrow> redisDb" where
  "elapse d s = s\<lparr>rdClock := rdClock s + max 0 d\<rparr>"

end
