(* ===== verification/RedisQueue.thy ===== *)
theory RedisQueue
  imports RedisStore
begin

text \<open>
  The operations of \<open>RedisQueueAdapter\<close>.  A Lua script runs atomically, so it is one function
  on the store; the TypeScript around it is an action.  Clock readings and the UUID of a
  dequeue are arguments.  A call that fails in transport is not modelled here: the scheduler
  and the worker take any adapter, failing ones included.
\<close>

type_synonym 'a redisAct = "(redisDb, taskError, 'a) act"

section \<open>Claiming a task\<close>

fun PRIORITY_SCORES :: "taskPriority \<Rightarrow> int" where
  "PRIORITY_SCORES P_CRITICAL = 1"
| "PRIORITY_SCORES P_HIGH = 2"
| "PRIORITY_SCORES P_NORMAL = 3"
| "PRIORITY_SCORES P_LOW = 4"

definition pendingScore :: "taskRecord \<Rightarrow> int" where
  "pendingScore task = PRIORITY_SCORES (tkPriority task) * 1000000000000 + tkCreatedAt task"

text \<open>The record of an expired lease: an attempt is used up, or the handoff loses its owner.\<close>

definition expireRunning :: "int \<Rightarrow> taskRecord \<Rightarrow> taskRecord" where
  "expireRunning now task =
     (let expired = task\<lparr>tkRetries := tkRetries task + 1, tkWorkerId := None, tkLeaseId := None,
            tkStartedAt := None, tkError := Some ''Worker lease expired before task completion.''\<rparr>
      in if tkRetries expired \<le> tkMaxRetries expired
         then expired\<lparr>tkState := PENDING\<rparr>
         else expired\<lparr>tkState := FAILED, tkCompletedAt := Some now\<rparr>)"

definition releaseHandoff :: "taskRecord \<Rightarrow> taskRecord" where
  "releaseHandoff task = task\<lparr>tkWorkerId := None, tkLeaseId := None, tkStartedAt := None\<rparr>"

text \<open>One round of the reclaim loop; \<open>pk\<close>, \<open>tp\<close>, \<open>qk\<close> are \<open>KEYS[1..3]\<close>.\<close>

definition reclaimOne :: "string \<Rightarrow> string \<Rightarrow> string \<Rightarrow> int \<Rightarrow> int \<Rightarrow> string \<Rightarrow> redisDb \<Rightarrow> redisDb" where
  "reclaimOne pk tp qk now taskTtl expiredId s =
     (let expiredKey = tp @ expiredId in
      zrem qk expiredId
        (case getTaskKey expiredKey s of
           Some (Some task) \<Rightarrow>
             (if tkState task = RUNNING
              then (let t = expireRunning now task in
                    if tkState t = PENDING
                    then zadd pk (pendingScore t) expiredId (setTaskKey expiredKey t s)
                    else setTaskKeyEx expiredKey t taskTtl s)
              else if tkState task = PENDING \<or> tkState task = RETRYING
              then (let t = releaseHandoff task in
                    zadd pk (pendingScore t) expiredId (setTaskKey expiredKey t s))
              else s)
         | _ \<Rightarrow> s))"

definition reclaimAll :: "string \<Rightarrow> string \<Rightarrow> string \<Rightarrow> int \<Rightarrow> int \<Rightarrow> redisDb \<Rightarrow> redisDb" where
  "reclaimAll pk tp qk now taskTtl s = fold (reclaimOne pk tp qk now taskTtl) (zupto qk now s) s"

definition claimed :: "int \<Rightarrow> string \<Rightarrow> string \<Rightarrow> taskRecord \<Rightarrow> taskRecord" where
  "claimed now leaseId workerId task =
     task\<lparr>tkState := RUNNING, tkWorkerId := Some workerId, tkLeaseId := Some leaseId,
          tkStartedAt := Some now\<rparr>"

text \<open>The second half of the script: pop, check, lease.\<close>

definition popClaim ::
  "string \<Rightarrow> string \<Rightarrow> string \<Rightarrow> int \<Rightarrow> int \<Rightarrow> string \<Rightarrow> string \<Rightarrow> redisDb \<Rightarrow> (string \<times> taskRecord) option \<times> redisDb" where
  "popClaim pk tp qk now leaseMs leaseId workerId s =
     (case zpopmin pk s of
        (None, s1) \<Rightarrow> (None, s1)
      | (Some taskId, s1) \<Rightarrow>
          (case getTaskKey (tp @ taskId) s1 of
             None \<Rightarrow> (None, s1)
           | Some None \<Rightarrow> (None, zrem qk taskId s1)
           | Some (Some task) \<Rightarrow>
               if tkState task \<noteq> PENDING \<and> tkState task \<noteq> RETRYING then (None, zrem qk taskId s1)
               else (let t = claimed now leaseId workerId task in
                     (Some (taskId, t), zadd qk (now + leaseMs) taskId (setTaskKey (tp @ taskId) t s1)))))"

definition dequeueScript ::
  "string \<Rightarrow> string \<Rightarrow> string \<Rightarrow> int \<Rightarrow> int \<Rightarrow> int \<Rightarrow> string \<Rightarrow> string \<Rightarrow> redisDb
    \<Rightarrow> (string \<times> taskRecord) option \<times> redisDb" where
  "dequeueScript pk tp qk now leaseMs taskTtl leaseId workerId s =
     popClaim pk tp qk now leaseMs leaseId workerId (reclaimAll pk tp qk now taskTtl s)"

definition redisDequeueTask ::
  "redisConfig \<Rightarrow> int \<Rightarrow> string \<Rightarrow> string \<Rightarrow> string option \<Rightarrow> int \<Rightarrow> taskRecord option redisAct" where
  "redisDequeueTask cfg now leaseId workerId tenantId shard =
     act_bind (act_lift (normalizeTenantId tenantId)) (\<lambda>t.
       let sh = normalizeShard cfg shard; pk = pendingKey cfg t sh;
           tp = taskPrefix cfg t sh; qk = processingKey cfg t sh in
       act_bind (\<lambda>s. let (r, s') = dequeueScript pk tp qk now (leaseDurationMs cfg) (rcTaskTtlSeconds cfg)
                                  leaseId workerId s in (Inr r, s'))
         (\<lambda>result. case result of
            None \<Rightarrow> act_return None
          | Some (taskId, task) \<Rightarrow>
              if tkId task \<noteq> taskId \<or> tkTenantId task \<noteq> t
              then act_then (act_modify (zrem qk taskId)) (act_return None)
              else if tkState task \<noteq> RUNNING \<or> tkWorkerId task \<noteq> Some workerId
                      \<or> tkLeaseId task \<noteq> Some leaseId
              then act_then (act_modify (zrem qk taskId)) (act_return None)
              else act_return (Some task)))"

section \<open>Writes\<close>

text \<open>\<open>leaseId ?? ''\<close>\<close>

definition orEmpty :: "string option \<Rightarrow> string" where
  "orEmpty v = (case v of None \<Rightarrow> [] | Some x \<Rightarrow> x)"

text \<open>The ownership check of the update script; \<open>True\<close> lets the write through.\<close>

definition updateGuard ::
  "string \<Rightarrow> string \<Rightarrow> string \<Rightarrow> int \<Rightarrow> string \<Rightarrow> string \<Rightarrow> redisDb \<Rightarrow> bool" where
  "updateGuard tk qk taskId now expectedLeaseId expectedWorkerId s =
     (case getTaskKey tk s of
        None \<Rightarrow> expectedLeaseId = []
      | Some None \<Rightarrow> False
      | Some (Some existing) \<Rightarrow>
          if expectedLeaseId \<noteq> []
          then tkLeaseId existing = Some expectedLeaseId \<and> tkWorkerId existing = Some expectedWorkerId
               \<and> (case zscore qk taskId s of None \<Rightarrow> False | Some leaseUntil \<Rightarrow> leaseUntil > now)
          else tkLeaseId existing = None)"

definition terminal :: "taskState \<Rightarrow> bool" where
  "terminal st \<longleftrightarrow> st = COMPLETED \<or> st = FAILED \<or> st = CANCELLED"

definition updateScript ::
  "string \<Rightarrow> string \<Rightarrow> string \<Rightarrow> string \<Rightarrow> string \<Rightarrow> taskRecord \<Rightarrow> int \<Rightarrow> int \<Rightarrow> int \<Rightarrow> redisDb \<Rightarrow> bool \<times> redisDb" where
  "updateScript tk qk pk expectedLeaseId expectedWorkerId incoming now leaseMs taskTtl s =
     (let taskId = tkId incoming in
      if \<not> updateGuard tk qk taskId now expectedLeaseId expectedWorkerId s then (False, s)
      else
        (let s1 = setTaskKey tk incoming s;
             s2 = (if tkState incoming = RUNNING
                      \<or> (tkState incoming = PENDING \<and> expectedLeaseId \<noteq> [])
                      \<or> (tkState incoming = RETRYING \<and> expectedLeaseId \<noteq> [])
                   then zadd qk (now + leaseMs) taskId s1 else zrem qk taskId s1);
             s3 = (if terminal (tkState incoming) then expireTaskKey tk taskTtl (zrem pk taskId s2) else s2)
         in (True, s3)))"

text \<open>A script that answered 0 raises \<open>TaskLeaseLostError\<close>.\<close>

definition orLeaseLost :: "(redisDb \<Rightarrow> bool \<times> redisDb) \<Rightarrow> unit redisAct" where
  "orLeaseLost script =
     (\<lambda>s. case script s of (True, s') \<Rightarrow> (Inr (), s') | (False, s') \<Rightarrow> (Inl TaskLeaseLostError, s'))"

definition redisUpdateTask :: "redisConfig \<Rightarrow> int \<Rightarrow> taskRecord \<Rightarrow> unit redisAct" where
  "redisUpdateTask cfg now task =
     act_bind (act_lift (normalizeTenantId (Some (tkTenantId task)))) (\<lambda>tenantId.
       let shard = taskShard cfg (tkId task);
           normalizedTask = task\<lparr>tkTenantId := tenantId\<rparr>
       in orLeaseLost (updateScript (redisTaskKey cfg tenantId shard (tkId task))
            (processingKey cfg tenantId shard) (pendingKey cfg tenantId shard)
            (orEmpty (tkLeaseId normalizedTask)) (orEmpty (tkWorkerId normalizedTask)) normalizedTask
            now (leaseDurationMs cfg) (rcTaskTtlSeconds cfg)))"

definition enqueueOwnedScript ::
  "string \<Rightarrow> string \<Rightarrow> string \<Rightarrow> string \<Rightarrow> string \<Rightarrow> taskRecord \<Rightarrow> int \<Rightarrow> int \<Rightarrow> redisDb \<Rightarrow> bool \<times> redisDb" where
  "enqueueOwnedScript tk pk qk workerId leaseId incoming sc now s =
     (case getTaskKey tk s of
        Some (Some current) \<Rightarrow>
          if tkWorkerId current \<noteq> Some workerId \<or> tkLeaseId current \<noteq> Some leaseId then (False, s)
          else if tkState current \<noteq> RUNNING \<and> tkState current \<noteq> PENDING \<and> tkState current \<noteq> RETRYING
          then (False, s)
          else if (case zscore qk (tkId current) s of None \<Rightarrow> False | Some leaseUntil \<Rightarrow> leaseUntil \<le> now)
          then (False, s)
          else if tkState incoming \<noteq> PENDING \<and> tkState incoming \<noteq> RETRYING then (False, s)
          else (True, zrem qk (tkId incoming) (zadd pk sc (tkId incoming) (setTaskKey tk incoming s)))
      | _ \<Rightarrow> (False, s))"

definition enqueueOwnedTask :: "redisConfig \<Rightarrow> int \<Rightarrow> taskRecord \<Rightarrow> unit redisAct" where
  "enqueueOwnedTask cfg now task =
     act_bind (act_lift (normalizeTenantId (Some (tkTenantId task)))) (\<lambda>tenantId.
       let shard = taskShard cfg (tkId task);
           normalizedTask = task\<lparr>tkTenantId := tenantId\<rparr>
       in orLeaseLost (enqueueOwnedScript (redisTaskKey cfg tenantId shard (tkId task))
            (pendingKey cfg tenantId shard) (processingKey cfg tenantId shard)
            (orEmpty (tkWorkerId normalizedTask)) (orEmpty (tkLeaseId normalizedTask)) normalizedTask
            (pendingScore normalizedTask) now))"

text \<open>Every key is checked before the first write.\<close>

definition unownedFree :: "string \<Rightarrow> redisDb \<Rightarrow> bool" where
  "unownedFree tk s =
     (case getTaskKey tk s of
        None \<Rightarrow> True
      | Some None \<Rightarrow> False
      | Some (Some current) \<Rightarrow> tkLeaseId current = None)"

definition insertPending :: "string \<Rightarrow> string \<Rightarrow> string \<Rightarrow> taskRecord \<Rightarrow> redisDb \<Rightarrow> redisDb" where
  "insertPending pk qk tk task s =
     zrem qk (tkId task) (zadd pk (pendingScore task) (tkId task) (setTaskKey tk task s))"

definition enqueueUnownedScript ::
  "string \<Rightarrow> string \<Rightarrow> (string \<times> taskRecord) list \<Rightarrow> redisDb \<Rightarrow> bool \<times> redisDb" where
  "enqueueUnownedScript pk qk entries s =
     (if list_all (\<lambda>(tk, task). unownedFree tk s) entries
      then (True, fold (\<lambda>(tk, task). insertPending pk qk tk task) entries s)
      else (False, s))"

definition enqueueUnownedBatch ::
  "redisConfig \<Rightarrow> taskRecord list \<Rightarrow> string \<Rightarrow> int \<Rightarrow> unit redisAct" where
  "enqueueUnownedBatch cfg tasks tenantId shard =
     (if tasks = [] then act_return ()
      else orLeaseLost (enqueueUnownedScript (pendingKey cfg tenantId shard)
             (processingKey cfg tenantId shard)
             (map (\<lambda>task. (redisTaskKey cfg tenantId shard (tkId task), task)) tasks)))"

text \<open>The groups by tenant and shard, in the order they are first met.\<close>

fun groupTasks ::
  "redisConfig \<Rightarrow> taskRecord list \<Rightarrow> (string \<times> int, taskRecord list) omap
    \<Rightarrow> taskError + (string \<times> int, taskRecord list) omap" where
  "groupTasks cfg [] grouped = Inr grouped"
| "groupTasks cfg (task # tasks) grouped =
     (case normalizeTenantId (Some (tkTenantId task)) of
        Inl e \<Rightarrow> Inl e
      | Inr tenantId \<Rightarrow>
          (let key = (tenantId, taskShard cfg (tkId task));
               grp = (case oget grouped key of None \<Rightarrow> [] | Some g \<Rightarrow> g)
           in groupTasks cfg tasks (oset key (grp @ [task\<lparr>tkTenantId := tenantId\<rparr>]) grouped)))"

primrec inSequence :: "('a \<Rightarrow> unit redisAct) \<Rightarrow> 'a list \<Rightarrow> unit redisAct" where
  "inSequence f [] = act_return ()"
| "inSequence f (x # xs) = act_then (f x) (inSequence f xs)"

definition redisEnqueueBatch :: "redisConfig \<Rightarrow> int \<Rightarrow> taskRecord list \<Rightarrow> unit redisAct" where
  "redisEnqueueBatch cfg now tasks =
     (let ownedTasks = filter (\<lambda>task. tkLeaseId task \<noteq> None) tasks in
      if ownedTasks \<noteq> [] then
        (if length ownedTasks \<noteq> length tasks
         then act_throw (JsError ''Owned and unowned tasks cannot be mixed in one enqueue batch.'')
         else inSequence (enqueueOwnedTask cfg now) ownedTasks)
      else act_bind (act_lift (groupTasks cfg tasks [])) (\<lambda>grouped.
             inSequence (\<lambda>((tenantId, shard), grp). enqueueUnownedBatch cfg grp tenantId shard) grouped))"

definition redisEnqueueTask :: "redisConfig \<Rightarrow> int \<Rightarrow> taskRecord \<Rightarrow> unit redisAct" where
  "redisEnqueueTask cfg now task =
     (if tkLeaseId task \<noteq> None then enqueueOwnedTask cfg now task
      else redisEnqueueBatch cfg now [task])"

definition renewScript ::
  "string \<Rightarrow> string \<Rightarrow> string \<Rightarrow> string \<Rightarrow> int \<Rightarrow> int \<Rightarrow> redisDb \<Rightarrow> bool \<times> redisDb" where
  "renewScript tk qk workerId leaseId now leaseMs s =
     (case getTaskKey tk s of
        Some (Some current) \<Rightarrow>
          if tkState current \<noteq> RUNNING \<or> tkWorkerId current \<noteq> Some workerId
             \<or> tkLeaseId current \<noteq> Some leaseId
          then (False, s)
          else (True, zadd qk (now + leaseMs) (tkId current) s)
      | _ \<Rightarrow> (False, s))"

definition redisRenewTaskLease :: "redisConfig \<Rightarrow> int \<Rightarrow> taskRecord \<Rightarrow> bool redisAct" where
  "redisRenewTaskLease cfg now task =
     (case (nonEmpty (tkLeaseId task), nonEmpty (tkWorkerId task)) of
        (Some leaseId, Some workerId) \<Rightarrow>
          act_bind (act_lift (normalizeTenantId (Some (tkTenantId task)))) (\<lambda>tenantId.
            let shard = taskShard cfg (tkId task) in
            (\<lambda>s. let (ok, s') = renewScript (redisTaskKey cfg tenantId shard (tkId task))
                                 (processingKey cfg tenantId shard) workerId leaseId now
                                 (leaseDurationMs cfg) s
                 in (Inr ok, s')))
      | _ \<Rightarrow> act_return False)"

section \<open>Reads\<close>

definition redisGetTask :: "redisConfig \<Rightarrow> string \<Rightarrow> string option \<Rightarrow> taskRecord option redisAct" where
  "redisGetTask cfg taskId tenantId =
     act_bind (act_lift (normalizeTenantId tenantId)) (\<lambda>t.
       act_get (\<lambda>s. case getTaskKey (redisTaskKey cfg t (taskShard cfg taskId) taskId) s of
           Some (Some task) \<Rightarrow> if tkId task = taskId \<and> tkTenantId task = t then Some task else None
         | _ \<Rightarrow> None))"

text \<open>
  \<open>scanKeys\<close>: each master node answers a cursor iteration with batches of keys; the replies
  of every node are a parameter.  An iteration ends at cursor 0 or once enough keys are read.
\<close>

type_synonym scanReplies = "(string \<times> string list) list list"

fun scanNode :: "nat \<Rightarrow> (string \<times> string list) list \<Rightarrow> string list \<Rightarrow> string list" where
  "scanNode limit [] keys = keys"
| "scanNode limit ((cursor, batch) # replies) keys =
     (let keys' = keys @ batch in
      if cursor \<noteq> ''0'' \<and> length keys' < limit then scanNode limit replies keys' else keys')"

fun scanNodes :: "nat \<Rightarrow> scanReplies \<Rightarrow> string list \<Rightarrow> string list" where
  "scanNodes limit [] keys = keys"
| "scanNodes limit (node # nodes) keys =
     (let keys' = scanNode limit node keys in
      if length keys' \<ge> limit then keys' else scanNodes limit nodes keys')"

definition scanKeys :: "(string \<Rightarrow> scanReplies) \<Rightarrow> string \<Rightarrow> int \<Rightarrow> string list" where
  "scanKeys scan pattern limit =
     (let boundedLimit = nat (boundedInteger (JFin (of_int limit)) 1 10000 100)
      in take boundedLimit (scanNodes boundedLimit (scan pattern) []))"

text \<open>The values of one shard are pushed until the limit is reached.\<close>

fun pushMatching :: "nat \<Rightarrow> (taskRecord \<Rightarrow> bool) \<Rightarrow> taskRecord option option list \<Rightarrow> taskRecord list \<Rightarrow> taskRecord list" where
  "pushMatching limit p [] results = results"
| "pushMatching limit p (v # vs) results =
     (case v of
        Some (Some task) \<Rightarrow>
          if p task
          then (if length (results @ [task]) \<ge> limit then results @ [task]
                else pushMatching limit p vs (results @ [task]))
          else pushMatching limit p vs results
      | _ \<Rightarrow> pushMatching limit p vs results)"

fun listShards ::
  "(int \<Rightarrow> string list) \<Rightarrow> redisDb \<Rightarrow> nat \<Rightarrow> (taskRecord \<Rightarrow> bool) \<Rightarrow> int list \<Rightarrow> taskRecord list \<Rightarrow> taskRecord list" where
  "listShards keysOf s limit p [] results = results"
| "listShards keysOf s limit p (shard # shards) results =
     (if length results < limit
      then listShards keysOf s limit p shards
             (pushMatching limit p (map (\<lambda>k. getTaskKey k s) (keysOf shard)) results)
      else results)"

definition redisListTasks ::
  "redisConfig \<Rightarrow> (string \<Rightarrow> scanReplies) \<Rightarrow> jsnum \<Rightarrow> string option \<Rightarrow> taskListFilter option
    \<Rightarrow> taskRecord list redisAct" where
  "redisListTasks cfg scan limit tenantId flt =
     act_bind (act_lift (normalizeTenantId tenantId)) (\<lambda>t.
       let boundedLimit = boundedInteger limit 1 500 100;
           scanLimit = (case flt of None \<Rightarrow> boundedLimit | Some f \<Rightarrow> 10000);
           wanted = (\<lambda>task. tkTenantId task = t
                       \<and> (case flt of None \<Rightarrow> True | Some f \<Rightarrow> matchesTaskFilter task f))
       in act_get (\<lambda>s. take (nat boundedLimit)
            (listShards (\<lambda>shard. scanKeys scan (taskPattern cfg t shard) scanLimit) s (nat boundedLimit)
               wanted (map int [0..<nat (rcShardCount cfg)]) [])))"

definition redisUpdateWorkerHeartbeat :: "redisConfig \<Rightarrow> int \<Rightarrow> workerInfo \<Rightarrow> unit redisAct" where
  "redisUpdateWorkerHeartbeat cfg now worker =
     act_bind (act_lift (normalizeTenantId (Some (wkTenantId worker)))) (\<lambda>t.
       act_modify (\<lambda>s. s\<lparr>rdWorkers := oset (workerKey cfg t (wkWorkerId worker))
         (Some (worker\<lparr>wkTenantId := t, wkLastHeartbeat := now\<rparr>), Some (rdClock s + 60 * 1000))
         (rdWorkers s)\<rparr>))"

definition redisListWorkers ::
  "redisConfig \<Rightarrow> (string \<Rightarrow> scanReplies) \<Rightarrow> string option \<Rightarrow> workerInfo list redisAct" where
  "redisListWorkers cfg scan tenantId =
     act_bind (act_lift (normalizeTenantId tenantId)) (\<lambda>t.
       act_get (\<lambda>s. filter (\<lambda>w. wkTenantId w = t)
         (concat (map (\<lambda>k. case alive (rdClock s) (oget (rdWorkers s) k) of Some (Some w) \<Rightarrow> [w] | _ \<Rightarrow> [])
            (scanKeys scan (workerPattern cfg t) 1000)))))"

section \<open>URLs\<close>

definition redisIsUrlSeen :: "redisConfig \<Rightarrow> int \<Rightarrow> string \<Rightarrow> string option \<Rightarrow> bool redisAct" where
  "redisIsUrlSeen cfg now url tenantId =
     act_bind (act_lift (normalizeTenantId tenantId)) (\<lambda>t.
       act_then (act_modify (zremUpto (seenKey cfg t) now))
         (act_get (\<lambda>s. case zscore (seenKey cfg t) url s of None \<Rightarrow> False | Some e \<Rightarrow> e > now)))"

definition claimScript :: "string \<Rightarrow> int \<Rightarrow> int \<Rightarrow> string list \<Rightarrow> redisDb \<Rightarrow> bool \<times> redisDb" where
  "claimScript key now expiresAt urls s =
     (let s1 = zremUpto key now s in
      if list_ex (\<lambda>u. zscore key u s1 \<noteq> None) urls then (False, s1)
      else (True, fold (zadd key expiresAt) urls s1))"

definition redisClaimUrls :: "redisConfig \<Rightarrow> int \<Rightarrow> string list \<Rightarrow> int \<Rightarrow> string option \<Rightarrow> bool redisAct" where
  "redisClaimUrls cfg now urls ttlSeconds tenantId =
     (if urls = [] \<or> ttlSeconds \<le> 0 then act_return False
      else act_bind (act_lift (normalizeTenantId tenantId)) (\<lambda>t.
        (\<lambda>s. let (ok, s') = claimScript (seenKey cfg t) now (now + ttlSeconds * 1000) urls s in (Inr ok, s'))))"

definition redisClaimUrl :: "redisConfig \<Rightarrow> int \<Rightarrow> string \<Rightarrow> int \<Rightarrow> string option \<Rightarrow> bool redisAct" where
  "redisClaimUrl cfg now url ttlSeconds tenantId = redisClaimUrls cfg now [url] ttlSeconds tenantId"

definition redisReleaseUrls :: "redisConfig \<Rightarrow> string list \<Rightarrow> string option \<Rightarrow> unit redisAct" where
  "redisReleaseUrls cfg urls tenantId =
     (if urls = [] then act_return ()
      else act_bind (act_lift (normalizeTenantId tenantId)) (\<lambda>t.
        act_modify (fold (zrem (seenKey cfg t)) urls)))"

definition redisMarkUrlSeen :: "redisConfig \<Rightarrow> int \<Rightarrow> string \<Rightarrow> int \<Rightarrow> string option \<Rightarrow> unit redisAct" where
  "redisMarkUrlSeen cfg now url ttlSeconds tenantId =
     (if ttlSeconds \<le> 0 then act_return ()
      else act_bind (act_lift (normalizeTenantId tenantId)) (\<lambda>t.
        act_modify (zadd (seenKey cfg t) (now + ttlSeconds * 1000) url)))"

end
