(* ===== verification/RedisQueueSpec.thy ===== *)
theory RedisQueueSpec
  imports RedisQueue
begin

text \<open>
  What \<open>RedisQueueAdapter\<close> promises: its keys never collide between tenants, shards or
  families and the keys of one script share a hash tag; a claim fences earlier owners; a task
  whose lease is alive is not handed out again, an expired one is recovered; URL claims are
  exclusive; waiting tasks come out by priority.
\<close>

section \<open>Keys\<close>

definition configOk :: "redisConfig \<Rightarrow> bool" where
  "configOk cfg \<longleftrightarrow> 1 \<le> rcShardCount cfg \<and> 1 \<le> rcTaskTtlSeconds cfg \<and> 1 \<le> rcLeaseSeconds cfg"

lemma taskShard_range:
  "configOk cfg \<Longrightarrow> 0 \<le> taskShard cfg i \<and> taskShard cfg i < rcShardCount cfg"
  by (simp add: taskShard_def configOk_def)

lemma normalizeShard_range:
  "configOk cfg \<Longrightarrow> 0 \<le> normalizeShard cfg sh \<and> normalizeShard cfg sh < rcShardCount cfg"
  by (auto simp: normalizeShard_def configOk_def)

lemma normalizeShard_taskShard [simp]:
  "configOk cfg \<Longrightarrow> normalizeShard cfg (taskShard cfg i) = taskShard cfg i"
  using taskShard_range [of cfg i] by (simp add: normalizeShard_def)

lemma normalizeShard_idem [simp]:
  "configOk cfg \<Longrightarrow> normalizeShard cfg (normalizeShard cfg sh) = normalizeShard cfg sh"
  using normalizeShard_range [of cfg sh] by (simp add: normalizeShard_def)

lemma showDec_not_brace: "CHR ''}'' \<notin> set (showDec n)"
  using showDec_digits [of n] by (auto simp: list_all_iff isDigit_def charCode_def)

text \<open>A key of a shard determines tenant, shard and what follows the tag.\<close>

lemma shardTag_inj:
  assumes "configOk cfg" and "TENANT_ID_PATTERN a" and "TENANT_ID_PATTERN b"
  shows "shardTag cfg a x @ u = shardTag cfg b y @ v
    \<longleftrightarrow> a = b \<and> normalizeShard cfg x = normalizeShard cfg y \<and> u = v"
proof -
  have "shardTag cfg a x @ u = shardTag cfg b y @ v \<longleftrightarrow>
      a @ CHR '':'' # ''s:'' @ showDec (nat (normalizeShard cfg x)) @ CHR ''}'' # u
      = b @ CHR '':'' # ''s:'' @ showDec (nat (normalizeShard cfg y)) @ CHR ''}'' # v"
    by (simp add: shardTag_def)
  also have "\<dots> \<longleftrightarrow> a = b \<and> showDec (nat (normalizeShard cfg x)) = showDec (nat (normalizeShard cfg y)) \<and> u = v"
    using assms(2,3)
    by (simp add: sep_split tenant_not_sep showDec_not_brace)
  also have "\<dots> \<longleftrightarrow> a = b \<and> normalizeShard cfg x = normalizeShard cfg y \<and> u = v"
    using normalizeShard_range [OF assms(1), of x] normalizeShard_range [OF assms(1), of y]
    by (simp add: showDec_inj nat_eq_iff)
  finally show ?thesis .
qed

lemma shardTag_metaTag:
  assumes "TENANT_ID_PATTERN a" and "TENANT_ID_PATTERN b"
  shows "shardTag cfg a x @ u \<noteq> metaTag b @ v"
proof
  assume "shardTag cfg a x @ u = metaTag b @ v"
  then have "a @ CHR '':'' # ''s:'' @ showDec (nat (normalizeShard cfg x)) @ CHR ''}'' # u
    = b @ CHR '':'' # ''meta}'' @ v"
    by (simp add: shardTag_def metaTag_def)
  then show False using assms by (simp add: sep_split tenant_not_sep)
qed

lemma metaTag_inj:
  "TENANT_ID_PATTERN a \<Longrightarrow> TENANT_ID_PATTERN b \<Longrightarrow> metaTag a @ u = metaTag b @ v \<longleftrightarrow> a = b \<and> u = v"
  by (simp add: metaTag_def sep_split tenant_not_sep)

lemmas redisKey_defs = pendingKey_def processingKey_def taskPrefix_def redisTaskKey_def
  seenKey_def workerKey_def

lemma redisTaskKey_inj:
  "configOk cfg \<Longrightarrow> TENANT_ID_PATTERN a \<Longrightarrow> TENANT_ID_PATTERN b \<Longrightarrow>
     redisTaskKey cfg a x i = redisTaskKey cfg b y j
     \<longleftrightarrow> a = b \<and> normalizeShard cfg x = normalizeShard cfg y \<and> i = j"
  by (simp add: redisKey_defs shardTag_inj)

lemma pendingKey_processingKey:
  "configOk cfg \<Longrightarrow> TENANT_ID_PATTERN a \<Longrightarrow> TENANT_ID_PATTERN b \<Longrightarrow>
     pendingKey cfg a x \<noteq> processingKey cfg b y"
  by (simp add: redisKey_defs shardTag_inj)

lemma shardTag_eq:
  "configOk cfg \<Longrightarrow> TENANT_ID_PATTERN a \<Longrightarrow> TENANT_ID_PATTERN b \<Longrightarrow>
     shardTag cfg a x = shardTag cfg b y \<longleftrightarrow> a = b \<and> normalizeShard cfg x = normalizeShard cfg y"
  using shardTag_inj [of cfg a b x "[]" y "[]"] by simp

lemma pendingKey_inj:
  "configOk cfg \<Longrightarrow> TENANT_ID_PATTERN a \<Longrightarrow> TENANT_ID_PATTERN b \<Longrightarrow>
     pendingKey cfg a x = pendingKey cfg b y \<longleftrightarrow> a = b \<and> normalizeShard cfg x = normalizeShard cfg y"
  by (simp add: redisKey_defs shardTag_eq)

lemma processingKey_inj:
  "configOk cfg \<Longrightarrow> TENANT_ID_PATTERN a \<Longrightarrow> TENANT_ID_PATTERN b \<Longrightarrow>
     processingKey cfg a x = processingKey cfg b y \<longleftrightarrow> a = b \<and> normalizeShard cfg x = normalizeShard cfg y"
  by (simp add: redisKey_defs shardTag_eq)

text \<open>
  The part of a key Redis Cluster hashes: what is between the first \<open>{\<close> and the first \<open>}\<close>
  after it, or the whole key.
\<close>

definition hashTag :: "string \<Rightarrow> string" where
  "hashTag key =
     (case dropWhile (\<lambda>c. c \<noteq> CHR ''{'') key of
        [] \<Rightarrow> key
      | c # rest \<Rightarrow>
          (let tag = takeWhile (\<lambda>c. c \<noteq> CHR ''}'') rest in
           if tag = rest \<or> tag = [] then key else tag))"

lemma hashTag_between:
  assumes "CHR ''{'' \<notin> set p" and "CHR ''}'' \<notin> set tag" and "tag \<noteq> []"
  shows "hashTag (p @ CHR ''{'' # tag @ CHR ''}'' # rest) = tag"
proof -
  have "dropWhile (\<lambda>c. c \<noteq> CHR ''{'') (p @ CHR ''{'' # tag @ CHR ''}'' # rest)
    = CHR ''{'' # tag @ CHR ''}'' # rest"
    using assms(1) by (subst dropWhile_append2) auto
  moreover have "takeWhile (\<lambda>c. c \<noteq> CHR ''}'') (tag @ CHR ''}'' # rest) = tag"
    using assms(2) by (subst takeWhile_append2) auto
  ultimately show ?thesis using assms(3) by (simp add: hashTag_def)
qed

lemma shard_hashTag:
  assumes "CHR ''{'' \<notin> set (rcPrefix cfg)" and "TENANT_ID_PATTERN t"
  shows "hashTag (rcPrefix cfg @ shardTag cfg t sh @ rest)
    = ''t:'' @ t @ '':s:'' @ showDec (nat (normalizeShard cfg sh))"
  using hashTag_between [OF assms(1), of "''t:'' @ t @ '':s:'' @ showDec (nat (normalizeShard cfg sh))" rest]
    tenant_not_sep [OF assms(2)] showDec_not_brace
  by (simp add: shardTag_def)

section \<open>Commands\<close>

named_theorems redis_simps \<open>effects of the Redis commands\<close>

lemma zset_tasks [redis_simps]:
  "rdTasks (zadd k sc x s) = rdTasks s" "rdTasks (zrem k x s) = rdTasks s"
  "rdTasks (zremUpto k now s) = rdTasks s"
  "rdClock (zadd k sc x s) = rdClock s" "rdClock (zrem k x s) = rdClock s"
  "rdClock (zremUpto k now s) = rdClock s"
  by (simp_all add: zadd_def zrem_def zremUpto_def putZset_def)

lemma getTaskKey_zset [redis_simps]:
  "getTaskKey k (zadd k' sc x s) = getTaskKey k s" "getTaskKey k (zrem k' x s) = getTaskKey k s"
  by (simp_all add: getTaskKey_def redis_simps)

lemma setTaskKey_fields [redis_simps]:
  "rdClock (setTaskKey k t s) = rdClock s" "rdClock (setTaskKeyEx k t secs s) = rdClock s"
  "rdClock (expireTaskKey k secs s) = rdClock s"
  "rdZsets (setTaskKey k t s) = rdZsets s" "rdZsets (setTaskKeyEx k t secs s) = rdZsets s"
  "rdZsets (expireTaskKey k secs s) = rdZsets s"
  by (simp_all add: setTaskKey_def setTaskKeyEx_def expireTaskKey_def split: option.splits)

lemma zsetAt_set [redis_simps]:
  "zsetAt z (setTaskKey k t s) = zsetAt z s" "zsetAt z (setTaskKeyEx k t secs s) = zsetAt z s"
  "zsetAt z (expireTaskKey k secs s) = zsetAt z s"
  by (simp_all add: zsetAt_def redis_simps)

lemma zsetAt_put [redis_simps]: "zsetAt k (putZset k' z s) = (if k = k' then z else zsetAt k s)"
  by (simp add: zsetAt_def putZset_def omap_simps)

lemma zscore_set [redis_simps]:
  "zscore z x (setTaskKey k t s) = zscore z x s" "zscore z x (setTaskKeyEx k t secs s) = zscore z x s"
  "zscore z x (expireTaskKey k secs s) = zscore z x s"
  by (simp_all add: zscore_def redis_simps)

lemma zscore_zset [redis_simps]:
  "zscore k x (zadd k' sc y s) = (if k = k' \<and> x = y then Some sc else zscore k x s)"
  "zscore k x (zrem k' y s) = (if k = k' \<and> x = y then None else zscore k x s)"
  by (simp_all add: zscore_def zadd_def zrem_def redis_simps omap_simps)

lemma oget_setTaskKey [redis_simps]:
  "oget (rdTasks (setTaskKey k t s)) k' = (if k' = k then Some (Some t, None) else oget (rdTasks s) k')"
  "oget (rdTasks (setTaskKeyEx k t secs s)) k' =
     (if k' = k then Some (Some t, Some (rdClock s + secs * 1000)) else oget (rdTasks s) k')"
  by (simp_all add: setTaskKey_def setTaskKeyEx_def omap_simps)

lemma getTaskKey_set [redis_simps]:
  "getTaskKey k' (setTaskKey k t s) = (if k' = k then Some (Some t) else getTaskKey k' s)"
  "0 < secs \<Longrightarrow> getTaskKey k' (setTaskKeyEx k t secs s) = (if k' = k then Some (Some t) else getTaskKey k' s)"
  by (simp_all add: getTaskKey_def redis_simps alive_def)

lemma oget_expireTaskKey:
  "oget (rdTasks (expireTaskKey k secs s)) k' =
     (case getTaskKey k s of
        None \<Rightarrow> oget (rdTasks s) k'
      | Some v \<Rightarrow> if k' = k then Some (v, Some (rdClock s + secs * 1000)) else oget (rdTasks s) k')"
  by (simp add: expireTaskKey_def omap_simps split: option.splits)

lemma getTaskKey_expire [redis_simps]:
  "0 < secs \<Longrightarrow> getTaskKey k' (expireTaskKey k secs s) = getTaskKey k' s"
  by (cases "getTaskKey k s") (auto simp: getTaskKey_def oget_expireTaskKey alive_def expireTaskKey_def omap_simps)

section \<open>What a call may do to the records\<close>

definition rightKey :: "redisConfig \<Rightarrow> string \<Rightarrow> taskRecord \<Rightarrow> bool" where
  "rightKey cfg k t \<longleftrightarrow> TENANT_ID_PATTERN (tkTenantId t)
     \<and> k = redisTaskKey cfg (tkTenantId t) (taskShard cfg (tkId t)) (tkId t)"

text \<open>Every record is stored under its own key.\<close>

definition keysOk :: "redisConfig \<Rightarrow> redisDb \<Rightarrow> bool" where
  "keysOk cfg s \<longleftrightarrow> (\<forall>k t e. oget (rdTasks s) k = Some (Some t, e) \<longrightarrow> rightKey cfg k t)"

text \<open>A record is as before, or new with no lease, a lease just issued or the lease it had.\<close>

definition leaseKept :: "string option \<Rightarrow> taskRecord option option \<Rightarrow> taskRecord \<Rightarrow> bool" where
  "leaseKept issued old t \<longleftrightarrow>
     (\<forall>L. leaseOf (Some t) = Some L \<longrightarrow> issued = Some L
        \<or> (\<exists>t0. old = Some (Some t0) \<and> tkLeaseId t0 = Some L))"

definition touched :: "redisConfig \<Rightarrow> string option \<Rightarrow> redisDb \<Rightarrow> redisDb \<Rightarrow> bool" where
  "touched cfg issued s s' \<longleftrightarrow> rdClock s' = rdClock s
     \<and> (\<forall>k. oget (rdTasks s') k = oget (rdTasks s) k
          \<or> (\<exists>t e. oget (rdTasks s') k = Some (Some t, e) \<and> rightKey cfg k t
               \<and> leaseKept issued (getTaskKey k s) t))"

lemma touched_refl: "rdTasks s' = rdTasks s \<Longrightarrow> rdClock s' = rdClock s \<Longrightarrow> touched cfg issued s s'"
  by (simp add: touched_def)

lemma touched_self [simp]: "touched cfg issued s s"
  by (simp add: touched_refl)

lemma getTaskKey_cong:
  "rdClock s' = rdClock s \<Longrightarrow> oget (rdTasks s') k = oget (rdTasks s) k \<Longrightarrow> getTaskKey k s' = getTaskKey k s"
  by (simp add: getTaskKey_def)

lemma getTaskKey_Some: "getTaskKey k s = Some v \<Longrightarrow> \<exists>e. oget (rdTasks s) k = Some (v, e)"
  by (auto simp: getTaskKey_def alive_def split: option.splits if_splits)

lemma leaseKept_trans:
  assumes "leaseKept issued old t1" and "leaseKept issued (Some (Some t1)) t2"
  shows "leaseKept issued old t2"
  using assms by (auto simp: leaseKept_def)

lemma touched_trans:
  assumes "touched cfg issued s s1" and "touched cfg issued s1 s2"
  shows "touched cfg issued s s2"
  unfolding touched_def
proof (intro conjI allI)
  show "rdClock s2 = rdClock s" using assms by (simp add: touched_def)
  fix k
  consider "oget (rdTasks s2) k = oget (rdTasks s1) k"
    | t e where "oget (rdTasks s2) k = Some (Some t, e)" "rightKey cfg k t" "leaseKept issued (getTaskKey k s1) t"
    using assms(2) unfolding touched_def by blast
  then show "oget (rdTasks s2) k = oget (rdTasks s) k
      \<or> (\<exists>t e. oget (rdTasks s2) k = Some (Some t, e) \<and> rightKey cfg k t
           \<and> leaseKept issued (getTaskKey k s) t)"
  proof cases
    case 1
    with assms(1) show ?thesis unfolding touched_def by metis
  next
    case (2 t e)
    have "leaseKept issued (getTaskKey k s) t"
    proof (cases "oget (rdTasks s1) k = oget (rdTasks s) k")
      case True
      with 2 getTaskKey_cong [of s1 s k] assms(1) show ?thesis by (simp add: touched_def)
    next
      case False
      then obtain t1 e1 where t1: "oget (rdTasks s1) k = Some (Some t1, e1)" "leaseKept issued (getTaskKey k s) t1"
        using assms(1) unfolding touched_def by blast
      show ?thesis
      proof (cases "getTaskKey k s1")
        case None
        with 2 show ?thesis by (auto simp: leaseKept_def)
      next
        case (Some v)
        with getTaskKey_Some [OF Some] t1 have "getTaskKey k s1 = Some (Some t1)" by auto
        with 2 t1 leaseKept_trans show ?thesis by metis
      qed
    qed
    with 2 show ?thesis by blast
  qed
qed

lemma touched_keysOk: "touched cfg issued s s' \<Longrightarrow> keysOk cfg s \<Longrightarrow> keysOk cfg s'"
  unfolding touched_def keysOk_def by (metis option.inject prod.inject)

lemma touched_set:
  assumes "rightKey cfg k t" and "leaseKept issued (getTaskKey k s) t"
  shows "touched cfg issued s (setTaskKey k t s)" and "touched cfg issued s (setTaskKeyEx k t secs s)"
  using assms by (auto simp: touched_def redis_simps)

lemma touched_zset:
  "touched cfg issued s s' \<Longrightarrow> touched cfg issued s (zadd k sc x s')"
  "touched cfg issued s s' \<Longrightarrow> touched cfg issued s (zrem k x s')"
  by (simp_all add: touched_def redis_simps)

lemma keysOk_get: "keysOk cfg s \<Longrightarrow> getTaskKey k s = Some (Some t) \<Longrightarrow> rightKey cfg k t"
  using getTaskKey_Some [of k s "Some t"] by (auto simp: keysOk_def)

lemma touched_expire:
  assumes "keysOk cfg s" and "getTaskKey k s = Some (Some t)"
  shows "touched cfg issued s (expireTaskKey k secs s)"
proof -
  have "rightKey cfg k t" by (rule keysOk_get [OF assms])
  moreover have "leaseKept issued (getTaskKey k s) t"
    using assms(2) by (auto simp: leaseKept_def)
  ultimately show ?thesis
    using assms(2) by (auto simp: touched_def oget_expireTaskKey redis_simps)
qed

lemma expireRunning_fields [simp]:
  "tkId (expireRunning now t) = tkId t" "tkTenantId (expireRunning now t) = tkTenantId t"
  "tkLeaseId (expireRunning now t) = None" "tkRetries (expireRunning now t) = tkRetries t + 1"
  "tkMaxRetries (expireRunning now t) = tkMaxRetries t"
  "tkState (expireRunning now t) = (if tkRetries t + 1 \<le> tkMaxRetries t then PENDING else FAILED)"
  by (simp_all add: expireRunning_def Let_def)

lemma releaseHandoff_fields [simp]:
  "tkId (releaseHandoff t) = tkId t" "tkTenantId (releaseHandoff t) = tkTenantId t"
  "tkLeaseId (releaseHandoff t) = None" "tkState (releaseHandoff t) = tkState t"
  by (simp_all add: releaseHandoff_def)

lemma claimed_fields [simp]:
  "tkId (claimed now l w t) = tkId t" "tkTenantId (claimed now l w t) = tkTenantId t"
  "tkLeaseId (claimed now l w t) = Some l" "tkState (claimed now l w t) = RUNNING"
  "tkWorkerId (claimed now l w t) = Some w"
  by (simp_all add: claimed_def)

lemma nonEmpty_None [simp]: "nonEmpty None = None"
  by (simp add: nonEmpty_def)

lemma leaseKept_none [simp]: "tkLeaseId t = None \<Longrightarrow> leaseKept issued old t"
  by (simp add: leaseKept_def)

lemma rightKey_same:
  "rightKey cfg k t \<Longrightarrow> tkId t' = tkId t \<Longrightarrow> tkTenantId t' = tkTenantId t \<Longrightarrow> rightKey cfg k t'"
  by (simp add: rightKey_def)

lemma touched_reclaimOne:
  assumes "keysOk cfg s"
  shows "touched cfg issued s (reclaimOne pk tp qk now ttl x s)"
proof (cases "\<exists>t. getTaskKey (tp @ x) s = Some (Some t)")
  case True
  then obtain t where t: "getTaskKey (tp @ x) s = Some (Some t)" by blast
  have key: "rightKey cfg (tp @ x) t'" if "tkId t' = tkId t" "tkTenantId t' = tkTenantId t" for t'
    using keysOk_get [OF assms t] that by (rule rightKey_same)
  have sets: "touched cfg issued s (setTaskKey (tp @ x) (expireRunning now t) s)"
    "touched cfg issued s (setTaskKeyEx (tp @ x) (expireRunning now t) ttl s)"
    "touched cfg issued s (setTaskKey (tp @ x) (releaseHandoff t) s)"
    by (simp_all add: touched_set key)
  show ?thesis
    unfolding reclaimOne_def Let_def by (simp add: t touched_zset sets)
next
  case False
  then have "(case getTaskKey (tp @ x) s of Some (Some t) \<Rightarrow> f t | _ \<Rightarrow> s) = s" for f
    by (auto split: option.splits)
  then show ?thesis
    unfolding reclaimOne_def Let_def by (intro touched_zset) simp
qed

lemma touched_fold:
  assumes "\<And>x s. keysOk cfg s \<Longrightarrow> touched cfg issued s (f x s)"
  shows "keysOk cfg s \<Longrightarrow> touched cfg issued s (fold f xs s)"
proof (induction xs arbitrary: s)
  case Nil
  then show ?case by (simp add: touched_refl)
next
  case (Cons x xs)
  have "touched cfg issued s (f x s)" by (rule assms [OF Cons.prems])
  with Cons.IH [of "f x s"] touched_keysOk [OF this Cons.prems] show ?case
    using touched_trans by fastforce
qed

lemma touched_reclaimAll: "keysOk cfg s \<Longrightarrow> touched cfg issued s (reclaimAll pk tp qk now ttl s)"
  unfolding reclaimAll_def by (rule touched_fold) (rule touched_reclaimOne)

lemma zpopmin_cases:
  obtains "zpopmin k s = (None, s)" | x where "zpopmin k s = (Some x, zrem k x s)"
  by (cases "zsorted (zsetAt k s)") (auto simp: zpopmin_def)

lemma touched_popClaim:
  assumes "keysOk cfg s" and "popClaim pk tp qk now leaseMs l w s = (r, s')"
  shows "touched cfg (Some l) s s'
    \<and> (\<forall>x t. r = Some (x, t) \<longrightarrow> getTaskKey (tp @ x) s' = Some (Some t)
         \<and> tkLeaseId t = Some l \<and> tkState t = RUNNING \<and> tkWorkerId t = Some w)"
proof (cases rule: zpopmin_cases [of pk s])
  case 1
  with assms show ?thesis by (auto simp: popClaim_def touched_refl)
next
  case (2 x)
  have get: "getTaskKey (tp @ x) (zrem pk x s) = getTaskKey (tp @ x) s" by (simp add: redis_simps)
  show ?thesis
  proof (cases "\<exists>t. getTaskKey (tp @ x) s = Some (Some t)")
    case True
    then obtain t where t: "getTaskKey (tp @ x) s = Some (Some t)" by blast
    have "rightKey cfg (tp @ x) (claimed now l w t)"
      using keysOk_get [OF assms(1) t] by (rule rightKey_same) simp_all
    then have "touched cfg (Some l) (zrem pk x s) (setTaskKey (tp @ x) (claimed now l w t) (zrem pk x s))"
      by (rule touched_set) (auto simp: leaseKept_def)
    moreover have "touched cfg (Some l) s (zrem pk x s)"
      by (simp add: touched_refl redis_simps)
    ultimately have "touched cfg (Some l) s (setTaskKey (tp @ x) (claimed now l w t) (zrem pk x s))"
      using touched_trans by blast
    with assms(2) 2 t get show ?thesis
      by (auto simp: popClaim_def Let_def redis_simps touched_zset split: if_splits)
  next
    case False
    with assms(2) 2 get show ?thesis
      by (auto simp: popClaim_def touched_zset split: option.splits)
  qed
qed

lemma touched_dequeueScript:
  assumes "keysOk cfg s" and "dequeueScript pk tp qk now leaseMs ttl l w s = (r, s')"
  shows "touched cfg (Some l) s s'
    \<and> (\<forall>x t. r = Some (x, t) \<longrightarrow> getTaskKey (tp @ x) s' = Some (Some t)
         \<and> tkLeaseId t = Some l \<and> tkState t = RUNNING \<and> tkWorkerId t = Some w)"
proof -
  note reclaim = touched_reclaimAll [OF assms(1), of "Some l" pk tp qk now ttl]
  note keys = touched_keysOk [OF reclaim assms(1)]
  have "popClaim pk tp qk now leaseMs l w (reclaimAll pk tp qk now ttl s) = (r, s')"
    using assms(2) by (simp add: dequeueScript_def)
  from touched_popClaim [OF keys this] touched_trans [OF reclaim] show ?thesis by blast
qed

section \<open>Calls\<close>

abbreviation ownKey :: "redisConfig \<Rightarrow> taskRecord \<Rightarrow> string" where
  "ownKey cfg task \<equiv> redisTaskKey cfg (tkTenantId task) (taskShard cfg (tkId task)) (tkId task)"

abbreviation ownPending :: "redisConfig \<Rightarrow> taskRecord \<Rightarrow> string" where
  "ownPending cfg task \<equiv> pendingKey cfg (tkTenantId task) (taskShard cfg (tkId task))"

abbreviation ownProcessing :: "redisConfig \<Rightarrow> taskRecord \<Rightarrow> string" where
  "ownProcessing cfg task \<equiv> processingKey cfg (tkTenantId task) (taskShard cfg (tkId task))"

text \<open>The scripts of the three kinds of write, on a task of a valid tenant.\<close>

definition updateOf :: "redisConfig \<Rightarrow> int \<Rightarrow> taskRecord \<Rightarrow> redisDb \<Rightarrow> bool \<times> redisDb" where
  "updateOf cfg now task = updateScript (ownKey cfg task) (ownProcessing cfg task) (ownPending cfg task)
     (orEmpty (tkLeaseId task)) (orEmpty (tkWorkerId task)) task now (leaseDurationMs cfg) (rcTaskTtlSeconds cfg)"

definition enqueueOf :: "redisConfig \<Rightarrow> int \<Rightarrow> taskRecord \<Rightarrow> redisDb \<Rightarrow> bool \<times> redisDb" where
  "enqueueOf cfg now task =
     (if tkLeaseId task \<noteq> None
      then enqueueOwnedScript (ownKey cfg task) (ownPending cfg task) (ownProcessing cfg task)
             (orEmpty (tkWorkerId task)) (orEmpty (tkLeaseId task)) task (pendingScore task) now
      else enqueueUnownedScript (ownPending cfg task) (ownProcessing cfg task) [(ownKey cfg task, task)])"

definition outcome :: "bool \<times> redisDb \<Rightarrow> (taskError + unit) \<times> redisDb" where
  "outcome r = (if fst r then Inr () else Inl TaskLeaseLostError, snd r)"

lemma orLeaseLost_outcome: "orLeaseLost f s = outcome (f s)"
  by (cases "f s"; cases "fst (f s)") (auto simp: orLeaseLost_def outcome_def split: bool.splits prod.splits)

lemma invalid_tenant: "\<not> TENANT_ID_PATTERN t \<Longrightarrow> normalizeTenantId (Some t) = Inl (JsError ''Invalid tenant ID.'')"
  by (simp add: normalizeTenantId_def)

lemma redisUpdateTask_eq:
  "redisUpdateTask cfg now task s =
     (if TENANT_ID_PATTERN (tkTenantId task) then outcome (updateOf cfg now task s)
      else (Inl (JsError ''Invalid tenant ID.''), s))"
  by (simp add: redisUpdateTask_def act_bind_def act_lift_def orLeaseLost_outcome updateOf_def
      normalizeTenantId_ok invalid_tenant Let_def)

lemma redisEnqueueTask_eq:
  "redisEnqueueTask cfg now task s =
     (if TENANT_ID_PATTERN (tkTenantId task) then outcome (enqueueOf cfg now task s)
      else (Inl (JsError ''Invalid tenant ID.''), s))"
proof (cases "tkLeaseId task = None")
  case False
  then show ?thesis
    by (simp add: redisEnqueueTask_def enqueueOwnedTask_def act_bind_def act_lift_def orLeaseLost_outcome
        enqueueOf_def normalizeTenantId_ok invalid_tenant Let_def)
next
  case True
  then show ?thesis
    by (auto simp: redisEnqueueTask_def redisEnqueueBatch_def enqueueUnownedBatch_def act_defs
        orLeaseLost_outcome outcome_def enqueueOf_def normalizeTenantId_ok invalid_tenant Let_def
        split: sum.splits)
qed

definition redisTask :: "redisConfig \<Rightarrow> redisDb \<Rightarrow> string \<Rightarrow> string \<Rightarrow> taskRecord option" where
  "redisTask cfg s t i =
     (if TENANT_ID_PATTERN t
      then (case getTaskKey (redisTaskKey cfg t (taskShard cfg i) i) s of Some (Some task) \<Rightarrow> Some task | _ \<Rightarrow> None)
      else None)"

fun redisStep :: "redisConfig \<Rightarrow> redisDb queueStep" where
  "redisStep cfg (QEnqueue now task) = act_bind (redisEnqueueTask cfg now task) (\<lambda>_. act_return RDone)"
| "redisStep cfg (QUpdate now task) = act_bind (redisUpdateTask cfg now task) (\<lambda>_. act_return RDone)"
| "redisStep cfg (QRenew now task) = act_bind (redisRenewTaskLease cfg now task) (\<lambda>b. act_return (RBool b))"
| "redisStep cfg (QDequeue now uuid w t sh) =
     act_bind (redisDequeueTask cfg now uuid w t sh) (\<lambda>r. act_return (RTask r))"
| "redisStep cfg (QElapse d) = act_bind (act_modify (elapse d)) (\<lambda>_. act_return RDone)"

lemma orEmpty_eq: "orEmpty v = L \<Longrightarrow> L \<noteq> [] \<Longrightarrow> v = Some L"
  by (auto simp: orEmpty_def split: option.splits)

lemma updateGuard_lease:
  assumes "updateGuard tk qk x now (orEmpty (tkLeaseId task)) ew s"
  shows "leaseKept issued (getTaskKey tk s) task"
proof -
  have "\<exists>t0. getTaskKey tk s = Some (Some t0) \<and> tkLeaseId t0 = Some L"
    if "tkLeaseId task = Some L" "L \<noteq> []" for L
    using assms that
    by (auto simp: updateGuard_def orEmpty_def split: option.splits if_splits)
  then show ?thesis by (auto simp: leaseKept_def)
qed

lemma touched_updateOf:
  assumes "keysOk cfg s" and "TENANT_ID_PATTERN (tkTenantId task)" and "configOk cfg"
  shows "touched cfg issued s (snd (updateOf cfg now task s))"
proof (cases "updateGuard (ownKey cfg task) (ownProcessing cfg task) (tkId task) now
    (orEmpty (tkLeaseId task)) (orEmpty (tkWorkerId task)) s")
  case False
  then show ?thesis by (simp add: updateOf_def updateScript_def Let_def)
next
  case True
  let ?k = "ownKey cfg task"
  have key: "rightKey cfg ?k task" using assms(2) by (simp add: rightKey_def)
  note set = touched_set(1) [OF key updateGuard_lease [OF True]]
  have expire: "touched cfg issued s (expireTaskKey ?k ttl s')"
    if "touched cfg issued s s'" "getTaskKey ?k s' = Some (Some task)" for s' ttl
    using touched_trans [OF that(1) touched_expire [OF touched_keysOk [OF that(1) assms(1)] that(2)]] .
  show ?thesis
    using True unfolding updateOf_def updateScript_def Let_def
    by (auto simp: redis_simps intro!: expire touched_zset set)
qed

lemma touched_enqueueOf:
  assumes "TENANT_ID_PATTERN (tkTenantId task)"
  shows "touched cfg issued s (snd (enqueueOf cfg now task s))"
proof -
  have key: "rightKey cfg (ownKey cfg task) task" using assms by (simp add: rightKey_def)
  have owned: "touched cfg issued s (setTaskKey (ownKey cfg task) task s)"
    if "getTaskKey (ownKey cfg task) s = Some (Some current)" "tkLeaseId current = Some (orEmpty (tkLeaseId task))"
    for current
    by (rule touched_set(1) [OF key]) (use that in \<open>auto simp: leaseKept_def orEmpty_def\<close>)
  show ?thesis
  proof (cases "tkLeaseId task")
    case None
    with key show ?thesis
      by (simp add: enqueueOf_def enqueueUnownedScript_def insertPending_def touched_zset touched_set)
  next
    case (Some L)
    then show ?thesis
      by (auto simp: enqueueOf_def enqueueOwnedScript_def touched_zset owned split: option.splits)
  qed
qed

lemma redisRenew_tasks:
  "rdTasks (snd (redisRenewTaskLease cfg now task s)) = rdTasks s
   \<and> rdClock (snd (redisRenewTaskLease cfg now task s)) = rdClock s"
  by (auto simp: redisRenewTaskLease_def renewScript_def act_defs Let_def redis_simps
      split: option.splits sum.splits prod.splits if_splits)

lemma redisDequeueTask_cases:
  assumes "redisDequeueTask cfg now uuid w tn sh s = (r, s')" and "keysOk cfg s" and "configOk cfg"
  shows "touched cfg (Some uuid) s s'
    \<and> (\<forall>task. r = Inr (Some task) \<longrightarrow> tkLeaseId task = Some uuid
         \<and> redisTask cfg s' (tkTenantId task) (tkId task) = Some task)"
proof (cases "normalizeTenantId tn")
  case (Inl e)
  with assms(1) show ?thesis by (auto simp: redisDequeueTask_def act_defs)
next
  case (Inr t)
  let ?sh = "normalizeShard cfg sh"
  let ?pk = "pendingKey cfg t ?sh" and ?tp = "taskPrefix cfg t ?sh" and ?qk = "processingKey cfg t ?sh"
  obtain found s1 where script:
    "dequeueScript ?pk ?tp ?qk now (leaseDurationMs cfg) (rcTaskTtlSeconds cfg) uuid w s = (found, s1)"
    by fastforce
  note fx = touched_dequeueScript [OF assms(2) script]
  have keys: "keysOk cfg s1" using fx touched_keysOk assms(2) by blast
  show ?thesis
  proof (cases found)
    case None
    with assms(1) Inr script fx show ?thesis by (auto simp: redisDequeueTask_def act_defs Let_def)
  next
    case (Some e)
    obtain x task where e: "e = (x, task)" by fastforce
    with Some fx have get: "getTaskKey (?tp @ x) s1 = Some (Some task)" and lease: "tkLeaseId task = Some uuid"
      by auto
    show ?thesis
    proof (cases "tkId task = x \<and> tkTenantId task = t")
      case False
      with assms(1) Inr script fx Some e show ?thesis
        by (auto simp: redisDequeueTask_def act_defs Let_def touched_zset)
    next
      case True
      have "?tp @ x = ownKey cfg task"
        using keysOk_get [OF keys get] by (simp add: rightKey_def)
      with get True normalizeTenantId_pattern [OF Inr]
      have "redisTask cfg s1 (tkTenantId task) (tkId task) = Some task"
        by (simp add: redisTask_def)
      with assms(1) Inr script fx Some e True lease show ?thesis
        by (auto simp: redisDequeueTask_def act_defs Let_def touched_zset split: if_splits)
    qed
  qed
qed

lemma snd_outcome [simp]: "snd (outcome r) = snd r"
  by (simp add: outcome_def)

text \<open>A call either lets time pass or touches the records as allowed.\<close>

lemma redisStep_touched:
  assumes "keysOk cfg s" and "configOk cfg"
  shows "(\<exists>d. c = QElapse d) \<or> touched cfg (issues c) s (snd (redisStep cfg c s))"
proof (cases c)
  case (QEnqueue now task)
  with assms show ?thesis
    by (simp add: act_map_snd redisEnqueueTask_eq touched_enqueueOf)
next
  case (QUpdate now task)
  with assms show ?thesis
    by (simp add: act_map_snd redisUpdateTask_eq touched_updateOf)
next
  case (QRenew now task)
  with redisRenew_tasks [of cfg now task s] show ?thesis
    by (simp add: act_map_snd touched_refl)
next
  case (QDequeue now uuid w tn sh)
  obtain r s' where "redisDequeueTask cfg now uuid w tn sh s = (r, s')" by fastforce
  with QDequeue redisDequeueTask_cases [OF this assms] show ?thesis
    by (simp add: act_map_snd)
qed auto

lemma getTaskKey_elapse:
  "getTaskKey k (elapse d s) = Some v \<Longrightarrow> getTaskKey k s = Some v"
  by (auto simp: getTaskKey_def elapse_def alive_def split: option.splits if_splits)

lemma keysOk_elapse: "keysOk cfg (elapse d s) = keysOk cfg s"
  by (simp add: keysOk_def elapse_def)

lemma redisStep_keysOk:
  assumes "configOk cfg" and "keysOk cfg s"
  shows "keysOk cfg (snd (redisStep cfg c s))"
  using redisStep_touched [OF assms(2,1), of c] touched_keysOk assms(2)
  by (auto simp: act_map_snd act_modify_def keysOk_elapse)

lemma redisTask_Some:
  "redisTask cfg s t i = Some task \<longleftrightarrow>
     TENANT_ID_PATTERN t \<and> getTaskKey (redisTaskKey cfg t (taskShard cfg i) i) s = Some (Some task)"
  by (auto simp: redisTask_def split: option.splits)

lemma leaseOf_redisTask:
  "leaseOf (redisTask cfg s t i) = Some L \<longleftrightarrow>
     (\<exists>task. redisTask cfg s t i = Some task \<and> tkLeaseId task = Some L \<and> L \<noteq> [])"
  by (cases "redisTask cfg s t i") auto

lemma redis_lease_origin:
  assumes "configOk cfg" and "keysOk cfg s"
    and "leaseOf (redisTask cfg (snd (redisStep cfg c s)) t i) = Some L"
  shows "leaseOf (redisTask cfg s t i) = Some L \<or> issues c = Some L"
proof -
  let ?k = "redisTaskKey cfg t (taskShard cfg i) i" and ?s = "snd (redisStep cfg c s)"
  obtain task where pat: "TENANT_ID_PATTERN t" and task: "getTaskKey ?k ?s = Some (Some task)"
    "tkLeaseId task = Some L" "L \<noteq> []"
    using assms(3) by (auto simp: leaseOf_redisTask redisTask_Some)
  from redisStep_touched [OF assms(2,1), of c] show ?thesis
  proof
    assume "\<exists>d. c = QElapse d"
    with task pat show ?thesis
      by (auto simp: leaseOf_redisTask redisTask_Some act_map_snd act_modify_def dest!: getTaskKey_elapse)
  next
    assume touch: "touched cfg (issues c) s ?s"
    then consider "oget (rdTasks ?s) ?k = oget (rdTasks s) ?k"
      | t' e where "oget (rdTasks ?s) ?k = Some (Some t', e)" "leaseKept (issues c) (getTaskKey ?k s) t'"
      unfolding touched_def by blast
    then show ?thesis
    proof cases
      case 1
      moreover have "rdClock ?s = rdClock s" using touch by (simp add: touched_def)
      ultimately have "getTaskKey ?k s = Some (Some task)"
        using getTaskKey_cong [of ?s s ?k] task by simp
      with task pat show ?thesis by (simp add: leaseOf_redisTask redisTask_Some)
    next
      case (2 t' e)
      with getTaskKey_Some [OF task(1)] have "t' = task" by auto
      with 2 task pat show ?thesis
        by (auto simp: leaseKept_def leaseOf_redisTask redisTask_Some)
    qed
  qed
qed

lemma updateOf_stale:
  assumes "TENANT_ID_PATTERN (tkTenantId task)" and "tkLeaseId task = Some L" and "L \<noteq> []"
    and "leaseOf (redisTask cfg s (tkTenantId task) (tkId task)) \<noteq> Some L"
  shows "updateOf cfg now task s = (False, s)"
  using assms
  by (auto simp: updateOf_def updateScript_def updateGuard_def orEmpty_def leaseOf_redisTask redisTask_Some
      Let_def split: option.splits)

lemma enqueueOf_stale:
  assumes "TENANT_ID_PATTERN (tkTenantId task)" and "tkLeaseId task = Some L" and "L \<noteq> []"
    and "leaseOf (redisTask cfg s (tkTenantId task) (tkId task)) \<noteq> Some L"
  shows "enqueueOf cfg now task s = (False, s)"
  using assms
  by (auto simp: enqueueOf_def enqueueOwnedScript_def orEmpty_def leaseOf_redisTask redisTask_Some
      split: option.splits)

lemma renew_stale:
  assumes "tkLeaseId task = Some L" and "L \<noteq> []"
    and "leaseOf (redisTask cfg s (tkTenantId task) (tkId task)) \<noteq> Some L"
  shows "fst (redisRenewTaskLease cfg now task s) \<noteq> Inr True \<and> snd (redisRenewTaskLease cfg now task s) = s"
proof (cases "TENANT_ID_PATTERN (tkTenantId task)")
  case True
  with assms show ?thesis
    by (auto simp: redisRenewTaskLease_def renewScript_def act_defs normalizeTenantId_ok leaseOf_redisTask
        redisTask_Some nonEmpty_def Let_def split: option.splits if_splits)
next
  case False
  with assms show ?thesis
    by (auto simp: redisRenewTaskLease_def act_defs invalid_tenant nonEmpty_def split: option.splits if_splits)
qed

lemma redis_stale:
  assumes "carries c (t, i) L" and "L \<noteq> []" and "leaseOf (redisTask cfg s t i) \<noteq> Some L"
  shows "refused (fst (redisStep cfg c s)) \<and> redisTask cfg (snd (redisStep cfg c s)) t i = redisTask cfg s t i"
proof (cases c)
  case (QEnqueue now task)
  with assms enqueueOf_stale [of task L cfg s now] show ?thesis
    by (auto simp: act_map_snd act_map_fst redisEnqueueTask_eq writesAs_def outcome_def)
next
  case (QUpdate now task)
  with assms updateOf_stale [of task L cfg s now] show ?thesis
    by (auto simp: act_map_snd act_map_fst redisUpdateTask_eq writesAs_def outcome_def)
next
  case (QRenew now task)
  with assms renew_stale [of task L cfg s now] show ?thesis
    by (cases "fst (redisRenewTaskLease cfg now task s)")
       (auto simp: act_map_snd act_map_fst writesAs_def refused_cases)
qed (use assms in simp_all)

interpretation red: task_queue "redisStep cfg" "\<lambda>s. configOk cfg \<and> keysOk cfg s" "redisTask cfg"
    "\<lambda>s t i. True" for cfg
proof
  fix s c
  assume "configOk cfg \<and> keysOk cfg s"
  then show "configOk cfg \<and> keysOk cfg (snd (redisStep cfg c s))"
    by (simp add: redisStep_keysOk)
next
  fix s t i c L
  assume "configOk cfg \<and> keysOk cfg s" "leaseOf (redisTask cfg (snd (redisStep cfg c s)) t i) = Some L"
  then show "leaseOf (redisTask cfg s t i) = Some L \<or> issues c = Some L"
    by (intro redis_lease_origin) simp_all
next
  fix s t i c L
  assume "carries c (t, i) L" "L \<noteq> []" "leaseOf (redisTask cfg s t i) \<noteq> Some L"
  then show "refused (fst (redisStep cfg c s)) \<and> redisTask cfg (snd (redisStep cfg c s)) t i = redisTask cfg s t i"
    by (rule redis_stale)
next
  fix s now uuid w tn sh task s'
  assume good: "configOk cfg \<and> keysOk cfg s"
    and step: "redisStep cfg (QDequeue now uuid w tn sh) s = (Inr (RTask (Some task)), s')"
  then have "redisDequeueTask cfg now uuid w tn sh s = (Inr (Some task), s')"
    by (auto simp: act_defs split: prod.splits sum.splits)
  from redisDequeueTask_cases [OF this] good
  show "tkLeaseId task = Some uuid \<and> True \<and> redisTask cfg s' (tkTenantId task) (tkId task) = Some task"
    by simp
qed auto

end
