(* ===== verification/RedisLeases.thy ===== *)
theory RedisLeases
  imports RedisQueueSpec
begin

text \<open>
  The life of a task in the Redis adapter, seen task by task: its record, its place in the
  pending set and its lease in the processing set of its partition.  A task is never waiting
  and leased at once, a live lease is never taken away and an expired one is always recovered.
\<close>

section \<open>One task\<close>

definition pend :: "redisConfig \<Rightarrow> redisDb \<Rightarrow> string \<Rightarrow> string \<Rightarrow> int option" where
  "pend cfg s t i = zscore (pendingKey cfg t (taskShard cfg i)) i s"

definition proc :: "redisConfig \<Rightarrow> redisDb \<Rightarrow> string \<Rightarrow> string \<Rightarrow> int option" where
  "proc cfg s t i = zscore (processingKey cfg t (taskShard cfg i)) i s"

type_synonym taskView = "taskRecord option \<times> int option \<times> int option"

definition view :: "redisConfig \<Rightarrow> redisDb \<Rightarrow> string \<Rightarrow> string \<Rightarrow> taskView" where
  "view cfg s t i = (redisTask cfg s t i, pend cfg s t i, proc cfg s t i)"

text \<open>What reclaiming does to the view of the task it is applied to.\<close>

fun reclaimView :: "int \<Rightarrow> taskView \<Rightarrow> taskView" where
  "reclaimView now (None, p, q) = (None, p, None)"
| "reclaimView now (Some r, p, q) =
     (if tkState r = RUNNING
      then (Some (expireRunning now r),
            (if tkState (expireRunning now r) = PENDING then Some (pendingScore (expireRunning now r)) else p), None)
      else if runnable r then (Some (releaseHandoff r), Some (pendingScore (releaseHandoff r)), None)
      else (Some r, p, None))"

lemma releaseHandoff_idem: "releaseHandoff (releaseHandoff r) = releaseHandoff r"
  by (simp add: releaseHandoff_def)

lemma releaseHandoff_expired:
  "tkState (expireRunning now r) = PENDING \<Longrightarrow> releaseHandoff (expireRunning now r) = expireRunning now r"
  by (auto simp: expireRunning_def releaseHandoff_def Let_def split: if_splits)

lemma reclaimView_idem: "reclaimView now (reclaimView now v) = reclaimView now v"
proof (cases "(now, v)" rule: reclaimView.cases)
  case (2 n r p q)
  then show ?thesis
    using releaseHandoff_expired [of now r]
    by (auto simp: runnable_def releaseHandoff_idem)
qed auto

lemma ownKey_prefix:
  assumes "configOk cfg" and "TENANT_ID_PATTERN T" and "TENANT_ID_PATTERN t"
  shows "redisTaskKey cfg t (taskShard cfg i) i = taskPrefix cfg T sh @ x
    \<longleftrightarrow> T = t \<and> normalizeShard cfg sh = taskShard cfg i \<and> x = i"
  using redisTaskKey_inj [OF assms(1,3,2), of "taskShard cfg i" i sh x] assms(1)
  by (auto simp: redisTaskKey_def)

lemma own_zsets:
  assumes "configOk cfg" and "TENANT_ID_PATTERN T" and "TENANT_ID_PATTERN t"
  shows "pendingKey cfg t (taskShard cfg i) = pendingKey cfg T sh
      \<longleftrightarrow> T = t \<and> normalizeShard cfg sh = taskShard cfg i"
    and "processingKey cfg t (taskShard cfg i) = processingKey cfg T sh
      \<longleftrightarrow> T = t \<and> normalizeShard cfg sh = taskShard cfg i"
    and "pendingKey cfg t (taskShard cfg i) \<noteq> processingKey cfg T sh"
    and "processingKey cfg t (taskShard cfg i) \<noteq> pendingKey cfg T sh"
  using pendingKey_inj [OF assms(1,3,2), of "taskShard cfg i" sh]
    processingKey_inj [OF assms(1,3,2), of "taskShard cfg i" sh]
    pendingKey_processingKey [OF assms(1,3,2), of "taskShard cfg i" sh]
    pendingKey_processingKey [OF assms(1,2,3), of sh "taskShard cfg i"] assms(1)
  by auto

text \<open>Member \<open>x\<close> of the partition \<open>(T, sh)\<close> is the task \<open>(t, i)\<close>.\<close>

definition inPlace :: "redisConfig \<Rightarrow> string \<Rightarrow> int \<Rightarrow> string \<Rightarrow> string \<Rightarrow> string \<Rightarrow> bool" where
  "inPlace cfg T sh x t i \<longleftrightarrow> T = t \<and> normalizeShard cfg sh = taskShard cfg i \<and> x = i"

text \<open>The components of a view after the commands on a partition.\<close>

lemma view_cmds:
  assumes "configOk cfg" and "TENANT_ID_PATTERN T" and "TENANT_ID_PATTERN t"
  shows "redisTask cfg (setTaskKey (taskPrefix cfg T sh @ x) r s) t i =
      (if inPlace cfg T sh x t i then Some r else redisTask cfg s t i)"
    and "redisTask cfg (setTaskKeyEx (taskPrefix cfg T sh @ x) r (rcTaskTtlSeconds cfg) s) t i =
      (if inPlace cfg T sh x t i then Some r else redisTask cfg s t i)"
    and "pend cfg (zadd (pendingKey cfg T sh) sc x s) t i =
      (if inPlace cfg T sh x t i then Some sc else pend cfg s t i)"
    and "pend cfg (zrem (pendingKey cfg T sh) x s) t i =
      (if inPlace cfg T sh x t i then None else pend cfg s t i)"
    and "proc cfg (zadd (processingKey cfg T sh) sc x s) t i =
      (if inPlace cfg T sh x t i then Some sc else proc cfg s t i)"
    and "proc cfg (zrem (processingKey cfg T sh) x s) t i =
      (if inPlace cfg T sh x t i then None else proc cfg s t i)"
    and "pend cfg (zadd (processingKey cfg T sh) sc x s) t i = pend cfg s t i"
    and "pend cfg (zrem (processingKey cfg T sh) x s) t i = pend cfg s t i"
    and "proc cfg (zadd (pendingKey cfg T sh) sc x s) t i = proc cfg s t i"
    and "proc cfg (zrem (pendingKey cfg T sh) x s) t i = proc cfg s t i"
proof -
  have ttl: "0 < rcTaskTtlSeconds cfg" using assms(1) by (simp add: configOk_def)
  note eqs = ownKey_prefix [OF assms, of i sh x] own_zsets [OF assms, of i sh] ttl assms(3)
  show "redisTask cfg (setTaskKey (taskPrefix cfg T sh @ x) r s) t i =
      (if inPlace cfg T sh x t i then Some r else redisTask cfg s t i)"
    "redisTask cfg (setTaskKeyEx (taskPrefix cfg T sh @ x) r (rcTaskTtlSeconds cfg) s) t i =
      (if inPlace cfg T sh x t i then Some r else redisTask cfg s t i)"
    using eqs by (simp_all add: redisTask_def redis_simps inPlace_def)
qed (auto simp add: pend_def proc_def redis_simps own_zsets [OF assms] inPlace_def)

lemma view_inert:
  "redisTask cfg (zadd k sc x s) t i = redisTask cfg s t i"
  "redisTask cfg (zrem k x s) t i = redisTask cfg s t i"
  "pend cfg (setTaskKey k r s) t i = pend cfg s t i" "proc cfg (setTaskKey k r s) t i = proc cfg s t i"
  "pend cfg (setTaskKeyEx k r secs s) t i = pend cfg s t i" "proc cfg (setTaskKeyEx k r secs s) t i = proc cfg s t i"
  "pend cfg (expireTaskKey k secs s) t i = pend cfg s t i" "proc cfg (expireTaskKey k secs s) t i = proc cfg s t i"
  by (simp_all add: redisTask_def pend_def proc_def redis_simps)

lemma view_expire: "configOk cfg \<Longrightarrow>
    redisTask cfg (expireTaskKey k (rcTaskTtlSeconds cfg) s) t i = redisTask cfg s t i"
  by (simp add: redisTask_def redis_simps configOk_def)

lemma reclaimOne_view:
  assumes "configOk cfg" and "TENANT_ID_PATTERN T" and "TENANT_ID_PATTERN t"
  shows "view cfg (reclaimOne (pendingKey cfg T sh) (taskPrefix cfg T sh) (processingKey cfg T sh) now
             (rcTaskTtlSeconds cfg) x s) t i =
    (if inPlace cfg T sh x t i then reclaimView now (view cfg s t i)
     else view cfg s t i)"
proof (cases "\<exists>r. getTaskKey (taskPrefix cfg T sh @ x) s = Some (Some r)")
  case True
  then obtain r where r: "getTaskKey (taskPrefix cfg T sh @ x) s = Some (Some r)" by blast
  have here: "redisTask cfg s t i = Some r" if "inPlace cfg T sh x t i"
    using r that ownKey_prefix [OF assms, of i sh x] assms(3) by (simp add: redisTask_def inPlace_def)
  show ?thesis
    unfolding reclaimOne_def Let_def
    by (simp add: view_def r here view_cmds [OF assms] view_inert runnable_def)
next
  case False
  then have keep: "(case getTaskKey (taskPrefix cfg T sh @ x) s of Some (Some t) \<Rightarrow> f t | _ \<Rightarrow> s) = s" for f
    by (auto split: option.splits)
  have none: "redisTask cfg s t i = None" if "inPlace cfg T sh x t i"
    using False that ownKey_prefix [OF assms, of i sh x] by (auto simp: redisTask_def inPlace_def split: option.splits)
  show ?thesis
    unfolding reclaimOne_def Let_def keep
    by (simp add: view_def none view_cmds [OF assms] view_inert)
qed

lemma reclaim_fold_view:
  assumes "configOk cfg" and "TENANT_ID_PATTERN T" and "TENANT_ID_PATTERN t"
  shows "view cfg (fold (reclaimOne (pendingKey cfg T sh) (taskPrefix cfg T sh) (processingKey cfg T sh) now
             (rcTaskTtlSeconds cfg)) xs s) t i =
    (if T = t \<and> normalizeShard cfg sh = taskShard cfg i \<and> i \<in> set xs then reclaimView now (view cfg s t i)
     else view cfg s t i)"
proof (induction xs arbitrary: s)
  case Nil
  then show ?case by simp
next
  case (Cons x xs)
  show ?case
    by (simp only: fold_Cons o_apply Cons.IH reclaimOne_view [OF assms]) (auto simp: reclaimView_idem inPlace_def)
qed

text \<open>Sorted sets hold each member once.\<close>

definition zwf :: "redisDb \<Rightarrow> bool" where
  "zwf s \<longleftrightarrow> list_all (\<lambda>e. owf (snd e)) (rdZsets s)"

lemma zwf_at: "zwf s \<Longrightarrow> owf (zsetAt k s)"
  by (auto simp: zwf_def zsetAt_def list_all_iff dest!: map_of_SomeD split: option.splits)

lemma zwf_put: "zwf s \<Longrightarrow> owf z \<Longrightarrow> zwf (putZset k z s)"
  by (simp add: zwf_def putZset_def list_all_oset)

lemma zwf_cmds:
  "zwf s \<Longrightarrow> zwf (zadd k sc x s)" "zwf s \<Longrightarrow> zwf (zrem k x s)"
  "zwf s \<Longrightarrow> zwf (setTaskKey k' r s)" "zwf s \<Longrightarrow> zwf (setTaskKeyEx k' r secs s)"
  "zwf s \<Longrightarrow> zwf (expireTaskKey k' secs s)"
  by (simp_all add: zadd_def zrem_def zwf_put zwf_at omap_simps)
     (simp_all add: zwf_def redis_simps)

lemma set_zsorted [simp]: "set (zsorted z) = set z"
  by (simp add: zsorted_def)

lemma zupto_iff:
  "zwf s \<Longrightarrow> x \<in> set (zupto k now s) \<longleftrightarrow> (\<exists>sc. zscore k x s = Some sc \<and> sc \<le> now)"
  using zwf_at [of s k] by (force simp: zupto_def zscore_def)

lemma zpopmin_member: "zpopmin k s = (Some x, s') \<Longrightarrow> s' = zrem k x s \<and> zscore k x s \<noteq> None"
proof -
  assume pop: "zpopmin k s = (Some x, s')"
  then obtain sc rest where "zsorted (zsetAt k s) = (x, sc) # rest" and s': "s' = zrem k x s"
    by (auto simp: zpopmin_def split: list.splits)
  then have "(x, sc) \<in> set (zsetAt k s)" by (metis list.set_intros(1) set_zsorted)
  then have "zscore k x s \<noteq> None" by (auto simp: zscore_def map_of_eq_None_iff rev_image_eqI)
  with s' show ?thesis by blast
qed

lemma popClaim_view:
  assumes "configOk cfg" and "TENANT_ID_PATTERN T" and "TENANT_ID_PATTERN t"
    and "popClaim (pendingKey cfg T sh) (taskPrefix cfg T sh) (processingKey cfg T sh) now leaseMs l w s = (r, s')"
  shows "(view cfg s' t i = view cfg s t i \<and> (\<forall>x rec. r = Some (x, rec) \<longrightarrow> \<not> inPlace cfg T sh x t i))
    \<or> (pend cfg s t i \<noteq> None \<and> pend cfg s' t i = None
        \<and> (case redisTask cfg s t i of
             None \<Rightarrow> redisTask cfg s' t i = None \<and> r = None
           | Some rec \<Rightarrow>
               if runnable rec
               then redisTask cfg s' t i = Some (claimed now l w rec) \<and> proc cfg s' t i = Some (now + leaseMs)
                    \<and> r = Some (i, claimed now l w rec)
               else redisTask cfg s' t i = Some rec \<and> proc cfg s' t i = None \<and> r = None))"
proof (cases "zpopmin (pendingKey cfg T sh) s")
  case (Pair popped s1)
  show ?thesis
  proof (cases popped)
    case None
    with assms(4) Pair show ?thesis
      by (cases rule: zpopmin_cases [of "pendingKey cfg T sh" s]) (auto simp: popClaim_def)
  next
    case (Some x)
    with zpopmin_member [of "pendingKey cfg T sh" s x s1] Pair
    have pop: "s1 = zrem (pendingKey cfg T sh) x s" "zscore (pendingKey cfg T sh) x s \<noteq> None"
      by simp_all
    have get: "getTaskKey (taskPrefix cfg T sh @ x) s1 = getTaskKey (taskPrefix cfg T sh @ x) s"
      by (simp add: pop redis_simps)
    have eq: "popClaim (pendingKey cfg T sh) (taskPrefix cfg T sh) (processingKey cfg T sh) now leaseMs l w s =
      (case getTaskKey (taskPrefix cfg T sh @ x) s of
         None \<Rightarrow> (None, s1)
       | Some None \<Rightarrow> (None, zrem (processingKey cfg T sh) x s1)
       | Some (Some rec) \<Rightarrow>
           if runnable rec
           then (Some (x, claimed now l w rec), zadd (processingKey cfg T sh) (now + leaseMs) x
                   (setTaskKey (taskPrefix cfg T sh @ x) (claimed now l w rec) s1))
           else (None, zrem (processingKey cfg T sh) x s1))"
      using Pair Some get by (auto simp: popClaim_def runnable_def Let_def split: option.splits)
    show ?thesis
    proof (cases "inPlace cfg T sh x t i")
      case False
      then show ?thesis
        using assms(4) unfolding eq pop(1)
        by (auto simp: view_def view_cmds [OF assms(1-3)] view_inert split: option.splits if_splits)
    next
      case True
      then have here: "redisTask cfg s t i = (case getTaskKey (taskPrefix cfg T sh @ x) s of Some (Some rec) \<Rightarrow> Some rec | _ \<Rightarrow> None)"
        using ownKey_prefix [OF assms(1-3), of i sh x] assms(3) by (simp add: redisTask_def inPlace_def)
      have waiting: "pend cfg s t i \<noteq> None"
        using True pop(2) own_zsets(1) [OF assms(1-3), of i sh] by (auto simp: pend_def inPlace_def)
      have xi: "x = i" using True by (simp add: inPlace_def)
      show ?thesis
        using assms(4) waiting here True unfolding eq pop(1)
        by (auto simp: view_cmds [OF assms(1-3)] view_inert xi split: option.splits if_splits)
    qed
  qed
qed

abbreviation taskAt :: "taskRecord \<Rightarrow> string \<Rightarrow> string \<Rightarrow> bool" where
  "taskAt task t i \<equiv> tkTenantId task = t \<and> tkId task = i"

lemma inPlace_own:
  "configOk cfg \<Longrightarrow> inPlace cfg (tkTenantId task) (taskShard cfg (tkId task)) (tkId task) t i \<longleftrightarrow> taskAt task t i"
  by (auto simp: inPlace_def)

lemma updateOf_view:
  assumes "configOk cfg" and "TENANT_ID_PATTERN (tkTenantId task)" and "TENANT_ID_PATTERN t"
    and "updateOf cfg now task s = (True, s')"
  shows "view cfg s' t i =
      (if taskAt task t i
       then (Some task, if terminal (tkState task) then None else pend cfg s t i,
             if tkState task = RUNNING \<or> (runnable task \<and> nonEmpty (tkLeaseId task) \<noteq> None)
             then Some (now + leaseDurationMs cfg) else None)
       else view cfg s t i)"
    and "nonEmpty (tkLeaseId task) \<noteq> None \<Longrightarrow> proc cfg s (tkTenantId task) (tkId task) \<noteq> None"
proof -
  have lease: "orEmpty (tkLeaseId task) \<noteq> [] \<longleftrightarrow> nonEmpty (tkLeaseId task) \<noteq> None"
    by (auto simp: orEmpty_def nonEmpty_def split: option.splits)
  note here = inPlace_own [OF assms(1), of task t i]
  show "view cfg s' t i =
      (if taskAt task t i
       then (Some task, if terminal (tkState task) then None else pend cfg s t i,
             if tkState task = RUNNING \<or> (runnable task \<and> nonEmpty (tkLeaseId task) \<noteq> None)
             then Some (now + leaseDurationMs cfg) else None)
       else view cfg s t i)"
    using assms(4) unfolding updateOf_def updateScript_def Let_def redisTaskKey_def lease here [symmetric]
    by (simp add: view_def view_cmds [OF assms(1-3)] view_inert view_expire assms(1)
        runnable_def terminal_def split: if_splits)
       (auto simp add: view_def view_cmds [OF assms(1-3)] view_inert view_expire assms(1))
  show "proc cfg s (tkTenantId task) (tkId task) \<noteq> None" if "nonEmpty (tkLeaseId task) \<noteq> None"
    using assms(4) that lease
    by (auto simp: updateOf_def updateScript_def updateGuard_def Let_def proc_def orEmpty_def
        split: option.splits if_splits)
qed

lemma enqueueOf_view:
  assumes "configOk cfg" and "TENANT_ID_PATTERN (tkTenantId task)" and "TENANT_ID_PATTERN t"
    and "enqueueOf cfg now task s = (True, s')"
  shows "view cfg s' t i =
      (if taskAt task t i then (Some task, Some (pendingScore task), None) else view cfg s t i)"
    and "tkLeaseId task \<noteq> None \<Longrightarrow> runnable task"
proof -
  note here = inPlace_own [OF assms(1), of task t i]
  show "view cfg s' t i =
      (if taskAt task t i then (Some task, Some (pendingScore task), None) else view cfg s t i)"
    using assms(4)
    unfolding enqueueOf_def enqueueOwnedScript_def enqueueUnownedScript_def insertPending_def redisTaskKey_def
      here [symmetric]
    by (auto simp: view_def view_cmds [OF assms(1-3)] view_inert split: if_splits option.splits)
  show "tkLeaseId task \<noteq> None \<Longrightarrow> runnable task"
    using assms(4) by (auto simp: enqueueOf_def enqueueOwnedScript_def runnable_def split: if_splits option.splits)
qed

lemma renew_view:
  assumes "configOk cfg" and "keysOk cfg s" and "TENANT_ID_PATTERN t"
    and "redisRenewTaskLease cfg now task s = (r, s')"
  shows "view cfg s' t i = view cfg s t i
    \<or> (\<exists>rec. redisTask cfg s t i = Some rec \<and> tkState rec = RUNNING \<and> leaseOf (Some rec) \<noteq> None
         \<and> view cfg s' t i = (Some rec, pend cfg s t i, Some (now + leaseDurationMs cfg)))"
proof (cases "TENANT_ID_PATTERN (tkTenantId task) \<and> nonEmpty (tkLeaseId task) \<noteq> None \<and> nonEmpty (tkWorkerId task) \<noteq> None")
  case False
  then have "s' = s"
    using assms(4)
    by (auto simp: redisRenewTaskLease_def act_defs invalid_tenant split: option.splits if_splits)
  then show ?thesis by simp
next
  case True
  then obtain L W where L: "tkLeaseId task = Some L" "L \<noteq> []" "tkWorkerId task = Some W"
    and pat: "TENANT_ID_PATTERN (tkTenantId task)"
    by auto
  show ?thesis
  proof (cases "s' = s")
    case False
    then obtain cur where cur: "getTaskKey (ownKey cfg task) s = Some (Some cur)" "tkState cur = RUNNING"
        "tkLeaseId cur = Some L"
      and s': "s' = zadd (ownProcessing cfg task) (now + leaseDurationMs cfg) (tkId cur) s"
      using assms(4) True L
      by (auto simp: redisRenewTaskLease_def renewScript_def act_defs normalizeTenantId_ok nonEmpty_def Let_def
          split: option.splits if_splits)
    have "rightKey cfg (ownKey cfg task) cur" by (rule keysOk_get [OF assms(2) cur(1)])
    then have id: "tkId cur = tkId task" "tkTenantId cur = tkTenantId task"
      using redisTaskKey_inj [OF assms(1) pat, of "tkTenantId cur"] by (auto simp: rightKey_def)
    have here: "redisTask cfg s (tkTenantId task) (tkId task) = Some cur"
      using cur pat by (simp add: redisTask_def)
    have "view cfg s' t i =
        (if taskAt task t i then (redisTask cfg s t i, pend cfg s t i, Some (now + leaseDurationMs cfg)) else view cfg s t i)"
      unfolding inPlace_own [OF assms(1), of task t i, symmetric]
      by (simp add: s' id view_def view_cmds [OF assms(1) pat assms(3)] view_inert)
    with here cur L show ?thesis by auto
  qed simp
qed

section \<open>The invariant\<close>

text \<open>A task is waiting or leased, not both; a running task with a lease is not waiting.\<close>

fun viewOk :: "taskView \<Rightarrow> bool" where
  "viewOk (r, p, q) = ((p \<noteq> None \<longrightarrow> q = None)
     \<and> (\<forall>x. r = Some x \<longrightarrow> tkState x = RUNNING \<longrightarrow> nonEmpty (tkLeaseId x) \<noteq> None \<longrightarrow> p = None))"

definition redisInv :: "redisConfig \<Rightarrow> redisDb \<Rightarrow> bool" where
  "redisInv cfg s \<longleftrightarrow> configOk cfg \<and> keysOk cfg s \<and> zwf s
     \<and> (\<forall>t i. TENANT_ID_PATTERN t \<longrightarrow> viewOk (view cfg s t i))"

text \<open>The calls in which a task is only updated to \<open>RUNNING\<close> by an owner of a lease.\<close>

fun ownedCall :: "queueCall \<Rightarrow> bool" where
  "ownedCall (QUpdate now task) = (tkState task = RUNNING \<longrightarrow> nonEmpty (tkLeaseId task) \<noteq> None)"
| "ownedCall c = True"

lemma zwf_fold: "zwf s \<Longrightarrow> (\<And>x s. zwf s \<Longrightarrow> zwf (f x s)) \<Longrightarrow> zwf (fold f xs s)"
  by (induction xs arbitrary: s) simp_all

lemma zwf_reclaimOne: "zwf s \<Longrightarrow> zwf (reclaimOne pk tp qk now ttl x s)"
  by (auto simp: reclaimOne_def Let_def zwf_cmds split: option.splits)

lemma zwf_popClaim: "zwf s \<Longrightarrow> zwf (snd (popClaim pk tp qk now leaseMs l w s))"
  by (cases rule: zpopmin_cases [of pk s])
     (auto simp: popClaim_def Let_def zwf_cmds split: option.splits)

lemma zwf_dequeueScript: "zwf s \<Longrightarrow> zwf (snd (dequeueScript pk tp qk now leaseMs ttl l w s))"
  by (simp add: dequeueScript_def reclaimAll_def zwf_popClaim zwf_fold zwf_reclaimOne)

lemma zwf_updateOf: "zwf s \<Longrightarrow> zwf (snd (updateOf cfg now task s))"
  by (simp add: updateOf_def updateScript_def Let_def zwf_cmds)

lemma zwf_enqueueOf: "zwf s \<Longrightarrow> zwf (snd (enqueueOf cfg now task s))"
  by (auto simp: enqueueOf_def enqueueOwnedScript_def enqueueUnownedScript_def insertPending_def zwf_cmds
      split: option.splits)

lemma zwf_renew: "zwf s \<Longrightarrow> zwf (snd (redisRenewTaskLease cfg now task s))"
  by (auto simp: redisRenewTaskLease_def renewScript_def act_defs Let_def zwf_cmds
      split: option.splits sum.splits if_splits prod.splits)

lemma redisDequeue_script:
  assumes "configOk cfg" and "keysOk cfg s" and "normalizeTenantId tn = Inr t"
    and "dequeueScript (pendingKey cfg t (normalizeShard cfg sh)) (taskPrefix cfg t (normalizeShard cfg sh))
           (processingKey cfg t (normalizeShard cfg sh)) now (leaseDurationMs cfg) (rcTaskTtlSeconds cfg) l w s
         = (found, s')"
  shows "redisDequeueTask cfg now l w tn sh s = (Inr (map_option snd found), s')"
proof (cases found)
  case None
  with assms show ?thesis by (simp add: redisDequeueTask_def act_defs Let_def)
next
  case (Some e)
  obtain x task where e: "e = (x, task)" by fastforce
  note fx = touched_dequeueScript [OF assms(2,4)]
  have keys: "keysOk cfg s'" using fx touched_keysOk assms(2) by blast
  have get: "getTaskKey (taskPrefix cfg t (normalizeShard cfg sh) @ x) s' = Some (Some task)"
    and facts: "tkLeaseId task = Some l" "tkState task = RUNNING" "tkWorkerId task = Some w"
    using fx Some e by auto
  have "tkId task = x" "tkTenantId task = t"
    using keysOk_get [OF keys get] ownKey_prefix [OF assms(1) normalizeTenantId_pattern [OF assms(3)]]
    by (metis rightKey_def)+
  with assms Some e facts show ?thesis by (simp add: redisDequeueTask_def act_defs Let_def)
qed

lemma viewOk_reclaim: "viewOk v \<Longrightarrow> viewOk (reclaimView now v)"
  by (cases "(now, v)" rule: reclaimView.cases) (auto simp: runnable_def)

text \<open>
  After the pop, a task with view \<open>v\<close> is as it was, or it was waiting and is gone, claimed or
  dropped from the sets because it is not runnable.
\<close>

definition popped ::
  "redisConfig \<Rightarrow> string \<Rightarrow> int \<Rightarrow> int \<Rightarrow> int \<Rightarrow> string \<Rightarrow> string \<Rightarrow> string \<Rightarrow> string \<Rightarrow> taskView
    \<Rightarrow> (string \<times> taskRecord) option \<Rightarrow> redisDb \<Rightarrow> bool" where
  "popped cfg T sh now leaseMs l w t i v r s' \<longleftrightarrow>
     (view cfg s' t i = v \<and> (\<forall>x rec. r = Some (x, rec) \<longrightarrow> \<not> inPlace cfg T sh x t i))
     \<or> (\<exists>p q. v = (None, p, q) \<and> redisTask cfg s' t i = None \<and> pend cfg s' t i = None \<and> r = None)
     \<or> (\<exists>rec p q. v = (Some rec, p, q) \<and> p \<noteq> None
           \<and> (if runnable rec
              then view cfg s' t i = (Some (claimed now l w rec), None, Some (now + leaseMs))
                   \<and> r = Some (i, claimed now l w rec)
              else view cfg s' t i = (Some rec, None, None) \<and> r = None))"

text \<open>The view of a task once the expired leases of the partition \<open>(T, sh)\<close> are reclaimed.\<close>

definition agedView :: "redisConfig \<Rightarrow> string \<Rightarrow> int \<Rightarrow> int \<Rightarrow> redisDb \<Rightarrow> string \<Rightarrow> string \<Rightarrow> taskView" where
  "agedView cfg T sh now s t i =
     (if T = t \<and> normalizeShard cfg sh = taskShard cfg i \<and> (\<exists>u. proc cfg s t i = Some u \<and> u \<le> now)
      then reclaimView now (view cfg s t i) else view cfg s t i)"

lemma dequeueScript_view:
  assumes "redisInv cfg s" and "TENANT_ID_PATTERN T" and "TENANT_ID_PATTERN t"
    and "dequeueScript (pendingKey cfg T sh) (taskPrefix cfg T sh) (processingKey cfg T sh) now leaseMs
           (rcTaskTtlSeconds cfg) l w s = (r, s')"
  shows "popped cfg T sh now leaseMs l w t i (agedView cfg T sh now s t i) r s'"
proof -
  have cfg: "configOk cfg" and zw: "zwf s" using assms(1) by (simp_all add: redisInv_def)
  define s1 where "s1 = reclaimAll (pendingKey cfg T sh) (taskPrefix cfg T sh) (processingKey cfg T sh) now
    (rcTaskTtlSeconds cfg) s"
  have "i \<in> set (zupto (processingKey cfg T sh) now s) \<longleftrightarrow> (\<exists>u. proc cfg s t i = Some u \<and> u \<le> now)"
    if "T = t" "normalizeShard cfg sh = taskShard cfg i"
    using that own_zsets(2) [OF cfg assms(2,3), of i sh] by (simp add: zupto_iff [OF zw] proc_def)
  then have v: "view cfg s1 t i = agedView cfg T sh now s t i"
    unfolding agedView_def s1_def reclaimAll_def reclaim_fold_view [OF cfg assms(2,3)] by auto
  have pop: "popClaim (pendingKey cfg T sh) (taskPrefix cfg T sh) (processingKey cfg T sh) now leaseMs l w s1 = (r, s')"
    using assms(4) by (simp add: dequeueScript_def s1_def)
  show ?thesis
    unfolding v [symmetric] using popClaim_view [OF cfg assms(2,3) pop, of i]
    by (auto simp: popped_def view_def split: option.splits if_splits)
qed

lemma redisInv_dequeue:
  assumes inv: "redisInv cfg s"
  shows "redisInv cfg (snd (redisDequeueTask cfg now uuid w tn sh s))"
proof (cases "normalizeTenantId tn")
  case (Inl e)
  with inv show ?thesis by (simp add: redisDequeueTask_def act_defs)
next
  case (Inr T)
  note pat = normalizeTenantId_pattern [OF Inr]
  have cfg: "configOk cfg" and keys: "keysOk cfg s" and zw: "zwf s" using inv by (simp_all add: redisInv_def)
  let ?sh = "normalizeShard cfg sh"
  obtain r s' where script: "dequeueScript (pendingKey cfg T ?sh) (taskPrefix cfg T ?sh)
      (processingKey cfg T ?sh) now (leaseDurationMs cfg) (rcTaskTtlSeconds cfg) uuid w s = (r, s')"
    by fastforce
  have "zwf s'"
    using zwf_dequeueScript [OF zw] script by (metis snd_conv)
  moreover have "keysOk cfg s'"
    using touched_dequeueScript [OF keys script] touched_keysOk keys by blast
  moreover have "viewOk (view cfg s' t i)" if t: "TENANT_ID_PATTERN t" for t i
  proof -
    have old: "viewOk (view cfg s t i)" using inv t by (simp add: redisInv_def)
    have "viewOk (agedView cfg T ?sh now s t i)"
      using old viewOk_reclaim by (simp add: agedView_def)
    with dequeueScript_view [OF inv pat t script, of i] show ?thesis
      unfolding popped_def by (elim disjE exE conjE) (auto simp: view_def split: if_splits)
  qed
  ultimately show ?thesis
    using cfg by (simp add: redisInv_def redisDequeue_script [OF cfg keys Inr script])
qed

lemma redisInv_views:
  assumes "redisInv cfg s" and "keysOk cfg s'" and "zwf s'"
    and "\<And>t i. TENANT_ID_PATTERN t \<Longrightarrow> viewOk (view cfg s t i) \<Longrightarrow> viewOk (view cfg s' t i)"
  shows "redisInv cfg s'"
  using assms by (simp add: redisInv_def)

lemma redisInv_step:
  assumes inv: "redisInv cfg s" and owned: "ownedCall c"
  shows "redisInv cfg (snd (redisStep cfg c s))"
proof -
  have cfg: "configOk cfg" and keys: "keysOk cfg s" and zw: "zwf s" using inv by (simp_all add: redisInv_def)
  note keys' = redisStep_keysOk [OF cfg keys, of c]
  show ?thesis
  proof (cases c)
    case (QEnqueue now task)
    show ?thesis
    proof (cases "TENANT_ID_PATTERN (tkTenantId task) \<and> fst (enqueueOf cfg now task s)")
      case True
      then obtain s' where s': "enqueueOf cfg now task s = (True, s')" by (metis prod.collapse)
      have "viewOk (view cfg s' t i)" if "TENANT_ID_PATTERN t" "viewOk (view cfg s t i)" for t i
        using enqueueOf_view(1) [OF cfg _ that(1) s', of i] enqueueOf_view(2) [OF cfg _ that(1) s'] True that(2) by (auto simp: runnable_def)
      with redisInv_views [OF inv] keys' zwf_enqueueOf [OF zw, of cfg now task] QEnqueue True s' show ?thesis
        by (simp add: act_map_snd redisEnqueueTask_eq)
    next
      case False
      then have "snd (redisStep cfg c s) = s"
        using QEnqueue
        by (auto simp: act_map_snd redisEnqueueTask_eq enqueueOf_def enqueueOwnedScript_def enqueueUnownedScript_def
            split: option.splits if_splits)
      with inv show ?thesis by simp
    qed
  next
    case (QUpdate now task)
    show ?thesis
    proof (cases "TENANT_ID_PATTERN (tkTenantId task) \<and> fst (updateOf cfg now task s)")
      case True
      then obtain s' where s': "updateOf cfg now task s = (True, s')" by (metis prod.collapse)
      have "viewOk (view cfg s' t i)" if t: "TENANT_ID_PATTERN t" "viewOk (view cfg s t i)" for t i
      proof (cases "taskAt task t i")
        case at: True
        have "nonEmpty (tkLeaseId task) \<noteq> None \<Longrightarrow> pend cfg s t i = None"
          using updateOf_view(2) [OF cfg _ t(1) s'] True t(2) at by (auto simp: view_def)
        with updateOf_view(1) [OF cfg _ t(1) s', of i] True at owned QUpdate show ?thesis
          by (auto simp: terminal_def)
      next
        case False
        with updateOf_view(1) [OF cfg _ t(1) s', of i] True t(2) show ?thesis by auto
      qed
      with redisInv_views [OF inv] keys' zwf_updateOf [OF zw, of cfg now task] QUpdate True s' show ?thesis
        by (simp add: act_map_snd redisUpdateTask_eq)
    next
      case False
      then have "snd (redisStep cfg c s) = s"
        using QUpdate by (auto simp: act_map_snd redisUpdateTask_eq updateOf_def updateScript_def Let_def)
      with inv show ?thesis by simp
    qed
  next
    case (QRenew now task)
    obtain r s' where s': "redisRenewTaskLease cfg now task s = (r, s')" by fastforce
    have "viewOk (view cfg s' t i)" if t: "TENANT_ID_PATTERN t" "viewOk (view cfg s t i)" for t i
      using renew_view [OF cfg keys t(1) s', of i] t(2) by (elim disjE exE conjE) (simp_all add: view_def)
    with redisInv_views [OF inv] keys' zwf_renew [OF zw, of cfg now task] QRenew s' show ?thesis
      by (simp add: act_map_snd)
  next
    case (QDequeue now uuid w tn sh)
    with redisInv_dequeue [OF inv] show ?thesis by (simp add: act_map_snd)
  next
    case (QElapse d)
    have "viewOk (view cfg (elapse d s) t i)" if "viewOk (view cfg s t i)" for t i
    proof -
      have "pend cfg (elapse d s) t i = pend cfg s t i" "proc cfg (elapse d s) t i = proc cfg s t i"
        by (simp_all add: pend_def proc_def zscore_def zsetAt_def elapse_def)
      moreover have "redisTask cfg (elapse d s) t i = Some x \<Longrightarrow> redisTask cfg s t i = Some x" for x
        by (auto simp: redisTask_Some dest: getTaskKey_elapse)
      ultimately show ?thesis using that by (auto simp: view_def)
    qed
    moreover have "zwf (elapse d s)" using zw by (simp add: zwf_def elapse_def)
    ultimately show ?thesis
      using redisInv_views [OF inv, of "elapse d s"] keys QElapse
      by (simp add: act_map_snd act_modify_def keysOk_elapse)
  qed
qed

lemma redisInv_new: "configOk cfg \<Longrightarrow> redisInv cfg newRedisDb"
  by (simp add: redisInv_def keysOk_def zwf_def newRedisDb_def view_def pend_def proc_def zscore_def zsetAt_def
      redisTask_def getTaskKey_def alive_def)

lemma redisInv_run:
  "redisInv cfg s \<Longrightarrow> list_all ownedCall cs \<Longrightarrow> redisInv cfg (queueRun (redisStep cfg) cs s)"
  by (induction cs arbitrary: s) (simp_all add: redisInv_step)

lemma dequeue_found_place:
  assumes "configOk cfg" and "keysOk cfg s" and "normalizeTenantId tn = Inr T"
    and "dequeueScript (pendingKey cfg T (normalizeShard cfg sh)) (taskPrefix cfg T (normalizeShard cfg sh))
           (processingKey cfg T (normalizeShard cfg sh)) now leaseMs ttl l w s = (Some (x, task), s')"
    and "taskAt task t i"
  shows "inPlace cfg T (normalizeShard cfg sh) x t i"
proof -
  note fx = touched_dequeueScript [OF assms(2,4)]
  have keys: "keysOk cfg s'" using fx touched_keysOk assms(2) by blast
  have "rightKey cfg (taskPrefix cfg T (normalizeShard cfg sh) @ x) task"
    using keysOk_get [OF keys] fx by simp
  then show ?thesis
    using ownKey_prefix [OF assms(1) normalizeTenantId_pattern [OF assms(3)], of t i "normalizeShard cfg sh" x]
      assms(5)
    by (auto simp: rightKey_def inPlace_def eq_commute)
qed

section \<open>Properties\<close>

definition reachableRedis :: "redisConfig \<Rightarrow> redisDb \<Rightarrow> bool" where
  "reachableRedis cfg s \<longleftrightarrow>
     configOk cfg \<and> (\<exists>cs. list_all ownedCall cs \<and> s = queueRun (redisStep cfg) cs newRedisDb)"

lemma reachable_inv: "reachableRedis cfg s \<Longrightarrow> redisInv cfg s"
  by (auto simp: reachableRedis_def redisInv_run redisInv_new)

definition demoConfig :: redisConfig where
  "demoConfig = \<lparr>rcPrefix = ''q:'', rcTaskTtlSeconds = 60, rcLeaseSeconds = 30, rcShardCount = 1\<rparr>"

definition demoClaimed :: redisDb where
  "demoClaimed = queueRun (redisStep demoConfig)
     [QEnqueue 1 (demoTask ''a''), QDequeue 10 ''u1'' ''w1'' None 0] newRedisDb"

lemma demoClaimed_reach: "reachableRedis demoConfig demoClaimed"
  unfolding reachableRedis_def demoClaimed_def
  by (intro conjI exI [of _ "[QEnqueue 1 (demoTask ''a''), QDequeue 10 ''u1'' ''w1'' None 0]"])
     (simp_all add: configOk_def demoConfig_def)

lemma demo_tenant: "normalizeTenantId None = Inr ''default''" "TENANT_ID_PATTERN ''default''"
  by code_simp+

lemma demoClaimed_view:
  "view demoConfig demoClaimed ''default'' ''a''
   = (Some (claimed 10 ''u1'' ''w1'' (demoTask ''a'')), None, Some 30010)"
  by code_simp

lemma waiting_or_leased:
  assumes "reachableRedis cfg s" and "TENANT_ID_PATTERN t"
  shows "(pend cfg s t i = None \<or> proc cfg s t i = None)
    \<and> (\<forall>task. redisTask cfg s t i = Some task \<longrightarrow> tkState task = RUNNING \<longrightarrow> leaseOf (Some task) \<noteq> None
        \<longrightarrow> pend cfg s t i = None)"
proof -
  have "viewOk (view cfg s t i)"
    using reachable_inv [OF assms(1)] assms(2) by (simp add: redisInv_def)
  then show ?thesis by (auto simp: view_def)
qed

lemma demoClaimed_parts:
  "redisTask demoConfig demoClaimed ''default'' ''a'' = Some (claimed 10 ''u1'' ''w1'' (demoTask ''a''))"
  "tkState (claimed 10 ''u1'' ''w1'' (demoTask ''a'')) = RUNNING"
  "leaseOf (Some (claimed 10 ''u1'' ''w1'' (demoTask ''a''))) \<noteq> None"
  "proc demoConfig demoClaimed ''default'' ''a'' = Some 30010"
  using demoClaimed_view by (simp_all add: view_def)



text \<open>C26. A live lease is never taken away: while the lease of a running task has not expired,
  a dequeue of any worker on any tenant and shard leaves the record of the task, its place in
  the queue and its lease as they are, and does not return that task.\<close>

theorem redis_live_lease_kept:
  assumes "reachableRedis cfg s" and "TENANT_ID_PATTERN t"
    and "redisTask cfg s t i = Some task" and "tkState task = RUNNING" and "leaseOf (Some task) \<noteq> None"
    and "proc cfg s t i = Some leaseUntil" and "now < leaseUntil"
    and "redisDequeueTask cfg now uuid w tn sh s = (r, s')"
  shows "view cfg s' t i = view cfg s t i \<and> (\<forall>other. r = Inr (Some other) \<longrightarrow> \<not> taskAt other t i)"
proof (cases "normalizeTenantId tn")
  case (Inl e)
  with assms(8) show ?thesis by (auto simp: redisDequeueTask_def act_defs)
next
  case (Inr T)
  have inv: "redisInv cfg s" by (rule reachable_inv [OF assms(1)])
  then have cfg: "configOk cfg" "keysOk cfg s" by (simp_all add: redisInv_def)
  have idle: "pend cfg s t i = None"
    using waiting_or_leased [OF assms(1,2)] assms(3-5) by blast
  let ?sh = "normalizeShard cfg sh"
  obtain found s1 where script: "dequeueScript (pendingKey cfg T ?sh) (taskPrefix cfg T ?sh)
      (processingKey cfg T ?sh) now (leaseDurationMs cfg) (rcTaskTtlSeconds cfg) uuid w s = (found, s1)"
    by fastforce
  have "agedView cfg T ?sh now s t i = (Some task, None, Some leaseUntil)"
    using assms idle by (simp add: agedView_def view_def)
  with dequeueScript_view [OF inv normalizeTenantId_pattern [OF Inr] assms(2) script, of i]
  have after: "view cfg s1 t i = view cfg s t i" "\<forall>x rec. found = Some (x, rec) \<longrightarrow> \<not> inPlace cfg T ?sh x t i"
    using assms(3,6) idle by (auto simp: popped_def view_def)
  have out: "r = Inr (map_option snd found)" "s' = s1"
    using redisDequeue_script [OF cfg Inr script] assms(8) by simp_all
  show ?thesis
  proof (intro conjI allI impI)
    show "view cfg s' t i = view cfg s t i" using after(1) out(2) by simp
    fix other
    assume "r = Inr (Some other)"
    then obtain x where "found = Some (x, other)" using out(1) by auto
    with dequeue_found_place [OF cfg Inr, of sh now _ _ uuid w x other s1 t i] script after(2)
    show "\<not> taskAt other t i" by blast
  qed
qed

lemma redis_live_lease_kept_witness:
  "let out = redisDequeueTask demoConfig 20 ''u2'' ''w2'' None 0 demoClaimed
   in fst out = Inr None \<and> view demoConfig (snd out) ''default'' ''a'' = view demoConfig demoClaimed ''default'' ''a''"
proof -
  let ?out = "redisDequeueTask demoConfig 20 ''u2'' ''w2'' None 0 demoClaimed"
  have "fst ?out = Inr None" by code_simp
  moreover have "view demoConfig (snd ?out) ''default'' ''a'' = view demoConfig demoClaimed ''default'' ''a''"
    using redis_live_lease_kept [OF demoClaimed_reach demo_tenant(2), of "''a''"
        "claimed 10 ''u1'' ''w1'' (demoTask ''a'')" 30010 20 "''u2''" "''w2''" None 0 "fst ?out" "snd ?out"]
      demoClaimed_view
    by (simp add: view_def)
  ultimately show ?thesis by (simp add: Let_def)
qed

text \<open>C31. A crashed worker's task is recovered: the first dequeue of its tenant and shard after
  the lease expired takes the lease away and counts an attempt; if attempts are left the task is
  waiting again or handed out by this very call under the new lease, otherwise it is FAILED,
  and it is never left running.\<close>

theorem redis_expired_lease_recovered:
  assumes "reachableRedis cfg s" and "TENANT_ID_PATTERN t"
    and "redisTask cfg s t i = Some task" and "tkState task = RUNNING" and "leaseOf (Some task) \<noteq> None"
    and "proc cfg s t i = Some leaseUntil" and "leaseUntil \<le> now"
    and "normalizeTenantId tn = Inr t" and "normalizeShard cfg sh = taskShard cfg i"
    and "redisDequeueTask cfg now uuid w tn sh s = (r, s')"
  shows "let back = expireRunning now task; next = claimed now uuid w back in
      tkRetries back = tkRetries task + 1 \<and> tkLeaseId back = None
    \<and> (if tkRetries task + 1 \<le> tkMaxRetries task
       then tkState back = PENDING
            \<and> (view cfg s' t i = (Some back, Some (pendingScore back), None)
               \<or> (r = Inr (Some next) \<and> view cfg s' t i = (Some next, None, Some (now + leaseDurationMs cfg))))
       else tkState back = FAILED \<and> view cfg s' t i = (Some back, None, None))"
proof -
  have inv: "redisInv cfg s" by (rule reachable_inv [OF assms(1)])
  then have cfg: "configOk cfg" "keysOk cfg s" by (simp_all add: redisInv_def)
  have idle: "pend cfg s t i = None"
    using waiting_or_leased [OF assms(1,2)] assms(3-5) by blast
  let ?sh = "normalizeShard cfg sh"
  obtain found s1 where script: "dequeueScript (pendingKey cfg t ?sh) (taskPrefix cfg t ?sh)
      (processingKey cfg t ?sh) now (leaseDurationMs cfg) (rcTaskTtlSeconds cfg) uuid w s = (found, s1)"
    by fastforce
  have out: "r = Inr (map_option snd found)" "s' = s1"
    using redisDequeue_script [OF cfg assms(8) script] assms(10) by simp_all
  have "agedView cfg t ?sh now s t i = reclaimView now (Some task, None, Some leaseUntil)"
    using assms idle cfg by (simp add: agedView_def view_def)
  with dequeueScript_view [OF inv assms(2) assms(2) script, of i]
  show ?thesis
    using assms(4) out by (auto simp: popped_def Let_def runnable_def split: if_splits)
qed

lemma redis_expired_lease_recovered_witness:
  "let out = redisDequeueTask demoConfig 40000 ''u2'' ''w2'' None 0 demoClaimed in
   redisTask demoConfig (snd out) ''default'' ''a''
     = Some (claimed 40000 ''u2'' ''w2'' (expireRunning 40000 (claimed 10 ''u1'' ''w1'' (demoTask ''a''))))
   \<and> tkRetries (expireRunning 40000 (claimed 10 ''u1'' ''w1'' (demoTask ''a''))) = 1"
proof -
  let ?out = "redisDequeueTask demoConfig 40000 ''u2'' ''w2'' None 0 demoClaimed"
  have "redisTask demoConfig (snd ?out) ''default'' ''a''
     = Some (claimed 40000 ''u2'' ''w2'' (expireRunning 40000 (claimed 10 ''u1'' ''w1'' (demoTask ''a''))))"
    by code_simp
  moreover have "normalizeShard demoConfig 0 = taskShard demoConfig ''a''" by code_simp
  note recovered = redis_expired_lease_recovered [OF demoClaimed_reach demo_tenant(2) demoClaimed_parts
    _ demo_tenant(1) this surjective_pairing [of ?out], unfolded Let_def]
  have "tkRetries (expireRunning 40000 (claimed 10 ''u1'' ''w1'' (demoTask ''a'')))
    = tkRetries (claimed 10 ''u1'' ''w1'' (demoTask ''a'')) + 1"
    by (rule conjunct1 [OF recovered]) simp
  ultimately show ?thesis
    unfolding Let_def by (simp add: demoTask_def claimed_def)
qed

text \<open>C32. In the Redis adapter a claim is a fence: after a dequeue handed a task to a worker
  under a new lease identifier, every later write or renewal of that task with any other lease
  identifier is refused and leaves its record unchanged, whatever calls come in between and
  however much time passes, as long as that identifier is not drawn again.\<close>

theorem redis_lease_fenced:
  assumes "reachableRedis cfg s"
    and "redisStep cfg (QDequeue now uuid w tn sh) s = (Inr (RTask (Some task)), s')"
    and "L \<noteq> []" and "L \<noteq> uuid" and "\<forall>c\<in>set cs. issues c \<noteq> Some L"
    and "carries c (tkTenantId task, tkId task) L"
  shows "refused (fst (redisStep cfg c (queueRun (redisStep cfg) cs s')))
    \<and> redisTask cfg (snd (redisStep cfg c (queueRun (redisStep cfg) cs s'))) (tkTenantId task) (tkId task)
        = redisTask cfg (queueRun (redisStep cfg) cs s') (tkTenantId task) (tkId task)"
proof -
  have "configOk cfg \<and> keysOk cfg s" using reachable_inv [OF assms(1)] by (simp add: redisInv_def)
  from red.fenced [OF this assms(2-6)] show ?thesis .
qed

lemma redis_lease_fenced_witness:
  "let out = redisStep demoConfig (QDequeue 40000 ''u2'' ''w2'' None 0) demoClaimed
   in refused (fst (redisStep demoConfig
        (QUpdate 40001 ((claimed 10 ''u1'' ''w1'' (demoTask ''a''))\<lparr>tkState := COMPLETED\<rparr>)) (snd out)))"
proof -
  let ?out = "redisStep demoConfig (QDequeue 40000 ''u2'' ''w2'' None 0) demoClaimed"
  let ?task = "claimed 40000 ''u2'' ''w2'' (expireRunning 40000 (claimed 10 ''u1'' ''w1'' (demoTask ''a'')))"
  have "fst ?out = Inr (RTask (Some ?task))" by code_simp
  then have out: "?out = (Inr (RTask (Some ?task)), snd ?out)" by (metis prod.collapse)
  have "carries (QUpdate 40001 ((claimed 10 ''u1'' ''w1'' (demoTask ''a''))\<lparr>tkState := COMPLETED\<rparr>))
      (tkTenantId ?task, tkId ?task) ''u1''"
    by code_simp
  from redis_lease_fenced [OF demoClaimed_reach out _ _ _ this, of "[]"] show ?thesis
    unfolding Let_def by simp
qed



end
