(* ===== verification/RedisUrls.thy ===== *)
theory RedisUrls
  imports RedisQueueSpec
begin

text \<open>
  The URL claims of the Redis adapter keep the contract \<open>url_claims\<close>; its keys keep tenants and
  shards apart and the keys of one script on one hash slot; the limits it runs with.
\<close>

section \<open>URL claims\<close>

fun redisUrlStep :: "redisConfig \<Rightarrow> redisDb urlStep" where
  "redisUrlStep cfg (UClaim now urls ttl tn) = redisClaimUrls cfg now urls ttl tn"
| "redisUrlStep cfg (URelease urls tn) = act_then (redisReleaseUrls cfg urls tn) (act_return True)"
| "redisUrlStep cfg (UMark now url ttl tn) = act_then (redisMarkUrlSeen cfg now url ttl tn) (act_return True)"
| "redisUrlStep cfg (USeen now url tn) = redisIsUrlSeen cfg now url tn"

definition redisExpiry :: "redisConfig \<Rightarrow> redisDb \<Rightarrow> string \<Rightarrow> string \<Rightarrow> int option" where
  "redisExpiry cfg s t u = zscore (seenKey cfg t) u s"

lemma seenKey_inj:
  "TENANT_ID_PATTERN a \<Longrightarrow> TENANT_ID_PATTERN b \<Longrightarrow> seenKey cfg a = seenKey cfg b \<longleftrightarrow> a = b"
  using metaTag_inj [of a b "'':seen_urls''" "'':seen_urls''"] by (simp add: seenKey_def)

lemma map_of_filter_first: "map_of m k = Some v \<Longrightarrow> P (k, v) \<Longrightarrow> map_of (filter P m) k = Some v"
  by (induction m) (auto split: if_splits)

lemma zscore_zremUpto:
  "zscore k x s = Some e \<Longrightarrow> now < e \<Longrightarrow> zscore k x (zremUpto k' now s) = Some e"
  by (auto simp: zscore_def zremUpto_def redis_simps map_of_filter_first)

lemma zscore_zremUpto_other: "k \<noteq> k' \<Longrightarrow> zscore k x (zremUpto k' now s) = zscore k x s"
  by (simp add: zscore_def zremUpto_def redis_simps)

lemma zscore_fold_zadd:
  "zscore k x (fold (zadd k' sc) xs s) = (if k = k' \<and> x \<in> set xs then Some sc else zscore k x s)"
  by (induction xs arbitrary: s) (auto simp: redis_simps)

lemma zscore_fold_zrem:
  "zscore k x (fold (zrem k') xs s) = (if k = k' \<and> x \<in> set xs then None else zscore k x s)"
  by (induction xs arbitrary: s) (auto simp: redis_simps)

lemma claimed_zremUpto:
  "claimedUntil (zscore k x s) e \<Longrightarrow> now < e \<Longrightarrow> claimedUntil (zscore k x (zremUpto k' now s)) e"
  using zscore_zremUpto by (fastforce simp: claimedUntil_def)

lemma redisClaimUrls_eq:
  "redisClaimUrls cfg now urls ttl tn s =
     (if urls = [] \<or> ttl \<le> 0 then (Inr False, s)
      else (case normalizeTenantId tn of
              Inl e \<Rightarrow> (Inl e, s)
            | Inr t \<Rightarrow>
                let s1 = zremUpto (seenKey cfg t) now s in
                if \<exists>u\<in>set urls. redisExpiry cfg s1 t u \<noteq> None then (Inr False, s1)
                else (Inr True, fold (zadd (seenKey cfg t) (now + ttl * 1000)) urls s1)))"
  by (simp add: redisClaimUrls_def claimScript_def redisExpiry_def act_defs Let_def list_ex_iff split: sum.splits)

interpretation redUrls: url_claims "redisUrlStep cfg" "redisExpiry cfg" for cfg
proof
  fix now urls ttl tn s s' t u
  assume "redisUrlStep cfg (UClaim now urls ttl tn) s = (Inr True, s')"
    and "normalizeTenantId tn = Inr t" and "u \<in> set urls"
  then show "redisExpiry cfg s' t u = Some (now + ttl * 1000)"
    by (auto simp: redisClaimUrls_eq redisExpiry_def zscore_fold_zadd Let_def split: if_splits)
next
  fix s t u e now tn urls ttl
  assume held: "claimedUntil (redisExpiry cfg s t u) e" "now < e"
    and t: "normalizeTenantId tn = Inr t" and u: "u \<in> set urls"
  have "redisExpiry cfg (zremUpto (seenKey cfg t) now s) t u \<noteq> None"
    using claimed_zremUpto [of "seenKey cfg t" u s e now] held by (auto simp: redisExpiry_def claimedUntil_def)
  with t u show "fst (redisUrlStep cfg (UClaim now urls ttl tn) s) = Inr False"
    by (auto simp: redisClaimUrls_eq Let_def)
next
  fix t s u e c
  assume t: "TENANT_ID_PATTERN t" and held: "claimedUntil (redisExpiry cfg s t u) e" and keeps: "keepsClaim t u e c"
  have other: "seenKey cfg t \<noteq> seenKey cfg t'" if "normalizeTenantId tn = Inr t'" "normalizeTenantId tn \<noteq> Inr t" for tn t'
    using that t normalizeTenantId_pattern [OF that(1)] by (simp add: seenKey_inj)
  show "claimedUntil (redisExpiry cfg (snd (redisUrlStep cfg c s)) t u) e"
  proof (cases c)
    case (UClaim now urls ttl tn)
    with keeps have now: "now < e" by simp
    show ?thesis
    proof (cases "normalizeTenantId tn")
      case (Inl f)
      with UClaim held show ?thesis by (simp add: redisClaimUrls_eq)
    next
      case (Inr t')
      have kept: "claimedUntil (redisExpiry cfg (zremUpto (seenKey cfg t') now s) t u) e"
        using claimed_zremUpto [OF _ now] held by (simp add: redisExpiry_def)
      have "\<not> (seenKey cfg t = seenKey cfg t' \<and> u \<in> set urls)"
        if "\<forall>u\<in>set urls. redisExpiry cfg (zremUpto (seenKey cfg t') now s) t' u = None"
        using that kept by (auto simp: redisExpiry_def claimedUntil_def)
      with UClaim Inr held kept show ?thesis
        by (auto simp: redisClaimUrls_eq redisExpiry_def zscore_fold_zadd Let_def)
    qed
  next
    case (URelease urls tn)
    with held keeps other show ?thesis
      by (cases "normalizeTenantId tn")
         (auto simp: redisReleaseUrls_def act_defs redisExpiry_def zscore_fold_zrem)
  next
    case (UMark now url ttl tn)
    with held keeps other show ?thesis
      by (cases "normalizeTenantId tn")
         (auto simp: redisMarkUrlSeen_def act_defs redisExpiry_def redis_simps claimedUntil_def)
  next
    case (USeen now url tn)
    with held keeps show ?thesis
      by (cases "normalizeTenantId tn")
         (auto simp: redisIsUrlSeen_def act_defs redisExpiry_def claimed_zremUpto)
  qed
qed

section \<open>Properties\<close>

text \<open>URL claims of the Redis adapter are exclusive: once a batch is claimed, every later
  claim of the same tenant that shares a URL with it is refused until the claim expires, as
  long as nobody releases the URL or marks it for less long; and a refused claim adds no
  claim for any of its URLs.\<close>

lemma redis_url_claims_exclusive:
  assumes "redisClaimUrls cfg now urls ttl tn s = (Inr won, s')" and "normalizeTenantId tn = Inr t"
  shows "(\<not> won \<longrightarrow> (\<forall>u e. redisExpiry cfg s' t u = Some e \<longrightarrow> (u, e) \<in> set (zsetAt (seenKey cfg t) s)))
    \<and> (won \<longrightarrow> (\<forall>u\<in>set urls. redisExpiry cfg s' t u = Some (now + ttl * 1000)
        \<and> (\<forall>cs urls' ttl' now' tn'.
          (\<forall>c\<in>set cs. keepsClaim t u (now + ttl * 1000) c)
          \<and> normalizeTenantId tn' = Inr t \<and> u \<in> set urls' \<and> now' < now + ttl * 1000
          \<longrightarrow> fst (redisClaimUrls cfg now' urls' ttl' tn' (urlRun (redisUrlStep cfg) cs s')) = Inr False)))"
proof (intro conjI impI ballI allI)
  fix u e
  assume "\<not> won" "redisExpiry cfg s' t u = Some e"
  with assms show "(u, e) \<in> set (zsetAt (seenKey cfg t) s)"
    by (auto simp: redisClaimUrls_eq redisExpiry_def zscore_def zremUpto_def redis_simps Let_def
        dest!: map_of_SomeD split: if_splits)
next
  fix u
  assume "won" "u \<in> set urls"
  with redUrls.claim_wins [of cfg now urls ttl tn s s' t u] assms
  show "redisExpiry cfg s' t u = Some (now + ttl * 1000)" by simp
next
  fix u cs urls' ttl' now' tn'
  assume "won" "u \<in> set urls" "(\<forall>c\<in>set cs. keepsClaim t u (now + ttl * 1000) c)
      \<and> normalizeTenantId tn' = Inr t \<and> u \<in> set urls' \<and> now' < now + ttl * 1000"
  with redUrls.claim_exclusive [of cfg now urls ttl tn s s' t u cs tn' urls' now' ttl'] assms
  show "fst (redisClaimUrls cfg now' urls' ttl' tn' (urlRun (redisUrlStep cfg) cs s')) = Inr False" by simp
qed

definition urlConfig :: redisConfig where
  "urlConfig = \<lparr>rcPrefix = ''q:'', rcTaskTtlSeconds = 60, rcLeaseSeconds = 30, rcShardCount = 4\<rparr>"

lemma redis_url_claims_exclusive_witness:
  "fst (redisClaimUrls urlConfig 0 [''a'', ''b''] 60 None newRedisDb) = Inr True
   \<and> redisExpiry urlConfig (snd (redisClaimUrls urlConfig 0 [''a'', ''b''] 60 None newRedisDb)) ''default'' ''b''
      = Some 60000"
proof -
  let ?out = "redisClaimUrls urlConfig 0 [''a'', ''b''] 60 None newRedisDb"
  have reply: "fst ?out = Inr True" by code_simp
  then have out: "?out = (Inr True, snd ?out)" by (metis prod.collapse)
  have t: "normalizeTenantId None = Inr ''default''" by code_simp
  from reply conjunct2 [OF redis_url_claims_exclusive [OF out t]] show ?thesis by simp
qed

text \<open>The keys of the Redis adapter: the task, pending and processing keys of one tenant and
  shard share one Redis Cluster hash tag (for a prefix without an opening brace), so a script
  stays on one slot; the task keys of different tenants, shards or identifiers differ, and no
  key of one family is a key of another.\<close>

lemma redis_keys_isolate:
  assumes "configOk cfg" and "TENANT_ID_PATTERN a" and "TENANT_ID_PATTERN b"
  shows "(redisTaskKey cfg a x i = redisTaskKey cfg b y j
          \<longleftrightarrow> a = b \<and> normalizeShard cfg x = normalizeShard cfg y \<and> i = j)
    \<and> (pendingKey cfg a x = pendingKey cfg b y \<longleftrightarrow> a = b \<and> normalizeShard cfg x = normalizeShard cfg y)
    \<and> (processingKey cfg a x = processingKey cfg b y \<longleftrightarrow> a = b \<and> normalizeShard cfg x = normalizeShard cfg y)
    \<and> distinct [redisTaskKey cfg a x i, pendingKey cfg b y, processingKey cfg b y, seenKey cfg a, workerKey cfg b j]
    \<and> (CHR ''{'' \<notin> set (rcPrefix cfg) \<longrightarrow>
         hashTag (redisTaskKey cfg a x i) = hashTag (pendingKey cfg a x)
       \<and> hashTag (processingKey cfg a x) = hashTag (pendingKey cfg a x)
       \<and> (hashTag (pendingKey cfg a x) = hashTag (pendingKey cfg b y)
           \<longleftrightarrow> a = b \<and> normalizeShard cfg x = normalizeShard cfg y))"
proof -
  have tags: "hashTag (rcPrefix cfg @ shardTag cfg t sh @ rest) = ''t:'' @ t @ '':s:'' @ showDec (nat (normalizeShard cfg sh))"
    if "CHR ''{'' \<notin> set (rcPrefix cfg)" "TENANT_ID_PATTERN t" for t sh rest
    using shard_hashTag [OF that] .
  have same: "''t:'' @ a @ '':s:'' @ showDec (nat (normalizeShard cfg x)) = ''t:'' @ b @ '':s:'' @ showDec (nat (normalizeShard cfg y))
      \<longleftrightarrow> a = b \<and> normalizeShard cfg x = normalizeShard cfg y"
    using assms normalizeShard_range [OF assms(1), of x] normalizeShard_range [OF assms(1), of y]
    by (simp add: sep_split tenant_not_sep showDec_inj nat_eq_iff)
  note meta = shardTag_metaTag [OF assms(2,2)] shardTag_metaTag [OF assms(2,3)] shardTag_metaTag [OF assms(3,2)]
    shardTag_metaTag [OF assms(3,3)]
  have "distinct [redisTaskKey cfg a x i, pendingKey cfg b y, processingKey cfg b y, seenKey cfg a, workerKey cfg b j]"
    using assms meta meta [symmetric] metaTag_inj [of a b "'':seen_urls''" "'':worker:'' @ j"]
    by (auto simp: redisKey_defs shardTag_inj)
  then show ?thesis
    using redisTaskKey_inj [OF assms] pendingKey_inj [OF assms] processingKey_inj [OF assms] tags assms same
    by (simp add: redisKey_defs)
qed

lemma redis_keys_isolate_witness:
  "redisTaskKey urlConfig ''acme'' 1 ''x'' \<noteq> redisTaskKey urlConfig ''beta'' 1 ''x''"
proof -
  have "configOk urlConfig" "TENANT_ID_PATTERN ''acme''" "TENANT_ID_PATTERN ''beta''"
    by (simp add: configOk_def urlConfig_def) code_simp+
  from conjunct1 [OF redis_keys_isolate [OF this]] show ?thesis by simp
qed

end
