(* ===== verification/QueueAdapter.thy ===== *)
theory QueueAdapter
  imports MemoryQueueSpec RedisLeases
begin

text \<open>
  The interface \<open>TaskQueueAdapter\<close> of \<open>distributed/queue-adapter.ts\<close> as a record of methods, and
  the two adapters of the repository as its values.  The scheduler and the worker are stated
  for any adapter.  A method takes the clock reading it makes, a dequeue also the UUID it
  draws.
\<close>

record 'q queueAdapter =
  adShardCount :: int
  adLeaseDurationMs :: int
  adEnqueueTask :: "int \<Rightarrow> taskRecord \<Rightarrow> ('q, taskError, unit) act"
  adEnqueueBatch :: "int \<Rightarrow> taskRecord list \<Rightarrow> ('q, taskError, unit) act"
  adDequeueTask :: "int \<Rightarrow> string \<Rightarrow> string \<Rightarrow> string option \<Rightarrow> int \<Rightarrow> ('q, taskError, taskRecord option) act"
  adUpdateTask :: "int \<Rightarrow> taskRecord \<Rightarrow> ('q, taskError, unit) act"
  adRenewTaskLease :: "int \<Rightarrow> taskRecord \<Rightarrow> ('q, taskError, bool) act"
  adGetTask :: "string \<Rightarrow> string option \<Rightarrow> ('q, taskError, taskRecord option) act"
  adListTasks :: "int \<Rightarrow> string option \<Rightarrow> taskListFilter option \<Rightarrow> ('q, taskError, taskRecord list) act"
  adUpdateWorkerHeartbeat :: "int \<Rightarrow> workerInfo \<Rightarrow> ('q, taskError, unit) act"
  adListWorkers :: "string option \<Rightarrow> ('q, taskError, workerInfo list) act"
  adIsUrlSeen :: "int \<Rightarrow> string \<Rightarrow> string option \<Rightarrow> ('q, taskError, bool) act"
  adClaimUrls :: "int \<Rightarrow> string list \<Rightarrow> int \<Rightarrow> string option \<Rightarrow> ('q, taskError, bool) act"
  adReleaseUrls :: "string list \<Rightarrow> string option \<Rightarrow> ('q, taskError, unit) act"
  adMarkUrlSeen :: "int \<Rightarrow> string \<Rightarrow> int \<Rightarrow> string option \<Rightarrow> ('q, taskError, unit) act"
  adClose :: "('q, taskError, unit) act"

definition memoryAdapter :: "memoryQueue queueAdapter" where
  "memoryAdapter =
     \<lparr>adShardCount = 1, adLeaseDurationMs = 300000,
      adEnqueueTask = (\<lambda>now. memEnqueueTask), adEnqueueBatch = (\<lambda>now. memEnqueueBatch),
      adDequeueTask = (\<lambda>now uuid w t sh. memDequeueTask now uuid w t),
      adUpdateTask = (\<lambda>now. memUpdateTask), adRenewTaskLease = (\<lambda>now. memRenewTaskLease),
      adGetTask = memGetTask, adListTasks = memListTasks,
      adUpdateWorkerHeartbeat = memUpdateWorkerHeartbeat, adListWorkers = memListWorkers,
      adIsUrlSeen = memIsUrlSeen, adClaimUrls = memClaimUrls, adReleaseUrls = memReleaseUrls,
      adMarkUrlSeen = memMarkUrlSeen, adClose = memClose\<rparr>"

definition redisAdapter :: "redisConfig \<Rightarrow> (string \<Rightarrow> scanReplies) \<Rightarrow> redisDb queueAdapter" where
  "redisAdapter cfg scan =
     \<lparr>adShardCount = rcShardCount cfg, adLeaseDurationMs = leaseDurationMs cfg,
      adEnqueueTask = redisEnqueueTask cfg, adEnqueueBatch = redisEnqueueBatch cfg,
      adDequeueTask = redisDequeueTask cfg, adUpdateTask = redisUpdateTask cfg,
      adRenewTaskLease = redisRenewTaskLease cfg, adGetTask = redisGetTask cfg,
      adListTasks = (\<lambda>limit. redisListTasks cfg scan (JFin (of_int limit))),
      adUpdateWorkerHeartbeat = redisUpdateWorkerHeartbeat cfg, adListWorkers = redisListWorkers cfg scan,
      adIsUrlSeen = redisIsUrlSeen cfg, adClaimUrls = redisClaimUrls cfg,
      adReleaseUrls = redisReleaseUrls cfg, adMarkUrlSeen = redisMarkUrlSeen cfg,
      adClose = act_return ()\<rparr>"

text \<open>Which adapter the scheduler and the worker use.\<close>

datatype adapterChoice = GivenAdapter | NewRedisAdapter | NewMemoryAdapter

definition chooseAdapter ::
  "bool \<Rightarrow> string option \<Rightarrow> string list option \<Rightarrow> string option \<Rightarrow> string option \<Rightarrow> string option \<Rightarrow> adapterChoice" where
  "chooseAdapter given redisUrl redisClusterNodes redisMode envRedisUrl envRedisClusterNodes =
     (if given then GivenAdapter
      else if nonEmpty redisUrl \<noteq> None \<or> redisClusterNodes \<noteq> None \<or> redisMode \<noteq> None
              \<or> nonEmpty envRedisUrl \<noteq> None \<or> nonEmpty envRedisClusterNodes \<noteq> None
      then NewRedisAdapter else NewMemoryAdapter)"

end
