(* ===== verification/Scheduler.thy ===== *)
theory Scheduler
  imports QueueAdapter
begin

text \<open>
  \<open>DistributedMasterScheduler\<close> of \<open>distributed/scheduler.ts\<close> over the interface
  \<open>TaskQueueAdapter\<close>: an adapter is a record of its methods, so every operation is stated for
  any adapter, and the two adapters of the repository are values of the record.

  The clock, the source of UUIDs and the URL policy are parameters that answer by the number
  of the reading; the world counts the readings.
\<close>

section \<open>The world\<close>

record 'q world =
  wQueue :: 'q
  wReads :: nat
  wUuids :: nat
  wChecks :: nat

text \<open>What the URL policy answers: a URL, an object with or without \<open>allowed\<close>, another value.\<close>

datatype urlDecision =
    DecisionUrl string
  | DecisionObject "jsval option"
  | DecisionValue jsval

record 'q schedulerEnv =
  seAdapter :: "'q queueAdapter"
  sePolicy :: "(nat \<Rightarrow> string \<Rightarrow> taskError + urlDecision) option"
  seClock :: "nat \<Rightarrow> int"
  seUuid :: "nat \<Rightarrow> string"

type_synonym ('q, 'a) worldAct = "('q world, taskError, 'a) act"

definition readClock :: "'q schedulerEnv \<Rightarrow> ('q, int) worldAct" where
  "readClock env = (\<lambda>w. (Inr (seClock env (wReads w)), w\<lparr>wReads := Suc (wReads w)\<rparr>))"

definition freshUuid :: "'q schedulerEnv \<Rightarrow> ('q, string) worldAct" where
  "freshUuid env = (\<lambda>w. (Inr (seUuid env (wUuids w)), w\<lparr>wUuids := Suc (wUuids w)\<rparr>))"

definition onQueue :: "('q, taskError, 'a) act \<Rightarrow> ('q, 'a) worldAct" where
  "onQueue m = (\<lambda>w. let (r, q) = m (wQueue w) in (r, w\<lparr>wQueue := q\<rparr>))"

section \<open>Validation\<close>

record taskDefinition =
  tdTaskId :: "string option"
  tdProjectId :: "string option"
  tdRunId :: "string option"
  tdUrl :: string
  tdMode :: jsval
  tdPriority :: jsval
  tdExtractionSchema :: "jsval option"
  tdMaxRetries :: "jsnum option"
  tdTimeoutMs :: "jsnum option"

definition isTaskIdChar :: "char \<Rightarrow> bool" where
  "isTaskIdChar c \<longleftrightarrow> isAlnum c \<or> c = CHR ''_'' \<or> c = CHR ''-''"

text \<open>\<open>/^[A-Za-z0-9_-]{1,128}$/\<close>\<close>

definition TASK_ID_PATTERN :: "string \<Rightarrow> bool" where
  "TASK_ID_PATTERN s \<longleftrightarrow> 1 \<le> length s \<and> length s \<le> 128 \<and> list_all isTaskIdChar s"

definition taskId :: "'q schedulerEnv \<Rightarrow> string option \<Rightarrow> ('q, string) worldAct" where
  "taskId env value =
     (case value of
        None \<Rightarrow> act_bind (freshUuid env) (\<lambda>u. act_return (''task_'' @ take 12 (filter (\<lambda>c. c \<noteq> CHR ''-'') u)))
      | Some v \<Rightarrow>
          if \<not> TASK_ID_PATTERN v
          then act_throw (ToolError E_INVALID_ARGUMENT ''taskId contains invalid characters.'' (Some ''invalid-task-id''))
          else act_return v)"

definition taskLabel :: "string option \<Rightarrow> string \<Rightarrow> taskError + string option" where
  "taskLabel value name =
     (case value of
        None \<Rightarrow> Inr None
      | Some v \<Rightarrow>
          if \<not> TENANT_ID_PATTERN v
          then Inl (ToolError E_INVALID_ARGUMENT (name @ '' contains invalid characters.'') (Some (''invalid-'' @ name)))
          else Inr (Some v))"

definition taskMode :: "jsval \<Rightarrow> taskError + taskMode" where
  "taskMode value =
     (if value = JUndef \<or> value = JStr ''fetch'' then Inr Mode_fetch
      else if value = JStr ''browser'' then Inr Mode_browser
      else Inl (ToolError E_INVALID_ARGUMENT ''Task mode is invalid.'' None))"

definition taskPriority :: "jsval \<Rightarrow> taskError + taskPriority" where
  "taskPriority value =
     (if value = JUndef \<or> value = JStr ''NORMAL'' then Inr P_NORMAL
      else if value = JStr ''LOW'' then Inr P_LOW
      else if value = JStr ''HIGH'' then Inr P_HIGH
      else if value = JStr ''CRITICAL'' then Inr P_CRITICAL
      else Inl (ToolError E_INVALID_ARGUMENT ''Task priority is invalid.'' None))"

fun maxRetries :: "jsnum option \<Rightarrow> taskError + int" where
  "maxRetries None = Inr 3"
| "maxRetries (Some (JFin q)) = Inr (max 0 (min 10 \<lfloor>q\<rfloor>))"
| "maxRetries (Some v) = Inl (ToolError E_INVALID_ARGUMENT ''maxRetries is invalid.'' None)"

fun timeoutMs :: "jsnum option \<Rightarrow> taskError + int" where
  "timeoutMs None = Inr 30000"
| "timeoutMs (Some (JFin q)) = Inr (max 1000 (min 120000 \<lfloor>q\<rfloor>))"
| "timeoutMs (Some v) = Inl (ToolError E_INVALID_ARGUMENT ''timeoutMs is invalid.'' None)"

definition deniedDecision :: "urlDecision \<Rightarrow> bool" where
  "deniedDecision d =
     (case d of
        DecisionUrl u \<Rightarrow> False
      | DecisionObject a \<Rightarrow> (case a of None \<Rightarrow> False | Some v \<Rightarrow> \<not> truthy v)
      | DecisionValue v \<Rightarrow> v = JBool False)"

text \<open>One consultation of the policy.\<close>

definition askPolicy ::
  "(nat \<Rightarrow> string \<Rightarrow> taskError + urlDecision) \<Rightarrow> string \<Rightarrow> ('q, urlDecision) worldAct" where
  "askPolicy policy url = (\<lambda>w. (policy (wChecks w) url, w\<lparr>wChecks := Suc (wChecks w)\<rparr>))"

definition assertTaskUrl :: "'q schedulerEnv \<Rightarrow> string \<Rightarrow> ('q, string) worldAct" where
  "assertTaskUrl env url =
     (case sePolicy env of
        None \<Rightarrow> act_throw (ToolError E_POLICY_DENIED ''A server URL policy is required for cluster tasks.''
                   (Some ''missing-url-policy''))
      | Some policy \<Rightarrow>
          act_bind (askPolicy policy url) (\<lambda>decision.
            if deniedDecision decision
            then act_throw (ToolError E_POLICY_DENIED ''The cluster task URL is outside the approved URL policy.''
                    (Some ''url-not-allowed''))
            else act_return (case decision of DecisionUrl u \<Rightarrow> u | _ \<Rightarrow> url)))"

definition schedClaimUrls :: "'q schedulerEnv \<Rightarrow> string list \<Rightarrow> string \<Rightarrow> ('q, unit) worldAct" where
  "schedClaimUrls env urls tenantId =
     act_bind (readClock env) (\<lambda>now.
     act_bind (onQueue (adClaimUrls (seAdapter env) now urls DEFAULT_URL_TTL_SECONDS (Some tenantId))) (\<lambda>ok.
       act_throwIf (\<not> ok) (ToolError E_INVALID_ARGUMENT ''The URL has already been processed.''
         (Some ''duplicate-url''))))"

definition compensateUrlClaim ::
  "'q schedulerEnv \<Rightarrow> string list \<Rightarrow> string \<Rightarrow> taskError \<Rightarrow> ('q, unit) worldAct" where
  "compensateUrlClaim env urls tenantId enqueueError =
     act_then
       (act_catch (onQueue (adReleaseUrls (seAdapter env) urls (Some tenantId)))
         (\<lambda>releaseError. act_throw (AggregateError [enqueueError, releaseError]
            ''Task enqueue failed and URL claim compensation also failed.'')))
       (act_throw enqueueError)"

section \<open>Submission\<close>

text \<open>The parts of a definition that do not consult the policy.\<close>

record normalizedDef =
  ndId :: string
  ndProjectId :: "string option"
  ndRunId :: "string option"
  ndMode :: taskMode
  ndPriority :: taskPriority
  ndMaxRetries :: int
  ndTimeoutMs :: int

definition normalizeDef :: "'q schedulerEnv \<Rightarrow> taskDefinition \<Rightarrow> ('q, normalizedDef) worldAct" where
  "normalizeDef env def =
     act_bind (taskId env (tdTaskId def)) (\<lambda>i.
     act_bind (act_lift (taskLabel (tdProjectId def) ''projectId'')) (\<lambda>project.
     act_bind (act_lift (taskLabel (tdRunId def) ''runId'')) (\<lambda>run.
     act_bind (act_lift (taskMode (tdMode def))) (\<lambda>mode.
     act_bind (act_lift (taskPriority (tdPriority def))) (\<lambda>priority.
     act_bind (act_lift (maxRetries (tdMaxRetries def))) (\<lambda>retries.
     act_bind (act_lift (timeoutMs (tdTimeoutMs def))) (\<lambda>timeout.
       act_return \<lparr>ndId = i, ndProjectId = project, ndRunId = run, ndMode = mode,
                   ndPriority = priority, ndMaxRetries = retries, ndTimeoutMs = timeout\<rparr>)))))))"

definition newRecord ::
  "string \<Rightarrow> taskDefinition \<Rightarrow> normalizedDef \<Rightarrow> string \<Rightarrow> int \<Rightarrow> int \<Rightarrow> taskRecord" where
  "newRecord tenantId def nd url createdAt queuedAt =
     \<lparr>tkId = ndId nd, tkTenantId = tenantId, tkProjectId = nonEmpty (ndProjectId nd),
      tkRunId = nonEmpty (ndRunId nd), tkUrl = url, tkMode = ndMode nd, tkPriority = ndPriority nd,
      tkState = PENDING, tkRetries = 0, tkMaxRetries = ndMaxRetries nd, tkWorkerId = None,
      tkLeaseId = None, tkSessionId = None, tkExtractionSchema = tdExtractionSchema def,
      tkTimeoutMs = ndTimeoutMs nd, tkCreatedAt = createdAt, tkStartedAt = None, tkCompletedAt = None,
      tkResult = None, tkError = None, tkErrorCode = None, tkDurationMs = None,
      tkEvents = Some [\<lparr>evAt = queuedAt, evState = PENDING, evPhase = Ph_queued, evMessage = MsgQueued,
                        evWorkerId = None\<rparr>]\<rparr>"

definition readRecord ::
  "'q schedulerEnv \<Rightarrow> string \<Rightarrow> taskDefinition \<Rightarrow> normalizedDef \<Rightarrow> string \<Rightarrow> ('q, taskRecord) worldAct" where
  "readRecord env tenantId def nd url =
     act_bind (readClock env) (\<lambda>created. act_bind (readClock env) (\<lambda>queued.
       act_return (newRecord tenantId def nd url created queued)))"

definition submitTask :: "'q schedulerEnv \<Rightarrow> taskDefinition \<Rightarrow> string option \<Rightarrow> ('q, taskRecord) worldAct" where
  "submitTask env def tenantId =
     act_bind (act_lift (normalizeTenantId tenantId)) (\<lambda>t.
     act_bind (normalizeDef env def) (\<lambda>nd.
     act_bind (assertTaskUrl env (tdUrl def)) (\<lambda>url.
     act_then (schedClaimUrls env [url] t)
    (act_bind (readRecord env t def nd url) (\<lambda>record.
     act_bind (readClock env) (\<lambda>now.
     act_then (act_catch (onQueue (adEnqueueTask (seAdapter env) now record))
                (compensateUrlClaim env [url] t))
              (act_return record)))))))"

primrec mapAct :: "('a \<Rightarrow> ('s, 'e, 'b) act) \<Rightarrow> 'a list \<Rightarrow> ('s, 'e, 'b list) act" where
  "mapAct f [] = act_return []"
| "mapAct f (x # xs) = act_bind (f x) (\<lambda>y. act_bind (mapAct f xs) (\<lambda>ys. act_return (y # ys)))"

text \<open>
  \<open>submitBatch\<close>.  The policy is asked for all URLs at once; the model asks in the order of
  the batch and reports the first refusal.
\<close>

definition submitBatch ::
  "'q schedulerEnv \<Rightarrow> taskDefinition list \<Rightarrow> string option \<Rightarrow> ('q, taskRecord list) worldAct" where
  "submitBatch env defs tenantId =
     act_bind (act_lift (normalizeTenantId tenantId)) (\<lambda>t.
     act_then (act_throwIf (length defs < 1 \<or> 500 < length defs)
       (ToolError E_INVALID_ARGUMENT ''A task batch must contain between 1 and 500 tasks.''
          (Some ''batch-size-out-of-range'')))
    (act_bind (mapAct (normalizeDef env) defs) (\<lambda>normalized.
     act_then (act_throwIf (\<not> distinct (map ndId normalized))
       (ToolError E_INVALID_ARGUMENT ''A batch contains duplicate task IDs.''
          (Some ''duplicate-task-id-in-batch'')))
    (act_bind (mapAct (\<lambda>def. assertTaskUrl env (tdUrl def)) defs) (\<lambda>approvedUrls.
     act_then (act_throwIf (\<not> distinct approvedUrls)
       (ToolError E_INVALID_ARGUMENT ''A batch contains duplicate URLs.'' (Some ''duplicate-url-in-batch'')))
    (act_then (schedClaimUrls env approvedUrls t)
    (act_bind (mapAct (\<lambda>(def, nd, url). readRecord env t def nd url) (zip defs (zip normalized approvedUrls)))
       (\<lambda>records.
     act_bind (readClock env) (\<lambda>now.
     act_then (act_catch (onQueue (adEnqueueBatch (seAdapter env) now records))
                (compensateUrlClaim env approvedUrls t))
              (act_return records))))))))))"

section \<open>Operations on submitted tasks\<close>

definition registerWorker :: "'q schedulerEnv \<Rightarrow> workerInfo \<Rightarrow> ('q, unit) worldAct" where
  "registerWorker env worker =
     act_bind (act_lift (normalizeTenantId (Some (wkTenantId worker)))) (\<lambda>t.
     act_bind (readClock env) (\<lambda>now.
       onQueue (adUpdateWorkerHeartbeat (seAdapter env) now (worker\<lparr>wkTenantId := t\<rparr>))))"

definition schedGetTask :: "'q schedulerEnv \<Rightarrow> string \<Rightarrow> string option \<Rightarrow> ('q, taskRecord option) worldAct" where
  "schedGetTask env i tenantId =
     act_bind (act_lift (normalizeTenantId tenantId)) (\<lambda>t. onQueue (adGetTask (seAdapter env) i (Some t)))"

definition schedListTasks ::
  "'q schedulerEnv \<Rightarrow> taskListFilter \<Rightarrow> int \<Rightarrow> string option \<Rightarrow> ('q, taskRecord list) worldAct" where
  "schedListTasks env f limit tenantId =
     act_bind (act_lift (taskLabel (fProjectId f) ''projectId'')) (\<lambda>project.
     act_bind (act_lift (taskLabel (fRunId f) ''runId'')) (\<lambda>run.
     act_bind (act_lift (normalizeTenantId tenantId)) (\<lambda>t.
       onQueue (adListTasks (seAdapter env) limit (Some t) (Some (f\<lparr>fProjectId := project, fRunId := run\<rparr>))))))"

record urlPreflight =
  upAllowed :: bool
  upOrigin :: "string option"
  upPolicy :: string
  upReason :: string

text \<open>\<open>new URL(url).origin\<close> and the message of an \<open>Error\<close> are parameters.\<close>

definition preflightTaskUrl ::
  "(string \<Rightarrow> string option) \<Rightarrow> (taskError \<Rightarrow> string option) \<Rightarrow> 'q schedulerEnv \<Rightarrow> string \<Rightarrow> ('q, urlPreflight) worldAct" where
  "preflightTaskUrl origin messageOf env url =
     (case origin url of
        None \<Rightarrow> act_return \<lparr>upAllowed = False, upOrigin = None, upPolicy = ''deny'', upReason = ''invalid-url''\<rparr>
      | Some orig \<Rightarrow>
          (case sePolicy env of
             None \<Rightarrow> act_return \<lparr>upAllowed = False, upOrigin = Some orig, upPolicy = ''unavailable'',
                        upReason = ''missing-url-policy''\<rparr>
           | Some policy \<Rightarrow>
               act_catch
                 (act_bind (askPolicy policy url) (\<lambda>decision.
                    let allowed = \<not> deniedDecision decision in
                    act_return \<lparr>upAllowed = allowed, upOrigin = Some orig,
                      upPolicy = (if allowed then ''allow'' else ''deny''),
                      upReason = (if allowed then ''approved'' else ''url-not-allowed'')\<rparr>))
                 (\<lambda>e. act_return \<lparr>upAllowed = False, upOrigin = Some orig, upPolicy = ''deny'',
                         upReason = (case messageOf e of Some m \<Rightarrow> take 120 m | None \<Rightarrow> ''policy-denied'')\<rparr>)))"

definition cancelTask :: "'q schedulerEnv \<Rightarrow> string \<Rightarrow> string option \<Rightarrow> ('q, taskRecord) worldAct" where
  "cancelTask env i tenantId =
     act_bind (schedGetTask env i tenantId) (\<lambda>found.
       case found of
         None \<Rightarrow> act_throw (JsError ''TASK_NOT_FOUND'')
       | Some task \<Rightarrow>
           if tkState task = RUNNING then act_throw (JsError ''TASK_RUNNING'')
           else if tkState task = CANCELLED then act_return task
           else act_bind (readClock env) (\<lambda>done_at. act_bind (readClock env) (\<lambda>event_at. act_bind (readClock env) (\<lambda>now.
                  let updated = task\<lparr>tkState := CANCELLED, tkCompletedAt := Some done_at,
                        tkEvents := Some (appendTaskEvent event_at task Ph_cancelled MsgCancelled)\<rparr>
                  in act_then (onQueue (adUpdateTask (seAdapter env) now updated)) (act_return updated)))))"

definition retryTask :: "'q schedulerEnv \<Rightarrow> string \<Rightarrow> string option \<Rightarrow> ('q, taskRecord) worldAct" where
  "retryTask env i tenantId =
     act_bind (schedGetTask env i tenantId) (\<lambda>found.
       case found of
         None \<Rightarrow> act_throw (JsError ''TASK_NOT_FOUND'')
       | Some task \<Rightarrow>
           if tkState task \<noteq> FAILED \<and> tkState task \<noteq> CANCELLED then act_throw (JsError ''TASK_NOT_RETRYABLE'')
           else act_bind (readClock env) (\<lambda>event_at. act_bind (readClock env) (\<lambda>now.
                  let updated = task\<lparr>tkState := RETRYING, tkRetries := 0, tkCompletedAt := None,
                        tkError := None, tkErrorCode := None,
                        tkEvents := Some (appendTaskEvent event_at task Ph_retrying MsgRequeued)\<rparr>
                  in act_then (onQueue (adEnqueueTask (seAdapter env) now updated)) (act_return updated))))"

record clusterStatus =
  csTotalWorkers :: nat
  csHealthyWorkers :: nat
  csTotalCapacity :: int
  csActiveTasks :: int
  csQueuedTasks :: nat
  csCompletedTasks :: nat
  csFailedTasks :: nat

definition getClusterStatus :: "'q schedulerEnv \<Rightarrow> string option \<Rightarrow> ('q, clusterStatus) worldAct" where
  "getClusterStatus env tenantId =
     act_bind (act_lift (normalizeTenantId tenantId)) (\<lambda>t.
     act_bind (readClock env) (\<lambda>now.
     act_bind (onQueue (adListWorkers (seAdapter env) (Some t))) (\<lambda>workers.
     act_bind (onQueue (adListTasks (seAdapter env) 500 (Some t) None)) (\<lambda>tasks.
       let healthy = filter (\<lambda>w. wkHealthy w \<and> now - wkLastHeartbeat w < 60000) workers in
       act_return \<lparr>csTotalWorkers = length workers, csHealthyWorkers = length healthy,
         csTotalCapacity = sum_list (map wkCapacity healthy),
         csActiveTasks = sum_list (map wkActiveTasks healthy),
         csQueuedTasks = length (filter runnable tasks),
         csCompletedTasks = length (filter (\<lambda>x. tkState x = COMPLETED) tasks),
         csFailedTasks = length (filter (\<lambda>x. tkState x = FAILED) tasks)\<rparr>))))"

end
