(* ===== verification/SchedulerSpec.thy ===== *)
theory SchedulerSpec
  imports Scheduler
begin

text \<open>
  What the scheduler promises: an accepted submission is validated, approved by the policy,
  stored, queued and holds its URL; a refused one leaves nothing behind; cancelling and
  retrying follow the states of a task.
\<close>

section \<open>Actions of the world\<close>

lemma wp_readClock [wp_rules]:
  "wp (readClock env) Q E w = Q (seClock env (wReads w)) (w\<lparr>wReads := Suc (wReads w)\<rparr>)"
  by (simp add: wp_def readClock_def)

lemma wp_freshUuid [wp_rules]:
  "wp (freshUuid env) Q E w = Q (seUuid env (wUuids w)) (w\<lparr>wUuids := Suc (wUuids w)\<rparr>)"
  by (simp add: wp_def freshUuid_def)

lemma wp_onQueue [wp_rules]:
  "wp (onQueue m) Q E w = wp m (\<lambda>x q. Q x (w\<lparr>wQueue := q\<rparr>)) (\<lambda>e q. E e (w\<lparr>wQueue := q\<rparr>)) (wQueue w)"
  by (simp add: wp_def onQueue_def split: prod.splits sum.splits)

lemma wp_askPolicy [wp_rules]:
  "wp (askPolicy policy url) Q E w =
     (case policy (wChecks w) url of
        Inl e \<Rightarrow> E e (w\<lparr>wChecks := Suc (wChecks w)\<rparr>) | Inr d \<Rightarrow> Q d (w\<lparr>wChecks := Suc (wChecks w)\<rparr>))"
  by (simp add: wp_def askPolicy_def split: sum.splits)

lemma wp_known: "m s = (r, t) \<Longrightarrow> wp m Q E s = (case r of Inl e \<Rightarrow> E e t | Inr x \<Rightarrow> Q x t)"
  by (simp add: wp_def)

text \<open>Validation and the policy do not touch the queue.\<close>

definition decidedUrl :: "urlDecision \<Rightarrow> string \<Rightarrow> string" where
  "decidedUrl d url = (case d of DecisionUrl u \<Rightarrow> u | _ \<Rightarrow> url)"

definition approvedAs :: "'q schedulerEnv \<Rightarrow> string \<Rightarrow> string \<Rightarrow> bool" where
  "approvedAs env url url' \<longleftrightarrow>
     (\<exists>policy n d. sePolicy env = Some policy \<and> policy n url = Inr d \<and> \<not> deniedDecision d
        \<and> url' = decidedUrl d url)"

definition validDef :: "normalizedDef \<Rightarrow> bool" where
  "validDef nd \<longleftrightarrow> 0 \<le> ndMaxRetries nd \<and> ndMaxRetries nd \<le> 10 \<and> 1000 \<le> ndTimeoutMs nd
     \<and> ndTimeoutMs nd \<le> 120000
     \<and> (\<forall>p. ndProjectId nd = Some p \<longrightarrow> TENANT_ID_PATTERN p) \<and> (\<forall>r. ndRunId nd = Some r \<longrightarrow> TENANT_ID_PATTERN r)"

lemma maxRetries_range: "maxRetries v = Inr n \<Longrightarrow> 0 \<le> n \<and> n \<le> 10"
  by (cases v rule: maxRetries.cases) auto

lemma timeoutMs_range: "timeoutMs v = Inr n \<Longrightarrow> 1000 \<le> n \<and> n \<le> 120000"
  by (cases v rule: timeoutMs.cases) auto

lemma taskLabel_pattern: "taskLabel v name = Inr (Some p) \<Longrightarrow> TENANT_ID_PATTERN p"
  by (auto simp: taskLabel_def split: option.splits if_splits)

lemma taskId_wp:
  "wp (taskId env v) (\<lambda>i w'. wQueue w' = wQueue w \<and> (\<forall>x. v = Some x \<longrightarrow> i = x \<and> TASK_ID_PATTERN x))
     (\<lambda>e w'. wQueue w' = wQueue w) w"
  by (cases v) (simp_all add: taskId_def wp_rules)

lemma normalizeDef_wp:
  "wp (normalizeDef env def)
     (\<lambda>nd w'. wQueue w' = wQueue w \<and> validDef nd
        \<and> (\<forall>x. tdTaskId def = Some x \<longrightarrow> ndId nd = x \<and> TASK_ID_PATTERN x))
     (\<lambda>e w'. wQueue w' = wQueue w) w"
  unfolding normalizeDef_def wp_bind
  by (rule wp_mono [OF taskId_wp])
     (auto simp: wp_rules validDef_def maxRetries_range timeoutMs_range
        dest: taskLabel_pattern maxRetries_range timeoutMs_range split: sum.splits)

lemma assertTaskUrl_wp:
  "wp (assertTaskUrl env url) (\<lambda>u w'. wQueue w' = wQueue w \<and> approvedAs env url u)
     (\<lambda>e w'. wQueue w' = wQueue w) w"
  by (auto simp: assertTaskUrl_def wp_rules approvedAs_def decidedUrl_def split: option.splits sum.splits)

section \<open>Submitting to the memory adapter\<close>

text \<open>No task, queue entry or live URL claim was added.\<close>

definition nothingAdded :: "memoryQueue \<Rightarrow> memoryQueue \<Rightarrow> bool" where
  "nothingAdded q q' \<longleftrightarrow> mqTasks q' = mqTasks q \<and> mqPending q' = mqPending q \<and> mqWorkers q' = mqWorkers q
     \<and> (\<forall>t u e. TENANT_ID_PATTERN t \<longrightarrow> memExpiry q' t u = Some e \<longrightarrow> memExpiry q t u = Some e)"

lemma nothingAdded_refl [simp]: "nothingAdded q q"
  by (simp add: nothingAdded_def)

definition accepted :: "string \<Rightarrow> taskRecord \<Rightarrow> memoryQueue \<Rightarrow> bool" where
  "accepted t rec q \<longleftrightarrow> memTask q t (tkId rec) = Some rec \<and> taskKey t (tkId rec) \<in> set (mqPending q)
     \<and> memExpiry q t (tkUrl rec) \<noteq> None"

lemma memClaimUrls_fields:
  "memClaimUrls now urls ttl tn q = (r, q') \<Longrightarrow>
     mqTasks q' = mqTasks q \<and> mqPending q' = mqPending q \<and> mqWorkers q' = mqWorkers q
     \<and> (r \<noteq> Inr True \<longrightarrow> q' = q)"
  by (auto simp: memClaimUrls_eq split: if_splits sum.splits)

lemma memReleaseUrls_eq:
  "TENANT_ID_PATTERN t \<Longrightarrow> urls \<noteq> [] \<Longrightarrow>
     memReleaseUrls urls (Some t) q = (Inr (), q\<lparr>mqSeen := deleteAll (map (taskKey t) urls) (mqSeen q)\<rparr>)"
  by (simp add: memReleaseUrls_def act_defs normalizeTenantId_ok)

text \<open>A claim that is released again adds nothing.\<close>

lemma claim_release_nothing:
  assumes "TENANT_ID_PATTERN t" and "urls \<noteq> []" and "memClaimUrls now urls ttl (Some t) q = (Inr True, q1)"
  shows "nothingAdded q (q1\<lparr>mqSeen := deleteAll (map (taskKey t) urls) (mqSeen q1)\<rparr>)"
proof -
  have "mqTasks q1 = mqTasks q \<and> mqPending q1 = mqPending q \<and> mqWorkers q1 = mqWorkers q"
    using memClaimUrls_fields [OF assms(3)] by simp
  moreover have "memExpiry q t' u = Some e"
    if "TENANT_ID_PATTERN t'" "memExpiry (q1\<lparr>mqSeen := deleteAll (map (taskKey t) urls) (mqSeen q1)\<rparr>) t' u = Some e"
    for t' u e
  proof -
    have out: "taskKey t' u \<notin> taskKey t ` set urls" and q1: "memExpiry q1 t' u = Some e"
      using that(2) by (auto simp: memExpiry_def oget_deleteAll split: if_splits)
    from out have "\<not> (t' = t \<and> u \<in> set urls)" by auto
    then show ?thesis
      using memUrl_expiry(1) [OF that(1), of now urls ttl "Some t" q u] q1 assms(1,3) by auto
  qed
  ultimately show ?thesis by (simp add: nothingAdded_def)
qed

lemma memEnqueueTask_fails: "memEnqueueTask rec q = (Inl e, q') \<Longrightarrow> q' = q"
  by (auto simp: memEnqueueTask_eq storeTask_eq split: if_splits)

lemma memEnqueueTask_stores:
  assumes "memEnqueueTask rec q = (Inr u, q')" and "runnable rec"
  shows "memTask q' (tkTenantId rec) (tkId rec) = Some rec
    \<and> taskKey (tkTenantId rec) (tkId rec) \<in> set (mqPending q') \<and> mqSeen q' = mqSeen q"
  using assms
  by (auto simp: memEnqueueTask_eq storeTask_eq memTask_def omap_simps updatePending_def runnable_def
      List.member_iff split: if_splits)

lemma submit_wp:
  assumes "seAdapter env = memoryAdapter"
  shows "wp (submitTask env def tn)
    (\<lambda>rec w'. \<exists>t. normalizeTenantId tn = Inr t \<and> tkTenantId rec = t \<and> tkState rec = PENDING
       \<and> tkRetries rec = 0 \<and> tkLeaseId rec = None
       \<and> 0 \<le> tkMaxRetries rec \<and> tkMaxRetries rec \<le> 10 \<and> 1000 \<le> tkTimeoutMs rec \<and> tkTimeoutMs rec \<le> 120000
       \<and> (\<forall>x. tdTaskId def = Some x \<longrightarrow> tkId rec = x \<and> TASK_ID_PATTERN x)
       \<and> approvedAs env (tdUrl def) (tkUrl rec) \<and> accepted t rec (wQueue w'))
    (\<lambda>e w'. nothingAdded (wQueue w) (wQueue w')) w"
proof (cases "normalizeTenantId tn")
  case (Inl e)
  then show ?thesis by (simp add: submitTask_def wp_rules)
next
  case (Inr t)
  note pat = normalizeTenantId_pattern [OF Inr]
  let ?good = "\<lambda>rec w'. tkTenantId rec = t \<and> tkState rec = PENDING
       \<and> tkRetries rec = 0 \<and> tkLeaseId rec = None
       \<and> 0 \<le> tkMaxRetries rec \<and> tkMaxRetries rec \<le> 10 \<and> 1000 \<le> tkTimeoutMs rec \<and> tkTimeoutMs rec \<le> 120000
       \<and> (\<forall>x. tdTaskId def = Some x \<longrightarrow> tkId rec = x \<and> TASK_ID_PATTERN x)
       \<and> approvedAs env (tdUrl def) (tkUrl rec) \<and> accepted t rec (wQueue w')"
  have claim: "wp (act_then (schedClaimUrls env [url] t)
      (act_bind (readRecord env t def nd url) (\<lambda>record.
       act_bind (readClock env) (\<lambda>now.
       act_then (act_catch (onQueue (adEnqueueTask (seAdapter env) now record)) (compensateUrlClaim env [url] t))
         (act_return record)))))
      ?good (\<lambda>e w'. nothingAdded (wQueue w) (wQueue w')) w2"
    if nd: "validDef nd" "\<forall>x. tdTaskId def = Some x \<longrightarrow> ndId nd = x \<and> TASK_ID_PATTERN x"
      and url: "approvedAs env (tdUrl def) url" and same: "wQueue w2 = wQueue w" for nd url w2
  proof -
    let ?now = "seClock env (wReads w2)"
    obtain r q1 where c: "memClaimUrls ?now [url] DEFAULT_URL_TTL_SECONDS (Some t) (wQueue w) = (r, q1)"
      by fastforce
    let ?rec = "newRecord t def nd url (seClock env (Suc (wReads w2))) (seClock env (Suc (Suc (wReads w2))))"
    have rec: "runnable ?rec" "tkTenantId ?rec = t" "tkUrl ?rec = url"
      by (simp_all add: newRecord_def runnable_def)
    obtain r2 q2 where enq: "memEnqueueTask ?rec q1 = (r2, q2)" by fastforce
    show ?thesis
    proof (cases "r = Inr True")
      case False
      with memClaimUrls_fields [OF c] c same show ?thesis
        by (auto simp: schedClaimUrls_def wp_rules assms memoryAdapter_def wp_known c split: sum.splits)
    next
      case True
      note won = c [unfolded True]
      show ?thesis
      proof (cases r2)
        case (Inl e)
        then have "q2 = q1" using memEnqueueTask_fails enq by blast
        with won Inl enq same memReleaseUrls_eq [OF pat, of "[url]"] claim_release_nothing [OF pat _ won]
        show ?thesis
          by (simp add: schedClaimUrls_def readRecord_def compensateUrlClaim_def wp_rules assms memoryAdapter_def
              wp_known won enq)
      next
        case (Inr u)
        have "memExpiry q1 t url \<noteq> None"
          using memUrls.claim_wins [of ?now "[url]" DEFAULT_URL_TTL_SECONDS "Some t" "wQueue w" q1 t url] won pat
          by simp
        with memEnqueueTask_stores [OF enq [unfolded Inr] rec(1)] rec
        have "accepted t ?rec q2" by (simp add: accepted_def memExpiry_def)
        with won Inr enq same nd url show ?thesis
          by (simp add: schedClaimUrls_def readRecord_def wp_rules assms memoryAdapter_def wp_known won enq)
             (simp add: newRecord_def validDef_def)
      qed
    qed
  qed
  show ?thesis
    unfolding submitTask_def
    by (simp add: wp_rules Inr)
       (rule wp_mono [OF normalizeDef_wp], simp_all add: wp_rules, rule wp_mono [OF assertTaskUrl_wp],
        use claim in \<open>simp_all add: wp_rules\<close>)
qed

section \<open>Properties\<close>

definition demoEnv :: "'q queueAdapter \<Rightarrow> 'q schedulerEnv" where
  "demoEnv ad = \<lparr>seAdapter = ad, sePolicy = Some (\<lambda>n url. Inr (DecisionValue (JBool True))),
     seClock = int, seUuid = (\<lambda>n. ''00000000-0000-4000-8000-000000000000'')\<rparr>"

definition demoDef :: taskDefinition where
  "demoDef = \<lparr>tdTaskId = Some ''a'', tdProjectId = None, tdRunId = None, tdUrl = ''https://a.example/'',
     tdMode = JUndef, tdPriority = JStr ''HIGH'', tdExtractionSchema = None, tdMaxRetries = Some (JFin 99),
     tdTimeoutMs = None\<rparr>"

definition demoWorld :: "'q \<Rightarrow> 'q world" where
  "demoWorld q = \<lparr>wQueue = q, wReads = 0, wUuids = 0, wChecks = 0\<rparr>"



lemma schedGetTask_redis:
  assumes "normalizeTenantId tn = Inr t" and "redisTask cfg (wQueue w) t i = Some task"
    and "tkId task = i" and "tkTenantId task = t" and "seAdapter env = redisAdapter cfg scan"
  shows "schedGetTask env i tn w = (Inr (Some task), w)"
  using assms
  by (auto simp: schedGetTask_def act_defs onQueue_def redisAdapter_def redisGetTask_def redisTask_Some
      normalizeTenantId_ok)

lemma schedGetTask_memory:
  assumes "normalizeTenantId tn = Inr t" and "memTask (wQueue w) t i = Some task"
    and "seAdapter env = memoryAdapter"
  shows "schedGetTask env i tn w = (Inr (Some task), w)"
  using assms normalizeTenantId_pattern [OF assms(1)]
  by (auto simp: schedGetTask_def act_defs onQueue_def memoryAdapter_def memGetTask_def memTask_def
      normalizeTenantId_ok)

text \<open>Retrying a task that its worker reported as failed depends on the adapter: the record
  keeps the worker's lease, so the memory adapter queues it again, while the Redis adapter
  always refuses the retry as a lost lease and leaves the store as it is.\<close>

lemma retry_of_failed_task:
  assumes "normalizeTenantId tn = Inr t" and "tkState task = FAILED" and "tkLeaseId task = Some L"
    and "tkId task = i" and "tkTenantId task = t"
    and "redisTask cfg (wQueue rw) t i = Some task" and "seAdapter renv = redisAdapter cfg scan"
    and "memTask (wQueue mw) t i = Some task" and "seAdapter menv = memoryAdapter"
  shows "fst (retryTask renv i tn rw) = Inl TaskLeaseLostError
    \<and> wQueue (snd (retryTask renv i tn rw)) = wQueue rw
    \<and> (\<exists>again mw'. retryTask menv i tn mw = (Inr again, mw') \<and> tkState again = RETRYING \<and> tkRetries again = 0
         \<and> memTask (wQueue mw') t i = Some again \<and> taskKey t i \<in> set (mqPending (wQueue mw')))"
proof -
  have pat: "TENANT_ID_PATTERN t" by (rule normalizeTenantId_pattern [OF assms(1)])
  have get: "getTaskKey (redisTaskKey cfg t (taskShard cfg i) i) (wQueue rw) = Some (Some task)"
    using assms(6) by (simp add: redisTask_Some)
  have redis: "fst (retryTask renv i tn rw) = Inl TaskLeaseLostError \<and> wQueue (snd (retryTask renv i tn rw)) = wQueue rw"
    using assms pat get
    by (simp add: retryTask_def act_bind_def schedGetTask_redis [OF assms(1,6,4,5,7)] readClock_def act_then_def
        onQueue_def redisAdapter_def redisEnqueueTask_eq enqueueOf_def enqueueOwnedScript_def outcome_def Let_def
        split: prod.splits)
  obtain m where m: "retryTask menv i tn mw = m" by blast
  let ?again = "task\<lparr>tkState := RETRYING, tkRetries := 0, tkCompletedAt := None, tkError := None, tkErrorCode := None,
      tkEvents := Some (appendTaskEvent (seClock menv (wReads mw)) task Ph_retrying MsgRequeued)\<rparr>"
  have "writable (wQueue mw) ?again"
    using assms pat by (simp add: writable_def assertLeaseOwnership_def)
  then obtain q where enq: "memEnqueueTask ?again (wQueue mw) = (Inr (), q)"
    by (simp add: memEnqueueTask_eq storeTask_eq)
  then have "retryTask menv i tn mw = (Inr ?again, mw\<lparr>wReads := Suc (Suc (wReads mw)), wQueue := q\<rparr>)"
    using assms
    by (simp add: retryTask_def act_bind_def schedGetTask_memory [OF assms(1,8,9)] readClock_def act_then_def
        onQueue_def memoryAdapter_def act_return_def Let_def)
  with redis memEnqueueTask_stores [OF enq] assms show ?thesis
    by (simp add: runnable_def)
qed

definition failedTask :: taskRecord where
  "failedTask = (claimed 10 ''u1'' ''w1'' (demoTask ''a''))\<lparr>tkState := FAILED\<rparr>"

lemma retry_of_failed_task_witness:
  "let calls = [QEnqueue 1 (demoTask ''a''), QDequeue 10 ''u1'' ''w1'' None 0, QUpdate 20 failedTask];
       rw = demoWorld (queueRun (redisStep demoConfig) calls newRedisDb);
       mw = demoWorld (queueRun memStep calls newMemoryQueue)
   in fst (retryTask (demoEnv (redisAdapter demoConfig (\<lambda>k. []))) ''a'' None rw) = Inl TaskLeaseLostError
      \<and> isl (fst (retryTask (demoEnv memoryAdapter) ''a'' None mw)) = False"
proof -
  let ?calls = "[QEnqueue 1 (demoTask ''a''), QDequeue 10 ''u1'' ''w1'' None 0, QUpdate 20 failedTask]"
  let ?rw = "demoWorld (queueRun (redisStep demoConfig) ?calls newRedisDb)"
  let ?mw = "demoWorld (queueRun memStep ?calls newMemoryQueue)"
  have facts: "normalizeTenantId None = Inr ''default''" "tkState failedTask = FAILED"
    "tkLeaseId failedTask = Some ''u1''" "tkId failedTask = ''a''" "tkTenantId failedTask = ''default''"
    "redisTask demoConfig (wQueue ?rw) ''default'' ''a'' = Some failedTask"
    by code_simp+
  have mem: "memTask (wQueue ?mw) ''default'' ''a'' = Some failedTask" by code_simp
  have ads: "seAdapter (demoEnv (redisAdapter demoConfig (\<lambda>k. []))) = redisAdapter demoConfig (\<lambda>k. [])"
    "seAdapter (demoEnv memoryAdapter) = memoryAdapter"
    by (simp_all add: demoEnv_def)
  note both = retry_of_failed_task [OF facts ads(1) mem ads(2)]
  from both obtain again mw' where "retryTask (demoEnv memoryAdapter) ''a'' None ?mw = (Inr again, mw')" by blast
  then have "isl (fst (retryTask (demoEnv memoryAdapter) ''a'' None ?mw)) = False" by simp
  with both show ?thesis unfolding Let_def by blast
qed

end
