(* ===== verification/Worker.thy ===== *)
theory Worker
  imports QueueAdapter
begin

text \<open>
  \<open>WorkerDaemon\<close> of \<open>distributed/worker-daemon.ts\<close> over any queue adapter: claiming by
  partition, the outcome of an executed task, the local recovery of writes that failed, and
  the drain of a shutdown.

  A step runs to completion: \<open>claimRound\<close> is one round of \<open>pollLoop\<close>, \<open>settle\<close> is what
  \<open>executeTask\<close> does once the page work returned or threw, \<open>fireRecovery\<close> is the expiry of a
  recovery timer, \<open>stopInternal\<close> the shutdown.  Steps of different tasks and the shutdown may
  come in any order.  The page work is a parameter, as are the clock and the UUIDs.
\<close>

section \<open>State\<close>

datatype recoveryKind = KEnqueue | KPersist

record recoveryWork =
  rwTask :: taskRecord
  rwKind :: recoveryKind

record 'q daemon =
  dQueue :: 'q
  dReads :: nat
  dUuids :: nat
  dActive :: int
  dRunning :: bool
  dClosed :: bool
  dStopping :: bool
  dFinished :: bool
  dTimers :: "(nat, recoveryWork \<times> int) omap"
  dNextTimer :: nat
  dLate :: "recoveryWork list"
  dFailures :: "taskError list"
  dControllers :: "string list"
  dCursor :: nat

record 'q workerEnv =
  weWorkerId :: string
  weHostname :: string
  weCapacity :: int
  wePollIntervalMs :: int
  weTenants :: "string list"
  weAdapter :: "'q queueAdapter"
  weClock :: "nat \<Rightarrow> int"
  weUuid :: "nat \<Rightarrow> string"

type_synonym ('q, 'a) daemonAct = "('q daemon, taskError, 'a) act"

definition QUEUE_RECOVERY_DELAY_MS :: int where
  "QUEUE_RECOVERY_DELAY_MS = 1000"

definition dNow :: "'q workerEnv \<Rightarrow> ('q, int) daemonAct" where
  "dNow env = (\<lambda>d. (Inr (weClock env (dReads d)), d\<lparr>dReads := Suc (dReads d)\<rparr>))"

definition withQueue :: "('q, taskError, 'a) act \<Rightarrow> ('q, 'a) daemonAct" where
  "withQueue m = (\<lambda>d. let (r, q) = m (dQueue d) in (r, d\<lparr>dQueue := q\<rparr>))"

text \<open>The constructor: bounds, and the tenants without duplicates in their order.\<close>

definition dedupe :: "'a list \<Rightarrow> 'a list" where
  "dedupe xs = rev (remdups (rev xs))"

definition newWorkerEnv ::
  "string \<Rightarrow> string \<Rightarrow> jsnum option \<Rightarrow> int \<Rightarrow> jsnum option \<Rightarrow> string list option
    \<Rightarrow> 'q queueAdapter \<Rightarrow> (nat \<Rightarrow> int) \<Rightarrow> (nat \<Rightarrow> string) \<Rightarrow> taskError + 'q workerEnv" where
  "newWorkerEnv workerId hostname concurrency cpus pollInterval tenants ad clk uuids =
     (case mapThrow (\<lambda>t. normalizeTenantId (Some t)) (case tenants of None \<Rightarrow> [DEFAULT_TENANT_ID] | Some ts \<Rightarrow> ts) of
        Inl e \<Rightarrow> Inl e
      | Inr ts \<Rightarrow>
          Inr \<lparr>weWorkerId = workerId, weHostname = hostname,
               weCapacity = boundedInteger (case concurrency of None \<Rightarrow> JFin (of_int (max 2 cpus)) | Some c \<Rightarrow> c) 1 32 2,
               wePollIntervalMs = boundedInteger (case pollInterval of None \<Rightarrow> JFin 200 | Some p \<Rightarrow> p) 50 5000 200,
               weTenants = dedupe ts, weAdapter = ad, weClock = clk, weUuid = uuids\<rparr>)"

definition newDaemon :: "'q \<Rightarrow> 'q daemon" where
  "newDaemon q = \<lparr>dQueue = q, dReads = 0, dUuids = 0, dActive = 0, dRunning = False, dClosed = False,
     dStopping = False, dFinished = False, dTimers = [], dNextTimer = 0, dLate = [], dFailures = [],
     dControllers = [], dCursor = 0\<rparr>"

section \<open>Writing results\<close>

definition persistTask :: "'q workerEnv \<Rightarrow> taskRecord \<Rightarrow> ('q, unit) daemonAct" where
  "persistTask env task = act_bind (dNow env) (\<lambda>now. withQueue (adUpdateTask (weAdapter env) now task))"

definition persistCompletedTask :: "'q workerEnv \<Rightarrow> taskRecord \<Rightarrow> ('q, unit) daemonAct" where
  "persistCompletedTask env task =
     act_then (persistTask env task)
       (if tkState task = COMPLETED
        then act_bind (dNow env) (\<lambda>now. withQueue (adMarkUrlSeen (weAdapter env) now (tkUrl task)
               DEFAULT_URL_TTL_SECONDS (Some (tkTenantId task))))
        else act_return ())"

definition workerEnqueue :: "'q workerEnv \<Rightarrow> taskRecord \<Rightarrow> ('q, unit) daemonAct" where
  "workerEnqueue env task = act_bind (dNow env) (\<lambda>now. withQueue (adEnqueueTask (weAdapter env) now task))"

text \<open>\<open>Math.max(QUEUE_RECOVERY_DELAY_MS, delayMs)\<close> is the delay of the timer.\<close>

definition scheduleRecovery :: "taskRecord \<Rightarrow> recoveryKind \<Rightarrow> int \<Rightarrow> ('q, unit) daemonAct" where
  "scheduleRecovery task kind delayMs =
     act_modify (\<lambda>d.
       let work = \<lparr>rwTask = task, rwKind = kind\<rparr> in
       if dFinished d then d
       else if dStopping d then d\<lparr>dLate := dLate d @ [work]\<rparr>
       else d\<lparr>dTimers := oset (dNextTimer d) (work, max QUEUE_RECOVERY_DELAY_MS delayMs) (dTimers d),
              dNextTimer := Suc (dNextTimer d)\<rparr>)"

definition flushRecovery :: "'q workerEnv \<Rightarrow> recoveryWork \<Rightarrow> ('q, unit) daemonAct" where
  "flushRecovery env work =
     (case rwKind work of
        KEnqueue \<Rightarrow> workerEnqueue env ((rwTask work)\<lparr>tkState := PENDING\<rparr>)
      | KPersist \<Rightarrow>
          if tkState (rwTask work) = COMPLETED then persistCompletedTask env (rwTask work)
          else persistTask env (rwTask work))"

definition runRecovery :: "'q workerEnv \<Rightarrow> recoveryWork \<Rightarrow> ('q, unit) daemonAct" where
  "runRecovery env work =
     act_catch (flushRecovery env work)
       (\<lambda>e. if isTaskLeaseLostError e then act_return ()
            else act_bind (act_get dStopping) (\<lambda>stopping.
              if \<not> stopping
              then scheduleRecovery
                     (if rwKind work = KEnqueue then (rwTask work)\<lparr>tkState := RETRYING\<rparr> else rwTask work)
                     (rwKind work) QUEUE_RECOVERY_DELAY_MS
              else act_throw e))"

text \<open>The expiry of a timer: \<open>trackRecovery\<close> keeps the failure of a recovery that ran into a stop.\<close>

definition fireRecovery :: "'q workerEnv \<Rightarrow> nat \<Rightarrow> ('q, unit) daemonAct" where
  "fireRecovery env timer =
     act_bind (act_get (\<lambda>d. oget (dTimers d) timer)) (\<lambda>entry.
       case entry of
         None \<Rightarrow> act_return ()
       | Some (work, delay) \<Rightarrow>
           act_then (act_modify (\<lambda>d. d\<lparr>dTimers := odelete timer (dTimers d)\<rparr>))
             (act_catch (runRecovery env work)
                (\<lambda>e. act_modify (\<lambda>d. if dStopping d \<and> \<not> dFinished d
                                     then d\<lparr>dFailures := dFailures d @ [e]\<rparr> else d))))"

definition requeueTask :: "'q workerEnv \<Rightarrow> taskRecord \<Rightarrow> ('q, unit) daemonAct" where
  "requeueTask env task =
     act_catch (workerEnqueue env (task\<lparr>tkState := PENDING\<rparr>))
       (\<lambda>e. if isTaskLeaseLostError e then act_return ()
            else scheduleRecovery (task\<lparr>tkState := RETRYING\<rparr>) KEnqueue QUEUE_RECOVERY_DELAY_MS)"

section \<open>Executing a task\<close>

text \<open>\<open>/^[A-Z][A-Z0-9_-]{1,63}$/\<close>\<close>

fun TASK_CODE_PATTERN :: "string \<Rightarrow> bool" where
  "TASK_CODE_PATTERN [] = False"
| "TASK_CODE_PATTERN (c # cs) =
     (isUpper c \<and> 1 \<le> length cs \<and> length cs \<le> 63
      \<and> list_all (\<lambda>x. isUpper x \<or> isDigit x \<or> x = CHR ''_'' \<or> x = CHR ''-'') cs)"

text \<open>The \<open>code\<close> of an error and, for an \<open>Error\<close>, its message.\<close>

fun errorCodeOf :: "taskError \<Rightarrow> jsval" where
  "errorCodeOf TaskLeaseLostError = JStr ''TASK_LEASE_LOST''"
| "errorCodeOf (ToolError c m d) = JStr (codeName c)"
| "errorCodeOf (ThrownValue v) = getProp v ''code''"
| "errorCodeOf e = JUndef"

fun errorMessageOf :: "taskError \<Rightarrow> string option" where
  "errorMessageOf TaskLeaseLostError = Some ''The task lease is no longer owned by this worker.''"
| "errorMessageOf (ToolError c m d) = Some m"
| "errorMessageOf (JsError m) = Some m"
| "errorMessageOf (AggregateError es m) = Some m"
| "errorMessageOf (ThrownValue v) = None"

definition taskErrorCode :: "taskError \<Rightarrow> string option" where
  "taskErrorCode e =
     (case errorCodeOf e of JStr c \<Rightarrow> if TASK_CODE_PATTERN c then Some c else None | _ \<Rightarrow> None)"

definition isWordChar :: "char \<Rightarrow> bool" where
  "isWordChar c \<longleftrightarrow> isAlnum c \<or> c = CHR ''_''"

text \<open>\<open>/^HTTP \d{3}\b/\<close>\<close>

definition HTTP_STATUS_TEXT :: "string \<Rightarrow> bool" where
  "HTTP_STATUS_TEXT m \<longleftrightarrow>
     startsWith m ''HTTP '' \<and> 8 \<le> length m \<and> list_all isDigit (take 3 (drop 5 m))
     \<and> (case drop 8 m of [] \<Rightarrow> True | c # cs \<Rightarrow> \<not> isWordChar c)"

definition safeTaskError :: "taskError \<Rightarrow> string" where
  "safeTaskError e =
     (case taskErrorCode e of
        Some c \<Rightarrow> ''Task failed ('' @ c @ '').''
      | None \<Rightarrow>
          (case errorMessageOf e of
             Some m \<Rightarrow> if HTTP_STATUS_TEXT m then take 64 m else ''Task execution failed.''
           | None \<Rightarrow> ''Task execution failed.''))"

definition logEvent :: "'q workerEnv \<Rightarrow> taskPhase \<Rightarrow> taskMessage \<Rightarrow> taskRecord \<Rightarrow> ('q, taskRecord) daemonAct" where
  "logEvent env phase message task =
     act_bind (dNow env) (\<lambda>now. act_return (task\<lparr>tkEvents := Some (appendTaskEvent now task phase message)\<rparr>))"

text \<open>The result of a fetch as far as the worker looks at it.\<close>

record fetchResult =
  frOk :: bool
  frStatus :: int
  frStatusText :: string
  frStatusString :: string
  frValue :: jsval

definition retryableStatus :: "int \<Rightarrow> bool" where
  "retryableStatus st \<longleftrightarrow> st = 403 \<or> st = 429 \<or> st = 503"

definition fetchOutcome :: "bool \<Rightarrow> taskError + fetchResult \<Rightarrow> taskError + jsval" where
  "fetchOutcome hasPolicy fetched =
     (if \<not> hasPolicy then Inl (JsError ''A server URL policy is required for worker fetch tasks'')
      else case fetched of
             Inl e \<Rightarrow> Inl e
           | Inr res \<Rightarrow>
               if \<not> frOk res \<and> retryableStatus (frStatus res)
               then Inl (JsError (''HTTP '' @ frStatusString res @ '': '' @ frStatusText res))
               else Inr (frValue res))"

text \<open>The session manager as the worker calls it; a failing \<open>stop\<close> is ignored.\<close>

record browserSession =
  bsStart :: "taskError + string"
  bsOpen :: "string \<Rightarrow> string \<Rightarrow> int \<Rightarrow> taskError + unit"
  bsExtract :: "string \<Rightarrow> jsval \<Rightarrow> taskError + jsval"
  bsSnapshot :: "string \<Rightarrow> int \<Rightarrow> taskError + jsval"

definition browserOutcome ::
  "'q workerEnv \<Rightarrow> browserSession option \<Rightarrow> taskRecord \<Rightarrow> ('q, taskRecord \<times> (taskError + jsval)) daemonAct" where
  "browserOutcome env sm task =
     (case sm of
        None \<Rightarrow> act_return (task, Inl (JsError ''SessionManager is required for browser execution mode on this worker''))
      | Some s \<Rightarrow>
          (case bsStart s of
             Inl e \<Rightarrow> act_return (task, Inl e)
           | Inr sessionId \<Rightarrow>
               act_bind (logEvent env Ph_running MsgSessionCreated (task\<lparr>tkSessionId := Some sessionId\<rparr>)) (\<lambda>t.
                 act_return (t,
                   (case bsOpen s sessionId (tkUrl t) (tkTimeoutMs t) of
                      Inl e \<Rightarrow> Inl e
                    | Inr u \<Rightarrow>
                        (case tkExtractionSchema t of
                           Some schema \<Rightarrow>
                             if truthy schema then bsExtract s sessionId schema else bsSnapshot s sessionId 15000
                         | None \<Rightarrow> bsSnapshot s sessionId 15000))))))"

section \<open>Settling a task\<close>

definition retryDelay :: "bool \<Rightarrow> int \<Rightarrow> int" where
  "retryDelay statusPersisted retries =
     (if statusPersisted then min 10000 (1000 * 2 ^ nat retries) else QUEUE_RECOVERY_DELAY_MS)"

text \<open>The work returned a value.\<close>

definition settleCompleted :: "'q workerEnv \<Rightarrow> int \<Rightarrow> jsval \<Rightarrow> taskRecord \<Rightarrow> ('q, unit) daemonAct" where
  "settleCompleted env start value task =
     act_bind (logEvent env Ph_completed MsgCompleted task) (\<lambda>t.
     act_bind (dNow env) (\<lambda>completedAt.
     act_bind (dNow env) (\<lambda>finished.
       let completed = t\<lparr>tkState := COMPLETED, tkCompletedAt := Some completedAt,
             tkDurationMs := Some (finished - start), tkResult := Some value\<rparr>
       in act_catch (persistCompletedTask env completed)
            (\<lambda>e. if isTaskLeaseLostError e then act_return ()
                 else scheduleRecovery completed KPersist QUEUE_RECOVERY_DELAY_MS))))"

text \<open>The work threw: another attempt, or the end.\<close>

text \<open>The status write of a retry and the way back to the queue.\<close>

definition handBack :: "'q workerEnv \<Rightarrow> taskRecord \<Rightarrow> ('q, unit) daemonAct" where
  "handBack env t =
     act_bind (act_catch (act_then (persistTask env t) (act_return (Some True)))
       (\<lambda>e. if isTaskLeaseLostError e then act_return None else act_return (Some False))) (\<lambda>persisted.
     case persisted of
       None \<Rightarrow> act_return ()
     | Some statusPersisted \<Rightarrow>
         act_bind (act_get dRunning) (\<lambda>running.
           if \<not> running then requeueTask env t
           else scheduleRecovery t KEnqueue (retryDelay statusPersisted (tkRetries t))))"

definition settleRetry :: "'q workerEnv \<Rightarrow> taskError \<Rightarrow> taskRecord \<Rightarrow> ('q, unit) daemonAct" where
  "settleRetry env err task =
     act_bind (logEvent env Ph_retrying (MsgWillRetry (tkRetries task + 1))
       (task\<lparr>tkErrorCode := taskErrorCode err, tkRetries := tkRetries task + 1, tkState := RETRYING,
             tkError := Some (safeTaskError err)\<rparr>)) (handBack env)"

definition settleFailed :: "'q workerEnv \<Rightarrow> int \<Rightarrow> taskError \<Rightarrow> taskRecord \<Rightarrow> ('q, unit) daemonAct" where
  "settleFailed env start err task =
     act_bind (dNow env) (\<lambda>completedAt.
     act_bind (dNow env) (\<lambda>finished.
     act_bind (logEvent env Ph_failed MsgFailed
       (task\<lparr>tkErrorCode := taskErrorCode err, tkState := FAILED, tkCompletedAt := Some completedAt,
             tkDurationMs := Some (finished - start), tkError := Some (safeTaskError err)\<rparr>)) (\<lambda>t.
       act_catch (persistTask env t)
         (\<lambda>e. if isTaskLeaseLostError e then act_return ()
              else scheduleRecovery t KPersist QUEUE_RECOVERY_DELAY_MS))))"

definition controllerKey :: "taskRecord \<Rightarrow> string" where
  "controllerKey task = tenantKey (tkTenantId task) (tkId task)"

text \<open>The heartbeats; a failing one is ignored.\<close>

definition sendHeartbeat :: "'q workerEnv \<Rightarrow> string \<Rightarrow> ('q, unit) daemonAct" where
  "sendHeartbeat env tenantId =
     act_bind (dNow env) (\<lambda>stamp. act_bind (act_get dActive) (\<lambda>active. act_bind (dNow env) (\<lambda>now.
       act_catch (withQueue (adUpdateWorkerHeartbeat (weAdapter env) now
           \<lparr>wkWorkerId = weWorkerId env, wkTenantId = tenantId, wkHostname = weHostname env,
            wkCapacity = weCapacity env, wkActiveTasks = active, wkHealthy = True,
            wkLastHeartbeat = stamp\<rparr>))
         (\<lambda>e. act_return ()))))"

primrec heartbeats :: "'q workerEnv \<Rightarrow> string list \<Rightarrow> ('q, unit) daemonAct" where
  "heartbeats env [] = act_return ()"
| "heartbeats env (t # ts) = act_then (sendHeartbeat env t) (heartbeats env ts)"

text \<open>Everything after the page work, the \<open>finally\<close> block included.\<close>

definition settle :: "'q workerEnv \<Rightarrow> int \<Rightarrow> taskError + jsval \<Rightarrow> taskRecord \<Rightarrow> ('q, unit) daemonAct" where
  "settle env start worked task =
     act_then
       (case worked of
          Inr value \<Rightarrow> settleCompleted env start value task
        | Inl err \<Rightarrow>
            if tkRetries task < tkMaxRetries task then settleRetry env err task
            else settleFailed env start err task)
    (act_then (act_modify (\<lambda>d. d\<lparr>dControllers := removeAll (controllerKey task) (dControllers d),
                                 dActive := dActive d - 1\<rparr>))
              (heartbeats env (weTenants env)))"

text \<open>The start of \<open>executeTask\<close>: the controller and the first event.\<close>

definition beginTask :: "'q workerEnv \<Rightarrow> taskRecord \<Rightarrow> ('q, int \<times> taskRecord) daemonAct" where
  "beginTask env task =
     act_bind (dNow env) (\<lambda>start.
     act_then (act_modify (\<lambda>d. d\<lparr>dControllers := List.insert (controllerKey task) (dControllers d)\<rparr>))
    (act_bind (logEvent env Ph_running MsgClaimed task) (\<lambda>t. act_return (start, t))))"

text \<open>
  The lease renewal of a running task: its period, absent without a lease, and one tick, which
  answers whether the task is aborted.  A tick that fails in transport changes nothing.
\<close>

definition renewalIntervalMs :: "'q workerEnv \<Rightarrow> taskRecord \<Rightarrow> int option" where
  "renewalIntervalMs env task =
     (if nonEmpty (tkLeaseId task) = None \<or> nonEmpty (tkWorkerId task) = None then None
      else Some (max 1 ((if 0 < adLeaseDurationMs (weAdapter env) then adLeaseDurationMs (weAdapter env) else 300000) div 2)))"

definition renewTick :: "'q workerEnv \<Rightarrow> taskRecord \<Rightarrow> bool \<Rightarrow> ('q, bool) daemonAct" where
  "renewTick env task aborted =
     act_bind (act_get dFinished) (\<lambda>finished.
       if aborted \<or> finished then act_return aborted
       else act_bind (dNow env) (\<lambda>now.
              act_catch (act_bind (withQueue (adRenewTaskLease (weAdapter env) now task)) (\<lambda>renewed.
                 act_return (\<not> renewed)))
                (\<lambda>e. act_return False)))"

section \<open>Claiming\<close>

definition effectiveShardCount :: "'q workerEnv \<Rightarrow> nat" where
  "effectiveShardCount env = (if 0 < adShardCount (weAdapter env) then nat (adShardCount (weAdapter env)) else 1)"

definition partitionCount :: "'q workerEnv \<Rightarrow> nat" where
  "partitionCount env = length (weTenants env) * effectiveShardCount env"

text \<open>One dequeue of a round; a failing one is skipped.\<close>

definition claimPartition :: "'q workerEnv \<Rightarrow> nat \<Rightarrow> ('q, taskRecord option) daemonAct" where
  "claimPartition env p =
     (let tenantId = weTenants env ! (p div effectiveShardCount env);
          shard = p mod effectiveShardCount env
      in if tenantId = [] then act_return None
         else act_bind (dNow env) (\<lambda>now.
              act_bind (\<lambda>d. (Inr (weUuid env (dUuids d)), d\<lparr>dUuids := Suc (dUuids d)\<rparr>)) (\<lambda>uuid.
              act_catch
                (act_bind (withQueue (adDequeueTask (weAdapter env) now uuid (weWorkerId env) (Some tenantId) (int shard)))
                  (\<lambda>task. act_then (act_modify (\<lambda>d. if task = None then d else d\<lparr>dActive := dActive d + 1\<rparr>))
                            (act_return task)))
                (\<lambda>e. act_return None))))"

text \<open>The partitions of a round in the order they are visited, until the capacity is used.\<close>

primrec claimPartitions :: "'q workerEnv \<Rightarrow> nat list \<Rightarrow> ('q, taskRecord list) daemonAct" where
  "claimPartitions env [] = act_return []"
| "claimPartitions env (p # ps) =
     act_bind (act_get dActive) (\<lambda>active.
       if \<not> active < weCapacity env then act_return []
       else act_bind (claimPartition env p) (\<lambda>task.
            act_bind (claimPartitions env ps) (\<lambda>tasks.
              act_return (case task of None \<Rightarrow> tasks | Some t \<Rightarrow> t # tasks))))"

definition visitOrder :: "nat \<Rightarrow> nat \<Rightarrow> nat list" where
  "visitOrder start count = map (\<lambda>offset. (start + offset) mod count) [0..<count]"

definition claimRound :: "'q workerEnv \<Rightarrow> ('q, taskRecord list) daemonAct" where
  "claimRound env =
     act_bind (act_get (\<lambda>d. (dRunning d, dActive d, dCursor d))) (\<lambda>(running, active, cursor).
       let count = partitionCount env in
       if \<not> running \<or> active \<ge> weCapacity env \<or> count = 0 then act_return []
       else (let start = cursor mod count in
             act_bind (claimPartitions env (visitOrder start count)) (\<lambda>tasks.
             act_then (act_modify (\<lambda>d. d\<lparr>dCursor := (start + 1) mod count\<rparr>)) (act_return tasks))))"

section \<open>Start and stop\<close>

definition startDaemon :: "'q workerEnv \<Rightarrow> ('q, unit) daemonAct" where
  "startDaemon env =
     act_bind (act_get (\<lambda>d. (dClosed d, dRunning d))) (\<lambda>(closed, running).
       if closed then act_throw (JsError ''WorkerDaemon is already stopped.'')
       else if running then act_return ()
       else act_then (act_modify (\<lambda>d. d\<lparr>dRunning := True\<rparr>)) (heartbeats env (weTenants env)))"

text \<open>One recovery of the drain: a lost lease is no error.\<close>

definition flushCollecting :: "'q workerEnv \<Rightarrow> recoveryWork \<Rightarrow> ('q, taskError list) daemonAct" where
  "flushCollecting env work =
     act_catch (act_then (flushRecovery env work) (act_return []))
       (\<lambda>e. act_return (if isTaskLeaseLostError e then [] else [e]))"

primrec flushAll :: "'q workerEnv \<Rightarrow> recoveryWork list \<Rightarrow> ('q, taskError list) daemonAct" where
  "flushAll env [] = act_return []"
| "flushAll env (w # ws) =
     act_bind (flushCollecting env w) (\<lambda>es. act_bind (flushAll env ws) (\<lambda>fs. act_return (es @ fs)))"

text \<open>\<open>xs.splice(0)\<close> on the kept failures\<close>

definition takeFailures :: "('q, taskError list) daemonAct" where
  "takeFailures = act_bind (act_get dFailures) (\<lambda>es. act_then (act_modify (\<lambda>d. d\<lparr>dFailures := []\<rparr>)) (act_return es))"

text \<open>
  The shutdown once the wait for active tasks is over; \<open>dActive\<close> tells whether it timed out.
  Recoveries run to completion in the model, so none is in flight.
\<close>

definition stopInternal :: "'q workerEnv \<Rightarrow> ('q, unit) daemonAct" where
  "stopInternal env =
     act_bind (act_get dClosed) (\<lambda>closed.
       if closed then act_return ()
       else
         act_then (act_modify (\<lambda>d. d\<lparr>dStopping := True, dClosed := True, dRunning := False\<rparr>))
        (act_bind (act_get dActive) (\<lambda>active.
         act_bind takeFailures (\<lambda>before.
         act_bind (act_get (\<lambda>d. map (fst \<circ> snd) (dTimers d))) (\<lambda>works.
         act_then (act_modify (\<lambda>d. d\<lparr>dTimers := []\<rparr>))
        (act_bind (flushAll env works) (\<lambda>timerErrors.
         act_bind (act_get dLate) (\<lambda>late.
         act_then (act_modify (\<lambda>d. d\<lparr>dLate := []\<rparr>))
        (act_bind (flushAll env late) (\<lambda>lateErrors.
         act_bind takeFailures (\<lambda>after.
         act_bind (act_catch (act_then (withQueue (adClose (weAdapter env))) (act_return None))
                     (\<lambda>e. act_return (Some e))) (\<lambda>closeError.
         act_then (act_modify (\<lambda>d. d\<lparr>dFinished := True\<rparr>))
           (let errors = before @ timerErrors @ lateErrors @ after
                  @ (if 0 < active then [JsError ''Worker shutdown timed out while active tasks were still running.''] else [])
                  @ (case closeError of None \<Rightarrow> [] | Some e \<Rightarrow> [e])
            in act_throwIf (errors \<noteq> [])
                 (AggregateError errors ''Worker shutdown could not durably flush queue recovery work.''))))))))))))))"

end
