(* ===== verification/WorkerSpec.thy ===== *)
theory WorkerSpec
  imports Worker
begin

text \<open>
  What the worker promises for any queue adapter: settling a task never throws and never loses
  it while the shutdown is not over; a shutdown succeeds exactly when all recovery work was
  flushed; claiming respects the capacity and visits the partitions in rotation; the error
  text kept with a task is safe.
\<close>

section \<open>Actions of the daemon\<close>

lemma wp_dNow [wp_rules]: "wp (dNow env) Q E d = Q (weClock env (dReads d)) (d\<lparr>dReads := Suc (dReads d)\<rparr>)"
  by (simp add: wp_def dNow_def)

lemma wp_withQueue [wp_rules]:
  "wp (withQueue m) Q E d = wp m (\<lambda>x q. Q x (d\<lparr>dQueue := q\<rparr>)) (\<lambda>e q. E e (d\<lparr>dQueue := q\<rparr>)) (dQueue d)"
  by (simp add: wp_def withQueue_def split: prod.splits sum.splits)

lemma wp_logEvent [wp_rules]:
  "wp (logEvent env phase message task) Q E d =
     Q (task\<lparr>tkEvents := Some (appendTaskEvent (weClock env (dReads d)) task phase message)\<rparr>)
       (d\<lparr>dReads := Suc (dReads d)\<rparr>)"
  by (simp add: logEvent_def wp_rules)

text \<open>The recovery work a daemon holds.\<close>

definition pendingWorks :: "'q daemon \<Rightarrow> recoveryWork list" where
  "pendingWorks d = map (fst \<circ> snd) (dTimers d) @ dLate d"

definition timersFresh :: "'q daemon \<Rightarrow> bool" where
  "timersFresh d \<longleftrightarrow> list_all (\<lambda>e. fst e < dNextTimer d) (dTimers d)"

text \<open>Everything but the queue, the clock and the recovery work stays as it is.\<close>

definition sameControl :: "'q daemon \<Rightarrow> 'q daemon \<Rightarrow> bool" where
  "sameControl d d' \<longleftrightarrow> dActive d' = dActive d \<and> dRunning d' = dRunning d \<and> dClosed d' = dClosed d
     \<and> dStopping d' = dStopping d \<and> dFinished d' = dFinished d \<and> dFailures d' = dFailures d
     \<and> dControllers d' = dControllers d \<and> dCursor d' = dCursor d"

definition onlyQueue :: "'q daemon \<Rightarrow> 'q daemon \<Rightarrow> bool" where
  "onlyQueue d d' \<longleftrightarrow> sameControl d d' \<and> dTimers d' = dTimers d \<and> dNextTimer d' = dNextTimer d \<and> dLate d' = dLate d"

lemma onlyQueue_refl [simp]: "onlyQueue d d"
  by (simp add: onlyQueue_def sameControl_def)

lemma onlyQueue_trans: "onlyQueue d d1 \<Longrightarrow> onlyQueue d1 d2 \<Longrightarrow> onlyQueue d d2"
  by (simp add: onlyQueue_def sameControl_def)

lemma onlyQueue_upd [simp]:
  "onlyQueue d (d'\<lparr>dQueue := q\<rparr>) = onlyQueue d d'" "onlyQueue d (d'\<lparr>dReads := n\<rparr>) = onlyQueue d d'"
  by (simp_all add: onlyQueue_def sameControl_def)

text \<open>A record reached the queue, or the worker learned that its lease is gone.\<close>

definition updated :: "'q workerEnv \<Rightarrow> taskRecord \<Rightarrow> bool" where
  "updated env task \<longleftrightarrow> (\<exists>now q. fst (adUpdateTask (weAdapter env) now task q) = Inr ())"

definition enqueued :: "'q workerEnv \<Rightarrow> taskRecord \<Rightarrow> bool" where
  "enqueued env task \<longleftrightarrow> (\<exists>now q. fst (adEnqueueTask (weAdapter env) now task q) = Inr ())"

definition marked :: "'q workerEnv \<Rightarrow> taskRecord \<Rightarrow> bool" where
  "marked env task \<longleftrightarrow> (\<exists>now q. fst (adMarkUrlSeen (weAdapter env) now (tkUrl task) DEFAULT_URL_TTL_SECONDS
     (Some (tkTenantId task)) q) = Inr ())"

definition leaseLost :: "'q workerEnv \<Rightarrow> taskRecord \<Rightarrow> bool" where
  "leaseLost env task \<longleftrightarrow> (\<exists>now q e. isTaskLeaseLostError e \<and>
     (fst (adUpdateTask (weAdapter env) now task q) = Inl e
      \<or> fst (adEnqueueTask (weAdapter env) now (task\<lparr>tkState := PENDING\<rparr>) q) = Inl e
      \<or> fst (adMarkUrlSeen (weAdapter env) now (tkUrl task) DEFAULT_URL_TTL_SECONDS (Some (tkTenantId task)) q) = Inl e))"

lemma persistTask_wp:
  "wp (persistTask env task) (\<lambda>u d'. onlyQueue d d' \<and> updated env task)
     (\<lambda>e d'. onlyQueue d d' \<and> (isTaskLeaseLostError e \<longrightarrow> leaseLost env task)) d"
proof -
  have "wp (adUpdateTask (weAdapter env) now task) (\<lambda>x q. updated env task)
      (\<lambda>e q. isTaskLeaseLostError e \<longrightarrow> leaseLost env task) q" for now q
    by (rule wpI) (auto simp: updated_def leaseLost_def intro!: exI [of _ now] exI [of _ q])
  then show ?thesis
    by (simp add: persistTask_def wp_rules)
qed

lemma workerEnqueue_wp:
  "wp (workerEnqueue env (task\<lparr>tkState := PENDING\<rparr>)) (\<lambda>u d'. onlyQueue d d' \<and> enqueued env (task\<lparr>tkState := PENDING\<rparr>))
     (\<lambda>e d'. onlyQueue d d' \<and> (isTaskLeaseLostError e \<longrightarrow> leaseLost env task)) d"
proof -
  have "wp (adEnqueueTask (weAdapter env) now (task\<lparr>tkState := PENDING\<rparr>)) (\<lambda>x q. enqueued env (task\<lparr>tkState := PENDING\<rparr>))
      (\<lambda>e q. isTaskLeaseLostError e \<longrightarrow> leaseLost env task) q" for now q
    by (rule wpI) (auto simp: enqueued_def leaseLost_def intro!: exI [of _ now] exI [of _ q])
  then show ?thesis
    by (simp add: workerEnqueue_def wp_rules)
qed

lemma persistCompletedTask_wp:
  assumes "tkState task = COMPLETED"
  shows "wp (persistCompletedTask env task) (\<lambda>u d'. onlyQueue d d' \<and> updated env task \<and> marked env task)
     (\<lambda>e d'. onlyQueue d d' \<and> (isTaskLeaseLostError e \<longrightarrow> leaseLost env task)) d"
proof -
  have mark: "wp (adMarkUrlSeen (weAdapter env) now (tkUrl task) DEFAULT_URL_TTL_SECONDS (Some (tkTenantId task)))
      (\<lambda>x q. marked env task) (\<lambda>e q. isTaskLeaseLostError e \<longrightarrow> leaseLost env task) q" for now q
    by (rule wpI) (auto simp: marked_def leaseLost_def intro!: exI [of _ now] exI [of _ q])
  have "wp (act_bind (dNow env) (\<lambda>now. withQueue (adMarkUrlSeen (weAdapter env) now (tkUrl task)
               DEFAULT_URL_TTL_SECONDS (Some (tkTenantId task)))))
      (\<lambda>u d'. onlyQueue d d' \<and> updated env task \<and> marked env task)
      (\<lambda>e d'. onlyQueue d d' \<and> (isTaskLeaseLostError e \<longrightarrow> leaseLost env task)) d1"
    if "onlyQueue d d1 \<and> updated env task" for d1
    using that mark [of "weClock env (dReads d1)" "dQueue d1"]
    by (simp add: wp_rules)
  then show ?thesis
    unfolding persistCompletedTask_def
    by (simp add: assms wp_then) (rule wp_mono [OF persistTask_wp], auto)
qed

text \<open>The effect of scheduling a recovery.\<close>

lemma scheduleRecovery_eq:
  "scheduleRecovery task kind delay d =
     (Inr (), let work = \<lparr>rwTask = task, rwKind = kind\<rparr> in
       if dFinished d then d
       else if dStopping d then d\<lparr>dLate := dLate d @ [work]\<rparr>
       else d\<lparr>dTimers := oset (dNextTimer d) (work, max QUEUE_RECOVERY_DELAY_MS delay) (dTimers d),
              dNextTimer := Suc (dNextTimer d)\<rparr>)"
  by (simp add: scheduleRecovery_def act_modify_def)

text \<open>Nothing else happened than that one more recovery, or none, is held.\<close>

definition handedOver :: "bool \<Rightarrow> recoveryWork \<Rightarrow> 'q daemon \<Rightarrow> 'q daemon \<Rightarrow> bool" where
  "handedOver delivered work d d' \<longleftrightarrow> sameControl d d' \<and> timersFresh d'
     \<and> ((delivered \<and> pendingWorks d' = pendingWorks d)
        \<or> set (pendingWorks d') = insert work (set (pendingWorks d)))"

lemma handedOver_schedule:
  assumes "onlyQueue d d1" and "timersFresh d" and "\<not> dFinished d"
  shows "wp (scheduleRecovery task kind delay)
    (\<lambda>u d'. handedOver delivered \<lparr>rwTask = task, rwKind = kind\<rparr> d d') E d1"
proof -
  have "dNextTimer d \<notin> set (okeys (dTimers d))"
    using assms(2) by (auto simp: timersFresh_def list_all_iff)
  then show ?thesis
    using assms
    by (auto simp: wp_def scheduleRecovery_eq handedOver_def onlyQueue_def sameControl_def pendingWorks_def
        timersFresh_def oset_fresh list_all_iff Let_def dest!: bspec)
qed

lemma handedOver_none:
  "onlyQueue d d1 \<Longrightarrow> timersFresh d \<Longrightarrow> delivered \<Longrightarrow> handedOver delivered work d d1"
  by (simp add: handedOver_def onlyQueue_def pendingWorks_def timersFresh_def)

section \<open>Settling\<close>

definition sameTask :: "taskRecord \<Rightarrow> taskRecord \<Rightarrow> bool" where
  "sameTask a b \<longleftrightarrow> tkId b = tkId a \<and> tkTenantId b = tkTenantId a \<and> tkUrl b = tkUrl a
     \<and> tkLeaseId b = tkLeaseId a \<and> tkWorkerId b = tkWorkerId a \<and> tkMaxRetries b = tkMaxRetries a"

text \<open>The record an execution leads to, the recovery it may need, and when it needs none.\<close>

definition settledAs :: "taskRecord \<Rightarrow> taskError + jsval \<Rightarrow> taskRecord \<Rightarrow> bool" where
  "settledAs task worked c \<longleftrightarrow> sameTask task c \<and>
     (case worked of
        Inr v \<Rightarrow> tkState c = COMPLETED \<and> tkResult c = Some v \<and> tkRetries c = tkRetries task
      | Inl e \<Rightarrow>
          tkError c = Some (safeTaskError e) \<and> tkErrorCode c = taskErrorCode e
          \<and> (if tkRetries task < tkMaxRetries task
             then tkState c = RETRYING \<and> tkRetries c = tkRetries task + 1
             else tkState c = FAILED \<and> tkRetries c = tkRetries task))"

definition recoveryOf :: "taskRecord \<Rightarrow> recoveryWork" where
  "recoveryOf c = \<lparr>rwTask = c, rwKind = (if tkState c = RETRYING then KEnqueue else KPersist)\<rparr>"

definition delivered :: "'q workerEnv \<Rightarrow> taskRecord \<Rightarrow> bool" where
  "delivered env c \<longleftrightarrow> leaseLost env c
     \<or> (if tkState c = RETRYING then enqueued env (c\<lparr>tkState := PENDING\<rparr>)
        else updated env c \<and> (tkState c = COMPLETED \<longrightarrow> marked env c))"

definition settledInto :: "'q workerEnv \<Rightarrow> taskRecord \<Rightarrow> taskError + jsval \<Rightarrow> 'q daemon \<Rightarrow> 'q daemon \<Rightarrow> bool" where
  "settledInto env task worked d d' \<longleftrightarrow>
     (\<exists>c. settledAs task worked c \<and> handedOver (delivered env c) (recoveryOf c) d d')"

text \<open>A write that is retried later unless the lease is gone.\<close>

lemma persist_or_recover:
  assumes fresh: "timersFresh d" and open_d: "\<not> dFinished d" and only: "onlyQueue d d1"
    and c: "settledAs task worked c" and st: "tkState c \<noteq> RETRYING"
    and stored: "wp m (\<lambda>u d'. onlyQueue d1 d' \<and> delivered env c)
        (\<lambda>e d'. onlyQueue d1 d' \<and> (isTaskLeaseLostError e \<longrightarrow> leaseLost env c)) d1"
  shows "wp (act_catch m (\<lambda>e. if isTaskLeaseLostError e then act_return ()
               else scheduleRecovery c KPersist QUEUE_RECOVERY_DELAY_MS))
      (\<lambda>u. settledInto env task worked d) (\<lambda>e d'. False) d1"
  unfolding wp_catch
proof (rule wp_mono [OF stored])
  have ok: "settledInto env task worked d d'" if "onlyQueue d1 d'" "delivered env c" for d'
    using handedOver_none [OF onlyQueue_trans [OF only that(1)] fresh that(2)] c unfolding settledInto_def by blast
  show "settledInto env task worked d d'" if "onlyQueue d1 d' \<and> delivered env c" for u d'
    using ok that by blast
  fix e d'
  assume after: "onlyQueue d1 d' \<and> (isTaskLeaseLostError e \<longrightarrow> leaseLost env c)"
  have "wp (scheduleRecovery c KPersist QUEUE_RECOVERY_DELAY_MS)
        (\<lambda>u. settledInto env task worked d) (\<lambda>e d'. False) d'"
    by (rule wp_mono [OF handedOver_schedule [OF onlyQueue_trans [OF only conjunct1 [OF after]] fresh open_d,
            of c KPersist _ "delivered env c"]])
       (use c st in \<open>auto simp: settledInto_def recoveryOf_def\<close>)
  then show "wp (if isTaskLeaseLostError e then act_return ()
               else scheduleRecovery c KPersist QUEUE_RECOVERY_DELAY_MS)
          (\<lambda>u. settledInto env task worked d) (\<lambda>e d'. False) d'"
    using ok after by (simp add: wp_rules delivered_def)
qed

lemma settleCompleted_wp:
  assumes "timersFresh d" and "\<not> dFinished d"
  shows "wp (settleCompleted env start v task) (\<lambda>u. settledInto env task (Inr v) d) (\<lambda>e d'. False) d"
  unfolding settleCompleted_def wp_bind wp_dNow wp_logEvent Let_def
  by (rule persist_or_recover [OF assms])
     (simp_all add: settledAs_def sameTask_def delivered_def wp_mono [OF persistCompletedTask_wp])

lemma settleFailed_wp:
  assumes "timersFresh d" and "\<not> dFinished d" and "\<not> tkRetries task < tkMaxRetries task"
  shows "wp (settleFailed env start err task) (\<lambda>u. settledInto env task (Inl err) d) (\<lambda>e d'. False) d"
  unfolding settleFailed_def wp_bind wp_dNow wp_logEvent
  by (rule persist_or_recover [OF assms(1,2)])
     (simp_all add: settledAs_def sameTask_def delivered_def assms(3) wp_mono [OF persistTask_wp])

lemma settleRetry_wp:
  assumes fresh: "timersFresh d" and open_d: "\<not> dFinished d" and more_left: "tkRetries task < tkMaxRetries task"
  shows "wp (settleRetry env err task) (\<lambda>u. settledInto env task (Inl err) d) (\<lambda>e d'. False) d"
proof -
  have enq: "wp (requeueTask env c) (\<lambda>u. settledInto env task (Inl err) d) (\<lambda>e d'. False) d1"
    "wp (scheduleRecovery c KEnqueue delay) (\<lambda>u. settledInto env task (Inl err) d) (\<lambda>e d'. False) d1"
    if only: "onlyQueue d d1" and c: "settledAs task (Inl err) c" and st: "tkState c = RETRYING" for c d1 delay
  proof -
    have ok: "settledInto env task (Inl err) d d'" if "onlyQueue d1 d'" "delivered env c" for d'
      using handedOver_none [OF onlyQueue_trans [OF only that(1)] fresh that(2)] c unfolding settledInto_def by blast
    have sched: "wp (scheduleRecovery c KEnqueue delay) (\<lambda>u. settledInto env task (Inl err) d) (\<lambda>e d'. False) d'"
      if "onlyQueue d d'" for d' delay
      by (rule wp_mono [OF handedOver_schedule [OF that fresh open_d, of c KEnqueue _ "delivered env c"]])
         (use c st in \<open>auto simp: settledInto_def recoveryOf_def\<close>)
    show "wp (scheduleRecovery c KEnqueue delay) (\<lambda>u. settledInto env task (Inl err) d) (\<lambda>e d'. False) d1"
      by (rule sched [OF only])
    have same: "c\<lparr>tkState := RETRYING\<rparr> = c" using st by simp
    show "wp (requeueTask env c) (\<lambda>u. settledInto env task (Inl err) d) (\<lambda>e d'. False) d1"
      unfolding requeueTask_def wp_catch same
    proof (rule wp_mono [OF workerEnqueue_wp])
      show "settledInto env task (Inl err) d d'"
        if "onlyQueue d1 d' \<and> enqueued env (c\<lparr>tkState := PENDING\<rparr>)" for u d'
        using ok that st by (simp add: delivered_def)
      show "wp (if isTaskLeaseLostError e then act_return ()
               else scheduleRecovery c KEnqueue QUEUE_RECOVERY_DELAY_MS)
          (\<lambda>u. settledInto env task (Inl err) d) (\<lambda>e d'. False) d'"
        if "onlyQueue d1 d' \<and> (isTaskLeaseLostError e \<longrightarrow> leaseLost env c)" for e d'
        using ok that sched onlyQueue_trans [OF only, of d'] by (simp add: wp_rules delivered_def)
    qed
  qed
  have main: "wp (handBack env c) (\<lambda>u. settledInto env task (Inl err) d) (\<lambda>e d'. False) d1"
    if only: "onlyQueue d d1" and c: "settledAs task (Inl err) c" and st: "tkState c = RETRYING" for c d1
    unfolding handBack_def wp_bind wp_catch wp_then
  proof (rule wp_mono [OF persistTask_wp])
    show "wp (act_return (Some True))
          (\<lambda>persisted. wp (case persisted of None \<Rightarrow> act_return ()
             | Some statusPersisted \<Rightarrow> act_bind (act_get dRunning) (\<lambda>running.
                 if \<not> running then requeueTask env c
                 else scheduleRecovery c KEnqueue (retryDelay statusPersisted (tkRetries c))))
             (\<lambda>u. settledInto env task (Inl err) d) (\<lambda>e d'. False))
          (\<lambda>e. wp (if isTaskLeaseLostError e then act_return None else act_return (Some False))
             (\<lambda>persisted. wp (case persisted of None \<Rightarrow> act_return ()
               | Some statusPersisted \<Rightarrow> act_bind (act_get dRunning) (\<lambda>running.
                   if \<not> running then requeueTask env c
                   else scheduleRecovery c KEnqueue (retryDelay statusPersisted (tkRetries c))))
               (\<lambda>u. settledInto env task (Inl err) d) (\<lambda>e d'. False)) (\<lambda>e d'. False)) d'"
      if "onlyQueue d1 d' \<and> updated env c" for u d'
      using that enq [OF onlyQueue_trans [OF only] c st] by (simp add: wp_rules)
    show "wp (if isTaskLeaseLostError e then act_return None else act_return (Some False))
             (\<lambda>persisted. wp (case persisted of None \<Rightarrow> act_return ()
               | Some statusPersisted \<Rightarrow> act_bind (act_get dRunning) (\<lambda>running.
                   if \<not> running then requeueTask env c
                   else scheduleRecovery c KEnqueue (retryDelay statusPersisted (tkRetries c))))
               (\<lambda>u. settledInto env task (Inl err) d) (\<lambda>e d'. False)) (\<lambda>e d'. False) d'"
      if after: "onlyQueue d1 d' \<and> (isTaskLeaseLostError e \<longrightarrow> leaseLost env c)" for e d'
    proof (cases "isTaskLeaseLostError e")
      case True
      have "onlyQueue d d'" using onlyQueue_trans [OF only] after by blast
      moreover have "delivered env c" using after True by (simp add: delivered_def)
      ultimately have "settledInto env task (Inl err) d d'"
        using handedOver_none [OF _ fresh] c unfolding settledInto_def by blast
      with True show ?thesis by (simp add: wp_rules)
    next
      case False
      with after enq [OF onlyQueue_trans [OF only] c st] show ?thesis by (simp add: wp_rules)
    qed
  qed
  show ?thesis
    unfolding settleRetry_def wp_bind wp_logEvent
    by (rule main) (simp_all add: settledAs_def sameTask_def more_left)
qed

lemma heartbeat_wp: "wp (sendHeartbeat env t) (\<lambda>u. onlyQueue d) (\<lambda>e d'. False) d"
proof -
  have any: "wp m (\<lambda>x q. True) (\<lambda>e q. True) q" for m :: "('q, taskError, unit) act" and q
    by (simp add: wp_any)
  show ?thesis
    by (simp add: sendHeartbeat_def wp_rules any)
qed

lemma heartbeats_wp: "wp (heartbeats env ts) (\<lambda>u. onlyQueue d) (\<lambda>e d'. False) d"
proof (induction ts arbitrary: d)
  case Nil
  then show ?case by (simp add: wp_rules)
next
  case (Cons t ts)
  have "wp (heartbeats env ts) (\<lambda>u. onlyQueue d) (\<lambda>e d'. False) d1" if "onlyQueue d d1" for d1
    by (rule wp_mono [OF Cons.IH]) (use onlyQueue_trans [OF that] in auto)
  then show ?case
    by (simp add: wp_then) (rule wp_mono [OF heartbeat_wp], auto)
qed

lemma settle_wp:
  assumes "timersFresh d" and "\<not> dFinished d"
  shows "wp (settle env start worked task)
    (\<lambda>u d'. \<exists>d1. settledInto env task worked d d1
       \<and> onlyQueue (d1\<lparr>dControllers := removeAll (controllerKey task) (dControllers d1), dActive := dActive d1 - 1\<rparr>) d')
    (\<lambda>e d'. False) d"
proof -
  let ?left = "\<lambda>d1. d1\<lparr>dControllers := removeAll (controllerKey task) (dControllers d1), dActive := dActive d1 - 1\<rparr>"
  have body: "wp (case worked of
          Inr value \<Rightarrow> settleCompleted env start value task
        | Inl err \<Rightarrow>
            if tkRetries task < tkMaxRetries task then settleRetry env err task
            else settleFailed env start err task)
      (\<lambda>u. settledInto env task worked d) (\<lambda>e d'. False) d"
    using settleCompleted_wp [OF assms] settleRetry_wp [OF assms] settleFailed_wp [OF assms]
    by (cases worked) auto
  have finish: "wp (act_then (act_modify ?left) (heartbeats env (weTenants env)))
      (\<lambda>u d'. \<exists>d1. settledInto env task worked d d1 \<and> onlyQueue (?left d1) d') (\<lambda>e d'. False) d1"
    if "settledInto env task worked d d1" for d1
    by (simp add: wp_then wp_modify) (rule wp_mono [OF heartbeats_wp], use that in auto)
  show ?thesis
    unfolding settle_def wp_then [of "case_sum a b c" for a b c]
    by (rule wp_mono [OF body]) (use finish in auto)
qed

section \<open>Properties\<close>


definition demoWorker :: "'q queueAdapter \<Rightarrow> 'q workerEnv" where
  "demoWorker ad = \<lparr>weWorkerId = ''w1'', weHostname = ''host'', weCapacity = 2, wePollIntervalMs = 200,
     weTenants = [''default'', ''acme''], weAdapter = ad, weClock = int, weUuid = (\<lambda>n. ''u'' @ showDec n)\<rparr>"


text \<open>The error text a task keeps after a failure never shows the message of an arbitrary
  error: it is the fixed text, the fixed text around a well-formed error code, or at most 64
  characters of a message that starts with an HTTP status.\<close>

lemma task_error_text_safe:
  "safeTaskError e = ''Task execution failed.''
   \<or> (\<exists>c. TASK_CODE_PATTERN c \<and> safeTaskError e = ''Task failed ('' @ c @ '').'')
   \<or> (\<exists>m. HTTP_STATUS_TEXT m \<and> safeTaskError e = take 64 m \<and> startsWith (safeTaskError e) ''HTTP ''
        \<and> length (safeTaskError e) \<le> 64)"
proof (cases "taskErrorCode e")
  case (Some c)
  then have "TASK_CODE_PATTERN c"
    by (auto simp: taskErrorCode_def split: jsval.splits if_splits)
  with Some show ?thesis by (auto simp: safeTaskError_def)
next
  case None
  have http: "startsWith (take 64 m) ''HTTP ''" if "HTTP_STATUS_TEXT m" for m
    using that by (auto simp: HTTP_STATUS_TEXT_def startsWith_def min_def)
  show ?thesis
  proof (cases "errorMessageOf e")
    case (Some m)
    with None http [of m] show ?thesis
      by (cases "HTTP_STATUS_TEXT m") (auto simp: safeTaskError_def)
  qed (simp add: safeTaskError_def None)
qed

section \<open>Claiming\<close>

lemma claimPartition_wp:
  "wp (claimPartition env p)
     (\<lambda>task d'. dActive d' = dActive d + (if task = None then 0 else 1) \<and> dCursor d' = dCursor d)
     (\<lambda>e d'. False) d"
proof -
  have uuid: "wp (\<lambda>d. (Inr (weUuid env (dUuids d)), d\<lparr>dUuids := Suc (dUuids d)\<rparr>)) Q E d
    = Q (weUuid env (dUuids d)) (d\<lparr>dUuids := Suc (dUuids d)\<rparr>)" for Q E and d :: "'q daemon"
    by (simp add: wp_def)
  show ?thesis
    by (auto simp: claimPartition_def Let_def wp_rules uuid intro!: wp_any)
qed

lemma claimPartitions_wp:
  "dActive d \<le> weCapacity env \<Longrightarrow>
   wp (claimPartitions env ps)
     (\<lambda>tasks d'. dActive d' = dActive d + int (length tasks) \<and> dActive d' \<le> weCapacity env
        \<and> length tasks \<le> length ps \<and> dCursor d' = dCursor d)
     (\<lambda>e d'. False) d"
proof (induction ps arbitrary: d)
  case Nil
  then show ?case by (simp add: wp_rules)
next
  case (Cons p ps)
  show ?case
  proof (cases "dActive d < weCapacity env")
    case False
    with Cons.prems show ?thesis by (simp add: wp_rules)
  next
    case True
    have rest: "wp (act_bind (claimPartitions env ps) (\<lambda>tasks.
              act_return (case task of None \<Rightarrow> tasks | Some t \<Rightarrow> t # tasks)))
        (\<lambda>tasks d'. dActive d' = dActive d + int (length tasks) \<and> dActive d' \<le> weCapacity env
            \<and> length tasks \<le> length (p # ps) \<and> dCursor d' = dCursor d) (\<lambda>e d'. False) d1"
      if d1: "dActive d1 = dActive d + (if task = None then 0 else 1) \<and> dCursor d1 = dCursor d" for task d1
      unfolding wp_bind wp_return
      by (rule wp_mono [OF Cons.IH]) (use d1 True in \<open>auto split: option.splits if_splits\<close>)
    show ?thesis
      using True
      by (simp add: wp_bind [of "act_get f" for f] wp_get) (simp only: wp_bind [of "claimPartition a b" for a b],
          rule wp_mono [OF claimPartition_wp], use rest in auto)
  qed
qed

lemma mod_shift: "(start + k) mod n = (if start + k < n then start + k else start + k - n)"
  if "start < n" "k < n" for start k n :: nat
  using that by (simp add: mod_if)

lemma mod_shift_inj: "inj_on (\<lambda>k. (start + k) mod n) {..<n}" if "start < n" for start n :: nat
proof (rule inj_onI)
  fix a b
  assume "a \<in> {..<n}" "b \<in> {..<n}" and eq: "(start + a) mod n = (start + b) mod n"
  then have "a < n" "b < n" by auto
  with eq that show "a = b"
    by (simp only: mod_shift) (auto split: if_splits)
qed

lemma visitOrder_all:
  assumes "start < n"
  shows "distinct (visitOrder start n) \<and> set (visitOrder start n) = {..<n} \<and> hd (visitOrder start n) = start"
proof -
  have sub: "set (visitOrder start n) \<subseteq> {..<n}"
    using assms by (auto simp: visitOrder_def)
  have dist: "distinct (visitOrder start n)"
    using mod_shift_inj [OF assms] by (simp add: visitOrder_def distinct_map lessThan_atLeast0)
  have "card (set (visitOrder start n)) = n"
    using distinct_card [OF dist] by (simp add: visitOrder_def)
  with sub have "set (visitOrder start n) = {..<n}"
    by (simp add: card_subset_eq)
  moreover have "hd (visitOrder start n) = start"
    using assms by (simp add: visitOrder_def upt_rec)
  ultimately show ?thesis using dist by simp
qed

text \<open>A claim round of a running worker with free capacity never fails and never takes more
  tasks than there is capacity for; it asks every tenant and shard once, beginning with the one
  its cursor names, and the cursor moves on by one, so that among as many rounds as there are
  partitions each partition is asked first.\<close>

lemma claim_rounds_fair:
  assumes "dRunning d" and "dActive d < weCapacity env" and "0 < partitionCount env"
    and "claimRound env d = (r, d')"
  shows "\<exists>tasks. r = Inr tasks \<and> dActive d' = dActive d + int (length tasks) \<and> dActive d' \<le> weCapacity env
    \<and> distinct (visitOrder (dCursor d mod partitionCount env) (partitionCount env))
    \<and> set (visitOrder (dCursor d mod partitionCount env) (partitionCount env)) = {..<partitionCount env}
    \<and> dCursor d' = (dCursor d mod partitionCount env + 1) mod partitionCount env
    \<and> (\<forall>p. p < partitionCount env \<longrightarrow> (\<exists>k < partitionCount env.
          hd (visitOrder ((dCursor d + k) mod partitionCount env) (partitionCount env)) = p))"
proof -
  let ?n = "partitionCount env" and ?start = "dCursor d mod partitionCount env"
  have start: "?start < ?n" using assms(3) by simp
  have round: "wp (claimRound env) (\<lambda>tasks d'. dActive d' = dActive d + int (length tasks)
      \<and> dActive d' \<le> weCapacity env \<and> dCursor d' = (?start + 1) mod ?n) (\<lambda>e d'. False) d"
  proof -
    have "wp (claimPartitions env (visitOrder ?start ?n)) (\<lambda>tasks.
          wp (act_then (act_modify (\<lambda>d. d\<lparr>dCursor := (?start + 1) mod ?n\<rparr>)) (act_return tasks))
            (\<lambda>tasks d'. dActive d' = dActive d + int (length tasks)
              \<and> dActive d' \<le> weCapacity env \<and> dCursor d' = (?start + 1) mod ?n) (\<lambda>e d'. False)) (\<lambda>e d'. False) d"
      by (rule wp_mono [OF claimPartitions_wp]) (use assms(2) in \<open>auto simp: wp_then wp_modify wp_return\<close>)
    with assms(1-3) show ?thesis
      by (simp add: claimRound_def Let_def wp_get wp_bind)
  qed
  have first: "\<exists>k<?n. hd (visitOrder ((dCursor d + k) mod ?n) ?n) = p" if p: "p < ?n" for p
  proof -
    have "p \<in> set (visitOrder ?start ?n)" using p visitOrder_all [OF start] by simp
    then obtain k where k: "k < ?n" "p = (?start + k) mod ?n" by (auto simp: visitOrder_def)
    then have "(dCursor d + k) mod ?n = p" by (simp add: mod_add_left_eq)
    with k(1) visitOrder_all [OF p] show ?thesis by auto
  qed
  obtain tasks where r: "r = Inr tasks"
    using round assms(4) by (cases r) (auto simp: wp_def)
  with wp_Inr [OF round assms(4) [unfolded r]] visitOrder_all [OF start] first show ?thesis by blast
qed

lemma claim_rounds_fair_witness:
  "let d = (newDaemon (queueRun memStep [QEnqueue 1 (demoTask ''a'')] newMemoryQueue))\<lparr>dRunning := True, dCursor := 1\<rparr>;
       out = claimRound (demoWorker memoryAdapter) d
   in dActive (snd out) = 1 \<and> dCursor (snd out) = 0 \<and> (\<exists>tasks. fst out = Inr tasks \<and> length tasks = 1)"
proof -
  let ?d = "(newDaemon (queueRun memStep [QEnqueue 1 (demoTask ''a'')] newMemoryQueue))\<lparr>dRunning := True, dCursor := 1\<rparr>"
  let ?env = "demoWorker memoryAdapter" and ?out = "claimRound (demoWorker memoryAdapter) ?d"
  have "partitionCount ?env = 2" by code_simp
  moreover have "dActive (snd ?out) = 1" by code_simp
  moreover have "weCapacity ?env = 2" by (simp add: demoWorker_def)
  ultimately show ?thesis
    using claim_rounds_fair [of ?d ?env "fst ?out" "snd ?out"]
    unfolding Let_def by (auto simp: newDaemon_def)
qed

section \<open>Shutdown\<close>

text \<open>The recovery work is done: its record reached the queue, or the worker has lost the task.\<close>

definition flushed :: "'q workerEnv \<Rightarrow> recoveryWork \<Rightarrow> bool" where
  "flushed env w \<longleftrightarrow> leaseLost env (rwTask w)
     \<or> (case rwKind w of
          KEnqueue \<Rightarrow> enqueued env ((rwTask w)\<lparr>tkState := PENDING\<rparr>)
        | KPersist \<Rightarrow> updated env (rwTask w) \<and> (tkState (rwTask w) = COMPLETED \<longrightarrow> marked env (rwTask w)))"

lemma flushRecovery_wp:
  "wp (flushRecovery env w) (\<lambda>u d'. onlyQueue d d' \<and> flushed env w)
     (\<lambda>e d'. onlyQueue d d' \<and> (isTaskLeaseLostError e \<longrightarrow> flushed env w)) d"
proof (cases "rwKind w")
  case KEnqueue
  then show ?thesis
    unfolding flushRecovery_def by simp (rule wp_mono [OF workerEnqueue_wp], auto simp: flushed_def)
next
  case KPersist
  show ?thesis
  proof (cases "tkState (rwTask w) = COMPLETED")
    case True
    with KPersist show ?thesis
      unfolding flushRecovery_def by simp (rule wp_mono [OF persistCompletedTask_wp], auto simp: flushed_def)
  next
    case False
    with KPersist show ?thesis
      unfolding flushRecovery_def by simp (rule wp_mono [OF persistTask_wp], auto simp: flushed_def)
  qed
qed

lemma flushCollecting_wp:
  "wp (flushCollecting env w) (\<lambda>es d'. onlyQueue d d' \<and> (es = [] \<longrightarrow> flushed env w)) (\<lambda>e d'. False) d"
  unfolding flushCollecting_def wp_catch wp_then wp_return
  by (rule wp_mono [OF flushRecovery_wp]) auto

lemma flushAll_wp:
  "wp (flushAll env ws) (\<lambda>es d'. onlyQueue d d' \<and> (es = [] \<longrightarrow> list_all (flushed env) ws)) (\<lambda>e d'. False) d"
proof (induction ws arbitrary: d)
  case Nil
  then show ?case by (simp add: wp_return)
next
  case (Cons w ws)
  have rest: "wp (act_bind (flushAll env ws) (\<lambda>fs. act_return (es @ fs)))
      (\<lambda>es d'. onlyQueue d d' \<and> (es = [] \<longrightarrow> list_all (flushed env) (w # ws))) (\<lambda>e d'. False) d1"
    if "onlyQueue d d1 \<and> (es = [] \<longrightarrow> flushed env w)" for es d1
    unfolding wp_bind wp_return
    by (rule wp_mono [OF Cons.IH]) (use that onlyQueue_trans [of d d1] in auto)
  show ?case
    unfolding flushAll.simps wp_bind [of "flushCollecting a b" for a b]
    by (rule wp_mono [OF flushCollecting_wp]) (use rest in auto)
qed

definition stopped :: "'q workerEnv \<Rightarrow> 'q daemon \<Rightarrow> taskError list \<Rightarrow> 'q daemon \<Rightarrow> bool" where
  "stopped env d errors d' \<longleftrightarrow> dClosed d' \<and> dFinished d' \<and> \<not> dRunning d' \<and> pendingWorks d' = []
     \<and> dActive d' = dActive d
     \<and> (errors = [] \<longrightarrow> list_all (flushed env) (pendingWorks d) \<and> dFailures d = [] \<and> dActive d \<le> 0)"

lemma closeQueue_wp:
  "wp (act_catch (act_then (withQueue m) (act_return None)) (\<lambda>e. act_return (Some e)))
     (\<lambda>x. onlyQueue d) (\<lambda>e d'. False) d"
  by (auto simp: wp_catch wp_then wp_withQueue wp_return intro: wp_any)

lemma wp_step:
  "wp m P (\<lambda>e t. False) s \<Longrightarrow> (\<And>x t. P x t \<Longrightarrow> wp (k x) Q E t) \<Longrightarrow> wp (act_bind m k) Q E s"
  unfolding wp_bind by (erule wp_mono) auto

lemma takeFailures_wp: "wp takeFailures Q E d = Q (dFailures d) (d\<lparr>dFailures := []\<rparr>)"
  by (simp add: takeFailures_def wp_rules)

lemma stopInternal_wp:
  assumes "\<not> dClosed d"
  shows "wp (stopInternal env) (\<lambda>u d'. stopped env d [] d')
    (\<lambda>e d'. \<exists>errors. errors \<noteq> [] \<and> e = AggregateError errors ''Worker shutdown could not durably flush queue recovery work.''
       \<and> stopped env d errors d') d"
    (is "wp _ ?Q ?E d")
proof -
  let ?works = "map (fst \<circ> snd) (dTimers d)"
  have last: "wp (act_then (act_modify (\<lambda>d. d\<lparr>dFinished := True\<rparr>))
       (act_throwIf (errors \<noteq> []) (AggregateError errors ''Worker shutdown could not durably flush queue recovery work.'')))
     ?Q ?E d1"
    if "errors = [] \<longrightarrow> list_all (flushed env) (pendingWorks d) \<and> dFailures d = [] \<and> dActive d \<le> 0"
      and "dClosed d1 \<and> \<not> dRunning d1 \<and> pendingWorks d1 = [] \<and> dActive d1 = dActive d" for errors d1
    using that by (auto simp: wp_rules stopped_def pendingWorks_def)
  note heads = wp_bind [of "act_get f" for f] wp_get wp_then [of "act_modify f" for f] wp_modify
    wp_bind [of takeFailures] takeFailures_wp
  show ?thesis
    unfolding stopInternal_def heads Let_def
    apply (simp only: assms if_False heads)
    apply (rule wp_step [OF flushAll_wp], simp only: heads)
    apply (rule wp_step [OF flushAll_wp], simp only: heads)
    apply (rule wp_step [OF closeQueue_wp])
    apply (rule last)
     apply (auto simp: pendingWorks_def onlyQueue_def sameControl_def split: option.splits if_splits)
    done
qed



section \<open>Completion on Redis\<close>

lemma updateOf_unleased:
  assumes "nonEmpty (tkLeaseId task) \<noteq> None" and "proc cfg s (tkTenantId task) (tkId task) = None"
  shows "updateOf cfg now task s = (False, s)"
proof -
  have "orEmpty (tkLeaseId task) \<noteq> []"
    using assms(1) by (auto simp: orEmpty_def nonEmpty_def split: option.splits)
  then have "\<not> updateGuard (ownKey cfg task) (ownProcessing cfg task) (tkId task) now
      (orEmpty (tkLeaseId task)) (orEmpty (tkWorkerId task)) s"
    using assms(2) by (auto simp: updateGuard_def proc_def split: option.splits)
  then show ?thesis by (simp add: updateOf_def updateScript_def Let_def)
qed

lemma redis_settled_final:
  assumes cfg: "configOk cfg" and leased: "nonEmpty (tkLeaseId task) \<noteq> None" and final: "terminal (tkState task)"
    and stored: "redisUpdateTask cfg now task s = (Inr (), s')"
  shows "redisUpdateTask cfg now' task s' = (Inl TaskLeaseLostError, s')"
proof -
  have tenant: "TENANT_ID_PATTERN (tkTenantId task)" and upd: "updateOf cfg now task s = (True, s')"
    using stored by (auto simp: redisUpdateTask_eq outcome_def prod_eq_iff split: if_splits)
  have "proc cfg s' (tkTenantId task) (tkId task) = None"
    using updateOf_view(1) [OF cfg tenant tenant upd, of "tkId task"] final
    by (auto simp: view_def terminal_def runnable_def)
  with leased have "updateOf cfg now' task s' = (False, s')" by (rule updateOf_unleased)
  with tenant show ?thesis by (simp add: redisUpdateTask_eq outcome_def)
qed

text \<open>On Redis a completed record is stored at most once: when the write of the completed
  record succeeded and only the URL marker failed, the recovery the worker keeps for it is
  refused as a lost lease before the marker is tried again, because the first write has
  already removed the lease entry; nothing changes in the database.\<close>

lemma redis_marker_recovery_fenced:
  assumes "configOk cfg" and "weAdapter env = redisAdapter cfg scan"
    and "tkState task = COMPLETED" and "nonEmpty (tkLeaseId task) \<noteq> None"
    and "persistTask env task d = (Inr (), d1)" and "dQueue d2 = dQueue d1"
  shows "fst (flushRecovery env \<lparr>rwTask = task, rwKind = KPersist\<rparr> d2) = Inl TaskLeaseLostError
    \<and> dQueue (snd (flushRecovery env \<lparr>rwTask = task, rwKind = KPersist\<rparr> d2)) = dQueue d2"
proof -
  have final: "terminal (tkState task)" using assms(3) by (simp add: terminal_def)
  obtain now where "redisUpdateTask cfg now task (dQueue d) = (Inr (), dQueue d1)"
    using assms(2,5) by (auto simp: persistTask_def act_bind_def dNow_def withQueue_def redisAdapter_def
        split: prod.splits)
  then have again: "redisUpdateTask cfg now' task (dQueue d2) = (Inl TaskLeaseLostError, dQueue d2)" for now'
    unfolding assms(6) by (rule redis_settled_final [OF assms(1,4) final])
  show ?thesis
    by (simp add: flushRecovery_def persistCompletedTask_def assms(2,3) persistTask_def act_defs dNow_def
        withQueue_def redisAdapter_def again)
qed

lemma redis_marker_recovery_fenced_witness:
  "let env = demoWorker (redisAdapter demoConfig (\<lambda>p. []));
       task = (claimed 10 ''u1'' ''w1'' (demoTask ''a''))\<lparr>tkState := COMPLETED\<rparr>;
       out = persistTask env task ((newDaemon demoClaimed)\<lparr>dReads := 11\<rparr>)
   in fst out = Inr () \<and> fst (flushRecovery env \<lparr>rwTask = task, rwKind = KPersist\<rparr> (snd out)) = Inl TaskLeaseLostError"
proof -
  let ?env = "demoWorker (redisAdapter demoConfig (\<lambda>p. []))"
  let ?task = "(claimed 10 ''u1'' ''w1'' (demoTask ''a''))\<lparr>tkState := COMPLETED\<rparr>"
  let ?d = "(newDaemon demoClaimed)\<lparr>dReads := 11\<rparr>"
  have cfg: "configOk demoConfig" by (simp add: configOk_def demoConfig_def)
  have env: "weAdapter ?env = redisAdapter demoConfig (\<lambda>p. [])" by (simp add: demoWorker_def)
  have fst_out: "fst (persistTask ?env ?task ?d) = Inr ()" by code_simp
  then have out: "persistTask ?env ?task ?d = (Inr (), snd (persistTask ?env ?task ?d))" by (metis prod.collapse)
  have "tkState ?task = COMPLETED" "nonEmpty (tkLeaseId ?task) \<noteq> None" by code_simp+
  from redis_marker_recovery_fenced [OF cfg env this out refl] fst_out show ?thesis
    unfolding Let_def by blast
qed

end
