(* ===== verification/ServerConfig.thy ===== *)
theory ServerConfig
  imports HostRules
begin

text \<open>
  The automation policies (\<open>browser/automation-policy.ts\<close>) and the rest of \<open>loadConfig\<close>
  (\<open>config.ts\<close>): booleans, bounded integers and server paths from the environment.  Paths are
  POSIX paths; \<open>normalize\<close>, \<open>join\<close> and \<open>resolve\<close> of \<open>node:path\<close> are definitions, the working
  directory and \<open>domainToASCII\<close> are parameters.
\<close>

section \<open>Automation policies\<close>

datatype policyName = StrictPolicy | StandardPolicy | TrustedLocalPolicy

record policyLimits =
  plMaxTabs :: int
  plMaxWorkflowSteps :: int
  plMaxWorkflowDurationMs :: int
  plMaxWorkflowResultBytes :: int
  plMaxScrollAmount :: int
  plMaxSnapshots :: int
  plSnapshotTtlMs :: int
  plSnapshotMaxBytes :: int
  plSnapshotMaxSnapshotBytes :: int
  plSessionTtlMs :: int
  plWorkspaceTtlMs :: int

definition HARD_AUTOMATION_LIMITS :: policyLimits where
  "HARD_AUTOMATION_LIMITS = \<lparr>plMaxTabs = 32, plMaxWorkflowSteps = 100, plMaxWorkflowDurationMs = 5 * 60000,
     plMaxWorkflowResultBytes = 1024 * 1024, plMaxScrollAmount = 20, plMaxSnapshots = 256,
     plSnapshotTtlMs = 24 * 60 * 60000, plSnapshotMaxBytes = 16 * 1024 * 1024,
     plSnapshotMaxSnapshotBytes = 4 * 1024 * 1024, plSessionTtlMs = 24 * 60 * 60000,
     plWorkspaceTtlMs = 7 * 24 * 60 * 60000\<rparr>"

fun POLICY_PROFILES :: "policyName \<Rightarrow> policyLimits" where
  "POLICY_PROFILES StrictPolicy = \<lparr>plMaxTabs = 5, plMaxWorkflowSteps = 10, plMaxWorkflowDurationMs = 30000,
     plMaxWorkflowResultBytes = 64000, plMaxScrollAmount = 3, plMaxSnapshots = 32,
     plSnapshotTtlMs = 10 * 60000, plSnapshotMaxBytes = 2 * 1024 * 1024,
     plSnapshotMaxSnapshotBytes = 256 * 1024, plSessionTtlMs = 30 * 60000,
     plWorkspaceTtlMs = 24 * 60 * 60000\<rparr>"
| "POLICY_PROFILES StandardPolicy = \<lparr>plMaxTabs = 12, plMaxWorkflowSteps = 50, plMaxWorkflowDurationMs = 2 * 60000,
     plMaxWorkflowResultBytes = 256 * 1024, plMaxScrollAmount = 10, plMaxSnapshots = 64,
     plSnapshotTtlMs = 30 * 60000, plSnapshotMaxBytes = 4 * 1024 * 1024,
     plSnapshotMaxSnapshotBytes = 512 * 1024, plSessionTtlMs = 2 * 60 * 60000,
     plWorkspaceTtlMs = 7 * 24 * 60 * 60000\<rparr>"
| "POLICY_PROFILES TrustedLocalPolicy = \<lparr>plMaxTabs = 20, plMaxWorkflowSteps = 100, plMaxWorkflowDurationMs = 5 * 60000,
     plMaxWorkflowResultBytes = 1024 * 1024, plMaxScrollAmount = 20, plMaxSnapshots = 256,
     plSnapshotTtlMs = 24 * 60 * 60000, plSnapshotMaxBytes = 16 * 1024 * 1024,
     plSnapshotMaxSnapshotBytes = 1 * 1024 * 1024, plSessionTtlMs = 24 * 60 * 60000,
     plWorkspaceTtlMs = 7 * 24 * 60 * 60000\<rparr>"

definition DEFAULT_AUTOMATION_POLICY :: policyName where
  "DEFAULT_AUTOMATION_POLICY = StandardPolicy"

text \<open>\<open>value?.trim() || DEFAULT_AUTOMATION_POLICY\<close>, then the name; the error names the text.\<close>

definition parseAutomationPolicy :: "string option \<Rightarrow> string + policyName" where
  "parseAutomationPolicy value =
     (let normalized = (case value of None \<Rightarrow> [] | Some v \<Rightarrow> trim v) in
      if normalized = [] then Inr DEFAULT_AUTOMATION_POLICY
      else if normalized = ''strict'' then Inr StrictPolicy
      else if normalized = ''standard'' then Inr StandardPolicy
      else if normalized = ''trusted-local'' then Inr TrustedLocalPolicy
      else Inl (''Unknown automation policy: '' @ normalized))"

section \<open>Values of the environment\<close>

text \<open>\<open>CONFIG_LIMITS\<close>: least, greatest and default value.\<close>

record configRange =
  crMin :: int
  crMax :: int
  crDefault :: int

definition LIMIT_maxSessions :: configRange where
  "LIMIT_maxSessions = \<lparr>crMin = 1, crMax = 32, crDefault = 2\<rparr>"
definition LIMIT_timeoutMs :: configRange where
  "LIMIT_timeoutMs = \<lparr>crMin = 1000, crMax = 60000, crDefault = 15000\<rparr>"
definition LIMIT_sessionTtlMs :: configRange where
  "LIMIT_sessionTtlMs = \<lparr>crMin = 60000, crMax = 86400000, crDefault = 2 * 60 * 60000\<rparr>"
definition LIMIT_workspaceTtlMs :: configRange where
  "LIMIT_workspaceTtlMs = \<lparr>crMin = 60000, crMax = 7 * 24 * 60 * 60000, crDefault = 7 * 24 * 60 * 60000\<rparr>"
definition LIMIT_mcpRatePerSecond :: configRange where
  "LIMIT_mcpRatePerSecond = \<lparr>crMin = 1, crMax = 1000, crDefault = 20\<rparr>"
definition LIMIT_mcpBurst :: configRange where
  "LIMIT_mcpBurst = \<lparr>crMin = 1, crMax = 10000, crDefault = 40\<rparr>"
definition LIMIT_maxPathLength :: int where
  "LIMIT_maxPathLength = 4096"

definition parseBoolean :: "string option \<Rightarrow> string \<Rightarrow> configFault + bool" where
  "parseBoolean raw field =
     (case raw of
        None \<Rightarrow> Inr False
      | Some r \<Rightarrow>
          (let value = toLowerCase (trim r) in
           if value = ''true'' then Inr True
           else if value = ''false'' then Inr False
           else Inl (configError field ''expected true or false'')))"

text \<open>
  A run of digits is a safe integer exactly when its value is at most \<open>2^53 - 1\<close>: beyond it
  \<open>Number\<close> gives a double that is not safe.
\<close>

definition parseBoundedInteger ::
  "string option \<Rightarrow> int \<Rightarrow> int \<Rightarrow> int \<Rightarrow> string \<Rightarrow> configFault + int" where
  "parseBoundedInteger raw defaultValue low high field =
     (case raw of
        None \<Rightarrow> Inr defaultValue
      | Some r \<Rightarrow>
          (let value = trim r in
           if value = [] \<or> \<not> list_all isDigit value then Inl (configError field ''expected an integer'')
           else (let parsed = int (decimalValue value) in
                 if parsed > 9007199254740991 \<or> parsed < low \<or> parsed > high
                 then Inl (configError field
                   (''must be between '' @ showDec (nat low) @ '' and '' @ showDec (nat high)))
                 else Inr parsed)))"

section \<open>Paths\<close>

text \<open>The segments of a path that starts at the root: \<open>.\<close> and empty ones vanish, \<open>..\<close> goes up.\<close>

definition pathStep :: "string \<Rightarrow> string list \<Rightarrow> string list" where
  "pathStep seg stack =
     (if seg = [] \<or> seg = ''.'' then stack
      else if seg = ''..'' then butlast stack
      else stack @ [seg])"

definition rootSegments :: "string \<Rightarrow> string list" where
  "rootSegments path = fold pathStep (splitChar (CHR ''/'') path) []"

text \<open>\<open>normalize\<close> of an absolute path keeps a trailing separator; \<open>resolve\<close> does not.\<close>

definition normalizePath :: "string \<Rightarrow> string" where
  "normalizePath path =
     (let segs = rootSegments path in
      if segs = [] then ''/''
      else ''/'' @ joinStr ''/'' segs @ (if last path = CHR ''/'' then ''/'' else []))"

definition resolvePath :: "string \<Rightarrow> string \<Rightarrow> string" where
  "resolvePath cwd relative =
     (let segs = rootSegments (cwd @ ''/'' @ relative) in ''/'' @ joinStr ''/'' segs)"

definition joinPath :: "string \<Rightarrow> string \<Rightarrow> string" where
  "joinPath dir name = normalizePath (dir @ ''/'' @ name)"

definition parseServerPath :: "string option \<Rightarrow> string \<Rightarrow> string \<Rightarrow> configFault + string" where
  "parseServerPath raw fallback field =
     (if (case raw of None \<Rightarrow> False | Some r \<Rightarrow> trim r = []) then Inl (configError field ''path cannot be empty'')
      else
        (let value = trim (case raw of None \<Rightarrow> fallback | Some r \<Rightarrow> r) in
         if CHR 0x00 \<in> set value then Inl (configError field ''path contains an invalid character'')
         else if LIMIT_maxPathLength < int (length value)
         then Inl (configError field (''path exceeds '' @ showDec (nat LIMIT_maxPathLength) @ '' characters''))
         else if \<not> startsWith value ''/''
         then Inl (configError field ''path must be absolute and server-configured'')
         else (let normalized = normalizePath value in
               if normalized = ''/'' then Inl (configError field ''root directory is not an acceptable path'')
               else Inr normalized)))"

section \<open>The configuration\<close>

record configEnv =
  ceAllowedHosts :: "string option"
  ceResourceHosts :: "string option"
  ceAllowHttp :: "string option"
  ceAllowPrivateNetwork :: "string option"
  ceAllowSyntheticTunnel :: "string option"
  ceAutomationPolicy :: "string option"
  ceMaxSessions :: "string option"
  ceTimeoutMs :: "string option"
  ceDefaultTimeoutMs :: "string option"
  ceSessionTtlMs :: "string option"
  ceWorkspaceTtlMs :: "string option"
  ceMcpRatePerSecond :: "string option"
  ceMcpBurst :: "string option"
  ceDataDir :: "string option"
  cePersistProfiles :: "string option"
  ceAuditPath :: "string option"

record appConfig =
  acAllowedHosts :: "string list"
  acResourceHosts :: "string list"
  acAllowHttp :: bool
  acAllowPrivateNetwork :: bool
  acAllowSyntheticTunnel :: bool
  acMaxSessions :: int
  acTimeoutMs :: int
  acAutomationPolicy :: policyName
  acSessionTtlMs :: int
  acWorkspaceTtlMs :: int
  acMcpRatePerSecond :: int
  acMcpBurst :: int
  acDataDir :: string
  acPersistentProfiles :: bool
  acAuditPath :: string

definition parseLimit :: "string option \<Rightarrow> configRange \<Rightarrow> string \<Rightarrow> configFault + int" where
  "parseLimit raw rng field = parseBoundedInteger raw (crDefault rng) (crMin rng) (crMax rng) field"

definition orElse :: "string option \<Rightarrow> string option \<Rightarrow> string option" where
  "orElse a b = (case a of None \<Rightarrow> b | Some v \<Rightarrow> Some v)"

definition loadConfig :: "(string \<Rightarrow> string) \<Rightarrow> string \<Rightarrow> configEnv \<Rightarrow> configFault + appConfig" where
  "loadConfig toASCII cwd env =
     (case ceAllowedHosts env of
        None \<Rightarrow> Inl (configError ''BROWSER_ALLOWED_HOSTS'' ''the variable is required and cannot be empty'')
      | Some allowedRaw \<Rightarrow>
     if trim allowedRaw = []
     then Inl (configError ''BROWSER_ALLOWED_HOSTS'' ''the variable is required and cannot be empty'')
     else bindR (parseHostList toASCII (JStr allowedRaw) ''BROWSER_ALLOWED_HOSTS'') (\<lambda>allowedHosts.
     bindR (case ceResourceHosts env of
              None \<Rightarrow> Inr allowedHosts
            | Some resourceRaw \<Rightarrow>
                if trim resourceRaw = [] then Inr allowedHosts
                else parseHostList toASCII (JStr resourceRaw) ''BROWSER_RESOURCE_HOSTS'') (\<lambda>resourceHosts.
     bindR (parseBoolean (ceAllowHttp env) ''BROWSER_ALLOW_HTTP'') (\<lambda>allowHttp.
     bindR (parseBoolean (ceAllowPrivateNetwork env) ''BROWSER_ALLOW_PRIVATE_NETWORK'') (\<lambda>allowPrivate.
     bindR (parseBoolean (ceAllowSyntheticTunnel env) ''BROWSER_ALLOW_SYNTHETIC_TUNNEL'') (\<lambda>allowTunnel.
     bindR (case parseAutomationPolicy (ceAutomationPolicy env) of
              Inl e \<Rightarrow> Inl (configError ''BROWSER_AUTOMATION_POLICY'' ''must be strict, standard, or trusted-local'')
            | Inr p \<Rightarrow> Inr p) (\<lambda>policy.
     let limits = POLICY_PROFILES policy in
     bindR (parseLimit (ceMaxSessions env) LIMIT_maxSessions ''BROWSER_MAX_SESSIONS'') (\<lambda>maxSessions.
     bindR (parseLimit (orElse (ceTimeoutMs env) (ceDefaultTimeoutMs env)) LIMIT_timeoutMs ''BROWSER_TIMEOUT_MS'')
       (\<lambda>timeoutMs.
     bindR (parseBoundedInteger (ceSessionTtlMs env) (plSessionTtlMs limits) (crMin LIMIT_sessionTtlMs)
              (min (crMax LIMIT_sessionTtlMs) (plSessionTtlMs limits)) ''BROWSER_SESSION_TTL_MS'') (\<lambda>sessionTtlMs.
     bindR (parseBoundedInteger (ceWorkspaceTtlMs env) (plWorkspaceTtlMs limits) (crMin LIMIT_workspaceTtlMs)
              (min (crMax LIMIT_workspaceTtlMs) (plWorkspaceTtlMs limits)) ''BROWSER_WORKSPACE_TTL_MS'')
       (\<lambda>workspaceTtlMs.
     bindR (parseLimit (ceMcpRatePerSecond env) LIMIT_mcpRatePerSecond ''MCP_RATE_PER_SECOND'') (\<lambda>rate.
     bindR (parseLimit (ceMcpBurst env) LIMIT_mcpBurst ''MCP_BURST'') (\<lambda>burst.
     bindR (parseServerPath (ceDataDir env) (resolvePath cwd ''.browser-data'') ''BROWSER_DATA_DIR'') (\<lambda>dataDir.
     bindR (parseBoolean (cePersistProfiles env) ''BROWSER_PERSIST_PROFILES'') (\<lambda>persistent.
     bindR (parseServerPath (ceAuditPath env) (joinPath dataDir ''audit.jsonl'') ''BROWSER_AUDIT_PATH'') (\<lambda>auditPath.
     Inr \<lparr>acAllowedHosts = allowedHosts, acResourceHosts = resourceHosts, acAllowHttp = allowHttp,
          acAllowPrivateNetwork = allowPrivate, acAllowSyntheticTunnel = allowTunnel,
          acMaxSessions = maxSessions, acTimeoutMs = timeoutMs, acAutomationPolicy = policy,
          acSessionTtlMs = sessionTtlMs, acWorkspaceTtlMs = workspaceTtlMs,
          acMcpRatePerSecond = rate, acMcpBurst = burst, acDataDir = dataDir,
          acPersistentProfiles = persistent, acAuditPath = auditPath\<rparr>))))))))))))))))"

section \<open>What an accepted configuration satisfies\<close>

text \<open>A path below the root with no empty, \<open>.\<close> or \<open>..\<close> segment.\<close>

definition cleanSegment :: "string \<Rightarrow> bool" where
  "cleanSegment seg \<longleftrightarrow> seg \<noteq> [] \<and> seg \<noteq> ''.'' \<and> seg \<noteq> ''..'' \<and> CHR ''/'' \<notin> set seg"

definition cleanPath :: "string \<Rightarrow> bool" where
  "cleanPath p \<longleftrightarrow> (\<exists>segs. segs \<noteq> [] \<and> list_all cleanSegment segs
     \<and> (p = ''/'' @ joinStr ''/'' segs \<or> p = ''/'' @ joinStr ''/'' segs @ ''/''))"

definition withinLimit :: "int \<Rightarrow> configRange \<Rightarrow> bool" where
  "withinLimit n rng \<longleftrightarrow> crMin rng \<le> n \<and> n \<le> crMax rng"

lemma pathStep_clean:
  "CHR ''/'' \<notin> set seg \<Longrightarrow> list_all cleanSegment stack \<Longrightarrow> list_all cleanSegment (pathStep seg stack)"
  by (auto simp: pathStep_def cleanSegment_def list_all_iff dest: in_set_butlastD)

lemma rootSegments_clean: "list_all cleanSegment (rootSegments path)"
proof -
  have "list_all cleanSegment stack \<Longrightarrow> \<forall>seg\<in>set segs. CHR ''/'' \<notin> set seg \<Longrightarrow>
      list_all cleanSegment (fold pathStep segs stack)" for segs stack
    by (induction segs arbitrary: stack) (simp_all add: pathStep_clean)
  then show ?thesis by (simp add: rootSegments_def splitChar_parts)
qed

lemma normalizePath_clean: "normalizePath path = ''/'' \<or> cleanPath (normalizePath path)"
  using rootSegments_clean [of path]
  by (auto simp: normalizePath_def cleanPath_def Let_def intro!: exI [of _ "rootSegments path"])

lemma parseServerPath_clean: "parseServerPath raw fallback field = Inr p \<Longrightarrow> cleanPath p"
  using normalizePath_clean [of "trim (case raw of None \<Rightarrow> fallback | Some r \<Rightarrow> r)"]
  by (auto simp: parseServerPath_def Let_def split: if_splits)

lemma parseBoundedInteger_within:
  "parseBoundedInteger raw d low high field = Inr n \<Longrightarrow> low \<le> d \<Longrightarrow> d \<le> high \<Longrightarrow> low \<le> n \<and> n \<le> high"
  by (auto simp: parseBoundedInteger_def Let_def split: option.splits if_splits)

lemma parseLimit_within:
  "parseLimit raw rng field = Inr n \<Longrightarrow> withinLimit (crDefault rng) rng \<Longrightarrow> withinLimit n rng"
  unfolding parseLimit_def withinLimit_def by (auto dest: parseBoundedInteger_within)

lemmas limit_defs = LIMIT_maxSessions_def LIMIT_timeoutMs_def LIMIT_sessionTtlMs_def LIMIT_workspaceTtlMs_def
  LIMIT_mcpRatePerSecond_def LIMIT_mcpBurst_def

lemma policy_ttls:
  "60000 \<le> plSessionTtlMs (POLICY_PROFILES p)" "plSessionTtlMs (POLICY_PROFILES p) \<le> 86400000"
  "60000 \<le> plWorkspaceTtlMs (POLICY_PROFILES p)" "plWorkspaceTtlMs (POLICY_PROFILES p) \<le> 7 * 24 * 60 * 60000"
  by (cases p; simp)+

definition demoConfigEnv :: configEnv where
  "demoConfigEnv = \<lparr>ceAllowedHosts = Some '' *.Ex.com., 10.0.0.1,*.ex.com'', ceResourceHosts = None,
     ceAllowHttp = Some ''True'', ceAllowPrivateNetwork = None, ceAllowSyntheticTunnel = None,
     ceAutomationPolicy = Some '' strict '', ceMaxSessions = Some ''8'', ceTimeoutMs = None,
     ceDefaultTimeoutMs = None, ceSessionTtlMs = None, ceWorkspaceTtlMs = None,
     ceMcpRatePerSecond = None, ceMcpBurst = None, ceDataDir = Some ''/srv/../var//data/'',
     cePersistProfiles = None, ceAuditPath = None\<rparr>"

lemma demo_values:
  "trim '' *.Ex.com., 10.0.0.1,*.ex.com'' \<noteq> []"
  "parseHostList id (JStr '' *.Ex.com., 10.0.0.1,*.ex.com'') ''BROWSER_ALLOWED_HOSTS'' = Inr [''*.ex.com'', ''10.0.0.1'']"
  "parseBoolean (Some ''True'') ''BROWSER_ALLOW_HTTP'' = Inr True"
  "parseAutomationPolicy (Some '' strict '') = Inr StrictPolicy"
  "parseLimit (Some ''8'') LIMIT_maxSessions ''BROWSER_MAX_SESSIONS'' = Inr 8"
  "parseServerPath (Some ''/srv/../var//data/'') (resolvePath ''/srv'' ''.browser-data'') ''BROWSER_DATA_DIR'' = Inr ''/var/data/''"
  "parseServerPath None (joinPath ''/var/data/'' ''audit.jsonl'') ''BROWSER_AUDIT_PATH'' = Inr ''/var/data/audit.jsonl''"
  by code_simp+

lemma defaults:
  "parseBoundedInteger None d low high field = Inr d" "parseLimit None rng field = Inr (crDefault rng)"
  "parseBoolean None field = Inr False"
  by (simp_all add: parseBoundedInteger_def parseLimit_def parseBoolean_def)

lemma demo_loads:
  "\<exists>c. loadConfig id ''/srv'' demoConfigEnv = Inr c \<and> acAllowedHosts c = [''*.ex.com'', ''10.0.0.1'']
     \<and> acSessionTtlMs c = 1800000 \<and> acDataDir c = ''/var/data/''"
  by (simp add: loadConfig_def demoConfigEnv_def bindR_def Let_def orElse_def defaults demo_values)

text \<open>C38. A server configuration is accepted only within its documented bounds: every host rule
  is an IP literal, a host name of well-formed labels or a wildcard below a name of at least two labels,
  and there is at least one and none twice; sessions, timeout and rate limits lie in their
  ranges; the lifetimes do not exceed those of the selected policy; the data directory and the
  audit file are absolute paths below the root without dot segments.\<close>

theorem loaded_config_bounded:
  assumes "loadConfig toASCII cwd env = Inr c"
  shows "acAllowedHosts c \<noteq> [] \<and> distinct (acAllowedHosts c)
      \<and> list_all (\<lambda>p. exactRule p \<or> wildcardRule p) (acAllowedHosts c)
    \<and> acResourceHosts c \<noteq> [] \<and> distinct (acResourceHosts c)
      \<and> list_all (\<lambda>p. exactRule p \<or> wildcardRule p) (acResourceHosts c)
    \<and> withinLimit (acMaxSessions c) LIMIT_maxSessions \<and> withinLimit (acTimeoutMs c) LIMIT_timeoutMs
    \<and> withinLimit (acMcpRatePerSecond c) LIMIT_mcpRatePerSecond \<and> withinLimit (acMcpBurst c) LIMIT_mcpBurst
    \<and> 60000 \<le> acSessionTtlMs c \<and> acSessionTtlMs c \<le> plSessionTtlMs (POLICY_PROFILES (acAutomationPolicy c))
    \<and> 60000 \<le> acWorkspaceTtlMs c \<and> acWorkspaceTtlMs c \<le> plWorkspaceTtlMs (POLICY_PROFILES (acAutomationPolicy c))
    \<and> cleanPath (acDataDir c) \<and> cleanPath (acAuditPath c)"
proof -
  note parts = assms [unfolded loadConfig_def Let_def]
  obtain raw where raw: "ceAllowedHosts env = Some raw" "trim raw \<noteq> []"
    using parts by (auto split: option.splits if_splits)
  obtain allowed resource maxSessions timeoutMs sessionTtlMs workspaceTtlMs rate burst dataDir auditPath policy
    where allowed: "parseHostList toASCII (JStr raw) ''BROWSER_ALLOWED_HOSTS'' = Inr allowed"
      and resource: "(case ceResourceHosts env of None \<Rightarrow> Inr allowed
          | Some r \<Rightarrow> if trim r = [] then Inr allowed
                      else parseHostList toASCII (JStr r) ''BROWSER_RESOURCE_HOSTS'') = Inr resource"
      and limits: "parseLimit (ceMaxSessions env) LIMIT_maxSessions ''BROWSER_MAX_SESSIONS'' = Inr maxSessions"
        "parseLimit (orElse (ceTimeoutMs env) (ceDefaultTimeoutMs env)) LIMIT_timeoutMs ''BROWSER_TIMEOUT_MS'' = Inr timeoutMs"
        "parseLimit (ceMcpRatePerSecond env) LIMIT_mcpRatePerSecond ''MCP_RATE_PER_SECOND'' = Inr rate"
        "parseLimit (ceMcpBurst env) LIMIT_mcpBurst ''MCP_BURST'' = Inr burst"
      and ttls: "parseBoundedInteger (ceSessionTtlMs env) (plSessionTtlMs (POLICY_PROFILES policy)) (crMin LIMIT_sessionTtlMs)
          (min (crMax LIMIT_sessionTtlMs) (plSessionTtlMs (POLICY_PROFILES policy))) ''BROWSER_SESSION_TTL_MS'' = Inr sessionTtlMs"
        "parseBoundedInteger (ceWorkspaceTtlMs env) (plWorkspaceTtlMs (POLICY_PROFILES policy)) (crMin LIMIT_workspaceTtlMs)
          (min (crMax LIMIT_workspaceTtlMs) (plWorkspaceTtlMs (POLICY_PROFILES policy))) ''BROWSER_WORKSPACE_TTL_MS'' = Inr workspaceTtlMs"
      and paths: "parseServerPath (ceDataDir env) (resolvePath cwd ''.browser-data'') ''BROWSER_DATA_DIR'' = Inr dataDir"
        "parseServerPath (ceAuditPath env) (joinPath dataDir ''audit.jsonl'') ''BROWSER_AUDIT_PATH'' = Inr auditPath"
      and c: "acAllowedHosts c = allowed" "acResourceHosts c = resource" "acMaxSessions c = maxSessions"
        "acTimeoutMs c = timeoutMs" "acSessionTtlMs c = sessionTtlMs" "acWorkspaceTtlMs c = workspaceTtlMs"
        "acMcpRatePerSecond c = rate" "acMcpBurst c = burst" "acDataDir c = dataDir" "acAuditPath c = auditPath"
        "acAutomationPolicy c = policy"
    using parts unfolding raw(1) option.case if_not_P [OF raw(2)]
    by (elim bindR_E) (rule that, assumption+, auto)
  note wellFormed = host_rules_well_formed [OF allowed]
  have "resource \<noteq> [] \<and> distinct resource \<and> list_all (\<lambda>p. exactRule p \<or> wildcardRule p) resource"
    using resource wellFormed host_rules_well_formed by (auto split: option.splits if_splits)
  moreover have "withinLimit maxSessions LIMIT_maxSessions" "withinLimit timeoutMs LIMIT_timeoutMs"
      "withinLimit rate LIMIT_mcpRatePerSecond" "withinLimit burst LIMIT_mcpBurst"
    using limits [THEN parseLimit_within] by (simp_all add: withinLimit_def limit_defs)
  moreover have "60000 \<le> sessionTtlMs \<and> sessionTtlMs \<le> plSessionTtlMs (POLICY_PROFILES policy)"
    "60000 \<le> workspaceTtlMs \<and> workspaceTtlMs \<le> plWorkspaceTtlMs (POLICY_PROFILES policy)"
    using ttls [THEN parseBoundedInteger_within] policy_ttls [of policy] by (simp_all add: limit_defs)
  ultimately show ?thesis
    using wellFormed paths [THEN parseServerPath_clean] unfolding c by blast
qed

lemma loaded_config_bounded_witness:
  "\<exists>c. loadConfig id ''/srv'' demoConfigEnv = Inr c \<and> acAllowedHosts c = [''*.ex.com'', ''10.0.0.1'']
     \<and> acDataDir c = ''/var/data/'' \<and> cleanPath (acDataDir c) \<and> cleanPath (acAuditPath c)"
proof -
  obtain c where c: "loadConfig id ''/srv'' demoConfigEnv = Inr c" "acAllowedHosts c = [''*.ex.com'', ''10.0.0.1'']"
    "acDataDir c = ''/var/data/''"
    using demo_loads by blast
  from loaded_config_bounded [OF c(1)] c show ?thesis by blast
qed

end
