(* ===== verification/JsonText.thy ===== *)
theory JsonText
  imports IpAddress "HOL-Library.List_Lexorder"
begin

text \<open>
  \<open>JSON.stringify\<close> on the values the sources build (integers, booleans, texts, lists and
  objects), the length of a text in UTF-8, and the UTF-8 prefixes \<open>Buffer.subarray\<close> gives.
\<close>

section \<open>Text of a value\<close>

datatype json = JsInt int | JsBool bool | JsText string | JsList "json list" | JsFields "(string \<times> json) list"

definition showInt :: "int \<Rightarrow> string" where
  "showInt n = (if n < 0 then CHR ''-'' # showDec (nat (- n)) else showDec (nat n))"

definition jsonChar :: "char \<Rightarrow> string" where
  "jsonChar c =
     (let n = charCode c in
      if n = 34 then [CHR 0x5C, CHR 0x22]
      else if n = 92 then [CHR 0x5C, CHR 0x5C]
      else if n = 8 then [CHR 0x5C, CHR ''b'']
      else if n = 9 then [CHR 0x5C, CHR ''t'']
      else if n = 10 then [CHR 0x5C, CHR ''n'']
      else if n = 12 then [CHR 0x5C, CHR ''f'']
      else if n = 13 then [CHR 0x5C, CHR ''r'']
      else if n < 32 then CHR 0x5C # ''u00'' @ [digitChar (n div 16), digitChar (n mod 16)]
      else [c])"

definition jsonString :: "string \<Rightarrow> string" where
  "jsonString s = [CHR 0x22] @ concat (map jsonChar s) @ [CHR 0x22]"

fun jsonText :: "json \<Rightarrow> string" where
  "jsonText (JsInt n) = showInt n"
| "jsonText (JsBool b) = (if b then ''true'' else ''false'')"
| "jsonText (JsText s) = jsonString s"
| "jsonText (JsList xs) = ''['' @ joinStr '','' (map jsonText xs) @ '']''"
| "jsonText (JsFields fs) = ''{'' @ joinStr '','' (map (\<lambda>(k, v). jsonString k @ '':'' @ jsonText v) fs) @ ''}''"

text \<open>An optional field of an object.\<close>

definition optField :: "string \<Rightarrow> ('a \<Rightarrow> json) \<Rightarrow> 'a option \<Rightarrow> (string \<times> json) list" where
  "optField k f v = (case v of None \<Rightarrow> [] | Some x \<Rightarrow> [(k, f x)])"

text \<open>The object with its keys sorted, at every level; \<open>sort\<close> compares code units.\<close>

fun sortKeys :: "json \<Rightarrow> json" where
  "sortKeys (JsList xs) = JsList (map sortKeys xs)"
| "sortKeys (JsFields fs) = JsFields (sort_key (\<lambda>e. map charCode (fst e)) (map (\<lambda>(k, v). (k, sortKeys v)) fs))"
| "sortKeys v = v"

section \<open>White space\<close>

text \<open>\<open>s.replace(/[..]+/g, ' ')\<close>: every run of matching characters becomes one blank.\<close>

fun blankRuns :: "(char \<Rightarrow> bool) \<Rightarrow> bool \<Rightarrow> string \<Rightarrow> string" where
  "blankRuns P inRun [] = []"
| "blankRuns P inRun (c # cs) =
     (if P c then (if inRun then blankRuns P True cs else CHR '' '' # blankRuns P True cs)
      else c # blankRuns P False cs)"

definition singleLine :: "string \<Rightarrow> nat \<Rightarrow> string" where
  "singleLine s maximum = take maximum (trim (blankRuns isSpace False (blankRuns isControl False s)))"

section \<open>UTF-8\<close>

definition charBytes :: "char \<Rightarrow> nat" where
  "charBytes c = (if charCode c < 128 then 1 else 2)"

definition utf8Length :: "string \<Rightarrow> nat" where
  "utf8Length s = sum_list (map charBytes s)"

text \<open>The first \<open>n\<close> bytes without the half of a character at the end.\<close>

fun utf8Prefix :: "nat \<Rightarrow> string \<Rightarrow> string" where
  "utf8Prefix n [] = []"
| "utf8Prefix n (c # cs) = (if charBytes c \<le> n then c # utf8Prefix (n - charBytes c) cs else [])"

lemma charBytes_pos [simp]: "0 < charBytes c"
  by (simp add: charBytes_def)

lemma utf8Length_simps [simp]:
  "utf8Length [] = 0" "utf8Length (c # cs) = charBytes c + utf8Length cs"
  "utf8Length (xs @ ys) = utf8Length xs + utf8Length ys"
  by (simp_all add: utf8Length_def)

lemma utf8Prefix_le: "utf8Length (utf8Prefix n s) \<le> n"
proof (induction s arbitrary: n)
  case (Cons c cs)
  show ?case using Cons.IH [of "n - charBytes c"] by auto
qed simp

lemma utf8Prefix_all: "utf8Length s \<le> n \<Longrightarrow> utf8Prefix n s = s"
  by (induction s arbitrary: n) (auto simp: le_diff_conv2)

lemma utf8Length_ge: "length s \<le> utf8Length s"
  by (induction s) (auto simp: charBytes_def)

lemma utf8Length_0 [simp]: "utf8Length s = 0 \<longleftrightarrow> s = []"
  by (cases s) auto

text \<open>Digits are one byte each.\<close>

lemma utf8_digits: "list_all isDigit s \<Longrightarrow> utf8Length s = length s"
  by (induction s) (auto simp: charBytes_def isDigit_def)

definition digitsOf :: "nat \<Rightarrow> nat" where
  "digitsOf n = length (showDec n)"

lemma digitsOf_rec: "digitsOf n = (if n < 10 then 1 else Suc (digitsOf (n div 10)))"
  unfolding digitsOf_def by (subst showDec.simps) simp

lemma utf8_showDec: "utf8Length (showDec n) = digitsOf n"
  using showDec_digits [of n] by (simp add: utf8_digits digitsOf_def)

lemma digitsOf_bounds: "n < 10 ^ digitsOf n \<and> (10 \<le> n \<longrightarrow> 10 ^ (digitsOf n - 1) \<le> n)"
proof (induction n rule: less_induct)
  case (less n)
  show ?case
  proof (cases "n < 10")
    case True
    then show ?thesis by (simp add: digitsOf_rec [of n])
  next
    case False
    let ?m = "n div 10"
    have m: "?m < 10 ^ digitsOf ?m" "10 \<le> ?m \<Longrightarrow> 10 ^ (digitsOf ?m - 1) \<le> ?m"
      using less [of ?m] False by auto
    have d: "digitsOf n = Suc (digitsOf ?m)" using False by (simp add: digitsOf_rec [of n])
    have "n < 10 * 10 ^ digitsOf ?m" using m(1) by presburger
    moreover have "10 ^ digitsOf ?m \<le> n"
    proof (cases "10 \<le> ?m")
      case True
      have "0 < digitsOf ?m" by (simp add: digitsOf_rec [of ?m])
      then have "(10 :: nat) ^ digitsOf ?m = 10 * 10 ^ (digitsOf ?m - 1)"
        by (metis Suc_diff_1 power_Suc)
      also have "\<dots> \<le> 10 * ?m" using m(2) [OF True] by simp
      finally show ?thesis using False by presburger
    next
      case small: False
      then show ?thesis using False by (simp add: digitsOf_rec [of ?m])
    qed
    ultimately show ?thesis using d by simp
  qed
qed

lemma digitsOf_mono: "a \<le> b \<Longrightarrow> digitsOf a \<le> digitsOf b"
proof (induction b arbitrary: a rule: less_induct)
  case (less b)
  show ?case
  proof (cases "b < 10")
    case True
    with less.prems show ?thesis by (simp add: digitsOf_rec [of a] digitsOf_rec [of b])
  next
    case False
    with less.IH [of "b div 10" "a div 10"] less.prems show ?thesis
      by (auto simp: digitsOf_rec [of a] digitsOf_rec [of b] div_le_mono)
  qed
qed

end
