(* ===== verification/Workflow.thy ===== *)
theory Workflow
  imports ServerConfig JsonText
begin

text \<open>
  The workflow language of \<open>browser/workflow.ts\<close>: its limits, its data, and the validation of
  untrusted JSON into a normalised workflow.  \<open>new URL\<close> is a parameter.
\<close>

section \<open>Limits\<close>

record wfLimits =
  wlMaxSteps :: int
  wlMaxDurationMs :: int
  wlMaxResultBytes :: int
  wlMaxSnapshotBytes :: int
  wlMaxScrollAmount :: int

text \<open>Limits as a caller gives them: any numbers.\<close>

record wfRequestedLimits =
  rlMaxSteps :: jsnum
  rlMaxDurationMs :: jsnum
  rlMaxResultBytes :: jsnum
  rlMaxSnapshotBytes :: jsnum
  rlMaxScrollAmount :: jsnum

definition MIN_WORKFLOW_RESULT_BYTES :: int where
  "MIN_WORKFLOW_RESULT_BYTES = 100"

definition defaultLimits :: policyLimits where
  "defaultLimits = POLICY_PROFILES DEFAULT_AUTOMATION_POLICY"

definition MAX_WAIT_DURATION_MS :: int where "MAX_WAIT_DURATION_MS = 10000"
definition MAX_SNAPSHOT_CHARS :: int where "MAX_SNAPSHOT_CHARS = 50000"
definition MAX_SNAPSHOT_NODES :: int where "MAX_SNAPSHOT_NODES = 2000"
definition MAX_SNAPSHOT_BYTES :: int where
  "MAX_SNAPSHOT_BYTES = plSnapshotMaxSnapshotBytes HARD_AUTOMATION_LIMITS"
definition MAX_ACTION_TIMEOUT_MS :: int where
  "MAX_ACTION_TIMEOUT_MS = plMaxWorkflowDurationMs HARD_AUTOMATION_LIMITS"
definition MAX_TEXT_CHARS :: nat where "MAX_TEXT_CHARS = 10000"
definition MAX_TARGET_CHARS :: nat where "MAX_TARGET_CHARS = 500"
definition MAX_TEST_ID_CHARS :: nat where "MAX_TEST_ID_CHARS = 128"
definition MAX_REF_CHARS :: nat where "MAX_REF_CHARS = 100"

definition intOf :: "jsval \<Rightarrow> int" where
  "intOf v = \<lfloor>numOf v\<rfloor>"

definition clampLimit :: "jsnum \<Rightarrow> int \<Rightarrow> int \<Rightarrow> int \<Rightarrow> int" where
  "clampLimit value minimum maximum fallback =
     (if \<not> numberIsSafeInteger (JNum value) then fallback
      else max minimum (min maximum (intOf (JNum value))))"

definition DEFAULT_WORKFLOW_LIMITS :: wfLimits where
  "DEFAULT_WORKFLOW_LIMITS =
     \<lparr>wlMaxSteps = plMaxWorkflowSteps defaultLimits, wlMaxDurationMs = plMaxWorkflowDurationMs defaultLimits,
      wlMaxResultBytes = plMaxWorkflowResultBytes defaultLimits,
      wlMaxSnapshotBytes = plSnapshotMaxSnapshotBytes defaultLimits,
      wlMaxScrollAmount = plMaxScrollAmount defaultLimits\<rparr>"

definition requested :: "wfLimits \<Rightarrow> wfRequestedLimits" where
  "requested l = \<lparr>rlMaxSteps = JFin (of_int (wlMaxSteps l)), rlMaxDurationMs = JFin (of_int (wlMaxDurationMs l)),
     rlMaxResultBytes = JFin (of_int (wlMaxResultBytes l)), rlMaxSnapshotBytes = JFin (of_int (wlMaxSnapshotBytes l)),
     rlMaxScrollAmount = JFin (of_int (wlMaxScrollAmount l))\<rparr>"

definition resolveWorkflowLimits :: "wfRequestedLimits option \<Rightarrow> wfLimits" where
  "resolveWorkflowLimits limits =
     (let r = (case limits of None \<Rightarrow> requested DEFAULT_WORKFLOW_LIMITS | Some l \<Rightarrow> l) in
      \<lparr>wlMaxSteps = clampLimit (rlMaxSteps r) 1 (plMaxWorkflowSteps HARD_AUTOMATION_LIMITS)
         (plMaxWorkflowSteps defaultLimits),
       wlMaxDurationMs = clampLimit (rlMaxDurationMs r) 1 (plMaxWorkflowDurationMs HARD_AUTOMATION_LIMITS)
         (plMaxWorkflowDurationMs defaultLimits),
       wlMaxResultBytes = clampLimit (rlMaxResultBytes r) MIN_WORKFLOW_RESULT_BYTES
         (plMaxWorkflowResultBytes HARD_AUTOMATION_LIMITS) (plMaxWorkflowResultBytes defaultLimits),
       wlMaxSnapshotBytes = clampLimit (rlMaxSnapshotBytes r) 100 MAX_SNAPSHOT_BYTES
         (wlMaxSnapshotBytes DEFAULT_WORKFLOW_LIMITS),
       wlMaxScrollAmount = clampLimit (rlMaxScrollAmount r) 1 (plMaxScrollAmount HARD_AUTOMATION_LIMITS)
         (wlMaxScrollAmount DEFAULT_WORKFLOW_LIMITS)\<rparr>)"

definition workflowLimitsForPolicy :: "policyLimits \<Rightarrow> wfLimits" where
  "workflowLimitsForPolicy l =
     resolveWorkflowLimits (Some (requested \<lparr>wlMaxSteps = plMaxWorkflowSteps l,
       wlMaxDurationMs = plMaxWorkflowDurationMs l, wlMaxResultBytes = plMaxWorkflowResultBytes l,
       wlMaxSnapshotBytes = plSnapshotMaxSnapshotBytes l, wlMaxScrollAmount = plMaxScrollAmount l\<rparr>))"

section \<open>Data\<close>

datatype wfTrigger = OnNavigation | OnChallenge | OnDialog | OnDownload | OnInterrupt | OnRevisionMismatch
  | OnError | OnAmbiguity | OnTimeout

definition WORKFLOW_STOP_TRIGGERS :: "(string \<times> wfTrigger) list" where
  "WORKFLOW_STOP_TRIGGERS = [(''navigation'', OnNavigation), (''challenge'', OnChallenge), (''dialog'', OnDialog),
     (''download'', OnDownload), (''interrupt'', OnInterrupt), (''revision_mismatch'', OnRevisionMismatch),
     (''error'', OnError), (''ambiguity'', OnAmbiguity), (''timeout'', OnTimeout)]"

datatype wfDirection = DirUp | DirDown | DirLeft | DirRight
datatype wfWaitUntil = UntilContentLoaded | UntilLoad
datatype wfFormat = FormatStructured | FormatCompact
datatype wfWaitState = WaitVisible | WaitHidden | WaitEnabled

definition DIRECTIONS :: "(string \<times> wfDirection) list" where
  "DIRECTIONS = [(''up'', DirUp), (''down'', DirDown), (''left'', DirLeft), (''right'', DirRight)]"

definition WAIT_UNTIL :: "(string \<times> wfWaitUntil) list" where
  "WAIT_UNTIL = [(''domcontentloaded'', UntilContentLoaded), (''load'', UntilLoad)]"

definition FORMATS :: "(string \<times> wfFormat) list" where
  "FORMATS = [(''structured'', FormatStructured), (''compact'', FormatCompact)]"

definition WAIT_STATES :: "(string \<times> wfWaitState) list" where
  "WAIT_STATES = [(''visible'', WaitVisible), (''hidden'', WaitHidden), (''enabled'', WaitEnabled)]"

text \<open>A target as validation leaves it: an opaque reference or exactly one semantic strategy.\<close>

datatype wfTarget =
    RefText string
  | ByRole string string "bool option"
  | ByLabel string "bool option"
  | ByTestId string
  | ByRef string

datatype wfChoice = ChoiceText string | ChoiceValue string | ChoiceLabel string

record wfCondition =
  wcRef :: string
  wcState :: wfWaitState

datatype wfStep =
    OpenStep string "wfWaitUntil option" "int option"
  | ClickStep wfTarget "int option"
  | TypeStep wfTarget string "bool option" "bool option" "bool option" "bool option" "int option"
  | SelectStep wfTarget "wfChoice option" "string list option" "int option"
  | ScrollStep wfDirection int "wfTarget option"
  | WaitStep "int option" "wfCondition option" "wfTarget option" "int option"
  | SnapshotStep "int option" "int option" "int option" "bool option" "bool option" "wfFormat option"

record wfWorkflow =
  wfSteps :: "wfStep list"
  wfActionId :: "string option"
  wfExpectedPageRevision :: "int option"
  wfExpectedTabId :: "string option"
  wfMaxDurationMs :: int
  wfMaxResultBytes :: int
  wfStopOn :: "wfTrigger list"

datatype wfFaultCode = INVALID_WORKFLOW | WORKFLOW_STEP_LIMIT_EXCEEDED
datatype wfFault = WorkflowValidationError (wfMessage: string) (wfPath: string) (wfCode: wfFaultCode)
  | WorkflowActionIdConflictError

text \<open>What \<open>new URL\<close> gives.\<close>

record wfUrl =
  wuProtocol :: string
  wuUsername :: string
  wuPassword :: string
  wuOrigin :: string
  wuPathname :: string

type_synonym wfUrlParser = "string \<Rightarrow> wfUrl option"

section \<open>Validators of fields\<close>

definition wfFail :: "string \<Rightarrow> string \<Rightarrow> wfFault" where
  "wfFail message path = WorkflowValidationError message path INVALID_WORKFLOW"

definition objectKeys :: "jsval \<Rightarrow> string list" where
  "objectKeys v = (case v of JObj ps \<Rightarrow> map fst ps | _ \<Rightarrow> [])"

definition wfRecord :: "jsval \<Rightarrow> string \<Rightarrow> wfFault + jsval" where
  "wfRecord v path = (case v of JObj ps \<Rightarrow> Inr v | _ \<Rightarrow> Inl (wfFail ''expected an object'' path))"

definition assertKeys :: "jsval \<Rightarrow> string list \<Rightarrow> string \<Rightarrow> wfFault + unit" where
  "assertKeys v allowed path =
     (case filter (\<lambda>k. k \<notin> set allowed) (objectKeys v) of
        [] \<Rightarrow> Inr ()
      | key # rest \<Rightarrow> Inl (wfFail (''unsupported field '' @ [CHR 0x22] @ key @ [CHR 0x22]) (path @ ''.'' @ key)))"

definition wfBoundedInteger :: "jsval \<Rightarrow> int \<Rightarrow> int \<Rightarrow> int \<Rightarrow> int" where
  "wfBoundedInteger v minimum maximum fallback =
     (if \<not> numberIsSafeInteger v then fallback
      else if intOf v < minimum \<or> maximum < intOf v then fallback
      else intOf v)"

definition optionalBoundedInteger :: "jsval \<Rightarrow> int \<Rightarrow> int \<Rightarrow> string \<Rightarrow> wfFault + int option" where
  "optionalBoundedInteger v minimum maximum path =
     (if v = JUndef then Inr None
      else (let result = wfBoundedInteger v minimum maximum (-1) in
            if result < minimum
            then Inl (wfFail (''value must be an integer from '' @ showInt minimum @ '' to '' @ showInt maximum) path)
            else Inr (Some result)))"

definition optionalString :: "jsval \<Rightarrow> string \<Rightarrow> wfFault + string option" where
  "optionalString v path =
     (case v of
        JUndef \<Rightarrow> Inr None
      | JStr s \<Rightarrow> if s = [] then Inl (wfFail ''value must be a non-empty string'' path) else Inr (Some s)
      | _ \<Rightarrow> Inl (wfFail ''value must be a non-empty string'' path))"

definition optionalEnum :: "jsval \<Rightarrow> (string \<times> 'a) list \<Rightarrow> string \<Rightarrow> wfFault + 'a option" where
  "optionalEnum v allowed path =
     (case v of
        JUndef \<Rightarrow> Inr None
      | JStr s \<Rightarrow> (case map_of allowed s of
            None \<Rightarrow> Inl (wfFail ''value is not supported'' path)
          | Some x \<Rightarrow> Inr (Some x))
      | _ \<Rightarrow> Inl (wfFail ''value is not supported'' path))"

definition optionalBoolean :: "jsval \<Rightarrow> string \<Rightarrow> string \<Rightarrow> wfFault + bool option" where
  "optionalBoolean v message path =
     (case v of JUndef \<Rightarrow> Inr None | JBool b \<Rightarrow> Inr (Some b) | _ \<Rightarrow> Inl (wfFail message path))"

definition optionalRevision :: "jsval \<Rightarrow> string \<Rightarrow> wfFault + int option" where
  "optionalRevision v path =
     (if v = JUndef then Inr None
      else if \<not> numberIsSafeInteger v \<or> intOf v < 0
      then Inl (wfFail ''revision must be a non-negative safe integer'' path)
      else Inr (Some (intOf v)))"

definition optionalTabId :: "jsval \<Rightarrow> string \<Rightarrow> wfFault + string option" where
  "optionalTabId v path =
     bindR (optionalString v path) (\<lambda>tabId.
       case tabId of
         None \<Rightarrow> Inr None
       | Some t \<Rightarrow>
           if 100 < length t \<or> list_ex isControl t then Inl (wfFail ''tabId must be a bounded opaque string'' path)
           else Inr (Some t))"

definition optionalTimeout :: "jsval \<Rightarrow> string \<Rightarrow> wfFault + int option" where
  "optionalTimeout v path =
     (if v = JUndef then Inr None
      else (let result = wfBoundedInteger v 1 MAX_ACTION_TIMEOUT_MS (-1) in
            if result < 1
            then Inl (wfFail (''timeoutMs must be an integer from 1 to '' @ showInt MAX_ACTION_TIMEOUT_MS) path)
            else Inr (Some result)))"

definition validateWaitDuration :: "jsval \<Rightarrow> string \<Rightarrow> wfFault + int" where
  "validateWaitDuration v path =
     (let result = wfBoundedInteger v 1 MAX_WAIT_DURATION_MS (-1) in
      if result < 1
      then Inl (wfFail (''duration must be an integer from 1 to '' @ showInt MAX_WAIT_DURATION_MS) path)
      else Inr result)"

text \<open>A failure raised inside the \<open>try\<close> is caught like a parser error.\<close>

definition validateUrl :: "wfUrlParser \<Rightarrow> jsval \<Rightarrow> string \<Rightarrow> wfFault + string" where
  "validateUrl parse v path =
     (case v of
        JStr s \<Rightarrow>
          if s = [] \<or> 2048 < length s then Inl (wfFail ''url must be a bounded absolute HTTP(S) URL'' path)
          else (case parse s of
                  None \<Rightarrow> Inl (wfFail ''url must be an absolute HTTP(S) URL'' path)
                | Some url \<Rightarrow>
                    if (wuProtocol url \<noteq> ''http:'' \<and> wuProtocol url \<noteq> ''https:'')
                       \<or> wuUsername url \<noteq> [] \<or> wuPassword url \<noteq> []
                    then Inl (wfFail ''url must be an absolute HTTP(S) URL'' path)
                    else Inr s)
      | _ \<Rightarrow> Inl (wfFail ''url must be a bounded absolute HTTP(S) URL'' path))"

section \<open>Patterns\<close>

definition hexGroup :: "nat \<Rightarrow> string \<Rightarrow> bool" where
  "hexGroup n w \<longleftrightarrow> length w = n \<and> list_all isHexDigit w"

definition ACTION_ID_PATTERN :: "string \<Rightarrow> bool" where
  "ACTION_ID_PATTERN s \<longleftrightarrow>
     (case splitChar (CHR ''-'') s of
        [a, b, c, d, e] \<Rightarrow> hexGroup 8 a \<and> hexGroup 4 b \<and> hexGroup 4 c \<and> hexGroup 4 d \<and> hexGroup 12 e
          \<and> hd c \<in> set ''12345678'' \<and> hd d \<in> set ''89abAB''
      | _ \<Rightarrow> False)"

definition OPAQUE_REF_PATTERN :: "string \<Rightarrow> bool" where
  "OPAQUE_REF_PATTERN s \<longleftrightarrow> startsWith s ''ref_'' \<and> 1 \<le> length (drop 4 s) \<and> length (drop 4 s) \<le> 96
     \<and> list_all (\<lambda>c. isAlnum c \<or> c = CHR ''_'' \<or> c = CHR ''-'') (drop 4 s)"

definition opaqueRef :: "string \<Rightarrow> bool" where
  "opaqueRef s \<longleftrightarrow> OPAQUE_REF_PATTERN s \<and> length s \<le> MAX_REF_CHARS"

section \<open>Targets, choices, conditions\<close>

definition boundedText :: "jsval \<Rightarrow> nat \<Rightarrow> string option" where
  "boundedText v maximum = (case v of JStr s \<Rightarrow> if s = [] \<or> maximum < length s then None else Some s | _ \<Rightarrow> None)"

definition requiredText :: "jsval \<Rightarrow> nat \<Rightarrow> string \<Rightarrow> string \<Rightarrow> wfFault + string" where
  "requiredText v maximum message path =
     (case boundedText v maximum of None \<Rightarrow> Inl (wfFail message path) | Some s \<Rightarrow> Inr s)"

definition validateTarget :: "jsval \<Rightarrow> string \<Rightarrow> wfFault + wfTarget" where
  "validateTarget v path =
     (case v of
        JStr s \<Rightarrow>
          if \<not> opaqueRef s then Inl (wfFail ''string targets must be opaque snapshot refs'' path) else Inr (RefText s)
      | _ \<Rightarrow>
     bindR (wfRecord v path) (\<lambda>target.
     bindR (assertKeys target [''role'', ''name'', ''exact'', ''label'', ''testId'', ''ref''] path) (\<lambda>_.
     let role = getProp target ''role''; name = getProp target ''name''; exact = getProp target ''exact'';
         label = getProp target ''label''; testId = getProp target ''testId''; ref = getProp target ''ref'';
         hasRole = role \<noteq> JUndef \<or> name \<noteq> JUndef; hasLabel = label \<noteq> JUndef;
         hasTestId = testId \<noteq> JUndef; hasRef = ref \<noteq> JUndef
     in
     bindR (guardR (of_bool hasRole + of_bool hasLabel + of_bool hasTestId + of_bool hasRef \<noteq> (1 :: nat))
              (wfFail ''target must contain exactly one semantic strategy'' path)) (\<lambda>_.
     if hasRole then
       bindR (requiredText role 64 ''role is invalid'' (path @ ''.role'')) (\<lambda>r.
       bindR (requiredText name MAX_TARGET_CHARS ''name is required and bounded'' (path @ ''.name'')) (\<lambda>n.
       bindR (optionalBoolean exact ''exact must be boolean'' (path @ ''.exact'')) (\<lambda>e. Inr (ByRole r n e))))
     else if hasLabel then
       bindR (requiredText label MAX_TARGET_CHARS ''label is invalid or too long'' (path @ ''.label'')) (\<lambda>l.
       bindR (optionalBoolean exact ''exact must be boolean'' (path @ ''.exact'')) (\<lambda>e. Inr (ByLabel l e)))
     else if hasTestId then
       bindR (requiredText testId MAX_TEST_ID_CHARS ''testId is invalid or too long'' (path @ ''.testId'')) (\<lambda>t.
       bindR (guardR (exact \<noteq> JUndef)
                (wfFail ''exact is only valid for role/name or label targets'' (path @ ''.exact''))) (\<lambda>_.
       Inr (ByTestId t)))
     else
       bindR (guardR (exact \<noteq> JUndef)
                (wfFail ''exact is only valid for role/name or label targets'' (path @ ''.exact''))) (\<lambda>_.
       case ref of
         JStr s \<Rightarrow> if opaqueRef s then Inr (ByRef s)
                   else Inl (wfFail ''ref must be an opaque snapshot ref'' (path @ ''.ref''))
       | _ \<Rightarrow> Inl (wfFail ''ref must be an opaque snapshot ref'' (path @ ''.ref'')))))))"

definition optionalTarget :: "jsval \<Rightarrow> string \<Rightarrow> wfFault + wfTarget option" where
  "optionalTarget v path = (if v = JUndef then Inr None else bindR (validateTarget v path) (\<lambda>t. Inr (Some t)))"

definition validateChoice :: "jsval \<Rightarrow> string \<Rightarrow> wfFault + wfChoice" where
  "validateChoice v path =
     (case v of
        JStr s \<Rightarrow> bindR (requiredText v 1000 ''choice string is invalid or too long'' path) (\<lambda>t. Inr (ChoiceText t))
      | _ \<Rightarrow>
     bindR (wfRecord v path) (\<lambda>choice.
     bindR (assertKeys choice [''value'', ''label''] path) (\<lambda>_.
     let hasValue = getProp choice ''value'' \<noteq> JUndef; hasLabel = getProp choice ''label'' \<noteq> JUndef in
     bindR (guardR (hasValue = hasLabel) (wfFail ''choice requires exactly one of value or label'' path)) (\<lambda>_.
     bindR (requiredText (if hasValue then getProp choice ''value'' else getProp choice ''label'') 1000
              ''choice is invalid or too long'' path) (\<lambda>selected.
     Inr (if hasValue then ChoiceValue selected else ChoiceLabel selected))))))"

definition validateCondition :: "jsval \<Rightarrow> string \<Rightarrow> wfFault + wfCondition" where
  "validateCondition v path =
     bindR (wfRecord v path) (\<lambda>condition.
     bindR (assertKeys condition [''ref'', ''state''] path) (\<lambda>_.
     bindR (case getProp condition ''ref'' of
              JStr s \<Rightarrow> if opaqueRef s then Inr s
                        else Inl (wfFail ''condition ref must be an opaque snapshot ref'' (path @ ''.ref''))
            | _ \<Rightarrow> Inl (wfFail ''condition ref must be an opaque snapshot ref'' (path @ ''.ref''))) (\<lambda>ref.
     bindR (optionalEnum (getProp condition ''state'') WAIT_STATES (path @ ''.state'')) (\<lambda>state.
     case state of
       None \<Rightarrow> Inl (wfFail ''condition state is required'' (path @ ''.state''))
     | Some st \<Rightarrow> Inr \<lparr>wcRef = ref, wcState = st\<rparr>))))"

section \<open>Steps\<close>

text \<open>The cases of \<open>normalizeStep\<close>, one definition per operation.\<close>

definition normalizeOpen :: "wfUrlParser \<Rightarrow> jsval \<Rightarrow> string \<Rightarrow> wfFault + wfStep" where
  "normalizeOpen parse step path =
     bindR (assertKeys step [''op'', ''url'', ''waitUntil'', ''timeoutMs''] path) (\<lambda>_.
     bindR (optionalEnum (getProp step ''waitUntil'') WAIT_UNTIL (path @ ''.waitUntil'')) (\<lambda>waitUntil.
     bindR (optionalTimeout (getProp step ''timeoutMs'') (path @ ''.timeoutMs'')) (\<lambda>timeoutMs.
     bindR (validateUrl parse (getProp step ''url'') (path @ ''.url'')) (\<lambda>url.
     Inr (OpenStep url waitUntil timeoutMs)))))"

definition normalizeClick :: "jsval \<Rightarrow> string \<Rightarrow> wfFault + wfStep" where
  "normalizeClick step path =
     bindR (assertKeys step [''op'', ''target'', ''timeoutMs''] path) (\<lambda>_.
     bindR (optionalTimeout (getProp step ''timeoutMs'') (path @ ''.timeoutMs'')) (\<lambda>timeoutMs.
     bindR (validateTarget (getProp step ''target'') (path @ ''.target'')) (\<lambda>target.
     Inr (ClickStep target timeoutMs))))"

definition normalizeType :: "jsval \<Rightarrow> string \<Rightarrow> wfFault + wfStep" where
  "normalizeType step path =
     bindR (assertKeys step [''op'', ''target'', ''text'', ''clear'', ''clearFirst'', ''submit'', ''sensitive'',
              ''timeoutMs''] path) (\<lambda>_.
     bindR (case getProp step ''text'' of
              JStr t \<Rightarrow> if MAX_TEXT_CHARS < length t
                        then Inl (wfFail ''text must be at most 10000 characters'' (path @ ''.text'')) else Inr t
            | _ \<Rightarrow> Inl (wfFail ''text must be at most 10000 characters'' (path @ ''.text''))) (\<lambda>text.
     bindR (optionalBoolean (getProp step ''clear'') ''clear must be boolean'' (path @ ''.clear'')) (\<lambda>clear.
     bindR (optionalBoolean (getProp step ''clearFirst'') ''clearFirst must be boolean'' (path @ ''.clearFirst''))
       (\<lambda>clearFirst.
     bindR (guardR (clear \<noteq> None \<and> clearFirst \<noteq> None \<and> clear \<noteq> clearFirst)
              (wfFail ''clear and clearFirst must agree when both are supplied'' path)) (\<lambda>_.
     bindR (optionalBoolean (getProp step ''submit'') ''submit must be boolean'' (path @ ''.submit'')) (\<lambda>submit.
     bindR (optionalBoolean (getProp step ''sensitive'') ''sensitive must be boolean'' (path @ ''.sensitive''))
       (\<lambda>sensitive.
     bindR (optionalTimeout (getProp step ''timeoutMs'') (path @ ''.timeoutMs'')) (\<lambda>timeoutMs.
     bindR (validateTarget (getProp step ''target'') (path @ ''.target'')) (\<lambda>target.
     Inr (TypeStep target text clear clearFirst submit sensitive timeoutMs))))))))))"

definition selectValues :: "jsval \<Rightarrow> string \<Rightarrow> wfFault + string list" where
  "selectValues v path =
     (case v of
        JArr xs \<Rightarrow>
          if xs = [] \<or> 32 < length xs then Inl (wfFail ''values must contain 1 to 32 options'' (path @ ''.values''))
          else mapR (\<lambda>index x. requiredText x 200 ''each select value must be a bounded non-empty string''
                 (path @ ''.values.'' @ showDec index)) 0 xs
      | _ \<Rightarrow> Inl (wfFail ''values must contain 1 to 32 options'' (path @ ''.values'')))"

definition selectChoice :: "jsval \<Rightarrow> string \<Rightarrow> wfFault + wfChoice" where
  "selectChoice step path =
     (if getProp step ''choice'' \<noteq> JUndef then validateChoice (getProp step ''choice'') (path @ ''.choice'')
      else if getProp step ''value'' \<noteq> JUndef
      then bindR (requiredText (getProp step ''value'') 1000 ''value is invalid or too long'' (path @ ''.value''))
             (\<lambda>v. Inr (ChoiceValue v))
      else bindR (requiredText (getProp step ''label'') 1000 ''label is invalid or too long'' (path @ ''.label''))
             (\<lambda>l. Inr (ChoiceLabel l)))"

definition normalizeSelect :: "jsval \<Rightarrow> string \<Rightarrow> wfFault + wfStep" where
  "normalizeSelect step path =
     bindR (assertKeys step [''op'', ''target'', ''value'', ''label'', ''choice'', ''values'', ''timeoutMs''] path) (\<lambda>_.
     let hasValue = getProp step ''value'' \<noteq> JUndef; hasLabel = getProp step ''label'' \<noteq> JUndef;
         hasChoice = getProp step ''choice'' \<noteq> JUndef; hasValues = getProp step ''values'' \<noteq> JUndef
     in
     bindR (if hasValues then
              bindR (guardR (hasValue \<or> hasLabel \<or> hasChoice)
                       (wfFail ''values cannot be combined with value, label, or choice'' path)) (\<lambda>_.
              bindR (selectValues (getProp step ''values'') path) (\<lambda>vs. Inr (Some vs)))
            else if hasChoice \<and> (hasValue \<or> hasLabel)
            then Inl (wfFail ''choice cannot be combined with value or label'' path)
            else if \<not> hasChoice \<and> hasValue = hasLabel
            then Inl (wfFail ''select requires exactly one of value or label'' path)
            else Inr None) (\<lambda>values.
     bindR (if hasValues then Inr None else bindR (selectChoice step path) (\<lambda>c. Inr (Some c))) (\<lambda>choice.
     bindR (optionalTimeout (getProp step ''timeoutMs'') (path @ ''.timeoutMs'')) (\<lambda>timeoutMs.
     bindR (validateTarget (getProp step ''target'') (path @ ''.target'')) (\<lambda>target.
     Inr (SelectStep target choice values timeoutMs))))))"

definition normalizeScroll :: "wfLimits \<Rightarrow> jsval \<Rightarrow> string \<Rightarrow> wfFault + wfStep" where
  "normalizeScroll limits step path =
     bindR (assertKeys step [''op'', ''direction'', ''amount'', ''target''] path) (\<lambda>_.
     bindR (optionalEnum (getProp step ''direction'') DIRECTIONS (path @ ''.direction'')) (\<lambda>direction.
     case direction of
       None \<Rightarrow> Inl (wfFail ''direction is required'' (path @ ''.direction''))
     | Some dir \<Rightarrow>
         bindR (optionalBoundedInteger (getProp step ''amount'') 1 (wlMaxScrollAmount limits) (path @ ''.amount''))
           (\<lambda>amount.
         bindR (optionalTarget (getProp step ''target'') (path @ ''.target'')) (\<lambda>target.
         Inr (ScrollStep dir (case amount of None \<Rightarrow> 1 | Some n \<Rightarrow> n) target)))))"

definition optionalWait :: "jsval \<Rightarrow> string \<Rightarrow> wfFault + int option" where
  "optionalWait v path = (if v = JUndef then Inr None else bindR (validateWaitDuration v path) (\<lambda>n. Inr (Some n)))"

definition normalizeWait :: "jsval \<Rightarrow> string \<Rightarrow> wfFault + wfStep" where
  "normalizeWait step path =
     bindR (assertKeys step [''op'', ''milliseconds'', ''durationMs'', ''condition'', ''target'', ''timeoutMs''] path) (\<lambda>_.
     let hasMilliseconds = getProp step ''milliseconds'' \<noteq> JUndef; hasDuration = getProp step ''durationMs'' \<noteq> JUndef in
     bindR (guardR (hasMilliseconds \<and> hasDuration)
              (wfFail ''milliseconds and durationMs cannot both be supplied'' path)) (\<lambda>_.
     bindR (if hasMilliseconds then optionalWait (getProp step ''milliseconds'') (path @ ''.milliseconds'')
            else optionalWait (getProp step ''durationMs'') (path @ ''.durationMs'')) (\<lambda>durationMs.
     bindR (if getProp step ''condition'' = JUndef then Inr None
            else bindR (validateCondition (getProp step ''condition'') (path @ ''.condition'')) (\<lambda>c. Inr (Some c)))
       (\<lambda>condition.
     bindR (optionalTarget (getProp step ''target'') (path @ ''.target'')) (\<lambda>target.
     bindR (guardR (durationMs = None \<and> condition = None \<and> target = None)
              (wfFail ''wait requires milliseconds/durationMs, condition, or target'' path)) (\<lambda>_.
     bindR (guardR (durationMs \<noteq> None \<and> (condition \<noteq> None \<or> target \<noteq> None))
              (wfFail ''wait cannot combine a duration with a condition or target'' path)) (\<lambda>_.
     bindR (guardR (condition \<noteq> None \<and> target \<noteq> None)
              (wfFail ''wait cannot combine condition and target'' path)) (\<lambda>_.
     bindR (optionalWait (getProp step ''timeoutMs'') (path @ ''.timeoutMs'')) (\<lambda>timeoutMs.
     Inr (WaitStep durationMs condition target timeoutMs))))))))))"

definition normalizeSnapshot :: "wfLimits \<Rightarrow> jsval \<Rightarrow> string \<Rightarrow> wfFault + wfStep" where
  "normalizeSnapshot limits step path =
     bindR (assertKeys step [''op'', ''maxNodes'', ''maxChars'', ''maxBytes'', ''includeText'', ''compact'', ''format''] path) (\<lambda>_.
     bindR (optionalBoundedInteger (getProp step ''maxNodes'') 1 MAX_SNAPSHOT_NODES (path @ ''.maxNodes'')) (\<lambda>maxNodes.
     bindR (optionalBoundedInteger (getProp step ''maxChars'') 100 MAX_SNAPSHOT_CHARS (path @ ''.maxChars'')) (\<lambda>maxChars.
     bindR (optionalBoundedInteger (getProp step ''maxBytes'') 100 (min MAX_SNAPSHOT_BYTES (wlMaxSnapshotBytes limits))
              (path @ ''.maxBytes'')) (\<lambda>maxBytes.
     bindR (optionalBoolean (getProp step ''includeText'') ''includeText must be boolean'' (path @ ''.includeText''))
       (\<lambda>includeText.
     bindR (optionalBoolean (getProp step ''compact'') ''compact must be boolean'' (path @ ''.compact'')) (\<lambda>compact.
     bindR (optionalEnum (getProp step ''format'') FORMATS (path @ ''.format'')) (\<lambda>format.
     bindR (guardR (compact \<noteq> None \<and> format \<noteq> None \<and> compact \<noteq> Some (format = Some FormatCompact))
              (wfFail ''compact and format must agree when both are supplied'' path)) (\<lambda>_.
     Inr (SnapshotStep maxNodes maxChars maxBytes includeText compact format)))))))))"

definition normalizeStep :: "wfUrlParser \<Rightarrow> wfLimits \<Rightarrow> jsval \<Rightarrow> string \<Rightarrow> wfFault + wfStep" where
  "normalizeStep parse limits v path =
     bindR (wfRecord v path) (\<lambda>step.
     let unsupported = Inl (wfFail ''op must be one of open, click, type, select, scroll, wait, snapshot'' (path @ ''.op'')) in
     case getProp step ''op'' of
       JStr op \<Rightarrow>
         if op = ''open'' then normalizeOpen parse step path
         else if op = ''click'' then normalizeClick step path
         else if op = ''type'' then normalizeType step path
         else if op = ''select'' then normalizeSelect step path
         else if op = ''scroll'' then normalizeScroll limits step path
         else if op = ''wait'' then normalizeWait step path
         else if op = ''snapshot'' then normalizeSnapshot limits step path
         else unsupported
     | _ \<Rightarrow> unsupported)"

section \<open>Workflows\<close>

record wfValidationOptions =
  voMaxDurationMs :: jsval
  voMaxResultBytes :: jsval
  voLimits :: "wfRequestedLimits option"

definition addOnce :: "'a list \<Rightarrow> 'a \<Rightarrow> 'a list" where
  "addOnce xs x = (if x \<in> set xs then xs else xs @ [x])"

definition stopTrigger :: "nat \<Rightarrow> jsval \<Rightarrow> wfFault + wfTrigger" where
  "stopTrigger index v =
     (let unsupported = Inl (wfFail ''stopOn contains an unsupported trigger''
            (''workflow.stopOn['' @ showDec index @ '']'')) in
      case v of
        JStr s \<Rightarrow> (case map_of WORKFLOW_STOP_TRIGGERS s of None \<Rightarrow> unsupported | Some t \<Rightarrow> Inr t)
      | _ \<Rightarrow> unsupported)"

definition stopTriggers :: "jsval \<Rightarrow> wfFault + wfTrigger list" where
  "stopTriggers v =
     (case v of
        JUndef \<Rightarrow> Inr []
      | JArr xs \<Rightarrow> bindR (mapR stopTrigger 0 xs) (\<lambda>ts. Inr (foldl addOnce [] ts))
      | _ \<Rightarrow> Inl (wfFail ''stopOn must be an array'' ''workflow.stopOn''))"

definition limitField :: "jsval \<Rightarrow> jsval \<Rightarrow> int \<Rightarrow> int \<Rightarrow> string \<Rightarrow> wfFault + int" where
  "limitField given fallback minimum maximum name =
     (let value = wfBoundedInteger (nullish given (nullish fallback (JNum (JFin (of_int maximum))))) minimum maximum (-1) in
      if value < minimum
      then Inl (wfFail (name @ '' must be an integer from '' @ showInt minimum @ '' to '' @ showInt maximum) (''workflow.'' @ name))
      else Inr value)"

definition normalizeWorkflow :: "wfUrlParser \<Rightarrow> jsval \<Rightarrow> wfValidationOptions \<Rightarrow> wfFault + wfWorkflow" where
  "normalizeWorkflow parse v options =
     bindR (wfRecord v ''workflow'') (\<lambda>workflow.
     let limits = resolveWorkflowLimits (voLimits options) in
     bindR (assertKeys workflow [''steps'', ''actionId'', ''expectedPageRevision'', ''expectedTabId'', ''maxDurationMs'',
              ''maxResultBytes'', ''stopOn''] ''workflow'') (\<lambda>_.
     bindR (case getProp workflow ''steps'' of
              JArr steps \<Rightarrow>
                if wlMaxSteps limits < int (length steps)
                then Inl (WorkflowValidationError (''at most '' @ showInt (wlMaxSteps limits) @ '' steps are allowed'')
                       ''workflow.steps'' WORKFLOW_STEP_LIMIT_EXCEEDED)
                else if steps = [] then Inl (wfFail ''at least one step is required'' ''workflow.steps'')
                else Inr steps
            | _ \<Rightarrow> Inl (wfFail ''steps must be an array'' ''workflow.steps'')) (\<lambda>steps.
     bindR (optionalString (getProp workflow ''actionId'') ''workflow.actionId'') (\<lambda>actionId.
     bindR (guardR (\<not> pred_option ACTION_ID_PATTERN actionId)
              (wfFail ''actionId must be a UUID'' ''workflow.actionId'')) (\<lambda>_.
     bindR (optionalRevision (getProp workflow ''expectedPageRevision'') ''workflow.expectedPageRevision'') (\<lambda>revision.
     bindR (optionalTabId (getProp workflow ''expectedTabId'') ''workflow.expectedTabId'') (\<lambda>tabId.
     bindR (limitField (getProp workflow ''maxDurationMs'') (voMaxDurationMs options) 1 (wlMaxDurationMs limits)
              ''maxDurationMs'') (\<lambda>maxDurationMs.
     bindR (limitField (getProp workflow ''maxResultBytes'') (voMaxResultBytes options) MIN_WORKFLOW_RESULT_BYTES
              (wlMaxResultBytes limits) ''maxResultBytes'') (\<lambda>maxResultBytes.
     bindR (stopTriggers (getProp workflow ''stopOn'')) (\<lambda>stopOn.
     bindR (mapR (\<lambda>index step. normalizeStep parse limits step (''workflow.steps['' @ showDec index @ '']'')) 0 steps)
       (\<lambda>normalized.
     Inr \<lparr>wfSteps = normalized, wfActionId = actionId, wfExpectedPageRevision = revision, wfExpectedTabId = tabId,
          wfMaxDurationMs = maxDurationMs, wfMaxResultBytes = maxResultBytes, wfStopOn = stopOn\<rparr>)))))))))))"

end
