(* ===== verification/WorkflowSpec.thy ===== *)
theory WorkflowSpec
  imports Workflow
begin

text \<open>
  What the validator of \<open>browser/workflow.ts\<close> promises: the limits it works with are inside the
  absolute ceilings, and an accepted workflow is within them, names its elements semantically only
  and opens only web addresses without credentials.
\<close>

section \<open>Accepted workflows\<close>

definition boundedBy :: "nat \<Rightarrow> string \<Rightarrow> bool" where
  "boundedBy n s \<longleftrightarrow> s \<noteq> [] \<and> length s \<le> n"

fun targetOk :: "wfTarget \<Rightarrow> bool" where
  "targetOk (RefText r) = opaqueRef r"
| "targetOk (ByRole role name exact) = (boundedBy 64 role \<and> boundedBy MAX_TARGET_CHARS name)"
| "targetOk (ByLabel label exact) = boundedBy MAX_TARGET_CHARS label"
| "targetOk (ByTestId t) = boundedBy MAX_TEST_ID_CHARS t"
| "targetOk (ByRef r) = opaqueRef r"

fun choiceOk :: "wfChoice \<Rightarrow> bool" where
  "choiceOk (ChoiceText s) = boundedBy 1000 s"
| "choiceOk (ChoiceValue s) = boundedBy 1000 s"
| "choiceOk (ChoiceLabel s) = boundedBy 1000 s"

definition inBounds :: "int \<Rightarrow> int \<Rightarrow> int option \<Rightarrow> bool" where
  "inBounds low high v \<longleftrightarrow> pred_option (\<lambda>n. low \<le> n \<and> n \<le> high) v"

definition webUrl :: "wfUrlParser \<Rightarrow> string \<Rightarrow> bool" where
  "webUrl parse s \<longleftrightarrow> (\<exists>url. parse s = Some url \<and> wuProtocol url \<in> {''http:'', ''https:''}
     \<and> wuUsername url = [] \<and> wuPassword url = [])"

fun stepOk :: "wfUrlParser \<Rightarrow> wfLimits \<Rightarrow> wfStep \<Rightarrow> bool" where
  "stepOk parse limits (OpenStep url waitUntil timeoutMs) =
     (boundedBy 2048 url \<and> webUrl parse url \<and> inBounds 1 MAX_ACTION_TIMEOUT_MS timeoutMs)"
| "stepOk parse limits (ClickStep target timeoutMs) = (targetOk target \<and> inBounds 1 MAX_ACTION_TIMEOUT_MS timeoutMs)"
| "stepOk parse limits (TypeStep target text clear clearFirst submit sensitive timeoutMs) =
     (targetOk target \<and> length text \<le> MAX_TEXT_CHARS \<and> inBounds 1 MAX_ACTION_TIMEOUT_MS timeoutMs
      \<and> (clear = None \<or> clearFirst = None \<or> clear = clearFirst))"
| "stepOk parse limits (SelectStep target choice values timeoutMs) =
     (targetOk target \<and> inBounds 1 MAX_ACTION_TIMEOUT_MS timeoutMs \<and> pred_option choiceOk choice
      \<and> (choice = None) \<noteq> (values = None)
      \<and> pred_option (\<lambda>vs. 1 \<le> length vs \<and> length vs \<le> 32 \<and> list_all (boundedBy 200) vs) values)"
| "stepOk parse limits (ScrollStep dir amount target) =
     (1 \<le> amount \<and> amount \<le> wlMaxScrollAmount limits \<and> pred_option targetOk target)"
| "stepOk parse limits (WaitStep durationMs condition target timeoutMs) =
     (inBounds 1 MAX_WAIT_DURATION_MS durationMs \<and> inBounds 1 MAX_WAIT_DURATION_MS timeoutMs
      \<and> pred_option targetOk target \<and> pred_option (\<lambda>c. opaqueRef (wcRef c)) condition
      \<and> of_bool (durationMs \<noteq> None) + of_bool (condition \<noteq> None) + of_bool (target \<noteq> None) = (1 :: nat))"
| "stepOk parse limits (SnapshotStep maxNodes maxChars maxBytes includeText isCompact format) =
     (inBounds 1 MAX_SNAPSHOT_NODES maxNodes \<and> inBounds 100 MAX_SNAPSHOT_CHARS maxChars
      \<and> inBounds 100 (min MAX_SNAPSHOT_BYTES (wlMaxSnapshotBytes limits)) maxBytes
      \<and> (isCompact = None \<or> format = None \<or> isCompact = Some (format = Some FormatCompact)))"

named_theorems validate_rules \<open>what an accepted field satisfies\<close>

lemma optionalTimeout_ok [validate_rules]: "optionalTimeout v path = Inr t \<Longrightarrow> inBounds 1 MAX_ACTION_TIMEOUT_MS t"
  by (auto simp: optionalTimeout_def wfBoundedInteger_def inBounds_def Let_def split: if_splits)

lemma optionalWait_ok [validate_rules]: "optionalWait v path = Inr t \<Longrightarrow> inBounds 1 MAX_WAIT_DURATION_MS t"
  by (auto simp: optionalWait_def validateWaitDuration_def wfBoundedInteger_def inBounds_def Let_def bindR_Inr
      split: if_splits)

lemma optionalBoundedInteger_ok [validate_rules]:
  "optionalBoundedInteger v low high path = Inr t \<Longrightarrow> 0 \<le> low \<Longrightarrow> inBounds low high t"
  by (auto simp: optionalBoundedInteger_def wfBoundedInteger_def inBounds_def Let_def split: if_splits)

lemma requiredText_ok [validate_rules]: "requiredText v n message path = Inr s \<Longrightarrow> boundedBy n s"
  by (auto simp: requiredText_def boundedText_def boundedBy_def split: option.splits jsval.splits if_splits)

lemma validateUrl_ok [validate_rules]: "validateUrl parse v path = Inr s \<Longrightarrow> boundedBy 2048 s \<and> webUrl parse s"
  by (auto simp: validateUrl_def boundedBy_def webUrl_def split: option.splits jsval.splits if_splits)

lemma ifOk_target_text [ok_rules]:
  "ifOk P (case v of JStr s \<Rightarrow> f s | _ \<Rightarrow> Inl e) \<longleftrightarrow> (\<forall>s. v = JStr s \<longrightarrow> ifOk P (f s))"
  by (cases v) (simp_all add: ifOk_def)

lemma validateTarget_ok [validate_rules]:
  "validateTarget v path = Inr t \<Longrightarrow> targetOk t"
proof (erule ifOkD [rotated], cases v)
  fix fs assume "v = JObj fs"
  then show "ifOk targetOk (validateTarget v path)"
    by (simp add: validateTarget_def Let_def ok_rules requiredText_ok del: not_None_eq)
qed (simp_all add: validateTarget_def wfRecord_def ok_rules)

lemma optionalTarget_ok [validate_rules]: "optionalTarget v path = Inr t \<Longrightarrow> pred_option targetOk t"
  by (auto simp: optionalTarget_def bindR_Inr validateTarget_ok split: if_splits)

lemma validateChoice_ok [validate_rules]:
  "validateChoice v path = Inr c \<Longrightarrow> choiceOk c"
proof (erule ifOkD [rotated], cases v)
  fix fs assume "v = JObj fs"
  then show "ifOk choiceOk (validateChoice v path)"
    by (auto simp: validateChoice_def Let_def ok_rules requiredText_ok)
qed (simp_all add: validateChoice_def wfRecord_def ok_rules requiredText_ok)

lemma selectChoice_ok [validate_rules]: "selectChoice step path = Inr c \<Longrightarrow> choiceOk c"
  by (erule ifOkD [rotated]) (simp add: selectChoice_def ok_rules ifOkI requiredText_ok validateChoice_ok)

lemma selectValues_ok [validate_rules]:
  assumes "selectValues v path = Inr vs"
  shows "1 \<le> length vs \<and> length vs \<le> 32 \<and> list_all (boundedBy 200) vs"
proof (cases v)
  case (JArr xs)
  with assms have *: "xs \<noteq> []" "length xs \<le> 32" and
    m: "mapR (\<lambda>index x. requiredText x 200 ''each select value must be a bounded non-empty string''
                 (path @ ''.values.'' @ showDec index)) 0 xs = Inr vs"
    by (auto simp: selectValues_def split: if_splits)
  show ?thesis
    using * mapR_length [OF m] mapR_all [OF m] requiredText_ok by (fastforce simp: Suc_le_eq)
qed (use assms in \<open>simp_all add: selectValues_def\<close>)

lemma validateCondition_ok [validate_rules]: "validateCondition v path = Inr c \<Longrightarrow> opaqueRef (wcRef c)"
  by (erule ifOkD [rotated]) (simp add: validateCondition_def ok_rules split: jsval.splits)

section \<open>Accepted steps\<close>

lemma normalizeOpen_ok: "ifOk (stepOk parse limits) (normalizeOpen parse step path)"
  by (auto simp: normalizeOpen_def ok_rules dest: validate_rules)

lemma normalizeClick_ok: "ifOk (stepOk parse limits) (normalizeClick step path)"
  by (auto simp: normalizeClick_def ok_rules dest: validate_rules)

lemma normalizeType_ok: "ifOk (stepOk parse limits) (normalizeType step path)"
  by (auto simp: normalizeType_def ok_rules dest: validate_rules split: jsval.splits if_splits)

lemma normalizeSelect_ok: "ifOk (stepOk parse limits) (normalizeSelect step path)"
  by (auto simp: normalizeSelect_def Let_def bindR_Inr ok_rules dest: validate_rules)

lemma normalizeScroll_ok: "1 \<le> wlMaxScrollAmount limits \<Longrightarrow> ifOk (stepOk parse limits) (normalizeScroll limits step path)"
  by (auto simp: normalizeScroll_def ok_rules inBounds_def dest: validate_rules split: option.splits)

lemma normalizeWait_ok: "ifOk (stepOk parse limits) (normalizeWait step path)"
  by (auto simp: normalizeWait_def Let_def bindR_Inr ok_rules dest: validate_rules split: if_splits)

lemma normalizeSnapshot_ok: "ifOk (stepOk parse limits) (normalizeSnapshot limits step path)"
  by (auto simp: normalizeSnapshot_def ok_rules dest: validate_rules)

lemmas normalize_rules = normalizeOpen_ok normalizeClick_ok normalizeType_ok normalizeSelect_ok normalizeScroll_ok
  normalizeWait_ok normalizeSnapshot_ok

lemma normalizeStep_ok:
  "1 \<le> wlMaxScrollAmount limits \<Longrightarrow> ifOk (stepOk parse limits) (normalizeStep parse limits v path)"
  by (simp add: normalizeStep_def Let_def ok_rules normalize_rules)

section \<open>Accepted workflows as a whole\<close>

lemma clampLimit_bounds: "minimum \<le> maximum \<Longrightarrow> minimum \<le> fallback \<Longrightarrow> fallback \<le> maximum \<Longrightarrow>
    minimum \<le> clampLimit v minimum maximum fallback \<and> clampLimit v minimum maximum fallback \<le> maximum"
  by (auto simp: clampLimit_def split: jsnum.splits)

lemmas limit_constants = DEFAULT_WORKFLOW_LIMITS_def defaultLimits_def DEFAULT_AUTOMATION_POLICY_def
  HARD_AUTOMATION_LIMITS_def MIN_WORKFLOW_RESULT_BYTES_def MAX_SNAPSHOT_BYTES_def MAX_ACTION_TIMEOUT_MS_def

text \<open>Whatever limits the server is given, the engine works with limits inside the absolute ceilings.\<close>

definition saneLimits :: "wfLimits \<Rightarrow> bool" where
  "saneLimits l \<longleftrightarrow> 1 \<le> wlMaxSteps l \<and> wlMaxSteps l \<le> 100
     \<and> 1 \<le> wlMaxDurationMs l \<and> wlMaxDurationMs l \<le> 300000
     \<and> 100 \<le> wlMaxResultBytes l \<and> wlMaxResultBytes l \<le> 1048576
     \<and> 100 \<le> wlMaxSnapshotBytes l \<and> wlMaxSnapshotBytes l \<le> 4194304
     \<and> 1 \<le> wlMaxScrollAmount l \<and> wlMaxScrollAmount l \<le> 20"

lemma resolveWorkflowLimits_sane: "saneLimits (resolveWorkflowLimits given)"
  unfolding saneLimits_def resolveWorkflowLimits_def Let_def
  by (simp add: limit_constants) (intro conjI clampLimit_bounds [THEN conjunct1] clampLimit_bounds [THEN conjunct2]; simp)

lemma limitField_ok: "limitField given fallback low high name = Inr n \<Longrightarrow> 0 \<le> low \<Longrightarrow> low \<le> n \<and> n \<le> high"
  by (auto simp: limitField_def wfBoundedInteger_def Let_def split: if_splits)

lemma addOnce_distinct: "distinct xs \<Longrightarrow> distinct (foldl addOnce xs ys)"
  by (induction ys arbitrary: xs) (simp_all add: addOnce_def)

lemma stopTriggers_ok: "stopTriggers v = Inr ts \<Longrightarrow> distinct ts"
  by (cases v) (auto simp: stopTriggers_def bindR_Inr addOnce_distinct)

definition workflowOk :: "wfUrlParser \<Rightarrow> wfLimits \<Rightarrow> wfWorkflow \<Rightarrow> bool" where
  "workflowOk parse limits w \<longleftrightarrow>
     wfSteps w \<noteq> [] \<and> int (length (wfSteps w)) \<le> wlMaxSteps limits
     \<and> list_all (stepOk parse limits) (wfSteps w)
     \<and> pred_option ACTION_ID_PATTERN (wfActionId w)
     \<and> 1 \<le> wfMaxDurationMs w \<and> wfMaxDurationMs w \<le> wlMaxDurationMs limits
     \<and> 100 \<le> wfMaxResultBytes w \<and> wfMaxResultBytes w \<le> wlMaxResultBytes limits
     \<and> distinct (wfStopOn w)"

lemma steps_ok:
  "mapR (\<lambda>index step. normalizeStep parse limits step (pathOf index)) i xs = Inr ys \<Longrightarrow>
   1 \<le> wlMaxScrollAmount limits \<Longrightarrow> list_all (stepOk parse limits) ys"
  by (erule mapR_all) (erule ifOkD [OF normalizeStep_ok])

text \<open>C16. A workflow the validator accepts is inside the limits and within the reach of the language: it has at
  least one step and no more than the limits allow, and every step names its element by an opaque
  reference, a role and name, a label or a test id, never by a selector, opens only http and https
  addresses without credentials, and keeps every text, duration, count and byte budget within its
  bound; a select has exactly one of a choice and a value list, a wait has exactly one cause.\<close>

theorem workflow_accepted_safe:
  assumes "normalizeWorkflow parse v options = Inr w"
  shows "saneLimits (resolveWorkflowLimits (voLimits options))
    \<and> workflowOk parse (resolveWorkflowLimits (voLimits options)) w"
proof -
  let ?l = "resolveWorkflowLimits (voLimits options)"
  have sane: "saneLimits ?l" by (rule resolveWorkflowLimits_sane)
  then have "1 \<le> wlMaxScrollAmount ?l" by (simp add: saneLimits_def)
  note steps = steps_ok [OF _ this]
  have "ifOk (workflowOk parse ?l) (normalizeWorkflow parse v options)"
    by (auto simp: normalizeWorkflow_def Let_def ok_rules workflowOk_def MIN_WORKFLOW_RESULT_BYTES_def
        dest: limitField_ok stopTriggers_ok steps mapR_length split: jsval.splits if_splits)
  with assms sane show ?thesis by (simp add: ifOkD)
qed

definition demoWfUrls :: wfUrlParser where
  "demoWfUrls s = (if s = ''https://example.com/a''
     then Some \<lparr>wuProtocol = ''https:'', wuUsername = [], wuPassword = [], wuOrigin = ''https://example.com'',
       wuPathname = ''/a''\<rparr> else None)"

definition demoSteps :: "jsval list" where
  "demoSteps =
     [JObj [(''op'', JStr ''scroll''), (''direction'', JStr ''down''), (''amount'', JNum (JFin 2))],
      JObj [(''op'', JStr ''click''), (''target'', JObj [(''role'', JStr ''button''), (''name'', JStr ''Next'')])],
      JObj [(''op'', JStr ''wait''), (''milliseconds'', JNum (JFin 20))]]"

definition demoWorkflow :: jsval where
  "demoWorkflow = JObj [(''steps'', JArr demoSteps), (''stopOn'', JArr [JStr ''dialog''])]"

definition noOverrides :: wfValidationOptions where
  "noOverrides = \<lparr>voMaxDurationMs = JUndef, voMaxResultBytes = JUndef, voLimits = None\<rparr>"

definition demoAccepted :: wfWorkflow where
  "demoAccepted =
     \<lparr>wfSteps = [ScrollStep DirDown 2 None, ClickStep (ByRole ''button'' ''Next'' None) None,
        WaitStep (Some 20) None None None],
      wfActionId = None, wfExpectedPageRevision = None, wfExpectedTabId = None, wfMaxDurationMs = 120000,
      wfMaxResultBytes = 262144, wfStopOn = [OnDialog]\<rparr>"

lemma demo_accepted: "normalizeWorkflow demoWfUrls demoWorkflow noOverrides = Inr demoAccepted"
  by code_simp

theorem workflow_accepted_safe_witness:
  "workflowOk demoWfUrls (resolveWorkflowLimits None) demoAccepted"
  using workflow_accepted_safe [OF demo_accepted] by (simp add: noOverrides_def)

end
