(* ===== verification/WorkflowReport.thy ===== *)
theory WorkflowReport
  imports Workflow
begin

text \<open>
  What a workflow run reports (\<open>browser/workflow.ts\<close>): the reading of statuses, results and
  errors of the adapter, the summaries of steps, and the reduction of the report to a byte
  budget.
\<close>

section \<open>Reading untrusted values\<close>

definition orOpt :: "'a option \<Rightarrow> 'a option \<Rightarrow> 'a option" where
  "orOpt a b = (case a of None \<Rightarrow> b | Some x \<Rightarrow> Some x)"

text \<open>\<open>rawRecord(v).k\<close>: an array is an object whose only field read is its length.\<close>

fun rawProp :: "jsval \<Rightarrow> string \<Rightarrow> jsval" where
  "rawProp (JArr xs) k = (if k = ''length'' then JNum (JFin (of_nat (length xs))) else JUndef)"
| "rawProp v k = getProp v k"

definition textOf :: "jsval \<Rightarrow> string option" where
  "textOf v = (case v of JStr s \<Rightarrow> Some s | _ \<Rightarrow> None)"

definition safeRevision :: "jsval \<Rightarrow> int option" where
  "safeRevision v = (if numberIsSafeInteger v \<and> 0 \<le> intOf v then Some (intOf v) else None)"

definition resultRevision :: "jsval \<Rightarrow> int option" where
  "resultRevision v =
     orOpt (safeRevision (rawProp v ''pageRevision''))
       (orOpt (safeRevision (rawProp v ''pageGeneration'')) (safeRevision (rawProp v ''generation'')))"

definition safeOpaque :: "jsval \<Rightarrow> nat \<Rightarrow> string option" where
  "safeOpaque v maximum =
     (case v of
        JStr s \<Rightarrow> (let cleaned = take maximum (filter (\<lambda>c. \<not> isControl c) s) in
                   if cleaned = [] then None else Some cleaned)
      | _ \<Rightarrow> None)"

definition safeUrl :: "wfUrlParser \<Rightarrow> jsval \<Rightarrow> string option" where
  "safeUrl parse v =
     (case v of
        JStr s \<Rightarrow> (case parse s of
            None \<Rightarrow> None
          | Some url \<Rightarrow>
              if wuProtocol url \<noteq> ''http:'' \<and> wuProtocol url \<noteq> ''https:'' then None
              else Some (take 2048 (wuOrigin url @ wuPathname url)))
      | _ \<Rightarrow> None)"

definition safeTitle :: "jsval \<Rightarrow> string option" where
  "safeTitle v = (case v of JStr s \<Rightarrow> (let title = singleLine s 500 in if title = [] then None else Some title) | _ \<Rightarrow> None)"

definition keptInContent :: "char \<Rightarrow> bool" where
  "keptInContent c \<longleftrightarrow> \<not> isControl c \<or> charCode c \<in> {9, 10, 13}"

definition safeContent :: "jsval \<Rightarrow> string option" where
  "safeContent v = (case v of JStr s \<Rightarrow> Some (take (nat MAX_SNAPSHOT_BYTES) (filter keptInContent s)) | _ \<Rightarrow> None)"

section \<open>Statuses\<close>

record wfStatus =
  nsState :: "string option"
  nsTabId :: "string option"
  nsPageRevision :: "int option"
  nsChallenge :: bool
  nsLatestInterrupt :: "int option"
  nsRecentTypes :: "string list"
  nsInterruptTotal :: "int option"

definition normalizeStatus :: "jsval \<Rightarrow> wfStatus" where
  "normalizeStatus v =
     (let challenge = rawProp v ''challenge''; interrupts = rawProp v ''interrupts'';
          state = textOf (rawProp v ''state'')
      in \<lparr>nsState = state, nsTabId = safeOpaque (rawProp v ''tabId'') 100,
          nsPageRevision = orOpt (safeRevision (rawProp v ''pageRevision'')) (safeRevision (rawProp v ''pageGeneration'')),
          nsChallenge = (rawProp challenge ''detected'' = JBool True \<or> state = Some ''PAUSED_CHALLENGE''),
          nsLatestInterrupt = safeRevision (rawProp interrupts ''latestSequence''),
          nsRecentTypes = (case rawProp interrupts ''recent'' of
              JArr xs \<Rightarrow> List.map_filter (\<lambda>event. textOf (rawProp event ''type'')) xs
            | _ \<Rightarrow> []),
          nsInterruptTotal = safeRevision (rawProp interrupts ''total'')\<rparr>)"

definition lastType :: "wfStatus \<Rightarrow> string option" where
  "lastType st = (if nsRecentTypes st = [] then None else Some (last (nsRecentTypes st)))"

datatype wfStopReason = StopCompleted | StopNavigation | StopChallenge | StopInterrupt | StopRevisionMismatch
  | StopError | StopTimeout

text \<open>What a blocked dialog or download does, and every other interrupt.\<close>

definition interruptStop :: "string option \<Rightarrow> wfTrigger list \<Rightarrow> wfStopReason option" where
  "interruptStop type stopOn =
     (if type = Some ''DIALOG_BLOCKED''
      then (if stopOn = [] \<or> OnDialog \<in> set stopOn \<or> OnInterrupt \<in> set stopOn then Some StopInterrupt else None)
      else if type = Some ''DOWNLOAD_BLOCKED''
      then (if stopOn = [] \<or> OnDownload \<in> set stopOn \<or> OnInterrupt \<in> set stopOn then Some StopInterrupt else None)
      else Some StopInterrupt)"

definition increased :: "int option \<Rightarrow> int option \<Rightarrow> bool" where
  "increased earlier after = (case (earlier, after) of (Some b, Some a) \<Rightarrow> a > b | _ \<Rightarrow> False)"

definition statusStopReason :: "wfStatus option \<Rightarrow> wfStatus option \<Rightarrow> wfTrigger list \<Rightarrow> wfStopReason option" where
  "statusStopReason earlier after stopOn =
     (case after of
        None \<Rightarrow> None
      | Some a \<Rightarrow>
          if nsChallenge a \<and> (case earlier of None \<Rightarrow> True | Some b \<Rightarrow> \<not> nsChallenge b) then Some StopChallenge
          else if nsState a = Some ''HUMAN_TAKEOVER'' \<or> nsState a = Some ''ERROR'' then Some StopInterrupt
          else if \<not> increased (Option.bind earlier nsLatestInterrupt) (nsLatestInterrupt a)
               \<and> \<not> increased (Option.bind earlier nsInterruptTotal) (nsInterruptTotal a)
          then None
          else interruptStop (lastType a) stopOn)"

definition rawStopReason :: "jsval \<Rightarrow> wfTrigger list \<Rightarrow> wfStopReason option" where
  "rawStopReason raw stopOn =
     (if rawProp raw ''challenge'' = JBool True \<or> rawProp raw ''challengeDetected'' = JBool True
      then Some StopChallenge
      else
        (let interruptType = textOf (rawProp raw ''interruptType'') in
         if interruptType = Some ''DIALOG_BLOCKED'' \<or> interruptType = Some ''DOWNLOAD_BLOCKED''
         then interruptStop interruptType stopOn
         else if interruptType \<noteq> None \<or> rawProp raw ''interrupted'' = JBool True \<or> rawProp raw ''interrupt'' \<noteq> JUndef
         then Some StopInterrupt
         else
           (let nested = normalizeStatus (rawProp raw ''status'') in
            if nsChallenge nested then Some StopChallenge
            else if (nsLatestInterrupt nested \<noteq> None \<or> nsInterruptTotal nested \<noteq> None)
                 \<and> (rawProp raw ''blocked'' = JBool True \<or> rawProp raw ''interrupted'' = JBool True)
            then interruptStop (lastType nested) stopOn
            else None)))"

definition navigationDetected :: "wfStatus option \<Rightarrow> wfStatus option \<Rightarrow> jsval \<Rightarrow> bool" where
  "navigationDetected earlier after raw =
     (case (Option.bind earlier nsPageRevision, orOpt (Option.bind after nsPageRevision) (resultRevision raw)) of
        (Some b, Some a) \<Rightarrow> b \<noteq> a
      | _ \<Rightarrow> False)"

section \<open>Errors\<close>

text \<open>An error is the value thrown; a missed deadline throws a \<open>WorkflowTimeoutError\<close>.\<close>

definition timeoutError :: jsval where
  "timeoutError = JObj [(''code'', JStr ''WORKFLOW_TIMEOUT'')]"

record wfFailure =
  cfCode :: string
  cfReason :: wfStopReason
  cfRetryable :: bool
  cfDetails :: "(int option \<times> int option) option"

definition matchesText :: "string \<Rightarrow> string \<Rightarrow> bool" where
  "matchesText code word = includesStr (toLowerCase code) word"

definition isInterruptCode :: "string \<Rightarrow> bool" where
  "isInterruptCode code \<longleftrightarrow>
     list_ex (matchesText code) [''popup'', ''dialog'', ''download'', ''interrupt'', ''page_crashed'', ''context_closed'']"

definition classifyFailure :: "jsval \<Rightarrow> wfFailure" where
  "classifyFailure error =
     (let code = (case textOf (rawProp error ''code'') of None \<Rightarrow> ''INTERNAL'' | Some c \<Rightarrow> c);
          retryable = (rawProp error ''retryable'' = JBool True);
          details = rawProp error ''details'';
          expectedPage = safeRevision (rawProp details ''expectedPageRevision'');
          actualPage = safeRevision (rawProp details ''actualPageRevision'');
          kept = (if code = ''PAGE_REVISION_MISMATCH'' \<and> (expectedPage \<noteq> None \<or> actualPage \<noteq> None)
                  then Some (expectedPage, actualPage) else None);
          failure = (\<lambda>reason again. \<lparr>cfCode = code, cfReason = reason, cfRetryable = again, cfDetails = kept\<rparr>)
      in if code = ''WORKFLOW_TIMEOUT'' \<or> code = ''ACTION_TIMEOUT'' then failure StopTimeout True
         else if code = ''SESSION_PAUSED_CHALLENGE'' \<or> matchesText code ''challenge'' then failure StopChallenge retryable
         else if code = ''PAGE_REVISION_MISMATCH'' then failure StopRevisionMismatch True
         else if isInterruptCode code then failure StopInterrupt retryable
         else failure StopError retryable)"

definition safeErrorMessage :: "string \<Rightarrow> string" where
  "safeErrorMessage code =
     (if code = ''SESSION_PAUSED_CHALLENGE'' then ''Automation paused for human challenge handling.''
      else if code = ''PAGE_REVISION_MISMATCH'' then ''The page changed; obtain a fresh snapshot.''
      else if code = ''WORKFLOW_TIMEOUT'' \<or> code = ''ACTION_TIMEOUT'' then ''The workflow deadline was exceeded.''
      else if code = ''TARGET_AMBIGUOUS'' then ''The target was ambiguous.''
      else if code = ''TARGET_NOT_FOUND'' then ''The target was not found.''
      else if code = ''NAVIGATION_DENIED'' \<or> code = ''PRIVATE_NETWORK_DENIED'' then ''Navigation was denied by policy.''
      else ''The workflow step failed.'')"

record wfErrorSummary =
  esCode :: string
  esRetryable :: bool
  esMessage :: "string option"
  esDetails :: "(int option \<times> int option) option"

definition errorSummary :: "wfFailure \<Rightarrow> wfErrorSummary" where
  "errorSummary failure =
     \<lparr>esCode = cfCode failure, esRetryable = cfRetryable failure,
      esMessage = Some (safeErrorMessage (cfCode failure)), esDetails = cfDetails failure\<rparr>"

section \<open>Summaries of steps\<close>

record wfSnapshotSummary =
  ssTabId :: "string option"
  ssSnapshotId :: "string option"
  ssPageRevision :: "int option"
  ssFormat :: "wfFormat option"
  ssContent :: "string option"
  ssContentBytes :: "int option"
  ssTruncated :: "bool option"

datatype wfSummary =
    SumOpen "string option" "string option" "int option"
  | SumClick "string option" "int option"
  | SumType "string option" int "int option"
  | SumSelect "string option" "int option"
  | SumScroll wfDirection int "int option"
  | SumWait "int option" "bool option" "int option"
  | SumSnapshot wfSnapshotSummary

definition targetRef :: "wfTarget \<Rightarrow> jsval" where
  "targetRef target = (case target of RefText s \<Rightarrow> JStr s | ByRef s \<Rightarrow> JStr s | _ \<Rightarrow> JUndef)"

definition summaryRef :: "jsval \<Rightarrow> wfTarget \<Rightarrow> string option" where
  "summaryRef raw target = safeOpaque (nullish (rawProp raw ''ref'') (targetRef target)) 100"

definition snapshotSummary :: "jsval \<Rightarrow> int option \<Rightarrow> wfSnapshotSummary" where
  "snapshotSummary raw revision =
     (let content = safeContent (getProp raw ''content'');
          format = Option.bind (textOf (getProp raw ''format'')) (map_of FORMATS);
          truncated = getProp raw ''truncated''
      in \<lparr>ssTabId = safeOpaque (getProp raw ''tabId'') 100, ssSnapshotId = safeOpaque (getProp raw ''snapshotId'') 128,
          ssPageRevision = revision, ssFormat = format, ssContent = content,
          ssContentBytes =
            (case safeRevision (getProp raw ''contentBytes'') of
               Some n \<Rightarrow> Some (min MAX_SNAPSHOT_BYTES n)
             | None \<Rightarrow> map_option (\<lambda>c. int (utf8Length c)) content),
          ssTruncated =
            (case truncated of
               JObj ps \<Rightarrow> Some (truthy (getProp truncated ''content''))
             | JArr xs \<Rightarrow> Some False
             | _ \<Rightarrow> None)\<rparr>)"

definition safeStepSummary :: "wfUrlParser \<Rightarrow> wfStep \<Rightarrow> jsval \<Rightarrow> int option \<Rightarrow> wfSummary" where
  "safeStepSummary parse step raw revision =
     (let rawRevision = orOpt revision (resultRevision raw) in
      case step of
        OpenStep url waitUntil timeoutMs \<Rightarrow>
          SumOpen (orOpt (safeUrl parse (rawProp raw ''url'')) (safeUrl parse (JStr url)))
            (safeTitle (rawProp raw ''title'')) rawRevision
      | ClickStep target timeoutMs \<Rightarrow> SumClick (summaryRef raw target) rawRevision
      | TypeStep target text clear clearFirst submit sensitive timeoutMs \<Rightarrow>
          SumType (summaryRef raw target)
            (case safeRevision (rawProp raw ''length'') of Some n \<Rightarrow> n | None \<Rightarrow> int (length text)) rawRevision
      | SelectStep target choice values timeoutMs \<Rightarrow> SumSelect (summaryRef raw target) rawRevision
      | ScrollStep dir amount target \<Rightarrow>
          SumScroll (case Option.bind (textOf (rawProp raw ''direction'')) (map_of DIRECTIONS) of None \<Rightarrow> dir | Some d \<Rightarrow> d)
            (if rawProp raw ''amount'' \<in> {JNum (JFin 1), JNum (JFin 2), JNum (JFin 3)}
             then intOf (rawProp raw ''amount'') else amount)
            rawRevision
      | WaitStep durationMs condition target timeoutMs \<Rightarrow>
          SumWait (if numberIsFinite (rawProp raw ''waitedMs'') \<and> 0 \<le> numOf (rawProp raw ''waitedMs'')
                   then Some (min MAX_WAIT_DURATION_MS (intOf (rawProp raw ''waitedMs''))) else None)
            (case rawProp raw ''conditionMet'' of JBool b \<Rightarrow> Some b | _ \<Rightarrow> None) rawRevision
      | SnapshotStep maxNodes maxChars maxBytes includeText isCompact format \<Rightarrow>
          SumSnapshot (snapshotSummary raw rawRevision))"

section \<open>Reports and results\<close>

datatype wfStepStatus = StepSuccess | StepError | StepInterrupted

record wfReport =
  rpIndex :: nat
  rpOp :: string
  rpStatus :: wfStepStatus
  rpOk :: bool
  rpElapsedMs :: int
  rpPageRevision :: "int option"
  rpSummary :: "wfSummary option"
  rpError :: "wfErrorSummary option"

text \<open>A result; the reduced shape of the fallback has no counts and no truncation mark.\<close>

record wfResult =
  wrOk :: bool
  wrCompleted :: bool
  wrStopReason :: wfStopReason
  wrSteps :: "wfReport list"
  wrCompletedSteps :: "nat option"
  wrElapsedMs :: "int option"
  wrResultBytes :: nat
  wrTruncated :: "bool option"

fun stepOp :: "wfStep \<Rightarrow> string" where
  "stepOp (OpenStep _ _ _) = ''open''"
| "stepOp (ClickStep _ _) = ''click''"
| "stepOp (TypeStep _ _ _ _ _ _ _) = ''type''"
| "stepOp (SelectStep _ _ _ _) = ''select''"
| "stepOp (ScrollStep _ _ _) = ''scroll''"
| "stepOp (WaitStep _ _ _ _) = ''wait''"
| "stepOp (SnapshotStep _ _ _ _ _ _) = ''snapshot''"

subsection \<open>As JSON\<close>

fun stopReasonText :: "wfStopReason \<Rightarrow> string" where
  "stopReasonText StopCompleted = ''completed''"
| "stopReasonText StopNavigation = ''navigation''"
| "stopReasonText StopChallenge = ''challenge''"
| "stopReasonText StopInterrupt = ''interrupt''"
| "stopReasonText StopRevisionMismatch = ''revision_mismatch''"
| "stopReasonText StopError = ''error''"
| "stopReasonText StopTimeout = ''timeout''"

fun stepStatusText :: "wfStepStatus \<Rightarrow> string" where
  "stepStatusText StepSuccess = ''success''"
| "stepStatusText StepError = ''error''"
| "stepStatusText StepInterrupted = ''interrupted''"

definition nameIn :: "(string \<times> 'a) list \<Rightarrow> 'a \<Rightarrow> string" where
  "nameIn names x = (case filter (\<lambda>e. snd e = x) names of [] \<Rightarrow> [] | e # es \<Rightarrow> fst e)"

definition revisionField :: "int option \<Rightarrow> (string \<times> json) list" where
  "revisionField revision = optField ''pageRevision'' JsInt revision"

fun summaryFields :: "wfSummary \<Rightarrow> (string \<times> json) list" where
  "summaryFields (SumOpen url title revision) =
     [(''kind'', JsText ''open'')] @ optField ''url'' JsText url @ optField ''title'' JsText title @ revisionField revision"
| "summaryFields (SumClick ref revision) =
     [(''kind'', JsText ''click'')] @ optField ''ref'' JsText ref @ revisionField revision"
| "summaryFields (SumType ref len revision) =
     [(''kind'', JsText ''type'')] @ optField ''ref'' JsText ref @ [(''length'', JsInt len)] @ revisionField revision"
| "summaryFields (SumSelect ref revision) =
     [(''kind'', JsText ''select'')] @ optField ''ref'' JsText ref @ revisionField revision"
| "summaryFields (SumScroll dir amount revision) =
     [(''kind'', JsText ''scroll''), (''direction'', JsText (nameIn DIRECTIONS dir)), (''amount'', JsInt amount)]
       @ revisionField revision"
| "summaryFields (SumWait waited met revision) =
     [(''kind'', JsText ''wait'')] @ optField ''waitedMs'' JsInt waited @ optField ''conditionMet'' JsBool met
       @ revisionField revision"
| "summaryFields (SumSnapshot s) =
     optField ''tabId'' JsText (ssTabId s) @ [(''kind'', JsText ''snapshot'')]
       @ optField ''snapshotId'' JsText (ssSnapshotId s) @ revisionField (ssPageRevision s)
       @ optField ''format'' (\<lambda>f. JsText (nameIn FORMATS f)) (ssFormat s) @ optField ''content'' JsText (ssContent s)
       @ optField ''contentBytes'' JsInt (ssContentBytes s) @ optField ''truncated'' JsBool (ssTruncated s)"

definition detailsJson :: "int option \<times> int option \<Rightarrow> json" where
  "detailsJson d = JsFields (optField ''expectedPageRevision'' JsInt (fst d) @ optField ''actualPageRevision'' JsInt (snd d))"

definition errorJson :: "wfErrorSummary \<Rightarrow> json" where
  "errorJson e = JsFields ([(''code'', JsText (esCode e)), (''retryable'', JsBool (esRetryable e))]
     @ optField ''message'' JsText (esMessage e) @ optField ''details'' detailsJson (esDetails e))"

definition reportJson :: "wfReport \<Rightarrow> json" where
  "reportJson r = JsFields ([(''index'', JsInt (int (rpIndex r))), (''op'', JsText (rpOp r)),
     (''status'', JsText (stepStatusText (rpStatus r))), (''ok'', JsBool (rpOk r)), (''elapsedMs'', JsInt (rpElapsedMs r))]
     @ revisionField (rpPageRevision r) @ optField ''summary'' (\<lambda>s. JsFields (summaryFields s)) (rpSummary r)
     @ optField ''error'' errorJson (rpError r))"

definition resultJson :: "wfResult \<Rightarrow> json" where
  "resultJson r = JsFields ([(''ok'', JsBool (wrOk r)),
     (''status'', JsText (if wrCompleted r then ''completed'' else ''stopped'')),
     (''stopReason'', JsText (stopReasonText (wrStopReason r))), (''steps'', JsList (map reportJson (wrSteps r)))]
     @ optField ''completedSteps'' (\<lambda>n. JsInt (int n)) (wrCompletedSteps r) @ optField ''elapsedMs'' JsInt (wrElapsedMs r)
     @ [(''resultBytes'', JsInt (int (wrResultBytes r)))] @ optField ''truncated'' JsBool (wrTruncated r))"

subsection \<open>The byte budget\<close>

definition resultUtf8 :: "wfResult \<Rightarrow> nat" where
  "resultUtf8 r = utf8Length (jsonText (resultJson r))"

text \<open>Eight attempts at a byte count that counts itself; the count is left in the result.\<close>

primrec measureLoop :: "nat \<Rightarrow> nat \<Rightarrow> wfResult \<Rightarrow> nat \<times> wfResult" where
  "measureLoop 0 count r =
     (let r' = r\<lparr>wrResultBytes := count\<rparr> in (resultUtf8 r', r'))"
| "measureLoop (Suc attempts) count r =
     (let r' = r\<lparr>wrResultBytes := count\<rparr>; measured = resultUtf8 r' in
      if measured = count then (measured, r') else measureLoop attempts measured r')"

definition measuredResultBytes :: "wfResult \<Rightarrow> nat \<times> wfResult" where
  "measuredResultBytes r = measureLoop 8 0 r"

text \<open>The first report a change applies to is changed.\<close>

fun changeFirst :: "('a \<Rightarrow> 'a option) \<Rightarrow> 'a list \<Rightarrow> 'a list option" where
  "changeFirst f [] = None"
| "changeFirst f (x # xs) =
     (case f x of Some y \<Rightarrow> Some (y # xs) | None \<Rightarrow> map_option (\<lambda>ys. x # ys) (changeFirst f xs))"

definition shortenContent :: "nat \<Rightarrow> wfReport \<Rightarrow> wfReport option" where
  "shortenContent targetBytes r =
     (case rpSummary r of
        Some (SumSnapshot s) \<Rightarrow>
          (case ssContent s of
             None \<Rightarrow> None
           | Some content \<Rightarrow>
               if content = [] \<or> utf8Length content \<le> targetBytes then None
               else (let bounded = utf8Prefix targetBytes content in
                     Some (r\<lparr>rpSummary := Some (SumSnapshot (s\<lparr>ssContent := Some bounded,
                       ssContentBytes := Some (int (utf8Length bounded)), ssTruncated := Some True\<rparr>))\<rparr>)))
      | _ \<Rightarrow> None)"

definition removeMessage :: "wfReport \<Rightarrow> wfReport option" where
  "removeMessage r =
     (case rpError r of
        Some e \<Rightarrow> if esMessage e \<noteq> None then Some (r\<lparr>rpError := Some (e\<lparr>esMessage := None\<rparr>)\<rparr>) else None
      | None \<Rightarrow> None)"

definition removeOptionalFields :: "wfReport \<Rightarrow> wfReport option" where
  "removeOptionalFields r =
     (case rpSummary r of
        Some (SumSnapshot s) \<Rightarrow>
          if ssContent s \<noteq> None
          then Some (r\<lparr>rpSummary := Some (SumSnapshot (s\<lparr>ssContent := None, ssContentBytes := None,
                  ssTruncated := Some True\<rparr>))\<rparr>)
          else if ssSnapshotId s \<noteq> None
          then Some (r\<lparr>rpSummary := Some (SumSnapshot (s\<lparr>ssSnapshotId := None\<rparr>))\<rparr>)
          else removeMessage r
      | Some (SumOpen url title revision) \<Rightarrow>
          if title \<noteq> None then Some (r\<lparr>rpSummary := Some (SumOpen url None revision)\<rparr>)
          else if url \<noteq> None then Some (r\<lparr>rpSummary := Some (SumOpen None title revision)\<rparr>)
          else removeMessage r
      | _ \<Rightarrow> removeMessage r)"

definition countSuccess :: "wfReport list \<Rightarrow> nat" where
  "countSuccess rs = length (filter (\<lambda>r. rpStatus r = StepSuccess) rs)"

text \<open>One reduction; \<open>None\<close> when nothing is left to reduce.\<close>

definition reduceResult :: "nat \<Rightarrow> wfResult \<Rightarrow> wfResult option" where
  "reduceResult maxBytes r =
     (case orOpt (changeFirst (shortenContent (maxBytes div 4)) (wrSteps r)) (changeFirst removeOptionalFields (wrSteps r)) of
        Some steps \<Rightarrow> Some (r\<lparr>wrSteps := steps, wrTruncated := Some True\<rparr>)
      | None \<Rightarrow>
          if 1 < length (wrSteps r)
          then (let steps = butlast (wrSteps r) in
                Some (r\<lparr>wrSteps := steps, wrCompletedSteps := Some (countSuccess steps), wrTruncated := Some True\<rparr>))
          else None)"

text \<open>One turn of the loop, on the result as the measurement leaves it.\<close>

definition boundStep :: "nat \<Rightarrow> wfResult \<Rightarrow> wfResult option" where
  "boundStep maxBytes r =
     (case measuredResultBytes r of (bytes, r') \<Rightarrow> if bytes \<le> maxBytes then None else reduceResult maxBytes r')"

text \<open>The weight of a report: what reductions can still take from it; every reduction lowers it.\<close>

definition reportWeight :: "wfReport \<Rightarrow> nat" where
  "reportWeight r =
     Suc ((case rpSummary r of
             Some (SumSnapshot s) \<Rightarrow>
               (case ssContent s of None \<Rightarrow> 0 | Some c \<Rightarrow> Suc (utf8Length c)) + of_bool (ssSnapshotId s \<noteq> None)
           | Some (SumOpen url title revision) \<Rightarrow> of_bool (url \<noteq> None) + of_bool (title \<noteq> None)
           | _ \<Rightarrow> 0)
       + (case rpError r of None \<Rightarrow> 0 | Some e \<Rightarrow> of_bool (esMessage e \<noteq> None)))"

definition resultWeight :: "wfResult \<Rightarrow> nat" where
  "resultWeight r = sum_list (map reportWeight (wrSteps r))"

lemma changeFirst_weight:
  "changeFirst f xs = Some ys \<Longrightarrow> (\<And>x y. f x = Some y \<Longrightarrow> w y < w x) \<Longrightarrow>
     sum_list (map w ys) < (sum_list (map w xs) :: nat)"
  by (induction xs arbitrary: ys) (force split: option.splits)+

lemma shortenContent_weight: "shortenContent n r = Some r' \<Longrightarrow> reportWeight r' < reportWeight r"
  using utf8Prefix_le [of n]
  by (fastforce simp: shortenContent_def reportWeight_def Let_def intro: le_less_trans
      split: option.splits wfSummary.splits if_splits)

lemma removeMessage_weight: "removeMessage r = Some r' \<Longrightarrow> reportWeight r' < reportWeight r"
  by (auto simp: removeMessage_def reportWeight_def split: option.splits if_splits)

lemma removeOptionalFields_weight: "removeOptionalFields r = Some r' \<Longrightarrow> reportWeight r' < reportWeight r"
  using removeMessage_weight [of r r']
  by (cases "rpSummary r"; cases "the (rpSummary r)")
     (auto simp: removeOptionalFields_def reportWeight_def [of r] reportWeight_def [of "r\<lparr>rpSummary := x\<rparr>" for x]
       split: if_splits option.splits)

lemma butlast_weight: "xs \<noteq> [] \<Longrightarrow> sum_list (map reportWeight (butlast xs)) < sum_list (map reportWeight xs)"
  by (induction xs rule: rev_induct) (simp_all add: reportWeight_def)

lemma changes_weight:
  "changeFirst (shortenContent n) rs = Some ys \<Longrightarrow> sum_list (map reportWeight ys) < sum_list (map reportWeight rs)"
  "changeFirst removeOptionalFields rs = Some ys \<Longrightarrow> sum_list (map reportWeight ys) < sum_list (map reportWeight rs)"
  by (erule changeFirst_weight, erule shortenContent_weight)
     (erule changeFirst_weight, erule removeOptionalFields_weight)

lemma reduceResult_weight: "reduceResult maxBytes r = Some r' \<Longrightarrow> resultWeight r' < resultWeight r"
proof -
  assume r: "reduceResult maxBytes r = Some r'"
  have "wrSteps r \<noteq> []" if "1 < length (wrSteps r)" using that by auto
  with r show ?thesis
    by (auto simp: reduceResult_def resultWeight_def orOpt_def Let_def
        intro: changes_weight butlast_weight split: option.splits if_splits)
qed

lemma measureLoop_steps: "wrSteps (snd (measureLoop k count r)) = wrSteps r"
  by (induction k arbitrary: count r) (simp_all add: Let_def)

lemma boundStep_weight: "boundStep maxBytes r = Some r' \<Longrightarrow> resultWeight r' < resultWeight r"
  using measureLoop_steps [of 8 0 r] reduceResult_weight [of maxBytes "snd (measuredResultBytes r)" r']
  by (auto simp: boundStep_def measuredResultBytes_def resultWeight_def split: prod.splits if_splits)

function boundLoop :: "nat \<Rightarrow> wfResult \<Rightarrow> wfResult" where
  "boundLoop maxBytes r = (case boundStep maxBytes r of None \<Rightarrow> r | Some r' \<Rightarrow> boundLoop maxBytes r')"
  by auto
termination
  by (relation "measure (\<lambda>(maxBytes, r). resultWeight r)") (auto dest: boundStep_weight)

declare boundLoop.simps [simp del]

definition boundResult :: "wfResult \<Rightarrow> nat \<Rightarrow> wfResult" where
  "boundResult input maxBytes =
     (let result = boundLoop maxBytes input; bytes = fst (measuredResultBytes result) in
      if maxBytes < bytes
      then snd (measuredResultBytes \<lparr>wrOk = wrOk result, wrCompleted = wrCompleted result,
             wrStopReason = wrStopReason result, wrSteps = [], wrCompletedSteps = None, wrElapsedMs = None,
             wrResultBytes = 0, wrTruncated = None\<rparr>)
      else snd (measuredResultBytes (result\<lparr>wrResultBytes := bytes\<rparr>)))"

end
