(* ===== verification/WorkflowRun.thy ===== *)
theory WorkflowRun
  imports WorkflowReport
begin

text \<open>
  \<open>WorkflowExecutor\<close> of \<open>browser/workflow.ts\<close>: the run of a validated workflow on an adapter
  under a deadline, and the cache that makes an action identifier idempotent.

  The adapter is a parameter: a call takes the time left and says whether it returned, threw,
  or was unsettled when the deadline passed, which is when its abort signal fires; the calls
  of an aborted step that would follow are not made.  The clock and the caller's abort signal
  are functions of the number of clock readings, SHA-256 is a parameter.
\<close>

section \<open>The adapter\<close>

record wfActionOptions =
  aoActionId :: "string option"
  aoExpectedPageRevision :: "int option"
  aoExpectedTabId :: "string option"
  aoTimeoutMs :: "int option"
  aoWaitUntil :: "wfWaitUntil option"
  aoClearFirst :: "bool option"
  aoSubmit :: "bool option"
  aoSensitive :: "bool option"

datatype wfCall =
    CallOpen string wfActionOptions
  | CallClick wfTarget wfActionOptions
  | CallType wfTarget string wfActionOptions
  | CallSelect wfTarget wfChoice wfActionOptions
  | CallScroll wfDirection int "wfTarget option" wfActionOptions
  | CallWait "int option" "wfCondition option" "wfTarget option" "int option"
  | CallSnapshot "int option" "int option" "int option" "bool option" "wfFormat option"

datatype wfReply = Returned jsval | Rejected jsval | Unsettled

record 'a wfAdapter =
  waCall :: "wfCall \<Rightarrow> int \<Rightarrow> 'a \<Rightarrow> wfReply \<times> 'a"
  waStatus :: "(int \<Rightarrow> 'a \<Rightarrow> wfReply \<times> 'a) option"

record wfCacheEntry =
  wcFingerprint :: string
  wcExpiresAt :: int
  wcResult :: wfResult

record 'a wfExecutor =
  wxCache :: "(string, wfCacheEntry) omap"
  wxReads :: nat
  wxAdapter :: 'a

record 'a wfEnv =
  wnAdapter :: "'a wfAdapter"
  wnClock :: "nat \<Rightarrow> int"
  wnAborted :: "nat \<Rightarrow> bool"
  wnParse :: wfUrlParser
  wnSha256 :: "string \<Rightarrow> string"
  wnLimits :: wfLimits

type_synonym ('a, 'e, 'x) wfAct = "('a wfExecutor, 'e, 'x) act"

definition newExecutor :: "'a \<Rightarrow> 'a wfExecutor" where
  "newExecutor a = \<lparr>wxCache = [], wxReads = 0, wxAdapter = a\<rparr>"

definition wfNow :: "'a wfEnv \<Rightarrow> ('a, 'e, int) wfAct" where
  "wfNow env = (\<lambda>x. (Inr (wnClock env (wxReads x)), x\<lparr>wxReads := Suc (wxReads x)\<rparr>))"

section \<open>Calls of a step\<close>

definition isWriteStep :: "wfStep \<Rightarrow> bool" where
  "isWriteStep step \<longleftrightarrow> stepOp step \<in> {''open'', ''click'', ''type'', ''select'', ''scroll''}"

definition adapterTarget :: "wfTarget \<Rightarrow> wfTarget" where
  "adapterTarget target = (case target of ByRef r \<Rightarrow> RefText r | _ \<Rightarrow> target)"

definition noGuards :: wfActionOptions where
  "noGuards = \<lparr>aoActionId = None, aoExpectedPageRevision = None, aoExpectedTabId = None, aoTimeoutMs = None,
     aoWaitUntil = None, aoClearFirst = None, aoSubmit = None, aoSensitive = None\<rparr>"

text \<open>The calls \<open>invoke\<close> makes, in order; only the first selection of several carries the guards.\<close>

fun callsOf :: "wfStep \<Rightarrow> wfActionOptions \<Rightarrow> wfCall list" where
  "callsOf (OpenStep url waitUntil timeoutMs) guards =
     [CallOpen url (guards\<lparr>aoWaitUntil := waitUntil, aoTimeoutMs := timeoutMs\<rparr>)]"
| "callsOf (ClickStep target timeoutMs) guards = [CallClick (adapterTarget target) (guards\<lparr>aoTimeoutMs := timeoutMs\<rparr>)]"
| "callsOf (TypeStep target text clear clearFirst submit sensitive timeoutMs) guards =
     [CallType (adapterTarget target) text (guards\<lparr>aoClearFirst := orOpt clearFirst clear, aoSubmit := submit,
        aoSensitive := sensitive, aoTimeoutMs := timeoutMs\<rparr>)]"
| "callsOf (SelectStep target choice values timeoutMs) guards =
     (case values of
        Some vs \<Rightarrow> map (\<lambda>(index, v). CallSelect (adapterTarget target) (ChoiceValue v)
                      ((if index = 0 then guards else noGuards)\<lparr>aoTimeoutMs := timeoutMs\<rparr>)) (enumerate 0 vs)
      | None \<Rightarrow> (case choice of
            Some c \<Rightarrow> [CallSelect (adapterTarget target) c (guards\<lparr>aoTimeoutMs := timeoutMs\<rparr>)]
          | None \<Rightarrow> []))"
| "callsOf (ScrollStep dir amount target) guards = [CallScroll dir amount (map_option adapterTarget target) guards]"
| "callsOf (WaitStep durationMs condition target timeoutMs) guards =
     [CallWait durationMs condition (map_option adapterTarget target) timeoutMs]"
| "callsOf (SnapshotStep maxNodes maxChars maxBytes includeText isCompact format) guards =
     [CallSnapshot maxNodes maxChars maxBytes includeText
        (orOpt format (map_option (\<lambda>c. if c then FormatCompact else FormatStructured) isCompact))]"

section \<open>Deadlines\<close>

definition replyAct :: "('a \<Rightarrow> wfReply \<times> 'a) \<Rightarrow> ('a, jsval, jsval) wfAct" where
  "replyAct call = (\<lambda>x. case call (wxAdapter x) of
     (Returned v, a) \<Rightarrow> (Inr v, x\<lparr>wxAdapter := a\<rparr>)
   | (Rejected e, a) \<Rightarrow> (Inl e, x\<lparr>wxAdapter := a\<rparr>)
   | (Unsettled, a) \<Rightarrow> (Inl timeoutError, x\<lparr>wxAdapter := a\<rparr>))"

primrec performCalls :: "'a wfAdapter \<Rightarrow> int \<Rightarrow> wfCall list \<Rightarrow> jsval \<Rightarrow> ('a, jsval, jsval) wfAct" where
  "performCalls ad remaining [] latest = act_return latest"
| "performCalls ad remaining (c # cs) latest =
     act_bind (replyAct (waCall ad c remaining)) (\<lambda>v. performCalls ad remaining cs v)"

definition withDeadline :: "'a wfEnv \<Rightarrow> int \<Rightarrow> (int \<Rightarrow> ('a, jsval, jsval) wfAct) \<Rightarrow> ('a, jsval, jsval) wfAct" where
  "withDeadline env deadline operation =
     act_bind (wfNow env) (\<lambda>now.
     act_bind (act_get (\<lambda>x. wnAborted env (wxReads x))) (\<lambda>aborted.
       if deadline - now \<le> 0 \<or> aborted then act_throw timeoutError else operation (deadline - now)))"

definition readStatus :: "'a wfEnv \<Rightarrow> int \<Rightarrow> ('a, 'e, wfStatus option) wfAct" where
  "readStatus env deadline =
     (case waStatus (wnAdapter env) of
        None \<Rightarrow> act_return None
      | Some status \<Rightarrow>
          act_catch (act_bind (withDeadline env deadline (\<lambda>remaining. replyAct (status remaining)))
                       (\<lambda>v. act_return (Some (normalizeStatus v))))
            (\<lambda>e. act_return None))"

section \<open>A run\<close>

record wfRunOptions =
  roActionId :: "string option"
  roExpectedPageRevision :: "int option"
  roExpectedTabId :: "string option"
  roMaxDurationMs :: int
  roMaxResultBytes :: int

definition guardsOf :: "wfRunOptions \<Rightarrow> wfActionOptions" where
  "guardsOf options = noGuards\<lparr>aoActionId := roActionId options,
     aoExpectedPageRevision := roExpectedPageRevision options, aoExpectedTabId := roExpectedTabId options\<rparr>"

definition successReport :: "wfUrlParser \<Rightarrow> nat \<Rightarrow> wfStep \<Rightarrow> jsval \<Rightarrow> int option \<Rightarrow> int \<Rightarrow> wfReport" where
  "successReport parse index step raw revision elapsed =
     \<lparr>rpIndex = index, rpOp = stepOp step, rpStatus = StepSuccess, rpOk = True, rpElapsedMs = elapsed,
      rpPageRevision = revision, rpSummary = Some (safeStepSummary parse step raw revision), rpError = None\<rparr>"

definition failureReport :: "nat \<Rightarrow> wfStep \<Rightarrow> wfFailure \<Rightarrow> int \<Rightarrow> wfReport" where
  "failureReport index step failure elapsed =
     \<lparr>rpIndex = index, rpOp = stepOp step,
      rpStatus = (if cfReason failure = StopInterrupt then StepInterrupted else StepError), rpOk = False,
      rpElapsedMs = elapsed, rpPageRevision = Option.bind (cfDetails failure) snd, rpSummary = None,
      rpError = Some (errorSummary failure)\<rparr>"

text \<open>Why the run stops after a step that returned, if it does.\<close>

definition stopAfter :: "wfStatus option \<Rightarrow> wfStatus option \<Rightarrow> jsval \<Rightarrow> wfTrigger list \<Rightarrow> wfStopReason option" where
  "stopAfter earlier after raw stopOn =
     orOpt (orOpt (statusStopReason earlier after stopOn) (rawStopReason raw stopOn))
       (if OnNavigation \<in> set stopOn \<and> navigationDetected earlier after raw then Some StopNavigation else None)"

text \<open>One step: its report, the reason to stop, and the status to compare the next step with.\<close>

definition runStep ::
  "'a wfEnv \<Rightarrow> int \<Rightarrow> wfActionOptions \<Rightarrow> wfTrigger list \<Rightarrow> nat \<Rightarrow> wfStep \<Rightarrow> wfStatus option
     \<Rightarrow> ('a, 'e, wfReport \<times> wfStopReason option \<times> wfStatus option) wfAct" where
  "runStep env deadline guards stopOn index step previous =
     act_bind (wfNow env) (\<lambda>stepStartedAt.
     act_catch
       (act_bind (withDeadline env deadline (\<lambda>remaining. performCalls (wnAdapter env) remaining (callsOf step guards) JUndef))
         (\<lambda>raw.
        act_bind (readStatus env deadline) (\<lambda>after.
        let revision = orOpt (Option.bind after nsPageRevision) (resultRevision raw) in
        act_bind (wfNow env) (\<lambda>now.
        act_return (successReport (wnParse env) index step raw revision (max 0 (now - stepStartedAt)),
                    stopAfter previous after raw stopOn, orOpt after previous)))))
       (\<lambda>error.
        act_bind (wfNow env) (\<lambda>now.
        let failure = classifyFailure error in
        act_return (failureReport index step failure (max 0 (now - stepStartedAt)), Some (cfReason failure), previous))))"

primrec runSteps ::
  "'a wfEnv \<Rightarrow> int \<Rightarrow> (nat \<Rightarrow> wfActionOptions) \<Rightarrow> wfTrigger list \<Rightarrow> wfStep list \<Rightarrow> nat \<Rightarrow> wfStatus option
     \<Rightarrow> ('a, 'e, wfReport list \<times> wfStopReason) wfAct" where
  "runSteps env deadline guards stopOn [] index previous = act_return ([], StopCompleted)"
| "runSteps env deadline guards stopOn (step # steps) index previous =
     act_bind (wfNow env) (\<lambda>now.
       if deadline - now \<le> 0 then act_return ([], StopTimeout)
       else
         act_bind (runStep env deadline (guards index) stopOn index step previous) (\<lambda>(report, stop, status).
           case stop of
             Some why \<Rightarrow> act_return ([report], why)
           | None \<Rightarrow>
               act_bind (runSteps env deadline guards stopOn steps (Suc index) status) (\<lambda>(reports, why).
                 act_return (report # reports, why))))"

fun firstIndex :: "('a \<Rightarrow> bool) \<Rightarrow> 'a list \<Rightarrow> nat option" where
  "firstIndex P [] = None"
| "firstIndex P (x # xs) = (if P x then Some 0 else map_option Suc (firstIndex P xs))"

definition stoppedEarly :: "wfStopReason \<Rightarrow> int \<Rightarrow> wfResult" where
  "stoppedEarly why elapsed =
     \<lparr>wrOk = False, wrCompleted = False, wrStopReason = why, wrSteps = [], wrCompletedSteps = Some 0,
      wrElapsedMs = Some elapsed, wrResultBytes = 0, wrTruncated = Some False\<rparr>"

text \<open>The reasons not to start at all.\<close>

definition initialStop :: "wfRunOptions \<Rightarrow> wfStatus option \<Rightarrow> wfStopReason option" where
  "initialStop options status =
     (case status of
        None \<Rightarrow> None
      | Some st \<Rightarrow>
          if roExpectedTabId options \<noteq> None \<and> nsTabId st \<noteq> None \<and> nsTabId st \<noteq> roExpectedTabId options
          then Some StopRevisionMismatch
          else if roExpectedPageRevision options \<noteq> None \<and> nsPageRevision st \<noteq> None
               \<and> nsPageRevision st \<noteq> roExpectedPageRevision options
          then Some StopRevisionMismatch
          else if nsChallenge st then Some StopChallenge
          else None)"

definition runUncached :: "'a wfEnv \<Rightarrow> wfWorkflow \<Rightarrow> wfRunOptions \<Rightarrow> ('a, 'e, wfResult) wfAct" where
  "runUncached env workflow options =
     act_bind (wfNow env) (\<lambda>startedAt.
     let deadline = startedAt + roMaxDurationMs options; maxBytes = nat (roMaxResultBytes options);
         firstWrite = firstIndex isWriteStep (wfSteps workflow) in
     act_bind (readStatus env deadline) (\<lambda>initial.
     case initialStop options initial of
       Some why \<Rightarrow>
         act_bind (wfNow env) (\<lambda>now. act_return (boundResult (stoppedEarly why (max 0 (now - startedAt))) maxBytes))
     | None \<Rightarrow>
         act_bind (runSteps env deadline (\<lambda>index. if firstWrite = Some index then guardsOf options else noGuards)
                     (wfStopOn workflow) (wfSteps workflow) 0 initial) (\<lambda>(reports, why).
         act_bind (wfNow env) (\<lambda>now.
         let completed = (why = StopCompleted \<and> length reports = length (wfSteps workflow)) in
         act_return (boundResult
           \<lparr>wrOk = completed, wrCompleted = completed, wrStopReason = why, wrSteps = reports,
            wrCompletedSteps = Some (countSuccess reports), wrElapsedMs = Some (max 0 (now - startedAt)),
            wrResultBytes = 0, wrTruncated = Some False\<rparr> maxBytes)))))"

section \<open>The request and its fingerprint\<close>

fun targetJson :: "wfTarget \<Rightarrow> json" where
  "targetJson (RefText r) = JsText r"
| "targetJson (ByRole role name exact) =
     JsFields ([(''role'', JsText role), (''name'', JsText name)] @ optField ''exact'' JsBool exact)"
| "targetJson (ByLabel label exact) = JsFields ([(''label'', JsText label)] @ optField ''exact'' JsBool exact)"
| "targetJson (ByTestId t) = JsFields [(''testId'', JsText t)]"
| "targetJson (ByRef r) = JsFields [(''ref'', JsText r)]"

fun choiceJson :: "wfChoice \<Rightarrow> json" where
  "choiceJson (ChoiceText s) = JsText s"
| "choiceJson (ChoiceValue s) = JsFields [(''value'', JsText s)]"
| "choiceJson (ChoiceLabel s) = JsFields [(''label'', JsText s)]"

definition conditionJson :: "wfCondition \<Rightarrow> json" where
  "conditionJson c = JsFields [(''ref'', JsText (wcRef c)), (''state'', JsText (nameIn WAIT_STATES (wcState c)))]"

fun stepFields :: "wfStep \<Rightarrow> (string \<times> json) list" where
  "stepFields (OpenStep url waitUntil timeoutMs) =
     [(''url'', JsText url)] @ optField ''waitUntil'' (\<lambda>w. JsText (nameIn WAIT_UNTIL w)) waitUntil
       @ optField ''timeoutMs'' JsInt timeoutMs"
| "stepFields (ClickStep target timeoutMs) = [(''target'', targetJson target)] @ optField ''timeoutMs'' JsInt timeoutMs"
| "stepFields (TypeStep target text clear clearFirst submit sensitive timeoutMs) =
     [(''target'', targetJson target), (''text'', JsText text)] @ optField ''clear'' JsBool clear
       @ optField ''clearFirst'' JsBool clearFirst @ optField ''submit'' JsBool submit
       @ optField ''sensitive'' JsBool sensitive @ optField ''timeoutMs'' JsInt timeoutMs"
| "stepFields (SelectStep target choice values timeoutMs) =
     [(''target'', targetJson target)] @ optField ''choice'' choiceJson choice
       @ optField ''values'' (\<lambda>vs. JsList (map JsText vs)) values @ optField ''timeoutMs'' JsInt timeoutMs"
| "stepFields (ScrollStep dir amount target) =
     [(''direction'', JsText (nameIn DIRECTIONS dir)), (''amount'', JsInt amount)] @ optField ''target'' targetJson target"
| "stepFields (WaitStep durationMs condition target timeoutMs) =
     optField ''durationMs'' JsInt durationMs @ optField ''condition'' conditionJson condition
       @ optField ''target'' targetJson target @ optField ''timeoutMs'' JsInt timeoutMs"
| "stepFields (SnapshotStep maxNodes maxChars maxBytes includeText isCompact format) =
     optField ''maxNodes'' JsInt maxNodes @ optField ''maxChars'' JsInt maxChars @ optField ''maxBytes'' JsInt maxBytes
       @ optField ''includeText'' JsBool includeText @ optField ''compact'' JsBool isCompact
       @ optField ''format'' (\<lambda>f. JsText (nameIn FORMATS f)) format"

definition stepJson :: "wfStep \<Rightarrow> json" where
  "stepJson step = JsFields ([(''op'', JsText (stepOp step))] @ stepFields step)"

definition sortTexts :: "string list \<Rightarrow> string list" where
  "sortTexts ws = sort_key (map charCode) ws"

definition requestJson :: "wfWorkflow \<Rightarrow> wfRunOptions \<Rightarrow> json" where
  "requestJson workflow options =
     JsFields ([(''steps'', JsList (map stepJson (wfSteps workflow)))]
       @ optField ''expectedPageRevision'' JsInt (roExpectedPageRevision options)
       @ optField ''expectedTabId'' JsText (roExpectedTabId options)
       @ [(''maxDurationMs'', JsInt (roMaxDurationMs options)), (''maxResultBytes'', JsInt (roMaxResultBytes options)),
          (''stopOn'', JsList (map JsText (sortTexts (map (nameIn WORKFLOW_STOP_TRIGGERS) (wfStopOn workflow)))))])"

definition stableJson :: "json \<Rightarrow> string" where
  "stableJson v = jsonText (sortKeys v)"

definition fingerprint :: "'a wfEnv \<Rightarrow> json \<Rightarrow> string" where
  "fingerprint env v = wnSha256 env (stableJson v)"

section \<open>The executor\<close>

text \<open>The options of \<open>run\<close> as the caller gives them; an absent number is \<open>undefined\<close>.\<close>

record wfExecutionOptions =
  weActionId :: "string option"
  weExpectedTabId :: "string option"
  weExpectedPageRevision :: jsval
  weMaxDurationMs :: jsval
  weMaxResultBytes :: jsval

definition textOption :: "string option \<Rightarrow> jsval" where
  "textOption v = (case v of None \<Rightarrow> JUndef | Some s \<Rightarrow> JStr s)"

definition overrideLimit :: "jsval \<Rightarrow> int \<Rightarrow> int \<Rightarrow> int \<Rightarrow> string \<Rightarrow> wfFault + int" where
  "overrideLimit given minimum maximum fallback name =
     (if given = JUndef then Inr fallback
      else (let checked = wfBoundedInteger given minimum maximum (-1) in
            if checked < minimum
            then Inl (wfFail (name @ '' must be an integer from '' @ showInt minimum @ '' to '' @ showInt maximum)
                   (''options.'' @ name))
            else Inr checked))"

text \<open>Everything \<open>run\<close> does before it looks at the cache.\<close>

definition prepareRun :: "'a wfEnv \<Rightarrow> jsval \<Rightarrow> wfExecutionOptions \<Rightarrow> wfFault + wfWorkflow \<times> wfRunOptions" where
  "prepareRun env workflow options =
     (let limits = wnLimits env in
     bindR (normalizeWorkflow (wnParse env) workflow
              \<lparr>voMaxDurationMs = weMaxDurationMs options, voMaxResultBytes = weMaxResultBytes options,
               voLimits = Some (requested limits)\<rparr>) (\<lambda>normalized.
     bindR (guardR (\<not> pred_option ACTION_ID_PATTERN (weActionId options))
              (wfFail ''actionId must be a UUID'' ''options.actionId'')) (\<lambda>_.
     bindR (optionalRevision (weExpectedPageRevision options) ''options.expectedPageRevision'') (\<lambda>revision.
     bindR (optionalTabId (textOption (weExpectedTabId options)) ''options.expectedTabId'') (\<lambda>tabId.
     bindR (overrideLimit (weMaxDurationMs options) 1 (wlMaxDurationMs limits) (wfMaxDurationMs normalized)
              ''maxDurationMs'') (\<lambda>maxDurationMs.
     bindR (overrideLimit (weMaxResultBytes options) MIN_WORKFLOW_RESULT_BYTES (wlMaxResultBytes limits)
              (wfMaxResultBytes normalized) ''maxResultBytes'') (\<lambda>maxResultBytes.
     Inr (normalized,
       \<lparr>roActionId = orOpt (weActionId options) (wfActionId normalized),
        roExpectedPageRevision = orOpt revision (wfExpectedPageRevision normalized),
        roExpectedTabId = orOpt tabId (wfExpectedTabId normalized),
        roMaxDurationMs = maxDurationMs, roMaxResultBytes = maxResultBytes\<rparr>))))))))"

definition WORKFLOW_CACHE_TTL_MS :: int where "WORKFLOW_CACHE_TTL_MS = 10 * 60 * 1000"
definition MAX_WORKFLOW_CACHE_ENTRIES :: nat where "MAX_WORKFLOW_CACHE_ENTRIES = 256"

definition pruneCache :: "int \<Rightarrow> (string, wfCacheEntry) omap \<Rightarrow> (string, wfCacheEntry) omap" where
  "pruneCache now cache = filter (\<lambda>e. now < wcExpiresAt (snd e)) cache"

text \<open>\<open>while (size > MAX) delete the oldest\<close>\<close>

definition evictOldest :: "(string, 'v) omap \<Rightarrow> (string, 'v) omap" where
  "evictOldest cache = drop (length cache - MAX_WORKFLOW_CACHE_ENTRIES) cache"

definition withCache ::
  "((string, wfCacheEntry) omap \<Rightarrow> (string, wfCacheEntry) omap) \<Rightarrow> 'a wfExecutor \<Rightarrow> 'a wfExecutor" where
  "withCache f x = x\<lparr>wxCache := f (wxCache x)\<rparr>"

text \<open>The clone of a cached result is the result: it holds nothing JSON would lose.\<close>

definition runWorkflow :: "'a wfEnv \<Rightarrow> jsval \<Rightarrow> wfExecutionOptions \<Rightarrow> ('a, wfFault, wfResult) wfAct" where
  "runWorkflow env workflow options =
     act_bind (act_lift (prepareRun env workflow options)) (\<lambda>(normalized, run).
     act_bind (wfNow env) (\<lambda>now.
     act_then (act_modify (withCache (pruneCache now)))
       (case roActionId run of
          None \<Rightarrow> runUncached env normalized run
        | Some actionId \<Rightarrow>
            let print = fingerprint env (requestJson normalized run) in
            act_bind (act_get (\<lambda>x. oget (wxCache x) actionId)) (\<lambda>existing.
            case existing of
              Some entry \<Rightarrow>
                if wcFingerprint entry \<noteq> print then act_throw WorkflowActionIdConflictError
                else act_return (wcResult entry)
            | None \<Rightarrow>
                act_bind (runUncached env normalized run) (\<lambda>result.
                act_then (act_modify (withCache (\<lambda>cache. evictOldest (oset actionId
                  \<lparr>wcFingerprint = print, wcExpiresAt = now + WORKFLOW_CACHE_TTL_MS, wcResult = result\<rparr> cache))))
                  (act_return result))))))"

definition clearCache :: "('a, 'e, unit) wfAct" where
  "clearCache = act_modify (withCache (\<lambda>_. []))"

end
