(* ===== verification/WorkflowBound.thy ===== *)
theory WorkflowBound
  imports WorkflowRun
begin

text \<open>
  The byte budget of \<open>browser/workflow.ts\<close>: the byte count that counts itself reaches its fixed
  point well within the eight attempts, the reduction of a result ends, and the result that
  leaves the engine is within its budget and says its own size.
\<close>

section \<open>The byte count\<close>

lemma utf8Length_concat: "utf8Length (concat xs) = sum_list (map utf8Length xs)"
  by (induction xs) simp_all

lemma utf8Length_join: "utf8Length (joinStr sep xs) = sum_list (map utf8Length xs) + (length xs - 1) * utf8Length sep"
  by (induction xs rule: joinStr.induct) simp_all

lemma utf8_JsFields_cong:
  "length fs = length gs \<Longrightarrow>
   sum_list (map (\<lambda>(k, v). utf8Length (jsonString k @ '':'' @ jsonText v)) fs)
     = sum_list (map (\<lambda>(k, v). utf8Length (jsonString k @ '':'' @ jsonText v)) gs) + n \<Longrightarrow>
   utf8Length (jsonText (JsFields fs)) = utf8Length (jsonText (JsFields gs)) + n"
  by (simp add: utf8Length_join comp_def case_prod_unfold)

text \<open>All of a result but its byte count.\<close>

definition restBytes :: "wfResult \<Rightarrow> nat" where
  "restBytes r = resultUtf8 (r\<lparr>wrResultBytes := 0\<rparr>) - 1"

lemma digitsOf_0 [simp]: "digitsOf 0 = 1"
  by (simp add: digitsOf_rec)

lemma digitsOf_pos: "1 \<le> digitsOf n"
  by (simp add: digitsOf_rec [of n])

lemma utf8_showInt: "utf8Length (showInt (int m)) = digitsOf m"
  by (simp add: showInt_def utf8_showDec)

lemma resultUtf8_zero: "resultUtf8 (r\<lparr>wrResultBytes := n\<rparr>) + 1 = resultUtf8 (r\<lparr>wrResultBytes := 0\<rparr>) + digitsOf n"
  by (simp add: resultUtf8_def resultJson_def utf8Length_join case_prod_unfold comp_def utf8_showInt
      utf8_showInt [of 0, simplified])

lemma resultUtf8_count: "resultUtf8 (r\<lparr>wrResultBytes := n\<rparr>) = restBytes r + digitsOf n"
proof -
  have "jsonText (resultJson (r\<lparr>wrResultBytes := 0\<rparr>)) \<noteq> []" by (simp add: resultJson_def)
  then have "1 \<le> resultUtf8 (r\<lparr>wrResultBytes := 0\<rparr>)"
    unfolding resultUtf8_def using utf8Length_0 less_one not_less by blast
  then show ?thesis using resultUtf8_zero [where r = r and n = n] by (simp add: restBytes_def)
qed

lemma digitsOf_le: "n < 10 ^ k \<Longrightarrow> 1 \<le> k \<Longrightarrow> digitsOf n \<le> k"
proof (cases "10 \<le> n")
  case True
  assume k: "n < 10 ^ k" "1 \<le> k"
  have "(10 :: nat) ^ (digitsOf n - 1) \<le> n" using digitsOf_bounds [of n] True by simp
  with k(1) have "(10 :: nat) ^ (digitsOf n - 1) < 10 ^ k" by (rule le_less_trans [rotated])
  then have "digitsOf n - 1 < k" by (rule power_less_imp_less_exp [rotated]) simp
  with k(2) show ?thesis by simp
qed (simp add: digitsOf_rec [of n])

lemma small_power: "k + 1 \<le> 10 ^ k" for k :: nat
  by (induction k) simp_all

text \<open>One more digit may push the count to one more digit, but not twice.\<close>

lemma count_settles:
  fixes b :: nat
  defines "d \<equiv> digitsOf (b + 1)"
  shows "digitsOf (b + d) = d \<or> digitsOf (b + d) = d + 1 \<and> digitsOf (b + (d + 1)) = d + 1"
proof -
  have d: "b + 1 < 10 ^ d" using digitsOf_bounds [of "b + 1"] by (simp add: d_def)
  have pos: "1 \<le> d" unfolding d_def by (rule digitsOf_pos)
  have "b + (d + 1) < 10 ^ d + d" using d by simp
  also have "\<dots> \<le> 10 ^ d + 10 ^ d" using small_power [of d] by simp
  also have "\<dots> \<le> 10 ^ (d + 1)" by simp
  finally have up: "digitsOf (b + (d + 1)) \<le> d + 1" by (intro digitsOf_le) simp_all
  have "d \<le> digitsOf (b + d)" using digitsOf_mono [of "b + 1" "b + d"] pos by (simp add: d_def)
  moreover have "digitsOf (b + d) \<le> digitsOf (b + (d + 1))" by (rule digitsOf_mono) simp
  ultimately show ?thesis using up by linarith
qed

lemma restBytes_update [simp]: "restBytes (r\<lparr>wrResultBytes := n\<rparr>) = restBytes r"
  by (simp add: restBytes_def)

lemma measureLoop_fixed:
  "c = restBytes r + digitsOf c \<Longrightarrow> measureLoop k c r = (c, r\<lparr>wrResultBytes := c\<rparr>)"
  by (cases k) (simp_all add: Let_def resultUtf8_count)

lemma measureLoop_update [simp]: "measureLoop k c (r\<lparr>wrResultBytes := n\<rparr>) = measureLoop k c r"
  by (cases k) (simp_all add: Let_def)

lemma measureLoop_next: "measureLoop (Suc k) c r = measureLoop k (restBytes r + digitsOf c) r"
  using measureLoop_fixed [of c r k] by (auto simp: Let_def resultUtf8_count)

text \<open>The fixed point, reached within four attempts.\<close>

definition settledSize :: "nat \<Rightarrow> nat" where
  "settledSize b = b + digitsOf (b + digitsOf (b + 1))"

lemma settledSize_fixed: "settledSize b = b + digitsOf (settledSize b)"
  using count_settles [of b] by (auto simp only: settledSize_def)

lemma measureLoop_settles:
  "measureLoop (k + 4) 0 r = (settledSize (restBytes r), r\<lparr>wrResultBytes := settledSize (restBytes r)\<rparr>)"
proof -
  have "measureLoop (k + 4) 0 r = measureLoop (Suc (Suc (Suc (Suc k)))) 0 r" by (simp add: numeral_eq_Suc)
  also have "\<dots> = measureLoop (Suc k) (settledSize (restBytes r)) r"
    by (simp only: measureLoop_next settledSize_def digitsOf_0)
  finally show ?thesis by (simp only: measureLoop_fixed [OF settledSize_fixed])
qed

text \<open>The size of a result with its own size in it.\<close>

definition ownSize :: "wfResult \<Rightarrow> nat" where
  "ownSize r = fst (measuredResultBytes r)"

lemma ownSize_settled: "ownSize r = settledSize (restBytes r)"
  using measureLoop_settles [of 4 r] by (simp add: ownSize_def measuredResultBytes_def)

lemma measured: "measuredResultBytes r = (ownSize r, r\<lparr>wrResultBytes := ownSize r\<rparr>)"
  using measureLoop_settles [of 4 r] by (simp add: ownSize_settled measuredResultBytes_def)

lemma ownSize_fixed: "resultUtf8 (r\<lparr>wrResultBytes := ownSize r\<rparr>) = ownSize r"
  using settledSize_fixed [of "restBytes r"] by (simp only: ownSize_settled resultUtf8_count)

section \<open>The reduction\<close>

definition reportKey :: "wfReport \<Rightarrow> nat \<times> string \<times> wfStepStatus \<times> bool" where
  "reportKey r = (rpIndex r, rpOp r, rpStatus r, rpOk r)"

text \<open>The count of completed steps is that of the reports shown.\<close>

definition counted :: "wfResult \<Rightarrow> bool" where
  "counted r \<longleftrightarrow> wrCompletedSteps r = Some (countSuccess (wrSteps r))"

text \<open>
  A result tells the same story as another: the same outcome, and reports that are those of a
  prefix of the steps.
\<close>

definition sameStory :: "wfResult \<Rightarrow> wfResult \<Rightarrow> bool" where
  "sameStory r r' \<longleftrightarrow> wrOk r' = wrOk r \<and> wrCompleted r' = wrCompleted r \<and> wrStopReason r' = wrStopReason r
     \<and> (\<exists>k. map reportKey (wrSteps r') = take k (map reportKey (wrSteps r)))"

lemma sameStory_refl: "sameStory r r"
  by (auto simp: sameStory_def intro: exI [of _ "length (wrSteps r)"])

lemma sameStory_trans: "sameStory r s \<Longrightarrow> sameStory s t \<Longrightarrow> sameStory r t"
  by (auto simp: sameStory_def)

lemma sameStory_size [simp]: "sameStory (r\<lparr>wrResultBytes := n\<rparr>) s \<longleftrightarrow> sameStory r s"
    "sameStory r (s\<lparr>wrResultBytes := n\<rparr>) \<longleftrightarrow> sameStory r s"
  by (simp_all add: sameStory_def)

lemma counted_size [simp]: "counted (r\<lparr>wrResultBytes := n\<rparr>) \<longleftrightarrow> counted r"
  by (simp add: counted_def)

lemma changeFirst_map:
  "changeFirst f xs = Some ys \<Longrightarrow> (\<And>x y. f x = Some y \<Longrightarrow> g y = g x) \<Longrightarrow> map g ys = map g xs"
  by (induction xs arbitrary: ys) (fastforce split: option.splits)+

lemma shortenContent_key: "shortenContent n r = Some r' \<Longrightarrow> reportKey r' = reportKey r"
  by (auto simp: shortenContent_def reportKey_def Let_def split: option.splits wfSummary.splits if_splits)

lemma removeMessage_key: "removeMessage r = Some r' \<Longrightarrow> reportKey r' = reportKey r"
  by (auto simp: removeMessage_def reportKey_def split: option.splits if_splits)

lemma removeOptionalFields_key: "removeOptionalFields r = Some r' \<Longrightarrow> reportKey r' = reportKey r"
  using removeMessage_key [of r r']
  by (auto simp: removeOptionalFields_def reportKey_def split: option.splits wfSummary.splits if_splits)

lemmas change_keys = changeFirst_map [of _ _ _ reportKey, OF _ shortenContent_key]
  changeFirst_map [of _ _ _ reportKey, OF _ removeOptionalFields_key]

lemma countSuccess_keys: "map reportKey rs = map reportKey rs' \<Longrightarrow> countSuccess rs = countSuccess rs'"
proof -
  have "countSuccess xs = length (filter (\<lambda>k. fst (snd (snd k)) = StepSuccess) (map reportKey xs))" for xs
    by (simp add: countSuccess_def reportKey_def filter_map comp_def)
  then show "map reportKey rs = map reportKey rs' \<Longrightarrow> countSuccess rs = countSuccess rs'" by (simp only:)
qed

lemma reduceResult_story:
  assumes "reduceResult n r = Some r'" and "counted r"
  shows "sameStory r r' \<and> counted r'"
proof -
  have keys: "map reportKey ys = map reportKey (wrSteps r)"
    if "orOpt (changeFirst (shortenContent (n div 4)) (wrSteps r)) (changeFirst removeOptionalFields (wrSteps r)) = Some ys" for ys
    using that change_keys by (auto simp: orOpt_def split: option.splits)
  from assms keys show ?thesis
    by (auto simp: reduceResult_def sameStory_def counted_def Let_def butlast_conv_take take_map
        dest: countSuccess_keys split: option.splits if_splits intro: exI [of _ "length (wrSteps r)"])
qed

lemma boundStep_measured:
  "boundStep n r = (if ownSize r \<le> n then None else reduceResult n (r\<lparr>wrResultBytes := ownSize r\<rparr>))"
  by (simp add: boundStep_def measured)

lemma boundLoop_story:
  "counted r \<Longrightarrow> sameStory r (boundLoop n r) \<and> counted (boundLoop n r)"
proof (induction n r rule: boundLoop.induct)
  case (1 n r)
  show ?case
  proof (cases "boundStep n r")
    case None
    then show ?thesis using 1 by (simp add: boundLoop.simps [of n r] sameStory_refl)
  next
    case (Some r1)
    then have "sameStory r r1 \<and> counted r1"
      using reduceResult_story [of n "r\<lparr>wrResultBytes := ownSize r\<rparr>" r1] 1
      by (auto simp: boundStep_measured split: if_splits)
    then show ?thesis using 1(1) [OF Some] by (auto simp: boundLoop.simps [of n r] Some intro: sameStory_trans)
  qed
qed

definition fallbackResult :: "wfResult \<Rightarrow> wfResult" where
  "fallbackResult r = \<lparr>wrOk = wrOk r, wrCompleted = wrCompleted r, wrStopReason = wrStopReason r, wrSteps = [],
     wrCompletedSteps = None, wrElapsedMs = None, wrResultBytes = 0, wrTruncated = None\<rparr>"

lemma fallback_story: "sameStory r (fallbackResult r)"
  by (auto simp: sameStory_def fallbackResult_def intro: exI [of _ 0])

definition smallestResult :: "bool \<Rightarrow> bool \<Rightarrow> wfStopReason \<Rightarrow> wfResult" where
  "smallestResult ok completed why = \<lparr>wrOk = ok, wrCompleted = completed, wrStopReason = why, wrSteps = [],
     wrCompletedSteps = None, wrElapsedMs = None, wrResultBytes = 0, wrTruncated = None\<rparr>"

lemma literal_sizes:
  "utf8Length (jsonString ''ok'') = 4" "utf8Length (jsonString ''status'') = 8"
  "utf8Length (jsonString ''completed'') = 11" "utf8Length (jsonString ''stopped'') = 9"
  "utf8Length (jsonString ''stopReason'') = 12" "utf8Length (jsonString ''steps'') = 7"
  "utf8Length (jsonString ''resultBytes'') = 13"
  by code_simp+

lemma reason_size: "utf8Length (jsonString (stopReasonText why)) \<le> 19"
  by (cases why; hypsubst; code_simp)

lemma mark_sizes:
  "list_all (\<lambda>c. charBytes c = 1) (''{}[]:,'' @ ''true'' @ ''false'')"
  by code_simp

lemma smallest_rest: "restBytes (smallestResult ok completed why) \<le> 92"
  using reason_size [of why] mark_sizes
  by (simp add: restBytes_def resultUtf8_def resultJson_def smallestResult_def optField_def
      literal_sizes utf8_showInt [of 0, simplified])

lemma settledSize_small: "b \<le> 97 \<Longrightarrow> settledSize b \<le> 100"
  using digitsOf_le [of "b + 1" 2] digitsOf_le [of "b + digitsOf (b + 1)" 2] digitsOf_le [of "b + digitsOf (b + 1)" 3]
  by (simp add: settledSize_def)

lemma fallback_size: "ownSize (fallbackResult r) \<le> 100"
proof -
  have "fallbackResult r = smallestResult (wrOk r) (wrCompleted r) (wrStopReason r)"
    by (simp add: fallbackResult_def smallestResult_def)
  then show ?thesis
    using smallest_rest [of "wrOk r" "wrCompleted r" "wrStopReason r"] settledSize_small
    by (simp add: ownSize_settled)
qed

section \<open>The result that leaves the engine\<close>

lemma boundResult_cases:
  "boundResult r n =
     (let result = boundLoop n r in
      if n < ownSize result then (fallbackResult result)\<lparr>wrResultBytes := ownSize (fallbackResult result)\<rparr>
      else result\<lparr>wrResultBytes := ownSize result\<rparr>)"
proof -
  have "ownSize (x\<lparr>wrResultBytes := m\<rparr>) = ownSize x" for x m by (simp add: ownSize_settled)
  then show ?thesis by (simp add: boundResult_def Let_def measured fallbackResult_def)
qed

lemma boundLoop_fits: "ownSize r \<le> n \<Longrightarrow> boundLoop n r = r"
  by (subst boundLoop.simps) (simp add: boundStep_measured)

lemma boundResult_story: "counted r \<Longrightarrow> sameStory r (boundResult r n)"
  using boundLoop_story [of r n] fallback_story [of "boundLoop n r"] sameStory_trans
  by (auto simp: boundResult_cases Let_def)

text \<open>C18. A result that leaves the engine is within its byte budget and states its own size in UTF-8:
  the reductions, and the smallest shape when they are not enough, always fit in the 100 bytes
  that a budget has at least.  It tells the same story as the full result: the same outcome and
  stop reason, the reports of a prefix of the steps, and a count of completed steps that is that
  of the reports shown; a result that fits is only given its size.
\<close>

theorem result_within_budget:
  assumes "100 \<le> maxBytes" and "counted r"
  shows "resultUtf8 (boundResult r maxBytes) = wrResultBytes (boundResult r maxBytes)
    \<and> wrResultBytes (boundResult r maxBytes) \<le> maxBytes
    \<and> sameStory r (boundResult r maxBytes)
    \<and> (counted (boundResult r maxBytes) \<or> wrCompletedSteps (boundResult r maxBytes) = None)
    \<and> (resultUtf8 (r\<lparr>wrResultBytes := ownSize r\<rparr>) \<le> maxBytes \<longrightarrow>
         boundResult r maxBytes = r\<lparr>wrResultBytes := ownSize r\<rparr>)"
proof (intro conjI impI)
  let ?l = "boundLoop maxBytes r"
  have story: "sameStory r ?l \<and> counted ?l" using assms(2) by (rule boundLoop_story)
  show "resultUtf8 (boundResult r maxBytes) = wrResultBytes (boundResult r maxBytes)"
    by (simp add: boundResult_cases Let_def ownSize_fixed)
  show "wrResultBytes (boundResult r maxBytes) \<le> maxBytes"
    using fallback_size [of ?l] assms(1) by (simp add: boundResult_cases Let_def)
  show "sameStory r (boundResult r maxBytes)"
    using assms(2) by (rule boundResult_story)
  show "counted (boundResult r maxBytes) \<or> wrCompletedSteps (boundResult r maxBytes) = None"
    using story by (simp add: boundResult_cases Let_def fallbackResult_def)
  show "boundResult r maxBytes = r\<lparr>wrResultBytes := ownSize r\<rparr>"
    if "resultUtf8 (r\<lparr>wrResultBytes := ownSize r\<rparr>) \<le> maxBytes"
    using that by (simp add: ownSize_fixed boundResult_cases Let_def boundLoop_fits)
qed

definition demoReport :: "nat \<Rightarrow> wfReport" where
  "demoReport index = \<lparr>rpIndex = index, rpOp = ''snapshot'', rpStatus = StepSuccess, rpOk = True, rpElapsedMs = 3,
     rpPageRevision = Some 4, rpSummary = None, rpError = None\<rparr>"

definition demoResult :: wfResult where
  "demoResult = \<lparr>wrOk = True, wrCompleted = True, wrStopReason = StopCompleted,
     wrSteps = [demoReport 0, demoReport 1], wrCompletedSteps = Some 2, wrElapsedMs = Some 9, wrResultBytes = 0,
     wrTruncated = Some False\<rparr>"

theorem result_within_budget_witness:
  "wrResultBytes (boundResult demoResult 150) \<le> 150 \<and> sameStory demoResult (boundResult demoResult 150)"
proof -
  have "counted demoResult" by (simp add: counted_def demoResult_def demoReport_def countSuccess_def)
  then show ?thesis using result_within_budget [of 150 demoResult] by simp
qed

section \<open>Termination of the reduction\<close>

text \<open>The loop with a bound on its turns.\<close>

primrec boundRounds :: "nat \<Rightarrow> nat \<Rightarrow> wfResult \<Rightarrow> wfResult option" where
  "boundRounds 0 n r = None"
| "boundRounds (Suc k) n r = (case boundStep n r of None \<Rightarrow> Some r | Some r' \<Rightarrow> boundRounds k n r')"

lemma boundRounds_enough: "resultWeight r < k \<Longrightarrow> boundRounds k n r = Some (boundLoop n r)"
proof (induction k arbitrary: r)
  case (Suc k)
  show ?case
  proof (cases "boundStep n r")
    case None
    then show ?thesis by (simp add: boundLoop.simps [of n r])
  next
    case (Some r')
    then have "resultWeight r' < k" using boundStep_weight [of n r r'] Suc.prems by simp
    then show ?thesis using Suc.IH Some by (simp add: boundLoop.simps [of n r])
  qed
qed simp

text \<open>C22. The reduction of a result ends: its loop returns within as many turns as the optional fields,
  content bytes and reports of the result can pay for, and each measurement in it needs only four
  of its eight attempts to find the size that counts its own digits.
\<close>

theorem result_reduction_ends:
  "boundRounds (Suc (resultWeight r)) maxBytes r = Some (boundLoop maxBytes r)
   \<and> measuredResultBytes r = measureLoop 4 0 r
   \<and> resultUtf8 (snd (measuredResultBytes r)) = fst (measuredResultBytes r)"
  using boundRounds_enough [of r "Suc (resultWeight r)" maxBytes] measureLoop_settles [of 0 r] ownSize_fixed [of r]
  by (simp add: measured ownSize_settled)

end
