(* ===== verification/WorkflowSafety.thy ===== *)
theory WorkflowSafety
  imports WorkflowSpec WorkflowBound "HOL-Library.Sublist"
begin

text \<open>
  What a run does to the page (\<open>browser/workflow.ts\<close>): with an adapter that keeps a log of its
  calls, the calls are those of the steps in their order, the guards go with the first write
  only, a run never throws; and an action identifier is idempotent.
\<close>

section \<open>An adapter that keeps a log\<close>

definition logging :: "'a wfAdapter \<Rightarrow> ('a \<times> wfCall list) wfAdapter" where
  "logging ad =
     \<lparr>waCall = (\<lambda>c remaining (a, log). case waCall ad c remaining a of (reply, a') \<Rightarrow> (reply, a', log @ [c])),
      waStatus = map_option (\<lambda>status remaining (a, log). case status remaining a of (reply, a') \<Rightarrow> (reply, a', log))
        (waStatus ad)\<rparr>"

definition loggingEnv :: "'a wfEnv \<Rightarrow> ('a \<times> wfCall list) wfEnv" where
  "loggingEnv env =
     \<lparr>wnAdapter = logging (wnAdapter env), wnClock = wnClock env, wnAborted = wnAborted env, wnParse = wnParse env,
      wnSha256 = wnSha256 env, wnLimits = wnLimits env\<rparr>"

definition callLog :: "('a \<times> wfCall list) wfExecutor \<Rightarrow> wfCall list" where
  "callLog x = snd (wxAdapter x)"

lemma loggingEnv_fields [simp]: "wnAdapter (loggingEnv env) = logging (wnAdapter env)" "wnClock (loggingEnv env) = wnClock env"
  "wnAborted (loggingEnv env) = wnAborted env" "wnParse (loggingEnv env) = wnParse env"
  by (simp_all add: loggingEnv_def)

lemma callLog_reads [simp]: "callLog (x\<lparr>wxReads := n\<rparr>) = callLog x"
  by (simp add: callLog_def)

lemma wp_now [wp_rules]: "wp (wfNow env) Q E x = Q (wnClock env (wxReads x)) (x\<lparr>wxReads := Suc (wxReads x)\<rparr>)"
  by (simp add: wp_def wfNow_def)

section \<open>Calls of one step\<close>

lemma wp_call:
  "callLog x = l \<Longrightarrow> wp (replyAct (waCall (logging ad) c remaining)) (\<lambda>_ x'. callLog x' = l @ [c])
     (\<lambda>_ x'. callLog x' = l @ [c]) x"
  by (auto simp: wp_def replyAct_def logging_def callLog_def split: prod.splits wfReply.splits)

lemma wp_performCalls:
  "callLog x = l \<Longrightarrow> wp (performCalls (logging ad) remaining cs v) (\<lambda>_ x'. callLog x' = l @ cs)
     (\<lambda>_ x'. \<exists>p. prefix p cs \<and> callLog x' = l @ p) x"
proof (induction cs arbitrary: v x l)
  case (Cons c cs)
  show ?case
    unfolding performCalls.simps wp_bind
  proof (rule wp_mono [OF wp_call [OF Cons.prems]], goal_cases)
    case (1 y x1)
    from Cons.IH [OF 1, of y] show ?case by (rule wp_mono) (auto intro: exI [of _ "c # p" for p])
  next
    case (2 e x1)
    then show ?case by (auto intro: exI [of _ "[c]"])
  qed
qed (simp add: wp_return)

lemma wp_withDeadline:
  "callLog x = l \<Longrightarrow>
   wp (withDeadline (loggingEnv env) deadline (\<lambda>remaining. performCalls (logging ad) remaining cs v))
     (\<lambda>_ x'. callLog x' = l @ cs) (\<lambda>_ x'. \<exists>p. prefix p cs \<and> callLog x' = l @ p) x"
  by (auto simp: withDeadline_def wp_bind wp_now wp_get wp_throw intro: wp_performCalls)

lemma wp_readStatus: "callLog x = l \<Longrightarrow> wp (readStatus (loggingEnv env) deadline) (\<lambda>_ x'. callLog x' = l) (\<lambda>_ _. False) x"
  by (auto simp: readStatus_def withDeadline_def wp_rules wp_now logging_def replyAct_def callLog_def
      split: option.splits prod.splits wfReply.splits intro!: wpI)

section \<open>A run of steps\<close>

lemma classifyFailure_stops: "cfReason (classifyFailure e) \<noteq> StopCompleted"
  by (simp add: classifyFailure_def Let_def)

lemma orOpt_completed: "orOpt a b = Some StopCompleted \<Longrightarrow> a = Some StopCompleted \<or> b = Some StopCompleted"
  by (auto simp: orOpt_def split: option.splits)

lemma interruptStop_stops: "interruptStop t stopOn \<noteq> Some StopCompleted"
  by (simp add: interruptStop_def split: option.splits)

lemma statusStopReason_stops: "statusStopReason a b stopOn \<noteq> Some StopCompleted"
  using interruptStop_stops by (auto simp: statusStopReason_def Let_def split: option.splits)

lemma rawStopReason_stops: "rawStopReason raw stopOn \<noteq> Some StopCompleted"
  using interruptStop_stops by (auto simp: rawStopReason_def Let_def split: option.splits)

lemma stopAfter_stops: "stopAfter a b raw stopOn \<noteq> Some StopCompleted"
  by (auto simp: stopAfter_def statusStopReason_stops rawStopReason_stops dest!: orOpt_completed split: if_splits)

text \<open>A step makes all its calls and may stop the run, or it fails after some of them and stops the run.\<close>

definition stepOutcome :: "wfCall list \<Rightarrow> wfCall list \<Rightarrow> wfReport \<times> wfStopReason option \<times> wfStatus option
    \<Rightarrow> ('a \<times> wfCall list) wfExecutor \<Rightarrow> bool" where
  "stepOutcome l cs r x' \<longleftrightarrow>
     fst (snd r) \<noteq> Some StopCompleted
     \<and> (\<exists>p. prefix p cs \<and> callLog x' = l @ p \<and> (fst (snd r) = None \<longrightarrow> p = cs))"

lemma wp_runStep:
  assumes "callLog x = l"
  shows "wp (runStep (loggingEnv env) deadline guards stopOn index step previous) (stepOutcome l (callsOf step guards))
           (\<lambda>_ _. False) x"
proof -
  let ?ad = "wnAdapter env"
  let ?E = "\<lambda>_ x'. \<exists>p. prefix p (callsOf step guards) \<and> callLog x' = l @ p"
  have 1: "wp (withDeadline (loggingEnv env) deadline (\<lambda>remaining. performCalls (logging ?ad) remaining (callsOf step guards) v))
      (\<lambda>_ x'. callLog x' = l @ callsOf step guards) ?E x1" if "callLog x1 = l" for x1 v
    using that by (rule wp_withDeadline)
  show ?thesis
    unfolding runStep_def wp_bind wp_now wp_catch loggingEnv_fields
    apply (rule wp_mono [OF 1])
    subgoal using assms by simp
    subgoal for raw x1
      by (rule wp_mono [OF wp_readStatus]) (auto simp: wp_rules wp_now Let_def stepOutcome_def stopAfter_stops)
    subgoal for e x1
      by (auto simp: wp_rules wp_now Let_def stepOutcome_def classifyFailure_stops)
    done
qed

primrec planned :: "(nat \<Rightarrow> wfActionOptions) \<Rightarrow> nat \<Rightarrow> wfStep list \<Rightarrow> wfCall list" where
  "planned guards index [] = []"
| "planned guards index (s # ss) = callsOf s (guards index) @ planned guards (Suc index) ss"

lemma planned_mono: "prefix p xs \<Longrightarrow> prefix (q @ p) (q @ xs)"
  by simp

lemma wp_runSteps:
  "callLog x = l \<Longrightarrow>
   wp (runSteps (loggingEnv env) deadline guards stopOn steps index previous)
     (\<lambda>(reports, why) x'. \<exists>p. prefix p (planned guards index steps) \<and> callLog x' = l @ p
        \<and> (why = StopCompleted \<longrightarrow> p = planned guards index steps)) (\<lambda>(_ :: 'e) _. False) x"
proof (induction steps arbitrary: index previous x l)
  case (Cons s ss)
  let ?cs = "callsOf s (guards index)"
  let ?all = "?cs @ planned guards (Suc index) ss"
  have rest: "wp (case r of (report, stop, status) \<Rightarrow>
        case stop of None \<Rightarrow>
            act_bind (runSteps (loggingEnv env) deadline guards stopOn ss (Suc index) status)
             (\<lambda>(reports, why). act_return (report # reports, why))
          | Some why \<Rightarrow> act_return ([report], why))
     (\<lambda>(reports, why) x'. \<exists>p. prefix p ?all \<and> callLog x' = l @ p \<and> (why = StopCompleted \<longrightarrow> p = ?all)) (\<lambda>(_ :: 'e) _. False) x1"
    if "stepOutcome l ?cs r x1" for r x1
  proof (cases "fst (snd r)")
    case None
    with that have log: "callLog x1 = l @ ?cs" by (auto simp: stepOutcome_def)
    have "wp (runSteps (loggingEnv env) deadline guards stopOn ss (Suc index) (snd (snd r)))
        (\<lambda>a. wp (case a of (reports, why) \<Rightarrow> act_return (fst r # reports, why))
          (\<lambda>(reports, why) x'. \<exists>p. prefix p ?all \<and> callLog x' = l @ p \<and> (why = StopCompleted \<longrightarrow> p = ?all)) (\<lambda>(_ :: 'e) _. False))
        (\<lambda>(_ :: 'e) _. False) x1"
      by (rule wp_mono [OF Cons.IH [OF log]]) (auto simp: wp_return intro: planned_mono)
    with None show ?thesis by (simp add: case_prod_unfold wp_bind)
  next
    case (Some why)
    with that show ?thesis by (auto simp: case_prod_unfold wp_return stepOutcome_def)
  qed
  show ?case
    unfolding runSteps.simps wp_bind wp_now wp_if planned.simps
    by (auto simp: wp_return Cons.prems intro: wp_mono [OF wp_runStep rest])
qed (simp add: wp_return)

section \<open>Guards\<close>

fun callOptions :: "wfCall \<Rightarrow> wfActionOptions option" where
  "callOptions (CallOpen url opts) = Some opts"
| "callOptions (CallClick t opts) = Some opts"
| "callOptions (CallType t s opts) = Some opts"
| "callOptions (CallSelect t c opts) = Some opts"
| "callOptions (CallScroll d n t opts) = Some opts"
| "callOptions (CallWait d c t n) = None"
| "callOptions (CallSnapshot n c b i f) = None"

definition isWriteCall :: "wfCall \<Rightarrow> bool" where
  "isWriteCall c \<longleftrightarrow> callOptions c \<noteq> None"

definition guarded :: "wfCall \<Rightarrow> bool" where
  "guarded c \<longleftrightarrow> (case callOptions c of None \<Rightarrow> False
     | Some opts \<Rightarrow> aoActionId opts \<noteq> None \<or> aoExpectedPageRevision opts \<noteq> None \<or> aoExpectedTabId opts \<noteq> None)"

text \<open>Only the first call that writes may carry guards.\<close>

fun guardsFirst :: "wfCall list \<Rightarrow> bool" where
  "guardsFirst [] = True"
| "guardsFirst (c # cs) =
     (if isWriteCall c then list_all (\<lambda>c. \<not> guarded c) cs else guardsFirst cs)"

lemma guarded_write: "guarded c \<Longrightarrow> isWriteCall c"
  by (auto simp: guarded_def isWriteCall_def split: option.splits)

lemma guardsFirst_unguarded: "list_all (\<lambda>c. \<not> guarded c) cs \<Longrightarrow> guardsFirst cs"
  by (induction cs) auto

lemma guardsFirst_reads: "list_all (\<lambda>c. \<not> isWriteCall c) xs \<Longrightarrow> guardsFirst (xs @ ys) = guardsFirst ys"
  by (induction xs) auto

lemma guardsFirst_prefix: "guardsFirst ys \<Longrightarrow> prefix xs ys \<Longrightarrow> guardsFirst xs"
proof (induction ys arbitrary: xs)
  case (Cons y ys)
  then show ?case by (cases xs) (auto split: if_splits dest: set_mono_prefix simp: list_all_iff)
qed simp

lemma callsOf_noGuards: "list_all (\<lambda>c. \<not> guarded c) (callsOf s noGuards)"
  by (cases s)
     (auto simp: guarded_def noGuards_def list_all_iff in_set_enumerate_eq split: option.splits prod.splits)

lemma callsOf_reads: "\<not> isWriteStep s \<Longrightarrow> list_all (\<lambda>c. \<not> isWriteCall c) (callsOf s guards)"
  by (cases s) (auto simp: isWriteStep_def isWriteCall_def)

lemma callsOf_write:
  "isWriteStep s \<Longrightarrow> list_all isWriteCall (callsOf s guards) \<and> list_all (\<lambda>c. \<not> guarded c) (tl (callsOf s guards))"
proof (cases s)
  case (SelectStep target choice picked timeoutMs)
  show ?thesis
  proof (cases picked)
    case (Some vs)
    have "list_all (\<lambda>c. \<not> guarded c) (tl (callsOf s guards))"
      by (cases vs)
         (auto simp: SelectStep Some guarded_def noGuards_def list_all_iff in_set_enumerate_eq)
    then show ?thesis by (auto simp: SelectStep Some isWriteCall_def list_all_iff split: if_splits)
  qed (auto simp: SelectStep isWriteCall_def split: option.splits)
qed (auto simp: isWriteStep_def isWriteCall_def)

lemma planned_unguarded: "(\<And>i. index \<le> i \<Longrightarrow> guards i = noGuards) \<Longrightarrow> list_all (\<lambda>c. \<not> guarded c) (planned guards index ss)"
  by (induction ss arbitrary: index) (simp_all add: callsOf_noGuards)

lemma planned_guards:
  "(\<And>i. index \<le> i \<Longrightarrow>
      guards i = (if map_option (\<lambda>k. k + index) (firstIndex isWriteStep ss) = Some i then g else noGuards)) \<Longrightarrow>
   guardsFirst (planned guards index ss)"
proof (induction ss arbitrary: index)
  case (Cons s ss)
  show ?case
  proof (cases "isWriteStep s")
    case True
    then have "list_all (\<lambda>c. \<not> guarded c) (planned guards (Suc index) ss)"
      using Cons.prems by (intro planned_unguarded) simp
    then show ?thesis
      using callsOf_write [OF True, of "guards index"] guardsFirst_unguarded
      by (cases "callsOf s (guards index)") auto
  next
    case False
    have "guardsFirst (planned guards (Suc index) ss)"
    proof (rule Cons.IH)
      fix i assume "Suc index \<le> i"
      then show "guards i = (if map_option (\<lambda>k. k + Suc index) (firstIndex isWriteStep ss) = Some i then g else noGuards)"
        using Cons.prems [of i] False by (simp add: option.map_comp comp_def)
    qed
    with False show ?thesis using guardsFirst_reads callsOf_reads [OF False] by simp
  qed
qed simp

text \<open>The calls of a workflow that runs to its end.\<close>

definition plannedCalls :: "wfWorkflow \<Rightarrow> wfRunOptions \<Rightarrow> wfCall list" where
  "plannedCalls w options =
     planned (\<lambda>index. if firstIndex isWriteStep (wfSteps w) = Some index then guardsOf options else noGuards) 0 (wfSteps w)"

lemma plannedCalls_guards: "guardsFirst (plannedCalls w options)"
  unfolding plannedCalls_def by (rule planned_guards [where g = "guardsOf options"]) (auto simp: map_option_case split: option.splits)

section \<open>A run\<close>

definition runOutcome :: "wfWorkflow \<Rightarrow> wfRunOptions \<Rightarrow> wfCall list \<Rightarrow> wfResult \<Rightarrow> ('a \<times> wfCall list) wfExecutor \<Rightarrow> bool" where
  "runOutcome w options l result x' \<longleftrightarrow>
     (\<exists>p. callLog x' = l @ p \<and> prefix p (plannedCalls w options) \<and> (wrOk result \<longrightarrow> p = plannedCalls w options))"

lemma boundResult_ok: "counted r \<Longrightarrow> wrOk (boundResult r n) = wrOk r"
  using boundResult_story [of r n] by (simp add: sameStory_def)

lemma stoppedEarly_counted: "counted (stoppedEarly why n)"
  by (simp add: counted_def stoppedEarly_def countSuccess_def)

lemma wp_runUncached:
  fixes env :: "'a wfEnv"
  shows "wp (runUncached (loggingEnv env) w options) (runOutcome w options (callLog x)) (\<lambda>(_ :: 'e) _. False) x"
proof -
  let ?deadline = "wnClock env (wxReads x) + roMaxDurationMs options"
  have run: "wp (case initialStop options initial of
       None \<Rightarrow>
         act_bind (runSteps (loggingEnv env) ?deadline
            (\<lambda>index. if firstIndex isWriteStep (wfSteps w) = Some index then guardsOf options else noGuards)
            (wfStopOn w) (wfSteps w) 0 initial) (\<lambda>(reports, why).
         act_bind (wfNow (loggingEnv env)) (\<lambda>now.
         let completed = (why = StopCompleted \<and> length reports = length (wfSteps w)) in
         act_return (boundResult
           \<lparr>wrOk = completed, wrCompleted = completed, wrStopReason = why, wrSteps = reports,
            wrCompletedSteps = Some (countSuccess reports),
            wrElapsedMs = Some (max 0 (now - wnClock env (wxReads x))),
            wrResultBytes = 0, wrTruncated = Some False\<rparr> (nat (roMaxResultBytes options)))))
     | Some why \<Rightarrow>
         act_bind (wfNow (loggingEnv env)) (\<lambda>now. act_return (boundResult
            (stoppedEarly why (max 0 (now - wnClock env (wxReads x)))) (nat (roMaxResultBytes options)))))
     (runOutcome w options (callLog x)) (\<lambda>(_ :: 'e) _. False) x1"
    if "callLog x1 = callLog x" for initial x1
  proof (cases "initialStop options initial")
    case (Some why)
    then show ?thesis using that
      by (simp add: wp_rules wp_now runOutcome_def boundResult_ok [OF stoppedEarly_counted])
         (simp add: stoppedEarly_def)
  next
    case None
    show ?thesis
      unfolding None option.case wp_bind
      by (rule wp_mono [OF wp_runSteps [OF that]])
         (auto simp: Let_def wp_rules wp_now runOutcome_def plannedCalls_def boundResult_ok counted_def)
  qed
  show ?thesis
    unfolding runUncached_def wp_bind wp_now Let_def loggingEnv_fields
    by (rule wp_mono [OF wp_readStatus [where l = "callLog x"]]) (simp_all add: run [unfolded Let_def])
qed

text \<open>C15. What a run does to the page, whatever the page answers: a run never throws; the calls it makes are
  those of the steps of the workflow in their order up to the point where it stops, all of them
  when the result is reported as ok; and the action identifier and the page preconditions go with
  the first writing call and with no other.\<close>

theorem workflow_calls_in_order:
  fixes env :: "'a wfEnv" and x :: "('a \<times> wfCall list) wfExecutor"
  shows "\<exists>result x' calls.
     runUncached (loggingEnv env) w options x = (Inr result :: 'e + wfResult, x')
     \<and> callLog x' = callLog x @ calls
     \<and> guardsFirst calls
     \<and> (if wrOk result then calls = plannedCalls w options else prefix calls (plannedCalls w options))"
proof -
  obtain r x' where run: "runUncached (loggingEnv env) w options x = (r :: 'e + wfResult, x')" by fastforce
  with wp_runUncached [of env w options x, where 'e = 'e] obtain result where
    "r = Inr result" "runOutcome w options (callLog x) result x'" by (cases r) (auto simp: wp_def)
  with run show ?thesis
    using guardsFirst_prefix [OF plannedCalls_guards] by (fastforce simp: runOutcome_def)
qed

section \<open>A run does not touch the cache\<close>

definition cacheIs :: "(string, wfCacheEntry) omap \<Rightarrow> 'a wfExecutor \<Rightarrow> bool" where
  "cacheIs c x \<longleftrightarrow> wxCache x = c"

lemma keeps_now [keep_rules]: "keeps (cacheIs c) (wfNow env)"
  by (simp add: keeps_def wfNow_def cacheIs_def)

lemma keeps_reply [keep_rules]: "keeps (cacheIs c) (replyAct call)"
  by (auto simp: keeps_def replyAct_def cacheIs_def split: prod.splits wfReply.splits)

lemma keeps_performCalls [keep_rules]: "keeps (cacheIs c) (performCalls ad remaining cs v)"
  by (induction cs arbitrary: v) (auto intro: keep_rules)

lemma keeps_withDeadline [keep_rules]: "(\<And>n. keeps (cacheIs c) (f n)) \<Longrightarrow> keeps (cacheIs c) (withDeadline env d f)"
  unfolding withDeadline_def by (intro keep_rules)

lemma keeps_readStatus [keep_rules]: "keeps (cacheIs c) (readStatus env d)"
  unfolding readStatus_def by (intro keep_rules)

lemma keeps_runStep [keep_rules]: "keeps (cacheIs c) (runStep env d g stopOn i s previous)"
  unfolding runStep_def Let_def by (intro keep_rules)

lemma keeps_runSteps [keep_rules]: "keeps (cacheIs c) (runSteps env d g stopOn ss i previous)"
  by (induction ss arbitrary: i previous) (auto intro!: keep_rules)

lemma keeps_runUncached: "keeps (cacheIs c) (runUncached env w options)"
  unfolding runUncached_def Let_def by (intro keep_rules)

section \<open>Idempotency\<close>

lemma pruneCache_fresh: "oget cache a = None \<Longrightarrow> oget (pruneCache now cache) a = None"
  by (auto simp: pruneCache_def map_of_eq_None_iff)

lemma pruneCache_live: "oget cache a = Some e \<Longrightarrow> now < wcExpiresAt e \<Longrightarrow> oget (pruneCache now cache) a = Some e"
  by (induction cache) (auto simp: pruneCache_def split: if_splits)

lemma evictOldest_newest: "oget cache a = None \<Longrightarrow> oget (evictOldest (oset a e cache)) a = Some e"
proof -
  assume "oget cache a = None"
  then have fresh: "a \<notin> set (okeys cache)" by (simp add: map_of_eq_None_iff)
  let ?k = "length cache + 1 - MAX_WORKFLOW_CACHE_ENTRIES"
  have "?k \<le> length cache" by (simp add: MAX_WORKFLOW_CACHE_ENTRIES_def)
  moreover have "map_of (drop ?k cache) a = None"
    using fresh set_drop_subset [of ?k cache] by (auto simp: map_of_eq_None_iff)
  ultimately show ?thesis by (simp add: oset_fresh [OF fresh] evictOldest_def map_add_def)
qed

definition cacheEntry :: "'a wfEnv \<Rightarrow> wfWorkflow \<Rightarrow> wfRunOptions \<Rightarrow> int \<Rightarrow> wfResult \<Rightarrow> wfCacheEntry" where
  "cacheEntry env w run now result = \<lparr>wcFingerprint = fingerprint env (requestJson w run),
     wcExpiresAt = now + WORKFLOW_CACHE_TTL_MS, wcResult = result\<rparr>"

text \<open>The state in which the steps of a run start.\<close>

definition startState :: "'a wfEnv \<Rightarrow> 'a wfExecutor \<Rightarrow> 'a wfExecutor" where
  "startState env x = withCache (pruneCache (wnClock env (wxReads x))) (x\<lparr>wxReads := Suc (wxReads x)\<rparr>)"

lemma runWorkflow_fresh:
  assumes "prepareRun env request options = Inr (w, run)" "roActionId run = Some a" "oget (wxCache x) a = None"
  shows "runWorkflow env request options x =
    (case runUncached env w run (startState env x) of
       (Inl f, x2) \<Rightarrow> (Inl f, x2)
     | (Inr y, x2) \<Rightarrow> (Inr y, withCache (\<lambda>c. evictOldest (oset a (cacheEntry env w run (wnClock env (wxReads x)) y) c)) x2))"
  using pruneCache_fresh [OF assms(3)]
  by (simp add: runWorkflow_def assms act_defs wfNow_def cacheEntry_def startState_def withCache_def Let_def
      split: prod.splits sum.splits)

text \<open>A run that is not in the cache leaves its result there.\<close>

lemma runWorkflow_caches:
  assumes prep: "prepareRun env request options = Inr (w, run)" "roActionId run = Some a" "oget (wxCache x) a = None"
    and first: "runWorkflow env request options x = (Inr result, x1)"
  shows "oget (wxCache x1) a = Some (cacheEntry env w run (wnClock env (wxReads x)) result)"
proof -
  have none: "oget (wxCache (startState env x)) a = None"
    by (simp add: startState_def withCache_def pruneCache_fresh prep(3))
  obtain r x2 where run: "runUncached env w run (startState env x) = (r :: wfFault + wfResult, x2)" by fastforce
  have "wxCache x2 = wxCache (startState env x)"
    using keepsD [OF keeps_runUncached _ run, of "wxCache (startState env x)"] by (simp add: cacheIs_def)
  with none run first show ?thesis
    by (auto simp: runWorkflow_fresh [OF prep] withCache_def evictOldest_newest split: sum.splits)
qed

lemma runWorkflow_cached:
  assumes prep: "prepareRun env request options = Inr (w, run)" "roActionId run = Some a"
    and entry: "oget (wxCache x) a = Some e" "wnClock env (wxReads x) < wcExpiresAt e"
  shows "runWorkflow env request options x =
    (if wcFingerprint e \<noteq> fingerprint env (requestJson w run) then Inl WorkflowActionIdConflictError else Inr (wcResult e),
     withCache (pruneCache (wnClock env (wxReads x))) (x\<lparr>wxReads := Suc (wxReads x)\<rparr>))"
proof -
  have "oget (pruneCache (wnClock env (wxReads x)) (wxCache x)) a = Some e" using entry by (rule pruneCache_live)
  then show ?thesis by (simp add: runWorkflow_def prep act_defs wfNow_def Let_def withCache_def)
qed


definition demoAdapter :: "unit wfAdapter" where
  "demoAdapter = \<lparr>waCall = (\<lambda>c remaining a. (Returned (JObj []), a)), waStatus = None\<rparr>"

definition demoPage :: "unit wfEnv" where
  "demoPage = \<lparr>wnAdapter = demoAdapter, wnClock = (\<lambda>_. 5), wnAborted = (\<lambda>_. False), wnParse = demoWfUrls,
     wnSha256 = take 8, wnLimits = DEFAULT_WORKFLOW_LIMITS\<rparr>"

definition demoEnv :: "(unit \<times> wfCall list) wfEnv" where
  "demoEnv = loggingEnv demoPage"

definition demoOptions :: wfExecutionOptions where
  "demoOptions = \<lparr>weActionId = Some ''01234567-89ab-4cde-8f01-23456789abcd'', weExpectedTabId = None,
     weExpectedPageRevision = JUndef, weMaxDurationMs = JUndef, weMaxResultBytes = JUndef\<rparr>"

definition demoRunOptions :: wfRunOptions where
  "demoRunOptions = \<lparr>roActionId = Some ''01234567-89ab-4cde-8f01-23456789abcd'', roExpectedPageRevision = None,
     roExpectedTabId = None, roMaxDurationMs = 120000, roMaxResultBytes = 262144\<rparr>"

lemma demo_prepared: "prepareRun demoEnv demoWorkflow demoOptions = Inr (demoAccepted, demoRunOptions)"
  by code_simp


end
