(* ===== verification/SnapshotHistory.thy ===== *)
theory SnapshotHistory
  imports JsonText
begin

text \<open>
  The per-session history of semantic snapshots (\<open>browser/snapshot-history.ts\<close>): the bounded,
  text-free entries it retains, their expiry and eviction, and the difference between a retained
  snapshot and the current one.

  A caller's snapshot is a dynamic value, as the code treats it; what the code reads of it is
  checked where the code checks it.  SHA-256, the random part of an identifier and the clock are
  parameters.
\<close>

section \<open>Errors and limits\<close>

datatype historyCode = SNAPSHOT_NOT_FOUND | SNAPSHOT_EXPIRED | SNAPSHOT_ID_CONFLICT | PAGE_REVISION_MISMATCH
  | INVALID_SNAPSHOT | RESOURCE_EXHAUSTED

datatype historyError = SnapshotHistoryError (heCode: historyCode) (heMessage: string) (heRetryable: bool)

definition invalidSnapshot :: "string \<Rightarrow> historyError" where
  "invalidSnapshot message = SnapshotHistoryError INVALID_SNAPSHOT message False"

definition revisionMismatch :: "string \<Rightarrow> historyError" where
  "revisionMismatch message = SnapshotHistoryError PAGE_REVISION_MISMATCH message True"

definition DEFAULT_MAX_SNAPSHOTS :: int where "DEFAULT_MAX_SNAPSHOTS = 32"
definition SNAPSHOT_TTL_MS :: int where "SNAPSHOT_TTL_MS = 10 * 60000"
definition DEFAULT_MAX_BYTES :: int where "DEFAULT_MAX_BYTES = 2 * 1024 * 1024"
definition DEFAULT_MAX_SNAPSHOT_BYTES :: int where "DEFAULT_MAX_SNAPSHOT_BYTES = 256 * 1024"
definition DEFAULT_MAX_NODES :: int where "DEFAULT_MAX_NODES = 500"
definition HARD_MAX_SNAPSHOTS :: int where "HARD_MAX_SNAPSHOTS = 512"
definition HARD_MAX_TTL_MS :: int where "HARD_MAX_TTL_MS = 24 * 60 * 60000"
definition HARD_MAX_BYTES :: int where "HARD_MAX_BYTES = 16 * 1024 * 1024"
definition HARD_MAX_SNAPSHOT_BYTES :: int where "HARD_MAX_SNAPSHOT_BYTES = 4 * 1024 * 1024"
definition HARD_MAX_NODES :: int where "HARD_MAX_NODES = 2000"
definition MAX_ID_LENGTH :: nat where "MAX_ID_LENGTH = 200"
definition MAX_NODE_STRING_LENGTH :: nat where "MAX_NODE_STRING_LENGTH = 256"
definition MAX_NAME_LENGTH :: nat where "MAX_NAME_LENGTH = 200"
definition MAX_REF_LENGTH :: nat where "MAX_REF_LENGTH = 200"

definition historyInteger :: "jsval \<Rightarrow> int \<Rightarrow> int \<Rightarrow> int \<Rightarrow> int" where
  "historyInteger v minimum maximum fallback =
     (if v = JUndef \<or> \<not> numberIsFinite v then fallback else max minimum (min maximum \<lfloor>numOf v\<rfloor>))"

section \<open>Texts\<close>

text \<open>A text on one line, of bounded length; no more than four times the bound is looked at.\<close>

definition historyText :: "string \<Rightarrow> nat \<Rightarrow> string" where
  "historyText s maximum =
     take maximum (trim (blankRuns isSpace False (map (\<lambda>c. if isControl c then CHR '' '' else c) (take (maximum * 4) s))))"

text \<open>The bounded text, its size, and whether it was cut.\<close>

definition cutUtf8 :: "string \<Rightarrow> nat \<Rightarrow> string \<times> nat \<times> bool" where
  "cutUtf8 s maxBytes =
     (if utf8Length s \<le> maxBytes then (s, utf8Length s, False)
      else (utf8Prefix maxBytes s, utf8Length (utf8Prefix maxBytes s), True))"

text \<open>\<open>encodeURIComponent\<close> on code units below 256.\<close>

definition upperHex :: "nat \<Rightarrow> char" where
  "upperHex n = char_of (if n < 10 then 48 + n else 55 + n)"

definition percent :: "nat \<Rightarrow> string" where
  "percent n = [CHR ''%'', upperHex (n div 16), upperHex (n mod 16)]"

definition plainChar :: "char \<Rightarrow> bool" where
  "plainChar c \<longleftrightarrow> isAlnum c \<or> c \<in> set ''-_.!~*()'' \<or> charCode c = 39"

definition encodeChar :: "char \<Rightarrow> string" where
  "encodeChar c =
     (let n = charCode c in
      if plainChar c then [c]
      else if n < 128 then percent n
      else percent (192 + n div 64) @ percent (128 + n mod 64))"

definition encodeURIComponent :: "string \<Rightarrow> string" where
  "encodeURIComponent s = concat (map encodeChar s)"

section \<open>Nodes\<close>

text \<open>A semantic node; its value, if it has one, is only marked.\<close>

record semanticNode =
  snRef :: string
  snGeneration :: int
  snRole :: string
  snName :: string
  snTag :: string
  snType :: "string option"
  snTestId :: "string option"
  snFrameId :: "string option"
  snText :: "string option"
  snVisible :: "bool option"
  snEnabled :: "bool option"
  snEditable :: "bool option"
  snChecked :: "bool option"
  snRequired :: "bool option"
  snRedacted :: bool

record storedNode =
  stNode :: semanticNode
  stDigest :: "string option"

text \<open>The node as it is serialized; the text of a stored node is gone.\<close>

definition nodeJson :: "semanticNode \<Rightarrow> json" where
  "nodeJson n = JsFields (
     [(''ref'', JsText (snRef n)), (''generation'', JsInt (snGeneration n)), (''role'', JsText (snRole n)),
      (''name'', JsText (snName n)), (''tag'', JsText (snTag n))]
     @ optField ''type'' JsText (snType n) @ optField ''testId'' JsText (snTestId n)
     @ optField ''frameId'' JsText (snFrameId n) @ optField ''text'' JsText (snText n)
     @ optField ''visible'' JsBool (snVisible n) @ optField ''enabled'' JsBool (snEnabled n)
     @ optField ''editable'' JsBool (snEditable n) @ optField ''checked'' JsBool (snChecked n)
     @ optField ''required'' JsBool (snRequired n)
     @ (if snRedacted n then [(''value'', JsText ''<redacted>'')] else []))"

definition withoutNodeText :: "semanticNode \<Rightarrow> semanticNode" where
  "withoutNodeText n = n\<lparr>snText := None\<rparr>"

definition revisionValue :: "jsval \<Rightarrow> string \<Rightarrow> historyError + int" where
  "revisionValue v field =
     (if \<not> numberIsSafeInteger v \<or> numOf v < 0 then Inl (invalidSnapshot (field @ '' must be a non-negative integer''))
      else Inr \<lfloor>numOf v\<rfloor>)"

text \<open>A field that is set only to a non-empty text, and one that is set only to a boolean.\<close>

definition textField :: "jsval \<Rightarrow> string \<Rightarrow> nat \<Rightarrow> string option" where
  "textField v field maximum =
     (case getProp v field of JStr s \<Rightarrow> if s = [] then None else Some (historyText s maximum) | _ \<Rightarrow> None)"

definition requiredField :: "jsval \<Rightarrow> string \<Rightarrow> nat \<Rightarrow> string \<Rightarrow> string" where
  "requiredField v field maximum fallback =
     (case getProp v field of
        JStr s \<Rightarrow> if s = [] then [] else historyText s maximum
      | _ \<Rightarrow> historyText fallback MAX_NAME_LENGTH)"

definition boolField :: "jsval \<Rightarrow> string \<Rightarrow> bool option" where
  "boolField v field = (case getProp v field of JBool b \<Rightarrow> Some b | _ \<Rightarrow> None)"

definition isObject :: "jsval \<Rightarrow> bool" where
  "isObject v \<longleftrightarrow> (case v of JObj ps \<Rightarrow> True | _ \<Rightarrow> False)"

definition sensitiveType :: "jsval \<Rightarrow> bool" where
  "sensitiveType v = (case v of JStr s \<Rightarrow> toLowerCase s \<in> {''password'', ''hidden'', ''secret''} | _ \<Rightarrow> False)"

definition normalizeStoredNode :: "(string \<Rightarrow> string) \<Rightarrow> jsval \<Rightarrow> int \<Rightarrow> nat \<Rightarrow> historyError + storedNode" where
  "normalizeStoredNode sha256 v generation index =
     bindR (guardR (\<not> isObject v) (invalidSnapshot (''Snapshot target '' @ showDec index @ '' is invalid''))) (\<lambda>_.
     bindR (case getProp v ''ref'' of
              JStr s \<Rightarrow> if s = [] \<or> MAX_REF_LENGTH < length s
                        then Inl (invalidSnapshot (''Snapshot target '' @ showDec index @ '' has an invalid ref''))
                        else Inr s
            | _ \<Rightarrow> Inl (invalidSnapshot (''Snapshot target '' @ showDec index @ '' has an invalid ref''))) (\<lambda>ref.
     bindR (if getProp v ''generation'' = JUndef then Inr generation
            else revisionValue (getProp v ''generation'') (''target['' @ showDec index @ ''].generation'')) (\<lambda>safeGeneration.
     Inr \<lparr>stNode =
            \<lparr>snRef = historyText ref MAX_REF_LENGTH, snGeneration = safeGeneration,
             snRole = requiredField v ''role'' MAX_NODE_STRING_LENGTH ''generic'',
             snName = requiredField v ''name'' MAX_NAME_LENGTH [],
             snTag = requiredField v ''tag'' MAX_NODE_STRING_LENGTH ''unknown'',
             snType = textField v ''type'' MAX_NODE_STRING_LENGTH, snTestId = textField v ''testId'' MAX_NODE_STRING_LENGTH,
             snFrameId = textField v ''frameId'' MAX_NODE_STRING_LENGTH, snText = textField v ''text'' MAX_NODE_STRING_LENGTH,
             snVisible = boolField v ''visible'', snEnabled = boolField v ''enabled'', snEditable = boolField v ''editable'',
             snChecked = boolField v ''checked'', snRequired = boolField v ''required'',
             snRedacted = (hasProp v ''value'' \<or> sensitiveType (getProp v ''type''))\<rparr>,
          stDigest = (case getProp v ''text'' of JStr s \<Rightarrow> if s = [] \<or> sha256 s = [] then None else Some (sha256 s) | _ \<Rightarrow> None)\<rparr>)))"

text \<open>A node as a dynamic value again.\<close>

definition optProp :: "string \<Rightarrow> ('a \<Rightarrow> jsval) \<Rightarrow> 'a option \<Rightarrow> (string \<times> jsval) list" where
  "optProp k f v = (case v of None \<Rightarrow> [] | Some x \<Rightarrow> [(k, f x)])"

definition jsInt :: "int \<Rightarrow> jsval" where
  "jsInt n = JNum (JFin (of_int n))"

definition nodeValue :: "semanticNode \<Rightarrow> jsval" where
  "nodeValue n = JObj (
     [(''ref'', JStr (snRef n)), (''generation'', jsInt (snGeneration n)), (''role'', JStr (snRole n)),
      (''name'', JStr (snName n)), (''tag'', JStr (snTag n))]
     @ optProp ''type'' JStr (snType n) @ optProp ''testId'' JStr (snTestId n)
     @ optProp ''frameId'' JStr (snFrameId n) @ optProp ''text'' JStr (snText n)
     @ optProp ''visible'' JBool (snVisible n) @ optProp ''enabled'' JBool (snEnabled n)
     @ optProp ''editable'' JBool (snEditable n) @ optProp ''checked'' JBool (snChecked n)
     @ optProp ''required'' JBool (snRequired n)
     @ (if snRedacted n then [(''value'', JStr ''<redacted>'')] else []))"

section \<open>Snapshots\<close>

datatype snapshotFormat = StructuredSnapshot | CompactSnapshot
datatype cutReason = CutBytes | CutNodes

record snapshotCut =
  scContent :: bool
  scTargets :: bool
  scReason :: "cutReason option"

record publicSnapshot =
  psGeneration :: int
  psTabId :: "string option"
  psPageGeneration :: "int option"
  psPageRevision :: int
  psFrameGeneration :: "int option"
  psSnapshotId :: string
  psTargets :: "semanticNode list"
  psUrl :: "string option"
  psTitle :: "string option"
  psText :: "string option"
  psTextTruncated :: bool
  psContent :: "string option"
  psContentBytes :: "nat option"
  psFormat :: "snapshotFormat option"
  psCut :: "snapshotCut option"

definition formatOf :: "jsval \<Rightarrow> snapshotFormat option" where
  "formatOf v = (if v = JStr ''structured'' then Some StructuredSnapshot
     else if v = JStr ''compact'' then Some CompactSnapshot else None)"

definition reasonOf :: "jsval \<Rightarrow> cutReason option" where
  "reasonOf v = (if v = JStr ''max_bytes'' then Some CutBytes else if v = JStr ''max_nodes'' then Some CutNodes else None)"

definition formatText :: "snapshotFormat \<Rightarrow> string" where
  "formatText f = (case f of StructuredSnapshot \<Rightarrow> ''structured'' | CompactSnapshot \<Rightarrow> ''compact'')"

definition reasonText :: "cutReason \<Rightarrow> string" where
  "reasonText r = (case r of CutBytes \<Rightarrow> ''max_bytes'' | CutNodes \<Rightarrow> ''max_nodes'')"

definition snapshotValue :: "publicSnapshot \<Rightarrow> jsval" where
  "snapshotValue s = JObj (
     [(''generation'', jsInt (psGeneration s))] @ optProp ''tabId'' JStr (psTabId s)
     @ optProp ''pageGeneration'' jsInt (psPageGeneration s) @ [(''pageRevision'', jsInt (psPageRevision s))]
     @ optProp ''frameGeneration'' jsInt (psFrameGeneration s)
     @ [(''snapshotId'', JStr (psSnapshotId s)), (''targets'', JArr (map nodeValue (psTargets s))),
        (''elements'', JArr (map nodeValue (psTargets s)))]
     @ optProp ''url'' JStr (psUrl s) @ optProp ''title'' JStr (psTitle s) @ optProp ''text'' JStr (psText s)
     @ (if psTextTruncated s then [(''textTruncated'', JBool True)] else [])
     @ optProp ''content'' JStr (psContent s) @ optProp ''contentBytes'' (\<lambda>n. jsInt (int n)) (psContentBytes s)
     @ optProp ''format'' (\<lambda>f. JStr (formatText f)) (psFormat s)
     @ optProp ''truncated'' (\<lambda>c. JObj ([(''content'', JBool (scContent c)), (''targets'', JBool (scTargets c))]
          @ optProp ''reason'' (\<lambda>r. JStr (reasonText r)) (scReason c))) (psCut s))"

definition isArray :: "jsval \<Rightarrow> bool" where
  "isArray v = (case v of JArr xs \<Rightarrow> True | _ \<Rightarrow> False)"

definition assertSnapshotShape :: "jsval \<Rightarrow> historyError + unit" where
  "assertSnapshotShape v =
     bindR (guardR (\<not> isObject v) (invalidSnapshot ''A semantic snapshot object is required'')) (\<lambda>_.
     bindR (guardR (\<not> numberIsSafeInteger (getProp v ''generation'') \<or> numOf (getProp v ''generation'') < 0)
              (invalidSnapshot ''Snapshot generation must be a non-negative integer'')) (\<lambda>_.
     bindR (if getProp v ''pageGeneration'' = JUndef then Inr 0
            else revisionValue (getProp v ''pageGeneration'') ''pageGeneration'') (\<lambda>_.
     bindR (if getProp v ''pageRevision'' = JUndef then Inr 0
            else revisionValue (getProp v ''pageRevision'') ''pageRevision'') (\<lambda>_.
     bindR (if getProp v ''frameGeneration'' = JUndef then Inr 0
            else revisionValue (getProp v ''frameGeneration'') ''frameGeneration'') (\<lambda>_.
     guardR (\<not> isArray (getProp v ''targets'') \<and> \<not> isArray (getProp v ''elements''))
       (invalidSnapshot ''Snapshot targets must be an array''))))))"

definition idText :: "jsval \<Rightarrow> nat \<Rightarrow> string \<Rightarrow> historyError + string" where
  "idText v maximum field =
     (let refused = Inl (invalidSnapshot (field @ '' must be a bounded opaque string'')) in
      case v of
        JStr s \<Rightarrow> if s = [] \<or> maximum < length s \<or> list_ex isControl s then refused else Inr s
      | _ \<Rightarrow> refused)"

definition validateSnapshotId :: "jsval \<Rightarrow> historyError + string" where
  "validateSnapshotId v = idText v MAX_ID_LENGTH ''snapshotId''"

definition validateTabId :: "jsval \<Rightarrow> historyError + string" where
  "validateTabId v = idText v 100 ''tabId''"

definition optInt :: "jsval \<Rightarrow> int option" where
  "optInt v = (if v = JUndef then None else Some \<lfloor>numOf v\<rfloor>)"

definition optText :: "jsval \<Rightarrow> nat \<Rightarrow> string option" where
  "optText v maximum = (case v of JStr s \<Rightarrow> Some (historyText s maximum) | _ \<Rightarrow> None)"

definition normalizePublicSnapshot ::
  "jsval \<Rightarrow> string \<Rightarrow> int \<Rightarrow> semanticNode list \<Rightarrow> bool \<Rightarrow> nat \<Rightarrow> historyError + publicSnapshot" where
  "normalizePublicSnapshot v snapshotId pageRevision targets targetsTruncated maxSnapshotBytes =
     bindR (if getProp v ''tabId'' = JUndef then Inr None
            else bindR (validateTabId (getProp v ''tabId'')) (\<lambda>t. Inr (Some t))) (\<lambda>tabId.
     let content = (case getProp v ''content'' of JStr s \<Rightarrow> Some (cutUtf8 s maxSnapshotBytes) | _ \<Rightarrow> None);
         body = (case getProp v ''text'' of JStr s \<Rightarrow> Some (cutUtf8 s 100000) | _ \<Rightarrow> None);
         cut = getProp v ''truncated''
     in
     Inr \<lparr>psGeneration = \<lfloor>numOf (getProp v ''generation'')\<rfloor>, psTabId = tabId,
          psPageGeneration = optInt (getProp v ''pageGeneration''), psPageRevision = pageRevision,
          psFrameGeneration = optInt (getProp v ''frameGeneration''), psSnapshotId = snapshotId, psTargets = targets,
          psUrl = optText (getProp v ''url'') 2048, psTitle = optText (getProp v ''title'') 500,
          psText = map_option fst body,
          psTextTruncated = (getProp v ''textTruncated'' = JBool True \<or> (case body of Some (s, n, b) \<Rightarrow> b | None \<Rightarrow> False)),
          psContent = map_option fst content, psContentBytes = map_option (\<lambda>(s, n, b). n) content,
          psFormat = formatOf (getProp v ''format''),
          psCut = (if truthy cut \<and> (isObject cut \<or> isArray cut)
                   then Some \<lparr>scContent = (getProp cut ''content'' = JBool True),
                          scTargets = (getProp cut ''targets'' = JBool True \<or> targetsTruncated),
                          scReason = (case reasonOf (getProp cut ''reason'') of
                             Some r \<Rightarrow> Some r | None \<Rightarrow> if targetsTruncated then Some CutNodes else None)\<rparr>
                   else if targetsTruncated then Some \<lparr>scContent = False, scTargets = True, scReason = Some CutNodes\<rparr>
                   else None)\<rparr>)"

section \<open>The history\<close>

record historyEntry =
  hiId :: string
  hiTabId :: "string option"
  hiPageRevision :: int
  hiGeneration :: int
  hiCreatedAt :: rat
  hiExpiresAt :: rat
  hiBytes :: nat
  hiNodes :: "storedNode list"

text \<open>What does not change: the limits, the identifier of the session, and the parameters.\<close>

record historyEnv =
  hvSessionId :: "string option"
  hvMaxSnapshots :: int
  hvTtlMs :: int
  hvMaxBytes :: int
  hvMaxSnapshotBytes :: int
  hvMaxNodes :: int
  hvClock :: "nat \<Rightarrow> jsnum"
  hvIdFactory :: "(nat \<Rightarrow> int \<Rightarrow> string) option"
  hvRandom :: "nat \<Rightarrow> string"
  hvSha256 :: "string \<Rightarrow> string"

record historyOptions =
  hoMaxSnapshots :: jsval
  hoTtlMs :: jsval
  hoMaxBytes :: jsval
  hoMaxSnapshotBytes :: jsval
  hoMaxNodes :: jsval

definition newHistoryEnv ::
  "historyOptions \<Rightarrow> string option \<Rightarrow> (nat \<Rightarrow> jsnum) \<Rightarrow> (nat \<Rightarrow> int \<Rightarrow> string) option \<Rightarrow> (nat \<Rightarrow> string)
     \<Rightarrow> (string \<Rightarrow> string) \<Rightarrow> historyEnv" where
  "newHistoryEnv options session time idFactory random sha256 =
     (let maxBytes = historyInteger (hoMaxBytes options) 1 HARD_MAX_BYTES DEFAULT_MAX_BYTES in
      \<lparr>hvSessionId = session,
       hvMaxSnapshots = historyInteger (hoMaxSnapshots options) 1 HARD_MAX_SNAPSHOTS DEFAULT_MAX_SNAPSHOTS,
       hvTtlMs = historyInteger (hoTtlMs options) 1 HARD_MAX_TTL_MS SNAPSHOT_TTL_MS,
       hvMaxBytes = maxBytes,
       hvMaxSnapshotBytes = historyInteger (hoMaxSnapshotBytes options) 1 (min HARD_MAX_SNAPSHOT_BYTES maxBytes)
         (min DEFAULT_MAX_SNAPSHOT_BYTES maxBytes),
       hvMaxNodes = historyInteger (hoMaxNodes options) 1 HARD_MAX_NODES DEFAULT_MAX_NODES,
       hvClock = time, hvIdFactory = idFactory, hvRandom = random, hvSha256 = sha256\<rparr>)"

record historyState =
  hsEntries :: "(string, historyEntry) omap"
  hsExpired :: "(string, rat) omap"
  hsTotalBytes :: int
  hsSequence :: nat
  hsReads :: nat

type_synonym 'a historyAct = "(historyState, historyError, 'a) act"

definition newHistory :: historyState where
  "newHistory = \<lparr>hsEntries = [], hsExpired = [], hsTotalBytes = 0, hsSequence = 0, hsReads = 0\<rparr>"

definition historyNow :: "historyEnv \<Rightarrow> rat historyAct" where
  "historyNow env = (\<lambda>h.
     let h' = h\<lparr>hsReads := Suc (hsReads h)\<rparr> in
     case hvClock env (hsReads h) of
       JFin t \<Rightarrow> (Inr t, h')
     | _ \<Rightarrow> (Inl (invalidSnapshot ''The history clock returned an invalid time''), h'))"

definition clearHistory :: "unit historyAct" where
  "clearHistory = act_modify (\<lambda>h. h\<lparr>hsEntries := [], hsExpired := [], hsTotalBytes := 0\<rparr>)"

text \<open>Expired entries become tombstones; tombstones expire too and are bounded in number.\<close>

definition pruneAt :: "historyEnv \<Rightarrow> rat \<Rightarrow> historyState \<Rightarrow> historyState" where
  "pruneAt env now h =
     (let gone = filter (\<lambda>(k, e). hiExpiresAt e \<le> now) (hsEntries h);
          marked = foldl (\<lambda>m (k, e). oset k now m) (hsExpired h) gone;
          fresh = filter (\<lambda>(k, t). now < t + of_int (hvTtlMs env)) marked
      in h\<lparr>hsEntries := filter (\<lambda>(k, e). \<not> hiExpiresAt e \<le> now) (hsEntries h),
           hsTotalBytes := max 0 (hsTotalBytes h - sum_list (map (\<lambda>(k, e). int (hiBytes e)) gone)),
           hsExpired := drop (length fresh - nat (min HARD_MAX_SNAPSHOTS (hvMaxSnapshots env * 2))) fresh\<rparr>)"

definition pruneHistory :: "historyEnv \<Rightarrow> nat historyAct" where
  "pruneHistory env =
     act_bind (historyNow env) (\<lambda>now.
     act_bind (act_get (\<lambda>h. length (filter (\<lambda>(k, e). hiExpiresAt e \<le> now) (hsEntries h)))) (\<lambda>removed.
     act_then (act_modify (pruneAt env now)) (act_return removed)))"

definition historySize :: "historyEnv \<Rightarrow> nat historyAct" where
  "historySize env = act_then (pruneHistory env) (act_get (\<lambda>h. length (hsEntries h)))"

definition historyBytes :: "historyEnv \<Rightarrow> int historyAct" where
  "historyBytes env = act_then (pruneHistory env) (act_get hsTotalBytes)"

definition historyHas :: "historyEnv \<Rightarrow> string \<Rightarrow> bool historyAct" where
  "historyHas env k = act_then (pruneHistory env) (act_get (\<lambda>h. k \<in> set (okeys (hsEntries h))))"

subsection \<open>Identifiers\<close>

fun base36 :: "nat \<Rightarrow> string" where
  "base36 n = (if n < 36 then [digitChar n] else base36 (n div 36) @ [digitChar (n mod 36)])"

definition sessionLabel :: "string \<Rightarrow> bool" where
  "sessionLabel s \<longleftrightarrow> 1 \<le> length s \<and> length s \<le> 100 \<and> list_all (\<lambda>c. isAlnum c \<or> c = CHR ''_'' \<or> c = CHR ''-'') s"

definition defaultSnapshotId :: "historyEnv \<Rightarrow> nat \<Rightarrow> int \<Rightarrow> string" where
  "defaultSnapshotId env n pageRevision =
     (let sessionPart = (case hvSessionId env of Some s \<Rightarrow> if sessionLabel s then s else ''session'' | None \<Rightarrow> ''session'') in
      ''snp_'' @ sessionPart @ ''_'' @ base36 (nat pageRevision) @ ''_'' @ base36 n @ ''_''
        @ take 16 (filter (\<lambda>c. c \<noteq> CHR ''-'') (hvRandom env n)))"

text \<open>Eight attempts at an identifier that is not in use.\<close>

primrec nextSnapshotId :: "nat \<Rightarrow> historyEnv \<Rightarrow> int \<Rightarrow> string historyAct" where
  "nextSnapshotId 0 env pageRevision =
     act_throw (SnapshotHistoryError RESOURCE_EXHAUSTED ''Could not allocate a unique snapshot id'' False)"
| "nextSnapshotId (Suc attempts) env pageRevision =
     act_then (act_modify (\<lambda>h. h\<lparr>hsSequence := Suc (hsSequence h)\<rparr>))
       (act_bind (act_get hsSequence) (\<lambda>n.
        act_bind (act_lift (validateSnapshotId (JStr (case hvIdFactory env of
                    Some factory \<Rightarrow> factory n pageRevision | None \<Rightarrow> defaultSnapshotId env n pageRevision)))) (\<lambda>k.
        act_bind (act_get (\<lambda>h. k \<in> set (okeys (hsEntries h)))) (\<lambda>taken.
        if taken then nextSnapshotId attempts env pageRevision else act_return k))))"

subsection \<open>Preparing an observation\<close>

record recordOptions =
  ocSnapshotId :: jsval
  ocPageRevision :: jsval
  ocExpectedPageRevision :: jsval

record preparedSnapshot =
  ppSnapshot :: publicSnapshot
  ppNodes :: "storedNode list"
  ppBytes :: nat

definition assertRevision :: "int \<Rightarrow> jsval \<Rightarrow> historyError + unit" where
  "assertRevision actual expected =
     (if expected = JUndef then Inr ()
      else bindR (revisionValue expected ''expectedPageRevision'') (\<lambda>n.
           guardR (actual \<noteq> n) (revisionMismatch ''The page revision does not match the expected revision'')))"

definition storedJson :: "storedNode \<Rightarrow> json" where
  "storedJson st = JsFields ([(''node'', nodeJson (stNode st))] @ optField ''textDigest'' JsText (stDigest st))"

definition entryBytes :: "publicSnapshot \<Rightarrow> storedNode list \<Rightarrow> nat" where
  "entryBytes s nodes = utf8Length (jsonText (JsFields (
     [(''snapshotId'', JsText (psSnapshotId s))] @ optField ''tabId'' JsText (psTabId s)
     @ [(''pageRevision'', JsInt (psPageRevision s)), (''generation'', JsInt (psGeneration s)),
        (''targets'', JsList (map storedJson nodes))])))"

definition forStorage :: "storedNode \<Rightarrow> storedNode" where
  "forStorage st = st\<lparr>stNode := withoutNodeText (stNode st)\<rparr>"

definition rawTargets :: "jsval \<Rightarrow> jsval list" where
  "rawTargets v = (case getProp v ''targets'' of
       JArr xs \<Rightarrow> xs
     | _ \<Rightarrow> (case getProp v ''elements'' of JArr xs \<Rightarrow> xs | _ \<Rightarrow> []))"

definition prepareSnapshot :: "historyEnv \<Rightarrow> jsval \<Rightarrow> recordOptions \<Rightarrow> preparedSnapshot historyAct" where
  "prepareSnapshot env v options =
     act_bind (act_lift (
       bindR (assertSnapshotShape v) (\<lambda>_.
       bindR (revisionValue (nullish (ocPageRevision options) (nullish (getProp v ''pageRevision'')
                (nullish (getProp v ''pageGeneration'') (getProp v ''generation'')))) ''pageRevision'') (\<lambda>pageRevision.
       bindR (assertRevision pageRevision (ocExpectedPageRevision options)) (\<lambda>_. Inr pageRevision))))) (\<lambda>pageRevision.
     let suppliedId = nullish (ocSnapshotId options) (getProp v ''snapshotId'') in
     act_bind (if suppliedId = JUndef then nextSnapshotId 8 env pageRevision
               else act_lift (validateSnapshotId suppliedId)) (\<lambda>snapshotId.
     act_lift (
       let generation = \<lfloor>numOf (getProp v ''generation'')\<rfloor>; raw = rawTargets v;
           limited = take (nat (hvMaxNodes env)) raw in
       bindR (mapR (\<lambda>index node. normalizeStoredNode (hvSha256 env) node generation index) 0 limited) (\<lambda>nodes.
       bindR (normalizePublicSnapshot v snapshotId pageRevision (map stNode nodes) (length limited < length raw)
                (nat (hvMaxSnapshotBytes env))) (\<lambda>s.
       Inr \<lparr>ppSnapshot = s, ppNodes = map forStorage nodes, ppBytes = entryBytes s (map forStorage nodes)\<rparr>)))))"

subsection \<open>Retaining an observation\<close>

text \<open>Stored nodes are the same when they agree on everything that is stored.\<close>

definition sameStoredNodes :: "storedNode list \<Rightarrow> storedNode list \<Rightarrow> bool" where
  "sameStoredNodes left right \<longleftrightarrow> list_all2 (\<lambda>a b. stDigest a = stDigest b
     \<and> (stNode a)\<lparr>snText := None\<rparr> = (stNode b)\<lparr>snText := None\<rparr>) left right"

text \<open>\<open>while (size >= maxSnapshots || totalBytes + bytes > maxBytes) evict the oldest\<close>\<close>

fun evictFor :: "historyEnv \<Rightarrow> int \<Rightarrow> (string, historyEntry) omap \<Rightarrow> int \<Rightarrow> (string, historyEntry) omap \<times> int" where
  "evictFor env bytes [] held = ([], held)"
| "evictFor env bytes ((k, e) # rest) held =
     (if hvMaxSnapshots env \<le> int (length ((k, e) # rest)) \<or> hvMaxBytes env < held + bytes
      then evictFor env bytes rest (max 0 (held - int (hiBytes e)))
      else ((k, e) # rest, held))"

definition newEntry :: "historyEnv \<Rightarrow> rat \<Rightarrow> preparedSnapshot \<Rightarrow> historyEntry" where
  "newEntry env now p =
     (let s = ppSnapshot p in
      \<lparr>hiId = psSnapshotId s, hiTabId = psTabId s, hiPageRevision = psPageRevision s, hiGeneration = psGeneration s,
       hiCreatedAt = now, hiExpiresAt = now + of_int (hvTtlMs env), hiBytes = ppBytes p, hiNodes = ppNodes p\<rparr>)"

definition insertEntry :: "historyEnv \<Rightarrow> historyEntry \<Rightarrow> historyState \<Rightarrow> historyState" where
  "insertEntry env e h =
     (case evictFor env (int (hiBytes e)) (hsEntries h) (hsTotalBytes h) of (kept, held) \<Rightarrow>
        h\<lparr>hsEntries := oset (hiId e) e kept, hsTotalBytes := held + int (hiBytes e),
          hsExpired := odelete (hiId e) (hsExpired h)\<rparr>)"

definition retainPrepared :: "historyEnv \<Rightarrow> preparedSnapshot \<Rightarrow> publicSnapshot historyAct" where
  "retainPrepared env p =
     act_bind (historyNow env) (\<lambda>now.
     act_then (pruneHistory env)
     (act_bind (act_get (\<lambda>h. oget (hsEntries h) (psSnapshotId (ppSnapshot p)))) (\<lambda>existing.
      case existing of
        Some e \<Rightarrow>
          if hiTabId e \<noteq> psTabId (ppSnapshot p) \<or> hiPageRevision e \<noteq> psPageRevision (ppSnapshot p)
             \<or> \<not> sameStoredNodes (hiNodes e) (ppNodes p)
          then act_throw (SnapshotHistoryError SNAPSHOT_ID_CONFLICT
                 ''The snapshot id is already associated with a different observation'' False)
          else act_return (ppSnapshot p)
      | None \<Rightarrow>
          let e = newEntry env now p in
          if hvMaxSnapshotBytes env < int (hiBytes e) \<or> hvMaxBytes env < int (hiBytes e)
          then act_throw (SnapshotHistoryError RESOURCE_EXHAUSTED
                 ''The snapshot exceeds the configured history object-size limit'' False)
          else act_then (act_modify (insertEntry env e)) (act_return (ppSnapshot p)))))"

definition recordSnapshot :: "historyEnv \<Rightarrow> jsval \<Rightarrow> recordOptions \<Rightarrow> publicSnapshot historyAct" where
  "recordSnapshot env v options = act_bind (prepareSnapshot env v options) (retainPrepared env)"

subsection \<open>Reading entries\<close>

record publicEntry =
  peId :: string
  peTabId :: "string option"
  pePageRevision :: int
  peCreatedAt :: rat
  peExpiresAt :: rat
  peBytes :: nat
  peTargets :: "semanticNode list"

definition cloneEntry :: "historyEntry \<Rightarrow> publicEntry" where
  "cloneEntry e = \<lparr>peId = hiId e, peTabId = hiTabId e, pePageRevision = hiPageRevision e, peCreatedAt = hiCreatedAt e,
     peExpiresAt = hiExpiresAt e, peBytes = hiBytes e, peTargets = map stNode (hiNodes e)\<rparr>"

definition historyGet :: "historyEnv \<Rightarrow> string \<Rightarrow> publicEntry option historyAct" where
  "historyGet env k = act_then (pruneHistory env) (act_get (\<lambda>h. map_option cloneEntry (oget (hsEntries h) k)))"

definition missingEntry :: "string \<Rightarrow> historyState \<Rightarrow> historyError" where
  "missingEntry k h = (if k \<in> set (okeys (hsExpired h))
     then SnapshotHistoryError SNAPSHOT_EXPIRED ''The base snapshot has expired'' True
     else SnapshotHistoryError SNAPSHOT_NOT_FOUND ''The base snapshot was not found'' True)"

definition requireEntry :: "historyEnv \<Rightarrow> string \<Rightarrow> historyEntry historyAct" where
  "requireEntry env k =
     act_then (pruneHistory env)
       (act_bind (act_get (\<lambda>h. (oget (hsEntries h) k, missingEntry k h))) (\<lambda>(found, missing).
        case found of Some e \<Rightarrow> act_return e | None \<Rightarrow> act_throw missing))"

definition historyRequire :: "historyEnv \<Rightarrow> string \<Rightarrow> publicEntry historyAct" where
  "historyRequire env k =
     act_bind (historyGet env k) (\<lambda>found.
     act_bind (act_get (missingEntry k)) (\<lambda>missing.
     case found of Some e \<Rightarrow> act_return e | None \<Rightarrow> act_throw missing))"

section \<open>Differences\<close>

datatype nodeField = FRole | FName | FTag | FType | FTestId | FFrameId | FVisible | FEnabled | FEditable | FChecked
  | FRequired | FValue | FText

record nodeUpdate =
  nuKey :: string
  nuBefore :: semanticNode
  nuAfter :: semanticNode
  nuChanged :: "nodeField list"

record snapshotDiff =
  sdSinceSnapshotId :: string
  sdSnapshotId :: string
  sdTabId :: "string option"
  sdFromPageRevision :: int
  sdPageRevision :: int
  sdPageRevisionChanged :: bool
  sdAdded :: "semanticNode list"
  sdRemoved :: "semanticNode list"
  sdUpdated :: "nodeUpdate list"
  sdChanged :: bool

definition orText :: "string option \<Rightarrow> string \<Rightarrow> string" where
  "orText v d = (case v of Some s \<Rightarrow> s | None \<Rightarrow> d)"

definition semanticKey :: "semanticNode \<Rightarrow> string" where
  "semanticKey n =
     (let frame = orText (snFrameId n) ''main''; testId = orText (snTestId n) [] in
      if testId \<noteq> [] then ''test:'' @ frame @ '':'' @ testId
      else joinStr '':'' (map encodeURIComponent
             [''semantic'', frame, snRole n, snTag n, snName n, orText (snType n) []]))"

definition changedFields :: "storedNode \<Rightarrow> storedNode \<Rightarrow> nodeField list" where
  "changedFields old new =
     (let a = stNode old; b = stNode new in
      map fst (filter snd
        [(FRole, snRole a \<noteq> snRole b), (FName, snName a \<noteq> snName b), (FTag, snTag a \<noteq> snTag b),
         (FType, snType a \<noteq> snType b), (FTestId, snTestId a \<noteq> snTestId b), (FFrameId, snFrameId a \<noteq> snFrameId b),
         (FVisible, snVisible a \<noteq> snVisible b), (FEnabled, snEnabled a \<noteq> snEnabled b),
         (FEditable, snEditable a \<noteq> snEditable b), (FChecked, snChecked a \<noteq> snChecked b),
         (FRequired, snRequired a \<noteq> snRequired b), (FValue, snRedacted a \<noteq> snRedacted b),
         (FText, stDigest old \<noteq> stDigest new)]))"

text \<open>The base nodes a current node may match: those with its reference, then those with its semantic key.\<close>

definition candidates :: "storedNode list \<Rightarrow> semanticNode \<Rightarrow> nat list" where
  "candidates base n =
     filter (\<lambda>i. snRef (stNode (base ! i)) = snRef n) [0..<length base]
     @ filter (\<lambda>i. semanticKey (stNode (base ! i)) = semanticKey n) [0..<length base]"

definition firstUnused :: "nat list \<Rightarrow> nat list \<Rightarrow> nat option" where
  "firstUnused used xs = List.find (\<lambda>i. i \<notin> set used) xs"

record matchState =
  msUsed :: "nat list"
  msAdded :: "semanticNode list"
  msUpdated :: "nodeUpdate list"

definition matchNode :: "storedNode list \<Rightarrow> storedNode \<Rightarrow> matchState \<Rightarrow> matchState" where
  "matchNode base current m =
     (case firstUnused (msUsed m) (candidates base (stNode current)) of
        None \<Rightarrow> m\<lparr>msAdded := msAdded m @ [stNode current]\<rparr>
      | Some i \<Rightarrow>
          let changed = changedFields (base ! i) current in
          m\<lparr>msUsed := msUsed m @ [i],
            msUpdated := msUpdated m @ (if changed = [] then []
              else [\<lparr>nuKey = semanticKey (stNode current), nuBefore = stNode (base ! i), nuAfter = stNode current,
                     nuChanged = changed\<rparr>])\<rparr>)"

definition matchNodes :: "storedNode list \<Rightarrow> storedNode list \<Rightarrow> matchState" where
  "matchNodes base current =
     foldl (\<lambda>m c. matchNode base c m) \<lparr>msUsed = [], msAdded = [], msUpdated = []\<rparr> current"

definition removedNodes :: "storedNode list \<Rightarrow> nat list \<Rightarrow> semanticNode list" where
  "removedNodes base used = map (\<lambda>i. stNode (base ! i)) (filter (\<lambda>i. i \<notin> set used) [0..<length base])"

definition makeDiff :: "historyEnv \<Rightarrow> publicSnapshot \<Rightarrow> historyEntry \<Rightarrow> string \<Rightarrow> historyError + snapshotDiff" where
  "makeDiff env current base sinceId =
     bindR (mapR (\<lambda>index n. normalizeStoredNode (hvSha256 env) (nodeValue n) (psGeneration current) index) 0
              (psTargets current)) (\<lambda>nodes.
     let m = matchNodes (hiNodes base) nodes; removed = removedNodes (hiNodes base) (msUsed m) in
     Inr \<lparr>sdSinceSnapshotId = sinceId, sdSnapshotId = psSnapshotId current, sdTabId = psTabId current,
          sdFromPageRevision = hiPageRevision base, sdPageRevision = psPageRevision current,
          sdPageRevisionChanged = (hiPageRevision base \<noteq> psPageRevision current),
          sdAdded = msAdded m, sdRemoved = removed, sdUpdated = msUpdated m,
          sdChanged = (msAdded m \<noteq> [] \<or> removed \<noteq> [] \<or> msUpdated m \<noteq> [])\<rparr>)"

record diffOptions =
  doExpectedPageRevision :: jsval
  doSameRevision :: bool

definition assertBaseRevision :: "int \<Rightarrow> int \<Rightarrow> diffOptions \<Rightarrow> historyError + unit" where
  "assertBaseRevision actual base options =
     bindR (assertRevision actual (doExpectedPageRevision options)) (\<lambda>_.
     guardR (doSameRevision options \<and> actual \<noteq> base)
       (revisionMismatch ''The current snapshot belongs to a different page revision''))"

definition plainRecord :: recordOptions where
  "plainRecord = \<lparr>ocSnapshotId = JUndef, ocPageRevision = JUndef, ocExpectedPageRevision = JUndef\<rparr>"

definition diffSnapshot :: "historyEnv \<Rightarrow> jsval \<Rightarrow> string \<Rightarrow> diffOptions \<Rightarrow> snapshotDiff historyAct" where
  "diffSnapshot env v sinceId options =
     act_bind (prepareSnapshot env v plainRecord) (\<lambda>p.
     act_bind (requireEntry env sinceId) (\<lambda>base.
     act_bind (act_lift (assertBaseRevision (psPageRevision (ppSnapshot p)) (hiPageRevision base) options)) (\<lambda>_.
     act_lift (makeDiff env (ppSnapshot p) base sinceId))))"

definition plainDiff :: diffOptions where
  "plainDiff = \<lparr>doExpectedPageRevision = JUndef, doSameRevision = False\<rparr>"

text \<open>Retain and compare in one operation; the base is looked up before and again after the insertion.\<close>

definition recordWithDiff ::
  "historyEnv \<Rightarrow> jsval \<Rightarrow> recordOptions \<Rightarrow> string option \<Rightarrow> diffOptions option
     \<Rightarrow> (publicSnapshot \<times> snapshotDiff option) historyAct" where
  "recordWithDiff env v options since diffing =
     (case since of
        None \<Rightarrow> act_bind (recordSnapshot env v options) (\<lambda>s. act_return (s, None))
      | Some k \<Rightarrow>
          act_bind (requireEntry env k) (\<lambda>base.
          act_bind (prepareSnapshot env v options) (\<lambda>p.
          let d = (case diffing of Some d \<Rightarrow> d | None \<Rightarrow> plainDiff) in
          act_bind (act_lift (assertBaseRevision (psPageRevision (ppSnapshot p)) (hiPageRevision base) d)) (\<lambda>_.
          act_bind (retainPrepared env p) (\<lambda>saved.
          act_bind (diffSnapshot env (snapshotValue saved) k d) (\<lambda>diff.
          act_return (saved, Some diff)))))))"

end
