(* ===== verification/SnapshotSpec.thy ===== *)
theory SnapshotSpec
  imports SnapshotHistory "HOL-Library.Multiset"
begin

text \<open>
  What the snapshot history promises (\<open>browser/snapshot-history.ts\<close>): in every reachable state it
  is within its limits and holds no text of the page, and a difference accounts for every node of
  both observations.
\<close>

section \<open>Limits\<close>

definition validHistory :: "historyEnv \<Rightarrow> bool" where
  "validHistory env \<longleftrightarrow> 1 \<le> hvMaxSnapshots env \<and> hvMaxSnapshots env \<le> 512 \<and> 1 \<le> hvTtlMs env \<and> hvTtlMs env \<le> 86400000
     \<and> 1 \<le> hvMaxBytes env \<and> hvMaxBytes env \<le> 16777216 \<and> 1 \<le> hvMaxSnapshotBytes env
     \<and> hvMaxSnapshotBytes env \<le> hvMaxBytes env \<and> 1 \<le> hvMaxNodes env \<and> hvMaxNodes env \<le> 2000"

lemma historyInteger_bounds:
  "low \<le> high \<Longrightarrow> low \<le> fallback \<Longrightarrow> fallback \<le> high \<Longrightarrow>
   low \<le> historyInteger v low high fallback \<and> historyInteger v low high fallback \<le> high"
  by (auto simp: historyInteger_def)

lemmas history_limits = DEFAULT_MAX_SNAPSHOTS_def SNAPSHOT_TTL_MS_def DEFAULT_MAX_BYTES_def DEFAULT_MAX_SNAPSHOT_BYTES_def
  DEFAULT_MAX_NODES_def HARD_MAX_SNAPSHOTS_def HARD_MAX_TTL_MS_def HARD_MAX_BYTES_def HARD_MAX_SNAPSHOT_BYTES_def
  HARD_MAX_NODES_def

lemma newHistoryEnv_valid: "validHistory (newHistoryEnv options session time idFactory random sha256)"
proof -
  let ?b = "historyInteger (hoMaxBytes options) 1 HARD_MAX_BYTES DEFAULT_MAX_BYTES"
  have b: "1 \<le> ?b \<and> ?b \<le> 16777216"
    using historyInteger_bounds [of 1 HARD_MAX_BYTES DEFAULT_MAX_BYTES "hoMaxBytes options"] by (simp add: history_limits)
  let ?s = "historyInteger (hoMaxSnapshotBytes options) 1 (min HARD_MAX_SNAPSHOT_BYTES ?b) (min DEFAULT_MAX_SNAPSHOT_BYTES ?b)"
  have "1 \<le> ?s \<and> ?s \<le> min HARD_MAX_SNAPSHOT_BYTES ?b"
    using b by (intro historyInteger_bounds) (simp_all add: history_limits)
  then show ?thesis
    using b historyInteger_bounds [of 1 HARD_MAX_SNAPSHOTS DEFAULT_MAX_SNAPSHOTS "hoMaxSnapshots options"]
      historyInteger_bounds [of 1 HARD_MAX_TTL_MS SNAPSHOT_TTL_MS "hoTtlMs options"]
      historyInteger_bounds [of 1 HARD_MAX_NODES DEFAULT_MAX_NODES "hoMaxNodes options"]
    by (simp add: validHistory_def newHistoryEnv_def Let_def) (simp add: history_limits)
qed

section \<open>Stored nodes\<close>

lemma historyText_length: "length (historyText s n) \<le> n"
  by (simp add: historyText_def)

definition optBounded :: "nat \<Rightarrow> string option \<Rightarrow> bool" where
  "optBounded n v = (case v of None \<Rightarrow> True | Some s \<Rightarrow> length s \<le> n)"

text \<open>A stored node: bounded labels, and neither text nor value of the element.\<close>

definition storedOk :: "storedNode \<Rightarrow> bool" where
  "storedOk st \<longleftrightarrow> (let n = stNode st in
     snText n = None \<and> length (snRef n) \<le> 200 \<and> length (snRole n) \<le> 256 \<and> length (snName n) \<le> 200 \<and> length (snTag n) \<le> 256
     \<and> optBounded 256 (snType n) \<and> optBounded 256 (snTestId n) \<and> optBounded 256 (snFrameId n))"

lemma textField_bounded: "optBounded n (textField v k n)"
  by (auto simp: optBounded_def textField_def historyText_length split: jsval.splits)

lemma requiredField_bounded: "200 \<le> n \<Longrightarrow> length (requiredField v k n d) \<le> n"
  by (auto simp: requiredField_def historyText_length MAX_NAME_LENGTH_def order_trans [OF historyText_length]
      split: jsval.splits)

lemmas node_limits = MAX_REF_LENGTH_def MAX_NAME_LENGTH_def MAX_NODE_STRING_LENGTH_def

lemma normalizeStoredNode_ok: "normalizeStoredNode sha v generation index = Inr st \<Longrightarrow> storedOk (forStorage st)"
  by (erule ifOkD [rotated])
     (auto simp: normalizeStoredNode_def ok_rules storedOk_def forStorage_def withoutNodeText_def Let_def
       intro: requiredField_bounded textField_bounded historyText_length [THEN order_trans] simp: node_limits)

section \<open>The invariant\<close>

definition entryOk :: "historyEnv \<Rightarrow> string \<times> historyEntry \<Rightarrow> bool" where
  "entryOk env p \<longleftrightarrow> (case p of (k, e) \<Rightarrow> hiId e = k \<and> int (hiBytes e) \<le> hvMaxSnapshotBytes env
     \<and> int (length (hiNodes e)) \<le> hvMaxNodes env \<and> list_all storedOk (hiNodes e))"

definition entriesBytes :: "(string, historyEntry) omap \<Rightarrow> int" where
  "entriesBytes m = sum_list (map (\<lambda>(k, e). int (hiBytes e)) m)"

definition historyInv :: "historyEnv \<Rightarrow> historyState \<Rightarrow> bool" where
  "historyInv env h \<longleftrightarrow> owf (hsEntries h) \<and> owf (hsExpired h) \<and> int (length (hsEntries h)) \<le> hvMaxSnapshots env
     \<and> hsTotalBytes h = entriesBytes (hsEntries h) \<and> hsTotalBytes h \<le> hvMaxBytes env
     \<and> list_all (entryOk env) (hsEntries h) \<and> int (length (hsExpired h)) \<le> 2 * hvMaxSnapshots env"

lemma entriesBytes_simps [simp]: "entriesBytes [] = 0" "entriesBytes (p # m) = int (hiBytes (snd p)) + entriesBytes m"
  "entriesBytes (xs @ ys) = entriesBytes xs + entriesBytes ys"
  by (simp_all add: entriesBytes_def case_prod_unfold)

lemma entriesBytes_nonneg: "0 \<le> entriesBytes m"
  by (induction m) auto

lemma owf_filter: "owf m \<Longrightarrow> owf (filter P m)"
  by (induction m) auto

lemma owf_drop: "owf m \<Longrightarrow> owf (drop n m)"
  by (simp add: drop_map [symmetric])

lemma entriesBytes_split: "entriesBytes (filter (\<lambda>(k, e). \<not> P k e) m) = entriesBytes m - entriesBytes (filter (\<lambda>(k, e). P k e) m)"
  by (induction m) auto

lemma entriesBytes_filter_le: "entriesBytes (filter P m) \<le> entriesBytes m"
  by (induction m) auto

lemma owf_foldl_oset: "owf m \<Longrightarrow> owf (foldl (\<lambda>m (k, e). oset k now m) m gone)"
  by (induction gone arbitrary: m) (auto simp: omap_simps)

lemma pruneAt_inv: "validHistory env \<Longrightarrow> historyInv env h \<Longrightarrow> historyInv env (pruneAt env now h)"
proof -
  assume v: "validHistory env" and h: "historyInv env h"
  let ?gone = "filter (\<lambda>(k, e). hiExpiresAt e \<le> now) (hsEntries h)"
  let ?kept = "filter (\<lambda>(k, e). \<not> hiExpiresAt e \<le> now) (hsEntries h)"
  have bytes: "max 0 (hsTotalBytes h - entriesBytes ?gone) = entriesBytes ?kept"
    using h entriesBytes_nonneg [of ?kept] entriesBytes_split [of "\<lambda>k e. hiExpiresAt e \<le> now" "hsEntries h"]
    by (simp add: historyInv_def)
  have len: "int (length (drop (length xs - nat (min HARD_MAX_SNAPSHOTS (hvMaxSnapshots env * 2))) xs)) \<le> 2 * hvMaxSnapshots env"
    for xs :: "(string \<times> rat) list"
  proof -
    let ?n = "nat (min HARD_MAX_SNAPSHOTS (hvMaxSnapshots env * 2))"
    have "length (drop (length xs - ?n) xs) \<le> ?n" by simp
    moreover have "int ?n \<le> 2 * hvMaxSnapshots env" using v by (simp add: validHistory_def HARD_MAX_SNAPSHOTS_def)
    ultimately show ?thesis by linarith
  qed
  have "int (length ?kept) \<le> int (length (hsEntries h))" by simp
  also have "\<dots> \<le> hvMaxSnapshots env" using h by (simp add: historyInv_def)
  finally have kept: "int (length ?kept) \<le> hvMaxSnapshots env" .
  have "entriesBytes ?kept \<le> hvMaxBytes env"
    using h entriesBytes_filter_le [of "\<lambda>(k, e). \<not> hiExpiresAt e \<le> now" "hsEntries h"] by (simp add: historyInv_def)
  then show ?thesis
    using h bytes len kept
    by (auto simp: historyInv_def pruneAt_def Let_def owf_filter owf_drop owf_foldl_oset list_all_iff
        entriesBytes_def [symmetric] simp del: length_drop)
qed

lemma evictFor_inv:
  "owf m \<Longrightarrow> held = entriesBytes m \<Longrightarrow> evictFor env bytes m held = (kept, held') \<Longrightarrow>
     (\<exists>gone. m = gone @ kept) \<and> held' = entriesBytes kept
     \<and> (kept \<noteq> [] \<longrightarrow> int (length kept) < hvMaxSnapshots env \<and> held' + bytes \<le> hvMaxBytes env)"
proof (induction env bytes m held rule: evictFor.induct)
  case (2 env bytes k e rest held)
  show ?case
  proof (cases "hvMaxSnapshots env \<le> int (length ((k, e) # rest)) \<or> hvMaxBytes env < held + bytes")
    case True
    have "max 0 (held - int (hiBytes e)) = entriesBytes rest"
      using 2(3) entriesBytes_nonneg [of rest] by simp
    with 2(1) [OF True] 2(2,4) True show ?thesis by (fastforce intro: exI [of _ "(k, e) # g" for g])
  next
    case False
    with 2(2-4) show ?thesis by auto
  qed
qed auto

lemma insertEntry_inv:
  assumes v: "validHistory env" and h: "historyInv env h" and fresh: "oget (hsEntries h) (hiId e) = None"
    and e: "entryOk env (hiId e, e)" "int (hiBytes e) \<le> hvMaxBytes env"
  shows "historyInv env (insertEntry env e h)"
proof -
  obtain kept held where ev: "evictFor env (int (hiBytes e)) (hsEntries h) (hsTotalBytes h) = (kept, held)" by fastforce
  have i: "(\<exists>gone. hsEntries h = gone @ kept) \<and> held = entriesBytes kept
     \<and> (kept \<noteq> [] \<longrightarrow> int (length kept) < hvMaxSnapshots env \<and> held + int (hiBytes e) \<le> hvMaxBytes env)"
    using h by (intro evictFor_inv [OF _ _ ev]) (simp_all add: historyInv_def)
  then obtain gone where gone: "hsEntries h = gone @ kept" by blast
  have new: "hiId e \<notin> set (okeys kept)" using fresh gone by (auto simp: oget_None_iff)
  have ins: "insertEntry env e h = h\<lparr>hsEntries := kept @ [(hiId e, e)], hsTotalBytes := held + int (hiBytes e),
      hsExpired := odelete (hiId e) (hsExpired h)\<rparr>"
    by (simp add: insertEntry_def ev oset_fresh [OF new])
  have "int (length (odelete (hiId e) (hsExpired h))) \<le> 2 * hvMaxSnapshots env"
    using h length_odelete_le [of "hiId e" "hsExpired h"] by (simp add: historyInv_def)
  moreover have "held + int (hiBytes e) \<le> hvMaxBytes env" "int (length kept) + 1 \<le> hvMaxSnapshots env"
    using i e(2) v by (cases "kept = []"; simp add: validHistory_def)+
  ultimately show ?thesis
    using h i e(1) new gone by (simp add: historyInv_def ins omap_simps)
qed

section \<open>Every operation keeps the invariant\<close>

lemma historyInv_reads [simp]: "historyInv env (h\<lparr>hsReads := n\<rparr>) = historyInv env h"
  "historyInv env (h\<lparr>hsSequence := n\<rparr>) = historyInv env h"
  by (simp_all add: historyInv_def)

lemma historyNow_keeps [keep_rules]: "keeps (historyInv env) (historyNow env')"
  by (simp add: keeps_def historyNow_def Let_def split: jsnum.splits)

lemma prune_keeps [keep_rules]: "validHistory env \<Longrightarrow> keeps (historyInv env) (pruneHistory env)"
  unfolding pruneHistory_def by (intro keep_rules keeps_modify pruneAt_inv)

lemma clear_keeps [keep_rules]: "validHistory env \<Longrightarrow> keeps (historyInv env) clearHistory"
  unfolding clearHistory_def by (rule keeps_modify) (simp add: historyInv_def validHistory_def)

lemma nextSnapshotId_keeps [keep_rules]: "keeps (historyInv env) (nextSnapshotId n env' r)"
proof (induction n)
  case (Suc n)
  then show ?case by (simp only: nextSnapshotId.simps) (intro keep_rules keeps_modify; simp)
qed (simp add: keep_rules)

lemma prepare_keeps [keep_rules]: "keeps (historyInv env) (prepareSnapshot env v options)"
  unfolding prepareSnapshot_def Let_def by (intro keep_rules)

text \<open>What is prepared may be stored.\<close>

definition preparedOk :: "historyEnv \<Rightarrow> preparedSnapshot \<Rightarrow> bool" where
  "preparedOk env p \<longleftrightarrow> int (length (ppNodes p)) \<le> hvMaxNodes env \<and> list_all storedOk (ppNodes p)"

lemma stored_all:
  "mapR (\<lambda>index node. normalizeStoredNode sha node generation index) i xs = Inr nodes \<Longrightarrow>
   list_all storedOk (map forStorage nodes) \<and> length nodes = length xs"
  by (auto simp: list.pred_map comp_def mapR_length elim!: mapR_all normalizeStoredNode_ok)

lemma prepare_ok:
  assumes n: "1 \<le> hvMaxNodes env"
  shows "wp (prepareSnapshot env v options) (\<lambda>p _. preparedOk env p) (\<lambda>_ _. True) h"
proof -
  have "ifOk (preparedOk env)
     (bindR (mapR (\<lambda>index node. normalizeStoredNode (hvSha256 env) node \<lfloor>numOf (getProp v ''generation'')\<rfloor> index) 0
              (take (nat (hvMaxNodes env)) (rawTargets v))) (\<lambda>nodes.
      bindR (normalizePublicSnapshot v snapshotId pageRevision (map stNode nodes)
                (length (take (nat (hvMaxNodes env)) (rawTargets v)) < length (rawTargets v))
                (nat (hvMaxSnapshotBytes env))) (\<lambda>s.
      Inr \<lparr>ppSnapshot = s, ppNodes = map forStorage nodes, ppBytes = entryBytes s (map forStorage nodes)\<rparr>)))"
    for snapshotId pageRevision
    using n by (auto simp: ok_rules preparedOk_def dest!: stored_all)
  then show ?thesis
    unfolding prepareSnapshot_def Let_def
    by (intro wp_bind_any) (auto simp: wp_lift ifOk_def split: sum.splits)
qed

lemma keeps_bind_get: "(\<And>s. P s \<Longrightarrow> P (snd (f (g s) s))) \<Longrightarrow> keeps P (act_bind (act_get g) f)"
  by (simp add: keeps_def act_bind_def act_get_def)

lemma retain_keeps:
  assumes v: "validHistory env" and p: "preparedOk env p"
  shows "keeps (historyInv env) (retainPrepared env p)"
  unfolding retainPrepared_def
proof (rule keeps_bind [OF historyNow_keeps keeps_then [OF prune_keeps [OF v] keeps_bind_get]], goal_cases)
  case (1 now s)
  let ?e = "newEntry env now p"
  have id: "hiId ?e = psSnapshotId (ppSnapshot p)" by (simp add: newEntry_def Let_def)
  have "historyInv env (insertEntry env ?e s)"
    if "oget (hsEntries s) (hiId ?e) = None" "int (hiBytes ?e) \<le> hvMaxSnapshotBytes env" "int (hiBytes ?e) \<le> hvMaxBytes env"
    using that p by (intro insertEntry_inv [OF v 1]) (simp_all add: entryOk_def newEntry_def preparedOk_def Let_def)
  with 1 id show ?case by (auto simp: act_defs Let_def split: option.splits)
qed

text \<open>An action followed by one that may rely on what the first returns.\<close>

lemma keeps_bind_post:
  "(\<And>s. wp m (\<lambda>x _. R x) (\<lambda>_ _. True) s) \<Longrightarrow> keeps P m \<Longrightarrow> (\<And>x. R x \<Longrightarrow> keeps P (f x)) \<Longrightarrow> keeps P (act_bind m f)"
  unfolding keeps_wp wp_bind by (blast intro: wp_mono [OF wp_conj])

lemma record_keeps [keep_rules]: "validHistory env \<Longrightarrow> keeps (historyInv env) (recordSnapshot env v options)"
  unfolding recordSnapshot_def
  by (rule keeps_bind_post [OF prepare_ok prepare_keeps retain_keeps]) (simp_all add: validHistory_def)

lemma require_keeps [keep_rules]: "validHistory env \<Longrightarrow> keeps (historyInv env) (requireEntry env k)"
  unfolding requireEntry_def by (intro keep_rules)

lemma diff_keeps [keep_rules]: "validHistory env \<Longrightarrow> keeps (historyInv env) (diffSnapshot env v k d)"
  unfolding diffSnapshot_def by (intro keep_rules)

lemma recordWithDiff_keeps [keep_rules]:
  assumes v: "validHistory env"
  shows "keeps (historyInv env) (recordWithDiff env value options since diffing)"
proof (cases since)
  case None
  then show ?thesis using v by (simp add: recordWithDiff_def keep_rules)
next
  case (Some k)
  have n: "1 \<le> hvMaxNodes env" using v by (simp add: validHistory_def)
  show ?thesis
    unfolding recordWithDiff_def Some option.case Let_def
    by (rule keeps_bind [OF require_keeps [OF v]], rule keeps_bind_post [OF prepare_ok [OF n] prepare_keeps])
       (intro keep_rules retain_keeps v; assumption)
qed

text \<open>The operations of a history, as a caller may call them in any order.\<close>

datatype historyOp =
    OpRecord jsval recordOptions
  | OpDiff jsval string diffOptions
  | OpRecordDiff jsval recordOptions "string option" "diffOptions option"
  | OpGet string
  | OpRequire string
  | OpHas string
  | OpSize
  | OpBytes
  | OpPrune
  | OpClear

fun historyStep :: "historyEnv \<Rightarrow> historyOp \<Rightarrow> historyState \<Rightarrow> historyState" where
  "historyStep env (OpRecord v options) h = snd (recordSnapshot env v options h)"
| "historyStep env (OpDiff v k d) h = snd (diffSnapshot env v k d h)"
| "historyStep env (OpRecordDiff v options since d) h = snd (recordWithDiff env v options since d h)"
| "historyStep env (OpGet k) h = snd (historyGet env k h)"
| "historyStep env (OpRequire k) h = snd (historyRequire env k h)"
| "historyStep env (OpHas k) h = snd (historyHas env k h)"
| "historyStep env OpSize h = snd (historySize env h)"
| "historyStep env OpBytes h = snd (historyBytes env h)"
| "historyStep env OpPrune h = snd (pruneHistory env h)"
| "historyStep env OpClear h = snd (clearHistory h)"

inductive historyReachable :: "historyEnv \<Rightarrow> historyState \<Rightarrow> bool" for env where
  start: "historyReachable env newHistory"
| step: "historyReachable env h \<Longrightarrow> historyReachable env (historyStep env op h)"

lemma historyStep_inv: "validHistory env \<Longrightarrow> historyInv env h \<Longrightarrow> historyInv env (historyStep env op h)"
proof -
  assume v: "validHistory env" and h: "historyInv env h"
  have keep: "historyInv env (snd (m h))" if "keeps (historyInv env) m" for m :: "'b historyAct"
    using that h by (simp add: keeps_def)
  have get: "keeps (historyInv env) (historyGet env k)" for k
    unfolding historyGet_def by (intro keep_rules v)
  have "keeps (historyInv env) (historyRequire env k)" "keeps (historyInv env) (historyHas env k)"
    "keeps (historyInv env) (historySize env)" "keeps (historyInv env) (historyBytes env)" for k
    unfolding historyRequire_def historyHas_def historySize_def historyBytes_def by (intro keep_rules v get)+
  then show ?thesis using v get by (cases op) (simp_all add: keep keep_rules)
qed

lemma historyReachable_inv: "historyReachable env h \<Longrightarrow> validHistory env \<Longrightarrow> historyInv env h"
  by (induction rule: historyReachable.induct)
     (auto simp: historyStep_inv, simp add: historyInv_def newHistory_def validHistory_def)

text \<open>C24. In every state the history can reach, whatever limits it was given and whatever was recorded, it
  retains at most 512 snapshots and 16 MiB, each within the size of one snapshot, under distinct
  identifiers, its byte count is the sum over what it retains, and no retained node holds the
  text of an element or a label longer than its bound.\<close>

theorem history_within_limits:
  fixes options session time idFactory random sha256
  defines "env \<equiv> newHistoryEnv options session time idFactory random sha256"
  assumes "historyReachable env h"
  shows "length (hsEntries h) \<le> 512 \<and> int (length (hsEntries h)) \<le> hvMaxSnapshots env
    \<and> distinct (okeys (hsEntries h))
    \<and> hsTotalBytes h = entriesBytes (hsEntries h) \<and> hsTotalBytes h \<le> hvMaxBytes env \<and> hvMaxBytes env \<le> 16 * 1024 * 1024
    \<and> list_all (\<lambda>(k, e). hiId e = k \<and> int (hiBytes e) \<le> hvMaxSnapshotBytes env \<and> list_all storedOk (hiNodes e)) (hsEntries h)
    \<and> length (hsExpired h) \<le> 1024"
proof -
  have v: "validHistory env" by (simp add: env_def newHistoryEnv_valid)
  then have i: "historyInv env h" by (rule historyReachable_inv [OF assms(2)])
  have "list_all (\<lambda>(k, e). hiId e = k \<and> int (hiBytes e) \<le> hvMaxSnapshotBytes env \<and> list_all storedOk (hiNodes e)) (hsEntries h)"
    using i by (auto simp: historyInv_def entryOk_def list_all_iff)
  with i v show ?thesis by (auto simp: historyInv_def validHistory_def)
qed

definition demoHistoryEnv :: historyEnv where
  "demoHistoryEnv = newHistoryEnv
     \<lparr>hoMaxSnapshots = JNum (JFin 1), hoTtlMs = JUndef, hoMaxBytes = JUndef, hoMaxSnapshotBytes = JUndef, hoMaxNodes = JUndef\<rparr>
     None (\<lambda>_. JFin 0) (Some (\<lambda>n revision. ''id'' @ showDec n)) (\<lambda>_. []) (\<lambda>s. s)"

definition demoNode :: "string \<Rightarrow> jsval" where
  "demoNode body = JObj [(''ref'', JStr ''r1''), (''role'', JStr ''link''), (''name'', JStr ''More''), (''tag'', JStr ''a''),
     (''text'', JStr body)]"

definition demoSnapshot :: "string \<Rightarrow> jsval" where
  "demoSnapshot body = JObj [(''generation'', JNum (JFin 1)), (''targets'', JArr [demoNode body])]"

theorem history_within_limits_witness:
  "length (hsEntries (historyStep demoHistoryEnv (OpRecord (demoSnapshot ''more'') plainRecord) newHistory)) \<le> 512"
  using history_within_limits [OF historyReachable.step [OF historyReachable.start]]
  unfolding demoHistoryEnv_def by blast

section \<open>Differences\<close>

text \<open>All of a node that a difference compares.\<close>

definition observed :: "storedNode \<Rightarrow> (string \<times> string \<times> string) \<times> (string option \<times> string option \<times> string option)
    \<times> (bool option \<times> bool option \<times> bool option \<times> bool option \<times> bool option) \<times> bool \<times> string option" where
  "observed st = (let n = stNode st in
     ((snRole n, snName n, snTag n), (snType n, snTestId n, snFrameId n),
      (snVisible n, snEnabled n, snEditable n, snChecked n, snRequired n), snRedacted n, stDigest st))"

lemma flagged_Nil: "map fst (filter snd xs) = [] \<longleftrightarrow> list_all (\<lambda>p. \<not> snd p) xs"
  by (induction xs) auto

lemma changedFields_Nil: "changedFields a b = [] \<longleftrightarrow> observed a = observed b"
  by (simp add: changedFields_def Let_def flagged_Nil observed_def)

definition matchOk :: "storedNode list \<Rightarrow> storedNode list \<Rightarrow> matchState \<Rightarrow> bool" where
  "matchOk base seen m \<longleftrightarrow> distinct (msUsed m) \<and> set (msUsed m) \<subseteq> {..<length base}
     \<and> length (msUsed m) + length (msAdded m) = length seen \<and> length (msUpdated m) \<le> length (msUsed m)
     \<and> (msAdded m = [] \<and> msUpdated m = [] \<longrightarrow>
          image_mset observed (mset seen) = image_mset (\<lambda>i. observed (base ! i)) (mset (msUsed m)))"

lemma firstUnused_Some: "firstUnused used xs = Some i \<Longrightarrow> i \<in> set xs \<and> i \<notin> set used"
  by (auto simp: firstUnused_def find_Some_iff)

lemma candidates_range: "i \<in> set (candidates base n) \<Longrightarrow> i < length base"
  by (auto simp: candidates_def)

lemma matchNode_ok: "matchOk base seen m \<Longrightarrow> matchOk base (seen @ [c]) (matchNode base c m)"
proof (cases "firstUnused (msUsed m) (candidates base (stNode c))")
  case None
  then show "matchOk base seen m \<Longrightarrow> ?thesis" by (simp add: matchOk_def matchNode_def)
next
  case (Some i)
  then have i: "i < length base" "i \<notin> set (msUsed m)" using firstUnused_Some candidates_range by blast+
  define u where "u = (if changedFields (base ! i) c = [] then [] else
    [\<lparr>nuKey = semanticKey (stNode c), nuBefore = stNode (base ! i), nuAfter = stNode c,
      nuChanged = changedFields (base ! i) c\<rparr>])"
  have "matchNode base c m = m\<lparr>msUsed := msUsed m @ [i], msUpdated := msUpdated m @ u\<rparr>"
    using Some by (simp add: matchNode_def Let_def u_def)
  moreover have "length u \<le> 1" "u = [] \<Longrightarrow> observed c = observed (base ! i)"
    using changedFields_Nil [of "base ! i" c] by (auto simp: u_def split: if_splits)
  ultimately show "matchOk base seen m \<Longrightarrow> ?thesis" using i by (auto simp: matchOk_def)
qed

lemma matchNodes_ok: "matchOk base current (matchNodes base current)"
proof -
  have "matchOk base (seen @ current) (foldl (\<lambda>m c. matchNode base c m) m current)" if "matchOk base seen m" for seen m
    using that
  proof (induction current arbitrary: seen m)
    case (Cons c cs)
    from Cons.IH [OF matchNode_ok [OF Cons.prems, of c]] show ?case by simp
  qed simp
  from this [of "[]"] show ?thesis by (simp add: matchNodes_def matchOk_def)
qed

lemma removed_count:
  assumes "distinct used" "set used \<subseteq> {..<n}"
  shows "length (filter (\<lambda>i. i \<notin> set used) [0..<n]) + length used = n"
proof -
  have "length (filter (\<lambda>i. i \<in> set used) [0..<n]) = card (set used)"
    using assms(2) by (subst distinct_card [symmetric]) (auto intro!: arg_cong [where f = card])
  then have "length (filter (\<lambda>i. i \<in> set used) [0..<n]) = length used" using assms(1) by (simp add: distinct_card)
  then show ?thesis using sum_length_filter_compl [of "\<lambda>i. i \<in> set used" "[0..<n]"] by simp
qed

lemma mset_all_used:
  assumes "distinct used" "set used \<subseteq> {..<n}" "length used = n"
  shows "mset used = mset [0..<n]"
proof -
  have "set used = {..<n}" using assms by (intro card_subset_eq) (simp_all add: distinct_card)
  then show ?thesis using assms(1) by (metis distinct_upt set_eq_iff_mset_eq_distinct atLeast_upt)
qed


definition demoStored :: storedNode where
  "demoStored = \<lparr>stNode = \<lparr>snRef = ''r1'', snGeneration = 1, snRole = ''link'', snName = ''More'', snTag = ''a'', snType = None,
       snTestId = None, snFrameId = None, snText = None, snVisible = None, snEnabled = None, snEditable = None,
       snChecked = None, snRequired = None, snRedacted = False\<rparr>, stDigest = None\<rparr>"

definition demoCurrent :: publicSnapshot where
  "demoCurrent = \<lparr>psGeneration = 1, psTabId = None, psPageGeneration = None, psPageRevision = 1, psFrameGeneration = None,
     psSnapshotId = ''now'', psTargets = [stNode demoStored], psUrl = None, psTitle = None, psText = None,
     psTextTruncated = False, psContent = None, psContentBytes = None, psFormat = None, psCut = None\<rparr>"

definition demoBase :: historyEntry where
  "demoBase = \<lparr>hiId = ''was'', hiTabId = None, hiPageRevision = 1, hiGeneration = 1, hiCreatedAt = 0, hiExpiresAt = 1, hiBytes = 9,
     hiNodes = [demoStored, demoStored]\<rparr>"

lemma demo_nodes:
  "mapR (\<lambda>index n. normalizeStoredNode (hvSha256 demoHistoryEnv) (nodeValue n) (psGeneration demoCurrent) index) 0
     (psTargets demoCurrent) = Inr [demoStored]"
  by code_simp


section \<open>What the difference gets wrong\<close>

text \<open>
  The digest of a retained node is that of the raw text, while the digest it is compared with is
  that of the bounded text: the same observation, compared with itself, is reported as changed
  when a text has two blanks in a row (or is longer than 256 characters).
\<close>

definition keptNode :: "string \<Rightarrow> storedNode" where
  "keptNode digest = demoStored\<lparr>stNode := (stNode demoStored)\<lparr>snText := Some ''a b''\<rparr>, stDigest := Some digest\<rparr>"

definition sameText :: "string \<Rightarrow> string" where
  "sameText s = s"

lemma untidy_text_changed:
  "normalizeStoredNode sameText (demoNode ''a  b'') 1 0 = Inr (keptNode ''a  b'')"
  "normalizeStoredNode sameText (nodeValue (stNode (keptNode ''a  b''))) 1 0 = Inr (keptNode ''a b'')"
  "changedFields (forStorage (keptNode ''a  b'')) (keptNode ''a b'') = [FText]"
  by code_simp+

text \<open>
  Retaining an observation may evict the very base it is to be compared with; the comparison that
  follows the insertion then fails, although the base was found before it.
\<close>

lemma only_base_is_evicted:
  assumes "hvMaxSnapshots env = 1" "hsEntries h = [(k, old)]" "hiId e \<noteq> k"
  shows "oget (hsEntries (insertEntry env e h)) k = None \<and> hsEntries (insertEntry env e h) = [(hiId e, e)]"
  using assms by (simp add: insertEntry_def)

end
