(* ===== verification/SemanticTargets.thy ===== *)
theory SemanticTargets
  imports JsonText Domain
begin

text \<open>
  Semantic targets and their metadata (\<open>browser/semantic-snapshot.ts\<close> and the pure part of
  \<open>browser/target-registry.ts\<close>): the redaction of control values, the roles inferred from tags
  and input types, the validation of a target, and the compact text of a snapshot.
\<close>

section \<open>Metadata\<close>

text \<open>
  A role is a text, except that a lookup in an object literal finds the properties every object
  inherits: a role read that way is some object.
\<close>

datatype roleValue = RoleText string | RoleObject

record targetMetadata =
  tmRole :: roleValue
  tmName :: string
  tmTag :: string
  tmType :: "string option"
  tmTestId :: "string option"
  tmFrameId :: "string option"
  tmVisible :: "bool option"
  tmEnabled :: "bool option"
  tmEditable :: "bool option"
  tmChecked :: "bool option"
  tmRequired :: bool
  tmRedacted :: bool
  tmText :: "string option"

definition redactControlValue :: "targetMetadata \<Rightarrow> targetMetadata" where
  "redactControlValue m =
     (let sensitive = (case tmType m of Some t \<Rightarrow> toLowerCase t \<in> {''password'', ''hidden'', ''secret''} | None \<Rightarrow> False) in
      m\<lparr>tmRedacted := tmRedacted m \<or> sensitive\<rparr>)"

definition truncateText :: "string \<Rightarrow> int \<Rightarrow> string \<times> bool" where
  "truncateText s maxChars =
     (let safeMax = nat (max 0 maxChars) in if length s \<le> safeMax then (s, False) else (take safeMax s, True))"

definition cleanName :: "string option \<Rightarrow> string" where
  "cleanName v = take 200 (trim (blankRuns isSpace False (case v of None \<Rightarrow> [] | Some s \<Rightarrow> s)))"

section \<open>Roles\<close>

definition ROLE_TAGS :: "(string \<times> string) list" where
  "ROLE_TAGS = [(''button'', ''button''), (''a'', ''link''), (''textarea'', ''textbox''), (''select'', ''combobox'')]"

definition INPUT_ROLES :: "(string \<times> string) list" where
  "INPUT_ROLES =
     [(''button'', ''button''), (''checkbox'', ''checkbox''), (''email'', ''textbox''), (''number'', ''spinbutton''),
      (''radio'', ''radio''), (''range'', ''slider''), (''reset'', ''button''), (''search'', ''searchbox''),
      (''submit'', ''button''), (''tel'', ''textbox''), (''text'', ''textbox''), (''url'', ''textbox'')]"

text \<open>The properties of \<open>Object.prototype\<close> whose name is in lower case.\<close>

definition INHERITED_KEYS :: "string list" where
  "INHERITED_KEYS = [''constructor'', ''__proto__'']"

definition lookupRole :: "(string \<times> string) list \<Rightarrow> string \<Rightarrow> roleValue option" where
  "lookupRole table k = (case map_of table k of
       Some r \<Rightarrow> Some (RoleText r)
     | None \<Rightarrow> if k \<in> set INHERITED_KEYS then Some RoleObject else None)"

definition inferRole :: "string \<Rightarrow> string \<Rightarrow> string option \<Rightarrow> roleValue" where
  "inferRole tag type explicitRole =
     (case explicitRole of
        Some (c # cs) \<Rightarrow> RoleText (c # cs)
      | _ \<Rightarrow>
          if tag = ''input'' then (case lookupRole INPUT_ROLES type of Some r \<Rightarrow> r | None \<Rightarrow> RoleText ''textbox'')
          else (case lookupRole ROLE_TAGS tag of
                  Some r \<Rightarrow> r
                | None \<Rightarrow> RoleText (if tag = ''div'' \<or> tag = [] then ''generic'' else tag)))"

section \<open>Targets\<close>

datatype registryCode = INVALID_TARGET | TARGET_NOT_FOUND | TARGET_AMBIGUOUS | TARGET_NOT_ACTIONABLE | STALE_TARGET
  | PAGE_REVISION_MISMATCH

datatype targetFault = TargetRegistryError registryCode string | PageFault jsval | RangeError string

definition FORBIDDEN_KEYS :: "string list" where
  "FORBIDDEN_KEYS = [''css'', ''cssSelector'', ''xpath'', ''path'', ''coordinates'', ''coordinate'', ''x'', ''y'', ''script'',
     ''expression'']"

definition isForbiddenTarget :: "jsval \<Rightarrow> bool" where
  "isForbiddenTarget v = (case v of
       JObj ps \<Rightarrow> list_ex (\<lambda>k. k \<in> set (map fst ps)) FORBIDDEN_KEYS
     | JArr xs \<Rightarrow> False
     | _ \<Rightarrow> True)"

definition isText :: "jsval \<Rightarrow> bool" where
  "isText v = (case v of JStr s \<Rightarrow> True | _ \<Rightarrow> False)"

definition nonEmptyText :: "jsval \<Rightarrow> bool" where
  "nonEmptyText v = (case v of JStr s \<Rightarrow> s \<noteq> [] | _ \<Rightarrow> False)"

definition longText :: "nat \<Rightarrow> jsval \<Rightarrow> bool" where
  "longText n v = (case v of JStr s \<Rightarrow> n < length s | _ \<Rightarrow> True)"

definition invalidTarget :: "string \<Rightarrow> targetFault" where
  "invalidTarget message = TargetRegistryError INVALID_TARGET message"

definition isBool :: "jsval \<Rightarrow> bool" where
  "isBool v = (case v of JBool b \<Rightarrow> True | _ \<Rightarrow> False)"

definition validateSemanticTarget :: "jsval \<Rightarrow> targetFault + unit" where
  "validateSemanticTarget t =
     bindR (guardR (isForbiddenTarget t) (invalidTarget ''Only semantic target fields are accepted'')) (\<lambda>_.
     bindR (guardR (length (filter (\<lambda>k. nonEmptyText (getProp t k)) [''role'', ''label'', ''testId'', ''selector'']) \<noteq> 1)
              (invalidTarget ''A target must use exactly one semantic locator strategy'')) (\<lambda>_.
     bindR (guardR (truthy (getProp t ''role'') \<and> getProp t ''name'' \<noteq> JUndef \<and> \<not> isText (getProp t ''name''))
              (invalidTarget ''Target name must be a string'')) (\<lambda>_.
     bindR (guardR (list_ex (\<lambda>k. getProp t k \<noteq> JUndef \<and> longText 200 (getProp t k)) [''role'', ''name'', ''label'', ''testId''])
              (invalidTarget ''Target text is too long or invalid'')) (\<lambda>_.
     bindR (guardR (getProp t ''selector'' \<noteq> JUndef \<and> (longText 2048 (getProp t ''selector'')
                \<or> (case getProp t ''selector'' of JStr s \<Rightarrow> trim s = [] | _ \<Rightarrow> True)))
              (invalidTarget ''Raw selector is too long or invalid'')) (\<lambda>_.
     guardR (getProp t ''exact'' \<noteq> JUndef \<and> \<not> isBool (getProp t ''exact''))
       (invalidTarget ''Target exact must be a boolean''))))))"

text \<open>The target that will find an element again.\<close>

definition roleJs :: "roleValue \<Rightarrow> jsval" where
  "roleJs r = (case r of RoleText s \<Rightarrow> JStr s | RoleObject \<Rightarrow> JObj [])"

definition roleGiven :: "roleValue \<Rightarrow> bool" where
  "roleGiven r \<longleftrightarrow> truthy (roleJs r)"

definition semanticTargetFromMetadata :: "targetMetadata \<Rightarrow> jsval" where
  "semanticTargetFromMetadata m =
     (case tmTestId m of
        Some (c # cs) \<Rightarrow> JObj [(''testId'', JStr (c # cs))]
      | _ \<Rightarrow>
          if roleGiven (tmRole m) \<and> tmName m \<noteq> []
          then JObj [(''role'', roleJs (tmRole m)), (''name'', JStr (tmName m)), (''exact'', JBool True)]
          else if roleGiven (tmRole m) then JObj [(''role'', roleJs (tmRole m))]
          else if tmName m \<noteq> []
          then JObj [(''role'', JStr ''generic''), (''name'', JStr (tmName m)), (''exact'', JBool True)]
          else JObj [(''role'', JStr ''generic''), (''exact'', JBool True)])"

text \<open>The expectation may leave fields open; an unknown value of the snapshot matches anything.\<close>

definition fieldMatches :: "bool \<Rightarrow> string option \<Rightarrow> string option \<Rightarrow> bool" where
  "fieldMatches allowUnknown current expected =
     (case expected of
        None \<Rightarrow> True
      | Some v \<Rightarrow> current = Some v \<or> (allowUnknown \<and> v \<in> {''unknown'', ''generic'', []}))"

record expectation =
  exRole :: "roleValue option"
  exName :: "string option"
  exTag :: "string option"
  exType :: "string option"
  exFrameId :: "string option"

definition expectationOf :: "targetMetadata \<Rightarrow> expectation" where
  "expectationOf m = \<lparr>exRole = Some (tmRole m), exName = Some (tmName m), exTag = Some (tmTag m), exType = tmType m,
     exFrameId = tmFrameId m\<rparr>"

definition roleMatches :: "bool \<Rightarrow> roleValue \<Rightarrow> roleValue option \<Rightarrow> bool" where
  "roleMatches allowUnknown current expected =
     (case expected of
        None \<Rightarrow> True
      | Some r \<Rightarrow> current = r \<or> (allowUnknown \<and> r \<in> {RoleText ''unknown'', RoleText ''generic'', RoleText []}))"

definition metadataMatches :: "bool \<Rightarrow> targetMetadata \<Rightarrow> expectation \<Rightarrow> bool" where
  "metadataMatches allowUnknown current expected \<longleftrightarrow>
     roleMatches allowUnknown (tmRole current) (exRole expected)
     \<and> fieldMatches allowUnknown (Some (tmName current)) (exName expected)
     \<and> fieldMatches allowUnknown (Some (tmTag current)) (exTag expected)
     \<and> fieldMatches allowUnknown (tmType current) (exType expected)
     \<and> fieldMatches allowUnknown (tmFrameId current) (exFrameId expected)"

section \<open>Snapshots of targets\<close>

record registryNode =
  rnRef :: string
  rnMetadata :: targetMetadata
  rnGeneration :: int
  rnFrameGeneration :: int

record semanticSnapshot =
  seGeneration :: int
  sePageGeneration :: "int option"
  seFrameGeneration :: "int option"
  seUrl :: "string option"
  seTitle :: "string option"
  seText :: "string option"
  seTextTruncated :: bool
  seTargets :: "registryNode list"

record compactSnapshot = semanticSnapshot +
  cpPageRevision :: int
  cpContent :: string
  cpContentBytes :: nat
  cpCompact :: bool
  cpContentTruncated :: bool

definition quoted :: "string \<Rightarrow> string" where
  "quoted s = jsonString s"

definition orElseText :: "string list \<Rightarrow> string" where
  "orElseText xs = (case filter (\<lambda>s. s \<noteq> []) xs of [] \<Rightarrow> [] | s # rest \<Rightarrow> s)"

definition boolText :: "bool \<Rightarrow> string" where
  "boolText b = (if b then ''true'' else ''false'')"

text \<open>One line per target; \<open>None\<close> when the role is no text (the code throws a \<open>TypeError\<close>).\<close>

definition formatTarget :: "registryNode \<Rightarrow> string option" where
  "formatTarget n =
     (let m = rnMetadata n in
      case tmRole m of
        RoleObject \<Rightarrow> None
      | RoleText r \<Rightarrow>
          (let ref = singleLine (rnRef n) 100; role = singleLine (orElseText [r, tmTag m, ''generic'']) 64;
               name = singleLine (orElseText [tmName m, case tmText m of Some t \<Rightarrow> t | None \<Rightarrow> []]) 500;
               attributes =
                 (case tmType m of Some (c # cs) \<Rightarrow> [''type='' @ quoted (singleLine (c # cs) 64)] | _ \<Rightarrow> [])
                 @ (if tmRequired m then [''required''] else [])
                 @ (case tmChecked m of Some b \<Rightarrow> [''checked='' @ boolText b] | None \<Rightarrow> [])
                 @ (if tmEnabled m = Some False then [''disabled''] else [])
                 @ (if tmEditable m = Some True then [''editable''] else [])
           in Some (ref @ '' ['' @ role @ '']'' @ (if name \<noteq> [] then '' '' @ quoted name else [])
                @ (if attributes \<noteq> [] then '' '' @ joinStr '' '' attributes else []))))"

text \<open>\<open>split(/\r?\n/)\<close>\<close>

definition dropReturn :: "string \<Rightarrow> string" where
  "dropReturn w = (if w \<noteq> [] \<and> charCode (last w) = 13 then butlast w else w)"

definition splitLines :: "string \<Rightarrow> string list" where
  "splitLines s = (let ws = splitChar (CHR 0x0A) s in map dropReturn (butlast ws) @ [last ws])"

definition compactText :: "string \<Rightarrow> string" where
  "compactText s = joinStr [CHR 0x0A] (filter (\<lambda>w. w \<noteq> []) (map (\<lambda>w. singleLine w 10000) (splitLines s)))"

definition truncateUtf8 :: "string \<Rightarrow> nat \<Rightarrow> string \<times> nat \<times> bool" where
  "truncateUtf8 s maxBytes =
     (if utf8Length s \<le> maxBytes then (s, utf8Length s, False)
      else if maxBytes = 0 then ([], 0, True)
      else (utf8Prefix maxBytes s, utf8Length (utf8Prefix maxBytes s), True))"

definition headLines :: "semanticSnapshot \<Rightarrow> string list" where
  "headLines s =
     (case seTitle s of Some (c # cs) \<Rightarrow> [''Page: '' @ singleLine (c # cs) 500] | _ \<Rightarrow> [])
     @ (case seUrl s of Some (c # cs) \<Rightarrow> [''URL: '' @ singleLine (c # cs) 2048] | _ \<Rightarrow> [])"

definition contentLines :: "semanticSnapshot \<Rightarrow> string list option" where
  "contentLines s =
     (let head = headLines s; formatted = map formatTarget (seTargets s) in
      if None \<in> set formatted then None
      else
        (let listed = map the formatted;
             top = head @ (if head \<noteq> [] \<and> seTargets s \<noteq> [] then [[]] else []) @ listed
         in Some (top @ (case seText s of
                   Some (c # cs) \<Rightarrow> (if top \<noteq> [] then [[]] else []) @ [''Text:'', compactText (c # cs)]
                 | _ \<Rightarrow> []))))"

definition snapshotMaxBytes :: "rat option \<Rightarrow> nat" where
  "snapshotMaxBytes v = nat (max 100 (min 4194304 \<lfloor>case v of None \<Rightarrow> 16000 | Some q \<Rightarrow> q\<rfloor>))"

definition addCompactSnapshotContent :: "semanticSnapshot \<Rightarrow> rat option \<Rightarrow> bool \<Rightarrow> compactSnapshot option" where
  "addCompactSnapshotContent s maxBytes isCompact =
     map_option (\<lambda>ls.
       case truncateUtf8 (joinStr [CHR 0x0A] ls) (snapshotMaxBytes maxBytes) of (content, bytes, shortened) \<Rightarrow>
         \<lparr>seGeneration = seGeneration s, sePageGeneration = sePageGeneration s, seFrameGeneration = seFrameGeneration s,
          seUrl = seUrl s, seTitle = seTitle s, seText = (if isCompact then None else seText s),
          seTextTruncated = (\<not> isCompact \<and> seTextTruncated s), seTargets = (if isCompact then [] else seTargets s),
          cpPageRevision = (case sePageGeneration s of Some n \<Rightarrow> n | None \<Rightarrow> seGeneration s),
          cpContent = content, cpContentBytes = bytes, cpCompact = isCompact, cpContentTruncated = shortened\<rparr>)
       (contentLines s)"

end
