(* ===== verification/TargetRegistry.thy ===== *)
theory TargetRegistry
  imports SemanticTargets SnapshotHistory "HOL-Library.Word"
begin

text \<open>
  The registry of opaque target references (\<open>browser/target-registry.ts\<close>): registration, expiry and
  eviction, the resolution of a reference on the live page, and the enumeration of a page.

  The page is a parameter: a state of its own that every read may change, and the reads the
  adapter offers; a read may throw.  Optional methods of a locator are there for all locators or
  for none.  The clock and the random bytes of a reference are parameters.
\<close>

section \<open>The page\<close>

record boundingBox =
  bbX :: rat
  bbY :: rat
  bbWidth :: rat
  bbHeight :: rat

type_synonym ('p, 'x) pageRead = "'p \<Rightarrow> (jsval + 'x) \<times> 'p"

record ('l, 'p) pageApi =
  paCount :: "'l \<Rightarrow> ('p, nat) pageRead"
  paNth :: "'l \<Rightarrow> nat \<Rightarrow> 'l"
  paVisible :: "('l \<Rightarrow> ('p, bool) pageRead) option"
  paEnabled :: "('l \<Rightarrow> ('p, bool) pageRead) option"
  paEditable :: "('l \<Rightarrow> ('p, bool) pageRead) option"
  paChecked :: "('l \<Rightarrow> ('p, bool) pageRead) option"
  paAttribute :: "('l \<Rightarrow> string \<Rightarrow> ('p, string option) pageRead) option"
  paInnerText :: "('l \<Rightarrow> ('p, string) pageRead) option"
  paTextContent :: "('l \<Rightarrow> ('p, string option) pageRead) option"
  paBox :: "('l \<Rightarrow> ('p, boundingBox option) pageRead) option"
  paLocator :: "string \<Rightarrow> 'l"
  paByRole :: "(string \<Rightarrow> string option \<Rightarrow> bool option \<Rightarrow> 'l) option"
  paByLabel :: "(string \<Rightarrow> bool \<Rightarrow> 'l) option"
  paByTestId :: "(string \<Rightarrow> 'l) option"
  paUrl :: "('p, string) pageRead option"
  paTitle :: "('p, string) pageRead option"

section \<open>The registry\<close>

record 'l targetRecord =
  trTarget :: jsval
  trMetadata :: targetMetadata
  trLocator :: 'l
  trGeneration :: int
  trFrameGeneration :: int
  trFrameId :: string
  trCreatedAt :: rat

record ('l, 'p) registryEnv =
  geApi :: "('l, 'p) pageApi"
  geMaxRefs :: int
  geTtlMs :: int
  geClock :: "nat \<Rightarrow> rat"
  geRandom :: "nat \<Rightarrow> 8 word list"
  geParseUrl :: "string \<Rightarrow> string option"

record ('l, 'p) registryState =
  rgRecords :: "(string, 'l targetRecord) omap"
  rgSequence :: nat
  rgGeneration :: int
  rgFrameGeneration :: int
  rgReads :: nat
  rgPage :: 'p

type_synonym ('l, 'p, 'x) registryAct = "(('l, 'p) registryState, targetFault, 'x) act"

definition registryLimit :: "rat option \<Rightarrow> int \<Rightarrow> int \<Rightarrow> int \<Rightarrow> int" where
  "registryLimit v low high fallback = max low (min high (case v of None \<Rightarrow> fallback | Some q \<Rightarrow> \<lfloor>q\<rfloor>))"

definition newRegistryEnv :: "('l, 'p) pageApi \<Rightarrow> rat option \<Rightarrow> rat option \<Rightarrow> (nat \<Rightarrow> rat) \<Rightarrow> (nat \<Rightarrow> 8 word list)
    \<Rightarrow> (string \<Rightarrow> string option) \<Rightarrow> ('l, 'p) registryEnv" where
  "newRegistryEnv api maxRefs refTtlMs time random parse =
     \<lparr>geApi = api, geMaxRefs = registryLimit maxRefs 1 10000 2000, geTtlMs = registryLimit refTtlMs 100 3600000 120000,
      geClock = time, geRandom = random, geParseUrl = parse\<rparr>"

definition newRegistry :: "int option \<Rightarrow> int option \<Rightarrow> 'p \<Rightarrow> ('l, 'p) registryState" where
  "newRegistry generation frameGeneration page =
     \<lparr>rgRecords = [], rgSequence = 0, rgGeneration = (case generation of None \<Rightarrow> 0 | Some n \<Rightarrow> n),
      rgFrameGeneration = (case frameGeneration of None \<Rightarrow> 0 | Some n \<Rightarrow> n), rgReads = 0, rgPage = page\<rparr>"

definition registryNow :: "('l, 'p) registryEnv \<Rightarrow> ('l, 'p, rat) registryAct" where
  "registryNow env = (\<lambda>g. (Inr (geClock env (rgReads g)), g\<lparr>rgReads := Suc (rgReads g)\<rparr>))"

definition withRecords ::
  "((string, 'l targetRecord) omap \<Rightarrow> (string, 'l targetRecord) omap) \<Rightarrow> ('l, 'p) registryState \<Rightarrow> ('l, 'p) registryState" where
  "withRecords f g = g\<lparr>rgRecords := f (rgRecords g)\<rparr>"

definition setGeneration :: "int \<Rightarrow> int \<Rightarrow> ('l, 'p, unit) registryAct" where
  "setGeneration generation frameGeneration =
     act_then (act_throwIf (generation < 0) (RangeError ''Generation must be a non-negative integer''))
       (act_modify (\<lambda>g. g\<lparr>rgGeneration := generation, rgFrameGeneration := frameGeneration, rgRecords := []\<rparr>))"

definition advanceGeneration :: "('l, 'p, int) registryAct" where
  "advanceGeneration =
     act_bind (act_get rgGeneration) (\<lambda>n. act_then (setGeneration (n + 1) 0) (act_get rgGeneration))"

definition invalidateRefs :: "int option \<Rightarrow> int option \<Rightarrow> ('l, 'p, unit) registryAct" where
  "invalidateRefs generation frameGeneration =
     act_modify (withRecords (\<lambda>m.
       if generation = None \<and> frameGeneration = None then []
       else filter (\<lambda>(ref, r). \<not> ((case generation of None \<Rightarrow> False | Some n \<Rightarrow> trGeneration r \<noteq> n)
                \<or> (case frameGeneration of None \<Rightarrow> False | Some n \<Rightarrow> trFrameGeneration r \<noteq> n))) m))"

definition clearRefs :: "('l, 'p, unit) registryAct" where
  "clearRefs = act_modify (withRecords (\<lambda>_. []))"

definition pruneExpired :: "('l, 'p) registryEnv \<Rightarrow> ('l, 'p, unit) registryAct" where
  "pruneExpired env =
     act_bind (registryNow env) (\<lambda>now.
       act_modify (withRecords (filter (\<lambda>(ref, r). \<not> of_int (geTtlMs env) < now - trCreatedAt r))))"

definition registrySize :: "('l, 'p) registryEnv \<Rightarrow> ('l, 'p, nat) registryAct" where
  "registrySize env = act_then (pruneExpired env) (act_get (\<lambda>g. length (rgRecords g)))"

definition getRecord :: "('l, 'p) registryEnv \<Rightarrow> string \<Rightarrow> ('l, 'p, 'l targetRecord option) registryAct" where
  "getRecord env ref = act_then (pruneExpired env) (act_get (\<lambda>g. oget (rgRecords g) ref))"

subsection \<open>Registration\<close>

definition byteHex :: "8 word \<Rightarrow> string" where
  "byteHex b = [digitChar (unat b div 16), digitChar (unat b mod 16)]"

definition opaqueReference :: "('l, 'p) registryEnv \<Rightarrow> nat \<Rightarrow> string" where
  "opaqueReference env n = ''ref_'' @ base36 n @ ''_'' @ concat (map byteHex (take 8 (geRandom env n)))"

definition evictRefs :: "('l, 'p) registryEnv \<Rightarrow> (string, 'l targetRecord) omap \<Rightarrow> (string, 'l targetRecord) omap" where
  "evictRefs env m = drop (Suc (length m) - nat (geMaxRefs env)) m"

record refContext =
  rxGeneration :: "int option"
  rxFrameGeneration :: "int option"
  rxFrameId :: "string option"

definition registerTarget ::
  "('l, 'p) registryEnv \<Rightarrow> jsval \<Rightarrow> 'l \<Rightarrow> targetMetadata \<Rightarrow> refContext \<Rightarrow> ('l, 'p, string) registryAct" where
  "registerTarget env target locator metadata context =
     act_then (act_lift (validateSemanticTarget target))
     (act_then (pruneExpired env)
     (act_then (act_modify (withRecords (evictRefs env)))
     (act_then (act_modify (\<lambda>g. g\<lparr>rgSequence := Suc (rgSequence g)\<rparr>))
     (act_bind (registryNow env) (\<lambda>now.
      act_bind (act_get (\<lambda>g. g)) (\<lambda>g.
      let ref = opaqueReference env (rgSequence g);
          frameId = (case rxFrameId context of Some f \<Rightarrow> f | None \<Rightarrow> (case tmFrameId metadata of Some f \<Rightarrow> f | None \<Rightarrow> ''main''));
          r = \<lparr>trTarget = target, trMetadata = redactControlValue (metadata\<lparr>tmFrameId := Some frameId\<rparr>),
               trLocator = locator,
               trGeneration = (case rxGeneration context of Some n \<Rightarrow> n | None \<Rightarrow> rgGeneration g),
               trFrameGeneration = (case rxFrameGeneration context of Some n \<Rightarrow> n | None \<Rightarrow> rgFrameGeneration g),
               trFrameId = frameId, trCreatedAt = now\<rparr>
      in act_then (act_modify (withRecords (oset ref r))) (act_return ref)))))))"

section \<open>Reading an element\<close>

definition onPage :: "('p, 'x) pageRead \<Rightarrow> ('l, 'p, 'x) registryAct" where
  "onPage f = (\<lambda>g. case f (rgPage g) of
     (Inl e, p) \<Rightarrow> (Inl (PageFault e), g\<lparr>rgPage := p\<rparr>)
   | (Inr x, p) \<Rightarrow> (Inr x, g\<lparr>rgPage := p\<rparr>))"

text \<open>\<open>read().catch(() => d)\<close>\<close>

definition readOr :: "'x \<Rightarrow> ('p, 'x) pageRead \<Rightarrow> ('l, 'p, 'x) registryAct" where
  "readOr d f = act_catch (onPage f) (\<lambda>_. act_return d)"

definition readAttr :: "('l, 'p) registryEnv \<Rightarrow> 'l \<Rightarrow> string \<Rightarrow> ('l, 'p, string option) registryAct" where
  "readAttr env l name = (case paAttribute (geApi env) of
     None \<Rightarrow> act_return None | Some f \<Rightarrow> readOr None (f l name))"

definition optionText :: "string option \<Rightarrow> string" where
  "optionText v = (case v of None \<Rightarrow> [] | Some s \<Rightarrow> s)"

definition readText :: "('l, 'p) registryEnv \<Rightarrow> 'l \<Rightarrow> ('l, 'p, string) registryAct" where
  "readText env l = (case paInnerText (geApi env) of
     Some f \<Rightarrow> readOr [] (f l)
   | None \<Rightarrow> (case paTextContent (geApi env) of
       Some f \<Rightarrow> act_bind (readOr None (f l)) (\<lambda>v. act_return (optionText v))
     | None \<Rightarrow> act_return []))"

definition readFlag :: "('l \<Rightarrow> ('p, bool) pageRead) option \<Rightarrow> 'l \<Rightarrow> ('l, 'p, bool option) registryAct" where
  "readFlag f l = (case f of
     None \<Rightarrow> act_return None
   | Some read \<Rightarrow> act_bind (readOr False (read l)) (\<lambda>b. act_return (Some b)))"

definition orGiven :: "string option \<Rightarrow> string option \<Rightarrow> string option" where
  "orGiven v w = (case v of Some (c # cs) \<Rightarrow> Some (c # cs) | _ \<Rightarrow> w)"

definition fallbackField :: "targetMetadata option \<Rightarrow> (targetMetadata \<Rightarrow> string option) \<Rightarrow> string option" where
  "fallbackField m f = (case m of None \<Rightarrow> None | Some x \<Rightarrow> f x)"

definition givenRole :: "roleValue \<Rightarrow> targetMetadata option \<Rightarrow> roleValue" where
  "givenRole r m = (if roleGiven r then r
     else (case m of Some x \<Rightarrow> if roleGiven (tmRole x) then tmRole x else RoleText ''generic'' | None \<Rightarrow> RoleText ''generic''))"

definition keepGiven :: "string \<Rightarrow> string option \<Rightarrow> string option" where
  "keepGiven s other = (if s \<noteq> [] then Some s else (case other of Some (c # cs) \<Rightarrow> Some (c # cs) | _ \<Rightarrow> None))"

definition readMetadata :: "('l, 'p) registryEnv \<Rightarrow> 'l \<Rightarrow> targetMetadata option \<Rightarrow> ('l, 'p, targetMetadata) registryAct" where
  "readMetadata env l fb =
     (let api = geApi env in
      act_bind (readAttr env l ''role'') (\<lambda>explicitRole.
      act_bind (readAttr env l ''type'') (\<lambda>typeAttr.
      act_bind (readAttr env l ''data-semantic-tag'') (\<lambda>tagAttr.
      act_bind (readAttr env l ''aria-label'') (\<lambda>ariaLabel.
      act_bind (if optionText explicitRole \<noteq> [] then act_return explicitRole else readAttr env l ''data-role'') (\<lambda>ariaRole.
      act_bind (readAttr env l ''placeholder'') (\<lambda>placeholder.
      act_bind (readAttr env l ''name'') (\<lambda>nameAttr.
      act_bind (readAttr env l ''title'') (\<lambda>title.
      act_bind (readAttr env l ''data-testid'') (\<lambda>testIdAttr.
      act_bind (if testIdAttr \<noteq> None then act_return testIdAttr else readAttr env l ''data-test-id'') (\<lambda>testId.
      act_bind (readText env l) (\<lambda>rawText.
      act_bind (readFlag (paVisible api) l) (\<lambda>visible.
      act_bind (readFlag (paEnabled api) l) (\<lambda>enabled.
      act_bind (readFlag (paEditable api) l) (\<lambda>editable.
      act_bind (readFlag (paChecked api) l) (\<lambda>checked.
      act_bind (readAttr env l ''required'') (\<lambda>required.
      let type = cleanName typeAttr;
          tag = orElseText [cleanName tagAttr, optionText (fallbackField fb (\<lambda>m. Some (tmTag m))), ''unknown''];
          content = cleanName (Some rawText);
          isFormControl = toLowerCase tag \<in> {''input'', ''textarea'', ''select''};
          name = cleanName (Some (orElseText
            [optionText ariaLabel, if isFormControl then [] else content, optionText (fallbackField fb (\<lambda>m. Some (tmName m))),
             optionText title, optionText placeholder, optionText nameAttr]))
      in act_return (redactControlValue
        \<lparr>tmRole = givenRole (inferRole (toLowerCase tag) (toLowerCase type) ariaRole) fb, tmName = name, tmTag = tag,
         tmType = keepGiven type (fallbackField fb tmType),
         tmTestId = (if optionText testId \<noteq> [] then Some (cleanName testId) else keepGiven [] (fallbackField fb tmTestId)),
         tmFrameId = keepGiven [] (fallbackField fb tmFrameId),
         tmVisible = visible, tmEnabled = enabled, tmEditable = editable, tmChecked = checked,
         tmRequired = (required \<noteq> None \<or> (case fb of Some m \<Rightarrow> tmRequired m | None \<Rightarrow> False)),
         tmRedacted = (case fb of Some m \<Rightarrow> tmRedacted m | None \<Rightarrow> False),
         tmText = (if content \<noteq> [] \<and> toLowerCase type \<notin> {''password'', ''hidden''} then Some (take 500 content) else None)\<rparr>))))))))))))))))))"

section \<open>Resolution\<close>

definition propText :: "jsval \<Rightarrow> string" where
  "propText v = (case v of JStr s \<Rightarrow> s | _ \<Rightarrow> [])"

definition textOption :: "jsval \<Rightarrow> string option" where
  "textOption v = (case v of JUndef \<Rightarrow> None | _ \<Rightarrow> Some (propText v))"

definition boolOption :: "jsval \<Rightarrow> bool option" where
  "boolOption v = (case v of JBool b \<Rightarrow> Some b | _ \<Rightarrow> None)"

definition viaMethod :: "'a option \<Rightarrow> string \<Rightarrow> ('a \<Rightarrow> 'l) \<Rightarrow> targetFault + 'l" where
  "viaMethod f message use = (case f of None \<Rightarrow> Inl (invalidTarget message) | Some x \<Rightarrow> Inr (use x))"

definition locatorForTarget :: "('l, 'p) pageApi \<Rightarrow> jsval \<Rightarrow> targetFault + 'l" where
  "locatorForTarget api t =
     bindR (validateSemanticTarget t) (\<lambda>_.
       if truthy (getProp t ''role'') then
         viaMethod (paByRole api) ''Role locators are unavailable on this page adapter''
           (\<lambda>f. f (propText (getProp t ''role'')) (textOption (getProp t ''name'')) (boolOption (getProp t ''exact'')))
       else if truthy (getProp t ''label'') then
         viaMethod (paByLabel api) ''Label locators are unavailable on this page adapter''
           (\<lambda>f. f (propText (getProp t ''label'')) (case boolOption (getProp t ''exact'') of Some b \<Rightarrow> b | None \<Rightarrow> True))
       else if truthy (getProp t ''testId'') then
         viaMethod (paByTestId api) ''Test-id locators are unavailable on this page adapter''
           (\<lambda>f. f (propText (getProp t ''testId'')))
       else if truthy (getProp t ''selector'') then Inr (paLocator api (propText (getProp t ''selector'')))
       else Inl (invalidTarget ''No semantic locator strategy was supplied''))"

definition notActionable :: "string \<Rightarrow> targetFault" where
  "notActionable message = TargetRegistryError TARGET_NOT_ACTIONABLE message"

text \<open>A flag of the element; an adapter without the method is taken to say yes.\<close>

definition checkFlag :: "('l \<Rightarrow> ('p, bool) pageRead) option \<Rightarrow> 'l \<Rightarrow> string \<Rightarrow> ('l, 'p, unit) registryAct" where
  "checkFlag f l message =
     act_bind (case f of None \<Rightarrow> act_return True | Some read \<Rightarrow> readOr False (read l)) (\<lambda>b.
       act_throwIf (\<not> b) (notActionable message))"

definition assertActionable ::
  "('l, 'p) registryEnv \<Rightarrow> 'l \<Rightarrow> targetMetadata option \<Rightarrow> ('l, 'p, unit) registryAct" where
  "assertActionable env l m =
     act_then (checkFlag (paVisible (geApi env)) l ''Target is not visible'')
     (act_then (checkFlag (paEnabled (geApi env)) l ''Target is disabled'')
     (act_then (case paBox (geApi env) of
          None \<Rightarrow> act_return ()
        | Some read \<Rightarrow> act_bind (readOr None (read l)) (\<lambda>box.
            act_throwIf (case box of None \<Rightarrow> True | Some b \<Rightarrow> bbWidth b \<le> 0 \<or> bbHeight b \<le> 0)
              (notActionable ''Target has no actionable bounding box'')))
       (act_throwIf (case fallbackField m tmType of Some t \<Rightarrow> toLowerCase t = ''hidden'' | None \<Rightarrow> False)
          (notActionable ''Hidden controls are not actionable''))))"

record ('l, 'p) resolveOptions =
  rvPage :: "('l, 'p) pageApi option"
  rvGeneration :: "int option"
  rvFrameGeneration :: "int option"
  rvExpected :: "expectation option"
  rvRequireActionable :: bool

record 'l targetResolution =
  tzRef :: string
  tzLocator :: 'l
  tzMetadata :: targetMetadata
  tzGeneration :: int
  tzFrameGeneration :: int
  tzFrameId :: string
  tzBox :: "boundingBox option"

definition orCurrent :: "int option \<Rightarrow> int \<Rightarrow> int" where
  "orCurrent v d = (case v of Some n \<Rightarrow> n | None \<Rightarrow> d)"

definition staleSemantics :: targetFault where
  "staleSemantics = TargetRegistryError STALE_TARGET ''Target semantics changed since the snapshot was created''"

definition countOne :: "('l, 'p) registryEnv \<Rightarrow> 'l \<Rightarrow> string \<Rightarrow> string \<Rightarrow> ('l, 'p, unit) registryAct" where
  "countOne env l missing several =
     act_bind (onPage (paCount (geApi env) l)) (\<lambda>n.
       act_then (act_throwIf (n = 0) (TargetRegistryError TARGET_NOT_FOUND missing))
         (act_throwIf (n \<noteq> 1) (TargetRegistryError TARGET_AMBIGUOUS several)))"

text \<open>The reference is known, not expired, and of the generation asked for.\<close>

definition currentRecord ::
  "('l, 'p) registryEnv \<Rightarrow> string \<Rightarrow> ('l, 'p) resolveOptions \<Rightarrow> ('l, 'p, 'l targetRecord) registryAct" where
  "currentRecord env ref opts =
     act_bind (getRecord env ref) (\<lambda>found. case found of
       None \<Rightarrow> act_throw (TargetRegistryError TARGET_NOT_FOUND ''Target reference was not found or has expired'')
     | Some r \<Rightarrow> act_bind (act_get (\<lambda>g. (rgGeneration g, rgFrameGeneration g))) (\<lambda>(generation, frameGeneration).
         act_then (act_throwIf (trGeneration r \<noteq> orCurrent (rvGeneration opts) generation
                     \<or> trFrameGeneration r \<noteq> orCurrent (rvFrameGeneration opts) frameGeneration)
                    (TargetRegistryError STALE_TARGET ''Target reference belongs to an older page generation''))
           (act_return r)))"

definition resolveTarget ::
  "('l, 'p) registryEnv \<Rightarrow> string \<Rightarrow> ('l, 'p) resolveOptions \<Rightarrow> ('l, 'p, 'l targetResolution) registryAct" where
  "resolveTarget env ref opts =
     act_bind (currentRecord env ref opts) (\<lambda>r.
     act_bind (case rvPage opts of
        None \<Rightarrow> act_return (trLocator r) | Some api \<Rightarrow> act_lift (locatorForTarget api (trTarget r))) (\<lambda>l.
     act_then (countOne env l ''Target is no longer present'' ''Target now matches multiple elements'')
     (act_bind (readMetadata env l (Some (trMetadata r))) (\<lambda>current.
      act_then (act_throwIf (\<not> metadataMatches True current (expectationOf (trMetadata r))) staleSemantics)
      (act_then (act_throwIf (case rvExpected opts of None \<Rightarrow> False | Some e \<Rightarrow> \<not> metadataMatches False current e) staleSemantics)
      (act_then (if rvRequireActionable opts then assertActionable env l (Some current) else act_return ())
      (act_bind (case paBox (geApi env) of None \<Rightarrow> act_return None | Some read \<Rightarrow> readOr None (read l)) (\<lambda>box.
       act_return \<lparr>tzRef = ref, tzLocator = l, tzMetadata = redactControlValue current,
         tzGeneration = trGeneration r, tzFrameGeneration = trFrameGeneration r, tzFrameId = trFrameId r, tzBox = box\<rparr>))))))))"

definition resolveDirect ::
  "('l, 'p) registryEnv \<Rightarrow> ('l, 'p) pageApi \<Rightarrow> jsval \<Rightarrow> bool \<Rightarrow> ('l, 'p, 'l \<times> targetMetadata) registryAct" where
  "resolveDirect env api target requireActionable =
     act_bind (act_lift (locatorForTarget api target)) (\<lambda>l.
     act_then (countOne env l ''Target is not present'' ''Target matches multiple elements'')
     (act_bind (readMetadata env l None) (\<lambda>m.
      act_then (if requireActionable then assertActionable env l (Some m) else act_return ())
        (act_return (l, redactControlValue m)))))"

section \<open>The snapshot of a page\<close>

primrec act_fold :: "('x \<Rightarrow> 'a \<Rightarrow> ('s, 'e, 'a) act) \<Rightarrow> 'x list \<Rightarrow> 'a \<Rightarrow> ('s, 'e, 'a) act" where
  "act_fold f [] a = act_return a"
| "act_fold f (x # xs) a = act_bind (f x a) (act_fold f xs)"

record buildOptions =
  boGeneration :: "int option"
  boPageGeneration :: "int option"
  boFrameGeneration :: "int option"
  boMaxNodes :: "rat option"
  boMaxChars :: "rat option"
  boIncludeText :: bool
  boFrameId :: "string option"

definition snapshotNodes :: "buildOptions \<Rightarrow> nat" where
  "snapshotNodes opts = nat (registryLimit (boMaxNodes opts) 1 2000 500)"

definition fixedSelectors :: "(string \<times> string) list" where
  "fixedSelectors =
     [(''button'', ''button''), (''a[href]'', ''a''), (''input'', ''input''), (''textarea'', ''textarea''), (''select'', ''select''),
      (''[role]:not(button):not(a[href]):not(input):not(textarea):not(select)'', ''unknown''),
      (''[contenteditable=\"true\"]:not([role])'', ''div'')]"

text \<open>The texts of the labels, by the identifier of the control they are for.\<close>

definition readLabel :: "('l, 'p) registryEnv \<Rightarrow> 'l \<Rightarrow> nat \<Rightarrow> (string, string) omap \<Rightarrow> ('l, 'p, (string, string) omap) registryAct" where
  "readLabel env labels i m =
     (let label = paNth (geApi env) labels i in
      act_bind (readAttr env label ''for'') (\<lambda>i.
      act_bind (readText env label) (\<lambda>t.
      act_return (if optionText i \<noteq> [] \<and> cleanName (Some t) \<noteq> [] then oset (optionText i) (cleanName (Some t)) m else m))))"

definition readLabels :: "('l, 'p) registryEnv \<Rightarrow> nat \<Rightarrow> ('l, 'p, (string, string) omap) registryAct" where
  "readLabels env maxNodes =
     (let labels = paLocator (geApi env) ''label[for]'' in
      act_catch (act_bind (onPage (paCount (geApi env) labels)) (\<lambda>n.
          act_fold (readLabel env labels) [0..<min n maxNodes] []))
        (\<lambda>_. act_return []))"

definition hintMetadata :: "string \<Rightarrow> targetMetadata" where
  "hintMetadata tagHint =
     \<lparr>tmRole = (if tagHint = ''unknown'' then RoleText ''generic'' else inferRole tagHint [] None), tmName = [], tmTag = tagHint,
      tmType = None, tmTestId = None, tmFrameId = None, tmVisible = None, tmEnabled = None, tmEditable = None,
      tmChecked = None, tmRequired = False, tmRedacted = False, tmText = None\<rparr>"

definition labelled :: "(string, string) omap \<Rightarrow> string option \<Rightarrow> targetMetadata \<Rightarrow> targetMetadata" where
  "labelled labels controlId m = (case controlId of
     Some (c # cs) \<Rightarrow> (case oget labels (c # cs) of Some (d # ds) \<Rightarrow> m\<lparr>tmName := d # ds\<rparr> | _ \<Rightarrow> m)
   | _ \<Rightarrow> m)"

text \<open>One match of a selector: read it, register it and add its node.\<close>

definition addElement ::
  "('l, 'p) registryEnv \<Rightarrow> buildOptions \<Rightarrow> string \<Rightarrow> (string, string) omap \<Rightarrow> 'l
    \<Rightarrow> registryNode list \<Rightarrow> ('l, 'p, registryNode list) registryAct" where
  "addElement env opts tagHint labels item nodes =
     act_bind (readMetadata env item (Some (hintMetadata tagHint))) (\<lambda>read.
     act_bind (readAttr env item ''id'') (\<lambda>controlId.
     let m = labelled labels controlId read in
     if tmName m = [] \<and> tmRole m = RoleText ''generic'' then act_return nodes
     else
       act_bind (act_get (\<lambda>g. (orCurrent (boGeneration opts) (rgGeneration g),
           orCurrent (boFrameGeneration opts) (rgFrameGeneration g)))) (\<lambda>(generation, frameGeneration).
       act_bind (registerTarget env (semanticTargetFromMetadata m) item m
           \<lparr>rxGeneration = Some generation, rxFrameGeneration = Some frameGeneration,
            rxFrameId = Some (case boFrameId opts of Some f \<Rightarrow> f | None \<Rightarrow> (case tmFrameId m of Some f \<Rightarrow> f | None \<Rightarrow> ''main''))\<rparr>)
         (\<lambda>ref. act_return (nodes @ [\<lparr>rnRef = ref, rnMetadata = redactControlValue m, rnGeneration = generation,
            rnFrameGeneration = frameGeneration\<rparr>])))))"

definition addMatch ::
  "('l, 'p) registryEnv \<Rightarrow> buildOptions \<Rightarrow> string \<Rightarrow> (string, string) omap \<Rightarrow> 'l \<Rightarrow> nat
    \<Rightarrow> registryNode list \<times> 'l list \<Rightarrow> ('l, 'p, registryNode list \<times> 'l list) registryAct" where
  "addMatch env opts tagHint labels matches i acc =
     (case acc of (nodes, seen) \<Rightarrow>
       (let item = paNth (geApi env) matches i in
        if item \<in> set seen then act_return (nodes, seen)
        else act_bind (addElement env opts tagHint labels item nodes) (\<lambda>more. act_return (more, item # seen))))"

definition addSelector ::
  "('l, 'p) registryEnv \<Rightarrow> buildOptions \<Rightarrow> (string, string) omap \<Rightarrow> string \<times> string
    \<Rightarrow> registryNode list \<times> 'l list \<Rightarrow> ('l, 'p, registryNode list \<times> 'l list) registryAct" where
  "addSelector env opts labels entry acc =
     (case entry of (selector, tagHint) \<Rightarrow>
       if snapshotNodes opts \<le> length (fst acc) then act_return acc
       else
         (let matches = paLocator (geApi env) selector in
          act_bind (onPage (paCount (geApi env) matches)) (\<lambda>n.
            act_fold (addMatch env opts tagHint labels matches) [0..<min n (snapshotNodes opts - length (fst acc))] acc)))"

text \<open>The text of the body; unreadable, there is none.\<close>

definition bodyText :: "('l, 'p) registryEnv \<Rightarrow> buildOptions \<Rightarrow> ('l, 'p, string option \<times> bool) registryAct" where
  "bodyText env opts =
     (let api = geApi env; body = paLocator api ''body'' in
      if \<not> boIncludeText opts then act_return (None, False)
      else act_catch
        (act_bind (case paInnerText api of
             Some f \<Rightarrow> onPage (f body)
           | None \<Rightarrow> (case paTextContent api of
               Some f \<Rightarrow> act_bind (onPage (f body)) (\<lambda>v. act_return (optionText v))
             | None \<Rightarrow> act_return [])) (\<lambda>raw.
           let maxChars = nat (registryLimit (boMaxChars opts) 0 100000 10000)
           in act_return (Some (take maxChars raw), maxChars < length raw)))
        (\<lambda>_. act_return (None, False)))"

definition optionalRead :: "('p, string) pageRead option \<Rightarrow> (string \<Rightarrow> string) \<Rightarrow> ('l, 'p, string option) registryAct" where
  "optionalRead f use = (case f of
     None \<Rightarrow> act_return None
   | Some read \<Rightarrow> act_catch (act_bind (onPage read) (\<lambda>v. act_return (Some (use v)))) (\<lambda>_. act_return None))"

definition sanitizePageUrl :: "('l, 'p) registryEnv \<Rightarrow> string \<Rightarrow> string" where
  "sanitizePageUrl env v = optionText (geParseUrl env v)"

definition createSemanticSnapshot :: "registryNode list \<Rightarrow> buildOptions \<Rightarrow> semanticSnapshot" where
  "createSemanticSnapshot nodes opts =
     \<lparr>seGeneration = (case boGeneration opts of Some n \<Rightarrow> n | None \<Rightarrow> (case boPageGeneration opts of Some n \<Rightarrow> n | None \<Rightarrow> 0)),
      sePageGeneration = boPageGeneration opts, seFrameGeneration = boFrameGeneration opts, seUrl = None, seTitle = None,
      seText = None, seTextTruncated = False,
      seTargets = map (\<lambda>n. n\<lparr>rnMetadata := redactControlValue (rnMetadata n)\<rparr>) (take (snapshotNodes opts) nodes)\<rparr>"

definition snapshotPage :: "('l, 'p) registryEnv \<Rightarrow> buildOptions \<Rightarrow> ('l, 'p, semanticSnapshot) registryAct" where
  "snapshotPage env opts =
     act_bind (readLabels env (snapshotNodes opts)) (\<lambda>labels.
     act_bind (act_fold (addSelector env opts labels) fixedSelectors ([], [])) (\<lambda>(nodes, seen).
     act_bind (bodyText env opts) (\<lambda>(body, shortened).
     act_bind (optionalRead (paTitle (geApi env)) (\<lambda>t. t)) (\<lambda>title.
     act_bind (act_get (\<lambda>g. orCurrent (boGeneration opts) (rgGeneration g))) (\<lambda>generation.
     let made = createSemanticSnapshot nodes
           (opts\<lparr>boGeneration := Some generation,
             boPageGeneration := Some (case boPageGeneration opts of Some n \<Rightarrow> n | None \<Rightarrow> generation)\<rparr>)
     in act_bind (optionalRead (paUrl (geApi env)) (sanitizePageUrl env)) (\<lambda>url.
       act_return (made\<lparr>seTargets := nodes, seText := body, seTextTruncated := shortened, seUrl := url,
         seTitle := map_option (take 500) title\<rparr>)))))))"

end
