(* ===== verification/TargetSpec.thy ===== *)
theory TargetSpec
  imports TargetRegistry
begin

text \<open>
  What the registry of references guarantees: a reference resolves only to the element it was
  issued for, references are never issued twice and a withdrawn one never comes back, the
  references of a fresh snapshot are registered, and the compact text of a snapshot is bounded
  and holds one line per target.
\<close>

section \<open>Actions that only read the page\<close>

definition pageOf :: "('l, 'p) registryState \<Rightarrow> ('l, 'p) registryState \<Rightarrow> bool" where
  "pageOf g h \<longleftrightarrow> (\<exists>p. h = g\<lparr>rgPage := p\<rparr>)"

lemma keeps_onPage [keep_rules]: "keeps (pageOf g) (onPage f)"
  by (auto simp: keeps_def onPage_def pageOf_def split: prod.splits sum.splits)

lemma keeps_fold [keep_rules]: "(\<And>x a. keeps P (f x a)) \<Longrightarrow> keeps P (act_fold f xs a)"
  by (induction xs arbitrary: a) (simp_all add: keep_rules)

lemma keeps_readOr [keep_rules]: "keeps (pageOf g) (readOr d f)"
  unfolding readOr_def by (intro keep_rules)

lemma keeps_readAttr [keep_rules]: "keeps (pageOf g) (readAttr env l n)"
  unfolding readAttr_def by (intro keep_rules)

lemma keeps_readText [keep_rules]: "keeps (pageOf g) (readText env l)"
  unfolding readText_def by (intro keep_rules)

lemma keeps_readFlag [keep_rules]: "keeps (pageOf g) (readFlag f l)"
  unfolding readFlag_def by (intro keep_rules)

lemma keeps_readMetadata [keep_rules]: "keeps (pageOf g) (readMetadata env l fb)"
  unfolding readMetadata_def Let_def by (intro keep_rules)

lemma keeps_checkFlag [keep_rules]: "keeps (pageOf g) (checkFlag f l message)"
  unfolding checkFlag_def by (intro keep_rules)

lemma keeps_assertActionable [keep_rules]: "keeps (pageOf g) (assertActionable env l m)"
  unfolding assertActionable_def by (intro keep_rules)

lemma keeps_countOne [keep_rules]: "keeps (pageOf g) (countOne env l a b)"
  unfolding countOne_def by (intro keep_rules)

lemma keeps_readLabels [keep_rules]: "keeps (pageOf g) (readLabels env n)"
  unfolding readLabels_def readLabel_def Let_def by (intro keep_rules)

lemma keeps_bodyText [keep_rules]: "keeps (pageOf g) (bodyText env opts)"
  unfolding bodyText_def Let_def by (intro keep_rules)

lemma keeps_optionalRead [keep_rules]: "keeps (pageOf g) (optionalRead f use)"
  unfolding optionalRead_def by (intro keep_rules)

lemma keeps_resolveDirect: "keeps (pageOf g) (resolveDirect env api target b)"
  unfolding resolveDirect_def by (intro keep_rules)

lemma pageOf_refl [simp]: "pageOf g g"
proof -
  have "g = g\<lparr>rgPage := rgPage g\<rparr>" by simp
  then show ?thesis unfolding pageOf_def by (rule exI)
qed

lemma pageOf_fields: "pageOf g h \<Longrightarrow> rgRecords h = rgRecords g \<and> rgSequence h = rgSequence g \<and> rgGeneration h = rgGeneration g
    \<and> rgFrameGeneration h = rgFrameGeneration g \<and> rgReads h = rgReads g"
  by (auto simp: pageOf_def)

lemma reads_only: "(\<And>g. keeps (pageOf g) m) \<Longrightarrow> m g = (r, h) \<Longrightarrow> pageOf g h"
  by (metis keepsD pageOf_refl)

section \<open>References\<close>

lemma digitChar_no_underscore: "digitChar k = CHR ''_'' \<Longrightarrow> k < 36 \<Longrightarrow> False"
proof -
  assume "digitChar k = CHR ''_''" and k: "k < 36"
  then have "charCode (digitChar k) = 95" by (simp add: charCode_def)
  with k show False by (auto simp: digitChar_def split: if_splits)
qed

declare base36.simps [simp del]

lemma base36_digits: "c \<in> set (base36 n) \<Longrightarrow> c \<noteq> CHR ''_''"
proof (induction n rule: base36.induct)
  case (1 n)
  have "c \<in> set (if n < 36 then [digitChar n] else base36 (n div 36) @ [digitChar (n mod 36)])"
    using 1(2) by (simp only: base36.simps [of n])
  with 1(1) show ?case by (auto split: if_splits dest: digitChar_no_underscore digitChar_no_underscore [OF sym])
qed

lemma digitChar_eq: "a < 36 \<Longrightarrow> b < 36 \<Longrightarrow> digitChar a = digitChar b \<Longrightarrow> a = b"
proof -
  assume a: "a < 36" and b: "b < 36" and "digitChar a = digitChar b"
  then have "charCode (digitChar a) = charCode (digitChar b)" by simp
  with a b show ?thesis by (auto simp: digitChar_def split: if_splits)
qed

lemma base36_not_Nil [simp]: "base36 n \<noteq> []"
  by (subst base36.simps) simp

lemma base36_inj: "base36 m = base36 n \<Longrightarrow> m = n"
proof (induction m arbitrary: n rule: base36.induct)
  case (1 m)
  show ?case
  proof (cases "m < 36 \<or> n < 36")
    case True
    with 1(2) show ?thesis
      by (subst (asm) base36.simps, subst (asm) (2) base36.simps) (auto split: if_splits dest: digitChar_eq simp: base36_not_Nil [symmetric])
  next
    case False
    then have "base36 (m div 36) = base36 (n div 36)" "digitChar (m mod 36) = digitChar (n mod 36)"
      using 1(2) by (subst (asm) base36.simps, subst (asm) (2) base36.simps, simp)+
    then have "m div 36 = n div 36" "m mod 36 = n mod 36"
      using 1(1) False by (auto intro: digitChar_eq)
    then show ?thesis by (metis div_mult_mod_eq)
  qed
qed

lemma first_part: "a @ x # s = b @ x # t \<Longrightarrow> x \<notin> set a \<Longrightarrow> x \<notin> set b \<Longrightarrow> a = b"
proof (induction a arbitrary: b)
  case Nil
  then show ?case by (cases b) auto
next
  case (Cons c cs)
  then show ?case by (cases b) auto
qed

lemma opaqueReference_inj: "opaqueReference env m = opaqueReference env n \<Longrightarrow> m = n"
proof -
  assume "opaqueReference env m = opaqueReference env n"
  then obtain x y where "base36 m @ CHR ''_'' # x = base36 n @ CHR ''_'' # y"
    by (simp add: opaqueReference_def)
  then have "base36 m = base36 n"
    using base36_digits [of _ m] base36_digits [of _ n] by (blast intro: first_part)
  then show "m = n" by (rule base36_inj)
qed

section \<open>Resolution\<close>

lemma onPage_Inr: "onPage f g = (Inr x, h) \<longleftrightarrow> (\<exists>q. f (rgPage g) = (Inr x, q) \<and> h = g\<lparr>rgPage := q\<rparr>)"
  by (auto simp: onPage_def split: prod.splits sum.splits)

lemma wp_onPage [wp_rules]:
  "wp (onPage f) Q E g = (case f (rgPage g) of (Inl e, q) \<Rightarrow> E (PageFault e) (g\<lparr>rgPage := q\<rparr>) | (Inr x, q) \<Rightarrow> Q x (g\<lparr>rgPage := q\<rparr>))"
  by (simp add: wp_def onPage_def split: prod.splits sum.splits)

text \<open>A read that may have failed: what it returned other than the default was read.\<close>

lemma wp_readOr: "(\<And>p q x. f p = (Inr x, q) \<Longrightarrow> Q x) \<Longrightarrow> Q d \<Longrightarrow> wp (readOr d f) (\<lambda>x h. Q x) E g"
  by (auto simp: readOr_def wp_rules split: prod.splits sum.splits)

definition seenOn :: "('p, 'x) pageRead \<Rightarrow> 'x \<Rightarrow> bool" where
  "seenOn f x \<longleftrightarrow> (\<exists>p q. f p = (Inr x, q))"

definition yesOn :: "('l \<Rightarrow> ('p, bool) pageRead) option \<Rightarrow> 'l \<Rightarrow> bool" where
  "yesOn f l \<longleftrightarrow> (\<forall>read. f = Some read \<longrightarrow> seenOn (read l) True)"

lemma wp_checkFlag: "wp (checkFlag f l message) (\<lambda>_ _. yesOn f l) (\<lambda>_ _. True) g"
  by (cases f) (auto simp: checkFlag_def yesOn_def seenOn_def readOr_def wp_rules split: prod.splits sum.splits)

text \<open>What an element was seen to be when it was found actionable.\<close>

definition actionable :: "('l, 'p) pageApi \<Rightarrow> 'l \<Rightarrow> targetMetadata \<Rightarrow> bool" where
  "actionable api l m \<longleftrightarrow> yesOn (paVisible api) l \<and> yesOn (paEnabled api) l
     \<and> (\<forall>read. paBox api = Some read \<longrightarrow> (\<exists>b. seenOn (read l) (Some b) \<and> 0 < bbWidth b \<and> 0 < bbHeight b))
     \<and> map_option toLowerCase (tmType m) \<noteq> Some ''hidden''"

lemma wp_pure: "(P \<Longrightarrow> wp m Q E g) \<Longrightarrow> P \<Longrightarrow> wp m (\<lambda>x h. P \<and> Q x h) E g"
  by (auto simp: wp_def split: prod.splits sum.splits)

lemma wp_actionable: "wp (assertActionable env l (Some m)) (\<lambda>_ _. actionable (geApi env) l m) (\<lambda>_ _. True) g"
  unfolding assertActionable_def
proof (intro wp_after [OF wp_checkFlag] wp_after)
  let ?size = "\<forall>read. paBox (geApi env) = Some read
      \<longrightarrow> (\<exists>b. seenOn (read l) (Some b) \<and> 0 < bbWidth b \<and> 0 < bbHeight b)"
  fix h
  show "wp (case paBox (geApi env) of None \<Rightarrow> act_return () | Some read \<Rightarrow> act_bind (readOr None (read l)) (\<lambda>box.
      act_throwIf (case box of None \<Rightarrow> True | Some b \<Rightarrow> bbWidth b \<le> 0 \<or> bbHeight b \<le> 0)
        (notActionable ''Target has no actionable bounding box''))) (\<lambda>_ _. ?size) (\<lambda>_ _. True) h"
    by (auto simp: readOr_def seenOn_def wp_rules split: option.splits prod.splits sum.splits) (metis not_le)
qed (auto simp: actionable_def fallbackField_def wp_rules split: option.splits)

lemma metadataMatches_redacted [simp]: "metadataMatches b (redactControlValue m) e = metadataMatches b m e"
  by (simp add: metadataMatches_def redactControlValue_def Let_def)

lemma actionable_redacted [simp]: "actionable api l (redactControlValue m) = actionable api l m"
  by (simp add: actionable_def redactControlValue_def Let_def)

lemma wp_countOne: "wp (countOne env l a b) (\<lambda>_ _. seenOn (paCount (geApi env) l) 1) (\<lambda>_ _. True) g"
  by (auto simp: countOne_def seenOn_def wp_rules split: prod.splits sum.splits)

definition currentFor :: "('l, 'p) registryEnv \<Rightarrow> ('l, 'p) resolveOptions \<Rightarrow> ('l, 'p) registryState \<Rightarrow> 'l targetRecord \<Rightarrow> bool" where
  "currentFor env opts g r \<longleftrightarrow> geClock env (rgReads g) - trCreatedAt r \<le> of_int (geTtlMs env)
     \<and> trGeneration r = orCurrent (rvGeneration opts) (rgGeneration g)
     \<and> trFrameGeneration r = orCurrent (rvFrameGeneration opts) (rgFrameGeneration g)"

lemma wp_currentRecord: "owf (rgRecords g) \<Longrightarrow>
  wp (currentRecord env ref opts) (\<lambda>r _. oget (rgRecords g) ref = Some r \<and> currentFor env opts g r) (\<lambda>_ _. True) g"
  unfolding currentRecord_def getRecord_def pruneExpired_def registryNow_def
  by (auto simp: wp_rules wp_def withRecords_def currentFor_def act_defs split: option.splits dest!: map_of_SomeD)

definition resolvedAs ::
  "('l, 'p) registryEnv \<Rightarrow> ('l, 'p) resolveOptions \<Rightarrow> 'l targetRecord \<Rightarrow> 'l targetResolution \<Rightarrow> bool" where
  "resolvedAs env opts r z \<longleftrightarrow>
     (case rvPage opts of None \<Rightarrow> tzLocator z = trLocator r | Some api \<Rightarrow> locatorForTarget api (trTarget r) = Inr (tzLocator z))
     \<and> seenOn (paCount (geApi env) (tzLocator z)) 1
     \<and> metadataMatches True (tzMetadata z) (expectationOf (trMetadata r))
     \<and> (\<forall>e. rvExpected opts = Some e \<longrightarrow> metadataMatches False (tzMetadata z) e)
     \<and> (rvRequireActionable opts \<longrightarrow> actionable (geApi env) (tzLocator z) (tzMetadata z))
     \<and> tzGeneration z = trGeneration r \<and> tzFrameGeneration z = trFrameGeneration r \<and> tzFrameId z = trFrameId r"

lemma wp_resolve_record:
  "wp (act_bind (case rvPage opts of None \<Rightarrow> act_return (trLocator r) | Some api \<Rightarrow> act_lift (locatorForTarget api (trTarget r))) f)
     Q (\<lambda>_ _. True) g"
  if "\<And>l h. (case rvPage opts of None \<Rightarrow> l = trLocator r | Some api \<Rightarrow> locatorForTarget api (trTarget r) = Inr l) \<Longrightarrow>
        wp (f l) Q (\<lambda>_ _. True) h"
  using that by (auto simp: wp_rules split: option.splits sum.splits)

lemma wp_guarded: "(\<not> b \<Longrightarrow> wp n Q (\<lambda>_ _. True) g) \<Longrightarrow> wp (act_then (act_throwIf b e) n) Q (\<lambda>_ _. True) g"
  by (simp add: wp_rules)

lemma wp_resolve:
  assumes "owf (rgRecords g)"
  shows "wp (resolveTarget env ref opts) (\<lambda>z _. tzRef z = ref \<and> (\<exists>r. oget (rgRecords g) ref = Some r \<and> currentFor env opts g r
      \<and> resolvedAs env opts r z)) (\<lambda>_ _. True) g"
  unfolding resolveTarget_def
proof (rule wp_next [OF wp_currentRecord [OF assms]], rule wp_resolve_record, rule wp_after [OF wp_countOne],
    rule wp_bind_any, (rule wp_guarded)+)
  fix r l m h
  assume r: "oget (rgRecords g) ref = Some r \<and> currentFor env opts g r"
    and l: "case rvPage opts of None \<Rightarrow> l = trLocator r | Some api \<Rightarrow> locatorForTarget api (trTarget r) = Inr l"
    and n: "seenOn (paCount (geApi env) l) 1"
    and m: "\<not> \<not> metadataMatches True m (expectationOf (trMetadata r))"
    and e: "\<not> (case rvExpected opts of None \<Rightarrow> False | Some e \<Rightarrow> \<not> metadataMatches False m e)"
  let ?act = "rvRequireActionable opts \<longrightarrow> actionable (geApi env) l m"
  have "wp (if rvRequireActionable opts then assertActionable env l (Some m) else act_return ()) (\<lambda>_ _. ?act) (\<lambda>_ _. True) h"
    by (simp add: wp_actionable wp_rules)
  then show "wp (act_then (if rvRequireActionable opts then assertActionable env l (Some m) else act_return ())
      (act_bind (case paBox (geApi env) of None \<Rightarrow> act_return None | Some read \<Rightarrow> readOr None (read l)) (\<lambda>box.
       act_return \<lparr>tzRef = ref, tzLocator = l, tzMetadata = redactControlValue m,
         tzGeneration = trGeneration r, tzFrameGeneration = trFrameGeneration r, tzFrameId = trFrameId r, tzBox = box\<rparr>)))
      (\<lambda>z _. tzRef z = ref \<and> (\<exists>r. oget (rgRecords g) ref = Some r \<and> currentFor env opts g r \<and> resolvedAs env opts r z))
      (\<lambda>_ _. True) h"
  proof (rule wp_after)
    fix h assume "?act"
    with r l n m e show "wp (act_bind (case paBox (geApi env) of None \<Rightarrow> act_return None | Some read \<Rightarrow> readOr None (read l)) (\<lambda>box.
       act_return \<lparr>tzRef = ref, tzLocator = l, tzMetadata = redactControlValue m,
         tzGeneration = trGeneration r, tzFrameGeneration = trFrameGeneration r, tzFrameId = trFrameId r, tzBox = box\<rparr>))
      (\<lambda>z _. tzRef z = ref \<and> (\<exists>r. oget (rgRecords g) ref = Some r \<and> currentFor env opts g r \<and> resolvedAs env opts r z))
      (\<lambda>_ _. True) h"
      by (intro wp_bind_any) (auto simp: wp_return resolvedAs_def split: option.splits)
  qed
qed

section \<open>Invariants of the registry\<close>

definition unexpired :: "('l, 'p) registryEnv \<Rightarrow> ('l, 'p) registryState \<Rightarrow> (string, 'l targetRecord) omap" where
  "unexpired env g = filter (\<lambda>(ref, r). \<not> of_int (geTtlMs env) < geClock env (rgReads g) - trCreatedAt r) (rgRecords g)"

definition newRecord ::
  "('l, 'p) registryEnv \<Rightarrow> jsval \<Rightarrow> 'l \<Rightarrow> targetMetadata \<Rightarrow> refContext \<Rightarrow> ('l, 'p) registryState \<Rightarrow> 'l targetRecord" where
  "newRecord env target locator m context g =
     (let frameId = (case rxFrameId context of Some f \<Rightarrow> f | None \<Rightarrow> (case tmFrameId m of Some f \<Rightarrow> f | None \<Rightarrow> ''main'')) in
      \<lparr>trTarget = target, trMetadata = redactControlValue (m\<lparr>tmFrameId := Some frameId\<rparr>), trLocator = locator,
       trGeneration = orCurrent (rxGeneration context) (rgGeneration g),
       trFrameGeneration = orCurrent (rxFrameGeneration context) (rgFrameGeneration g),
       trFrameId = frameId, trCreatedAt = geClock env (Suc (rgReads g))\<rparr>)"

definition pruned :: "('l, 'p) registryEnv \<Rightarrow> ('l, 'p) registryState \<Rightarrow> ('l, 'p) registryState" where
  "pruned env g = g\<lparr>rgReads := Suc (rgReads g), rgRecords := unexpired env g\<rparr>"

definition registered ::
  "('l, 'p) registryEnv \<Rightarrow> ('l, 'p) registryState \<Rightarrow> 'l targetRecord \<Rightarrow> ('l, 'p) registryState" where
  "registered env g r = g\<lparr>rgReads := Suc (Suc (rgReads g)), rgSequence := Suc (rgSequence g),
     rgRecords := oset (opaqueReference env (Suc (rgSequence g))) r (evictRefs env (unexpired env g))\<rparr>"

lemma pruneExpired_eq: "pruneExpired env g = (Inr (), pruned env g)"
  by (simp add: pruneExpired_def registryNow_def act_defs withRecords_def pruned_def unexpired_def)

lemma registerTarget_eq: "registerTarget env target locator m context g =
  (case validateSemanticTarget target of
     Inl e \<Rightarrow> (Inl e, g)
   | Inr _ \<Rightarrow> (Inr (opaqueReference env (Suc (rgSequence g))), registered env g (newRecord env target locator m context g)))"
  by (simp add: registerTarget_def act_then_def act_bind_def act_lift_def pruneExpired_eq act_modify_def act_get_def
      act_return_def registryNow_def withRecords_def registered_def newRecord_def orCurrent_def pruned_def Let_def unexpired_def
      split: sum.splits cong: option.case_cong)

text \<open>
  A predicate of the registry that the elementary steps keep is kept by every operation.
\<close>

locale registry_invariant =
  fixes env :: "('l, 'p) registryEnv" and P :: "('l, 'p) registryState \<Rightarrow> bool"
  assumes pages: "P g \<Longrightarrow> P (g\<lparr>rgPage := p\<rparr>)"
    and pruning: "P g \<Longrightarrow> P (pruned env g)"
    and dropping: "P g \<Longrightarrow> P (withRecords (filter f) g)"
    and navigation: "P g \<Longrightarrow> P (g\<lparr>rgGeneration := n, rgFrameGeneration := m, rgRecords := []\<rparr>)"
    and registration: "P g \<Longrightarrow> P (registered env g (newRecord env target locator meta context g))"
begin

lemma reading: "(\<And>g. keeps (pageOf g) m) \<Longrightarrow> keeps P m"
  unfolding keeps_def by (metis pageOf_def pageOf_refl pages)

lemma keeps_prune [keep_rules]: "keeps P (pruneExpired env)"
  by (simp add: keeps_def pruneExpired_eq pruning)

lemma keeps_getRecord [keep_rules]: "keeps P (getRecord env ref)" "keeps P (registrySize env)"
  unfolding getRecord_def registrySize_def by (intro keep_rules)+

lemma keeps_register [keep_rules]: "keeps P (registerTarget env target locator m context)"
  by (simp add: keeps_def registerTarget_eq registration split: sum.splits)

lemma keeps_setGeneration [keep_rules]: "keeps P (setGeneration a b)" "keeps P advanceGeneration"
proof -
  show *: "keeps P (setGeneration a b)" for a b
    by (auto simp: keeps_def setGeneration_def act_defs navigation)
  show "keeps P advanceGeneration"
    unfolding advanceGeneration_def by (intro keep_rules *)
qed

lemma dropping_all: "P g \<Longrightarrow> P (withRecords (\<lambda>_. []) g)"
  using dropping [of g "\<lambda>_. False"] by (simp add: withRecords_def)

lemma keeps_invalidate [keep_rules]: "keeps P (invalidateRefs a b)" "keeps P clearRefs"
proof -
  show "keeps P (invalidateRefs a b)" (is "keeps P ?m")
  proof (cases "a = None \<and> b = None")
    case True
    then have *: "?m = act_modify (withRecords (\<lambda>_. []))" by (simp add: invalidateRefs_def)
    show ?thesis unfolding * by (simp add: keeps_def act_modify_def dropping_all)
  next
    case False
    then obtain f where *: "?m = act_modify (withRecords (filter f))"
      unfolding invalidateRefs_def by (simp only: if_False)
    show ?thesis unfolding * by (simp add: keeps_def act_modify_def dropping)
  qed
  show "keeps P clearRefs"
    by (simp add: keeps_def clearRefs_def act_modify_def dropping_all)
qed

lemma keeps_resolve [keep_rules]: "keeps P (resolveTarget env ref opts)"
  unfolding resolveTarget_def currentRecord_def
  by (intro keep_rules reading)

lemma keeps_direct [keep_rules]: "keeps P (resolveDirect env api target b)"
  by (rule reading) (rule keeps_resolveDirect)

lemma keeps_addSelector [keep_rules]: "keeps P (addSelector env opts labels entry acc)"
  unfolding addSelector_def addMatch_def addElement_def Let_def
  by (intro keep_rules reading)

lemma keeps_snapshot [keep_rules]: "keeps P (snapshotPage env opts)"
  unfolding snapshotPage_def Let_def by (intro keep_rules reading)

end

text \<open>The states later calls lead to.\<close>

inductive laterRegistry :: "('l, 'p) registryEnv \<Rightarrow> ('l, 'p) registryState \<Rightarrow> ('l, 'p) registryState \<Rightarrow> bool"
  for env :: "('l, 'p) registryEnv" and g :: "('l, 'p) registryState" where
  later_start: "laterRegistry env g g"
| later_page: "laterRegistry env g h \<Longrightarrow> laterRegistry env g (h\<lparr>rgPage := p\<rparr>)"
| later_generation: "laterRegistry env g h \<Longrightarrow> setGeneration a b h = (r, k) \<Longrightarrow> laterRegistry env g k"
| later_advance: "laterRegistry env g h \<Longrightarrow> advanceGeneration h = (r, k) \<Longrightarrow> laterRegistry env g k"
| later_invalidate: "laterRegistry env g h \<Longrightarrow> invalidateRefs c d h = (r, k) \<Longrightarrow> laterRegistry env g k"
| later_clear: "laterRegistry env g h \<Longrightarrow> clearRefs h = (r, k) \<Longrightarrow> laterRegistry env g k"
| later_size: "laterRegistry env g h \<Longrightarrow> registrySize env h = (r, k) \<Longrightarrow> laterRegistry env g k"
| later_get: "laterRegistry env g h \<Longrightarrow> getRecord env ref h = (r, k) \<Longrightarrow> laterRegistry env g k"
| later_register: "laterRegistry env g h \<Longrightarrow> registerTarget env target locator m context h = (r, k) \<Longrightarrow> laterRegistry env g k"
| later_resolve: "laterRegistry env g h \<Longrightarrow> resolveTarget env ref opts h = (r, k) \<Longrightarrow> laterRegistry env g k"
| later_direct: "laterRegistry env g h \<Longrightarrow> resolveDirect env api target b h = (r, k) \<Longrightarrow> laterRegistry env g k"
| later_snapshot: "laterRegistry env g h \<Longrightarrow> snapshotPage env build h = (r, k) \<Longrightarrow> laterRegistry env g k"

context registry_invariant
begin

lemma later: "laterRegistry env g h \<Longrightarrow> P g \<Longrightarrow> P h"
  by (induction rule: laterRegistry.induct) (blast intro: pages keepsD keep_rules)+

end

definition registryOk :: "('l, 'p) registryEnv \<Rightarrow> ('l, 'p) registryState \<Rightarrow> bool" where
  "registryOk env g \<longleftrightarrow> 0 < geMaxRefs env \<and> owf (rgRecords g) \<and> length (rgRecords g) \<le> nat (geMaxRefs env)
     \<and> (\<forall>ref \<in> set (okeys (rgRecords g)). \<exists>k \<le> rgSequence g. ref = opaqueReference env k)"

text \<open>The reference with number \<open>k\<close> was issued and is not held any more.\<close>

definition withdrawn :: "('l, 'p) registryEnv \<Rightarrow> nat \<Rightarrow> ('l, 'p) registryState \<Rightarrow> bool" where
  "withdrawn env k g \<longleftrightarrow> k \<le> rgSequence g \<and> opaqueReference env k \<notin> set (okeys (rgRecords g))"

lemma okeys_unexpired: "set (okeys (unexpired env g)) \<subseteq> set (okeys (rgRecords g))"
  by (auto simp: unexpired_def)

lemma okeys_evict: "set (okeys (evictRefs env m)) \<subseteq> set (okeys m)"
  by (auto simp: evictRefs_def dest: in_set_dropD)

lemma owf_unexpired: "owf (rgRecords g) \<Longrightarrow> owf (unexpired env g)"
  by (simp add: unexpired_def distinct_map_filter)

lemma owf_evict: "owf m \<Longrightarrow> owf (evictRefs env m)"
  by (simp add: evictRefs_def drop_map [symmetric])

lemma length_unexpired: "length (unexpired env g) \<le> length (rgRecords g)"
  by (simp add: unexpired_def)

lemma okeys_registered: "set (okeys (rgRecords (registered env g r)))
    \<subseteq> insert (opaqueReference env (Suc (rgSequence g))) (set (okeys (rgRecords g)))"
  using subset_trans [OF okeys_evict [of env "unexpired env g"] okeys_unexpired [of env g]]
  by (simp add: registered_def dom_update) blast

lemma registryOk_registered:
  assumes g: "registryOk env g"
  shows "registryOk env (registered env g r)"
proof -
  have len: "length (evictRefs env (unexpired env g)) < nat (geMaxRefs env)"
    using g length_unexpired [of env g] by (auto simp: evictRefs_def registryOk_def)
  then have "length (rgRecords (registered env g r)) \<le> nat (geMaxRefs env)"
    using length_oset_le [of "opaqueReference env (Suc (rgSequence g))" r "evictRefs env (unexpired env g)"]
    by (simp add: registered_def)
  moreover have "owf (rgRecords (registered env g r))"
    using g by (simp add: registered_def registryOk_def owf_oset owf_evict owf_unexpired)
  moreover have "\<exists>k \<le> Suc (rgSequence g). ref = opaqueReference env k" if "ref \<in> set (okeys (rgRecords (registered env g r)))" for ref
    using that okeys_registered [of env g r] g unfolding registryOk_def by (blast intro: le_SucI)
  ultimately show ?thesis using g by (simp add: registryOk_def registered_def)
qed

lemma registryOk_filter: "registryOk env g \<Longrightarrow> registryOk env (withRecords (filter f) g)"
  by (auto simp: registryOk_def withRecords_def distinct_map_filter intro: le_trans [OF length_filter_le])

lemma registryOk_pruned: "registryOk env g \<Longrightarrow> registryOk env (pruned env g)"
  using registryOk_filter [of env g "\<lambda>(ref, r). \<not> of_int (geTtlMs env) < geClock env (rgReads g) - trCreatedAt r"]
  by (simp add: registryOk_def pruned_def unexpired_def withRecords_def)

lemma registryOk_elementary:
  "registryOk env g \<Longrightarrow> registryOk env (g\<lparr>rgPage := p\<rparr>)"
  "registryOk env g \<Longrightarrow> registryOk env (g\<lparr>rgGeneration := n, rgFrameGeneration := m, rgRecords := []\<rparr>)"
  by (simp_all add: registryOk_def)

interpretation ok: registry_invariant env "registryOk env" for env
  by unfold_locales (simp_all add: registryOk_pruned registryOk_filter registryOk_registered registryOk_elementary)

lemma withdrawn_pruned: "withdrawn env k g \<Longrightarrow> withdrawn env k (pruned env g)"
  using okeys_unexpired [of env g] by (auto simp: withdrawn_def pruned_def)

lemma withdrawn_registered: "withdrawn env k g \<Longrightarrow> withdrawn env k (registered env g r)"
  using okeys_registered [of env g r] opaqueReference_inj [of env k "Suc (rgSequence g)"]
  by (auto simp: withdrawn_def registered_def)

lemma withdrawn_elementary:
  "withdrawn env k g \<Longrightarrow> withdrawn env k (g\<lparr>rgPage := p\<rparr>)"
  "withdrawn env k g \<Longrightarrow> withdrawn env k (g\<lparr>rgGeneration := n, rgFrameGeneration := m, rgRecords := []\<rparr>)"
  "withdrawn env k g \<Longrightarrow> withdrawn env k (withRecords (filter f) g)"
  by (auto simp: withdrawn_def withRecords_def)

interpretation gone: registry_invariant env "withdrawn env k" for env k
  by unfold_locales (simp_all add: withdrawn_pruned withdrawn_registered withdrawn_elementary)

section \<open>The references of a snapshot\<close>

definition recorded :: "('l, 'p) registryEnv \<Rightarrow> registryNode \<Rightarrow> string \<times> 'l targetRecord \<Rightarrow> bool" where
  "recorded env n = (\<lambda>(ref, r). ref = rnRef n \<and> trGeneration r = rnGeneration n \<and> trFrameGeneration r = rnFrameGeneration n
     \<and> trTarget r = semanticTargetFromMetadata (rnMetadata n) \<and> trMetadata r = (rnMetadata n)\<lparr>tmFrameId := Some (trFrameId r)\<rparr>
     \<and> (\<exists>i. trCreatedAt r = geClock env i))"

definition listed :: "('l, 'p) registryEnv \<Rightarrow> registryNode list \<Rightarrow> ('l, 'p) registryState \<Rightarrow> bool" where
  "listed env nodes g \<longleftrightarrow> registryOk env g \<and> (\<exists>old recs. rgRecords g = old @ recs \<and> list_all2 (recorded env) nodes recs)"

text \<open>No reference expires while the clock stays within the time to live.\<close>

definition steadyClock :: "('l, 'p) registryEnv \<Rightarrow> bool" where
  "steadyClock env \<longleftrightarrow> (\<forall>i j. geClock env i - geClock env j \<le> of_int (geTtlMs env))"

lemma listed_page: "listed env nodes g \<Longrightarrow> pageOf g h \<Longrightarrow> listed env nodes h"
  using pageOf_fields [of g h] by (simp add: listed_def registryOk_def)

lemma wp_reading:
  assumes m: "\<And>g. keeps (pageOf g) m" and Q: "\<And>x h. pageOf g h \<Longrightarrow> Q x h"
  shows "wp m Q (\<lambda>_ _. True) g"
proof (rule wpI)
  fix x h assume "m g = (Inr x, h)"
  with m have "pageOf g h" by (rule reads_only)
  then show "Q x h" by (rule Q)
qed simp

lemma wp_reading_bind:
  "(\<And>g. keeps (pageOf g) m) \<Longrightarrow> listed env nodes g \<Longrightarrow> (\<And>x h. listed env nodes h \<Longrightarrow> wp (f x) Q (\<lambda>_ _. True) h) \<Longrightarrow>
    wp (act_bind m f) Q (\<lambda>_ _. True) g"
  by (simp add: wp_bind wp_reading listed_page)

lemma wp_fold:
  assumes step: "\<And>x xs a g. I (x # xs) a g \<Longrightarrow> wp (f x a) (I xs) (\<lambda>_ _. True) g"
  shows "I xs a g \<Longrightarrow> wp (act_fold f xs a) (I []) (\<lambda>_ _. True) g"
proof (induction xs arbitrary: a g)
  case Nil
  then show ?case by (simp add: wp_return)
next
  case (Cons x xs)
  show ?case
    using step [OF Cons.prems] by (auto simp: wp_bind intro: Cons.IH elim!: wp_mono)
qed

lemma redact_fields [simp]:
  "semanticTargetFromMetadata (redactControlValue m) = semanticTargetFromMetadata m"
  "redactControlValue (m\<lparr>tmFrameId := f\<rparr>) = (redactControlValue m)\<lparr>tmFrameId := f\<rparr>"
  by (auto simp: semanticTargetFromMetadata_def redactControlValue_def Let_def split: option.split list.split)

lemma listed_registered:
  assumes g: "listed env nodes g" and steady: "steadyClock env" and room: "length nodes < nat (geMaxRefs env)"
    and n: "recorded env n (opaqueReference env (Suc (rgSequence g)), r)"
  shows "listed env (nodes @ [n]) (registered env g r)"
proof -
  obtain old recs where recs: "rgRecords g = old @ recs" and all: "list_all2 (recorded env) nodes recs"
    and ok: "registryOk env g"
    using g by (auto simp: listed_def)
  define new where "new = opaqueReference env (Suc (rgSequence g))"
  let ?live = "\<lambda>(ref, r). \<not> of_int (geTtlMs env) < geClock env (rgReads g) - trCreatedAt r"
  have "?live x" if x: "x \<in> set recs" for x
  proof -
    obtain i where "i < length recs" "x = recs ! i" using x by (auto simp: in_set_conv_nth)
    then have "recorded env (nodes ! i) x" using all by (simp add: list_all2_nthD2)
    then show ?thesis using steady by (auto simp: recorded_def steadyClock_def not_less)
  qed
  then have "unexpired env g = filter ?live old @ recs"
    using recs by (simp add: unexpired_def filter_id_conv)
  moreover have "length recs < nat (geMaxRefs env)"
    using room all by (simp add: list_all2_lengthD)
  ultimately obtain kept where kept: "evictRefs env (unexpired env g) = kept @ recs"
    by (auto simp: evictRefs_def)
  have "new \<notin> set (okeys (rgRecords g))"
    using ok opaqueReference_inj [of env "Suc (rgSequence g)"] by (fastforce simp: registryOk_def new_def)
  then have "new \<notin> set (okeys (kept @ recs))"
    using subset_trans [OF okeys_evict [of env "unexpired env g"] okeys_unexpired [of env g]] unfolding kept by blast
  then have "rgRecords (registered env g r) = kept @ (recs @ [(new, r)])"
    by (simp add: registered_def kept new_def oset_fresh del: map_append)
  moreover have "list_all2 (recorded env) (nodes @ [n]) (recs @ [(new, r)])"
    using all n by (simp add: list_all2_appendI new_def)
  ultimately show ?thesis
    using registryOk_registered [OF ok] unfolding listed_def by blast
qed

lemma wp_registerTarget:
  "Q (opaqueReference env (Suc (rgSequence g))) (registered env g (newRecord env target locator m context g)) \<Longrightarrow>
    wp (registerTarget env target locator m context) Q (\<lambda>_ _. True) g"
  by (simp add: wp_def registerTarget_eq split: sum.splits)

text \<open>One element adds at most one node, and its record.\<close>

lemma wp_addElement:
  assumes g: "listed env nodes g" and steady: "steadyClock env" and room: "length nodes < nat (geMaxRefs env)"
  shows "wp (addElement env opts hint labels item nodes)
    (\<lambda>more h. listed env more h \<and> length more \<le> Suc (length nodes)) (\<lambda>_ _. True) g"
  unfolding addElement_def Let_def
proof (rule wp_reading_bind [OF keeps_readMetadata g], rule wp_reading_bind [OF keeps_readAttr], assumption)
  fix read controlId h
  assume h: "listed env nodes h"
  let ?m = "labelled labels controlId read"
  let ?gen = "orCurrent (boGeneration opts) (rgGeneration h)"
  let ?frame = "orCurrent (boFrameGeneration opts) (rgFrameGeneration h)"
  let ?cx = "\<lparr>rxGeneration = Some ?gen, rxFrameGeneration = Some ?frame, rxFrameId = Some (case boFrameId opts of Some f \<Rightarrow> f
      | None \<Rightarrow> (case tmFrameId ?m of Some f \<Rightarrow> f | None \<Rightarrow> ''main''))\<rparr>"
  let ?r = "newRecord env (semanticTargetFromMetadata ?m) item ?m ?cx h"
  let ?n = "\<lparr>rnRef = opaqueReference env (Suc (rgSequence h)), rnMetadata = redactControlValue ?m, rnGeneration = ?gen,
      rnFrameGeneration = ?frame\<rparr>"
  have "recorded env ?n (opaqueReference env (Suc (rgSequence h)), ?r)"
    by (auto simp: recorded_def newRecord_def Let_def orCurrent_def)
  with h steady room have "listed env (nodes @ [?n]) (registered env h ?r)"
    by (rule listed_registered)
  with h show "wp (if tmName ?m = [] \<and> tmRole ?m = RoleText ''generic'' then act_return nodes
     else act_bind (act_get (\<lambda>g. (orCurrent (boGeneration opts) (rgGeneration g),
           orCurrent (boFrameGeneration opts) (rgFrameGeneration g)))) (\<lambda>(generation, frameGeneration).
       act_bind (registerTarget env (semanticTargetFromMetadata ?m) item ?m
           \<lparr>rxGeneration = Some generation, rxFrameGeneration = Some frameGeneration,
            rxFrameId = Some (case boFrameId opts of Some f \<Rightarrow> f | None \<Rightarrow> (case tmFrameId ?m of Some f \<Rightarrow> f | None \<Rightarrow> ''main''))\<rparr>)
         (\<lambda>ref. act_return (nodes @ [\<lparr>rnRef = ref, rnMetadata = redactControlValue ?m, rnGeneration = generation,
            rnFrameGeneration = frameGeneration\<rparr>]))))
    (\<lambda>more h. listed env more h \<and> length more \<le> Suc (length nodes)) (\<lambda>_ _. True) h"
    by (auto simp: wp_return wp_bind wp_get intro!: wp_registerTarget)
qed

definition filling :: "('l, 'p) registryEnv \<Rightarrow> nat \<Rightarrow> 'x list \<Rightarrow> registryNode list \<times> 'l list \<Rightarrow> ('l, 'p) registryState \<Rightarrow> bool" where
  "filling env n xs acc g \<longleftrightarrow> listed env (fst acc) g \<and> length (fst acc) + length xs \<le> n"

lemma wp_addMatch:
  assumes "steadyClock env" "snapshotNodes opts \<le> nat (geMaxRefs env)" "filling env (snapshotNodes opts) (x # xs) acc g"
  shows "wp (addMatch env opts hint labels matches x acc) (filling env (snapshotNodes opts) xs) (\<lambda>_ _. True) g"
  using assms wp_addElement [of env "fst acc" g opts hint labels "paNth (geApi env) matches x"]
  by (auto simp: addMatch_def Let_def filling_def wp_return wp_bind split: prod.splits elim!: wp_mono)

lemma wp_addSelector:
  assumes steady: "steadyClock env" and room: "snapshotNodes opts \<le> nat (geMaxRefs env)"
    and g: "filling env (snapshotNodes opts) ([] :: nat list) acc g"
  shows "wp (addSelector env opts labels entry acc) (filling env (snapshotNodes opts) ([] :: nat list)) (\<lambda>_ _. True) g"
proof -
  obtain selector hint where entry: "entry = (selector, hint)" by (cases entry)
  let ?I = "filling env (snapshotNodes opts)"
  have fold: "wp (act_fold (addMatch env opts hint labels matches) xs acc) (?I ([] :: nat list)) (\<lambda>_ _. True) h"
    if "?I xs acc h" for xs matches h
    by (rule wp_fold [of ?I, OF wp_addMatch [OF steady room] that])
  show ?thesis
    using g unfolding addSelector_def entry Let_def
    by (auto simp: filling_def wp_return intro!: wp_reading_bind keeps_onPage fold)
qed

lemma wp_snapshot:
  assumes ok: "registryOk env g" and steady: "steadyClock env" and room: "snapshotNodes opts \<le> nat (geMaxRefs env)"
  shows "wp (snapshotPage env opts)
    (\<lambda>s h. listed env (seTargets s) h \<and> length (seTargets s) \<le> snapshotNodes opts) (\<lambda>_ _. True) g"
proof -
  let ?full = "\<lambda>xs :: (string \<times> string) list. filling env (snapshotNodes opts) ([] :: nat list)"
  have start: "listed env [] g"
    using ok by (auto simp: listed_def)
  have fold: "wp (act_fold (addSelector env opts labels) fixedSelectors ([], [])) (?full []) (\<lambda>_ _. True) h"
    if "listed env [] h" for labels h
    using that by (intro wp_fold [of ?full, OF wp_addSelector [OF steady room]]) (simp_all add: filling_def)
  show ?thesis
    unfolding snapshotPage_def Let_def
    apply (rule wp_reading_bind [OF keeps_readLabels start])
    apply (rule wp_continue [OF fold], assumption)
    apply (unfold split_beta filling_def, erule conjE)
    apply (rule wp_reading_bind [OF keeps_bodyText], assumption)
    apply (rule wp_reading_bind [OF keeps_optionalRead], assumption)
    apply (rule wp_reading_bind [OF keeps_get], assumption)
    apply (rule wp_reading_bind [OF keeps_optionalRead], assumption)
    apply (simp add: wp_return)
    done
qed

section \<open>What the registry guarantees\<close>

lemma registryOk_start:
  "env = newRegistryEnv api maxRefs ttl time random parse \<Longrightarrow> registryOk env (newRegistry a b p)"
  by (simp add: registryOk_def newRegistryEnv_def registryLimit_def newRegistry_def)

text \<open>A registry of the code: built by its constructor and used by any calls since.\<close>

definition usedRegistry :: "('l, 'p) registryEnv \<Rightarrow> ('l, 'p) registryState \<Rightarrow> bool" where
  "usedRegistry env g \<longleftrightarrow> (\<exists>api maxRefs ttl time random parse a b p.
     env = newRegistryEnv api maxRefs ttl time random parse \<and> laterRegistry env (newRegistry a b p) g)"

lemma usedRegistry_ok: "usedRegistry env g \<Longrightarrow> registryOk env g"
  unfolding usedRegistry_def by (blast intro: ok.later registryOk_start)


text \<open>C19. A navigation retires every reference handed out before it: whatever calls follow,
  resolving one of them fails with \<open>TARGET_NOT_FOUND\<close>, because a reference is never issued twice.\<close>

theorem navigation_retires_references:
  assumes "usedRegistry env g" and "ref \<in> set (okeys (rgRecords g))"
    and "setGeneration a b g = (Inr u, g')" and "laterRegistry env g' h"
  shows "fst (resolveTarget env ref opts h)
    = Inl (TargetRegistryError TARGET_NOT_FOUND ''Target reference was not found or has expired'')"
proof -
  obtain k where k: "k \<le> rgSequence g" "ref = opaqueReference env k"
    using usedRegistry_ok [OF assms(1)] assms(2) by (auto simp: registryOk_def)
  have "withdrawn env k g'"
    using assms(3) k(1) by (auto simp: setGeneration_def act_defs withdrawn_def split: if_splits)
  then have "withdrawn env k h" by (rule gone.later [OF assms(4)])
  then have "oget (unexpired env h) ref = None"
    using okeys_unexpired [of env h] by (auto simp: withdrawn_def k map_of_eq_None_iff)
  then show ?thesis
    by (simp add: resolveTarget_def currentRecord_def getRecord_def act_then_def act_bind_def pruneExpired_eq act_get_def
        pruned_def act_throw_def)
qed


section \<open>The compact text\<close>

definition oneLine :: "string \<Rightarrow> bool" where
  "oneLine w \<longleftrightarrow> list_all (\<lambda>c. charCode c \<noteq> 10) w"

lemma charCode_feed: "charCode c = 10 \<longleftrightarrow> c = CHR 0x0A"
proof
  assume "charCode c = 10"
  then have "char_of (of_char c :: nat) = (char_of (10 :: nat) :: char)" by (simp add: charCode_def)
  moreover have "(char_of (10 :: nat) :: char) = CHR 0x0A" by code_simp
  ultimately show "c = CHR 0x0A" by simp
qed (simp add: charCode_def)

lemma oneLine_feed: "oneLine w \<longleftrightarrow> CHR 0x0A \<notin> set w"
  by (auto simp: oneLine_def list_all_iff charCode_feed)

lemma oneLine_simps [simp]:
  "oneLine []" "oneLine (c # cs) \<longleftrightarrow> charCode c \<noteq> 10 \<and> oneLine cs" "oneLine (v @ w) \<longleftrightarrow> oneLine v \<and> oneLine w"
  by (auto simp: oneLine_def)

lemma blankRuns_set: "c \<in> set (blankRuns P b s) \<Longrightarrow> c = CHR '' '' \<or> (c \<in> set s \<and> \<not> P c)"
  by (induction P b s rule: blankRuns.induct) (auto split: if_splits)

lemma set_trim: "set (trim s) \<subseteq> set s"
  by (auto simp: trim_def dest!: set_dropWhileD)

lemma oneLine_singleLine [simp]: "oneLine (singleLine s n)"
proof -
  let ?runs = "blankRuns isSpace False (blankRuns isControl False s)"
  have blank: "charCode (CHR '' '') = 32" by (simp add: charCode_def)
  have "charCode c \<noteq> 10" if "c \<in> set ?runs" for c
  proof -
    have "c = CHR '' '' \<or> \<not> isControl c"
      using blankRuns_set [OF that] blankRuns_set [of c isControl False s] by blast
    then show ?thesis by (elim disjE) (simp_all add: blank isControl_def)
  qed
  moreover have "set (singleLine s n) \<subseteq> set ?runs"
    unfolding singleLine_def by (rule subset_trans [OF set_take_subset set_trim])
  ultimately show ?thesis unfolding oneLine_def list_all_iff by blast
qed

lemma oneLine_json [simp]: "oneLine (jsonString s)"
proof -
  have digit: "charCode (digitChar k) \<noteq> 10" if "k < 36" for k
    using that by (auto simp: digitChar_def)
  have literals: "charCode CHR ''u'' \<noteq> 10" "charCode CHR ''0'' \<noteq> 10" "charCode (CHR 0x5C) \<noteq> 10" "charCode (CHR 0x22) \<noteq> 10"
    "charCode CHR ''b'' \<noteq> 10" "charCode CHR ''t'' \<noteq> 10" "charCode CHR ''n'' \<noteq> 10" "charCode CHR ''f'' \<noteq> 10"
    "charCode CHR ''r'' \<noteq> 10"
    by (simp_all add: charCode_def)
  have "oneLine (jsonChar c)" for c
  proof -
    have "charCode c < 32 \<Longrightarrow> charCode c div 16 < 36" "charCode c mod 16 < 36" by simp_all
    then show ?thesis by (simp add: jsonChar_def Let_def literals digit)
  qed
  then have "list_all oneLine (map jsonChar s)" by (simp add: list_all_iff)
  then have "oneLine (concat (map jsonChar s))" by (induction s) simp_all
  then show ?thesis by (simp add: jsonString_def literals)
qed

lemma oneLine_join [simp]: "list_all oneLine ws \<Longrightarrow> oneLine d \<Longrightarrow> oneLine (joinStr d ws)"
  unfolding oneLine_def by (rule joinStr_all)

lemma oneLine_formatTarget:
  assumes "formatTarget n = Some w"
  shows "oneLine w"
proof -
  let ?m = "rnMetadata n"
  have "list_all oneLine (case tmType ?m of Some (c # cs) \<Rightarrow> [''type='' @ quoted (singleLine (c # cs) 64)] | _ \<Rightarrow> [])"
    by (auto simp: quoted_def charCode_def split: option.split list.split)
  moreover have "list_all oneLine (case tmChecked ?m of Some b \<Rightarrow> [''checked='' @ boolText b] | None \<Rightarrow> [])"
    by (auto simp: boolText_def charCode_def split: option.split)
  ultimately show ?thesis
    using assms by (auto simp: formatTarget_def Let_def quoted_def charCode_def split: roleValue.splits)
qed

lemma split_join_front: "list_all oneLine A \<Longrightarrow> \<exists>rest. splitChar (CHR 0x0A) (joinStr [CHR 0x0A] (A @ B)) = A @ rest"
proof (induction A)
  case Nil
  then show ?case by simp
next
  case (Cons a A)
  then have a: "CHR 0x0A \<notin> set a" by (simp add: oneLine_feed)
  show ?case
  proof (cases "A @ B")
    case Nil
    then show ?thesis using a by (simp add: splitChar_no_sep)
  next
    case (Cons v ws)
    then have "splitChar (CHR 0x0A) (joinStr [CHR 0x0A] ((a # A) @ B)) = a # splitChar (CHR 0x0A) (joinStr [CHR 0x0A] (A @ B))"
      using a by (simp add: splitChar_append_sep)
    with Cons.IH Cons.prems show ?thesis by auto
  qed
qed

lemma utf8Prefix_front: "\<exists>rest. s = utf8Prefix n s @ rest"
  by (induction s arbitrary: n) auto

definition blankLine :: "semanticSnapshot \<Rightarrow> string list" where
  "blankLine s = (if headLines s \<noteq> [] \<and> seTargets s \<noteq> [] then [[]] else [])"

lemma oneLine_head: "list_all oneLine (headLines s)"
  by (auto simp: headLines_def charCode_def split: option.split list.split)

lemma contentLines_front: "contentLines s = Some ls \<Longrightarrow>
    \<exists>rest. ls = (headLines s @ blankLine s @ map (the \<circ> formatTarget) (seTargets s)) @ rest
      \<and> list_all oneLine (headLines s @ blankLine s @ map (the \<circ> formatTarget) (seTargets s))"
proof -
  assume ls: "contentLines s = Some ls"
  then have some: "None \<notin> set (map formatTarget (seTargets s))"
    by (auto simp: contentLines_def Let_def split: if_splits)
  have "oneLine (the (formatTarget n))" if "n \<in> set (seTargets s)" for n
  proof -
    have "formatTarget n \<noteq> None" using some that by force
    then obtain w where "formatTarget n = Some w" by auto
    then show ?thesis by (simp add: oneLine_formatTarget)
  qed
  with ls some oneLine_head [of s] show ?thesis
    by (auto simp: contentLines_def Let_def blankLine_def list_all_iff comp_def)
qed

text \<open>C23. The compact text of a snapshot states its own size and keeps its byte budget, and
  nothing a page puts into a title, an address, a role, a name or a type adds a line to it: what
  is kept is the beginning of a text whose lines are the header, then one line for each target,
  then the text of the page.\<close>

theorem compact_text_one_line_per_target:
  assumes "addCompactSnapshotContent s maxBytes isCompact = Some k"
  shows "cpContentBytes k = utf8Length (cpContent k) \<and> cpContentBytes k \<le> snapshotMaxBytes maxBytes
    \<and> (\<exists>tail rest. (tail = [] \<or> cpContentTruncated k) \<and> splitChar (CHR 0x0A) (cpContent k @ tail)
        = headLines s @ blankLine s @ map (the \<circ> formatTarget) (seTargets s) @ rest)"
proof -
  obtain ls where ls: "contentLines s = Some ls" using assms by (auto simp: addCompactSnapshotContent_def)
  let ?full = "joinStr [CHR 0x0A] ls"
  let ?kept = "utf8Prefix (snapshotMaxBytes maxBytes) ?full"
  obtain rest where rest: "splitChar (CHR 0x0A) ?full
      = headLines s @ blankLine s @ map (the \<circ> formatTarget) (seTargets s) @ rest"
    using contentLines_front [OF ls] split_join_front by (metis append_assoc)
  obtain tail where tail: "?full = ?kept @ tail" using utf8Prefix_front by blast
  have max: "0 < snapshotMaxBytes maxBytes" by (simp add: snapshotMaxBytes_def)
  have k: "cpContent k = fst (truncateUtf8 ?full (snapshotMaxBytes maxBytes))"
    "cpContentBytes k = fst (snd (truncateUtf8 ?full (snapshotMaxBytes maxBytes)))"
    "cpContentTruncated k = snd (snd (truncateUtf8 ?full (snapshotMaxBytes maxBytes)))"
    using assms ls by (auto simp: addCompactSnapshotContent_def split: prod.splits)
  show ?thesis
  proof (cases "utf8Length ?full \<le> snapshotMaxBytes maxBytes")
    case True
    then show ?thesis using rest by (auto simp: k truncateUtf8_def intro!: exI [of _ "[]"])
  next
    case False
    then show ?thesis
      using rest max tail utf8Prefix_le [of "snapshotMaxBytes maxBytes" ?full]
      by (auto simp: k truncateUtf8_def intro!: exI [of _ tail])
  qed
qed

section \<open>A page with one button\<close>

definition samplePage :: "string \<Rightarrow> (nat, bool) pageApi" where
  "samplePage role =
     \<lparr>paCount = (\<lambda>l p. (Inr l, p)), paNth = (\<lambda>l i. l), paVisible = Some (\<lambda>l p. (Inr True, p)), paEnabled = None,
      paEditable = None, paChecked = None,
      paAttribute = Some (\<lambda>l name p. (Inr (if name = ''aria-label'' then Some ''Go'' else if name = ''role'' then Some role else None), p)),
      paInnerText = None, paTextContent = None, paBox = None, paLocator = (\<lambda>s. if s = ''button'' then 1 else 0),
      paByRole = None, paByLabel = None, paByTestId = None, paUrl = None, paTitle = None\<rparr>"

definition sampleRegistry :: "string \<Rightarrow> (nat, bool) registryEnv" where
  "sampleRegistry role = newRegistryEnv (samplePage role) (Some 5) None (\<lambda>_. 0) (\<lambda>_. []) (\<lambda>u. Some u)"

definition sampleStart :: "(nat, bool) registryState" where
  "sampleStart = newRegistry None None True"

definition sampleBuild :: buildOptions where
  "sampleBuild = \<lparr>boGeneration = None, boPageGeneration = None, boFrameGeneration = None, boMaxNodes = Some 3, boMaxChars = None,
     boIncludeText = False, boFrameId = None\<rparr>"

definition sampleResolve :: "(nat, bool) resolveOptions" where
  "sampleResolve = \<lparr>rvPage = None, rvGeneration = None, rvFrameGeneration = None, rvExpected = None, rvRequireActionable = True\<rparr>"

definition sampleMetadata :: targetMetadata where
  "sampleMetadata =
     \<lparr>tmRole = RoleText ''button'', tmName = ''Go'', tmTag = ''button'', tmType = None, tmTestId = None, tmFrameId = None,
      tmVisible = Some True, tmEnabled = None, tmEditable = None, tmChecked = None, tmRequired = False, tmRedacted = False,
      tmText = None\<rparr>"

definition sampleNode :: registryNode where
  "sampleNode = \<lparr>rnRef = ''ref_1_'', rnMetadata = sampleMetadata, rnGeneration = 0, rnFrameGeneration = 0\<rparr>"

definition sampleRecord :: "nat targetRecord" where
  "sampleRecord =
     \<lparr>trTarget = JObj [(''role'', JStr ''button''), (''name'', JStr ''Go''), (''exact'', JBool True)],
      trMetadata = sampleMetadata\<lparr>tmFrameId := Some ''main''\<rparr>, trLocator = 1, trGeneration = 0, trFrameGeneration = 0,
      trFrameId = ''main'', trCreatedAt = 0\<rparr>"

definition sampleSeen :: "(nat, bool) registryState" where
  "sampleSeen = sampleStart\<lparr>rgRecords := [(''ref_1_'', sampleRecord)], rgSequence := 1, rgReads := 2\<rparr>"

definition sampleSnapshot :: semanticSnapshot where
  "sampleSnapshot =
     \<lparr>seGeneration = 0, sePageGeneration = Some 0, seFrameGeneration = None, seUrl = None, seTitle = None, seText = None,
      seTextTruncated = False, seTargets = [sampleNode]\<rparr>"

lemma sample_reads:
  "readMetadata (sampleRegistry ''button'') 1 (Some (hintMetadata ''button'')) sampleStart = (Inr sampleMetadata, sampleStart)"
  "readAttr (sampleRegistry ''button'') 1 ''id'' sampleStart = (Inr None, sampleStart)"
  "readLabels (sampleRegistry ''button'') 3 sampleStart = (Inr [], sampleStart)"
  "readMetadata (sampleRegistry ''button'') 1 (Some (sampleMetadata\<lparr>tmFrameId := Some ''main''\<rparr>)) (pruned (sampleRegistry ''button'') sampleSeen)
    = (Inr (sampleMetadata\<lparr>tmFrameId := Some ''main''\<rparr>), pruned (sampleRegistry ''button'') sampleSeen)"
  by code_simp+

lemma sample_element: "addElement (sampleRegistry ''button'') sampleBuild ''button'' [] 1 [] sampleStart = (Inr [sampleNode], sampleSeen)"
proof -
  have m: "labelled [] None sampleMetadata = sampleMetadata" "redactControlValue sampleMetadata = sampleMetadata"
     "tmName sampleMetadata \<noteq> []" "validateSemanticTarget (semanticTargetFromMetadata sampleMetadata) = Inr ()"
     "orCurrent (boGeneration sampleBuild) (rgGeneration sampleStart) = 0"
     "orCurrent (boFrameGeneration sampleBuild) (rgFrameGeneration sampleStart) = 0"
     "opaqueReference (sampleRegistry ''button'') (Suc (rgSequence sampleStart)) = ''ref_1_''"
     "boFrameId sampleBuild = None" "tmFrameId sampleMetadata = None"
    by code_simp+
  have r: "registered (sampleRegistry ''button'') sampleStart (newRecord (sampleRegistry ''button'') (semanticTargetFromMetadata sampleMetadata) 1 sampleMetadata
    \<lparr>rxGeneration = Some 0, rxFrameGeneration = Some 0, rxFrameId = Some ''main''\<rparr> sampleStart) = sampleSeen"
    by code_simp
  show ?thesis
     by (simp add: addElement_def act_bind_def sample_reads m registerTarget_eq act_get_def act_return_def r sampleNode_def Let_def del: One_nat_def)
qed

lemma sample_selectors:
  "addSelector (sampleRegistry ''button'') sampleBuild [] (''button'', ''button'') ([], []) sampleStart = (Inr ([sampleNode], [1]), sampleSeen)"
  "s \<noteq> ''button'' \<Longrightarrow> addSelector (sampleRegistry ''button'') sampleBuild [] (s, hint) ([sampleNode], [1]) sampleSeen = (Inr ([sampleNode], [1]), sampleSeen)"
proof -
  have api: "paCount (geApi (sampleRegistry ''button'')) = (\<lambda>l p. (Inr l, p))" "paNth (geApi (sampleRegistry ''button'')) = (\<lambda>l i. l)"
    "paLocator (geApi (sampleRegistry ''button'')) = (\<lambda>s. if s = ''button'' then 1 else 0)"
     by (simp_all add: sampleRegistry_def newRegistryEnv_def samplePage_def)
  have n: "snapshotNodes sampleBuild = 3" "[0..<(1 :: nat)] = [0]" by code_simp+
  show "addSelector (sampleRegistry ''button'') sampleBuild [] (''button'', ''button'') ([], []) sampleStart = (Inr ([sampleNode], [1]), sampleSeen)"
    by (simp add: addSelector_def n Let_def api onPage_def act_bind_def addMatch_def sample_element act_return_def del: One_nat_def) 
  show "s \<noteq> ''button'' \<Longrightarrow> addSelector (sampleRegistry ''button'') sampleBuild [] (s, hint) ([sampleNode], [1]) sampleSeen = (Inr ([sampleNode], [1]), sampleSeen)"
    by (simp add: addSelector_def n Let_def api onPage_def act_bind_def act_return_def del: One_nat_def) 
qed

lemma sample_snapshot: "snapshotPage (sampleRegistry ''button'') sampleBuild sampleStart = (Inr sampleSnapshot, sampleSeen)"
proof -
  have n: "snapshotNodes sampleBuild = 3" by code_simp
  have rest: "bodyText (sampleRegistry ''button'') sampleBuild sampleSeen = (Inr (None, False), sampleSeen)"
    "optionalRead (paTitle (geApi (sampleRegistry ''button''))) (\<lambda>t. t) sampleSeen = (Inr None, sampleSeen)"
    "optionalRead (paUrl (geApi (sampleRegistry ''button''))) (sanitizePageUrl (sampleRegistry ''button'')) sampleSeen = (Inr None, sampleSeen)"
    by code_simp+
  show ?thesis
    by (simp add: snapshotPage_def act_bind_def sample_reads n sample_selectors rest fixedSelectors_def act_get_def act_return_def Let_def del: One_nat_def) 
    (simp add: createSemanticSnapshot_def sampleSnapshot_def orCurrent_def sampleBuild_def sampleSeen_def sampleStart_def newRegistry_def) 
qed

lemma sample_resolution:
  "\<exists>z h. resolveTarget (sampleRegistry ''button'') ''ref_1_'' sampleResolve sampleSeen = (Inr z, h)"
proof -
  let ?E = "sampleRegistry ''button''"
  have r: "currentRecord ?E ''ref_1_'' sampleResolve sampleSeen = (Inr sampleRecord, pruned ?E sampleSeen)"
    "rvPage sampleResolve = None" "trLocator sampleRecord = 1"
    "trMetadata sampleRecord = sampleMetadata\<lparr>tmFrameId := Some ''main''\<rparr>" "rvExpected sampleResolve = None"
    "metadataMatches True (sampleMetadata\<lparr>tmFrameId := Some ''main''\<rparr>) (expectationOf (sampleMetadata\<lparr>tmFrameId := Some ''main''\<rparr>))"
    "assertActionable ?E 1 (Some (sampleMetadata\<lparr>tmFrameId := Some ''main''\<rparr>)) (pruned ?E sampleSeen) = (Inr (), pruned ?E sampleSeen)"
    "rvRequireActionable sampleResolve"
    by code_simp+
  have c: "countOne ?E 1 a b (pruned ?E sampleSeen) = (Inr (), pruned ?E sampleSeen)" for a b
    by code_simp
  have "paBox (geApi ?E) = None" by (simp add: sampleRegistry_def newRegistryEnv_def samplePage_def)
  then show ?thesis
    by (simp add: resolveTarget_def act_then_def act_bind_def r c act_return_def sample_reads act_throwIf_def del: One_nat_def)
qed

lemma sample_used: "usedRegistry (sampleRegistry ''button'') sampleStart" "usedRegistry (sampleRegistry ''button'') sampleSeen"
proof -
  have "laterRegistry (sampleRegistry ''button'') (newRegistry None None True) sampleStart"
    unfolding sampleStart_def by (rule later_start)
  moreover from this have "laterRegistry (sampleRegistry ''button'') (newRegistry None None True) sampleSeen"
    using sample_snapshot by (rule later_snapshot)
  ultimately show "usedRegistry (sampleRegistry ''button'') sampleStart" "usedRegistry (sampleRegistry ''button'') sampleSeen"
    unfolding usedRegistry_def sampleRegistry_def by blast+
qed


theorem navigation_retires_references_witness:
  "\<exists>u g. setGeneration 1 0 sampleSeen = (Inr u, g) \<and> rgRecords sampleSeen \<noteq> []
    \<and> fst (resolveTarget (sampleRegistry ''button'') ''ref_1_'' sampleResolve g)
      = Inl (TargetRegistryError TARGET_NOT_FOUND ''Target reference was not found or has expired'')"
proof -
  obtain u g where g: "setGeneration 1 0 sampleSeen = (Inr u, g)"
    by (simp add: setGeneration_def act_defs)
  have ref: "''ref_1_'' \<in> set (okeys (rgRecords sampleSeen))" by (simp add: sampleSeen_def)
  show ?thesis
    using navigation_retires_references [OF sample_used(2) ref g later_start] g
    by (auto simp: sampleSeen_def)
qed


theorem compact_text_one_line_per_target_witness:
  "\<exists>k. addCompactSnapshotContent sampleSnapshot None True = Some k \<and> cpContentBytes k \<le> 16000"
proof -
  obtain k where k: "addCompactSnapshotContent sampleSnapshot None True = Some k"
    by (simp add: addCompactSnapshotContent_def contentLines_def sampleSnapshot_def sampleNode_def formatTarget_def
        sampleMetadata_def Let_def)
  have "snapshotMaxBytes None = 16000" by (simp add: snapshotMaxBytes_def)
  with compact_text_one_line_per_target [OF k] k show ?thesis by auto
qed

section \<open>What fails a whole snapshot\<close>

text \<open>
  The role of an element is taken from its attribute unbounded, and a reference for a longer
  role than a target may have is refused; the refusal is not caught, so one such element (or an
  input whose type is \<open>constructor\<close>, whose role is read off the prototype of the table) fails the
  snapshot of its page.
\<close>

lemma long_role_fails_snapshot:
  "fst (snapshotPage (sampleRegistry (replicate 201 CHR ''x'')) sampleBuild sampleStart)
    = Inl (invalidTarget ''Target text is too long or invalid'')"
  by code_simp

lemma inherited_role_is_no_target:
  "inferRole ''input'' ''constructor'' None = RoleObject"
  "validateSemanticTarget (semanticTargetFromMetadata (sampleMetadata\<lparr>tmRole := RoleObject\<rparr>))
    = Inl (invalidTarget ''A target must use exactly one semantic locator strategy'')"
  by code_simp+

end
