(* ===== verification/BrowserPool.thy ===== *)
theory BrowserPool
  imports JsonText UrlPolicy
begin

text \<open>
  The pool of browser instances of the control plane (\<open>control-plane/browser-pool.ts\<close>): managed,
  CDP and bridge instances, the sockets of bridge extensions and the calls made over them, the
  bindings of sites, and the file the pool keeps.

  Calls that wait (for the session manager or for the URL policy) leave a \<open>poolWait\<close> behind and
  are resumed by an operation of their own, so that other calls may come in between.  Sockets are
  numbers; what arrives on one is given by its size and its parsed value.  The clock, UUIDs,
  \<open>new URL\<close>, \<open>JSON.stringify\<close> of a payload, \<open>Number\<close> and \<open>String\<close> of a value, and what a write
  leaves in the file are parameters.
\<close>

section \<open>State\<close>

datatype engineKind = Firefox | Chromium
datatype instanceMode = Managed | Cdp | Bridge
datatype instanceState = INST_STOPPED | INST_STARTING | INST_READY | INST_AWAITING_BRIDGE | INST_ERROR

text \<open>\<open>biObject\<close> tells apart the objects that have held one identifier.\<close>

record browserInstance =
  biId :: string
  biObject :: nat
  biName :: string
  biEngine :: engineKind
  biMode :: instanceMode
  biState :: instanceState
  biProfileName :: "string option"
  biContextId :: "string option"
  biActiveTab :: "jsval option"
  biCdpEndpoint :: "string option"
  biNoVncPort :: "int option"
  biSessionId :: "string option"
  biBridgeConnectedAt :: "string option"
  biBridgeVersion :: "string option"
  biUserAgent :: "string option"
  biCreatedAt :: string
  biUpdatedAt :: string

record siteBinding =
  sbHost :: string
  sbBrowserId :: string
  sbCreatedAt :: string

record savedPool =
  svInstances :: "browserInstance list"
  svBindings :: "siteBinding list"

datatype poolFault = PoolError string | CauseFault jsval | InvalidUrl | NotAnObject | OutOfFuel

datatype settlement = CallResolved jsval | CallRejected jsval

text \<open>What a waiting call will do: finish a start, a stop (and a removal after it), a removal, a send.\<close>

datatype poolWait =
    WaitStart string nat
  | WaitStop string nat bool
  | WaitRemove string
  | WaitPolicy string jsval

datatype poolMessage = Hello nat string | Command nat string jsval

record poolState =
  bpInstances :: "(string, browserInstance) omap"
  bpBindings :: "(string, siteBinding) omap"
  bpSockets :: "(string, nat) omap"
  bpPending :: "(string, string) omap"
  bpListeners :: "(nat \<times> string) list"
  bpFirst :: "(nat \<times> string option) list"
  bpWaiting :: "poolWait list"
  bpSettled :: "(string \<times> settlement) list"
  bpSent :: "poolMessage list"
  bpClosed :: "nat list"
  bpApproved :: "string list"
  bpDisk :: "savedPool option"
  bpReads :: nat
  bpIds :: nat
  bpObjects :: nat
  bpWrites :: nat

record poolEnv =
  peStatePath :: bool
  pePolicy :: bool
  peClock :: "nat \<Rightarrow> string"
  peUuid :: "nat \<Rightarrow> string"
  peWrite :: "nat \<Rightarrow> savedPool \<Rightarrow> savedPool option \<Rightarrow> savedPool option"
  peParseUrl :: "string \<Rightarrow> (parsedUrl \<times> string) option"
  peJson :: "jsval \<Rightarrow> string"
  peNumber :: "jsval \<Rightarrow> jsnum"
  peText :: "jsval \<Rightarrow> string"

type_synonym 'x poolAct = "(poolState, poolFault, 'x) act"

definition fail :: "string \<Rightarrow> poolFault" where
  "fail code = PoolError code"

section \<open>Checks\<close>

definition isC1 :: "char \<Rightarrow> bool" where
  "isC1 c \<longleftrightarrow> charCode c < 32 \<or> (127 \<le> charCode c \<and> charCode c \<le> 159)"

definition safeName :: "string \<Rightarrow> poolFault + string" where
  "safeName v =
     (let normalized = trim v in
      if normalized = [] \<or> 64 < length normalized \<or> list_ex isC1 normalized then Inl (fail ''INVALID_NAME'')
      else Inr normalized)"

definition safeEndpoint :: "poolEnv \<Rightarrow> string \<Rightarrow> poolFault + string" where
  "safeEndpoint env v = (case peParseUrl env v of
       None \<Rightarrow> Inl InvalidUrl
     | Some (u, text) \<Rightarrow>
         if uProtocol u \<notin> {''http:'', ''https:'', ''ws:'', ''wss:''} \<or> uUsername u \<noteq> [] \<or> uPassword u \<noteq> []
         then Inl (fail ''INVALID_CDP_ENDPOINT'') else Inr text)"

definition isHostChar :: "char \<Rightarrow> bool" where
  "isHostChar c \<longleftrightarrow> isLower c \<or> isDigit c \<or> c = CHR ''-''"

definition bindingHost :: "string \<Rightarrow> poolFault + string" where
  "bindingHost v =
     (let low = toLowerCase (trim v);
          host = (if low \<noteq> [] \<and> last low = CHR ''.'' then butlast low else low)
      in if \<not> list_all (\<lambda>w. w \<noteq> [] \<and> list_all isHostChar w) (splitChar CHR ''.'' host) \<or> 253 < length host
         then Inl (fail ''INVALID_HOST'') else Inr host)"

definition boundedPort :: "jsnum \<Rightarrow> poolFault + int" where
  "boundedPort v =
     (if \<not> numberIsInteger (JNum v) \<or> numOf (JNum v) < 1 \<or> 65535 < numOf (JNum v)
      then Inl (fail ''INVALID_PORT'') else Inr \<lfloor>numOf (JNum v)\<rfloor>)"

text \<open>\<open>/^\d+\.\d+\.\d+(?:[-+][A-Za-z0-9.-]+)?$/\<close>\<close>

definition afterDigits :: "string \<Rightarrow> string option" where
  "afterDigits s = (if s \<noteq> [] \<and> isDigit (hd s) then Some (dropWhile isDigit s) else None)"

definition afterDot :: "string \<Rightarrow> string option" where
  "afterDot s = (case s of CHR ''.'' # rest \<Rightarrow> Some rest | _ \<Rightarrow> None)"

definition isVersion :: "string \<Rightarrow> bool" where
  "isVersion s = (case Option.bind (afterDigits s) (\<lambda>a. Option.bind (afterDot a) (\<lambda>b. Option.bind (afterDigits b) (\<lambda>c.
       Option.bind (afterDot c) afterDigits))) of
     None \<Rightarrow> False
   | Some [] \<Rightarrow> True
   | Some (c # rest) \<Rightarrow> c \<in> {CHR ''-'', CHR ''+''} \<and> rest \<noteq> []
       \<and> list_all (\<lambda>d. isAlnum d \<or> d = CHR ''.'' \<or> d = CHR ''-'') rest)"

definition BRIDGE_OPERATIONS :: "string list" where
  "BRIDGE_OPERATIONS = [''navigate'', ''click'', ''input'', ''select'', ''scroll'', ''snapshot'', ''screenshot'',
     ''tabs.list'', ''tabs.create'', ''tabs.switch'', ''tabs.close'', ''bind.current'']"

definition DENIED_WORDS :: "string list" where
  "DENIED_WORDS = [''script'', ''evaluate'', ''cookie'', ''credential'', ''token'', ''raw'', ''protocol'', ''header'',
     ''upload'', ''download'', ''request'']"

definition deniedField :: "string \<Rightarrow> bool" where
  "deniedField key \<longleftrightarrow> list_ex (includesStr (toLowerCase key)) DENIED_WORDS"

definition keysOf :: "jsval \<Rightarrow> string list" where
  "keysOf v = (case v of JObj ps \<Rightarrow> map fst ps | _ \<Rightarrow> [])"

definition validateBridgePayload :: "poolEnv \<Rightarrow> jsval \<Rightarrow> poolFault + unit" where
  "validateBridgePayload env payload =
     bindR (guardR (case getProp payload ''op'' of JStr op \<Rightarrow> op \<notin> set BRIDGE_OPERATIONS | _ \<Rightarrow> True)
              (fail ''BRIDGE_OPERATION_DENIED'')) (\<lambda>_.
     bindR (guardR (16 < length (keysOf payload) \<or> 65536 < int (length (peJson env payload))) (fail ''BRIDGE_PAYLOAD_TOO_LARGE'')) (\<lambda>_.
     guardR (list_ex deniedField (keysOf payload)) (fail ''BRIDGE_FIELD_DENIED'')))"

section \<open>Reading and writing\<close>

definition poolNow :: "poolEnv \<Rightarrow> string poolAct" where
  "poolNow env = (\<lambda>g. (Inr (peClock env (bpReads g)), g\<lparr>bpReads := Suc (bpReads g)\<rparr>))"

definition newUuid :: "poolEnv \<Rightarrow> string poolAct" where
  "newUuid env = (\<lambda>g. (Inr (filter (\<lambda>c. c \<noteq> CHR ''-'') (peUuid env (bpIds g))), g\<lparr>bpIds := Suc (bpIds g)\<rparr>))"

definition newObject :: "nat poolAct" where
  "newObject = (\<lambda>g. (Inr (bpObjects g), g\<lparr>bpObjects := Suc (bpObjects g)\<rparr>))"

definition savedState :: "poolState \<Rightarrow> savedPool" where
  "savedState g = \<lparr>svInstances = map snd (bpInstances g), svBindings = map snd (bpBindings g)\<rparr>"

definition persist :: "poolEnv \<Rightarrow> unit poolAct" where
  "persist env = act_modify (\<lambda>g.
     if peStatePath env
     then g\<lparr>bpDisk := peWrite env (bpWrites g) (savedState g) (bpDisk g), bpWrites := Suc (bpWrites g)\<rparr> else g)"

definition requireInstance :: "string \<Rightarrow> browserInstance poolAct" where
  "requireInstance ident =
     act_bind (act_get (\<lambda>g. oget (bpInstances g) ident)) (\<lambda>found. case found of
       None \<Rightarrow> act_throw (fail ''BROWSER_INSTANCE_NOT_FOUND'') | Some i \<Rightarrow> act_return i)"

text \<open>A write to the object of an instance; it is seen in the map while the map holds that object.\<close>

definition changeObject ::
  "string \<Rightarrow> nat \<Rightarrow> (browserInstance \<Rightarrow> browserInstance) \<Rightarrow> unit poolAct" where
  "changeObject ident object f = act_modify (\<lambda>g. case oget (bpInstances g) ident of
     Some i \<Rightarrow> if biObject i = object then g\<lparr>bpInstances := oset ident (f i) (bpInstances g)\<rparr> else g
   | None \<Rightarrow> g)"

definition updateInstance ::
  "poolEnv \<Rightarrow> string \<Rightarrow> nat \<Rightarrow> (browserInstance \<Rightarrow> browserInstance) \<Rightarrow> unit poolAct" where
  "updateInstance env ident object f =
     act_bind (poolNow env) (\<lambda>now.
       act_then (changeObject ident object (\<lambda>i. (f i)\<lparr>biUpdatedAt := now\<rparr>)) (persist env))"

definition waitFor :: "poolWait \<Rightarrow> unit poolAct" where
  "waitFor w = act_modify (\<lambda>g. g\<lparr>bpWaiting := bpWaiting g @ [w]\<rparr>)"

definition idleState :: "instanceMode \<Rightarrow> instanceState" where
  "idleState m = (if m = Bridge then INST_AWAITING_BRIDGE else INST_STOPPED)"

section \<open>Instances\<close>

record addInput =
  aiName :: string
  aiEngine :: "engineKind option"
  aiMode :: "instanceMode option"
  aiProfileName :: "string option"
  aiCdpEndpoint :: "string option"
  aiNoVncPort :: "jsnum option"
  aiStart :: bool

text \<open>\<open>...(v ? { field: f(v) } : {})\<close>\<close>

definition whenGiven :: "string option \<Rightarrow> (string \<Rightarrow> poolFault + string) \<Rightarrow> poolFault + string option" where
  "whenGiven v f = (case v of Some (c # cs) \<Rightarrow> bindR (f (c # cs)) (\<lambda>x. Inr (Some x)) | _ \<Rightarrow> Inr None)"

definition portOption :: "jsnum option \<Rightarrow> poolFault + int option" where
  "portOption v = (case v of None \<Rightarrow> Inr None | Some n \<Rightarrow> bindR (boundedPort n) (\<lambda>p. Inr (Some p)))"

definition givenText :: "string option \<Rightarrow> bool" where
  "givenText v \<longleftrightarrow> (case v of Some (c # cs) \<Rightarrow> True | _ \<Rightarrow> False)"

definition nameTaken :: "(string, browserInstance) omap \<Rightarrow> string \<Rightarrow> bool" where
  "nameTaken m name \<longleftrightarrow> list_ex (\<lambda>(ident, i). biName i = name) m"

definition startInstance :: "poolEnv \<Rightarrow> string \<Rightarrow> unit poolAct" where
  "startInstance env ident =
     act_bind (requireInstance ident) (\<lambda>i.
       if biMode i = Bridge then updateInstance env ident (biObject i) (biState_update (\<lambda>_. INST_AWAITING_BRIDGE))
       else act_then (updateInstance env ident (biObject i) (biState_update (\<lambda>_. INST_STARTING)))
              (waitFor (WaitStart ident (biObject i))))"

text \<open>The session manager answered.\<close>

definition finishStart :: "poolEnv \<Rightarrow> string \<Rightarrow> nat \<Rightarrow> jsval + string \<Rightarrow> unit poolAct" where
  "finishStart env ident object answer = (case answer of
     Inl e \<Rightarrow> act_then (updateInstance env ident object (biState_update (\<lambda>_. INST_ERROR))) (act_throw (CauseFault e))
   | Inr sessionId \<Rightarrow>
       act_then (updateInstance env ident object (\<lambda>i. i\<lparr>biState := INST_READY, biSessionId := Some sessionId\<rparr>))
         (act_bind (requireInstance ident) (\<lambda>_. act_return ())))"

definition newInstance :: "poolEnv \<Rightarrow> addInput \<Rightarrow> string \<Rightarrow> engineKind \<Rightarrow> instanceMode \<Rightarrow> browserInstance poolAct" where
  "newInstance env input name engine mode =
     act_bind (poolNow env) (\<lambda>now.
     act_bind (newUuid env) (\<lambda>uuid.
     act_bind (act_lift (whenGiven (aiProfileName input) safeName)) (\<lambda>profile.
     act_bind (act_lift (whenGiven (aiCdpEndpoint input) (safeEndpoint env))) (\<lambda>endpoint.
     act_bind (act_lift (portOption (aiNoVncPort input))) (\<lambda>port.
     act_bind newObject (\<lambda>object.
     act_return \<lparr>biId = ''brw_'' @ uuid, biObject = object, biName = name, biEngine = engine, biMode = mode,
       biState = idleState mode, biProfileName = profile, biContextId = None, biActiveTab = None, biCdpEndpoint = endpoint,
       biNoVncPort = port, biSessionId = None, biBridgeConnectedAt = None, biBridgeVersion = None, biUserAgent = None,
       biCreatedAt = now, biUpdatedAt = now\<rparr>))))))"

definition setInstance :: "browserInstance \<Rightarrow> unit poolAct" where
  "setInstance i = act_modify (\<lambda>g. g\<lparr>bpInstances := oset (biId i) i (bpInstances g)\<rparr>)"

definition addInstance :: "poolEnv \<Rightarrow> addInput \<Rightarrow> string poolAct" where
  "addInstance env input =
     act_bind (act_lift (safeName (aiName input))) (\<lambda>name.
     act_bind (act_get (\<lambda>g. nameTaken (bpInstances g) name)) (\<lambda>taken.
     act_then (act_throwIf taken (fail ''BROWSER_INSTANCE_EXISTS''))
     (let engine = (case aiEngine input of None \<Rightarrow> Chromium | Some e \<Rightarrow> e);
          mode = (case aiMode input of None \<Rightarrow> Managed | Some m \<Rightarrow> m)
      in act_then (act_throwIf (mode = Cdp \<and> \<not> givenText (aiCdpEndpoint input)) (fail ''CDP_ENDPOINT_REQUIRED''))
        (act_then (act_throwIf (mode = Cdp \<and> engine \<noteq> Chromium) (fail ''CDP_REQUIRES_CHROMIUM''))
        (act_bind (newInstance env input name engine mode) (\<lambda>i.
           act_then (setInstance i)
           (act_then (persist env)
           (act_then (if aiStart input \<and> mode \<noteq> Bridge then startInstance env (biId i) else act_return ())
             (act_return (biId i))))))))))"

text \<open>\<open>undefined\<close>, \<open>null\<close> or a value\<close>

datatype 'a patch = Keep | Clear | Put 'a

record configureInput =
  ciName :: "string option"
  ciEngine :: "engineKind option"
  ciMode :: "instanceMode option"
  ciProfileName :: "string patch"
  ciCdpEndpoint :: "string patch"
  ciNoVncPort :: "jsnum patch"

definition patchedEndpoint :: "poolEnv \<Rightarrow> configureInput \<Rightarrow> browserInstance \<Rightarrow> poolFault + string option" where
  "patchedEndpoint env input i = (case ciCdpEndpoint input of
     Clear \<Rightarrow> Inr None
   | Put (c # cs) \<Rightarrow> bindR (safeEndpoint env (c # cs)) (\<lambda>x. Inr (Some x))
   | _ \<Rightarrow> Inr (biCdpEndpoint i))"

definition renameTo :: "string \<Rightarrow> string option \<Rightarrow> (string \<Rightarrow> unit poolAct) \<Rightarrow> unit poolAct" where
  "renameTo ident v put = (case v of
     None \<Rightarrow> act_return ()
   | Some raw \<Rightarrow>
       act_bind (act_lift (safeName raw)) (\<lambda>name.
       act_bind (act_get (\<lambda>g. list_ex (\<lambda>(k, i). biId i \<noteq> ident \<and> biName i = name) (bpInstances g))) (\<lambda>taken.
       act_then (act_throwIf taken (fail ''BROWSER_INSTANCE_EXISTS'')) (put name))))"

definition configureInstance :: "poolEnv \<Rightarrow> string \<Rightarrow> configureInput \<Rightarrow> unit poolAct" where
  "configureInstance env ident input =
     act_bind (requireInstance ident) (\<lambda>i.
     let mode = (case ciMode input of None \<Rightarrow> biMode i | Some m \<Rightarrow> m);
         engine = (case ciEngine input of None \<Rightarrow> biEngine i | Some e \<Rightarrow> e);
         change = changeObject ident (biObject i)
     in act_then (act_throwIf (biState i \<in> {INST_STARTING, INST_READY}) (fail ''BROWSER_INSTANCE_BUSY''))
     (act_bind (act_lift (patchedEndpoint env input i)) (\<lambda>endpoint.
      act_then (act_throwIf (mode = Cdp \<and> \<not> givenText endpoint) (fail ''CDP_ENDPOINT_REQUIRED''))
      (act_then (act_throwIf (mode = Cdp \<and> engine \<noteq> Chromium) (fail ''CDP_REQUIRES_CHROMIUM''))
      (act_then (renameTo ident (ciName input) (\<lambda>name. change (biName_update (\<lambda>_. name))))
      (act_then (change (\<lambda>i. i\<lparr>biEngine := engine, biMode := mode\<rparr>))
      (act_then (case ciProfileName input of
           Clear \<Rightarrow> change (biProfileName_update (\<lambda>_. None))
         | Keep \<Rightarrow> act_return ()
         | Put raw \<Rightarrow> act_bind (act_lift (safeName raw)) (\<lambda>p. change (biProfileName_update (\<lambda>_. Some p))))
      (act_then (change (biCdpEndpoint_update (\<lambda>_. if givenText endpoint then endpoint else None)))
      (act_then (case ciNoVncPort input of
           Clear \<Rightarrow> change (biNoVncPort_update (\<lambda>_. None))
         | Keep \<Rightarrow> act_return ()
         | Put n \<Rightarrow> act_bind (act_lift (boundedPort n)) (\<lambda>p. change (biNoVncPort_update (\<lambda>_. Some p))))
      (act_then (change (\<lambda>i. i\<lparr>biState := idleState mode, biSessionId := None\<rparr>))
        (persist env)))))))))))"

section \<open>Stopping and removing\<close>

definition rejectBridgeCalls :: "string \<Rightarrow> string \<Rightarrow> unit poolAct" where
  "rejectBridgeCalls ident code = act_modify (\<lambda>g. g\<lparr>
     bpSettled := bpSettled g @ map (\<lambda>(request, b). (request, CallRejected (JStr code))) (filter (\<lambda>(request, b). b = ident) (bpPending g)),
     bpPending := filter (\<lambda>(request, b). b \<noteq> ident) (bpPending g)\<rparr>)"

definition closeSocket :: "string \<Rightarrow> unit poolAct" where
  "closeSocket ident = act_modify (\<lambda>g. case oget (bpSockets g) ident of
     None \<Rightarrow> g | Some s \<Rightarrow> g\<lparr>bpClosed := bpClosed g @ [s]\<rparr>)"

definition finishStop :: "poolEnv \<Rightarrow> string \<Rightarrow> nat \<Rightarrow> unit poolAct" where
  "finishStop env ident object =
     act_then (closeSocket ident)
     (act_then (act_modify (\<lambda>g. g\<lparr>bpSockets := odelete ident (bpSockets g)\<rparr>))
     (act_then (rejectBridgeCalls ident ''BRIDGE_STOPPED'')
       (updateInstance env ident object (\<lambda>i. i\<lparr>biSessionId := None, biState := idleState (biMode i)\<rparr>))))"

definition stopInstance :: "poolEnv \<Rightarrow> string \<Rightarrow> unit poolAct" where
  "stopInstance env ident =
     act_bind (requireInstance ident) (\<lambda>i.
       if givenText (biSessionId i) then waitFor (WaitStop ident (biObject i) False) else finishStop env ident (biObject i))"

text \<open>A removal stops the instance first and then takes it out whether that worked or not.\<close>

definition removeInstance :: "poolEnv \<Rightarrow> string \<Rightarrow> unit poolAct" where
  "removeInstance env ident =
     act_bind (requireInstance ident) (\<lambda>i.
       if givenText (biSessionId i) then waitFor (WaitStop ident (biObject i) True)
       else act_then (finishStop env ident (biObject i)) (waitFor (WaitRemove ident)))"

definition managerStopped :: "poolEnv \<Rightarrow> string \<Rightarrow> nat \<Rightarrow> bool \<Rightarrow> jsval + unit \<Rightarrow> unit poolAct" where
  "managerStopped env ident object removing answer =
     act_then (case answer of
         Inr u \<Rightarrow> finishStop env ident object
       | Inl e \<Rightarrow> if removing then act_return () else act_throw (CauseFault e))
       (if removing then waitFor (WaitRemove ident) else act_return ())"

definition finishRemove :: "poolEnv \<Rightarrow> string \<Rightarrow> unit poolAct" where
  "finishRemove env ident =
     act_then (act_modify (\<lambda>g. g\<lparr>bpBindings := filter (\<lambda>(host, b). sbBrowserId b \<noteq> ident) (bpBindings g),
         bpInstances := odelete ident (bpInstances g)\<rparr>))
       (persist env)"

section \<open>Bridges\<close>

definition adoptSocket :: "string \<Rightarrow> nat \<Rightarrow> unit poolAct" where
  "adoptSocket ident s =
     act_then (closeSocket ident) (act_modify (\<lambda>g. g\<lparr>bpSockets := oset ident s (bpSockets g)\<rparr>))"

definition listenTo :: "string \<Rightarrow> nat \<Rightarrow> unit poolAct" where
  "listenTo ident s = act_modify (\<lambda>g. g\<lparr>bpListeners := bpListeners g @ [(s, ident)], bpSent := bpSent g @ [Hello s ident]\<rparr>)"

definition attachBridge :: "poolEnv \<Rightarrow> string \<Rightarrow> nat \<Rightarrow> unit poolAct" where
  "attachBridge env ident s =
     act_bind (requireInstance ident) (\<lambda>i.
     act_then (act_throwIf (biMode i \<noteq> Bridge) (fail ''BROWSER_NOT_IN_BRIDGE_MODE''))
     (act_then (adoptSocket ident s)
     (act_bind (poolNow env) (\<lambda>connected.
      act_then (updateInstance env ident (biObject i) (\<lambda>i. i\<lparr>biState := INST_READY, biBridgeConnectedAt := Some connected\<rparr>))
        (listenTo ident s)))))"

definition attachOrAutoRegisterBridge :: "poolEnv \<Rightarrow> nat \<Rightarrow> string option \<Rightarrow> unit poolAct" where
  "attachOrAutoRegisterBridge env s specified =
     act_bind (act_get (\<lambda>g. givenText specified \<and> oget (bpInstances g) (the specified) \<noteq> None)) (\<lambda>known.
       if known then attachBridge env (the specified) s
       else act_modify (\<lambda>g. g\<lparr>bpFirst := bpFirst g @ [(s, specified)]\<rparr>))"

definition trimmedText :: "jsval \<Rightarrow> string option" where
  "trimmedText v = (case v of JStr s \<Rightarrow> (if trim s \<noteq> [] then Some (trim s) else None) | _ \<Rightarrow> None)"

definition versionText :: "jsval \<Rightarrow> string option" where
  "versionText v = (case v of JStr s \<Rightarrow> (if isVersion s then Some s else None) | _ \<Rightarrow> None)"

definition agentText :: "jsval \<Rightarrow> string option" where
  "agentText v = (case v of JStr s \<Rightarrow> Some (take 500 s) | _ \<Rightarrow> None)"

definition tabValue :: "jsval \<Rightarrow> jsval option" where
  "tabValue v = (case v of JObj ps \<Rightarrow> Some v | JArr xs \<Rightarrow> Some v | _ \<Rightarrow> None)"

definition isIdChar :: "char \<Rightarrow> bool" where
  "isIdChar c \<longleftrightarrow> isAlnum c \<or> c = CHR ''_'' \<or> c = CHR ''-''"

text \<open>The loops that make an identifier and a name unique; the fuel is the number of instances plus one.\<close>

fun uniqueId :: "nat \<Rightarrow> (string \<Rightarrow> bool) \<Rightarrow> string \<Rightarrow> nat \<Rightarrow> string \<Rightarrow> string option" where
  "uniqueId 0 taken raw counter current = None"
| "uniqueId (Suc n) taken raw counter current =
     (if taken current then uniqueId n taken raw (Suc counter) (raw @ ''_'' @ showDec counter) else Some current)"

fun uniqueName :: "nat \<Rightarrow> (string \<Rightarrow> bool) \<Rightarrow> string \<Rightarrow> nat \<Rightarrow> string \<Rightarrow> poolFault + string" where
  "uniqueName 0 taken base counter current = Inl OutOfFuel"
| "uniqueName (Suc n) taken base counter current =
     (if taken current
      then bindR (safeName (base @ ''-'' @ showDec counter)) (uniqueName n taken base (Suc counter))
      else Inr current)"

definition freshId :: "poolState \<Rightarrow> string \<Rightarrow> poolFault + string" where
  "freshId g raw = (case uniqueId (Suc (length (bpInstances g))) (\<lambda>k. oget (bpInstances g) k \<noteq> None) raw 1 raw of
     None \<Rightarrow> Inl OutOfFuel | Some k \<Rightarrow> Inr k)"

definition freshName :: "poolState \<Rightarrow> string \<Rightarrow> poolFault + string" where
  "freshName g base =
     bindR (safeName base) (uniqueName (Suc (length (bpInstances g))) (nameTaken (bpInstances g)) base 1)"

definition rawId :: "poolEnv \<Rightarrow> string option \<Rightarrow> string option \<Rightarrow> string poolAct" where
  "rawId env specified contextId =
     (if givenText specified then act_return (the specified)
      else (case contextId of
          Some c \<Rightarrow> act_return (''brw_'' @ take 16 (filter isIdChar c))
        | None \<Rightarrow> act_bind (newUuid env) (\<lambda>uuid. act_return (''brw_'' @ take 12 uuid))))"

definition baseName :: "string option \<Rightarrow> string option \<Rightarrow> string \<Rightarrow> string" where
  "baseName profileName contextId ident =
     (case profileName of Some p \<Rightarrow> p
      | None \<Rightarrow> (case contextId of Some c \<Rightarrow> ''Chrome ('' @ c @ '')''
          | None \<Rightarrow> ''Chrome ('' @ drop (length ident - 4) ident @ '')''))"

definition bridgeInstance :: "poolEnv \<Rightarrow> string option \<Rightarrow> jsval \<Rightarrow> string \<Rightarrow> string poolAct" where
  "bridgeInstance env specified message now =
     (let contextId = trimmedText (getProp message ''contextId'') in
      act_bind (rawId env specified contextId) (\<lambda>raw.
      act_bind (act_get (\<lambda>g. g)) (\<lambda>g.
      act_bind (act_lift (freshId g raw)) (\<lambda>ident.
      act_bind (act_lift (freshName g (baseName (trimmedText (getProp message ''profileName'')) contextId ident))) (\<lambda>name.
      act_bind newObject (\<lambda>object.
      act_then (setInstance \<lparr>biId = ident, biObject = object, biName = name, biEngine = Chromium, biMode = Bridge,
          biState = INST_READY, biProfileName = Some name, biContextId = contextId,
          biActiveTab = tabValue (getProp message ''activeTab''), biCdpEndpoint = None, biNoVncPort = None, biSessionId = None,
          biBridgeConnectedAt = Some now, biBridgeVersion = versionText (getProp message ''version''),
          biUserAgent = agentText (getProp message ''userAgent''), biCreatedAt = now, biUpdatedAt = now\<rparr>)
      (act_then (persist env) (act_return ident))))))))"

definition orKeep :: "'a option \<Rightarrow> 'a option \<Rightarrow> 'a option" where
  "orKeep v w = (case v of Some x \<Rightarrow> Some x | None \<Rightarrow> w)"

definition adoptInstance :: "poolEnv \<Rightarrow> browserInstance \<Rightarrow> jsval \<Rightarrow> string \<Rightarrow> string poolAct" where
  "adoptInstance env i message now =
     act_then (updateInstance env (biId i) (biObject i) (\<lambda>i. i\<lparr>biState := INST_READY, biBridgeConnectedAt := Some now,
         biBridgeVersion := orKeep (versionText (getProp message ''version'')) (biBridgeVersion i),
         biContextId := orKeep (trimmedText (getProp message ''contextId'')) (biContextId i),
         biUserAgent := orKeep (agentText (getProp message ''userAgent'')) (biUserAgent i),
         biActiveTab := orKeep (tabValue (getProp message ''activeTab'')) (biActiveTab i)\<rparr>))
       (act_return (biId i))"

definition findBridge :: "poolState \<Rightarrow> string option \<Rightarrow> string option \<Rightarrow> browserInstance option" where
  "findBridge g specified contextId =
     (if givenText specified \<and> oget (bpInstances g) (the specified) \<noteq> None then oget (bpInstances g) (the specified)
      else if contextId \<noteq> None
      then map_option snd (List.find (\<lambda>(ident, i). biMode i = Bridge \<and> biContextId i = contextId) (bpInstances g))
      else None)"

text \<open>A message on a socket whose instance is not known yet.\<close>

definition firstMessage :: "poolEnv \<Rightarrow> nat \<Rightarrow> string option \<Rightarrow> jsval option \<Rightarrow> unit poolAct" where
  "firstMessage env s specified parsed = (case parsed of
     None \<Rightarrow> act_return ()
   | Some message \<Rightarrow>
       if getProp message ''type'' \<noteq> JStr ''ready'' then act_return ()
       else
         act_then (act_modify (\<lambda>g. g\<lparr>bpFirst := remove1 (s, specified) (bpFirst g)\<rparr>))
         (act_bind (act_get (\<lambda>g. findBridge g specified (trimmedText (getProp message ''contextId'')))) (\<lambda>found.
          act_bind (poolNow env) (\<lambda>now.
          act_bind (case found of None \<Rightarrow> bridgeInstance env specified message now | Some i \<Rightarrow> adoptInstance env i message now) (\<lambda>ident.
          act_then (adoptSocket ident s) (listenTo ident s))))))"

definition handleBridgeClose :: "poolEnv \<Rightarrow> string \<Rightarrow> nat \<Rightarrow> unit poolAct" where
  "handleBridgeClose env ident s =
     act_bind (act_get (\<lambda>g. oget (bpSockets g) ident)) (\<lambda>current.
       if current \<noteq> Some s then act_return ()
       else
         act_then (act_modify (\<lambda>g. g\<lparr>bpSockets := odelete ident (bpSockets g)\<rparr>))
         (act_bind (act_get (\<lambda>g. oget (bpInstances g) ident)) (\<lambda>found.
          act_then (case found of
              None \<Rightarrow> act_return ()
            | Some i \<Rightarrow> updateInstance env ident (biObject i) (\<lambda>i. i\<lparr>biBridgeConnectedAt := None, biBridgeVersion := None,
                biState := INST_AWAITING_BRIDGE\<rparr>))
            (rejectBridgeCalls ident ''BRIDGE_DISCONNECTED''))))"

section \<open>Calls over a bridge\<close>

definition settleCall :: "string \<Rightarrow> settlement \<Rightarrow> unit poolAct" where
  "settleCall request s = act_modify (\<lambda>g. g\<lparr>bpSettled := bpSettled g @ [(request, s)], bpPending := odelete request (bpPending g)\<rparr>)"

text \<open>What an answer settles its call with.\<close>

definition answerOf :: "jsval \<Rightarrow> settlement" where
  "answerOf message =
     (if getProp message ''ok'' = JBool False \<or> (case getProp message ''error'' of JStr e \<Rightarrow> True | _ \<Rightarrow> False)
      then CallRejected (nullish (getProp message ''error'') (JStr ''BRIDGE_ERROR''))
      else CallResolved (nullish (getProp message ''result'') (nullish (getProp message ''payload'') message)))"

definition MAX_BRIDGE_MESSAGE :: int where
  "MAX_BRIDGE_MESSAGE = 9 * 1024 * 1024"

definition handleBridgeMessage :: "poolEnv \<Rightarrow> string \<Rightarrow> int \<Rightarrow> jsval option \<Rightarrow> unit poolAct" where
  "handleBridgeMessage env ident bytes parsed =
     (if MAX_BRIDGE_MESSAGE < bytes
      then act_then (closeSocket ident) (rejectBridgeCalls ident ''BRIDGE_RESPONSE_TOO_LARGE'')
      else (case parsed of
          Some (JObj ps) \<Rightarrow>
            act_bind (act_get (\<lambda>g. oget (bpInstances g) ident)) (\<lambda>current.
            act_then (case current of
                Some i \<Rightarrow> if getProp (JObj ps) ''type'' = JStr ''ready''
                  then updateInstance env ident (biObject i) (\<lambda>i. i\<lparr>biState := INST_READY,
                    biBridgeVersion := orKeep (versionText (getProp (JObj ps) ''version'')) (biBridgeVersion i)\<rparr>)
                  else act_return ()
              | None \<Rightarrow> act_return ())
            (case getProp (JObj ps) ''requestId'' of
               JStr (c # cs) \<Rightarrow>
                 act_bind (act_get (\<lambda>g. oget (bpPending g) (c # cs))) (\<lambda>pending.
                   if pending \<noteq> Some ident then act_return () else settleCall (c # cs) (answerOf (JObj ps)))
             | _ \<Rightarrow> act_return ()))
        | _ \<Rightarrow> act_return ()))"

definition sendCommand :: "poolEnv \<Rightarrow> string \<Rightarrow> jsval \<Rightarrow> (nat \<Rightarrow> bool) \<Rightarrow> (nat \<Rightarrow> jsval option) \<Rightarrow> unit poolAct" where
  "sendCommand env ident payload isOpen sendThrows =
     act_bind (act_get (\<lambda>g. oget (bpSockets g) ident)) (\<lambda>socket. case socket of
       None \<Rightarrow> act_throw (fail ''BRIDGE_NOT_CONNECTED'')
     | Some s \<Rightarrow>
         act_then (act_throwIf (\<not> isOpen s) (fail ''BRIDGE_NOT_CONNECTED''))
         (act_bind (newUuid env) (\<lambda>uuid.
          let request = ''bridge_'' @ uuid in
          act_then (act_modify (\<lambda>g. g\<lparr>bpPending := oset request ident (bpPending g)\<rparr>))
            (case sendThrows s of
               None \<Rightarrow> act_modify (\<lambda>g. g\<lparr>bpSent := bpSent g @ [Command s request payload]\<rparr>)
             | Some e \<Rightarrow> settleCall request (CallRejected e)))))"

definition callUrl :: "jsval \<Rightarrow> poolFault + string option" where
  "callUrl payload =
     (let op = getProp payload ''op''; url = getProp payload ''url'' in
      if op = JStr ''navigate'' \<or> op = JStr ''tabs.create'' then
        (case url of
           JStr u \<Rightarrow> Inr (Some u)
         | _ \<Rightarrow> if url \<noteq> JUndef \<or> op = JStr ''navigate'' then Inl (fail ''BRIDGE_URL_REQUIRED'') else Inr None)
      else Inr None)"

text \<open>A URL waits for the policy; everything else is sent at once.\<close>

definition bridgeCall :: "poolEnv \<Rightarrow> string \<Rightarrow> jsval \<Rightarrow> (nat \<Rightarrow> bool) \<Rightarrow> (nat \<Rightarrow> jsval option) \<Rightarrow> unit poolAct" where
  "bridgeCall env ident payload isOpen sendThrows =
     act_then (act_lift (validateBridgePayload env payload))
     (act_bind (act_lift (callUrl payload)) (\<lambda>url. case url of
        Some u \<Rightarrow> waitFor (WaitPolicy ident payload)
      | None \<Rightarrow> sendCommand env ident payload isOpen sendThrows))"

text \<open>The policy answered; without one every URL passes.\<close>

definition finishPolicy ::
  "poolEnv \<Rightarrow> string \<Rightarrow> jsval \<Rightarrow> jsval + unit \<Rightarrow> (nat \<Rightarrow> bool) \<Rightarrow> (nat \<Rightarrow> jsval option) \<Rightarrow> unit poolAct" where
  "finishPolicy env ident payload verdict isOpen sendThrows =
     act_then (if \<not> pePolicy env then act_return ()
         else (case verdict of
             Inl e \<Rightarrow> act_throw (CauseFault e)
           | Inr u \<Rightarrow> act_modify (\<lambda>g. g\<lparr>bpApproved := bpApproved g @ [case getProp payload ''url'' of JStr url \<Rightarrow> url | _ \<Rightarrow> []]\<rparr>)))
       (sendCommand env ident payload isOpen sendThrows)"

definition callTimeout :: "string \<Rightarrow> unit poolAct" where
  "callTimeout request = settleCall request (CallRejected (JStr ''BRIDGE_TIMEOUT''))"

section \<open>Tabs\<close>

definition pullTabsPayload :: jsval where
  "pullTabsPayload = JObj [(''op'', JStr ''tabs.list'')]"

definition switchTabPayload :: "jsnum \<Rightarrow> jsval" where
  "switchTabPayload tabId = JObj [(''op'', JStr ''tabs.switch''), (''tabId'', JNum tabId)]"

definition bindCurrentPayload :: jsval where
  "bindCurrentPayload = JObj [(''op'', JStr ''bind.current'')]"

definition createTabPayload :: "string option \<Rightarrow> bool \<Rightarrow> jsval" where
  "createTabPayload url active =
     JObj ([(''op'', JStr ''tabs.create'')] @ (case url of Some (c # cs) \<Rightarrow> [(''url'', JStr (c # cs))] | _ \<Rightarrow> [])
       @ [(''active'', JBool active)])"

definition closeTabPayload :: "jsnum \<Rightarrow> jsval" where
  "closeTabPayload tabId = JObj [(''op'', JStr ''tabs.close''), (''tabId'', JNum tabId)]"

definition setActiveTab :: "poolEnv \<Rightarrow> string \<Rightarrow> jsval \<Rightarrow> unit poolAct" where
  "setActiveTab env ident tab =
     act_bind (act_get (\<lambda>g. oget (bpInstances g) ident)) (\<lambda>found. case found of
       None \<Rightarrow> act_return ()
     | Some i \<Rightarrow> updateInstance env ident (biObject i) (biActiveTab_update (\<lambda>_. Some tab)))"

definition tabRecord :: "jsval \<Rightarrow> jsval \<Rightarrow> jsval \<Rightarrow> jsval" where
  "tabRecord tabId title url = JObj [(''tabId'', tabId), (''title'', title), (''url'', url)]"

text \<open>The active tab a call reported; for a switch the tab asked for stands in for a missing number.\<close>

definition noteTab :: "poolEnv \<Rightarrow> string \<Rightarrow> jsval option \<Rightarrow> jsval \<Rightarrow> unit poolAct" where
  "noteTab env ident asked result = (case tabValue result of
     None \<Rightarrow> act_return ()
   | Some res \<Rightarrow> setActiveTab env ident (tabRecord (case asked of Some n \<Rightarrow> nullish (getProp res ''tabId'') n | None \<Rightarrow> getProp res ''tabId'')
       (nullish (getProp res ''title'') (JStr [])) (nullish (getProp res ''url'') (JStr []))))"

definition readTab :: "poolEnv \<Rightarrow> jsval \<Rightarrow> poolFault + jsval" where
  "readTab env item =
     (if item = JUndef \<or> item = JNull then Inl NotAnObject
      else Inr (JObj
        [(''tabId'', JNum (peNumber env (nullish (getProp item ''tabId'') (getProp item ''id'')))),
         (''windowId'', if getProp item ''windowId'' = JUndef then JUndef else JNum (peNumber env (getProp item ''windowId''))),
         (''active'', JBool (truthy (getProp item ''active''))),
         (''title'', JStr (peText env (nullish (getProp item ''title'') (JStr [])))),
         (''url'', JStr (peText env (nullish (getProp item ''url'') (JStr []))))]))"

definition noteTabs :: "poolEnv \<Rightarrow> string \<Rightarrow> jsval \<Rightarrow> jsval list poolAct" where
  "noteTabs env ident result = (case result of
     JArr items \<Rightarrow>
       act_bind (act_lift (mapR (\<lambda>_. readTab env) 0 items)) (\<lambda>tabs.
       act_then (case List.find (\<lambda>t. getProp t ''active'' = JBool True) tabs of
           None \<Rightarrow> act_return ()
         | Some t \<Rightarrow> setActiveTab env ident (tabRecord (getProp t ''tabId'') (getProp t ''title'') (getProp t ''url'')))
         (act_return tabs))
   | _ \<Rightarrow> act_return [])"

section \<open>Site bindings\<close>

definition bindSite :: "poolEnv \<Rightarrow> string \<Rightarrow> string \<Rightarrow> siteBinding poolAct" where
  "bindSite env host ident =
     act_bind (act_lift (bindingHost host)) (\<lambda>h.
     act_bind (requireInstance ident) (\<lambda>_.
     act_bind (poolNow env) (\<lambda>now.
     let b = \<lparr>sbHost = h, sbBrowserId = ident, sbCreatedAt = now\<rparr> in
     act_then (act_modify (\<lambda>g. g\<lparr>bpBindings := oset h b (bpBindings g)\<rparr>))
       (act_then (persist env) (act_return b)))))"

definition unbindSite :: "poolEnv \<Rightarrow> string \<Rightarrow> unit poolAct" where
  "unbindSite env host =
     act_bind (act_lift (bindingHost host)) (\<lambda>h.
       act_then (act_modify (\<lambda>g. g\<lparr>bpBindings := odelete h (bpBindings g)\<rparr>)) (persist env))"

definition resolveBinding :: "string \<Rightarrow> browserInstance option poolAct" where
  "resolveBinding host =
     act_bind (act_lift (bindingHost host)) (\<lambda>h.
     act_bind (act_get (\<lambda>g. oget (bpBindings g) h)) (\<lambda>found. case found of
       None \<Rightarrow> act_return None
     | Some b \<Rightarrow> act_bind (requireInstance (sbBrowserId b)) (\<lambda>i. act_return (Some i))))"

section \<open>Construction\<close>

definition emptyPool :: "savedPool option \<Rightarrow> poolState" where
  "emptyPool disk =
     \<lparr>bpInstances = [], bpBindings = [], bpSockets = [], bpPending = [], bpListeners = [], bpFirst = [], bpWaiting = [],
      bpSettled = [], bpSent = [], bpClosed = [], bpApproved = [], bpDisk = disk, bpReads = 0, bpIds = 0, bpObjects = 0,
      bpWrites = 0\<rparr>"

definition restored :: "browserInstance \<Rightarrow> browserInstance" where
  "restored i = i\<lparr>biState := idleState (biMode i), biSessionId := None, biBridgeConnectedAt := None, biBridgeVersion := None\<rparr>"

text \<open>The restored objects are numbered anew.\<close>

fun restoreInstances :: "browserInstance list \<Rightarrow> poolState \<Rightarrow> poolState" where
  "restoreInstances [] g = g"
| "restoreInstances (i # rest) g =
     restoreInstances rest (g\<lparr>bpInstances := oset (biId i) ((restored i)\<lparr>biObject := bpObjects g\<rparr>) (bpInstances g),
       bpObjects := Suc (bpObjects g)\<rparr>)"

definition loadPool :: "poolEnv \<Rightarrow> poolState \<Rightarrow> poolState" where
  "loadPool env g = (if \<not> peStatePath env then g
     else (case bpDisk g of
         None \<Rightarrow> g
       | Some saved \<Rightarrow> (restoreInstances (svInstances saved) g)
           \<lparr>bpBindings := foldl (\<lambda>m b. oset (sbHost b) b m) (bpBindings g) (svBindings saved)\<rparr>))"

definition newPool :: "poolEnv \<Rightarrow> savedPool option \<Rightarrow> poolState" where
  "newPool env disk = loadPool env (emptyPool disk)"

end
