(* ===== verification/PoolSpec.thy ===== *)
theory PoolSpec
  imports BrowserPool
begin

text \<open>
  What the browser pool guarantees: every call sent over a bridge is pending or settled exactly
  once, nothing reaches a bridge that was not validated and approved, names stay unique, the
  loops that make names unique end, and a restart brings back what was saved.
\<close>

section \<open>The steps of a pool\<close>

definition resumed :: "poolWait \<Rightarrow> poolState \<Rightarrow> poolState" where
  "resumed w g = g\<lparr>bpWaiting := remove1 w (bpWaiting g)\<rparr>"

text \<open>A call of the pool, the resumption of a waiting one, an event of a socket or a timer.\<close>

inductive poolStep :: "poolEnv \<Rightarrow> poolState \<Rightarrow> poolState \<Rightarrow> bool" for env where
  step_add: "addInstance env input g = (r, h) \<Longrightarrow> poolStep env g h"
| step_start: "startInstance env ident g = (r, h) \<Longrightarrow> poolStep env g h"
| step_started: "WaitStart ident n \<in> set (bpWaiting g) \<Longrightarrow>
    finishStart env ident n answer (resumed (WaitStart ident n) g) = (r, h) \<Longrightarrow> poolStep env g h"
| step_configure: "configureInstance env ident input g = (r, h) \<Longrightarrow> poolStep env g h"
| step_stop: "stopInstance env ident g = (r, h) \<Longrightarrow> poolStep env g h"
| step_stopped: "WaitStop ident n removing \<in> set (bpWaiting g) \<Longrightarrow>
    managerStopped env ident n removing answer (resumed (WaitStop ident n removing) g) = (r, h) \<Longrightarrow> poolStep env g h"
| step_remove: "removeInstance env ident g = (r, h) \<Longrightarrow> poolStep env g h"
| step_removed: "WaitRemove ident \<in> set (bpWaiting g) \<Longrightarrow>
    finishRemove env ident (resumed (WaitRemove ident) g) = (r, h) \<Longrightarrow> poolStep env g h"
| step_attach: "attachBridge env ident s g = (r, h) \<Longrightarrow> poolStep env g h"
| step_auto: "attachOrAutoRegisterBridge env s specified g = (r, h) \<Longrightarrow> poolStep env g h"
| step_first: "(s, specified) \<in> set (bpFirst g) \<Longrightarrow> firstMessage env s specified parsed g = (r, h) \<Longrightarrow> poolStep env g h"
| step_message: "(s, ident) \<in> set (bpListeners g) \<Longrightarrow> handleBridgeMessage env ident bytes parsed g = (r, h) \<Longrightarrow> poolStep env g h"
| step_close: "(s, ident) \<in> set (bpListeners g) \<Longrightarrow> handleBridgeClose env ident s g = (r, h) \<Longrightarrow> poolStep env g h"
| step_call: "bridgeCall env ident payload isOpen sendThrows g = (r, h) \<Longrightarrow> poolStep env g h"
| step_policy: "WaitPolicy ident payload \<in> set (bpWaiting g) \<Longrightarrow>
    finishPolicy env ident payload verdict isOpen sendThrows (resumed (WaitPolicy ident payload) g) = (r, h) \<Longrightarrow> poolStep env g h"
| step_timeout: "request \<in> set (okeys (bpPending g)) \<Longrightarrow> callTimeout request g = (r, h) \<Longrightarrow> poolStep env g h"
| step_tab: "noteTab env ident asked tabResult g = (r, h) \<Longrightarrow> poolStep env g h"
| step_tabs: "noteTabs env ident tabsResult g = (r', h) \<Longrightarrow> poolStep env g h"
| step_bind: "bindSite env host ident g = (r'', h) \<Longrightarrow> poolStep env g h"
| step_unbind: "unbindSite env host g = (r, h) \<Longrightarrow> poolStep env g h"

inductive poolReaches :: "poolEnv \<Rightarrow> poolState \<Rightarrow> poolState \<Rightarrow> bool" for env g where
  pool_start: "poolReaches env g g"
| pool_next: "poolReaches env g h \<Longrightarrow> poolStep env h k \<Longrightarrow> poolReaches env g k"

section \<open>Calls over a bridge\<close>

definition requestId :: "poolEnv \<Rightarrow> nat \<Rightarrow> string" where
  "requestId env n = ''bridge_'' @ filter (\<lambda>c. c \<noteq> CHR ''-'') (peUuid env n)"

definition freshUuids :: "poolEnv \<Rightarrow> bool" where
  "freshUuids env \<longleftrightarrow> inj (requestId env)"

definition callIds :: "poolState \<Rightarrow> string list" where
  "callIds g = map fst (bpSettled g) @ okeys (bpPending g)"

text \<open>The payload passed the checks, and the policy has approved its URL.\<close>

definition approvedPayload :: "poolEnv \<Rightarrow> poolState \<Rightarrow> jsval \<Rightarrow> bool" where
  "approvedPayload env g payload \<longleftrightarrow> validateBridgePayload env payload = Inr ()
     \<and> (\<exists>url. callUrl payload = Inr url \<and> (pePolicy env \<longrightarrow> pred_option (\<lambda>u. u \<in> set (bpApproved g)) url))"

definition wireOk :: "poolEnv \<Rightarrow> poolState \<Rightarrow> bool" where
  "wireOk env g \<longleftrightarrow> distinct (callIds g) \<and> (\<forall>r \<in> set (callIds g). \<exists>k < bpIds g. r = requestId env k)
     \<and> (\<forall>s r p. Command s r p \<in> set (bpSent g) \<longrightarrow> r \<in> set (callIds g) \<and> approvedPayload env g p)
     \<and> (\<forall>ident p. WaitPolicy ident p \<in> set (bpWaiting g) \<longrightarrow> validateBridgePayload env p = Inr ()
         \<and> (\<exists>u. callUrl p = Inr (Some u)))"

text \<open>Steps that leave calls, commands and waiting calls alone.\<close>

definition sameWire :: "poolState \<Rightarrow> poolState \<Rightarrow> bool" where
  "sameWire g h \<longleftrightarrow> bpPending h = bpPending g \<and> bpSettled h = bpSettled g \<and> bpSent h = bpSent g
     \<and> bpWaiting h = bpWaiting g \<and> bpApproved h = bpApproved g \<and> bpIds g \<le> bpIds h"

definition quiet :: "'x poolAct \<Rightarrow> bool" where
  "quiet m \<longleftrightarrow> (\<forall>g. sameWire g (snd (m g)))"

lemma sameWire_refl [simp]: "sameWire g g"
  by (simp add: sameWire_def)

lemma sameWire_trans: "sameWire g h \<Longrightarrow> sameWire h k \<Longrightarrow> sameWire g k"
  by (simp add: sameWire_def)

lemma wireOk_same: "wireOk env g \<Longrightarrow> sameWire g h \<Longrightarrow> wireOk env h"
proof -
  assume g: "wireOk env g" and h: "sameWire g h"
  have "callIds h = callIds g" "approvedPayload env h = approvedPayload env g" "bpIds g \<le> bpIds h"
    using h by (simp_all add: sameWire_def callIds_def approvedPayload_def fun_eq_iff)
  moreover have "bpSent h = bpSent g" "bpWaiting h = bpWaiting g" using h by (simp_all add: sameWire_def)
  ultimately show ?thesis
    using g unfolding wireOk_def by (simp, blast intro: less_le_trans)
qed

lemma quiet_keeps: "quiet m \<Longrightarrow> keeps (wireOk env) m"
  by (auto simp: keeps_def quiet_def intro: wireOk_same)

lemma quiet_keeps_same: "quiet m \<longleftrightarrow> (\<forall>g. keeps (sameWire g) m)"
  by (auto simp: keeps_def quiet_def intro: sameWire_trans)

lemma quiet_modify [keep_rules]: "(\<And>g. sameWire g (f g)) \<Longrightarrow> keeps (sameWire k) (act_modify f)"
  by (auto simp: keeps_def act_modify_def intro: sameWire_trans)

lemma quiet_primitives [keep_rules]:
  "keeps (sameWire g) (poolNow env)" "keeps (sameWire g) (newUuid env)" "keeps (sameWire g) newObject"
  "keeps (sameWire g) (persist env)" "keeps (sameWire g) (changeObject ident n f)" "keeps (sameWire g) (setInstance i)"
  "keeps (sameWire g) (closeSocket ident)"
  by (auto simp: keeps_def poolNow_def newUuid_def newObject_def persist_def changeObject_def setInstance_def closeSocket_def
      act_modify_def sameWire_def split: option.splits)

lemma quiet_update [keep_rules]: "keeps (sameWire g) (updateInstance env ident n f)" "keeps (sameWire g) (requireInstance ident)"
  unfolding updateInstance_def requireInstance_def by (intro keep_rules)+

lemma wire_quiet: "\<forall>g. keeps (sameWire g) m \<Longrightarrow> keeps (wireOk env) (m :: 'x poolAct)"
  by (rule quiet_keeps) (simp add: quiet_keeps_same)

lemma wire_primitives [keep_rules]:
  "keeps (wireOk env) (poolNow env)" "keeps (wireOk env) (newUuid env)" "keeps (wireOk env) newObject"
  "keeps (wireOk env) (persist env)" "keeps (wireOk env) (changeObject ident n f)" "keeps (wireOk env) (setInstance i)"
  "keeps (wireOk env) (closeSocket ident)" "keeps (wireOk env) (updateInstance env ident n f)"
  "keeps (wireOk env) (requireInstance ident)"
  by (intro wire_quiet allI keep_rules)+

lemma wire_modify [keep_rules]: "(\<And>g. sameWire g (f g)) \<Longrightarrow> keeps (wireOk env) (act_modify f :: unit poolAct)"
  by (intro wire_quiet allI keep_rules)

lemma wire_wait [keep_rules]: "(\<And>ident p. w \<noteq> WaitPolicy ident p) \<Longrightarrow> keeps (wireOk env) (waitFor w)"
  unfolding waitFor_def by (rule keeps_modify) (auto simp: wireOk_def callIds_def approvedPayload_def)

lemma wire_listen [keep_rules]: "keeps (wireOk env) (listenTo ident s)"
  unfolding listenTo_def by (rule keeps_modify) (auto simp: wireOk_def callIds_def approvedPayload_def)

text \<open>Moving calls from the pending to the settled ones changes no identifier.\<close>

lemma wire_settled:
  assumes g: "wireOk env g" and ids: "distinct (callIds h)" "set (callIds h) = set (callIds g)"
    and same: "bpIds h = bpIds g" "bpSent h = bpSent g" "bpWaiting h = bpWaiting g" "bpApproved h = bpApproved g"
  shows "wireOk env h"
proof -
  have "approvedPayload env h = approvedPayload env g"
    using same by (simp add: approvedPayload_def fun_eq_iff)
  then show ?thesis using g same ids by (simp add: wireOk_def)
qed

lemma wire_reject [keep_rules]: "keeps (wireOk env) (rejectBridgeCalls ident code)"
  unfolding rejectBridgeCalls_def
proof (rule keeps_modify)
  fix g assume g: "wireOk env g"
  let ?h = "g\<lparr>bpSettled := bpSettled g @ map (\<lambda>(request, b). (request, CallRejected (JStr code)))
         (filter (\<lambda>(request, b). b = ident) (bpPending g)),
       bpPending := filter (\<lambda>(request, b). b \<noteq> ident) (bpPending g)\<rparr>"
  have ids: "callIds ?h = map fst (bpSettled g) @ okeys (filter (\<lambda>(request, b). b = ident) (bpPending g))
      @ okeys (filter (\<lambda>(request, b). b \<noteq> ident) (bpPending g))"
    by (simp add: callIds_def split_beta comp_def)
  have owf: "owf (bpPending g)" "distinct (map fst (bpSettled g))" "set (map fst (bpSettled g)) \<inter> set (okeys (bpPending g)) = {}"
    using g by (auto simp: wireOk_def callIds_def)
  show "wireOk env ?h"
  proof (rule wire_settled [OF g])
    have "set (okeys (filter (\<lambda>(request, b). b = ident) (bpPending g)))
        \<inter> set (okeys (filter (\<lambda>(request, b). b \<noteq> ident) (bpPending g))) = {}"
      using eq_key_imp_eq_value [OF owf(1)] by auto
    moreover have "set (okeys (filter P (bpPending g))) \<subseteq> set (okeys (bpPending g))" for P by auto
    ultimately show "distinct (callIds ?h)"
      using owf unfolding ids distinct_append set_append by (simp add: distinct_map_filter) blast
    show "set (callIds ?h) = set (callIds g)" unfolding ids by (force simp: callIds_def)
  qed simp_all
qed

lemma wire_settle: "wireOk env g \<Longrightarrow> oget (bpPending g) r \<noteq> None \<Longrightarrow> wireOk env (snd (settleCall r s g))"
proof -
  assume g: "wireOk env g" and r: "oget (bpPending g) r \<noteq> None"
  let ?h = "g\<lparr>bpSettled := bpSettled g @ [(r, s)], bpPending := odelete r (bpPending g)\<rparr>"
  have "r \<in> set (okeys (bpPending g))" using r by (auto simp: oget_None_iff)
  moreover have "wireOk env ?h" if "r \<in> set (okeys (bpPending g))"
    using g that by (intro wire_settled [OF g]) (auto simp: callIds_def wireOk_def okeys_odelete distinct_delete)
  ultimately show ?thesis by (simp add: settleCall_def act_modify_def)
qed

lemma keeps_case_patch [keep_rules]:
  "keeps P m \<Longrightarrow> keeps P n \<Longrightarrow> (\<And>x. keeps P (f x)) \<Longrightarrow> keeps P (case v of Keep \<Rightarrow> m | Clear \<Rightarrow> n | Put x \<Rightarrow> f x)"
  by (cases v) simp_all

lemma keeps_case_value [keep_rules]:
  "(\<And>xs. keeps P (f xs)) \<Longrightarrow> keeps P m \<Longrightarrow> keeps P (case v of JArr xs \<Rightarrow> f xs | _ \<Rightarrow> m)"
  "(\<And>ps. keeps P (k ps)) \<Longrightarrow> keeps P m \<Longrightarrow> keeps P (case v of JObj ps \<Rightarrow> k ps | _ \<Rightarrow> m)"
  by (cases v, simp_all)+

lemma wire_start [keep_rules]:
  "keeps (wireOk env) (startInstance env ident)" "keeps (wireOk env) (finishStart env ident n answer)"
  unfolding startInstance_def finishStart_def by (intro keep_rules poolWait.distinct)+

lemma wire_add [keep_rules]: "keeps (wireOk env) (addInstance env input)"
  unfolding addInstance_def newInstance_def Let_def by (intro keep_rules poolWait.distinct)

lemma wire_configure [keep_rules]: "keeps (wireOk env) (configureInstance env ident input)"
  unfolding configureInstance_def renameTo_def Let_def
  by (intro keep_rules poolWait.distinct)

lemma wire_stop [keep_rules]:
  "keeps (wireOk env) (finishStop env ident n)" "keeps (wireOk env) (stopInstance env ident)"
  "keeps (wireOk env) (removeInstance env ident)" "keeps (wireOk env) (managerStopped env ident n removing answer)"
  "keeps (wireOk env) (finishRemove env ident)"
proof -
  show *: "keeps (wireOk env) (finishStop env ident n)" for ident n
    unfolding finishStop_def by (intro keep_rules) (simp add: sameWire_def)
  show "keeps (wireOk env) (stopInstance env ident)" "keeps (wireOk env) (removeInstance env ident)"
    "keeps (wireOk env) (managerStopped env ident n removing answer)"
    unfolding stopInstance_def removeInstance_def managerStopped_def by (intro keep_rules * poolWait.distinct)+
  show "keeps (wireOk env) (finishRemove env ident)"
    unfolding finishRemove_def by (intro keep_rules) (simp add: sameWire_def)
qed

lemma wire_adopt [keep_rules]: "keeps (wireOk env) (adoptSocket ident s)"
  unfolding adoptSocket_def by (intro keep_rules) (simp add: sameWire_def)

lemma wire_attach [keep_rules]:
  "keeps (wireOk env) (attachBridge env ident s)" "keeps (wireOk env) (attachOrAutoRegisterBridge env s specified)"
  unfolding attachBridge_def attachOrAutoRegisterBridge_def by (intro keep_rules | simp add: sameWire_def)+

lemma wire_first [keep_rules]: "keeps (wireOk env) (firstMessage env s specified parsed)"
  unfolding firstMessage_def bridgeInstance_def adoptInstance_def rawId_def Let_def
  by (intro keep_rules | simp add: sameWire_def)+

lemma wire_close [keep_rules]: "keeps (wireOk env) (handleBridgeClose env ident s)"
  unfolding handleBridgeClose_def by (intro keep_rules | simp add: sameWire_def)+

lemma wire_tabs [keep_rules]:
  "keeps (wireOk env) (noteTab env ident asked tabResult)" "keeps (wireOk env) (noteTabs env ident tabsResult)"
  unfolding noteTab_def noteTabs_def setActiveTab_def by (intro keep_rules)+

lemma wire_bind [keep_rules]:
  "keeps (wireOk env) (bindSite env host ident)" "keeps (wireOk env) (unbindSite env host)"
  unfolding bindSite_def unbindSite_def Let_def by (intro keep_rules | simp add: sameWire_def)+

text \<open>An answer settles a call only when that call is pending for the browser it came from.\<close>

lemma wire_answer [keep_rules]:
  "keeps (wireOk env) (act_bind (act_get (\<lambda>g. oget (bpPending g) r)) (\<lambda>pending.
     if pending \<noteq> Some ident then act_return () else settleCall r answer))"
  by (auto simp: keeps_def act_bind_def act_get_def act_return_def wire_settle)

lemma wire_message [keep_rules]: "keeps (wireOk env) (handleBridgeMessage env ident bytes parsed)"
proof -
  have answer: "keeps (wireOk env) (case v of JStr (c # cs) \<Rightarrow>
      act_bind (act_get (\<lambda>g. oget (bpPending g) (c # cs))) (\<lambda>pending.
        if pending \<noteq> Some ident then act_return () else settleCall (c # cs) a) | _ \<Rightarrow> act_return ())" for v a
  proof (cases v)
    case (JStr s)
    then show ?thesis by (cases s) (simp_all add: wire_answer keeps_return)
  qed (simp_all add: keeps_return)
  show ?thesis unfolding handleBridgeMessage_def by (intro keep_rules answer)
qed

lemma requestId_fresh:
  "freshUuids env \<Longrightarrow> wireOk env g \<Longrightarrow> requestId env (bpIds g) \<notin> set (callIds g)"
  unfolding wireOk_def freshUuids_def by (metis injD less_irrefl)

text \<open>Entering a call under a new identifier, together with the command that is sent.\<close>

lemma wire_enter:
  assumes uuids: "freshUuids env" and g: "wireOk env g" and payload: "approvedPayload env g payload"
    and sent: "sent = [] \<or> sent = [Command s (requestId env (bpIds g)) payload]"
  shows "wireOk env (g\<lparr>bpIds := Suc (bpIds g), bpPending := oset (requestId env (bpIds g)) ident (bpPending g),
      bpSent := bpSent g @ sent\<rparr>)"
proof -
  let ?r = "requestId env (bpIds g)"
  let ?h = "g\<lparr>bpIds := Suc (bpIds g), bpPending := oset ?r ident (bpPending g), bpSent := bpSent g @ sent\<rparr>"
  have new: "?r \<notin> set (callIds g)" by (rule requestId_fresh [OF uuids g])
  then have ids: "callIds ?h = callIds g @ [?r]"
    by (simp add: callIds_def okeys_oset)
  have "approvedPayload env ?h = approvedPayload env g" by (simp add: approvedPayload_def fun_eq_iff)
  then show ?thesis
    using g new payload sent unfolding wireOk_def ids by (auto, (metis less_SucI)+)
qed

lemma wire_send:
  assumes uuids: "freshUuids env" and g: "wireOk env g" and payload: "approvedPayload env g payload"
  shows "wireOk env (snd (sendCommand env ident payload isOpen sendThrows g))"
proof (cases "oget (bpSockets g) ident")
  case None
  then show ?thesis using g by (simp add: sendCommand_def act_defs)
next
  case (Some s)
  let ?r = "requestId env (bpIds g)"
  let ?entered = "\<lambda>sent. g\<lparr>bpIds := Suc (bpIds g), bpPending := oset ?r ident (bpPending g), bpSent := bpSent g @ sent\<rparr>"
  have entered: "wireOk env (?entered [])" "wireOk env (?entered [Command s ?r payload])"
    using wire_enter [OF uuids g payload] by blast+
  have "oget (bpPending (?entered [])) ?r \<noteq> None" by (simp add: oget_oset)
  from wire_settle [OF entered(1) this] entered Some g show ?thesis
    by (cases "sendThrows s") (auto simp: sendCommand_def act_defs newUuid_def requestId_def settleCall_def Let_def)
qed

lemma wire_call:
  assumes uuids: "freshUuids env" and g: "wireOk env g"
  shows "wireOk env (snd (bridgeCall env ident payload isOpen sendThrows g))"
proof (cases "validateBridgePayload env payload")
  case (Inl e)
  then show ?thesis using g by (simp add: bridgeCall_def act_defs)
next
  case (Inr u)
  show ?thesis
  proof (cases "callUrl payload")
    case (Inl e)
    then show ?thesis using g Inr by (simp add: bridgeCall_def act_defs)
  next
    case url: (Inr v)
    show ?thesis
    proof (cases v)
      case None
      then have "approvedPayload env g payload" using Inr url by (auto simp: approvedPayload_def)
      from wire_send [OF uuids g this] None url Inr show ?thesis by (simp add: bridgeCall_def act_defs)
    next
      case (Some w)
      then show ?thesis using g Inr url
        by (auto simp: bridgeCall_def act_defs waitFor_def wireOk_def callIds_def approvedPayload_def)
    qed
  qed
qed

lemma wire_resumed: "wireOk env g \<Longrightarrow> wireOk env (resumed w g)"
  by (auto simp: wireOk_def resumed_def callIds_def approvedPayload_def dest: set_remove1_subset [THEN subsetD])

lemma callUrl_text: "callUrl payload = Inr (Some u) \<Longrightarrow> getProp payload ''url'' = JStr u"
  by (auto simp: callUrl_def Let_def split: if_splits jsval.splits)

lemma wire_policy:
  assumes uuids: "freshUuids env" and g: "wireOk env g" and payload: "WaitPolicy ident payload \<in> set (bpWaiting g)"
  shows "wireOk env (snd (finishPolicy env ident payload verdict isOpen sendThrows (resumed (WaitPolicy ident payload) g)))"
proof -
  let ?g = "resumed (WaitPolicy ident payload) g"
  obtain u where u: "callUrl payload = Inr (Some u)" and valid: "validateBridgePayload env payload = Inr ()"
    using g payload unfolding wireOk_def by blast
  let ?h = "if pePolicy env then ?g\<lparr>bpApproved := bpApproved ?g @ [u]\<rparr> else ?g"
  have h: "wireOk env ?h"
    using wire_resumed [OF g] by (fastforce simp: wireOk_def callIds_def approvedPayload_def pred_option_def)
  have "approvedPayload env ?h payload" using u valid by (simp add: approvedPayload_def)
  from wire_send [OF uuids h this] wire_resumed [OF g] h callUrl_text [OF u] show ?thesis
    by (auto simp: finishPolicy_def act_defs split: sum.splits)
qed

lemma wire_timeout: "wireOk env g \<Longrightarrow> request \<in> set (okeys (bpPending g)) \<Longrightarrow> wireOk env (snd (callTimeout request g))"
  unfolding callTimeout_def by (rule wire_settle) (auto simp: oget_None_iff)

lemma wire_step: "poolStep env g h \<Longrightarrow> freshUuids env \<Longrightarrow> wireOk env g \<Longrightarrow> wireOk env h"
proof (induction rule: poolStep.induct)
  case (step_call ident payload isOpen sendThrows g r h)
  then show ?case using wire_call [of env g ident payload isOpen sendThrows] by simp
next
  case (step_policy ident payload g verdict isOpen sendThrows r h)
  then show ?case using wire_policy [of env g ident payload verdict isOpen sendThrows] by simp
next
  case (step_timeout request g r h)
  then show ?case using wire_timeout [of env g request] by simp
qed (blast intro: keepsD keep_rules wire_resumed)+

lemma restoreInstances_wire:
  "bpPending (restoreInstances is g) = bpPending g \<and> bpSettled (restoreInstances is g) = bpSettled g
    \<and> bpSent (restoreInstances is g) = bpSent g \<and> bpWaiting (restoreInstances is g) = bpWaiting g"
  by (induction "is" g rule: restoreInstances.induct) simp_all

lemma wire_new: "wireOk env (newPool env disk)"
  by (auto simp: newPool_def loadPool_def emptyPool_def wireOk_def callIds_def restoreInstances_wire split: option.splits)

lemma wire_reaches: "poolReaches env g h \<Longrightarrow> freshUuids env \<Longrightarrow> wireOk env g \<Longrightarrow> wireOk env h"
  by (induction rule: poolReaches.induct) (blast intro: wire_step)+

text \<open>C27. Every command a pool ever sent over a bridge is waiting for its answer or has been
  settled, never both and never twice, whatever answers, disconnections, timeouts, stops and
  removals came in between; request identifiers are as distinct as the UUIDs they are made of.\<close>

theorem bridge_calls_settled_once:
  assumes "freshUuids env" and "poolReaches env (newPool env disk) g"
  shows "distinct (map fst (bpSettled g) @ okeys (bpPending g))
    \<and> (\<forall>s r p. Command s r p \<in> set (bpSent g) \<longrightarrow>
        (r \<in> set (map fst (bpSettled g))) \<noteq> (r \<in> set (okeys (bpPending g))))"
proof -
  have "wireOk env g" by (rule wire_reaches [OF assms(2, 1) wire_new])
  then have "distinct (callIds g)" "\<forall>s r p. Command s r p \<in> set (bpSent g) \<longrightarrow> r \<in> set (callIds g)"
    unfolding wireOk_def by blast+
  then show ?thesis unfolding callIds_def distinct_append set_append by blast
qed

text \<open>C28. Nothing is sent over a bridge but an allowed operation with at most sixteen fields, none of
  them a denied one; and with a URL policy, a navigation or a new tab goes only to a URL the policy
  has approved.\<close>

theorem bridge_commands_approved:
  assumes "freshUuids env" and "poolReaches env (newPool env disk) g" and "Command s r p \<in> set (bpSent g)"
  shows "(\<exists>op. getProp p ''op'' = JStr op \<and> op \<in> set BRIDGE_OPERATIONS) \<and> length (keysOf p) \<le> 16
    \<and> list_all (\<lambda>k. \<not> deniedField k) (keysOf p)
    \<and> (getProp p ''op'' = JStr ''navigate'' \<longrightarrow> pePolicy env \<longrightarrow> (\<exists>u \<in> set (bpApproved g). getProp p ''url'' = JStr u))
    \<and> (getProp p ''op'' = JStr ''tabs.create'' \<longrightarrow> pePolicy env \<longrightarrow>
        getProp p ''url'' = JUndef \<or> (\<exists>u \<in> set (bpApproved g). getProp p ''url'' = JStr u))"
proof -
  have "wireOk env g" by (rule wire_reaches [OF assms(2, 1) wire_new])
  with assms(3) have p: "approvedPayload env g p" unfolding wireOk_def by blast
  then have "validateBridgePayload env p = Inr ()" by (simp add: approvedPayload_def)
  then have "(\<exists>op. getProp p ''op'' = JStr op \<and> op \<in> set BRIDGE_OPERATIONS)" "length (keysOf p) \<le> 16"
    "list_all (\<lambda>k. \<not> deniedField k) (keysOf p)"
    by (auto simp: validateBridgePayload_def bindR_guard not_less list_ex_iff list_all_iff split: jsval.splits)
  moreover from p obtain url where "callUrl p = Inr url" "pePolicy env \<longrightarrow> pred_option (\<lambda>u. u \<in> set (bpApproved g)) url"
    by (auto simp: approvedPayload_def)
  then have "getProp p ''op'' = JStr ''navigate'' \<longrightarrow> pePolicy env \<longrightarrow> (\<exists>u \<in> set (bpApproved g). getProp p ''url'' = JStr u)"
    "getProp p ''op'' = JStr ''tabs.create'' \<longrightarrow> pePolicy env \<longrightarrow>
        getProp p ''url'' = JUndef \<or> (\<exists>u \<in> set (bpApproved g). getProp p ''url'' = JStr u)"
    by (auto simp: callUrl_def Let_def split: jsval.splits if_splits)
  ultimately show ?thesis by blast
qed

section \<open>The loops that make a name unique\<close>

text \<open>A loop over distinct candidates that are all taken makes no more rounds than there are keys.\<close>

lemma distinct_taken:
  "inj_on f {..<n} \<Longrightarrow> (\<And>k. k < n \<Longrightarrow> f k \<in> set xs) \<Longrightarrow> n \<le> length xs"
  by (metis card_image card_length card_lessThan card_mono finite_set image_subsetI lessThan_iff order_trans)

definition nthId :: "string \<Rightarrow> nat \<Rightarrow> string" where
  "nthId raw k = (if k = 0 then raw else raw @ ''_'' @ showDec k)"

lemma nthId_inj: "inj (nthId raw)"
  by (rule injI) (auto simp: nthId_def showDec_inj split: if_splits)

lemma uniqueId_None: "uniqueId n taken raw (Suc k) (nthId raw k) = None \<Longrightarrow> j < n \<Longrightarrow> taken (nthId raw (k + j))"
proof (induction n arbitrary: k j)
  case (Suc n)
  have next_id: "raw @ CHR ''_'' # showDec (Suc k) = nthId raw (Suc k)" by (simp add: nthId_def)
  from Suc.prems have taken: "taken (nthId raw k)" and rest: "uniqueId n taken raw (Suc (Suc k)) (nthId raw (Suc k)) = None"
    by (auto simp: next_id split: if_splits)
  then show ?case using Suc.IH [OF rest, of "j - 1"] Suc.prems(2) by (cases j) simp_all
qed simp

lemma uniqueId_free: "uniqueId n taken raw k c = Some x \<Longrightarrow> \<not> taken x"
  by (induction n taken raw k c rule: uniqueId.induct) (auto split: if_splits)

lemma freshId_ends: "\<exists>k. freshId g raw = Inr k \<and> oget (bpInstances g) k = None"
proof -
  let ?taken = "\<lambda>k. oget (bpInstances g) k \<noteq> None"
  let ?n = "Suc (length (bpInstances g))"
  have "uniqueId ?n ?taken raw 1 raw \<noteq> None"
  proof
    assume "uniqueId ?n ?taken raw 1 raw = None"
    then have "uniqueId ?n ?taken raw (Suc 0) (nthId raw 0) = None" by (simp add: nthId_def)
    then have "?taken (nthId raw (0 + j))" if "j < ?n" for j
      using that by (rule uniqueId_None)
    then have "nthId raw j \<in> set (okeys (bpInstances g))" if "j < ?n" for j
      using that by (simp only: add_0 oget_None_iff not_not)
    then have "?n \<le> length (okeys (bpInstances g))"
      by (intro distinct_taken [of "nthId raw"]) (auto intro: inj_on_subset [OF nthId_inj])
    then show False by simp
  qed
  then obtain k where k: "uniqueId ?n ?taken raw 1 raw = Some k" by blast
  from uniqueId_free [OF k] k show ?thesis by (simp add: freshId_def)
qed

text \<open>The name tried after \<open>k\<close> taken ones; it is as long as the number it ends with.\<close>

definition nthName :: "string \<Rightarrow> nat \<Rightarrow> string" where
  "nthName base k = (if k = 0 then trim base else trim (base @ ''-'' @ showDec k))"

lemma trim_number:
  assumes "trim base \<noteq> []"
  shows "trim (base @ CHR ''-'' # showDec k) = dropWhile isSpace base @ CHR ''-'' # showDec k"
proof -
  have "\<exists>c \<in> set base. \<not> isSpace c"
  proof (rule ccontr)
    assume "\<not> (\<exists>c \<in> set base. \<not> isSpace c)"
    then have "dropWhile isSpace base = []" by simp
    with assms show False by (simp add: trim_def)
  qed
  then have front: "dropWhile isSpace (base @ CHR ''-'' # showDec k) = dropWhile isSpace base @ CHR ''-'' # showDec k"
    by (auto intro: dropWhile_append1)
  have "isDigit (last (showDec k))" using showDec_digits [of k] by (auto simp: list_all_iff)
  then have "\<not> isSpace (hd (rev (dropWhile isSpace base @ CHR ''-'' # showDec k)))"
    using showDec_digits [of k] by (auto simp: hd_rev isSpace_def isDigit_def)
  then have "dropWhile isSpace (rev (dropWhile isSpace base @ CHR ''-'' # showDec k)) = rev (dropWhile isSpace base @ CHR ''-'' # showDec k)"
    by (cases "rev (dropWhile isSpace base @ CHR ''-'' # showDec k)") auto
  then show ?thesis by (simp only: trim_def front rev_rev_ident)
qed

lemma length_trim: "length (trim s) \<le> length (dropWhile isSpace s)"
  unfolding trim_def by (metis length_dropWhile_le length_rev)

lemma nthName_inj:
  assumes "trim base \<noteq> []"
  shows "inj (nthName base)"
proof (rule injI)
  fix j k assume eq: "nthName base j = nthName base k"
  have longer: "length (nthName base 0) < length (nthName base n)" if "0 < n" for n
    using that length_trim [of base] by (simp add: nthName_def trim_number [OF assms])
  show "j = k"
  proof (cases "j = 0 \<or> k = 0")
    case True
    then show ?thesis using eq longer [of j] longer [of k] by (metis less_irrefl neq0_conv)
  next
    case False
    then show ?thesis using eq by (auto simp: nthName_def trim_number [OF assms] showDec_inj)
  qed
qed

lemma uniqueName_ends: "uniqueName n taken base (Suc k) (nthName base k) = Inl OutOfFuel \<Longrightarrow> j < n \<Longrightarrow> taken (nthName base (k + j))"
proof (induction n arbitrary: k j)
  case (Suc n)
  show ?case
  proof (cases "taken (nthName base k)")
    case False
    with Suc.prems(1) show ?thesis by simp
  next
    case True
    have "safeName (base @ ''-'' @ showDec (Suc k)) = Inr (nthName base (Suc k))"
      using Suc.prems(1) True
      by (auto simp: safeName_def Let_def nthName_def fail_def split: if_splits)
    with Suc.prems(1) True have rest: "uniqueName n taken base (Suc (Suc k)) (nthName base (Suc k)) = Inl OutOfFuel"
      by simp
    show ?thesis using Suc.IH [OF rest, of "j - 1"] Suc.prems(2) True by (cases j) simp_all
  qed
qed simp

lemma uniqueName_free: "uniqueName n taken base k c = Inr x \<Longrightarrow> \<not> taken x"
  by (induction n arbitrary: k c) (auto simp: bindR_Inr split: if_splits)

lemma freshName_ends: "freshName g base \<noteq> Inl OutOfFuel"
proof
  assume out: "freshName g base = Inl OutOfFuel"
  let ?taken = "nameTaken (bpInstances g)"
  let ?n = "Suc (length (bpInstances g))"
  have base: "trim base \<noteq> []" "safeName base = Inr (nthName base 0)"
    using out by (auto simp: freshName_def safeName_def Let_def nthName_def fail_def split: if_splits)
  with out have "uniqueName ?n ?taken base (Suc 0) (nthName base 0) = Inl OutOfFuel" by (simp add: freshName_def)
  from uniqueName_ends [OF this] have "nthName base j \<in> set (map (\<lambda>(k, i). biName i) (bpInstances g))" if "j < ?n" for j
    using that by (force simp: nameTaken_def list_ex_iff)
  then have "?n \<le> length (map (\<lambda>(k, i). biName i) (bpInstances g))"
    by (intro distinct_taken [of "nthName base"]) (auto intro: inj_on_subset [OF nthName_inj [OF base(1)]])
  then show False by simp
qed

lemma freshName_free: "freshName g base = Inr x \<Longrightarrow> \<not> nameTaken (bpInstances g) x"
  by (auto simp: freshName_def bindR_Inr simp del: uniqueName.simps dest: uniqueName_free)

text \<open>C29. The loops that make the identifier and the name of a new bridge unique end: within one round
  more than there are instances the first finds an identifier that is not taken, and the second a
  name that is not taken unless the name itself is refused.\<close>

theorem unique_loops_end:
  "(\<exists>k. freshId g raw = Inr k \<and> oget (bpInstances g) k = None)
    \<and> (freshName g base = Inl (PoolError ''INVALID_NAME'') \<or>
       (\<exists>x. freshName g base = Inr x \<and> \<not> nameTaken (bpInstances g) x))"
proof -
  have step: "uniqueName n taken base k c = Inl e \<Longrightarrow> e = OutOfFuel \<or> e = PoolError ''INVALID_NAME''" for n taken k c e
    by (induction n arbitrary: k c) (auto simp: bindR_def safeName_def Let_def fail_def split: if_splits sum.splits)
  have "freshName g base = Inl e \<Longrightarrow> e = PoolError ''INVALID_NAME''" for e
    using freshName_ends [of g base]
    by (auto simp: freshName_def bindR_def safeName_def Let_def fail_def simp del: uniqueName.simps dest: step
        split: if_splits sum.splits)
  then show ?thesis
    using freshId_ends [of g raw] freshName_free [of g base] by (cases "freshName g base") auto
qed

section \<open>Instances and their names\<close>

definition rosterOk :: "poolState \<Rightarrow> bool" where
  "rosterOk g \<longleftrightarrow> owf (bpInstances g) \<and> distinct (map (\<lambda>e. biName (snd e)) (bpInstances g))
     \<and> (\<forall>(k, i) \<in> set (bpInstances g). biId i = k)
     \<and> owf (bpBindings g) \<and> (\<forall>(h, b) \<in> set (bpBindings g). sbHost b = h)"

definition sameRoster :: "poolState \<Rightarrow> poolState \<Rightarrow> bool" where
  "sameRoster g h \<longleftrightarrow> bpInstances h = bpInstances g \<and> bpBindings h = bpBindings g"

lemma roster_modify [keep_rules]: "(\<And>g. sameRoster g (f g)) \<Longrightarrow> keeps rosterOk (act_modify f :: unit poolAct)"
  by (rule keeps_modify) (simp add: rosterOk_def sameRoster_def)

lemma roster_same: "(\<And>g. sameRoster g (snd (m g))) \<Longrightarrow> keeps rosterOk m"
  by (simp add: keeps_def rosterOk_def sameRoster_def)

lemma roster_primitives [keep_rules]:
  "keeps rosterOk (poolNow env)" "keeps rosterOk (newUuid env)" "keeps rosterOk newObject" "keeps rosterOk (persist env)"
  "keeps rosterOk (closeSocket ident)" "keeps rosterOk (waitFor w)" "keeps rosterOk (rejectBridgeCalls ident code)"
  "keeps rosterOk (listenTo ident s)" "keeps rosterOk (settleCall r a)"
  by (rule roster_same, simp add: sameRoster_def poolNow_def newUuid_def newObject_def persist_def closeSocket_def waitFor_def
      rejectBridgeCalls_def listenTo_def settleCall_def act_modify_def split: option.split)+

lemma roster_require [keep_rules]: "keeps rosterOk (requireInstance ident)"
  unfolding requireInstance_def by (intro keep_rules)

lemma in_oset: "e \<in> set (oset k v m) \<Longrightarrow> e = (k, v) \<or> e \<in> set m"
  by (induction m) (auto split: if_splits)

text \<open>Replacing an instance by one of the same identifier under a name no other one has.\<close>

lemma names_oset:
  assumes "owf m" "distinct (map (\<lambda>e. biName (snd e)) m)" and "\<And>k' j. (k', j) \<in> set m \<Longrightarrow> k' \<noteq> k \<Longrightarrow> biName j \<noteq> biName i"
  shows "distinct (map (\<lambda>e. biName (snd e)) (oset k i m))"
  using assms
proof (induction m)
  case (Cons e m)
  obtain k' j where e: "e = (k', j)" by (cases e)
  show ?case
  proof (cases "k' = k")
    case True
    have "biName j' \<noteq> biName i" if "(k'', j') \<in> set m" for k'' j'
    proof -
      have "k'' \<noteq> k" using Cons.prems(1) True that by (force simp: e)
      with Cons.prems(3) [of k'' j'] that show ?thesis by (simp add: e)
    qed
    then have "biName i \<notin> (\<lambda>e. biName (snd e)) ` set m" by fastforce
    with Cons.prems True show ?thesis by (simp add: e)
  next
    case False
    have "biName (snd x) \<noteq> biName j" if x: "x \<in> set (oset k i m)" for x
    proof -
      have "biName j \<noteq> biName i" using Cons.prems(3) [of k' j] False by (simp add: e)
      moreover have "biName j \<notin> (\<lambda>e. biName (snd e)) ` set m" using Cons.prems(2) by (simp add: e)
      moreover have "x \<in> set m \<Longrightarrow> biName (snd x) \<in> (\<lambda>e. biName (snd e)) ` set m" by (rule imageI)
      ultimately show ?thesis using in_oset [OF x] by (metis snd_conv)
    qed
    then have "biName j \<notin> (\<lambda>e. biName (snd e)) ` set (oset k i m)" by (metis imageE)
    moreover have "distinct (map (\<lambda>e. biName (snd e)) (oset k i m))"
    proof (rule Cons.IH)
      show "owf m" "distinct (map (\<lambda>e. biName (snd e)) m)" using Cons.prems(1, 2) by (simp_all add: e)
      show "biName j' \<noteq> biName i" if "(k'', j') \<in> set m" "k'' \<noteq> k" for k'' j'
        using Cons.prems(3) [of k'' j'] that by simp
    qed
    ultimately show ?thesis using False by (simp add: e)
  qed
qed simp

lemma roster_oset:
  assumes g: "rosterOk g" and ident: "biId i = k"
    and fresh: "\<And>k' j. (k', j) \<in> set (bpInstances g) \<Longrightarrow> k' \<noteq> k \<Longrightarrow> biName j \<noteq> biName i"
  shows "rosterOk (g\<lparr>bpInstances := oset k i (bpInstances g)\<rparr>)"
proof -
  have m: "owf (bpInstances g)" "distinct (map (\<lambda>e. biName (snd e)) (bpInstances g))"
    using g by (simp_all add: rosterOk_def)
  have "distinct (map (\<lambda>e. biName (snd e)) (oset k i (bpInstances g)))"
    using m fresh by (rule names_oset)
  moreover have "\<forall>(k', j) \<in> set (oset k i (bpInstances g)). biId j = k'"
    using g ident by (auto simp: rosterOk_def dest!: in_oset)
  ultimately show ?thesis using g m by (simp add: rosterOk_def owf_oset)
qed

lemma roster_change:
  assumes "\<And>i. biId (f i) = biId i \<and> biName (f i) = biName i"
  shows "keeps rosterOk (changeObject ident n f)"
  unfolding changeObject_def
proof (rule keeps_modify)
  fix g assume g: "rosterOk g"
  have "rosterOk (g\<lparr>bpInstances := oset ident (f i) (bpInstances g)\<rparr>)" if i: "oget (bpInstances g) ident = Some i" for i
  proof (rule roster_oset [OF g])
    have m: "(ident, i) \<in> set (bpInstances g)" using i by (rule map_of_SomeD)
    then show "biId (f i) = ident" using g assms by (auto simp: rosterOk_def)
    fix k' j assume j: "(k', j) \<in> set (bpInstances g)" "k' \<noteq> ident"
    have "inj_on (\<lambda>e. biName (snd e)) (set (bpInstances g))" using g by (simp add: rosterOk_def distinct_map)
    from inj_onD [OF this, of "(k', j)" "(ident, i)"] m j have "biName j \<noteq> biName i" by auto
    then show "biName j \<noteq> biName (f i)" using assms by simp
  qed
  with g show "rosterOk (case oget (bpInstances g) ident of None \<Rightarrow> g
      | Some i \<Rightarrow> if biObject i = n then g\<lparr>bpInstances := oset ident (f i) (bpInstances g)\<rparr> else g)"
    by (simp split: option.split)
qed

lemma roster_update: "(\<And>i. biId (f i) = biId i \<and> biName (f i) = biName i) \<Longrightarrow> keeps rosterOk (updateInstance env ident n f)"
  unfolding updateInstance_def by (intro keep_rules roster_change) simp

lemma roster_start:
  "keeps rosterOk (startInstance env ident)" "keeps rosterOk (finishStart env ident n answer)"
  unfolding startInstance_def finishStart_def by (intro keep_rules roster_update | simp)+

lemma roster_stop:
  "keeps rosterOk (finishStop env ident n)" "keeps rosterOk (stopInstance env ident)"
  "keeps rosterOk (removeInstance env ident)" "keeps rosterOk (managerStopped env ident n removing answer)"
  unfolding finishStop_def stopInstance_def removeInstance_def managerStopped_def
  by (intro keep_rules roster_update | simp add: sameRoster_def)+

lemma roster_finishRemove: "keeps rosterOk (finishRemove env ident)"
  unfolding finishRemove_def
proof (intro keeps_then keeps_modify roster_primitives)
  fix g assume "rosterOk g"
  then show "rosterOk (g\<lparr>bpBindings := filter (\<lambda>(host, b). sbBrowserId b \<noteq> ident) (bpBindings g),
      bpInstances := odelete ident (bpInstances g)\<rparr>)"
    by (auto simp: rosterOk_def AList.delete_eq distinct_map_filter)
qed

lemma roster_adopt: "keeps rosterOk (adoptSocket ident s)"
  unfolding adoptSocket_def by (intro keep_rules) (simp add: sameRoster_def)

lemma roster_attach: "keeps rosterOk (attachBridge env ident s)"
  unfolding attachBridge_def by (intro keep_rules roster_update roster_adopt) simp

lemma roster_auto: "keeps rosterOk (attachOrAutoRegisterBridge env s specified)"
  unfolding attachOrAutoRegisterBridge_def by (intro keep_rules roster_attach) (simp add: sameRoster_def)

lemma roster_close: "keeps rosterOk (handleBridgeClose env ident s)"
  unfolding handleBridgeClose_def by (intro keep_rules roster_update) (simp_all add: sameRoster_def)

lemma roster_tabs:
  "keeps rosterOk (noteTab env ident asked tabResult)" "keeps rosterOk (noteTabs env ident tabsResult)"
  unfolding noteTab_def noteTabs_def setActiveTab_def by (intro keep_rules roster_update | simp)+

lemma roster_calls:
  "keeps rosterOk (sendCommand env ident payload isOpen sendThrows)"
  "keeps rosterOk (bridgeCall env ident payload isOpen sendThrows)"
  "keeps rosterOk (finishPolicy env ident payload verdict isOpen sendThrows)" "keeps rosterOk (callTimeout r)"
  unfolding sendCommand_def bridgeCall_def finishPolicy_def callTimeout_def Let_def
  by (intro keep_rules | simp add: sameRoster_def)+

lemma roster_bindings: "keeps rosterOk (bindSite env host ident)" "keeps rosterOk (unbindSite env host)"
proof -
  have *: "sbHost b = h \<Longrightarrow> keeps rosterOk (act_modify (\<lambda>g. g\<lparr>bpBindings := oset h b (bpBindings g)\<rparr>) :: unit poolAct)" for h b
    by (intro keeps_modify) (auto simp: rosterOk_def owf_oset dest!: in_oset)
  show "keeps rosterOk (bindSite env host ident)"
    unfolding bindSite_def Let_def
    by (intro keeps_bind keeps_then keeps_lift keeps_return roster_primitives roster_require *) simp
  have "keeps rosterOk (act_modify (\<lambda>g. g\<lparr>bpBindings := odelete h (bpBindings g)\<rparr>) :: unit poolAct)" for h
    by (intro keeps_modify) (auto simp: rosterOk_def owf_odelete AList.delete_eq distinct_map_filter)
  then show "keeps rosterOk (unbindSite env host)"
    unfolding unbindSite_def by (intro keeps_bind keeps_then keeps_lift roster_primitives)
qed

lemma roster_set:
  assumes g: "rosterOk g" and fresh: "\<not> nameTaken (bpInstances g) (biName i)"
  shows "rosterOk (snd (setInstance i g))"
  using roster_oset [OF g refl, of i] fresh
  by (auto simp: setInstance_def act_modify_def nameTaken_def list_ex_iff)

lemma roster_add: "keeps rosterOk (addInstance env input)"
proof -
  have same: "keeps (sameRoster g) (newInstance env input name engine mode)" for g name engine mode
    unfolding newInstance_def
    by (intro keeps_bind keeps_lift keeps_return) (auto simp: keeps_def sameRoster_def poolNow_def newUuid_def newObject_def)
  have name: "newInstance env input name engine mode g = (Inr i, h) \<Longrightarrow> biName i = name" for name engine mode g h i
    by (auto simp: newInstance_def act_defs poolNow_def newUuid_def newObject_def split: sum.splits)
  have "rosterOk (snd (act_bind (newInstance env input name engine mode) (\<lambda>i. act_then (setInstance i)
      (act_then (persist env) (act_then (if b then startInstance env (biId i) else act_return ()) (act_return (biId i))))) g))"
    if g: "rosterOk g" and fresh: "\<not> nameTaken (bpInstances g) name" for name engine mode b g
  proof -
    let ?rest = "\<lambda>i. act_then (persist env) (act_then (if b then startInstance env (biId i) else act_return ()) (act_return (biId i)))"
    obtain r h where n: "newInstance env input name engine mode g = (r, h)" by fastforce
    have h: "sameRoster g h" using keepsD [OF same _ n] by (simp add: sameRoster_def)
    then have ok: "rosterOk h" using g by (simp add: rosterOk_def sameRoster_def)
    show ?thesis
    proof (cases r)
      case (Inl e)
      then show ?thesis using n ok by (simp add: act_bind_def)
    next
      case (Inr i)
      have "rosterOk (snd (setInstance i h))"
        using fresh h name [OF n [unfolded Inr]] by (intro roster_set [OF ok]) (simp add: sameRoster_def)
      moreover have "keeps rosterOk (?rest i)" by (intro keep_rules roster_start)
      ultimately show ?thesis
        using n Inr by (auto simp: act_bind_def act_then_def setInstance_def act_modify_def keeps_def)
    qed
  qed
  then show ?thesis
    by (auto simp: keeps_def addInstance_def act_bind_def act_then_def act_get_def act_lift_def act_throwIf_def act_throw_def
        act_return_def Let_def split: sum.splits option.splits)
qed

lemma roster_rename:
  "keeps rosterOk (act_bind (act_get (\<lambda>g. list_ex (\<lambda>(k, i). biId i \<noteq> ident \<and> biName i = name) (bpInstances g))) (\<lambda>taken.
     act_then (act_throwIf taken e) (changeObject ident n (biName_update (\<lambda>_. name)))))"
proof -
  have "rosterOk (g\<lparr>bpInstances := oset ident (i\<lparr>biName := name\<rparr>) (bpInstances g)\<rparr>)"
    if g: "rosterOk g" and free: "\<not> list_ex (\<lambda>(k, i). biId i \<noteq> ident \<and> biName i = name) (bpInstances g)"
      and i: "oget (bpInstances g) ident = Some i" for g i
  proof (rule roster_oset [OF g])
    have ids: "\<forall>(k, i) \<in> set (bpInstances g). biId i = k" using g by (simp add: rosterOk_def)
    then show "biId (i\<lparr>biName := name\<rparr>) = ident" using map_of_SomeD [OF i] by auto
    fix k' j assume "(k', j) \<in> set (bpInstances g)" "k' \<noteq> ident"
    then show "biName j \<noteq> biName (i\<lparr>biName := name\<rparr>)" using ids free by (auto simp: list_ex_iff)
  qed
  then show ?thesis
    by (auto simp: keeps_def act_defs changeObject_def split: option.split)
qed

lemma roster_configure: "keeps rosterOk (configureInstance env ident input)"
  unfolding configureInstance_def renameTo_def Let_def
  by (intro keeps_bind [of _ "requireInstance ident"] roster_require) (intro keep_rules roster_rename roster_change; simp)

lemma roster_bridge: "keeps rosterOk (bridgeInstance env specified message now)"
proof -
  let ?cx = "trimmedText (getProp message ''contextId'')"
  have raw: "sameRoster g h" if "rawId env specified ?cx g = (r, h)" for g r h
    using that by (auto simp: rawId_def newUuid_def act_defs sameRoster_def split: if_splits option.splits)
  have "rosterOk (snd (bridgeInstance env specified message now g))" if g: "rosterOk g" for g
  proof (cases "rawId env specified ?cx g")
    case (Pair r h)
    have h: "rosterOk h" using g raw [OF Pair] by (simp add: rosterOk_def sameRoster_def)
    show ?thesis
    proof (cases r)
      case (Inl e)
      then show ?thesis using Pair h by (simp add: bridgeInstance_def Let_def act_bind_def)
    next
      case (Inr raw)
      obtain ident where ident: "freshId h raw = Inr ident" using freshId_ends by blast
      let ?base = "baseName (trimmedText (getProp message ''profileName'')) ?cx ident"
      show ?thesis
      proof (cases "freshName h ?base")
        case (Inl e)
        then show ?thesis using Pair Inr ident h by (simp add: bridgeInstance_def Let_def act_defs)
      next
        case name: (Inr name)
        have free: "\<not> nameTaken (bpInstances h) name" using name by (rule freshName_free)
        let ?h = "h\<lparr>bpObjects := Suc (bpObjects h)\<rparr>"
        have "rosterOk ?h" using h by (simp add: rosterOk_def)
        then have set: "rosterOk (?h\<lparr>bpInstances := oset k i (bpInstances ?h)\<rparr>)" if "biName i = name" "biId i = k" for i k
          using roster_set [of ?h i] free that by (simp add: setInstance_def act_modify_def)
        have persists: "rosterOk k \<Longrightarrow> rosterOk (snd (persist env k))" for k
          using roster_primitives(4) [of env] by (simp add: keeps_def)
        have last: "snd (case p of (Inl e, t) \<Rightarrow> (Inl e, t) | (Inr u, t) \<Rightarrow> (Inr ident, t)) = snd p"
          for p :: "(poolFault + unit) \<times> poolState"
          by (simp split: prod.split sum.split)
        show ?thesis
          using Pair Inr ident name set
          by (simp add: bridgeInstance_def Let_def act_return_def act_bind_def act_then_def act_get_def act_lift_def
              newObject_def setInstance_def act_modify_def last persists)
      qed
    qed
  qed
  then show ?thesis by (simp add: keeps_def)
qed

lemma roster_first: "keeps rosterOk (firstMessage env s specified parsed)"
  unfolding firstMessage_def adoptInstance_def
  by (intro keep_rules roster_bridge roster_update roster_adopt) (simp_all add: sameRoster_def)

lemma roster_message: "keeps rosterOk (handleBridgeMessage env ident bytes parsed)"
proof -
  have answer: "keeps rosterOk (case v of JStr (c # cs) \<Rightarrow>
      act_bind (act_get (\<lambda>g. oget (bpPending g) (c # cs))) (\<lambda>pending.
        if pending \<noteq> Some ident then act_return () else settleCall (c # cs) a) | _ \<Rightarrow> act_return ())" for v a
  proof (cases v)
    case (JStr s)
    then show ?thesis by (cases s) (simp_all add: keep_rules)
  qed (simp_all add: keeps_return)
  show ?thesis unfolding handleBridgeMessage_def by (intro keep_rules answer roster_update) simp
qed

lemmas roster_rules = roster_start roster_stop roster_finishRemove roster_attach roster_auto roster_close roster_tabs
  roster_calls roster_bindings roster_add roster_configure roster_first roster_message

lemma roster_resumed: "rosterOk (resumed w g) = rosterOk g"
  by (simp add: resumed_def rosterOk_def)

lemma roster_step: "poolStep env g h \<Longrightarrow> rosterOk g \<Longrightarrow> rosterOk h"
  by (induction rule: poolStep.induct) (blast intro: keepsD roster_rules roster_resumed [THEN iffD2])+

lemma roster_reaches: "poolReaches env g h \<Longrightarrow> rosterOk g \<Longrightarrow> rosterOk h"
  by (induction rule: poolReaches.induct) (blast intro: roster_step)+

lemma roster_empty: "rosterOk (newPool env None)"
  by (simp add: newPool_def loadPool_def emptyPool_def rosterOk_def)

section \<open>Restart\<close>

definition sameInstance :: "browserInstance \<Rightarrow> browserInstance \<Rightarrow> bool" where
  "sameInstance i j \<longleftrightarrow> i\<lparr>biObject := 0\<rparr> = j\<lparr>biObject := 0\<rparr>"

lemma restore_appends:
  "distinct (map biId is) \<Longrightarrow> set (map biId is) \<inter> set (okeys (bpInstances g)) = {} \<Longrightarrow>
   \<exists>js. bpInstances (restoreInstances is g) = bpInstances g @ js \<and> map fst js = map biId is
     \<and> list_all2 (\<lambda>i e. sameInstance (restored i) (snd e)) is js"
proof (induction "is" g rule: restoreInstances.induct)
  case (2 i rest g)
  let ?i = "(restored i)\<lparr>biObject := bpObjects g\<rparr>"
  let ?g = "g\<lparr>bpInstances := oset (biId i) ?i (bpInstances g), bpObjects := Suc (bpObjects g)\<rparr>"
  have new: "bpInstances ?g = bpInstances g @ [(biId i, ?i)]"
    using 2(3) by (simp add: oset_fresh)
  then have "set (map biId rest) \<inter> set (okeys (bpInstances ?g)) = {}"
    using 2(2, 3) by auto
  then obtain js where "bpInstances (restoreInstances rest ?g) = bpInstances ?g @ js" "map fst js = map biId rest"
    "list_all2 (\<lambda>i e. sameInstance (restored i) (snd e)) rest js"
    using 2(1, 2) by auto
  then show ?case
    using new by (intro exI [of _ "(biId i, ?i) # js"]) (simp add: sameInstance_def)
qed (simp add: sameInstance_def)

lemma foldl_bindings:
  "distinct (map sbHost bs) \<Longrightarrow> set (map sbHost bs) \<inter> set (okeys m) = {} \<Longrightarrow>
   foldl (\<lambda>m b. oset (sbHost b) b m) m bs = m @ map (\<lambda>b. (sbHost b, b)) bs"
proof (induction bs arbitrary: m)
  case (Cons b bs)
  have "oset (sbHost b) b m = m @ [(sbHost b, b)]" using Cons.prems by (simp add: oset_fresh)
  then show ?case using Cons.IH [of "m @ [(sbHost b, b)]"] Cons.prems by simp
qed simp


section \<open>A bridge that navigates\<close>

definition demoPoolEnv :: poolEnv where
  "demoPoolEnv =
     \<lparr>peStatePath = True, pePolicy = True, peClock = (\<lambda>n. ''now''), peUuid = showDec, peWrite = (\<lambda>n new old. Some new),
      peParseUrl = (\<lambda>u. None), peJson = (\<lambda>v. []), peNumber = (\<lambda>v. JNaN), peText = (\<lambda>v. [])\<rparr>"

definition demoAdd :: addInput where
  "demoAdd = \<lparr>aiName = ''Work'', aiEngine = None, aiMode = Some Bridge, aiProfileName = None, aiCdpEndpoint = None,
     aiNoVncPort = None, aiStart = True\<rparr>"

definition demoPayload :: jsval where
  "demoPayload = JObj [(''op'', JStr ''navigate''), (''url'', JStr ''https://a.test/'')]"

definition poolAdded :: poolState where
  "poolAdded = snd (addInstance demoPoolEnv demoAdd (newPool demoPoolEnv None))"

definition poolAttached :: poolState where
  "poolAttached = snd (attachBridge demoPoolEnv ''brw_0'' 7 poolAdded)"

definition poolCalled :: poolState where
  "poolCalled = snd (bridgeCall demoPoolEnv ''brw_0'' demoPayload (\<lambda>s. True) (\<lambda>s. None) poolAttached)"

definition poolSent :: poolState where
  "poolSent = snd (finishPolicy demoPoolEnv ''brw_0'' demoPayload (Inr ()) (\<lambda>s. True) (\<lambda>s. None)
     (resumed (WaitPolicy ''brw_0'' demoPayload) poolCalled))"

lemma demo_uuids: "freshUuids demoPoolEnv"
proof -
  have "filter (\<lambda>c. c \<noteq> CHR ''-'') (showDec n) = showDec n" for n
    using showDec_digits [of n] by (auto simp: filter_id_conv list_all_iff isDigit_def charCode_def)
  then show ?thesis
    by (auto simp: freshUuids_def requestId_def demoPoolEnv_def inj_def showDec_inj)
qed

lemma demo_reaches: "poolReaches demoPoolEnv (newPool demoPoolEnv None) poolSent"
proof -
  have waits: "WaitPolicy ''brw_0'' demoPayload \<in> set (bpWaiting poolCalled)" by code_simp
  have "poolStep demoPoolEnv (newPool demoPoolEnv None) poolAdded"
    unfolding poolAdded_def by (rule step_add [OF prod.collapse [symmetric]])
  moreover have "poolStep demoPoolEnv poolAdded poolAttached"
    unfolding poolAttached_def by (rule step_attach [OF prod.collapse [symmetric]])
  moreover have "poolStep demoPoolEnv poolAttached poolCalled"
    unfolding poolCalled_def by (rule step_call [OF prod.collapse [symmetric]])
  moreover have "poolStep demoPoolEnv poolCalled poolSent"
    unfolding poolSent_def by (rule step_policy [OF waits prod.collapse [symmetric]])
  ultimately show ?thesis
    by (rule pool_next [OF pool_next [OF pool_next [OF pool_next [OF pool_start]]]])
qed

lemma demo_sent: "bpSent poolSent = [Hello 7 ''brw_0'', Command 7 ''bridge_1'' demoPayload]" "okeys (bpPending poolSent) = [''bridge_1'']"
  by code_simp+

theorem bridge_calls_settled_once_witness:
  "''bridge_1'' \<in> set (okeys (bpPending poolSent)) \<and> ''bridge_1'' \<notin> set (map fst (bpSettled poolSent))"
  using bridge_calls_settled_once [OF demo_uuids demo_reaches] demo_sent by auto

theorem bridge_commands_approved_witness:
  "\<exists>u \<in> set (bpApproved poolSent). getProp demoPayload ''url'' = JStr u"
proof -
  have "Command 7 ''bridge_1'' demoPayload \<in> set (bpSent poolSent)" by (simp add: demo_sent)
  from bridge_commands_approved [OF demo_uuids demo_reaches this] show ?thesis
    by (simp add: demoPayload_def demoPoolEnv_def)
qed


section \<open>Where the pool goes wrong\<close>

text \<open>
  A configuration that is refused late has changed the instance: here the profile name is
  refused, after the mode was set to CDP but before the endpoint was, and nothing is saved.
\<close>

definition demoConfigure :: configureInput where
  "demoConfigure = \<lparr>ciName = None, ciEngine = None, ciMode = Some Managed, ciProfileName = Put '' '', ciCdpEndpoint = Keep,
     ciNoVncPort = Keep\<rparr>"

lemma refused_configuration_changes_instance:
  "fst (configureInstance demoPoolEnv ''brw_0'' demoConfigure poolAdded) = Inl (PoolError ''INVALID_NAME'')"
  "map_option biMode (oget (bpInstances (snd (configureInstance demoPoolEnv ''brw_0'' demoConfigure poolAdded))) ''brw_0'') = Some Managed"
  "map_option biMode (oget (bpInstances poolAdded) ''brw_0'') = Some Bridge"
  "bpWrites (snd (configureInstance demoPoolEnv ''brw_0'' demoConfigure poolAdded)) = bpWrites poolAdded"
  by code_simp+

text \<open>
  A session whose start ends after its instance was removed is dropped: no instance holds it and
  no stop is asked for, so the browser stays open.
\<close>

lemma removed_instance_leaks_session:
  assumes "oget (bpInstances g) ident = None"
  shows "fst (finishStart env ident n (Inr session) g) = Inl (PoolError ''BROWSER_INSTANCE_NOT_FOUND'')"
    and "bpInstances (snd (finishStart env ident n (Inr session) g)) = bpInstances g"
    and "bpWaiting (snd (finishStart env ident n (Inr session) g)) = bpWaiting g"
  using assms
  by (simp_all add: finishStart_def updateInstance_def poolNow_def changeObject_def persist_def requireInstance_def fail_def act_defs)

text \<open>
  The name made of a long context identifier is refused inside the listener of a socket, where
  nothing catches the error, after the listener was taken off.
\<close>

lemma long_context_throws:
  "fst (firstMessage demoPoolEnv 7 None (Some (JObj [(''type'', JStr ''ready''), (''contextId'', JStr (replicate 56 CHR ''c''))]))
     (newPool demoPoolEnv None)) = Inl (PoolError ''INVALID_NAME'')"
  by code_simp

text \<open>
  A message that still arrives on the socket of a stopped bridge marks its instance as ready,
  although there is no socket any more.
\<close>

definition poolStopped :: poolState where
  "poolStopped = snd (stopInstance demoPoolEnv ''brw_0'' poolAttached)"

lemma late_ready_without_socket:
  "oget (bpSockets poolStopped) ''brw_0'' = None"
  "map_option biState (oget (bpInstances poolStopped) ''brw_0'') = Some INST_AWAITING_BRIDGE"
  "(7, ''brw_0'') \<in> set (bpListeners poolStopped)"
  "map_option biState (oget (bpInstances (snd (handleBridgeMessage demoPoolEnv ''brw_0'' 20
      (Some (JObj [(''type'', JStr ''ready'')])) poolStopped))) ''brw_0'') = Some INST_READY"
  by code_simp+

end
