(* ===== verification/SessionOptions.thy ===== *)
theory SessionOptions
  imports Domain TaskTypes ServerConfig UrlPolicy
begin

text \<open>
  What a browser session is started with: the workspace name (\<open>browser/workspace.ts\<close>), the proxy
  (\<open>proxy/validator.ts\<close>), the place a browser claims to be in (\<open>geoip/\<close>), and the options the session
  manager makes out of its own, of those of the caller and of a saved profile
  (\<open>browser/session-manager.ts\<close>).

  Options are objects; functions and server objects among them are opaque values.  \<open>new URL\<close>,
  \<open>decodeURIComponent\<close> and the generator of fingerprints are parameters.
\<close>

section \<open>Errors\<close>

text \<open>
  \<open>ToolFault\<close> is a \<open>BrowserToolError\<close> with its details and its other options, \<open>SessionFault\<close> a
  \<open>BrowserSessionError\<close>, \<open>ThrownBy\<close> whatever a called component threw.
\<close>

datatype managerError =
    ToolFault errorCode "(string \<times> jsval) list" "(string \<times> jsval) list"
  | MessageFault errorCode string
  | SessionFault errorCode string "(string \<times> jsval) list"
  | PlainError string
  | TenantFault taskError
  | ThrownBy jsval

text \<open>Fields of an object, and texts that its interface promises.\<close>

abbreviation field :: "(string, jsval) omap \<Rightarrow> string \<Rightarrow> jsval" where
  "field m \<equiv> getProp (JObj m)"

definition textOpt :: "jsval \<Rightarrow> string option" where
  "textOpt v = (case v of JStr s \<Rightarrow> Some s | _ \<Rightarrow> None)"

definition textOr :: "string \<Rightarrow> jsval \<Rightarrow> string" where
  "textOr d v = (case v of JStr (c # cs) \<Rightarrow> c # cs | _ \<Rightarrow> d)"

text \<open>\<open>...(v !== undefined ? { key: v } : {})\<close> and the spread of several such objects\<close>

definition given :: "string \<Rightarrow> jsval \<Rightarrow> (string \<times> jsval) list" where
  "given k v = (if v = JUndef then [] else [(k, v)])"

definition spreadOver :: "(string, jsval) omap \<Rightarrow> (string \<times> jsval) list \<Rightarrow> (string, jsval) omap" where
  "spreadOver base extra = fold (\<lambda>(k, v). oset k v) extra base"

section \<open>Workspace names\<close>

definition normalizeWorkspaceName :: "jsval \<Rightarrow> managerError + string option" where
  "normalizeWorkspaceName value =
     (let refused = Inl (ToolFault E_INVALID_ARGUMENT [(''field'', JStr ''workspaceName'')] []) in
      case value of
        JUndef \<Rightarrow> Inr None
      | JStr s \<Rightarrow>
          (let normalized = take 128 (trim (map (\<lambda>c. if charCode c < 32 \<or> charCode c = 127 then CHR '' '' else c) s))
           in if normalized = [] then refused else Inr (Some normalized))
      | _ \<Rightarrow> refused)"

section \<open>Proxies\<close>

record normalizedProxy =
  npServer :: string
  npType :: string
  npHost :: string
  npPort :: nat
  npUsername :: "string option"
  npPassword :: "string option"
  npBypass :: "string option"

text \<open>The parsed URL comes with the text of its port.\<close>

record proxyEnv =
  pxParse :: "string \<Rightarrow> (parsedUrl \<times> string) option"
  pxDecode :: "string \<Rightarrow> string option"

definition SUPPORTED_PROTOCOLS :: "string list" where
  "SUPPORTED_PROTOCOLS = [''http:'', ''https:'', ''socks4:'', ''socks5:'']"

definition proxyFault :: "string \<Rightarrow> managerError" where
  "proxyFault message = MessageFault E_INVALID_ARGUMENT message"

definition proxyPort :: "string \<Rightarrow> string \<Rightarrow> nat" where
  "proxyPort type port =
     (let p = (if port = [] then 0 else decimalValue port) in
      if p < 1 \<or> 65535 < p then (if startsWith type ''socks'' then 1080 else 8080) else p)"

text \<open>\<open>explicit || (text ? decodeURIComponent(text) : undefined)\<close>\<close>

definition decoded :: "proxyEnv \<Rightarrow> string \<Rightarrow> managerError + string option" where
  "decoded env s =
     (if s = [] then Inr None
      else case pxDecode env s of None \<Rightarrow> Inl (ThrownBy (JStr ''URI malformed'')) | Some t \<Rightarrow> Inr (Some t))"

definition normalizeProxyText ::
  "proxyEnv \<Rightarrow> string \<Rightarrow> string option \<Rightarrow> string option \<Rightarrow> string option \<Rightarrow> string option \<Rightarrow> managerError + normalizedProxy" where
  "normalizeProxyText env server explicitType explicitUser explicitPass explicitBypass =
     bindR (guardR (server = []) (proxyFault ''Proxy server address cannot be empty.'')) (\<lambda>_.
     let scheme = (case nonEmpty explicitType of None \<Rightarrow> ''http'' | Some t \<Rightarrow> t);
         url = (if includesStr server ''://'' then server else scheme @ ''://'' @ server)
     in case pxParse env url of
          None \<Rightarrow> Inl (proxyFault (''Invalid proxy server URL: '' @ url))
        | Some (u, port) \<Rightarrow>
            bindR (guardR (\<not> List.member SUPPORTED_PROTOCOLS (uProtocol u))
                (proxyFault (''Unsupported proxy protocol \"'' @ uProtocol u
                   @ ''\". Supported protocols: http, https, socks4, socks5.''))) (\<lambda>_.
            let type = (case nonEmpty explicitType of None \<Rightarrow> takeWhile (\<lambda>c. c \<noteq> CHR '':'') (uProtocol u) | Some t \<Rightarrow> t);
                host = uHostname u
            in bindR (guardR (host = []) (proxyFault ''Proxy server host is missing.'')) (\<lambda>_.
               bindR (case nonEmpty explicitUser of Some n \<Rightarrow> Inr (Some n) | None \<Rightarrow> decoded env (uUsername u)) (\<lambda>username.
               bindR (case explicitPass of Some w \<Rightarrow> Inr (Some w) | None \<Rightarrow> decoded env (uPassword u)) (\<lambda>password.
               Inr \<lparr>npServer = type @ ''://'' @ host @ '':'' @ showDec (proxyPort type port), npType = type, npHost = host,
                    npPort = proxyPort type port, npUsername = nonEmpty username, npPassword = password,
                    npBypass = nonEmpty explicitBypass\<rparr>)))))"

definition normalizeProxyConfig :: "proxyEnv \<Rightarrow> jsval \<Rightarrow> managerError + normalizedProxy" where
  "normalizeProxyConfig env raw =
     (case raw of
        JStr s \<Rightarrow> normalizeProxyText env (trim s) None None None None
      | JObj ps \<Rightarrow> normalizeProxyText env (trim (textOr [] (field ps ''server''))) (textOpt (field ps ''type''))
          (map_option trim (textOpt (field ps ''username''))) (textOpt (field ps ''password''))
          (map_option trim (textOpt (field ps ''bypass'')))
      | JArr xs \<Rightarrow> Inl (proxyFault ''Proxy server address cannot be empty.'')
      | _ \<Rightarrow> Inl (proxyFault ''Proxy configuration must be an object or URL string.''))"

section \<open>Places\<close>

record geoDefaults =
  gdCountry :: string
  gdCountryName :: string
  gdTimezone :: string
  gdLatitude :: rat
  gdLongitude :: rat
  gdLanguages :: "string list"
  gdLocale :: string

definition DEFAULT_GEO :: geoDefaults where
  "DEFAULT_GEO = \<lparr>gdCountry = ''US'', gdCountryName = ''United States'', gdTimezone = ''America/New_York'',
     gdLatitude = 407128 / 10000, gdLongitude = - 74006 / 1000, gdLanguages = [''en-US'', ''en''], gdLocale = ''en-US''\<rparr>"

definition COUNTRY_GEO_DEFAULTS :: "(string, geoDefaults) omap" where
  "COUNTRY_GEO_DEFAULTS =
     [(''US'', DEFAULT_GEO),
      (''CN'', \<lparr>gdCountry = ''CN'', gdCountryName = ''China'', gdTimezone = ''Asia/Shanghai'',
        gdLatitude = 312304 / 10000, gdLongitude = 1214737 / 10000, gdLanguages = [''zh-CN'', ''zh'', ''en''], gdLocale = ''zh-CN''\<rparr>),
      (''GB'', \<lparr>gdCountry = ''GB'', gdCountryName = ''United Kingdom'', gdTimezone = ''Europe/London'',
        gdLatitude = 515074 / 10000, gdLongitude = - 1278 / 10000, gdLanguages = [''en-GB'', ''en''], gdLocale = ''en-GB''\<rparr>),
      (''JP'', \<lparr>gdCountry = ''JP'', gdCountryName = ''Japan'', gdTimezone = ''Asia/Tokyo'',
        gdLatitude = 356762 / 10000, gdLongitude = 1396503 / 10000, gdLanguages = [''ja-JP'', ''ja'', ''en-US'', ''en''], gdLocale = ''ja-JP''\<rparr>),
      (''DE'', \<lparr>gdCountry = ''DE'', gdCountryName = ''Germany'', gdTimezone = ''Europe/Berlin'',
        gdLatitude = 5252 / 100, gdLongitude = 13405 / 1000, gdLanguages = [''de-DE'', ''de'', ''en''], gdLocale = ''de-DE''\<rparr>),
      (''FR'', \<lparr>gdCountry = ''FR'', gdCountryName = ''France'', gdTimezone = ''Europe/Paris'',
        gdLatitude = 488566 / 10000, gdLongitude = 23522 / 10000, gdLanguages = [''fr-FR'', ''fr'', ''en''], gdLocale = ''fr-FR''\<rparr>),
      (''SG'', \<lparr>gdCountry = ''SG'', gdCountryName = ''Singapore'', gdTimezone = ''Asia/Singapore'',
        gdLatitude = 13521 / 10000, gdLongitude = 1038198 / 10000, gdLanguages = [''en-SG'', ''en'', ''zh-CN''], gdLocale = ''en-SG''\<rparr>),
      (''HK'', \<lparr>gdCountry = ''HK'', gdCountryName = ''Hong Kong'', gdTimezone = ''Asia/Hong_Kong'',
        gdLatitude = 223193 / 10000, gdLongitude = 1141694 / 10000, gdLanguages = [''zh-HK'', ''zh-TW'', ''zh'', ''en''], gdLocale = ''zh-HK''\<rparr>),
      (''KR'', \<lparr>gdCountry = ''KR'', gdCountryName = ''South Korea'', gdTimezone = ''Asia/Seoul'',
        gdLatitude = 375665 / 10000, gdLongitude = 126978 / 1000, gdLanguages = [''ko-KR'', ''ko'', ''en''], gdLocale = ''ko-KR''\<rparr>),
      (''AU'', \<lparr>gdCountry = ''AU'', gdCountryName = ''Australia'', gdTimezone = ''Australia/Sydney'',
        gdLatitude = - 338688 / 10000, gdLongitude = 1512093 / 10000, gdLanguages = [''en-AU'', ''en''], gdLocale = ''en-AU''\<rparr>),
      (''CA'', \<lparr>gdCountry = ''CA'', gdCountryName = ''Canada'', gdTimezone = ''America/Toronto'',
        gdLatitude = 436532 / 10000, gdLongitude = - 793832 / 10000, gdLanguages = [''en-CA'', ''en'', ''fr-CA''], gdLocale = ''en-CA''\<rparr>),
      (''RU'', \<lparr>gdCountry = ''RU'', gdCountryName = ''Russia'', gdTimezone = ''Europe/Moscow'',
        gdLatitude = 557558 / 10000, gdLongitude = 376173 / 10000, gdLanguages = [''ru-RU'', ''ru'', ''en''], gdLocale = ''ru-RU''\<rparr>),
      (''NL'', \<lparr>gdCountry = ''NL'', gdCountryName = ''Netherlands'', gdTimezone = ''Europe/Amsterdam'',
        gdLatitude = 523676 / 10000, gdLongitude = 49041 / 10000, gdLanguages = [''nl-NL'', ''nl'', ''en-US'', ''en''], gdLocale = ''nl-NL''\<rparr>),
      (''UA'', \<lparr>gdCountry = ''UA'', gdCountryName = ''Ukraine'', gdTimezone = ''Europe/Kyiv'',
        gdLatitude = 504501 / 10000, gdLongitude = 305234 / 10000, gdLanguages = [''uk-UA'', ''uk'', ''en''], gdLocale = ''uk-UA''\<rparr>),
      (''TW'', \<lparr>gdCountry = ''TW'', gdCountryName = ''Taiwan'', gdTimezone = ''Asia/Taipei'',
        gdLatitude = 25033 / 1000, gdLongitude = 1215654 / 10000, gdLanguages = [''zh-TW'', ''zh'', ''en''], gdLocale = ''zh-TW''\<rparr>)]"

definition upperCase :: "string \<Rightarrow> string" where
  "upperCase s = map (\<lambda>c. if isLower c then char_of (charCode c - 32) else c) s"

definition findGeoByCountryCode :: "string \<Rightarrow> geoDefaults" where
  "findGeoByCountryCode countryCode =
     (case oget COUNTRY_GEO_DEFAULTS (upperCase (trim countryCode)) of None \<Rightarrow> DEFAULT_GEO | Some d \<Rightarrow> d)"

text \<open>\<open>fr;q=0.9,en;q=0.8\<close>: the weight falls by a tenth, to a tenth at least.\<close>

definition languageRange :: "nat \<Rightarrow> string \<Rightarrow> string" where
  "languageRange i lang = (if i = 0 then lang else lang @ '';q=0.'' @ showDec (max 1 (10 - i)))"

definition acceptLanguage :: "string list \<Rightarrow> string" where
  "acceptLanguage languages = joinStr '','' (map2 languageRange [0..<length languages] languages)"

record geoAlignment =
  gaTimezone :: string
  gaLocale :: string
  gaLanguages :: "string list"
  gaGeolocation :: jsval
  gaCountry :: string
  gaHeaders :: "(string \<times> jsval) list"

definition alignGeoEnvironment :: "(string, jsval) omap \<Rightarrow> geoAlignment" where
  "alignGeoEnvironment options =
     (let defaults = findGeoByCountryCode (textOr ''US'' (field options ''countryCode''));
          languages = (case field options ''locale'' of JStr (c # cs) \<Rightarrow> [c # cs] | _ \<Rightarrow> gdLanguages defaults);
          place = field options ''geolocation''
      in \<lparr>gaTimezone = textOr (gdTimezone defaults) (field options ''timezone''),
          gaLocale = textOr (gdLocale defaults) (field options ''locale''),
          gaLanguages = languages,
          gaGeolocation = JObj [(''latitude'', nullish (getProp place ''latitude'') (JNum (JFin (gdLatitude defaults)))),
            (''longitude'', nullish (getProp place ''longitude'') (JNum (JFin (gdLongitude defaults)))),
            (''accuracy'', nullish (getProp place ''accuracy'') (JNum (JFin 100)))],
          gaCountry = gdCountry defaults,
          gaHeaders = [(''Accept-Language'', JStr (acceptLanguage languages)),
            (''Accept'', JStr ''text/html,application/xhtml+xml,application/xml;q=0.9,image/avif,image/webp,*/*;q=0.8''),
            (''Sec-Fetch-Site'', JStr ''none''), (''Sec-Fetch-Mode'', JStr ''navigate''), (''Sec-Fetch-User'', JStr ''?1''),
            (''Sec-Fetch-Dest'', JStr ''document''), (''Upgrade-Insecure-Requests'', JStr ''1'')]\<rparr>)"

section \<open>Fingerprints of saved profiles\<close>

text \<open>\<open>stableProfileSeed\<close>: 32-bit FNV-1a, never zero.\<close>

definition stableProfileSeed :: "string \<Rightarrow> 32 word" where
  "stableProfileSeed profileId =
     (let hash = foldl (\<lambda>h c. (h XOR of_nat (charCode c)) * 0x01000193) (0x811c9dc5 :: 32 word) profileId
      in if hash = 0 then 1 else hash)"

definition seedValue :: "32 word \<Rightarrow> jsval" where
  "seedValue w = JNum (JFin (of_int (uint w)))"

definition fieldsOf :: "jsval \<Rightarrow> (string, jsval) omap" where
  "fieldsOf v = (case v of JObj ps \<Rightarrow> ps | _ \<Rightarrow> [])"

text \<open>\<open>Math.max(240, height - 40)\<close>\<close>

definition belowTaskbar :: "jsval \<Rightarrow> jsval" where
  "belowTaskbar height = (case height of
     JNum (JFin h) \<Rightarrow> JNum (JFin (max 240 (h - 40)))
   | JNum JPosInf \<Rightarrow> JNum JPosInf
   | JNum JNegInf \<Rightarrow> JNum (JFin 240)
   | _ \<Rightarrow> JNum JNaN)"

definition screenOf :: "jsval \<Rightarrow> jsval \<Rightarrow> jsval" where
  "screenOf generated settings =
     (if \<not> truthy settings then generated
      else JObj (spreadOver (fieldsOf generated)
        [(''width'', getProp settings ''width''), (''height'', getProp settings ''height''),
         (''availWidth'', nullish (getProp settings ''availWidth'') (getProp settings ''width'')),
         (''availHeight'', nullish (getProp settings ''availHeight'') (belowTaskbar (getProp settings ''height''))),
         (''colorDepth'', nullish (getProp settings ''colorDepth'') (getProp generated ''colorDepth'')),
         (''pixelDepth'', nullish (getProp settings ''colorDepth'') (getProp generated ''pixelDepth'')),
         (''devicePixelRatio'', nullish (getProp settings ''devicePixelRatio'') (getProp generated ''devicePixelRatio''))]))"

definition fingerprintForSavedProfile ::
  "(jsval \<Rightarrow> jsval) \<Rightarrow> jsval \<Rightarrow> jsval \<Rightarrow> jsval \<Rightarrow> jsval \<Rightarrow> jsval" where
  "fingerprintForSavedProfile generate profile seed engine countryCode =
     (let settings = getProp profile ''fingerprint'';
          generated = generate (JObj ([(''seed'', seed), (''engine'', engine)]
            @ given ''os'' (getProp settings ''os'') @ given ''countryCode'' countryCode));
          screen = screenOf (getProp generated ''screen'') (getProp settings ''screen'')
      in JObj (spreadOver (fieldsOf generated)
        [(''screen'', screen),
         (''viewport'', JObj [(''width'', getProp screen ''availWidth''), (''height'', getProp screen ''availHeight'')]),
         (''hardware'', JObj (spreadOver (fieldsOf (getProp generated ''hardware''))
            (given ''hardwareConcurrency'' (getProp settings ''hardwareConcurrency'')
             @ given ''deviceMemory'' (getProp settings ''deviceMemory'')
             @ [(''screenWidth'', getProp screen ''width''), (''screenHeight'', getProp screen ''height''),
                (''availWidth'', getProp screen ''availWidth''), (''availHeight'', getProp screen ''availHeight''),
                (''colorDepth'', getProp screen ''colorDepth''),
                (''devicePixelRatio'', getProp screen ''devicePixelRatio'')])))]))"

section \<open>The options of a session\<close>

text \<open>
  A request to start a session: the options of the caller, and what has been read for it so far.
  Without a profile the last three are \<open>undefined\<close>.
\<close>

record startRequest =
  rqOptions :: "(string, jsval) omap"
  rqName :: "string option"
  rqRetention :: jsval
  rqTenant :: string
  rqProfile :: jsval
  rqCookies :: jsval
  rqExtensions :: jsval

text \<open>
  What the session is made with.  \<open>spCookiesTo\<close> is the profile \<open>onCookiesPersist\<close> writes to, when the
  caller named one.
\<close>

record sessionSpec =
  spFields :: "(string, jsval) omap"
  spCookiesTo :: "jsval"

definition callerOr :: "(string, jsval) omap \<Rightarrow> string \<Rightarrow> (string, jsval) omap \<Rightarrow> string \<Rightarrow> jsval" where
  "callerOr co k m l = nullish (field co k) (field m l)"

text \<open>\<open>if (!value && saved) value = saved\<close>\<close>

definition orSaved :: "jsval \<Rightarrow> jsval \<Rightarrow> jsval" where
  "orSaved v saved = (if \<not> truthy v \<and> truthy saved then saved else v)"

definition savedGeo :: "startRequest \<Rightarrow> string \<Rightarrow> jsval" where
  "savedGeo rq k = getProp (getProp (rqProfile rq) ''geo'') k"

definition chosenEngine :: "(string, jsval) omap \<Rightarrow> startRequest \<Rightarrow> jsval" where
  "chosenEngine m rq = orSaved (callerOr (rqOptions rq) ''engine'' m ''engine'') (getProp (rqProfile rq) ''engine'')"

definition chosenCountry :: "(string, jsval) omap \<Rightarrow> startRequest \<Rightarrow> jsval" where
  "chosenCountry m rq = orSaved (callerOr (rqOptions rq) ''countryCode'' m ''countryCode'') (savedGeo rq ''countryCode'')"

definition profileSeed :: "jsval \<Rightarrow> jsval" where
  "profileSeed profile = seedValue (stableProfileSeed (textOr [] (getProp profile ''profileId'')))"

definition chosenSeed :: "(string, jsval) omap \<Rightarrow> startRequest \<Rightarrow> jsval" where
  "chosenSeed m rq =
     (let seed = callerOr (rqOptions rq) ''fingerprintSeed'' m ''fingerprintSeed'' in
      if truthy (rqProfile rq)
      then nullish seed (nullish (getProp (getProp (rqProfile rq) ''fingerprint'') ''seed'') (profileSeed (rqProfile rq)))
      else seed)"

definition launchEngine :: "(string, jsval) omap \<Rightarrow> startRequest \<Rightarrow> jsval" where
  "launchEngine m rq = nullish (chosenEngine m rq) (nullish (getProp (rqProfile rq) ''engine'') (JStr ''firefox''))"

definition chosenFingerprint :: "(jsval \<Rightarrow> jsval) \<Rightarrow> (string, jsval) omap \<Rightarrow> startRequest \<Rightarrow> jsval" where
  "chosenFingerprint generate m rq =
     (let wanted = callerOr (rqOptions rq) ''fingerprint'' m ''fingerprint'' in
      if wanted = JBool True \<and> truthy (rqProfile rq)
      then fingerprintForSavedProfile generate (rqProfile rq)
             (nullish (chosenSeed m rq) (profileSeed (rqProfile rq))) (launchEngine m rq)
             (nullish (chosenCountry m rq) (savedGeo rq ''countryCode''))
      else wanted)"

definition proxyFields :: "normalizedProxy \<Rightarrow> (string \<times> jsval) list" where
  "proxyFields p = [(''server'', JStr (npServer p))]
     @ (case npUsername p of None \<Rightarrow> [] | Some s \<Rightarrow> [(''username'', JStr s)])
     @ (case npPassword p of None \<Rightarrow> [] | Some s \<Rightarrow> [(''password'', JStr s)])
     @ (case npBypass p of None \<Rightarrow> [] | Some s \<Rightarrow> [(''bypass'', JStr s)])"

definition effectiveProfileName :: "(string, jsval) omap \<Rightarrow> (string, jsval) omap \<Rightarrow> jsval" where
  "effectiveProfileName m co = nullish (field co ''profileId'') (callerOr co ''profileName'' m ''profileName'')"

definition persistsProfile :: "(string, jsval) omap \<Rightarrow> (string, jsval) omap \<Rightarrow> bool" where
  "persistsProfile m co \<longleftrightarrow> field co ''profileId'' \<noteq> JUndef \<or> field m ''persistentProfile'' = JBool True"

text \<open>\<open>persistentProfileKey\<close>: the trimmed name when it can name a directory.\<close>

definition persistentProfileKey :: "jsval \<Rightarrow> string option" where
  "persistentProfileKey v = (case v of
     JStr s \<Rightarrow> if TENANT_ID_PATTERN (trim s) then Some (trim s) else None
   | _ \<Rightarrow> None)"

definition profileKey :: "(string, jsval) omap \<Rightarrow> (string, jsval) omap \<Rightarrow> string option" where
  "profileKey m co = (if persistsProfile m co then persistentProfileKey (effectiveProfileName m co) else None)"

text \<open>The options of the manager a session does not get.\<close>

definition MANAGER_ONLY :: "string list" where
  "MANAGER_ONLY = [''maxSessions'', ''policyProfile'', ''sessionFactory'', ''cluster'', ''sessionTtlMs'', ''handoffTtlMs'',
     ''workspaceTtlMs'', ''privateNetworkEnabled'', ''clock'', ''extensionStore'']"

text \<open>Proxy and place are worked out, and may be refused, before the profile is looked at.\<close>

record networkChoice =
  ncProxy :: "normalizedProxy option"
  ncGeo :: "geoAlignment option"

definition chooseNetwork :: "proxyEnv \<Rightarrow> (string, jsval) omap \<Rightarrow> startRequest \<Rightarrow> managerError + networkChoice" where
  "chooseNetwork env m rq =
     (let co = rqOptions rq;
          proxy = orSaved (callerOr co ''proxy'' m ''proxy'') (getProp (rqProfile rq) ''proxy'');
          country = chosenCountry m rq;
          timezone = orSaved (callerOr co ''timezone'' m ''timezoneId'') (savedGeo rq ''timezone'');
          locale = orSaved (callerOr co ''locale'' m ''locale'') (savedGeo rq ''locale'');
          place = orSaved (callerOr co ''geolocation'' m ''geolocation'') (savedGeo rq ''geolocation'')
      in bindR (if truthy proxy then bindR (normalizeProxyConfig env proxy) (\<lambda>p. Inr (Some p)) else Inr None) (\<lambda>p.
         Inr \<lparr>ncProxy = p, ncGeo = (if list_ex truthy [proxy, country, timezone, locale, place]
           then Some (alignGeoEnvironment (given ''countryCode'' country @ given ''timezone'' timezone
             @ given ''locale'' locale @ given ''geolocation'' place)) else None)\<rparr>))"

text \<open>
  The fields spread over the options of the manager; those that are \<open>undefined\<close> are left out.
  Proxy and place are given only when they were worked out.
\<close>

definition whenChosen :: "'a option \<Rightarrow> ('a \<Rightarrow> jsval) \<Rightarrow> jsval" where
  "whenChosen chosen f = (case chosen of None \<Rightarrow> JUndef | Some x \<Rightarrow> f x)"

definition sessionFields ::
  "(jsval \<Rightarrow> jsval) \<Rightarrow> (string, jsval) omap \<Rightarrow> startRequest \<Rightarrow> networkChoice \<Rightarrow> (string \<times> jsval) list" where
  "sessionFields generate m rq network =
     (let co = rqOptions rq; geo = whenChosen (ncGeo network) in
      [(''headless'', field co ''headless''), (''runtimeMode'', field co ''runtimeMode''), (''viewport'', field co ''viewport''),
       (''profileName'', effectiveProfileName m co),
       (''persistentProfile'', JBool (persistsProfile m co)),
       (''engine'', chosenEngine m rq),
       (''cdpEndpoint'', field co ''cdpEndpoint''), (''inputProfile'', field co ''inputProfile''), (''seed'', field co ''seed''),
       (''proxy'', whenChosen (ncProxy network) (\<lambda>p. JObj (proxyFields p))),
       (''countryCode'', chosenCountry m rq),
       (''timezoneId'', geo (\<lambda>a. JStr (gaTimezone a))), (''locale'', geo (\<lambda>a. JStr (gaLocale a))),
       (''geolocation'', geo gaGeolocation), (''permissions'', geo (\<lambda>a. JArr [JStr ''geolocation''])),
       (''extraHTTPHeaders'', geo (\<lambda>a. JObj (gaHeaders a))),
       (''userAgent'', orSaved (callerOr co ''userAgent'' m ''userAgent'') (getProp (rqProfile rq) ''userAgent'')),
       (''fingerprint'', chosenFingerprint generate m rq),
       (''fingerprintSeed'', chosenSeed m rq),
       (''initialCookies'', rqCookies rq), (''managedExtensions'', rqExtensions rq),
       (''challengePolicy'', field co ''challengePolicy'')])"

definition sessionOptions ::
  "(jsval \<Rightarrow> jsval) \<Rightarrow> jsval \<Rightarrow> (string, jsval) omap \<Rightarrow> startRequest \<Rightarrow> networkChoice \<Rightarrow> sessionSpec" where
  "sessionOptions generate policy m rq network =
     \<lparr>spFields = fold odelete MANAGER_ONLY
        (spreadOver m ((''automationPolicy'', policy) # filter (\<lambda>(k, v). v \<noteq> JUndef) (sessionFields generate m rq network))),
      spCookiesTo = field (rqOptions rq) ''profileId''\<rparr>"

end
