(* ===== verification/OptionSpec.thy ===== *)
theory OptionSpec
  imports SessionOptions
begin

text \<open>
  What the options of a session are: every option outside the fields a caller may set is the one of
  the server, the limits of the manager are not passed on, and the lock the manager takes is the one
  the session's own options ask for.
\<close>

section \<open>Reading the options of a session\<close>

lemma oget_spread: "oget (spreadOver base extra) k = (case oget (rev extra) k of Some v \<Rightarrow> Some v | None \<Rightarrow> oget base k)"
proof (induction extra arbitrary: base)
  case (Cons kv extra)
  then show ?case by (cases kv) (auto simp: spreadOver_def oget_oset map_of_append map_add_def split: option.splits)
qed (simp add: spreadOver_def)

lemma oget_dropped: "oget (fold odelete ks m) k = (if k \<in> set ks then None else oget m k)"
  by (induction ks arbitrary: m) (auto simp: oget_odelete)

lemma oget_rev: "owf m \<Longrightarrow> oget (rev m) k = oget m k"
proof -
  assume m: "owf m"
  then have "owf (rev m)" by (simp add: rev_map [symmetric])
  then have "oget (rev m) k = Some v \<longleftrightarrow> oget m k = Some v" for v
    using m by (simp add: map_of_eq_Some_iff)
  then show ?thesis by (metis not_Some_eq)
qed

lemma oget_defined: "owf m \<Longrightarrow> oget (filter (\<lambda>(k, v). v \<noteq> JUndef) m) k
    = (case oget m k of Some v \<Rightarrow> if v = JUndef then None else Some v | None \<Rightarrow> None)"
  by (induction m) (auto simp: oget_None_iff split: option.split)

text \<open>The fields a session gets from its caller, its profile or the policy.\<close>

definition SESSION_FIELDS :: "string list" where
  "SESSION_FIELDS = [''headless'', ''runtimeMode'', ''viewport'', ''profileName'', ''persistentProfile'',
     ''engine'', ''cdpEndpoint'', ''inputProfile'', ''seed'', ''proxy'', ''countryCode'', ''timezoneId'', ''locale'',
     ''geolocation'', ''permissions'', ''extraHTTPHeaders'', ''userAgent'', ''fingerprint'', ''fingerprintSeed'',
     ''initialCookies'', ''managedExtensions'', ''challengePolicy'']"

lemma session_keys: "okeys (sessionFields generate m rq network) = SESSION_FIELDS"
  by (simp add: sessionFields_def SESSION_FIELDS_def Let_def)

lemma session_keys_distinct: "distinct SESSION_FIELDS" "''automationPolicy'' \<notin> set SESSION_FIELDS"
  "distinct (''automationPolicy'' # SESSION_FIELDS)"
  by code_simp+

lemma oget_session:
  "oget (spFields (sessionOptions generate policy m rq network)) k =
     (if k \<in> set MANAGER_ONLY then None
      else if k = ''automationPolicy'' then Some policy
      else case oget (sessionFields generate m rq network) k of
        Some v \<Rightarrow> if v = JUndef then oget m k else Some v | None \<Rightarrow> oget m k)"
proof -
  let ?xs = "sessionFields generate m rq network"
  have xs: "owf ?xs" "oget ?xs ''automationPolicy'' = None"
    using session_keys_distinct by (simp_all add: session_keys oget_None_iff)
  have "owf (filter (\<lambda>(k, v). v \<noteq> JUndef) ?xs)" using xs(1) by (rule distinct_map_filter)
  then have "oget (rev ((''automationPolicy'', policy) # filter (\<lambda>(k, v). v \<noteq> JUndef) ?xs)) k
      = (if k = ''automationPolicy'' then Some policy
         else case oget ?xs k of Some v \<Rightarrow> if v = JUndef then None else Some v | None \<Rightarrow> None)"
    using xs by (auto simp: oget_rev oget_defined map_add_def split: option.split)
  then show ?thesis
    by (simp add: sessionOptions_def oget_dropped oget_spread split: option.split del: rev.simps)
qed

lemma session_fields:
  "oget (sessionFields generate m rq network) ''persistentProfile'' = Some (JBool (persistsProfile m (rqOptions rq)))"
  "oget (sessionFields generate m rq network) ''profileName'' = Some (effectiveProfileName m (rqOptions rq))"
  by (simp_all add: sessionFields_def Let_def)

section \<open>The lock of a saved profile\<close>

text \<open>The lock a session needs for the options it was made with.\<close>

definition lockOf :: "sessionSpec \<Rightarrow> string option" where
  "lockOf spec = (if field (spFields spec) ''persistentProfile'' = JBool True
     then persistentProfileKey (field (spFields spec) ''profileName'') else None)"

lemma lockOf_options: "lockOf (sessionOptions generate policy m rq network) = profileKey m (rqOptions rq)"
proof -
  have persistent: "field (spFields (sessionOptions generate policy m rq network)) ''persistentProfile'' = JBool (persistsProfile m (rqOptions rq))"
    by (simp add: oget_session session_fields MANAGER_ONLY_def)
  have name: "field (spFields (sessionOptions generate policy m rq network)) ''profileName''
      = (if effectiveProfileName m (rqOptions rq) = JUndef then field m ''profileName'' else effectiveProfileName m (rqOptions rq))"
    by (simp add: oget_session session_fields MANAGER_ONLY_def)
  have "effectiveProfileName m (rqOptions rq) = JUndef \<Longrightarrow> persistentProfileKey (field m ''profileName'') = None"
    by (auto simp: effectiveProfileName_def callerOr_def nullish_def persistentProfileKey_def split: if_splits)
  moreover have "persistentProfileKey JUndef = None" by (simp add: persistentProfileKey_def)
  ultimately show ?thesis by (simp only: lockOf_def profileKey_def persistent name jsval.inject split: if_split) auto
qed

section \<open>The options of the server\<close>


definition demoRequest :: startRequest where
  "demoRequest = \<lparr>rqOptions = [(''headless'', JBool False), (''auditLogger'', JStr ''caller''), (''maxSessions'', JNum (JFin 9))],
     rqName = None, rqRetention = JStr ''destroy'', rqTenant = ''default'', rqProfile = JUndef, rqCookies = JUndef,
     rqExtensions = JUndef\<rparr>"

definition demoServerOptions :: "(string, jsval) omap" where
  "demoServerOptions = [(''auditLogger'', JStr ''server''), (''maxSessions'', JNum (JFin 2)), (''headless'', JBool True)]"


end
