(* ===== verification/SessionManager.thy ===== *)
theory SessionManager
  imports SessionOptions ControlLease
begin

text \<open>
  The manager of browser sessions and their workspaces (\<open>browser/session-manager.ts\<close>): starting and
  stopping sessions, their expiry, the locks on saved profiles, tenants, handing a workspace to a
  person and back, and the calls passed on to a session.

  Calls that wait leave a \<open>managerWait\<close> behind and are resumed by an operation of their own.  A
  session object is a number; what it answers, its state and its status are arguments of the
  operations that read them, and every call made on one is recorded.  An armed timer may fire at any
  later time.  The clock, identifiers, the lease digest and the options are in the environment.
\<close>

section \<open>State\<close>

record workspace =
  wsId :: string
  wsTenant :: string
  wsName :: string
  wsOwner :: controlOwner
  wsControl :: controlState
  wsRetention :: jsval
  wsSession :: string
  wsCreated :: rat
  wsUpdated :: rat
  wsExpires :: "rat option"

record sessionStatus =
  ssSession :: string
  ssState :: string
  ssRest :: jsval

text \<open>A session object as it is when it is read; its status may throw.\<close>

record liveView =
  lvState :: "nat \<Rightarrow> string"
  lvStatus :: "nat \<Rightarrow> jsval + sessionStatus"

datatype timerKind = SessionTimer string nat | RetryTimer string nat | WorkspaceTimer string rat

record expiryEntry =
  exHandle :: nat
  exGeneration :: nat
  exAt :: "rat option"

datatype sessionCall =
    CallStart
  | CallStop "string option"
  | CallHandoff "rat option" "string option"
  | CallTakeover string bool
  | CallMethod string "jsval list"

text \<open>Who asked for a stop, a handoff or a takeover.\<close>

datatype stopOrigin = CallerStop | ExpiryStop
datatype handOrigin = FromSession | FromWorkspace string "string option"

record handoffAnswer =
  hoStatus :: sessionStatus
  hoToken :: string
  hoExpires :: "rat option"

datatype managerWait =
    WaitProfile startRequest
  | WaitCookies startRequest
  | WaitExtensions startRequest
  | WaitLaunch startRequest nat "string option"
  | WaitStopped nat string stopOrigin
  | WaitRetry string
  | WaitHandoff string handOrigin
  | WaitHandedOff string "string option" handoffAnswer
  | WaitTakeover string handOrigin
  | WaitTaken string "string option" sessionStatus
  | WaitShutdown "nat list"

record managerState =
  mgSessions :: "(string, nat) omap"
  mgProfiles :: "(string, string) omap"
  mgWorkspaces :: "(string, workspace) omap"
  mgBySession :: "(string, string) omap"
  mgLeases :: "(string, string \<times> rat) omap"
  mgClosed :: "(string, sessionStatus) omap"
  mgExpiry :: "(string, expiryEntry) omap"
  mgWorkspaceTimers :: "(string, nat) omap"
  mgExpired :: "(string, unit) omap"
  mgGeneration :: nat
  mgTimers :: "(nat \<times> timerKind \<times> rat) list"
  mgHandles :: nat
  mgWaiting :: "managerWait list"
  mgMade :: "sessionSpec list"
  mgCalls :: "(nat \<times> sessionCall) list"
  mgReads :: nat
  mgUuids :: nat

text \<open>
  \<open>meOptions\<close> are the options of the manager, the limits what its constructor made of them;
  \<open>meUuid\<close> is \<open>None\<close> where \<open>randomUUID\<close> throws.
\<close>

record managerEnv =
  meOptions :: "(string, jsval) omap"
  mePolicy :: jsval
  meMaxSessions :: int
  meMaxClosed :: int
  meSessionTtl :: int
  meHandoffTtl :: int
  meWorkspaceTtl :: int
  meClock :: "nat \<Rightarrow> jsnum"
  meDate :: "nat \<Rightarrow> rat"
  meUuid :: "nat \<Rightarrow> string option"
  meFallback :: "nat \<Rightarrow> string"
  meSessionId :: "nat \<Rightarrow> string"
  meDigest :: "string \<Rightarrow> string"
  meExtensions :: bool
  meProxy :: proxyEnv
  meGenerate :: "jsval \<Rightarrow> jsval"

type_synonym 'x managerAct = "(managerState, managerError, 'x) act"

section \<open>Construction\<close>

definition numberField :: "(string, jsval) omap \<Rightarrow> string \<Rightarrow> int \<Rightarrow> jsnum" where
  "numberField m k d = (case nullish (field m k) (JNum (JFin (of_int d))) of JNum n \<Rightarrow> n | _ \<Rightarrow> JNaN)"

text \<open>The limits the constructor derives from the options and the policy profile.\<close>

definition configured :: "policyLimits \<Rightarrow> managerEnv \<Rightarrow> managerEnv" where
  "configured limits env =
     (let m = meOptions env;
          maxSessions = boundedInteger (numberField m ''maxSessions'' 2) 1 32 2
      in env\<lparr>meMaxSessions := maxSessions,
          meMaxClosed := max 32 (min 512 (maxSessions * 32)),
          meSessionTtl := boundedInteger (numberField m ''sessionTtlMs'' (plSessionTtlMs limits)) 1000
            (min (crMax LIMIT_sessionTtlMs) (plSessionTtlMs limits)) (plSessionTtlMs limits),
          meHandoffTtl := boundedInteger (numberField m ''handoffTtlMs'' (5 * 60000)) 30000 3600000 (5 * 60000),
          meWorkspaceTtl := boundedInteger (numberField m ''workspaceTtlMs'' (plWorkspaceTtlMs limits)) 60000
            (min (7 * 24 * 60 * 60000) (plWorkspaceTtlMs limits)) (plWorkspaceTtlMs limits)\<rparr>)"

definition emptyManager :: managerState where
  "emptyManager = \<lparr>mgSessions = [], mgProfiles = [], mgWorkspaces = [], mgBySession = [], mgLeases = [], mgClosed = [],
     mgExpiry = [], mgWorkspaceTimers = [], mgExpired = [], mgGeneration = 0, mgTimers = [], mgHandles = 0,
     mgWaiting = [], mgMade = [], mgCalls = [], mgReads = 0, mgUuids = 0\<rparr>"

section \<open>Reading and waiting\<close>

definition managerNow :: "managerEnv \<Rightarrow> rat managerAct" where
  "managerNow env = (\<lambda>g. (Inr (case meClock env (mgReads g) of JFin q \<Rightarrow> q | _ \<Rightarrow> meDate env (mgReads g)),
     g\<lparr>mgReads := Suc (mgReads g)\<rparr>))"

definition createWorkspaceId :: "managerEnv \<Rightarrow> string managerAct" where
  "createWorkspaceId env = (\<lambda>g. (Inr (''wsp_'' @ (case meUuid env (mgUuids g) of
       Some u \<Rightarrow> filter (\<lambda>c. c \<noteq> CHR ''-'') u | None \<Rightarrow> meFallback env (mgUuids g))),
     g\<lparr>mgUuids := Suc (mgUuids g)\<rparr>))"

definition waitAs :: "managerWait \<Rightarrow> unit managerAct" where
  "waitAs w = act_modify (\<lambda>g. g\<lparr>mgWaiting := mgWaiting g @ [w]\<rparr>)"

definition callSession :: "nat \<Rightarrow> sessionCall \<Rightarrow> unit managerAct" where
  "callSession s c = act_modify (\<lambda>g. g\<lparr>mgCalls := mgCalls g @ [(s, c)]\<rparr>)"

text \<open>\<open>const v = map.get(k); v ? ... : undefined\<close> for texts\<close>

definition lookupText :: "(string, string) omap \<Rightarrow> string \<Rightarrow> string option" where
  "lookupText m k = nonEmpty (oget m k)"

definition workspaceOf :: "managerState \<Rightarrow> string \<Rightarrow> workspace option" where
  "workspaceOf g sid = Option.bind (lookupText (mgBySession g) sid) (oget (mgWorkspaces g))"

section \<open>Timers\<close>

definition armTimer :: "timerKind \<Rightarrow> rat \<Rightarrow> nat managerAct" where
  "armTimer k delayMs = (\<lambda>g. (Inr (mgHandles g),
     g\<lparr>mgTimers := mgTimers g @ [(mgHandles g, k, delayMs)], mgHandles := Suc (mgHandles g)\<rparr>))"

definition cancelTimer :: "nat \<Rightarrow> managerState \<Rightarrow> managerState" where
  "cancelTimer h g = g\<lparr>mgTimers := filter (\<lambda>t. fst t \<noteq> h) (mgTimers g)\<rparr>"

definition clearExpiryAt :: "string \<Rightarrow> managerState \<Rightarrow> managerState" where
  "clearExpiryAt sid g = (case oget (mgExpiry g) sid of
     None \<Rightarrow> g
   | Some e \<Rightarrow> cancelTimer (exHandle e) (g\<lparr>mgExpiry := odelete sid (mgExpiry g)\<rparr>))"

definition clearSessionTimer :: "string \<Rightarrow> unit managerAct" where
  "clearSessionTimer sid = act_modify (clearExpiryAt sid)"

definition clearAllExpiryTimers :: "unit managerAct" where
  "clearAllExpiryTimers = act_modify (\<lambda>g. fold clearExpiryAt (okeys (mgExpiry g)) g)"

definition nextGeneration :: "nat managerAct" where
  "nextGeneration = (\<lambda>g. (Inr (Suc (mgGeneration g)), g\<lparr>mgGeneration := Suc (mgGeneration g)\<rparr>))"

definition noteExpiry :: "string \<Rightarrow> expiryEntry \<Rightarrow> unit managerAct" where
  "noteExpiry sid e = act_modify (\<lambda>g. g\<lparr>mgExpiry := oset sid e (mgExpiry g)\<rparr>)"

definition scheduleExpiryAt :: "managerEnv \<Rightarrow> string \<Rightarrow> rat \<Rightarrow> unit managerAct" where
  "scheduleExpiryAt env sid until =
     act_then (clearSessionTimer sid)
     (act_bind nextGeneration (\<lambda>gen.
      act_bind (managerNow env) (\<lambda>now.
      act_bind (armTimer (SessionTimer sid gen) (max 0 (until - now))) (\<lambda>handle.
      noteExpiry sid \<lparr>exHandle = handle, exGeneration = gen, exAt = Some until\<rparr>))))"

definition scheduleSessionExpiry :: "managerEnv \<Rightarrow> string \<Rightarrow> unit managerAct" where
  "scheduleSessionExpiry env sid =
     act_bind (managerNow env) (\<lambda>now. scheduleExpiryAt env sid (now + of_int (meSessionTtl env)))"

definition scheduleExpiryRetry :: "managerEnv \<Rightarrow> string \<Rightarrow> unit managerAct" where
  "scheduleExpiryRetry env sid =
     act_then (clearSessionTimer sid)
     (act_bind nextGeneration (\<lambda>gen.
      act_bind (armTimer (RetryTimer sid gen) (of_int (min 5000 (meSessionTtl env)))) (\<lambda>handle.
      noteExpiry sid \<lparr>exHandle = handle, exGeneration = gen, exAt = None\<rparr>)))"

section \<open>Bounded memories\<close>

text \<open>\<open>while (map.size > limit)\<close>: the oldest key goes; an empty one ends the loop.\<close>

fun trimOldest :: "int \<Rightarrow> (string, 'v) omap \<Rightarrow> (string, 'v) omap" where
  "trimOldest limit [] = []"
| "trimOldest limit ((k, v) # rest) =
     (if limit < int (Suc (length rest)) \<and> k \<noteq> [] then trimOldest limit rest else (k, v) # rest)"

definition rememberClosed :: "managerEnv \<Rightarrow> sessionStatus \<Rightarrow> unit managerAct" where
  "rememberClosed env st = act_modify (\<lambda>g. g\<lparr>mgClosed :=
     trimOldest (meMaxClosed env) (oset (ssSession st) st (odelete (ssSession st) (mgClosed g)))\<rparr>)"

definition rememberExpired :: "managerEnv \<Rightarrow> string \<Rightarrow> unit managerAct" where
  "rememberExpired env sid = act_modify (\<lambda>g. g\<lparr>mgExpired :=
     trimOldest (meMaxClosed env) (oset sid () (odelete sid (mgExpired g)))\<rparr>)"

section \<open>Workspaces\<close>

definition clearWorkspaceTimerAt :: "string \<Rightarrow> managerState \<Rightarrow> managerState" where
  "clearWorkspaceTimerAt wid g = (case oget (mgWorkspaceTimers g) wid of
     None \<Rightarrow> g
   | Some h \<Rightarrow> cancelTimer h (g\<lparr>mgWorkspaceTimers := odelete wid (mgWorkspaceTimers g)\<rparr>))"

definition deleteWorkspaceAt :: "string \<Rightarrow> managerState \<Rightarrow> managerState" where
  "deleteWorkspaceAt wid g0 =
     (let g = clearWorkspaceTimerAt wid g0 in
      g\<lparr>mgLeases := odelete wid (mgLeases g),
        mgBySession := (case oget (mgWorkspaces g) wid of
            Some w \<Rightarrow> if oget (mgBySession g) (wsSession w) = Some wid then odelete (wsSession w) (mgBySession g)
                      else mgBySession g
          | None \<Rightarrow> mgBySession g),
        mgWorkspaces := odelete wid (mgWorkspaces g)\<rparr>)"

definition overdue :: "rat \<Rightarrow> workspace \<Rightarrow> bool" where
  "overdue now w \<longleftrightarrow> wsControl w = INACTIVE \<and> (case wsExpires w of None \<Rightarrow> False | Some e \<Rightarrow> e \<le> now)"

definition pruneAtTime :: "rat \<Rightarrow> managerState \<Rightarrow> managerState" where
  "pruneAtTime now g = fold (\<lambda>(wid, w) h. if overdue now w then deleteWorkspaceAt wid h else h) (mgWorkspaces g) g"

definition pruneWorkspaces :: "managerEnv \<Rightarrow> unit managerAct" where
  "pruneWorkspaces env = act_bind (managerNow env) (\<lambda>now. act_modify (pruneAtTime now))"

definition denied :: "string \<Rightarrow> managerError" where
  "denied resource = ToolFault E_PERMISSION_DENIED [(''resource'', JStr resource)] [(''retryable'', JBool False)]"

definition tenantOf :: "string \<Rightarrow> managerError + string" where
  "tenantOf t = (case normalizeTenantId (Some t) of Inl e \<Rightarrow> Inl (TenantFault e) | Inr n \<Rightarrow> Inr n)"

definition assertWorkspaceTenant :: "workspace \<Rightarrow> string \<Rightarrow> managerError + unit" where
  "assertWorkspaceTenant w t = bindR (tenantOf t) (\<lambda>n. guardR (wsTenant w \<noteq> n) (denied ''workspace''))"

definition assertSessionTenant :: "string \<Rightarrow> string \<Rightarrow> unit managerAct" where
  "assertSessionTenant sid t =
     act_bind (act_get (\<lambda>g. workspaceOf g sid)) (\<lambda>found. act_lift (case found of
       None \<Rightarrow> Inl (denied ''browser_session'')
     | Some w \<Rightarrow> bindR (tenantOf t) (\<lambda>n. guardR (wsTenant w \<noteq> n) (denied ''browser_session''))))"

definition forTenant :: "string option \<Rightarrow> (string \<Rightarrow> unit managerAct) \<Rightarrow> unit managerAct" where
  "forTenant tenant check = (case tenant of None \<Rightarrow> act_return () | Some t \<Rightarrow> check t)"

definition requireWorkspace :: "managerEnv \<Rightarrow> string \<Rightarrow> string option \<Rightarrow> workspace managerAct" where
  "requireWorkspace env wid tenant =
     act_then (pruneWorkspaces env)
     (act_bind (act_get (\<lambda>g. oget (mgWorkspaces g) wid)) (\<lambda>found. case found of
        None \<Rightarrow> act_throw (ToolFault E_WORKSPACE_NOT_FOUND [(''workspaceId'', JStr wid)] [])
      | Some w \<Rightarrow> act_then (forTenant tenant (\<lambda>t. act_lift (assertWorkspaceTenant w t))) (act_return w)))"

text \<open>\<open>getWorkspace\<close> returns a copy of what \<open>requireWorkspace\<close> finds.\<close>

definition getWorkspace :: "managerEnv \<Rightarrow> string \<Rightarrow> string option \<Rightarrow> workspace managerAct" where
  "getWorkspace env wid tenant = requireWorkspace env wid tenant"

definition getWorkspaceForSession :: "managerEnv \<Rightarrow> string \<Rightarrow> string option \<Rightarrow> workspace option managerAct" where
  "getWorkspaceForSession env sid tenant =
     act_then (pruneWorkspaces env)
     (act_bind (act_get (\<lambda>g. workspaceOf g sid)) (\<lambda>found. case found of
        None \<Rightarrow> act_return None
      | Some w \<Rightarrow> act_then (forTenant tenant (\<lambda>t. act_lift (assertWorkspaceTenant w t))) (act_return (Some w))))"

text \<open>Without workspaces the tenant is not looked at.\<close>

definition listWorkspaces :: "managerEnv \<Rightarrow> string option \<Rightarrow> workspace list managerAct" where
  "listWorkspaces env tenant =
     act_then (pruneWorkspaces env)
     (act_bind (act_get (\<lambda>g. map snd (mgWorkspaces g))) (\<lambda>all. case tenant of
        None \<Rightarrow> act_return all
      | Some t \<Rightarrow> if all = [] then act_return []
                  else act_bind (act_lift (tenantOf t)) (\<lambda>n. act_return (filter (\<lambda>w. wsTenant w = n) all))))"

definition setWorkspace :: "string \<Rightarrow> workspace \<Rightarrow> unit managerAct" where
  "setWorkspace wid w = act_modify (\<lambda>g. g\<lparr>mgWorkspaces := oset wid w (mgWorkspaces g)\<rparr>)"

definition dropLease :: "string \<Rightarrow> unit managerAct" where
  "dropLease wid = act_modify (\<lambda>g. g\<lparr>mgLeases := odelete wid (mgLeases g)\<rparr>)"

definition setLease :: "managerEnv \<Rightarrow> string \<Rightarrow> string \<Rightarrow> rat \<Rightarrow> unit managerAct" where
  "setLease env wid token until =
     act_modify (\<lambda>g. g\<lparr>mgLeases := oset wid (meDigest env token, until) (mgLeases g)\<rparr>)"

definition deactivateWorkspace :: "managerEnv \<Rightarrow> string \<Rightarrow> unit managerAct" where
  "deactivateWorkspace env sid =
     act_bind (act_get (\<lambda>g. lookupText (mgBySession g) sid)) (\<lambda>bound. case bound of
       None \<Rightarrow> act_return ()
     | Some wid \<Rightarrow> act_then (dropLease wid)
        (act_bind (act_get (\<lambda>g. oget (mgWorkspaces g) wid)) (\<lambda>found. case found of
           None \<Rightarrow> act_modify (\<lambda>g. g\<lparr>mgBySession := odelete sid (mgBySession g)\<rparr>)
         | Some w \<Rightarrow> act_bind (managerNow env) (\<lambda>now.
             if wsRetention w = JStr ''destroy'' \<or> (case wsExpires w of None \<Rightarrow> False | Some e \<Rightarrow> e \<le> now)
             then act_modify (deleteWorkspaceAt wid)
             else setWorkspace wid (w\<lparr>wsOwner := OwnerNone, wsControl := INACTIVE, wsUpdated := now\<rparr>)))))"

text \<open>\<open>expiresAt ?? readNow() + handoffTtlMs\<close>\<close>

definition leaseEnd :: "managerEnv \<Rightarrow> rat option \<Rightarrow> rat managerAct" where
  "leaseEnd env until = (case until of
     Some e \<Rightarrow> act_return e
   | None \<Rightarrow> act_bind (managerNow env) (\<lambda>now. act_return (now + of_int (meHandoffTtl env))))"

definition updateWorkspaceControl ::
  "managerEnv \<Rightarrow> string \<Rightarrow> controlOwner \<Rightarrow> controlState \<Rightarrow> (string \<times> rat option) option \<Rightarrow> unit managerAct" where
  "updateWorkspaceControl env sid own ctl grant =
     act_bind (act_get (\<lambda>g. lookupText (mgBySession g) sid)) (\<lambda>bound. case bound of
       None \<Rightarrow> act_return ()
     | Some wid \<Rightarrow> act_bind (act_get (\<lambda>g. oget (mgWorkspaces g) wid)) (\<lambda>found. case found of
         None \<Rightarrow> act_return ()
       | Some w \<Rightarrow>
           act_then (if own = OwnerAgent then dropLease wid
              else case grant of None \<Rightarrow> act_return ()
                | Some (token, e) \<Rightarrow> act_bind (leaseEnd env e) (setLease env wid token))
           (act_bind (managerNow env) (\<lambda>now.
              setWorkspace wid (w\<lparr>wsOwner := own, wsControl := ctl, wsUpdated := now\<rparr>)))))"

definition scheduleWorkspaceExpiry :: "managerEnv \<Rightarrow> string \<Rightarrow> rat \<Rightarrow> unit managerAct" where
  "scheduleWorkspaceExpiry env wid until =
     act_then (act_modify (clearWorkspaceTimerAt wid))
     (act_bind (managerNow env) (\<lambda>now.
      act_bind (armTimer (WorkspaceTimer wid until) (max 0 (until - now))) (\<lambda>handle.
      act_modify (\<lambda>g. g\<lparr>mgWorkspaceTimers := oset wid handle (mgWorkspaceTimers g)\<rparr>))))"

section \<open>Stopping\<close>

definition releasePersistentProfile :: "string \<Rightarrow> unit managerAct" where
  "releasePersistentProfile sid = act_modify (\<lambda>g. g\<lparr>mgProfiles := filter (\<lambda>(k, holder). holder \<noteq> sid) (mgProfiles g)\<rparr>)"

definition forgetSession :: "string \<Rightarrow> unit managerAct" where
  "forgetSession sid = act_modify (\<lambda>g. g\<lparr>mgSessions := odelete sid (mgSessions g)\<rparr>)"

definition beginStop :: "string \<Rightarrow> nat \<Rightarrow> string option \<Rightarrow> stopOrigin \<Rightarrow> unit managerAct" where
  "beginStop sid s why origin =
     act_then (clearSessionTimer sid) (act_then (callSession s (CallStop why)) (waitAs (WaitStopped s sid origin)))"

text \<open>The status of a closed session, or nothing while the session is asked to stop.\<close>

definition stopSession :: "string \<Rightarrow> string option \<Rightarrow> string option \<Rightarrow> sessionStatus option managerAct" where
  "stopSession sid why tenant =
     act_bind (act_get (\<lambda>g. (oget (mgSessions g) sid, oget (mgClosed g) sid))) (\<lambda>found. case found of
       (Some s, _) \<Rightarrow> act_then (forTenant tenant (assertSessionTenant sid))
           (act_then (beginStop sid s why CallerStop) (act_return None))
     | (None, Some st) \<Rightarrow> act_then (forTenant tenant (assertSessionTenant sid)) (act_return (Some st))
     | (None, None) \<Rightarrow> act_throw (PlainError ''SESSION_NOT_FOUND''))"

text \<open>
  The session has stopped or failed to: either way its slot and its profile are free.  A failed stop
  at the end of a lifetime goes on in the handler of \<open>expireSession\<close>.
\<close>

definition finishSessionStop :: "managerEnv \<Rightarrow> liveView \<Rightarrow> nat \<Rightarrow> string \<Rightarrow> stopOrigin \<Rightarrow> jsval + sessionStatus \<Rightarrow> unit managerAct" where
  "finishSessionStop env live s sid origin answer =
     act_then (forgetSession sid)
     (act_then (releasePersistentProfile sid)
     (act_then (deactivateWorkspace env sid)
     (case answer of
        Inr st \<Rightarrow> rememberClosed env st
      | Inl e \<Rightarrow>
          act_then (case lvStatus live s of Inr st \<Rightarrow> rememberClosed env st | Inl e' \<Rightarrow> act_return ())
            (if origin = ExpiryStop then waitAs (WaitRetry sid) else act_throw (ThrownBy e)))))"

definition expireSession :: "managerEnv \<Rightarrow> string \<Rightarrow> unit managerAct" where
  "expireSession env sid =
     act_bind (act_get (\<lambda>g. oget (mgSessions g) sid)) (\<lambda>found. case found of
       None \<Rightarrow> act_return ()
     | Some s \<Rightarrow> act_then (rememberExpired env sid) (beginStop sid s (Some ''session-ttl-expired'') ExpiryStop))"

definition expiryFailed :: "managerEnv \<Rightarrow> liveView \<Rightarrow> string \<Rightarrow> unit managerAct" where
  "expiryFailed env live sid =
     act_bind (act_get (\<lambda>g. oget (mgSessions g) sid)) (\<lambda>found. case found of
       None \<Rightarrow> act_return ()
     | Some s \<Rightarrow> if lvState live s \<noteq> ''STOPPED'' then scheduleExpiryRetry env sid else act_return ())"

definition clusterReason :: "string option \<Rightarrow> string" where
  "clusterReason why = (case why of None \<Rightarrow> ''shutdown'' | Some r \<Rightarrow> r)"

definition shutdownSessions :: "string option \<Rightarrow> unit managerAct" where
  "shutdownSessions why =
     act_then clearAllExpiryTimers
     (act_bind (act_get (\<lambda>g. map snd (mgSessions g))) (\<lambda>objects.
      act_then (act_modify (\<lambda>g. g\<lparr>mgCalls := mgCalls g @ map (\<lambda>s. (s, CallStop (Some (clusterReason why)))) objects\<rparr>))
        (waitAs (WaitShutdown objects))))"

text \<open>All of them have answered, whatever they said.\<close>

primrec closeSessions :: "managerEnv \<Rightarrow> liveView \<Rightarrow> nat list \<Rightarrow> unit managerAct" where
  "closeSessions env live [] = act_return ()"
| "closeSessions env live (s # rest) =
     act_then (releasePersistentProfile (meSessionId env s))
     (act_then (deactivateWorkspace env (meSessionId env s))
     (case lvStatus live s of
        Inl e \<Rightarrow> act_throw (ThrownBy e)
      | Inr st \<Rightarrow> act_then (rememberClosed env st) (closeSessions env live rest)))"

definition finishShutdown :: "managerEnv \<Rightarrow> liveView \<Rightarrow> nat list \<Rightarrow> unit managerAct" where
  "finishShutdown env live objects =
     act_then (closeSessions env live objects) (act_modify (\<lambda>g. g\<lparr>mgSessions := []\<rparr>))"

section \<open>Starting\<close>

definition profileIdText :: "startRequest \<Rightarrow> string" where
  "profileIdText rq = textOr [] (field (rqOptions rq) ''profileId'')"

definition newSession :: "sessionSpec \<Rightarrow> nat managerAct" where
  "newSession spec = (\<lambda>g. (Inr (length (mgMade g)), g\<lparr>mgMade := mgMade g @ [spec]\<rparr>))"

definition enterSession :: "managerEnv \<Rightarrow> nat \<Rightarrow> string option \<Rightarrow> unit managerAct" where
  "enterSession env s key = act_modify (\<lambda>g. g\<lparr>
     mgProfiles := (case key of None \<Rightarrow> mgProfiles g | Some k \<Rightarrow> oset k (meSessionId env s) (mgProfiles g)),
     mgExpired := odelete (meSessionId env s) (mgExpired g),
     mgSessions := oset (meSessionId env s) s (mgSessions g)\<rparr>)"

text \<open>From the choice of the network to the call of \<open>session.start\<close>; \<open>made\<close> is how the constructor ends.\<close>

definition launchSession :: "managerEnv \<Rightarrow> startRequest \<Rightarrow> jsval + unit \<Rightarrow> unit managerAct" where
  "launchSession env rq made =
     act_bind (act_lift (chooseNetwork (meProxy env) (meOptions env) rq)) (\<lambda>network.
     act_bind (act_get mgProfiles) (\<lambda>holders.
     act_then (act_throwIf (case profileKey (meOptions env) (rqOptions rq) of None \<Rightarrow> False | Some k \<Rightarrow> oget holders k \<noteq> None)
        (SessionFault E_RESOURCE_EXHAUSTED ''The requested persistent profile is already in use'' [(''retryable'', JBool True)]))
     (case made of
        Inl e \<Rightarrow> act_throw (ThrownBy e)
      | Inr u \<Rightarrow> act_bind (newSession (sessionOptions (meGenerate env) (mePolicy env) (meOptions env) rq network)) (\<lambda>s.
          act_then (enterSession env s (profileKey (meOptions env) (rqOptions rq)))
          (act_then (callSession s CallStart)
            (waitAs (WaitLaunch rq s (profileKey (meOptions env) (rqOptions rq)))))))))"

definition startSession :: "managerEnv \<Rightarrow> (string, jsval) omap \<Rightarrow> jsval + unit \<Rightarrow> unit managerAct" where
  "startSession env options made =
     act_bind (act_get (\<lambda>g. int (length (mgSessions g)))) (\<lambda>size.
     act_then (act_throwIf (meMaxSessions env \<le> size)
        (SessionFault E_RESOURCE_EXHAUSTED ''Maximum concurrent browser sessions reached'' [(''retryable'', JBool True)]))
     (act_bind (act_lift (normalizeWorkspaceName (field options ''workspaceName''))) (\<lambda>name.
      act_bind (act_lift (tenantOf (case nullish (field options ''tenantId'') JUndef of JStr t \<Rightarrow> t | _ \<Rightarrow> DEFAULT_TENANT_ID))) (\<lambda>tenant.
      let rq = \<lparr>rqOptions = options, rqName = name,
                rqRetention = nullish (field options ''workspaceRetention'') (JStr ''destroy''), rqTenant = tenant,
                rqProfile = JUndef, rqCookies = JUndef, rqExtensions = JUndef\<rparr>
      in if truthy (field options ''profileId'') then waitAs (WaitProfile rq) else launchSession env rq made))))"

text \<open>The profile store answered.\<close>

definition profileRead :: "startRequest \<Rightarrow> jsval + jsval \<Rightarrow> unit managerAct" where
  "profileRead rq answer = (case answer of
     Inl e \<Rightarrow> act_throw (ThrownBy e)
   | Inr profile \<Rightarrow>
       act_then (act_throwIf (\<not> truthy profile)
         (SessionFault E_SESSION_NOT_FOUND (''Profile with ID \"'' @ profileIdText rq @ ''\" not found.'') []))
         (waitAs (WaitCookies (rq\<lparr>rqProfile := profile\<rparr>))))"

definition hasExtensions :: "jsval \<Rightarrow> bool" where
  "hasExtensions profile = (case getProp profile ''extensionIds'' of JArr (x # xs) \<Rightarrow> True | _ \<Rightarrow> False)"

definition cookiesRead :: "managerEnv \<Rightarrow> startRequest \<Rightarrow> jsval + jsval \<Rightarrow> jsval + unit \<Rightarrow> unit managerAct" where
  "cookiesRead env rq answer made = (case answer of
     Inl e \<Rightarrow> act_throw (ThrownBy e)
   | Inr cookies \<Rightarrow>
       act_then (act_throwIf (hasExtensions (rqProfile rq) \<and> \<not> meExtensions env)
         (SessionFault E_BROWSER_LAUNCH_FAILED ''Managed extension store is not configured'' []))
       (if meExtensions env then waitAs (WaitExtensions (rq\<lparr>rqCookies := cookies\<rparr>))
        else launchSession env (rq\<lparr>rqCookies := cookies, rqExtensions := JArr []\<rparr>) made))"

definition extensionsResolved :: "managerEnv \<Rightarrow> startRequest \<Rightarrow> jsval + jsval \<Rightarrow> jsval + unit \<Rightarrow> unit managerAct" where
  "extensionsResolved env rq answer made = (case answer of
     Inl e \<Rightarrow> act_throw (ThrownBy e)
   | Inr extensions \<Rightarrow> launchSession env (rq\<lparr>rqExtensions := extensions\<rparr>) made)"

definition enterWorkspace :: "string \<Rightarrow> workspace \<Rightarrow> unit managerAct" where
  "enterWorkspace sid w = act_modify (\<lambda>g. g\<lparr>
     mgWorkspaces := oset (wsId w) w (mgWorkspaces g), mgBySession := oset sid (wsId w) (mgBySession g)\<rparr>)"

text \<open>\<open>session.start\<close> answered.\<close>

definition finishLaunch :: "managerEnv \<Rightarrow> startRequest \<Rightarrow> nat \<Rightarrow> string option \<Rightarrow> jsval + unit \<Rightarrow> unit managerAct" where
  "finishLaunch env rq s key answer =
     (let sid = meSessionId env s in case answer of
        Inr u \<Rightarrow>
          act_then (scheduleSessionExpiry env sid)
          (act_bind (managerNow env) (\<lambda>now.
           act_bind (createWorkspaceId env) (\<lambda>wid.
           let until = (if rqRetention rq = JStr ''destroy'' then None else Some (now + of_int (meWorkspaceTtl env)));
               w = \<lparr>wsId = wid, wsTenant = rqTenant rq,
                    wsName = (case rqName rq of Some n \<Rightarrow> n | None \<Rightarrow> ''workspace-'' @ take 8 (drop 4 sid)),
                    wsOwner = OwnerAgent, wsControl = AGENT_CONTROLLED, wsRetention = rqRetention rq, wsSession = sid,
                    wsCreated = now, wsUpdated = now, wsExpires = until\<rparr>
           in act_then (enterWorkspace sid w)
                (case until of None \<Rightarrow> act_return () | Some e \<Rightarrow> scheduleWorkspaceExpiry env wid e))))
      | Inl e \<Rightarrow>
          act_then (clearSessionTimer sid)
          (act_then (forgetSession sid)
          (act_then (act_modify (\<lambda>g. case key of
                None \<Rightarrow> g
              | Some k \<Rightarrow> if oget (mgProfiles g) k = Some sid then g\<lparr>mgProfiles := odelete k (mgProfiles g)\<rparr> else g))
            (act_throw (ThrownBy e)))))"

section \<open>Finding a session\<close>

text \<open>\<open>expiresAt !== undefined && readNow() >= expiresAt\<close>\<close>

definition isDue :: "managerEnv \<Rightarrow> expiryEntry option \<Rightarrow> bool managerAct" where
  "isDue env entry = (case Option.bind entry exAt of
     None \<Rightarrow> act_return False
   | Some e \<Rightarrow> act_bind (managerNow env) (\<lambda>now. act_return (e \<le> now)))"

definition getSession :: "managerEnv \<Rightarrow> string \<Rightarrow> string option \<Rightarrow> nat managerAct" where
  "getSession env sid tenant =
     act_bind (act_get (\<lambda>g. (oget (mgExpiry g) sid, oget (mgExpired g) sid \<noteq> None))) (\<lambda>(entry, gone).
     act_bind (if gone then act_return True else isDue env entry) (\<lambda>refused.
     if refused then
       act_bind (isDue env entry) (\<lambda>due.
       act_then (if due then act_then (clearSessionTimer sid) (act_then (rememberExpired env sid) (expireSession env sid))
                 else act_return ())
         (act_throw (ToolFault E_SESSION_EXPIRED [] [(''sessionId'', JStr sid)])))
     else
       act_bind (act_get (\<lambda>g. oget (mgSessions g) sid)) (\<lambda>found. case found of
          None \<Rightarrow> act_throw (PlainError ''SESSION_NOT_FOUND'')
        | Some s \<Rightarrow> act_then (forTenant tenant (assertSessionTenant sid)) (act_return s))))"

definition sessionStatusOf ::
  "managerEnv \<Rightarrow> liveView \<Rightarrow> string \<Rightarrow> string option \<Rightarrow> (sessionStatus \<times> workspace option) managerAct" where
  "sessionStatusOf env live sid tenant =
     act_bind (getSession env sid tenant) (\<lambda>s.
     act_bind (act_lift (case lvStatus live s of Inl e \<Rightarrow> Inl (ThrownBy e) | Inr st \<Rightarrow> Inr st)) (\<lambda>st.
     act_bind (act_get (\<lambda>g. workspaceOf g sid)) (\<lambda>w. act_return (st, w))))"

definition getSessionState :: "managerEnv \<Rightarrow> liveView \<Rightarrow> string \<Rightarrow> string option \<Rightarrow> string managerAct" where
  "getSessionState env live sid tenant = act_bind (getSession env sid tenant) (\<lambda>s. act_return (lvState live s))"

text \<open>The stop that comes before every write of the agent.\<close>

definition assertWriteAllowed :: "managerEnv \<Rightarrow> liveView \<Rightarrow> string \<Rightarrow> string \<Rightarrow> string option \<Rightarrow> unit managerAct" where
  "assertWriteAllowed env live sid action tenant =
     act_bind (getSession env sid tenant) (\<lambda>s.
     act_bind (getWorkspaceForSession env sid tenant) (\<lambda>found.
     let info = [(''sessionId'', JStr sid), (''sessionState'', JStr (lvState live s)), (''retryable'', JBool False)];
         there = (case found of None \<Rightarrow> [] | Some w \<Rightarrow> [(''workspaceId'', JStr (wsId w))])
     in act_then (act_throwIf ((case found of None \<Rightarrow> False | Some w \<Rightarrow> wsControl w = USER_CONTROLLED)
             \<or> lvState live s = ''USER_CONTROLLED'')
          (ToolFault E_USER_CONTROL_HARD_STOP ((''action'', JStr action) # there) info))
        (act_throwIf (lvState live s = ''PAUSED_CHALLENGE'') (ToolFault E_SESSION_PAUSED_CHALLENGE [(''action'', JStr action)] info))))"

section \<open>Calls passed on to a session\<close>

text \<open>The methods that change the page, with the name each one is guarded under.\<close>

definition WRITE_METHODS :: "(string \<times> string) list" where
  "WRITE_METHODS = [(''switchTab'', ''page_switch_tab''), (''closeTab'', ''page_close_tab''), (''open'', ''page_open''),
     (''click'', ''page_click''), (''type'', ''page_type''), (''select'', ''page_select''), (''scroll'', ''page_scroll''),
     (''workflow'', ''page_workflow_execute'')]"

definition OTHER_METHODS :: "string list" where
  "OTHER_METHODS = [''environmentDiagnostics'', ''listTabs'', ''reopenHeaded'', ''resume'', ''dispatchDirectMouse'',
     ''dispatchDirectKeyboard'', ''dispatchDirectScroll'', ''snapshot'', ''screenshot'', ''observeSyncEvents'', ''wait'',
     ''extract'']"

definition passOn :: "managerEnv \<Rightarrow> string \<Rightarrow> string \<Rightarrow> jsval list \<Rightarrow> string option \<Rightarrow> unit managerAct" where
  "passOn env sid meth args tenant =
     act_bind (getSession env sid tenant) (\<lambda>s. callSession s (CallMethod meth args))"

definition passOnWrite ::
  "managerEnv \<Rightarrow> liveView \<Rightarrow> string \<Rightarrow> string \<Rightarrow> string \<Rightarrow> jsval list \<Rightarrow> string option \<Rightarrow> unit managerAct" where
  "passOnWrite env live sid meth action args tenant =
     act_then (assertWriteAllowed env live sid action tenant) (passOn env sid meth args tenant)"

definition sessionMethod ::
  "managerEnv \<Rightarrow> liveView \<Rightarrow> string \<Rightarrow> string \<Rightarrow> jsval list \<Rightarrow> string option \<Rightarrow> unit managerAct" where
  "sessionMethod env live meth sid args tenant = (case map_of WRITE_METHODS meth of
     Some action \<Rightarrow> passOnWrite env live sid meth action args tenant
   | None \<Rightarrow> passOn env sid meth args tenant)"

section \<open>Handing a session over and back\<close>

definition handoffSession ::
  "managerEnv \<Rightarrow> string \<Rightarrow> rat option \<Rightarrow> string option \<Rightarrow> string option \<Rightarrow> handOrigin \<Rightarrow> unit managerAct" where
  "handoffSession env sid ttlMs why tenant origin =
     act_bind (getSession env sid tenant) (\<lambda>s.
     act_then (callSession s (CallHandoff ttlMs why)) (waitAs (WaitHandoff sid origin)))"

definition finishHandoff :: "managerEnv \<Rightarrow> string \<Rightarrow> handOrigin \<Rightarrow> jsval + handoffAnswer \<Rightarrow> unit managerAct" where
  "finishHandoff env sid origin answer = (case answer of
     Inl e \<Rightarrow> act_throw (ThrownBy e)
   | Inr a \<Rightarrow>
       act_then (updateWorkspaceControl env sid OwnerUser USER_CONTROLLED (Some (hoToken a, hoExpires a)))
         (case origin of FromSession \<Rightarrow> act_return () | FromWorkspace wid tenant \<Rightarrow> waitAs (WaitHandedOff wid tenant a)))"

definition takeoverSession ::
  "managerEnv \<Rightarrow> string \<Rightarrow> string \<Rightarrow> bool \<Rightarrow> string option \<Rightarrow> handOrigin \<Rightarrow> unit managerAct" where
  "takeoverSession env sid token humanConfirmed tenant origin =
     act_bind (getSession env sid tenant) (\<lambda>s.
     act_then (callSession s (CallTakeover token humanConfirmed)) (waitAs (WaitTakeover sid origin)))"

definition finishTakeover :: "managerEnv \<Rightarrow> string \<Rightarrow> handOrigin \<Rightarrow> jsval + sessionStatus \<Rightarrow> unit managerAct" where
  "finishTakeover env sid origin answer = (case answer of
     Inl e \<Rightarrow> act_throw (ThrownBy e)
   | Inr st \<Rightarrow>
       act_then (updateWorkspaceControl env sid OwnerAgent AGENT_CONTROLLED None)
         (case origin of FromSession \<Rightarrow> act_return () | FromWorkspace wid tenant \<Rightarrow> waitAs (WaitTaken wid tenant st)))"

definition workspaceHandoff :: "managerEnv \<Rightarrow> string \<Rightarrow> string option \<Rightarrow> string option \<Rightarrow> unit managerAct" where
  "workspaceHandoff env wid why tenant =
     act_bind (requireWorkspace env wid tenant) (\<lambda>w.
     act_then (act_throwIf (wsControl w = USER_CONTROLLED)
        (ToolFault E_MANUAL_TAKEOVER_ACTIVE [(''workspaceId'', JStr wid)]
           [(''sessionId'', JStr (wsSession w)), (''sessionState'', JStr ''USER_CONTROLLED'')]))
       (handoffSession env (wsSession w) (Some (of_int (meHandoffTtl env))) why tenant (FromWorkspace wid tenant)))"

definition finishWorkspaceHandoff ::
  "managerEnv \<Rightarrow> string \<Rightarrow> string option \<Rightarrow> handoffAnswer \<Rightarrow> (workspace \<times> string \<times> rat) managerAct" where
  "finishWorkspaceHandoff env wid tenant a =
     act_bind (leaseEnd env (hoExpires a)) (\<lambda>until.
     act_then (setLease env wid (hoToken a) until)
     (act_bind (requireWorkspace env wid tenant) (\<lambda>w. act_return (w, hoToken a, until))))"

definition handoffExpired :: "string \<Rightarrow> managerError" where
  "handoffExpired wid = ToolFault E_HUMAN_HANDOFF_EXPIRED [(''workspaceId'', JStr wid)] []"

definition workspaceResume :: "managerEnv \<Rightarrow> string \<Rightarrow> string \<Rightarrow> bool \<Rightarrow> string option \<Rightarrow> unit managerAct" where
  "workspaceResume env wid token humanConfirmed tenant =
     act_bind (requireWorkspace env wid tenant) (\<lambda>w.
     act_bind (act_get (\<lambda>g. oget (mgLeases g) wid)) (\<lambda>found. case found of
       None \<Rightarrow> act_throw (handoffExpired wid)
     | Some (stored, until) \<Rightarrow>
         act_then (act_throwIf (wsControl w \<noteq> USER_CONTROLLED) (handoffExpired wid))
         (act_bind (managerNow env) (\<lambda>now.
          if until \<le> now then act_then (dropLease wid) (act_throw (handoffExpired wid))
          else act_then (act_throwIf (stored \<noteq> meDigest env token) (handoffExpired wid))
            (takeoverSession env (wsSession w) token humanConfirmed tenant (FromWorkspace wid tenant))))))"

definition finishWorkspaceResume :: "managerEnv \<Rightarrow> string \<Rightarrow> string option \<Rightarrow> workspace managerAct" where
  "finishWorkspaceResume env wid tenant = requireWorkspace env wid tenant"

section \<open>Timers that fire\<close>

text \<open>The timer is no longer armed when its handler runs.\<close>

definition fireManagerTimer :: "managerEnv \<Rightarrow> nat \<Rightarrow> timerKind \<Rightarrow> unit managerAct" where
  "fireManagerTimer env handle k =
     act_then (act_modify (cancelTimer handle))
     (case k of
        SessionTimer sid gen \<Rightarrow>
          act_bind (act_get (\<lambda>g. oget (mgExpiry g) sid)) (\<lambda>current. case current of
            None \<Rightarrow> act_return ()
          | Some e \<Rightarrow>
              if exGeneration e \<noteq> gen then act_return ()
              else case exAt e of
                None \<Rightarrow> act_then (act_modify (\<lambda>g. g\<lparr>mgExpiry := odelete sid (mgExpiry g)\<rparr>)) (expireSession env sid)
              | Some until \<Rightarrow> act_bind (managerNow env) (\<lambda>now.
                  if now < until then scheduleExpiryAt env sid until
                  else act_then (act_modify (\<lambda>g. g\<lparr>mgExpiry := odelete sid (mgExpiry g)\<rparr>)) (expireSession env sid)))
      | RetryTimer sid gen \<Rightarrow>
          act_bind (act_get (\<lambda>g. oget (mgExpiry g) sid)) (\<lambda>current. case current of
            None \<Rightarrow> act_return ()
          | Some e \<Rightarrow>
              if exGeneration e \<noteq> gen then act_return ()
              else act_then (act_modify (\<lambda>g. g\<lparr>mgExpiry := odelete sid (mgExpiry g)\<rparr>)) (expireSession env sid))
      | WorkspaceTimer wid until \<Rightarrow>
          act_then (act_modify (\<lambda>g. g\<lparr>mgWorkspaceTimers := odelete wid (mgWorkspaceTimers g)\<rparr>))
          (act_bind (act_get (\<lambda>g. oget (mgWorkspaces g) wid)) (\<lambda>found. case found of
             None \<Rightarrow> act_return ()
           | Some w \<Rightarrow>
               if wsExpires w \<noteq> Some until \<or> wsControl w \<noteq> INACTIVE then act_return ()
               else act_bind (managerNow env) (\<lambda>now.
                 if until \<le> now then act_modify (deleteWorkspaceAt wid) else scheduleWorkspaceExpiry env wid until))))"

end
