(* ===== verification/SessionSpec.thy ===== *)
theory SessionSpec
  imports SessionManager OptionSpec
begin

text \<open>
  What the session manager guarantees: live sessions never share the directory of a saved profile,
  sessions without a profile stay within the maximum, a stop frees its slot and profile however it
  ends, a call reaches a session only past the checks, a workspace is taken back only with its
  lease, and a caller replaces no option of the server.
\<close>

section \<open>The steps of a manager\<close>

definition resumedFrom :: "managerWait \<Rightarrow> managerState \<Rightarrow> managerState" where
  "resumedFrom w g = g\<lparr>mgWaiting := remove1 w (mgWaiting g)\<rparr>"

text \<open>
  A call of the manager, the resumption of a waiting one, or a timer.  The status of sessions that
  were told to stop can be read.
\<close>

inductive managerStep :: "managerEnv \<Rightarrow> managerState \<Rightarrow> managerState \<Rightarrow> bool" for env where
  ms_start: "startSession env options made g = (r, h) \<Longrightarrow> managerStep env g h"
| ms_profile: "WaitProfile rq \<in> set (mgWaiting g) \<Longrightarrow>
    profileRead rq answer (resumedFrom (WaitProfile rq) g) = (r, h) \<Longrightarrow> managerStep env g h"
| ms_cookies: "WaitCookies rq \<in> set (mgWaiting g) \<Longrightarrow>
    cookiesRead env rq answer made (resumedFrom (WaitCookies rq) g) = (r, h) \<Longrightarrow> managerStep env g h"
| ms_extensions: "WaitExtensions rq \<in> set (mgWaiting g) \<Longrightarrow>
    extensionsResolved env rq answer made (resumedFrom (WaitExtensions rq) g) = (r, h) \<Longrightarrow> managerStep env g h"
| ms_launched: "WaitLaunch rq s key \<in> set (mgWaiting g) \<Longrightarrow>
    finishLaunch env rq s key launchAnswer (resumedFrom (WaitLaunch rq s key) g) = (r, h) \<Longrightarrow> managerStep env g h"
| ms_stop: "stopSession sid why tenant g = (r', h) \<Longrightarrow> managerStep env g h"
| ms_stopped: "WaitStopped s sid origin \<in> set (mgWaiting g) \<Longrightarrow>
    finishSessionStop env live s sid origin stopAnswer (resumedFrom (WaitStopped s sid origin) g) = (r, h) \<Longrightarrow> managerStep env g h"
| ms_retry: "WaitRetry sid \<in> set (mgWaiting g) \<Longrightarrow>
    expiryFailed env live sid (resumedFrom (WaitRetry sid) g) = (r, h) \<Longrightarrow> managerStep env g h"
| ms_shutdown: "shutdownSessions why g = (r, h) \<Longrightarrow> managerStep env g h"
| ms_down: "WaitShutdown objects \<in> set (mgWaiting g) \<Longrightarrow> (\<And>s. s \<in> set objects \<Longrightarrow> \<not> isl (lvStatus live s)) \<Longrightarrow>
    finishShutdown env live objects (resumedFrom (WaitShutdown objects) g) = (r, h) \<Longrightarrow> managerStep env g h"
| ms_get: "getSession env sid tenant g = (rs, h) \<Longrightarrow> managerStep env g h"
| ms_status: "sessionStatusOf env live sid tenant g = (rt, h) \<Longrightarrow> managerStep env g h"
| ms_state: "getSessionState env live sid tenant g = (ru, h) \<Longrightarrow> managerStep env g h"
| ms_workspaces: "listWorkspaces env tenant g = (rl, h) \<Longrightarrow> managerStep env g h"
| ms_workspace: "getWorkspace env wid tenant g = (rw, h) \<Longrightarrow> managerStep env g h"
| ms_method: "sessionMethod env live meth sid args tenant g = (r, h) \<Longrightarrow> managerStep env g h"
| ms_handoff: "handoffSession env sid ttlMs why tenant FromSession g = (r, h) \<Longrightarrow> managerStep env g h"
| ms_handed: "WaitHandoff sid hand \<in> set (mgWaiting g) \<Longrightarrow>
    finishHandoff env sid hand handAnswer (resumedFrom (WaitHandoff sid hand) g) = (r, h) \<Longrightarrow> managerStep env g h"
| ms_takeover: "takeoverSession env sid token confirmed tenant FromSession g = (r, h) \<Longrightarrow> managerStep env g h"
| ms_taken: "WaitTakeover sid hand \<in> set (mgWaiting g) \<Longrightarrow>
    finishTakeover env sid hand stopAnswer (resumedFrom (WaitTakeover sid hand) g) = (r, h) \<Longrightarrow> managerStep env g h"
| ms_workspace_handoff: "workspaceHandoff env wid why tenant g = (r, h) \<Longrightarrow> managerStep env g h"
| ms_workspace_handed: "WaitHandedOff wid tenant a \<in> set (mgWaiting g) \<Longrightarrow>
    finishWorkspaceHandoff env wid tenant a (resumedFrom (WaitHandedOff wid tenant a) g) = (rh, h) \<Longrightarrow> managerStep env g h"
| ms_workspace_resume: "workspaceResume env wid token confirmed tenant g = (r, h) \<Longrightarrow> managerStep env g h"
| ms_workspace_resumed: "WaitTaken wid tenant st \<in> set (mgWaiting g) \<Longrightarrow>
    finishWorkspaceResume env wid tenant (resumedFrom (WaitTaken wid tenant st) g) = (rw, h) \<Longrightarrow> managerStep env g h"
| ms_timer: "(handle, k, delayMs) \<in> set (mgTimers g) \<Longrightarrow> fireManagerTimer env handle k g = (r, h) \<Longrightarrow> managerStep env g h"

inductive managerReaches :: "managerEnv \<Rightarrow> managerState \<Rightarrow> bool" for env where
  reach_new: "managerReaches env emptyManager"
| reach_next: "managerReaches env g \<Longrightarrow> managerStep env g h \<Longrightarrow> managerReaches env h"

section \<open>What holds at every step\<close>

definition profiled :: "sessionSpec \<Rightarrow> bool" where
  "profiled spec \<longleftrightarrow> truthy (spCookiesTo spec)"

definition sessionOk :: "managerEnv \<Rightarrow> managerState \<Rightarrow> string \<times> nat \<Rightarrow> bool" where
  "sessionOk env g = (\<lambda>(sid, s). s < length (mgMade g) \<and> sid = meSessionId env s
     \<and> (\<forall>k. lockOf (mgMade g ! s) = Some k \<longrightarrow> oget (mgProfiles g) k = Some sid))"

definition waitOk :: "managerEnv \<Rightarrow> managerState \<Rightarrow> managerWait \<Rightarrow> bool" where
  "waitOk env g w = (case w of
     WaitProfile rq \<Rightarrow> truthy (field (rqOptions rq) ''profileId'')
   | WaitCookies rq \<Rightarrow> truthy (field (rqOptions rq) ''profileId'')
   | WaitExtensions rq \<Rightarrow> truthy (field (rqOptions rq) ''profileId'')
   | WaitStopped s sid origin \<Rightarrow> s < length (mgMade g) \<and> sid = meSessionId env s
   | WaitRetry sid \<Rightarrow> (\<exists>s < length (mgMade g). sid = meSessionId env s) \<and> oget (mgSessions g) sid = None
   | _ \<Rightarrow> True)"

definition withoutProfile :: "managerState \<Rightarrow> nat" where
  "withoutProfile g = length (filter (\<lambda>(sid, s). \<not> profiled (mgMade g ! s)) (mgSessions g))"

definition managerInv :: "managerEnv \<Rightarrow> managerState \<Rightarrow> bool" where
  "managerInv env g \<longleftrightarrow> owf (mgSessions g) \<and> owf (mgProfiles g) \<and> list_all (sessionOk env g) (mgSessions g)
     \<and> list_all (waitOk env g) (mgWaiting g) \<and> int (withoutProfile g) \<le> meMaxSessions env
     \<and> list_all (\<lambda>(sid, e). exAt e \<noteq> None) (mgExpiry g)"

text \<open>The part of the state the invariant looks at.\<close>

definition core :: "managerState \<Rightarrow>
    (string, nat) omap \<times> (string, string) omap \<times> sessionSpec list \<times> managerWait list \<times> (string, expiryEntry) omap" where
  "core g = (mgSessions g, mgProfiles g, mgMade g, mgWaiting g, mgExpiry g)"

lemma managerInv_core: "core g = core h \<Longrightarrow> managerInv env g = managerInv env h"
proof -
  assume "core g = core h"
  then have eq: "mgSessions g = mgSessions h" "mgProfiles g = mgProfiles h" "mgMade g = mgMade h"
    "mgWaiting g = mgWaiting h" "mgExpiry g = mgExpiry h" by (simp_all add: core_def)
  then have "sessionOk env g = sessionOk env h" "withoutProfile g = withoutProfile h"
    by (simp_all add: sessionOk_def withoutProfile_def fun_eq_iff)
  moreover have "waitOk env g = waitOk env h"
    unfolding waitOk_def by (simp only: eq)
  ultimately show ?thesis by (simp add: managerInv_def eq)
qed

definition calm :: "'x managerAct \<Rightarrow> bool" where
  "calm m \<longleftrightarrow> (\<forall>g. core (snd (m g)) = core g)"

lemma calm_keeps: "calm m \<longleftrightarrow> (\<forall>c. keeps (\<lambda>g. core g = c) m)"
  unfolding calm_def keeps_def by blast

lemma calmI: "(\<And>c. keeps (\<lambda>g. core g = c) m) \<Longrightarrow> calm m"
  by (simp add: calm_keeps)

lemma calm_inv: "calm m \<Longrightarrow> keeps (managerInv env) m"
  by (auto simp: calm_def keeps_def dest: managerInv_core)

lemma calm_wp: "calm m \<Longrightarrow> (\<And>x h. core h = core g \<Longrightarrow> Q x h) \<Longrightarrow> (\<And>e h. core h = core g \<Longrightarrow> E e h) \<Longrightarrow> wp m Q E g"
  unfolding calm_def wp_def by (auto split: prod.splits sum.splits) (metis snd_conv)+

lemma calm_modify: "(\<And>g. core (f g) = core g) \<Longrightarrow> keeps (\<lambda>g. core g = c) (act_modify f)"
  by (simp add: keeps_def act_modify_def)

lemma core_cancel [simp]: "core (cancelTimer n g) = core g"
  by (simp add: core_def cancelTimer_def)

lemma core_workspace_timer [simp]: "core (clearWorkspaceTimerAt wid g) = core g"
  by (simp add: clearWorkspaceTimerAt_def split: option.splits) (simp add: core_def)

lemma core_delete [simp]: "core (deleteWorkspaceAt wid g) = core g"
proof -
  have "core (deleteWorkspaceAt wid g) = core (clearWorkspaceTimerAt wid g)"
    unfolding deleteWorkspaceAt_def Let_def core_def by simp
  then show ?thesis by simp
qed

lemma core_prune [simp]: "core (pruneAtTime now g) = core g"
proof -
  have "core (fold (\<lambda>(wid, w) h. if overdue now w then deleteWorkspaceAt wid h else h) ws h) = core h" for ws h
    by (induction ws arbitrary: h) auto
  then show ?thesis by (simp add: pruneAtTime_def)
qed

lemma calm_primitives [keep_rules]:
  "keeps (\<lambda>g. core g = c) (managerNow env)" "keeps (\<lambda>g. core g = c) (createWorkspaceId env)"
  "keeps (\<lambda>g. core g = c) (callSession s d)" "keeps (\<lambda>g. core g = c) (armTimer k q)"
  "keeps (\<lambda>g. core g = c) nextGeneration" "keeps (\<lambda>g. core g = c) (setWorkspace wid w)"
  "keeps (\<lambda>g. core g = c) (dropLease wid)" "keeps (\<lambda>g. core g = c) (setLease env wid t u)"
  "keeps (\<lambda>g. core g = c) (rememberClosed env st)" "keeps (\<lambda>g. core g = c) (rememberExpired env sid)"
  "keeps (\<lambda>g. core g = c) (enterWorkspace sid w)"
  "keeps (\<lambda>g. core g = c) (act_modify (clearWorkspaceTimerAt wid))"
  "keeps (\<lambda>g. core g = c) (act_modify (deleteWorkspaceAt wid))"
  "keeps (\<lambda>g. core g = c) (act_modify (cancelTimer n))"
  by (auto simp: keeps_def managerNow_def createWorkspaceId_def callSession_def armTimer_def nextGeneration_def
      setWorkspace_def dropLease_def setLease_def rememberClosed_def rememberExpired_def enterWorkspace_def act_modify_def)
    (simp_all add: core_def)

lemma calm_workspaces [keep_rules]:
  "keeps (\<lambda>g. core g = c) (pruneWorkspaces env)" "keeps (\<lambda>g. core g = c) (assertSessionTenant sid t)"
  "keeps (\<lambda>g. core g = c) (leaseEnd env u)" "keeps (\<lambda>g. core g = c) (isDue env x)"
  unfolding pruneWorkspaces_def assertSessionTenant_def leaseEnd_def isDue_def
  by (intro keep_rules calm_modify core_prune)+

lemma calm_tenant [keep_rules]: "(\<And>t. keeps P (f t)) \<Longrightarrow> keeps P (forTenant tenant f)"
  unfolding forTenant_def by (intro keep_rules)

lemma calm_lookups [keep_rules]:
  "keeps (\<lambda>g. core g = c) (requireWorkspace env wid tenant)" "keeps (\<lambda>g. core g = c) (getWorkspaceForSession env sid tenant)"
  "keeps (\<lambda>g. core g = c) (listWorkspaces env tenant)" "keeps (\<lambda>g. core g = c) (deactivateWorkspace env sid)"
  "keeps (\<lambda>g. core g = c) (updateWorkspaceControl env sid own ctl grant)"
  "keeps (\<lambda>g. core g = c) (scheduleWorkspaceExpiry env wid u)"
  unfolding requireWorkspace_def getWorkspaceForSession_def listWorkspaces_def deactivateWorkspace_def
    updateWorkspaceControl_def scheduleWorkspaceExpiry_def
  by (intro keep_rules calm_modify; simp add: core_def)+


text \<open>Limits of a constructed manager, and identifiers no two sessions share.\<close>

definition envOk :: "managerEnv \<Rightarrow> bool" where
  "envOk env \<longleftrightarrow> inj (meSessionId env) \<and> 1 \<le> meMaxSessions env"

section \<open>Every operation keeps the invariant\<close>

lemmas inv_calm = calm_inv [OF calmI]

lemma waitOk_updates [simp]: "waitOk env (g\<lparr>mgExpiry := x\<rparr>) = waitOk env g" "waitOk env (g\<lparr>mgWaiting := y\<rparr>) = waitOk env g"
  unfolding waitOk_def by simp_all

lemma sessionOk_updates [simp]: "sessionOk env (g\<lparr>mgExpiry := x\<rparr>) = sessionOk env g" "sessionOk env (g\<lparr>mgWaiting := y\<rparr>) = sessionOk env g"
  "withoutProfile (g\<lparr>mgExpiry := x\<rparr>) = withoutProfile g" "withoutProfile (g\<lparr>mgWaiting := y\<rparr>) = withoutProfile g"
  unfolding sessionOk_def withoutProfile_def by simp_all

lemma inv_expiry: "managerInv env g \<Longrightarrow> list_all (\<lambda>(sid, e). exAt e \<noteq> None) xs \<Longrightarrow> managerInv env (g\<lparr>mgExpiry := xs\<rparr>)"
  by (simp add: managerInv_def)

lemma inv_expiry_less: "managerInv env g \<Longrightarrow> set xs \<subseteq> set (mgExpiry g) \<Longrightarrow> managerInv env (g\<lparr>mgExpiry := xs\<rparr>)"
  by (rule inv_expiry) (auto simp: managerInv_def list_all_iff)

lemma set_odelete: "set (odelete k m) \<subseteq> set m"
  by (simp add: AList.delete_eq)

lemma inv_clear: "managerInv env g \<Longrightarrow> managerInv env (clearExpiryAt sid g)"
  by (auto simp: clearExpiryAt_def managerInv_core [OF core_cancel] split: option.split intro!: inv_expiry_less dest: set_odelete [THEN subsetD])

lemma inv_wait: "managerInv env g \<Longrightarrow> waitOk env g w \<Longrightarrow> managerInv env (g\<lparr>mgWaiting := mgWaiting g @ [w]\<rparr>)"
  by (simp add: managerInv_def)

lemma inv_resumed: "managerInv env g \<Longrightarrow> managerInv env (resumedFrom w g)"
  by (auto simp: resumedFrom_def managerInv_def list_all_iff
      dest: set_remove1_subset [THEN subsetD])

lemma waiting_ok: "managerInv env g \<Longrightarrow> w \<in> set (mgWaiting g) \<Longrightarrow> waitOk env (resumedFrom v g) w"
  by (simp add: managerInv_def list_all_iff resumedFrom_def)

lemma inv_primitives [keep_rules]:
  "keeps (managerInv env) (managerNow env')" "keeps (managerInv env) (callSession s d)"
  "keeps (managerInv env) (armTimer k q)" "keeps (managerInv env) nextGeneration"
  "keeps (managerInv env) (createWorkspaceId env')" "keeps (managerInv env) (enterWorkspace sid w)"
  "keeps (managerInv env) (setLease env' wid t q)" "keeps (managerInv env) (dropLease wid)"
  "keeps (managerInv env) (rememberClosed env' st)" "keeps (managerInv env) (rememberExpired env' sid)"
  "keeps (managerInv env) (act_modify (cancelTimer n) :: unit managerAct)"
  "keeps (managerInv env) (act_modify (deleteWorkspaceAt wid) :: unit managerAct)"
  "keeps (managerInv env) (pruneWorkspaces env')" "keeps (managerInv env) (assertSessionTenant sid t)"
  "keeps (managerInv env) (leaseEnd env' u)" "keeps (managerInv env) (isDue env' x)"
  "keeps (managerInv env) (requireWorkspace env' wid tenant)" "keeps (managerInv env) (getWorkspaceForSession env' sid tenant)"
  "keeps (managerInv env) (listWorkspaces env' tenant)" "keeps (managerInv env) (deactivateWorkspace env' sid)"
  "keeps (managerInv env) (updateWorkspaceControl env' sid own ctl grant)"
  "keeps (managerInv env) (scheduleWorkspaceExpiry env' wid q)"
  by (intro inv_calm keep_rules)+

lemma inv_clearTimer [keep_rules]: "keeps (managerInv env) (clearSessionTimer sid)"
  and inv_clearAll [keep_rules]: "keeps (managerInv env) clearAllExpiryTimers"
  and inv_dropExpiry [keep_rules]: "keeps (managerInv env) (act_modify (\<lambda>g. g\<lparr>mgExpiry := odelete sid (mgExpiry g)\<rparr>) :: unit managerAct)"
proof -
  show "keeps (managerInv env) (clearSessionTimer sid)"
    unfolding clearSessionTimer_def by (rule keeps_modify) (rule inv_clear)
  have "managerInv env g \<Longrightarrow> managerInv env (fold clearExpiryAt ks g)" for ks g
    by (induction ks arbitrary: g) (simp_all add: inv_clear)
  then show "keeps (managerInv env) clearAllExpiryTimers"
    unfolding clearAllExpiryTimers_def by (rule keeps_modify)
  show "keeps (managerInv env) (act_modify (\<lambda>g. g\<lparr>mgExpiry := odelete sid (mgExpiry g)\<rparr>) :: unit managerAct)"
    by (rule keeps_modify) (auto intro!: inv_expiry_less dest: set_odelete [THEN subsetD])
qed

lemma inv_note [keep_rules]: "exAt e \<noteq> None \<Longrightarrow> keeps (managerInv env) (noteExpiry sid e)"
proof -
  assume e: "exAt e \<noteq> None"
  have "list_all (\<lambda>(sid, e). exAt e \<noteq> None) xs \<Longrightarrow> list_all (\<lambda>(sid, e). exAt e \<noteq> None) (oset sid e xs)" for xs
    using e by (induction xs) auto
  then show ?thesis
    unfolding noteExpiry_def by (intro keeps_modify inv_expiry) (auto simp: managerInv_def)
qed

lemma inv_schedule [keep_rules]:
  "keeps (managerInv env) (scheduleExpiryAt env' sid q)" "keeps (managerInv env) (scheduleSessionExpiry env' sid)"
  unfolding scheduleExpiryAt_def scheduleSessionExpiry_def by (intro keep_rules; simp)+

lemma inv_waitAs: "(\<And>g. managerInv env g \<Longrightarrow> waitOk env g w) \<Longrightarrow> keeps (managerInv env) (waitAs w)"
  unfolding waitAs_def by (intro keeps_modify inv_wait) blast+

lemma inv_waits [keep_rules]:
  "keeps (managerInv env) (waitAs (WaitHandoff sid hand))" "keeps (managerInv env) (waitAs (WaitHandedOff wid tenant a))"
  "keeps (managerInv env) (waitAs (WaitTakeover sid hand))" "keeps (managerInv env) (waitAs (WaitTaken wid tenant st))"
  "keeps (managerInv env) (waitAs (WaitShutdown objects))" "keeps (managerInv env) (waitAs (WaitLaunch rq s key))"
  by (intro inv_waitAs; simp add: waitOk_def)+

lemma session_known:
  "managerInv env g \<Longrightarrow> oget (mgSessions g) sid = Some s \<Longrightarrow> s < length (mgMade g) \<and> sid = meSessionId env s"
  by (auto simp: managerInv_def list_all_iff sessionOk_def dest!: map_of_SomeD)

lemma wp_keeps: "keeps P m \<Longrightarrow> P g \<Longrightarrow> wp m (\<lambda>_. P) (\<lambda>_. P) g"
  by (simp add: keeps_wp)

lemma beginStop_wp:
  assumes "managerInv env g" and "s < length (mgMade g)" and "sid = meSessionId env s"
  shows "wp (beginStop sid s why origin) (\<lambda>_. managerInv env) (\<lambda>_. managerInv env) g"
proof -
  let ?g = "clearExpiryAt sid g"
  have made: "mgMade (clearExpiryAt v g) = mgMade g" for v
    by (simp add: clearExpiryAt_def cancelTimer_def split: option.split)
  have "managerInv env (?g\<lparr>mgCalls := mgCalls ?g @ [(s, CallStop why)]\<rparr>)" (is "managerInv env ?h")
    using inv_clear [OF assms(1), of sid] managerInv_core [of ?h ?g env] by (simp add: core_def)
  then have "managerInv env (?h\<lparr>mgWaiting := mgWaiting ?h @ [WaitStopped s sid origin]\<rparr>)"
    by (rule inv_wait) (simp add: waitOk_def made assms)
  then show ?thesis
    by (simp add: beginStop_def wp_rules clearSessionTimer_def callSession_def waitAs_def)
qed

lemma inv_expire [keep_rules]: "keeps (managerInv env) (expireSession env' sid)"
proof -
  have "wp (expireSession env' sid) (\<lambda>_. managerInv env) (\<lambda>_. managerInv env) g" if g: "managerInv env g" for g
  proof (cases "oget (mgSessions g) sid")
    case None
    then show ?thesis using g by (simp add: expireSession_def wp_rules)
  next
    case (Some s)
    have calm: "calm (rememberExpired env' sid)" by (intro calmI keep_rules)
    have same: "managerInv env h" "mgMade h = mgMade g" if "core h = core g" for h
      using g that managerInv_core [OF that] by (simp_all add: core_def)
    have "wp (rememberExpired env' sid)
        (\<lambda>_. wp (beginStop sid s (Some ''session-ttl-expired'') ExpiryStop) (\<lambda>_. managerInv env) (\<lambda>_. managerInv env))
        (\<lambda>_. managerInv env) g"
      using session_known [OF g Some] by (intro calm_wp [OF calm] beginStop_wp) (auto dest: same)
    then show ?thesis using Some by (simp add: expireSession_def wp_rules)
  qed
  then show ?thesis by (simp add: keeps_wp)
qed

lemma inv_get [keep_rules]: "keeps (managerInv env) (getSession env' sid tenant)"
  unfolding getSession_def by (intro keep_rules)

lemma inv_reads [keep_rules]:
  "keeps (managerInv env) (sessionStatusOf env' live sid tenant)" "keeps (managerInv env) (getSessionState env' live sid tenant)"
  "keeps (managerInv env) (getWorkspace env' wid tenant)" "keeps (managerInv env) (assertWriteAllowed env' live sid action tenant)"
  unfolding sessionStatusOf_def getSessionState_def getWorkspace_def assertWriteAllowed_def Let_def
  by (intro keep_rules)+

lemma inv_methods [keep_rules]: "keeps (managerInv env) (sessionMethod env' live meth sid args tenant)"
  unfolding sessionMethod_def passOnWrite_def passOn_def by (intro keep_rules)

lemma inv_handing [keep_rules]:
  "keeps (managerInv env) (handoffSession env' sid ttlMs why tenant hand)"
  "keeps (managerInv env) (takeoverSession env' sid token confirmed tenant hand)"
  unfolding handoffSession_def takeoverSession_def by (intro keep_rules)+

lemma keeps_case_hand [keep_rules]:
  "keeps P m \<Longrightarrow> (\<And>wid t. keeps P (f wid t)) \<Longrightarrow> keeps P (case v of FromSession \<Rightarrow> m | FromWorkspace wid t \<Rightarrow> f wid t)"
  by (cases v) simp_all

lemma inv_handed [keep_rules]:
  "keeps (managerInv env) (finishHandoff env' sid hand handAnswer)" "keeps (managerInv env) (finishTakeover env' sid hand stopAnswer)"
  "keeps (managerInv env) (workspaceHandoff env' wid why tenant)"
  "keeps (managerInv env) (finishWorkspaceHandoff env' wid tenant a)"
  "keeps (managerInv env) (workspaceResume env' wid token confirmed tenant)"
  "keeps (managerInv env) (finishWorkspaceResume env' wid tenant)"
  unfolding finishHandoff_def finishTakeover_def workspaceHandoff_def finishWorkspaceHandoff_def workspaceResume_def
    finishWorkspaceResume_def
  by (intro keep_rules)+

lemma keeps_case_timer [keep_rules]:
  "(\<And>sid n. keeps P (f sid n)) \<Longrightarrow> (\<And>sid n. keeps P (m sid n)) \<Longrightarrow> (\<And>wid q. keeps P (k wid q)) \<Longrightarrow>
    keeps P (case v of SessionTimer sid n \<Rightarrow> f sid n | RetryTimer sid n \<Rightarrow> m sid n | WorkspaceTimer wid q \<Rightarrow> k wid q)"
  by (cases v) simp_all

lemma inv_workspaceTimer [keep_rules]:
  "keeps (managerInv env) (act_modify (\<lambda>g. g\<lparr>mgWorkspaceTimers := f g\<rparr>) :: unit managerAct)"
  by (intro inv_calm calm_modify) (simp add: core_def)

lemma inv_timer [keep_rules]: "keeps (managerInv env) (fireManagerTimer env' n k)"
  unfolding fireManagerTimer_def by (intro keep_rules)


lemma core_same: "core h = core g \<Longrightarrow> managerInv env g \<Longrightarrow> managerInv env h"
  "core h = core g \<Longrightarrow> mgMade h = mgMade g" "core h = core g \<Longrightarrow> mgSessions h = mgSessions g"
  "core h = core g \<Longrightarrow> mgExpiry h = mgExpiry g" "core h = core g \<Longrightarrow> mgWaiting h = mgWaiting g"
  using managerInv_core [of h g env] by (simp_all add: core_def)

lemma inv_stop [keep_rules]: "keeps (managerInv env) (stopSession sid why tenant)"
proof -
  have "wp (stopSession sid why tenant) (\<lambda>_. managerInv env) (\<lambda>_. managerInv env) g" if g: "managerInv env g" for g
  proof -
    have calm: "calm (forTenant tenant (assertSessionTenant sid))" by (intro calmI keep_rules)
    show ?thesis
    proof (cases "oget (mgSessions g) sid")
      case None
      then show ?thesis using g
        by (cases "oget (mgClosed g) sid") (auto simp: stopSession_def wp_rules intro!: calm_wp [OF calm] dest: core_same)
    next
      case (Some s)
      have "wp (forTenant tenant (assertSessionTenant sid))
          (\<lambda>_. wp (act_then (beginStop sid s why CallerStop) (act_return (None :: sessionStatus option))) (\<lambda>_. managerInv env) (\<lambda>_. managerInv env))
          (\<lambda>_. managerInv env) g"
        using g session_known [OF g Some] unfolding wp_then
        by (intro calm_wp [OF calm]) (auto simp: wp_return intro!: beginStop_wp dest: core_same)
      then show ?thesis using Some by (simp add: stopSession_def wp_rules)
    qed
  qed
  then show ?thesis by (simp add: keeps_wp)
qed

text \<open>A session leaves together with its locks.\<close>

lemma inv_leave:
  assumes g: "managerInv env g" and ps: "owf ps"
    "\<And>k sid'. sid' \<noteq> sid \<Longrightarrow> oget (mgProfiles g) k = Some sid' \<Longrightarrow> oget ps k = Some sid'"
  shows "managerInv env (g\<lparr>mgSessions := odelete sid (mgSessions g), mgProfiles := ps\<rparr>)" (is "managerInv env ?h")
proof -
  have "list_all (sessionOk env ?h) (mgSessions ?h)"
    using g ps(2) by (auto simp: managerInv_def list_all_iff sessionOk_def AList.delete_eq)
  moreover have "waitOk env ?h w" if "waitOk env g w" for w
    using that by (auto simp: waitOk_def oget_odelete split: managerWait.splits)
  then have "list_all (waitOk env ?h) (mgWaiting ?h)" using g by (auto simp: managerInv_def list_all_iff)
  moreover have "withoutProfile ?h \<le> withoutProfile g"
  proof -
    have "filter p (odelete sid xs) = odelete sid (filter p xs)" for p and xs :: "(string, nat) omap"
      by (simp add: AList.delete_eq filter_filter conj_commute)
    then show ?thesis by (simp add: withoutProfile_def length_odelete_le)
  qed
  ultimately show ?thesis using g ps(1) by (auto simp: managerInv_def owf_odelete)
qed


lemma wp_calm_then:
  "calm m \<Longrightarrow> (\<And>h. core h = core g \<Longrightarrow> wp n Q E h) \<Longrightarrow> (\<And>e h. core h = core g \<Longrightarrow> E e h) \<Longrightarrow> wp (act_then m n) Q E g"
  unfolding wp_then by (rule calm_wp)

lemma finishStop_wp:
  assumes g: "managerInv env g" and s: "s < length (mgMade g)" "sid = meSessionId env s"
  shows "wp (finishSessionStop env' live s sid origin stopAnswer) (\<lambda>_. managerInv env) (\<lambda>_. managerInv env) g"
proof -
  let ?h = "g\<lparr>mgSessions := odelete sid (mgSessions g), mgProfiles := filter (\<lambda>(k, holder). holder \<noteq> sid) (mgProfiles g)\<rparr>"
  have ps: "owf (mgProfiles g)" using g by (simp add: managerInv_def)
  then have "oget (mgProfiles g) k = Some sid' \<Longrightarrow> sid' \<noteq> sid \<Longrightarrow>
      oget (filter (\<lambda>(k, holder). holder \<noteq> sid) (mgProfiles g)) k = Some sid'" for k sid'
    by (simp add: distinct_map_filter)
  then have h: "managerInv env ?h" using ps by (intro inv_leave [OF g]) (simp_all add: distinct_map_filter)
  have retry: "wp (waitAs (WaitRetry sid)) (\<lambda>_. managerInv env) (\<lambda>_. managerInv env) k" if "core k = core ?h" for k
  proof -
    have "waitOk env k (WaitRetry sid)"
      using s core_same(2,3) [OF that] by (auto simp: waitOk_def oget_odelete)
    then show ?thesis using inv_wait core_same(1) [OF that h] by (simp add: waitAs_def wp_modify)
  qed
  have keep: "managerInv env k" if "core k = core ?h" for k by (rule core_same(1) [OF that h])
  have calm: "calm (deactivateWorkspace env' sid)" "calm (rememberClosed env' st)" for st
    by (intro calmI keep_rules)+
  have inner: "wp (case stopAnswer of Inr st \<Rightarrow> rememberClosed env' st
      | Inl e \<Rightarrow> act_then (case lvStatus live s of Inr st \<Rightarrow> rememberClosed env' st | Inl e' \<Rightarrow> act_return ())
            (if origin = ExpiryStop then waitAs (WaitRetry sid) else act_throw (ThrownBy e)))
      (\<lambda>_. managerInv env) (\<lambda>_. managerInv env) k" if k: "core k = core ?h" for k
  proof (cases stopAnswer)
    case (Inr st)
    then show ?thesis using k by (auto intro!: calm_wp [OF calm(2)] keep)
  next
    case (Inl e)
    have "calm (case lvStatus live s of Inr st \<Rightarrow> rememberClosed env' st | Inl e' \<Rightarrow> act_return ())"
      by (intro calmI keep_rules)
    then show ?thesis unfolding Inl sum.case
      using k by (intro wp_calm_then) (auto simp: wp_throw intro: retry keep)
  qed
  have "wp (act_then (deactivateWorkspace env' sid) (case stopAnswer of Inr st \<Rightarrow> rememberClosed env' st
      | Inl e \<Rightarrow> act_then (case lvStatus live s of Inr st \<Rightarrow> rememberClosed env' st | Inl e' \<Rightarrow> act_return ())
            (if origin = ExpiryStop then waitAs (WaitRetry sid) else act_throw (ThrownBy e))))
      (\<lambda>_. managerInv env) (\<lambda>_. managerInv env) ?h"
    by (intro wp_calm_then [OF calm(1)] inner keep)
  then show ?thesis
    by (simp add: finishSessionStop_def forgetSession_def releasePersistentProfile_def wp_then wp_modify)
qed

lemma inv_shutdown [keep_rules]: "keeps (managerInv env) (shutdownSessions why)"
  unfolding shutdownSessions_def
  by (intro keep_rules inv_calm calm_modify) (simp add: core_def)


definition aside :: "managerState \<Rightarrow> sessionSpec list \<times> managerWait list \<times> (string, expiryEntry) omap \<times> bool" where
  "aside g = (mgMade g, mgWaiting g, mgExpiry g, owf (mgProfiles g))"

lemma closeSessions_keeps: "snd (snd (snd c)) \<Longrightarrow> keeps (\<lambda>g. aside g = c) (closeSessions env live objects)"
proof (induction objects)
  case (Cons s objects)
  have calm: "keeps (\<lambda>g. aside g = c) m" if "calm m" for m :: "'x managerAct"
    using that by (auto simp: keeps_def calm_def aside_def core_def)
  have "keeps (\<lambda>g. aside g = c) (releasePersistentProfile (meSessionId env s))"
    unfolding releasePersistentProfile_def using Cons.prems
    by (intro keeps_modify) (auto simp: aside_def distinct_map_filter)
  moreover have "keeps (\<lambda>g. aside g = c) (deactivateWorkspace env (meSessionId env s))"
    "keeps (\<lambda>g. aside g = c) (rememberClosed env st)" for st
    by (intro calm calmI keep_rules)+
  ultimately show ?case using Cons by (auto intro!: keep_rules)
qed (simp add: keep_rules)

lemma closeSessions_returns:
  "(\<And>s. s \<in> set objects \<Longrightarrow> \<not> isl (lvStatus live s)) \<Longrightarrow> wp (closeSessions env live objects) (\<lambda>_ _. True) (\<lambda>_ _. False) g"
proof (induction objects arbitrary: g)
  case (Cons s objects)
  then obtain st where st: "lvStatus live s = Inr st" by (metis list.set_intros(1) isl_def sum.exhaust)
  have rest: "wp (closeSessions env live objects) (\<lambda>_ _. True) (\<lambda>_ _. False) h" for h using Cons by simp
  have deactivate: "wp (deactivateWorkspace env sid) (\<lambda>_ _. True) (\<lambda>_ _. False) h" for sid h
    by (simp add: deactivateWorkspace_def dropLease_def managerNow_def setWorkspace_def wp_def act_defs split: option.splits prod.splits)
  show ?case
    unfolding closeSessions.simps wp_then releasePersistentProfile_def wp_modify
    by (rule wp_mono [OF deactivate]) (simp_all add: st wp_then rememberClosed_def wp_modify rest)
qed (simp add: wp_return)

lemma finishShutdown_wp:
  assumes env: "envOk env" and g: "managerInv env g" and live: "\<And>s. s \<in> set objects \<Longrightarrow> \<not> isl (lvStatus live s)"
  shows "wp (finishShutdown env live objects) (\<lambda>_. managerInv env) (\<lambda>_. managerInv env) g"
proof -
  have empty: "managerInv env (h\<lparr>mgSessions := []\<rparr>)" (is "managerInv env ?h") if "aside h = aside g" for h
  proof -
    have eq: "mgMade h = mgMade g" "mgWaiting h = mgWaiting g" "mgExpiry h = mgExpiry g" "owf (mgProfiles h)"
      using that g by (simp_all add: aside_def managerInv_def)
    have "waitOk env ?h w" if "waitOk env g w" for w
      using that eq by (auto simp: waitOk_def split: managerWait.splits)
    then have "list_all (waitOk env ?h) (mgWaiting ?h)" using g eq by (auto simp: managerInv_def list_all_iff)
    moreover have "withoutProfile ?h = 0" by (simp add: withoutProfile_def)
    ultimately show ?thesis using g eq env by (simp add: managerInv_def envOk_def)
  qed
  have "wp (closeSessions env live objects) (\<lambda>_ h. aside h = aside g) (\<lambda>_ h. aside h = aside g) g"
    using g by (intro wp_keeps closeSessions_keeps) (simp_all add: aside_def managerInv_def)
  then have "wp (closeSessions env live objects) (\<lambda>_ h. aside h = aside g) (\<lambda>_ _. False) g"
    using closeSessions_returns [where objects = objects and live = live and env = env and g = g] live by (auto simp: wp_def split: prod.splits sum.splits)
  then show ?thesis
    unfolding finishShutdown_def wp_then by (rule wp_mono) (simp_all add: wp_modify empty)
qed


section \<open>Starting\<close>

lemma entered_inv:
  assumes env: "envOk env" and g: "managerInv env g"
    and free: "\<And>k. lockOf spec = Some k \<Longrightarrow> oget (mgProfiles g) k = None"
    and room: "profiled spec \<or> int (length (mgSessions g)) < meMaxSessions env"
  defines "s \<equiv> length (mgMade g)"
  shows "managerInv env (g\<lparr>mgMade := mgMade g @ [spec],
      mgProfiles := (case lockOf spec of None \<Rightarrow> mgProfiles g | Some k \<Rightarrow> oset k (meSessionId env s) (mgProfiles g)),
      mgSessions := oset (meSessionId env s) s (mgSessions g)\<rparr>)" (is "managerInv env ?h")
proof -
  let ?sid = "meSessionId env s"
  have known: "s' < s \<and> sid' = meSessionId env s'" if "(sid', s') \<in> set (mgSessions g)" for sid' s'
    using g that by (auto simp: managerInv_def list_all_iff sessionOk_def s_def)
  have fresh: "?sid \<notin> set (okeys (mgSessions g))"
    using known env by (fastforce simp: envOk_def dest: injD)
  then have sessions: "mgSessions ?h = mgSessions g @ [(?sid, s)]" by (simp add: oset_fresh)
  have made: "mgMade ?h ! s' = mgMade g ! s'" if "s' < s" for s' using that by (simp add: s_def nth_append)
  have profiles: "oget (mgProfiles ?h) k = (if lockOf spec = Some k then Some ?sid else oget (mgProfiles g) k)" for k
    by (auto simp: oget_oset split: option.split)
  have "owf (mgProfiles ?h)" using g by (auto simp: managerInv_def owf_oset split: option.split)
  moreover have "owf (mgSessions ?h)" using g fresh by (simp only: sessions) (auto simp: managerInv_def)
  moreover have new: "sessionOk env ?h (?sid, s)"
    by (auto simp: sessionOk_def oget_oset s_def split: option.split)
  moreover have "sessionOk env ?h (sid', s')" if "(sid', s') \<in> set (mgSessions g)" for sid' s'
  proof -
    have "oget (mgProfiles g) k = Some sid'" if "lockOf (mgMade g ! s') = Some k" for k
      using g that \<open>(sid', s') \<in> set (mgSessions g)\<close> by (fastforce simp: managerInv_def list_all_iff sessionOk_def)
    then show ?thesis
      using known [OF that] free made [of s']
      by (auto simp: sessionOk_def oget_oset s_def split: option.split)
  qed
  then have "list_all (sessionOk env ?h) (mgSessions ?h)"
    using new unfolding sessions by (auto simp: list_all_iff)
  moreover have "waitOk env ?h w" if old: "waitOk env g w" for w
  proof (cases w)
    case (WaitRetry sid)
    then obtain s' where s': "s' < s" "sid = meSessionId env s'" "oget (mgSessions g) sid = None"
      using old WaitRetry by (auto simp: waitOk_def s_def)
    then have "sid \<noteq> ?sid" using env by (auto simp: envOk_def dest: injD)
    then have "oget (mgSessions ?h) sid = None" using s' by (simp add: oget_oset)
    moreover have "\<exists>s'' < length (mgMade ?h). sid = meSessionId env s''"
      using s' by (intro exI [of _ s']) (simp add: s_def)
    ultimately show ?thesis using WaitRetry by (simp add: waitOk_def)
  qed (use old in \<open>auto simp: waitOk_def s_def\<close>)
  then have "list_all (waitOk env ?h) (mgWaiting ?h)" using g by (auto simp: managerInv_def list_all_iff)
  moreover have "int (withoutProfile ?h) \<le> meMaxSessions env"
  proof -
    have "filter (\<lambda>(sid, s'). \<not> profiled (mgMade ?h ! s')) (mgSessions g)
        = filter (\<lambda>(sid, s'). \<not> profiled (mgMade g ! s')) (mgSessions g)"
      using known made by (intro filter_cong) auto
    then have "withoutProfile ?h = withoutProfile g + (if profiled spec then 0 else 1)"
      unfolding withoutProfile_def sessions by (simp add: s_def)
    moreover have "withoutProfile g \<le> length (mgSessions g)" by (simp add: withoutProfile_def)
    ultimately show ?thesis using g room by (auto simp: managerInv_def)
  qed
  ultimately show ?thesis using g by (simp add: managerInv_def)
qed


lemma launchSession_wp:
  assumes env: "envOk env" and g: "managerInv env g"
    and room: "truthy (field (rqOptions rq) ''profileId'') \<or> int (length (mgSessions g)) < meMaxSessions env"
  shows "wp (launchSession env rq made) (\<lambda>_. managerInv env) (\<lambda>_. managerInv env) g"
proof -
  let ?key = "profileKey (meOptions env) (rqOptions rq)"
  have entered: "managerInv env (g\<lparr>mgMade := mgMade g @ [spec],
        mgProfiles := (case ?key of None \<Rightarrow> mgProfiles g | Some k \<Rightarrow> oset k (meSessionId env s) (mgProfiles g)),
        mgExpired := x, mgSessions := oset (meSessionId env s) s (mgSessions g), mgCalls := y,
        mgWaiting := mgWaiting g @ [WaitLaunch rq s ?key]\<rparr>)" (is "managerInv env ?h")
    if free: "\<not> (case ?key of None \<Rightarrow> False | Some k \<Rightarrow> oget (mgProfiles g) k \<noteq> None)"
      and spec: "spec = sessionOptions (meGenerate env) (mePolicy env) (meOptions env) rq network"
      and s: "s = length (mgMade g)" for network x y s spec
  proof -
    let ?e = "g\<lparr>mgMade := mgMade g @ [spec],
        mgProfiles := (case ?key of None \<Rightarrow> mgProfiles g | Some k \<Rightarrow> oset k (meSessionId env s) (mgProfiles g)),
        mgSessions := oset (meSessionId env s) s (mgSessions g)\<rparr>"
    have key: "lockOf spec = ?key" unfolding spec by (rule lockOf_options)
    have "profiled spec \<or> int (length (mgSessions g)) < meMaxSessions env"
      using room by (simp add: profiled_def sessionOptions_def spec)
    then have "managerInv env ?e"
      using entered_inv [OF env g, of spec] free unfolding key s by (auto split: option.splits)
    then have "managerInv env (?e\<lparr>mgWaiting := mgWaiting ?e @ [WaitLaunch rq s ?key]\<rparr>)"
      by (rule inv_wait) (simp add: waitOk_def)
    then show ?thesis by (rule core_same(1) [rotated]) (simp add: core_def)
  qed
  show ?thesis
  proof (cases "chooseNetwork (meProxy env) (meOptions env) rq")
    case (Inl e)
    then show ?thesis using g by (simp add: launchSession_def wp_rules)
  next
    case (Inr network)
    show ?thesis
    proof (cases "(case ?key of None \<Rightarrow> False | Some k \<Rightarrow> oget (mgProfiles g) k \<noteq> None) \<or> isl made")
      case True
      then show ?thesis using g Inr
        by (cases made) (auto simp: launchSession_def wp_rules)
    next
      case False
      then obtain u where made: "made = Inr u" by (cases made) auto
      have "wp (newSession spec) Q E h = Q (length (mgMade h)) (h\<lparr>mgMade := mgMade h @ [spec]\<rparr>)" for spec Q E h
        by (simp add: newSession_def wp_def)
      then show ?thesis
        using False entered [OF _ refl refl]
        by (simp add: launchSession_def wp_rules Inr made enterSession_def callSession_def waitAs_def cong: option.case_cong)
    qed
  qed
qed


lemma startSession_wp:
  assumes env: "envOk env" and g: "managerInv env g"
  shows "wp (startSession env options made) (\<lambda>_. managerInv env) (\<lambda>_. managerInv env) g"
proof -
  have "managerInv env (g\<lparr>mgWaiting := mgWaiting g @ [WaitProfile rq]\<rparr>)" if "rqOptions rq = options" "truthy (field options ''profileId'')" for rq
    using that by (intro inv_wait g) (simp add: waitOk_def)
  moreover have "wp (launchSession env rq made) (\<lambda>_. managerInv env) (\<lambda>_. managerInv env) g"
    if "\<not> meMaxSessions env \<le> int (length (mgSessions g))" for rq
    using that by (intro launchSession_wp env g) simp
  ultimately show ?thesis
    using g by (simp add: startSession_def wp_rules Let_def waitAs_def split: sum.split)
qed

lemma read_wp:
  assumes env: "envOk env" and g: "managerInv env g" and rq: "truthy (field (rqOptions rq) ''profileId'')"
  shows profileRead_wp: "wp (profileRead rq answer) (\<lambda>_. managerInv env) (\<lambda>_. managerInv env) g"
    and cookiesRead_wp: "wp (cookiesRead env rq answer made) (\<lambda>_. managerInv env) (\<lambda>_. managerInv env) g"
    and extensionsResolved_wp: "wp (extensionsResolved env rq answer made) (\<lambda>_. managerInv env) (\<lambda>_. managerInv env) g"
proof -
  have launch: "wp (launchSession env rq' made) (\<lambda>_. managerInv env) (\<lambda>_. managerInv env) g" if "rqOptions rq' = rqOptions rq" for rq'
    using rq that by (intro launchSession_wp env g) simp
  have waits: "managerInv env (g\<lparr>mgWaiting := mgWaiting g @ [WaitCookies rq']\<rparr>)"
    "managerInv env (g\<lparr>mgWaiting := mgWaiting g @ [WaitExtensions rq']\<rparr>)" if "rqOptions rq' = rqOptions rq" for rq'
    using rq that by (intro inv_wait g; simp add: waitOk_def)+
  show "wp (profileRead rq answer) (\<lambda>_. managerInv env) (\<lambda>_. managerInv env) g"
    using g waits by (cases answer) (simp_all add: profileRead_def wp_rules waitAs_def)
  show "wp (cookiesRead env rq answer made) (\<lambda>_. managerInv env) (\<lambda>_. managerInv env) g"
    using g waits launch by (cases answer) (simp_all add: cookiesRead_def wp_rules waitAs_def)
  show "wp (extensionsResolved env rq answer made) (\<lambda>_. managerInv env) (\<lambda>_. managerInv env) g"
    using g launch by (cases answer) (simp_all add: extensionsResolved_def wp_rules)
qed

lemma inv_unlaunched:
  assumes g: "managerInv env g" and k: "k = g\<lparr>mgSessions := odelete sid (mgSessions g)\<rparr>"
  shows "managerInv env (case key of None \<Rightarrow> k
    | Some x \<Rightarrow> if oget (mgProfiles k) x = Some sid then k\<lparr>mgProfiles := odelete x (mgProfiles k)\<rparr> else k)"
proof -
  have ps: "owf (mgProfiles g)" using g by (simp add: managerInv_def)
  have "managerInv env (g\<lparr>mgSessions := odelete sid (mgSessions g), mgProfiles := mgProfiles g\<rparr>)"
    using ps by (intro inv_leave [OF g]) simp_all
  moreover have "managerInv env (g\<lparr>mgSessions := odelete sid (mgSessions g), mgProfiles := odelete x (mgProfiles g)\<rparr>)"
    if "oget (mgProfiles g) x = Some sid" for x
    using that by (intro inv_leave [OF g]) (auto simp: owf_odelete [OF ps] oget_odelete simp del: map_of_eq_Some_iff)
  ultimately show ?thesis
    unfolding k by (auto split: option.split)
qed

lemma finishLaunch_wp:
  assumes g: "managerInv env g"
  shows "wp (finishLaunch env rq s key launchAnswer) (\<lambda>_. managerInv env) (\<lambda>_. managerInv env) g"
proof (cases launchAnswer)
  case (Inr u)
  have "keeps (managerInv env) (finishLaunch env rq s key (Inr u))"
    unfolding finishLaunch_def Let_def sum.case by (intro keep_rules)
  then show ?thesis unfolding Inr by (rule wp_keeps) (rule g)
next
  case (Inl e)
  let ?sid = "meSessionId env s"
  let ?c = "clearExpiryAt ?sid g"
  have "managerInv env ((case key of None \<Rightarrow> k | Some x \<Rightarrow> if oget (mgProfiles k) x = Some ?sid then k\<lparr>mgProfiles := odelete x (mgProfiles k)\<rparr> else k))"
    if "k = ?c\<lparr>mgSessions := odelete ?sid (mgSessions ?c)\<rparr>" for k
    using inv_unlaunched [OF inv_clear [OF g] that] .
  then show ?thesis
    by (simp add: Inl finishLaunch_def Let_def wp_rules clearSessionTimer_def forgetSession_def)
qed

lemma inv_failed:
  assumes g: "managerInv env g" and gone: "oget (mgSessions g) sid = None"
  shows "wp (expiryFailed env live sid) (\<lambda>_. managerInv env) (\<lambda>_. managerInv env) g"
  using g gone by (simp add: expiryFailed_def wp_rules)

lemma step_inv:
  assumes env: "envOk env" and step: "managerStep env g h" and g: "managerInv env g"
  shows "managerInv env h"
proof -
  have wp_step: "managerInv env k'" if "wp m (\<lambda>_. managerInv env) (\<lambda>_. managerInv env) k" "m k = (r, k')"
    for m :: "'x managerAct" and k r k'
    using that by (cases r) (auto dest: wp_Inr wp_Inl)
  have keep_step: "managerInv env k'" if "keeps (managerInv env) m" "managerInv env k" "m k = (r, k')"
    for m :: "'x managerAct" and k r k'
    using that by (rule keepsD)
  have waited: "waitOk env (resumedFrom v g) w" if "w \<in> set (mgWaiting g)" for v w using waiting_ok [OF g that] .
  note resumed = inv_resumed [OF g]
  from step show ?thesis
  proof cases
    case ms_start
    then show ?thesis using startSession_wp [OF env g] by (blast intro: wp_step)
  next
    case (ms_profile rq answer r)
    then show ?thesis using waited [OF ms_profile(1)] by (intro wp_step [OF profileRead_wp [OF env resumed] ms_profile(2)]) (auto simp: waitOk_def)
  next
    case (ms_cookies rq answer made r)
    then show ?thesis using waited [OF ms_cookies(1)] by (intro wp_step [OF cookiesRead_wp [OF env resumed] ms_cookies(2)]) (auto simp: waitOk_def)
  next
    case (ms_extensions rq answer made r)
    then show ?thesis using waited [OF ms_extensions(1)] by (intro wp_step [OF extensionsResolved_wp [OF env resumed] ms_extensions(2)]) (auto simp: waitOk_def)
  next
    case ms_launched
    then show ?thesis using finishLaunch_wp [OF resumed] by (blast intro: wp_step)
  next
    case (ms_stopped s sid origin live stopAnswer r)
    then show ?thesis using waited [OF ms_stopped(1)] by (intro wp_step [OF finishStop_wp [OF resumed] ms_stopped(2)]) (auto simp: waitOk_def)
  next
    case (ms_retry sid live r)
    then show ?thesis using waited [OF ms_retry(1)] by (intro wp_step [OF inv_failed [OF resumed] ms_retry(2)]) (auto simp: waitOk_def)
  next
    case (ms_down objects live r)
    then show ?thesis using finishShutdown_wp [OF env resumed ms_down(2)] by (blast intro: wp_step)
  next
    case ms_stop
    then show ?thesis by (rule keep_step [OF inv_stop g])
  next
    case ms_shutdown
    then show ?thesis by (rule keep_step [OF inv_shutdown g])
  next
    case ms_get
    then show ?thesis by (rule keep_step [OF inv_get g])
  next
    case ms_status
    then show ?thesis by (rule keep_step [OF inv_reads(1) g])
  next
    case ms_state
    then show ?thesis by (rule keep_step [OF inv_reads(2) g])
  next
    case ms_workspaces
    then show ?thesis by (rule keep_step [OF inv_primitives(19) g])
  next
    case ms_workspace
    then show ?thesis by (rule keep_step [OF inv_reads(3) g])
  next
    case ms_method
    then show ?thesis by (rule keep_step [OF inv_methods g])
  next
    case ms_handoff
    then show ?thesis by (rule keep_step [OF inv_handing(1) g])
  next
    case ms_takeover
    then show ?thesis by (rule keep_step [OF inv_handing(2) g])
  next
    case ms_workspace_handoff
    then show ?thesis by (rule keep_step [OF inv_handed(3) g])
  next
    case ms_workspace_resume
    then show ?thesis by (rule keep_step [OF inv_handed(5) g])
  next
    case ms_handed
    then show ?thesis by (intro keep_step [OF inv_handed(1) resumed])
  next
    case ms_taken
    then show ?thesis by (intro keep_step [OF inv_handed(2) resumed])
  next
    case ms_workspace_handed
    then show ?thesis by (intro keep_step [OF inv_handed(4) resumed])
  next
    case ms_workspace_resumed
    then show ?thesis by (intro keep_step [OF inv_handed(6) resumed])
  next
    case ms_timer
    then show ?thesis by (intro keep_step [OF inv_timer g])
  qed
qed

lemma reached_inv: "managerReaches env g \<Longrightarrow> envOk env \<Longrightarrow> managerInv env g"
proof (induction rule: managerReaches.induct)
  case reach_new
  then show ?case by (simp add: managerInv_def emptyManager_def withoutProfile_def envOk_def)
next
  case (reach_next g h)
  then show ?case by (blast intro: step_inv)
qed

end
