(* ===== verification/SessionSafety.thy ===== *)
theory SessionSafety
  imports SessionSpec
begin

text \<open>
  The promises of the session manager: exclusive profiles, the maximum of sessions, which calls reach
  a session, what taking a workspace back needs, and what a stop frees.
\<close>

section \<open>Which calls reach a session\<close>

definition clockAt :: "managerEnv \<Rightarrow> nat \<Rightarrow> rat" where
  "clockAt env n = (case meClock env n of JFin q \<Rightarrow> q | _ \<Rightarrow> meDate env n)"

lemma wp_managerNow: "wp (managerNow env) Q E h = Q (clockAt env (mgReads h)) (h\<lparr>mgReads := Suc (mgReads h)\<rparr>)"
  by (simp add: managerNow_def clockAt_def wp_def)

definition stopsOnly :: "managerState \<Rightarrow> managerState \<Rightarrow> bool" where
  "stopsOnly g h \<longleftrightarrow> (\<exists>cs. mgCalls h = mgCalls g @ map (\<lambda>(s, why). (s, CallStop why)) cs)"

lemma stopsOnly_refl [simp]: "stopsOnly g g"
  by (auto simp: stopsOnly_def)

lemma stops_quiet: "(\<And>h. mgCalls (f h) = mgCalls h) \<Longrightarrow> keeps (stopsOnly g) (act_modify f)"
  by (simp add: keeps_def act_modify_def stopsOnly_def)

lemma stops_stop [keep_rules]: "keeps (stopsOnly g) (callSession s (CallStop why))"
proof -
  have "stopsOnly g h \<Longrightarrow> stopsOnly g (h\<lparr>mgCalls := mgCalls h @ [(s, CallStop why)]\<rparr>)" for h
    unfolding stopsOnly_def by (force intro: exI [of _ "_ @ [(s, why)]"])
  then show ?thesis unfolding callSession_def by (rule keeps_modify)
qed

lemma calls_clear [simp]: "mgCalls (clearExpiryAt sid g) = mgCalls g"
  by (simp add: clearExpiryAt_def cancelTimer_def split: option.split)

lemma stops_primitives [keep_rules]:
  "keeps (stopsOnly g) (managerNow env)" "keeps (stopsOnly g) (clearSessionTimer sid)" "keeps (stopsOnly g) (waitAs w)"
  "keeps (stopsOnly g) (rememberExpired env sid)"
  unfolding clearSessionTimer_def waitAs_def rememberExpired_def
  by (simp_all add: keeps_def managerNow_def act_modify_def stopsOnly_def)

lemma calls_prune [simp]: "mgCalls (pruneAtTime now g) = mgCalls g" "mgSessions (pruneAtTime now g) = mgSessions g"
  "mgExpired (pruneAtTime now g) = mgExpired g" "mgExpiry (pruneAtTime now g) = mgExpiry g" "mgReads (pruneAtTime now g) = mgReads g"
proof -
  have "mgCalls (deleteWorkspaceAt wid h) = mgCalls h \<and> mgSessions (deleteWorkspaceAt wid h) = mgSessions h
      \<and> mgExpired (deleteWorkspaceAt wid h) = mgExpired h \<and> mgExpiry (deleteWorkspaceAt wid h) = mgExpiry h
      \<and> mgReads (deleteWorkspaceAt wid h) = mgReads h" for wid h
    by (simp add: deleteWorkspaceAt_def clearWorkspaceTimerAt_def cancelTimer_def Let_def split: option.split)
  then have "mgCalls k = mgCalls h \<and> mgSessions k = mgSessions h \<and> mgExpired k = mgExpired h \<and> mgExpiry k = mgExpiry h
      \<and> mgReads k = mgReads h"
    if "k = fold (\<lambda>(wid, w) h. if overdue now w then deleteWorkspaceAt wid h else h) ws h" for ws h k
    using that by (induction ws arbitrary: h k) auto
  from this [OF pruneAtTime_def] show "mgCalls (pruneAtTime now g) = mgCalls g" "mgSessions (pruneAtTime now g) = mgSessions g"
    "mgExpired (pruneAtTime now g) = mgExpired g" "mgExpiry (pruneAtTime now g) = mgExpiry g" "mgReads (pruneAtTime now g) = mgReads g"
    by simp_all
qed

lemma stops_get [keep_rules]: "keeps (stopsOnly g) (getSession env sid tenant)"
  and stops_workspace [keep_rules]: "keeps (stopsOnly g) (getWorkspaceForSession env sid tenant)"
  and stops_require [keep_rules]: "keeps (stopsOnly g) (requireWorkspace env wid tenant)"
  unfolding getSession_def isDue_def expireSession_def beginStop_def assertSessionTenant_def getWorkspaceForSession_def
    pruneWorkspaces_def requireWorkspace_def
  by (intro keep_rules stops_quiet calls_prune)+

text \<open>The session is there, has not expired by the clock read meanwhile, and belongs to the tenant.\<close>

definition admitted :: "managerEnv \<Rightarrow> string \<Rightarrow> string option \<Rightarrow> nat \<Rightarrow> managerState \<Rightarrow> managerState \<Rightarrow> bool" where
  "admitted env sid tenant s g h \<longleftrightarrow> oget (mgSessions h) sid = Some s \<and> oget (mgExpired h) sid = None
     \<and> (\<forall>t. tenant = Some t \<longrightarrow> (\<exists>w. workspaceOf h sid = Some w \<and> wsTenant w = t))
     \<and> (\<forall>until. Option.bind (oget (mgExpiry h) sid) exAt = Some until \<longrightarrow>
          (\<exists>n. mgReads g \<le> n \<and> n < mgReads h \<and> clockAt env n < until))"

lemma tenantOf_Inr [simp]: "tenantOf t = Inr n \<longleftrightarrow> n = t \<and> TENANT_ID_PATTERN t"
  by (auto simp: tenantOf_def normalizeTenantId_def)

lemma assertSessionTenant_wp:
  "wp (forTenant tenant (assertSessionTenant sid))
     (\<lambda>_ h. h = g \<and> (\<forall>t. tenant = Some t \<longrightarrow> (\<exists>w. workspaceOf g sid = Some w \<and> wsTenant w = t))) (\<lambda>_ _. True) g"
  by (auto simp: forTenant_def assertSessionTenant_def wp_rules bindR_def guardR_def split: option.split sum.split)

lemma throws_last: "wp (act_then m (act_throw e)) Q (\<lambda>_ _. True) g"
  unfolding wp_then wp_throw by (rule wp_any) simp_all

definition timePassed :: "managerState \<Rightarrow> managerState \<Rightarrow> bool" where
  "timePassed g h \<longleftrightarrow> (\<exists>n \<ge> mgReads g. h = g\<lparr>mgReads := n\<rparr>)"

lemma getSession_wp: "wp (getSession env sid tenant) (\<lambda>s h. timePassed g h \<and> admitted env sid tenant s g h) (\<lambda>_ _. True) g"
proof -
  let ?entry = "oget (mgExpiry g) sid"
  have lookup: "wp (act_bind (act_get (\<lambda>g. oget (mgSessions g) sid)) (\<lambda>found. case found of
          None \<Rightarrow> act_throw (PlainError ''SESSION_NOT_FOUND'')
        | Some s \<Rightarrow> act_then (forTenant tenant (assertSessionTenant sid)) (act_return s)))
      (\<lambda>s h. timePassed g h \<and> admitted env sid tenant s g h) (\<lambda>_ _. True) k"
    if k: "timePassed g k" and live: "oget (mgExpired k) sid = None"
      and due: "\<And>until. Option.bind ?entry exAt = Some until \<Longrightarrow> \<exists>n. mgReads g \<le> n \<and> n < mgReads k \<and> clockAt env n < until" for k
  proof (cases "oget (mgSessions k) sid")
    case (Some s)
    have "mgExpiry k = mgExpiry g" using k by (auto simp: timePassed_def)
    then show ?thesis
      using k live due unfolding wp_bind wp_get Some option.case wp_then
      by (intro wp_mono [OF assertSessionTenant_wp]) (auto simp: wp_return admitted_def Some)
  qed (simp add: wp_rules)
  show ?thesis
  proof (cases "oget (mgExpired g) sid")
    case (Some u)
    then show ?thesis by (auto simp: getSession_def wp_bind wp_get wp_return throws_last intro: wp_any)
  next
    case None
    show ?thesis
    proof (cases "Option.bind ?entry exAt")
      case None
      have "timePassed g g" by (auto simp: timePassed_def intro: exI [of _ "mgReads g"])
      then show ?thesis
        using lookup [of g] \<open>oget (mgExpired g) sid = None\<close> None by (simp add: getSession_def isDue_def wp_bind wp_get wp_return)
    next
      case (Some until)
      let ?k = "g\<lparr>mgReads := Suc (mgReads g)\<rparr>"
      have passed: "timePassed g ?k" by (auto simp: timePassed_def intro: exI [of _ "Suc (mgReads g)"])
      show ?thesis
      proof (cases "until \<le> clockAt env (mgReads g)")
        case True
        then show ?thesis using \<open>oget (mgExpired g) sid = None\<close> Some
          by (simp add: getSession_def isDue_def wp_bind wp_get wp_return wp_managerNow throws_last)
      next
        case False
        then have "\<exists>n \<ge> mgReads g. n < Suc (mgReads g) \<and> clockAt env n < until" by (intro exI [of _ "mgReads g"]) simp
        then show ?thesis
          using False lookup [OF passed] \<open>oget (mgExpired g) sid = None\<close> Some
          by (simp add: getSession_def isDue_def wp_bind wp_get wp_return wp_managerNow)
      qed
    qed
  qed
qed


definition isWrite :: "string \<Rightarrow> bool" where
  "isWrite meth \<longleftrightarrow> meth \<in> fst ` set WRITE_METHODS"

text \<open>No person has the session and no challenge has paused it.\<close>

definition writeAllowed :: "liveView \<Rightarrow> string \<Rightarrow> nat \<Rightarrow> managerState \<Rightarrow> bool" where
  "writeAllowed live sid s h \<longleftrightarrow> lvState live s \<noteq> ''USER_CONTROLLED'' \<and> lvState live s \<noteq> ''PAUSED_CHALLENGE''
     \<and> (\<forall>w. workspaceOf h sid = Some w \<longrightarrow> wsControl w \<noteq> USER_CONTROLLED)"

lemma passOn_wp:
  "wp (passOn env sid meth args tenant)
     (\<lambda>_ h. \<exists>s k. timePassed g k \<and> admitted env sid tenant s g k \<and> h = k\<lparr>mgCalls := mgCalls g @ [(s, CallMethod meth args)]\<rparr>)
     (\<lambda>_ _. True) g"
  unfolding passOn_def wp_bind
proof (rule wp_mono [OF getSession_wp])
  fix s k
  assume k: "timePassed g k \<and> admitted env sid tenant s g k"
  then have "mgCalls k = mgCalls g" by (auto simp: timePassed_def)
  then show "wp (callSession s (CallMethod meth args))
      (\<lambda>_ h. \<exists>s k. timePassed g k \<and> admitted env sid tenant s g k \<and> h = k\<lparr>mgCalls := mgCalls g @ [(s, CallMethod meth args)]\<rparr>)
      (\<lambda>_ _. True) k"
    using k by (auto simp: callSession_def wp_modify intro!: exI [of _ s] exI [of _ k])
qed simp

lemma workspaceForSession_wp:
  "wp (getWorkspaceForSession env sid tenant)
     (\<lambda>found h. found = workspaceOf h sid \<and> mgCalls h = mgCalls g \<and> mgSessions h = mgSessions g \<and> mgReads g \<le> mgReads h)
     (\<lambda>_ _. True) g"
  by (simp add: getWorkspaceForSession_def pruneWorkspaces_def wp_managerNow forTenant_def wp_rules
      split: option.split sum.split)


lemma assertWriteAllowed_wp:
  "wp (assertWriteAllowed env live sid action tenant)
     (\<lambda>_ h. mgCalls h = mgCalls g \<and> mgSessions h = mgSessions g \<and> mgReads g \<le> mgReads h
        \<and> (\<forall>s. oget (mgSessions h) sid = Some s \<longrightarrow> writeAllowed live sid s h)) (\<lambda>_ _. True) g"
proof -
  have "wp (getSession env sid tenant) (\<lambda>s h. timePassed g h \<and> oget (mgSessions h) sid = Some s) (\<lambda>_ _. True) g"
    by (rule wp_mono [OF getSession_wp]) (simp_all add: admitted_def)
  then show ?thesis
    unfolding assertWriteAllowed_def
  proof (rule wp_continue)
    fix s h
    assume h: "timePassed g h \<and> oget (mgSessions h) sid = Some s"
    then have eq: "mgCalls h = mgCalls g" "mgSessions h = mgSessions g" "mgReads g \<le> mgReads h" by (auto simp: timePassed_def)
    show "wp (act_bind (getWorkspaceForSession env sid tenant) (\<lambda>found.
        let info = [(''sessionId'', JStr sid), (''sessionState'', JStr (lvState live s)), (''retryable'', JBool False)];
            there = (case found of None \<Rightarrow> [] | Some w \<Rightarrow> [(''workspaceId'', JStr (wsId w))])
        in act_then (act_throwIf ((case found of None \<Rightarrow> False | Some w \<Rightarrow> wsControl w = USER_CONTROLLED)
                \<or> lvState live s = ''USER_CONTROLLED'')
             (ToolFault E_USER_CONTROL_HARD_STOP ((''action'', JStr action) # there) info))
           (act_throwIf (lvState live s = ''PAUSED_CHALLENGE'') (ToolFault E_SESSION_PAUSED_CHALLENGE [(''action'', JStr action)] info))))
      (\<lambda>_ h. mgCalls h = mgCalls g \<and> mgSessions h = mgSessions g \<and> mgReads g \<le> mgReads h
        \<and> (\<forall>s. oget (mgSessions h) sid = Some s \<longrightarrow> writeAllowed live sid s h)) (\<lambda>_ _. True) h"
      using h eq by (intro wp_continue [OF workspaceForSession_wp]) (auto simp: wp_rules Let_def writeAllowed_def)
  qed
qed

text \<open>What has to hold for a call to reach the session \<open>s\<close>.\<close>

definition allowedCall :: "managerEnv \<Rightarrow> liveView \<Rightarrow> string \<Rightarrow> string \<Rightarrow> string option \<Rightarrow> managerState \<Rightarrow> managerState \<Rightarrow> nat \<Rightarrow> bool" where
  "allowedCall env live meth sid tenant g h s \<longleftrightarrow>
     admitted env sid tenant s g h \<and> (isWrite meth \<longrightarrow> writeAllowed live sid s h)"

lemma sessionMethod_wp:
  "wp (sessionMethod env live meth sid args tenant)
     (\<lambda>_ h. \<exists>s. mgCalls h = mgCalls g @ [(s, CallMethod meth args)] \<and> allowedCall env live meth sid tenant g h s)
     (\<lambda>_ _. True) g"
proof (cases "map_of WRITE_METHODS meth")
  case None
  then have "\<not> isWrite meth" by (simp add: isWrite_def map_of_eq_None_iff)
  then show ?thesis using None
    by (auto simp: sessionMethod_def allowedCall_def admitted_def workspaceOf_def intro!: wp_mono [OF passOn_wp])
next
  case (Some action)
  have "wp (passOnWrite env live sid meth action args tenant)
     (\<lambda>_ h. \<exists>s. mgCalls h = mgCalls g @ [(s, CallMethod meth args)] \<and> allowedCall env live meth sid tenant g h s)
     (\<lambda>_ _. True) g"
    unfolding passOnWrite_def act_then_def
  proof (rule wp_continue [OF assertWriteAllowed_wp], rule wp_mono [OF passOn_wp])
    fix x :: unit and k y h
    assume k: "mgCalls k = mgCalls g \<and> mgSessions k = mgSessions g \<and> mgReads g \<le> mgReads k
        \<and> (\<forall>s. oget (mgSessions k) sid = Some s \<longrightarrow> writeAllowed live sid s k)"
      and "\<exists>s k'. timePassed k k' \<and> admitted env sid tenant s k k' \<and> h = k'\<lparr>mgCalls := mgCalls k @ [(s, CallMethod meth args)]\<rparr>"
    then obtain s k' where k': "timePassed k k'" "admitted env sid tenant s k k'"
      and h: "h = k'\<lparr>mgCalls := mgCalls k @ [(s, CallMethod meth args)]\<rparr>" by blast
    have "writeAllowed live sid s k" using k k' by (auto simp: timePassed_def admitted_def)
    then have "writeAllowed live sid s h" using k'(1) h by (auto simp: writeAllowed_def timePassed_def workspaceOf_def)
    moreover have "admitted env sid tenant s g h"
      using k k'(2) h by (auto simp: admitted_def workspaceOf_def) (meson order_trans)
    ultimately show "\<exists>s. mgCalls h = mgCalls g @ [(s, CallMethod meth args)] \<and> allowedCall env live meth sid tenant g h s"
      using k h by (auto simp: allowedCall_def)
  qed simp
  then show ?thesis using Some by (simp add: sessionMethod_def)
qed

lemma stops_method: "wp (sessionMethod env live meth sid args tenant) (\<lambda>_ _. True) (\<lambda>_ h. stopsOnly g h) g"
proof -
  have guard: "keeps (stopsOnly g) (assertWriteAllowed env live sid action tenant)" for action
    unfolding assertWriteAllowed_def Let_def by (intro keep_rules)
  have pass: "wp (passOn env sid meth args tenant) (\<lambda>_ _. True) (\<lambda>_ h. stopsOnly g h) h" if "stopsOnly g h" for h
    unfolding passOn_def wp_bind
    by (rule wp_mono [OF wp_keeps [OF stops_get that]]) (simp_all add: callSession_def wp_modify)
  have "wp (passOnWrite env live sid meth action args tenant) (\<lambda>_ _. True) (\<lambda>_ h. stopsOnly g h) g" for action
    unfolding passOnWrite_def wp_then
    by (rule wp_mono [OF wp_keeps [OF guard]]) (simp_all add: pass)
  then show ?thesis by (simp add: sessionMethod_def pass split: option.split)
qed



section \<open>Taking a workspace back\<close>

lemma stops_takeover: "wp (takeoverSession env sid token confirmed tenant hand)
    (\<lambda>_ h. \<exists>s. mgCalls h = mgCalls g @ [(s, CallTakeover token confirmed)] \<and> oget (mgSessions h) sid = Some s
       \<and> mgWorkspaces h = mgWorkspaces g \<and> mgLeases h = mgLeases g \<and> mgReads g \<le> mgReads h) (\<lambda>_ _. True) g"
  unfolding takeoverSession_def wp_bind
  by (rule wp_mono [OF getSession_wp]) (auto simp: callSession_def waitAs_def wp_rules timePassed_def admitted_def)

lemma stopsOnly_calls: "mgCalls h = mgCalls g \<Longrightarrow> stopsOnly g h"
  by (simp add: stopsOnly_def)

lemma requireWorkspace_wp:
  "wp (requireWorkspace env wid tenant)
     (\<lambda>w h. oget (mgWorkspaces h) wid = Some w \<and> pred_option (\<lambda>t. wsTenant w = t) tenant \<and> mgCalls h = mgCalls g
        \<and> mgReads g \<le> mgReads h)
     (\<lambda>_ h. mgCalls h = mgCalls g) g"
  by (auto simp: requireWorkspace_def pruneWorkspaces_def wp_managerNow forTenant_def assertWorkspaceTenant_def bindR_def guardR_def
      wp_rules split: option.split sum.split)

text \<open>C6. A workspace is taken back only with the lease it was handed over with: a person controls it, its lease
  is still running by the clock, the digest of the token given is the one kept, and the tenant is that of the
  workspace; then the session itself is asked.  A refused attempt asks no session.\<close>

theorem workspace_resume_needs_lease:
  "(case workspaceResume env wid token confirmed tenant g of
       (Inl e, h) \<Rightarrow> stopsOnly g h
     | (Inr u, h) \<Rightarrow> \<exists>w s until. oget (mgWorkspaces h) wid = Some w \<and> wsControl w = USER_CONTROLLED
         \<and> pred_option (\<lambda>t. wsTenant w = t) tenant
         \<and> oget (mgLeases h) wid = Some (meDigest env token, until)
         \<and> (\<exists>n. mgReads g \<le> n \<and> n < mgReads h \<and> clockAt env n < until)
         \<and> oget (mgSessions h) (wsSession w) = Some s
         \<and> mgCalls h = mgCalls g @ [(s, CallTakeover token confirmed)])"
proof -
  let ?Q = "\<lambda>_ h. \<exists>w s until. oget (mgWorkspaces h) wid = Some w \<and> wsControl w = USER_CONTROLLED
         \<and> pred_option (\<lambda>t. wsTenant w = t) tenant \<and> oget (mgLeases h) wid = Some (meDigest env token, until)
         \<and> (\<exists>n. mgReads g \<le> n \<and> n < mgReads h \<and> clockAt env n < until)
         \<and> oget (mgSessions h) (wsSession w) = Some s \<and> mgCalls h = mgCalls g @ [(s, CallTakeover token confirmed)]"
  have "wp (workspaceResume env wid token confirmed tenant) ?Q (\<lambda>_ h. stopsOnly g h) g"
    unfolding workspaceResume_def wp_bind
  proof (rule wp_mono [OF requireWorkspace_wp])
    fix w and k :: managerState
    assume k: "oget (mgWorkspaces k) wid = Some w \<and> pred_option (\<lambda>t. wsTenant w = t) tenant \<and> mgCalls k = mgCalls g
        \<and> mgReads g \<le> mgReads k"
    have take: "wp (takeoverSession env (wsSession w) token confirmed tenant (FromWorkspace wid tenant)) ?Q (\<lambda>_ h. stopsOnly g h)
        (k\<lparr>mgReads := Suc (mgReads k)\<rparr>)"
      if "oget (mgLeases k) wid = Some (meDigest env token, until)" "clockAt env (mgReads k) < until" "wsControl w = USER_CONTROLLED" for until
    proof -
      let ?k = "k\<lparr>mgReads := Suc (mgReads k)\<rparr>"
      have stops: "wp (takeoverSession env (wsSession w) token confirmed tenant (FromWorkspace wid tenant)) (\<lambda>_ _. True) (\<lambda>_. stopsOnly g) ?k"
        unfolding takeoverSession_def wp_bind
        by (rule wp_mono [OF wp_keeps [OF stops_get]]) (use k in \<open>simp_all add: callSession_def waitAs_def wp_rules stopsOnly_calls\<close>)
      have later: "\<exists>n. mgReads g \<le> n \<and> n < mgReads h \<and> clockAt env n < until" if "Suc (mgReads k) \<le> mgReads h" for h :: managerState
        using k that \<open>clockAt env (mgReads k) < until\<close> by (intro exI [of _ "mgReads k"]) simp
      show ?thesis
        by (rule wp_mono [OF wp_conj [OF stops_takeover stops]]) (use k that later in auto)
    qed
    show "wp (act_get (\<lambda>g. oget (mgLeases g) wid)) (\<lambda>x. wp (case x of None \<Rightarrow> act_throw (handoffExpired wid) | Some (stored, until) \<Rightarrow>
         act_then (act_throwIf (wsControl w \<noteq> USER_CONTROLLED) (handoffExpired wid))
         (act_bind (managerNow env) (\<lambda>now.
          if until \<le> now then act_then (dropLease wid) (act_throw (handoffExpired wid))
          else act_then (act_throwIf (stored \<noteq> meDigest env token) (handoffExpired wid))
            (takeoverSession env (wsSession w) token confirmed tenant (FromWorkspace wid tenant))))) ?Q (\<lambda>_ h. stopsOnly g h)) (\<lambda>_ h. stopsOnly g h) k"
      using k take
      by (auto simp: wp_rules wp_managerNow dropLease_def intro: stopsOnly_calls split: option.split)
  qed (rule stopsOnly_calls)
  then show ?thesis by (simp add: wp_def split: prod.splits sum.splits)
qed


section \<open>Slots and profiles\<close>

lemma session_locked:
  assumes "managerInv env g" and "(sid, s) \<in> set (mgSessions g)"
  shows "sid = meSessionId env s \<and> (\<forall>k. lockOf (mgMade g ! s) = Some k \<longrightarrow> oget (mgProfiles g) k = Some sid)"
proof -
  have "sessionOk env g (sid, s)" using assms unfolding managerInv_def list_all_iff by blast
  then show ?thesis unfolding sessionOk_def by blast
qed

text \<open>C7. Two live sessions never use the directory of one saved profile: at any moment the sessions of the
  manager whose options ask for a persistent profile of the same name are one session.\<close>

theorem saved_profile_has_one_session:
  assumes "envOk env" and "managerReaches env g"
    and "(sid, s) \<in> set (mgSessions g)" and "(sid', s') \<in> set (mgSessions g)"
    and "lockOf (mgMade g ! s) = Some k" and "lockOf (mgMade g ! s') = Some k"
  shows "sid = sid' \<and> s = s'"
proof -
  have g: "managerInv env g" using reached_inv [OF assms(2,1)] .
  have "oget (mgProfiles g) k = Some sid \<and> sid = meSessionId env s"
    "oget (mgProfiles g) k = Some sid' \<and> sid' = meSessionId env s'"
    using session_locked [OF g assms(3)] session_locked [OF g assms(4)] assms(5,6) by blast+
  then show ?thesis using assms(1) by (auto simp: envOk_def dest: injD)
qed

text \<open>Sessions started without a saved profile never exceed the maximum the manager was configured with.\<close>

lemma sessions_without_profile_bounded:
  assumes "envOk env" and "managerReaches env g"
  shows "int (withoutProfile g) \<le> meMaxSessions env"
  using reached_inv [OF assms(2,1)] by (simp add: managerInv_def)

text \<open>
  A stop that fails at the end of a lifetime is never tried again: the handler that would arm the
  retry finds the session gone, and no timer without an end is ever armed.
\<close>

lemma failed_expiry_never_retried:
  assumes "envOk env" and "managerReaches env g" and "WaitRetry sid \<in> set (mgWaiting g)"
  shows "expiryFailed env live sid g = (Inr (), g)"
proof -
  have "oget (mgSessions g) sid = None"
    using reached_inv [OF assms(2,1)] assms(3) by (auto simp: managerInv_def list_all_iff waitOk_def)
  then show ?thesis by (simp add: expiryFailed_def act_defs)
qed

definition freed :: "string \<Rightarrow> managerState \<Rightarrow> bool" where
  "freed sid h \<longleftrightarrow> oget (mgSessions h) sid = None \<and> (\<forall>k. (k, sid) \<notin> set (mgProfiles h))
     \<and> (\<forall>w. workspaceOf h sid = Some w \<longrightarrow> wsControl w = INACTIVE)"

lemma freed_quiet [keep_rules]:
  "keeps (freed sid) (rememberClosed env st)" "keeps (freed sid) (waitAs w)"
  by (simp_all add: keeps_def rememberClosed_def waitAs_def act_modify_def freed_def workspaceOf_def)


lemma deactivate_wp:
  assumes gone: "oget (mgSessions g) sid = None" "\<forall>k. (k, sid) \<notin> set (mgProfiles g)"
  shows "wp (deactivateWorkspace env sid) (\<lambda>_. freed sid) (\<lambda>_ _. False) g"
proof (cases "lookupText (mgBySession g) sid")
  case None
  then show ?thesis using gone by (simp add: deactivateWorkspace_def wp_rules freed_def workspaceOf_def)
next
  case (Some wid)
  have deleted: "freed sid (deleteWorkspaceAt wid h)"
    if h: "mgSessions h = mgSessions g" "mgProfiles h = mgProfiles g" "mgBySession h = mgBySession g" for h
  proof -
    let ?d = "deleteWorkspaceAt wid h"
    have same: "mgSessions ?d = mgSessions h" "mgProfiles ?d = mgProfiles h" "oget (mgWorkspaces ?d) wid = None"
      "oget (mgBySession ?d) sid = oget (mgBySession h) sid \<or> oget (mgBySession ?d) sid = None"
      by (auto simp: deleteWorkspaceAt_def clearWorkspaceTimerAt_def cancelTimer_def Let_def oget_odelete split: option.split)
    have "lookupText (mgBySession ?d) sid = Some wid \<or> lookupText (mgBySession ?d) sid = None"
      using same(4) Some h(3) by (auto simp: lookupText_def nonEmpty_def)
    then show ?thesis using same(1-3) gone h by (auto simp: freed_def workspaceOf_def)
  qed
  have unbound: "freed sid (g\<lparr>mgLeases := l, mgBySession := odelete sid (mgBySession g)\<rparr>)" for l
    using gone by (simp add: freed_def workspaceOf_def lookupText_def nonEmpty_def oget_odelete)
  have kept: "freed sid (g\<lparr>mgLeases := l, mgReads := n,
      mgWorkspaces := oset wid (w\<lparr>wsOwner := OwnerNone, wsControl := INACTIVE, wsUpdated := now\<rparr>) (mgWorkspaces g)\<rparr>)" for l n w now
    using gone Some by (auto simp: freed_def workspaceOf_def oget_oset)
  show ?thesis
    using Some deleted unbound kept
    by (simp add: deactivateWorkspace_def wp_rules dropLease_def setWorkspace_def wp_managerNow split: option.split)
qed

text \<open>C8. However a stop ends, the slot of the session and the lock on its profile are free afterwards, and what
  is left of its workspace is inactive.\<close>

theorem stop_frees_slot_and_profile:
  "let h = snd (finishSessionStop env live s sid origin answer g) in
     oget (mgSessions h) sid = None \<and> (\<forall>k. oget (mgProfiles h) k \<noteq> Some sid)
     \<and> pred_option (\<lambda>w. wsControl w = INACTIVE) (workspaceOf h sid)"
proof -
  have last: "keeps (freed sid) (case answer of Inr st \<Rightarrow> rememberClosed env st
      | Inl e \<Rightarrow> act_then (case lvStatus live s of Inr st \<Rightarrow> rememberClosed env st | Inl e' \<Rightarrow> act_return ())
            (if origin = ExpiryStop then waitAs (WaitRetry sid) else act_throw (ThrownBy e)))"
    by (intro keep_rules)
  have "wp (finishSessionStop env live s sid origin answer) (\<lambda>_. freed sid) (\<lambda>_. freed sid) g"
    unfolding finishSessionStop_def forgetSession_def releasePersistentProfile_def wp_then wp_modify
    by (rule wp_mono [OF deactivate_wp]) (auto simp: oget_odelete intro!: wp_keeps [OF last, unfolded wp_then])
  then have "freed sid (snd (finishSessionStop env live s sid origin answer g))"
    by (auto simp: wp_def split: prod.splits sum.splits)
  then show ?thesis by (auto simp: freed_def Let_def option.pred_set dest: map_of_SomeD)
qed


section \<open>Runs\<close>

text \<open>A manager with room for \<open>n\<close> sessions and a clock that stands still.\<close>

definition demoManager :: "int \<Rightarrow> managerEnv" where
  "demoManager n = \<lparr>meOptions = [], mePolicy = JStr ''standard'', meMaxSessions = n, meMaxClosed = 64,
     meSessionTtl = 7200000, meHandoffTtl = 300000, meWorkspaceTtl = 604800000, meClock = (\<lambda>_. JFin 0), meDate = (\<lambda>_. 0),
     meUuid = (\<lambda>k. Some (showDec k)), meFallback = (\<lambda>_. []), meSessionId = (\<lambda>k. ''ses_'' @ showDec k), meDigest = (\<lambda>t. t),
     meExtensions = False, meProxy = \<lparr>pxParse = (\<lambda>_. None), pxDecode = (\<lambda>_. None)\<rparr>, meGenerate = (\<lambda>v. v)\<rparr>"

lemma demo_ok: "1 \<le> n \<Longrightarrow> envOk (demoManager n)" "meMaxSessions (demoManager n) = n"
  by (simp_all add: envOk_def demoManager_def inj_def showDec_inj)

text \<open>The first waiting call gets its answer.\<close>

definition demoAnswer :: "managerEnv \<Rightarrow> managerState \<Rightarrow> managerState" where
  "demoAnswer env g = (case mgWaiting g of
     [] \<Rightarrow> g
   | w # rest \<Rightarrow> (case w of
       WaitProfile rq \<Rightarrow> snd (profileRead rq (Inr (JObj [(''profileId'', field (rqOptions rq) ''profileId'')])) (resumedFrom w g))
     | WaitCookies rq \<Rightarrow> snd (cookiesRead env rq (Inr (JArr [])) (Inr ()) (resumedFrom w g))
     | _ \<Rightarrow> g))"

lemma demo_reach_answer: "managerReaches env g \<Longrightarrow> managerReaches env (demoAnswer env g)"
proof -
  assume g: "managerReaches env g"
  have next_state: "managerReaches env h" if "managerStep env g h" for h by (rule reach_next [OF g that])
  show ?thesis
  proof (cases "mgWaiting g")
    case Nil
    then show ?thesis using g by (simp add: demoAnswer_def)
  next
    case (Cons w rest)
    then have w: "w \<in> set (mgWaiting g)" by simp
    note answered = ms_profile [OF _ prod.collapse [symmetric]] ms_cookies [OF _ prod.collapse [symmetric]]
    show ?thesis unfolding demoAnswer_def Cons list.case
      by (cases w; simp only: managerWait.case; (rule g | rule next_state, rule answered, use w in simp_all))
  qed
qed

lemma demo_reach_start: "managerReaches env g \<Longrightarrow> managerReaches env (snd (startSession env options made g))"
  by (rule reach_next) (auto intro: ms_start prod.collapse [symmetric])

definition startedWith :: "managerEnv \<Rightarrow> string option \<Rightarrow> managerState \<Rightarrow> managerState" where
  "startedWith env profile g = snd (startSession env (case profile of None \<Rightarrow> [] | Some p \<Rightarrow> [(''profileId'', JStr p)]) (Inr ()) g)"

text \<open>Enough to run these states, without working out the options of a session.\<close>

lemmas run_defs = startedWith_def demoAnswer_def demoManager_def emptyManager_def startSession_def profileRead_def cookiesRead_def
  launchSession_def chooseNetwork_def profileKey_def persistsProfile_def
  effectiveProfileName_def persistentProfileKey_def callerOr_def orSaved_def nullish_def chosenCountry_def savedGeo_def
  newSession_def enterSession_def waitAs_def callSession_def resumedFrom_def normalizeWorkspaceName_def tenantOf_def normalizeTenantId_def
  hasExtensions_def bindR_def guardR_def act_defs Let_def

lemma run_texts: "showDec 0 = ''0''" "showDec (Suc 0) = ''1''" "TENANT_ID_PATTERN DEFAULT_TENANT_ID" "trim ''work'' = ''work''"
  "trim ''a'' = ''a''" "trim ''b'' = ''b''" "isAlnum CHR ''w''" "isAlnum CHR ''a''" "isAlnum CHR ''b''"
  "TaskTypes.isLabelChar CHR ''o''" "TaskTypes.isLabelChar CHR ''r''" "TaskTypes.isLabelChar CHR ''k''"
  by code_simp+

text \<open>A session of the saved profile \<open>work\<close>, starting.\<close>

definition demoWork :: managerState where
  "demoWork = (let env = demoManager 1 in demoAnswer env (demoAnswer env (startedWith env (Some ''work'') emptyManager)))"

lemma demo_work: "managerReaches (demoManager 1) demoWork"
  "(mgSessions demoWork, map lockOf (mgMade demoWork)) = ([(''ses_0'', 0)], [Some ''work''])"
proof -
  show "managerReaches (demoManager 1) demoWork"
    unfolding demoWork_def Let_def startedWith_def by (intro demo_reach_answer demo_reach_start reach_new)
  show "(mgSessions demoWork, map lockOf (mgMade demoWork)) = ([(''ses_0'', 0)], [Some ''work''])"
    by (simp add: demoWork_def run_defs run_texts lockOf_options)
qed

section \<open>Where the manager falls short\<close>

text \<open>
  The maximum is checked before the saved profile is read and not again, so two starts with saved
  profiles that overlap leave more sessions than the maximum.
\<close>

lemma overlapping_starts_exceed_maximum:
  "\<exists>g. managerReaches (demoManager 1) g \<and> meMaxSessions (demoManager 1) < int (length (mgSessions g))"
proof (intro exI conjI)
  let ?env = "demoManager 1"
  let ?both = "startedWith ?env (Some ''b'') (startedWith ?env (Some ''a'') emptyManager)"
  let ?g = "demoAnswer ?env (demoAnswer ?env (demoAnswer ?env (demoAnswer ?env ?both)))"
  show "managerReaches ?env ?g"
    unfolding startedWith_def by (intro demo_reach_answer demo_reach_start reach_new)
  have "length (mgSessions ?g) = 2" by (simp add: run_defs run_texts)
  then show "meMaxSessions ?env < int (length (mgSessions ?g))" by (simp add: demo_ok)
qed

text \<open>
  Closing all sessions empties the map at the end, but only the sessions it found at its beginning
  were told to stop: one started meanwhile is dropped without a stop, and nothing can reach it any more.
\<close>

lemma calls_deactivate: "keeps (\<lambda>g. mgCalls g = c) (deactivateWorkspace env sid)"
proof -
  have "mgCalls (deleteWorkspaceAt wid h) = mgCalls h" for wid h
    by (simp add: deleteWorkspaceAt_def clearWorkspaceTimerAt_def cancelTimer_def Let_def split: option.split)
  then show ?thesis
    unfolding deactivateWorkspace_def dropLease_def setWorkspace_def
    by (intro keep_rules keeps_modify) (simp_all add: keeps_def managerNow_def)
qed

lemma closing_drops_new_sessions:
  assumes "\<And>s. s \<in> set objects \<Longrightarrow> \<not> isl (lvStatus live s)"
  shows "let h = snd (finishShutdown env live objects g) in mgSessions h = [] \<and> mgCalls h = mgCalls g"
proof -
  have "keeps (\<lambda>h. mgCalls h = mgCalls g) (closeSessions env live objects)"
    by (induction objects)
      (auto intro!: keep_rules calls_deactivate simp: releasePersistentProfile_def rememberClosed_def keeps_modify split: sum.split)
  from wp_conj [OF wp_keeps [OF this refl] closeSessions_returns [OF assms]]
  have "wp (finishShutdown env live objects) (\<lambda>_ h. mgSessions h = [] \<and> mgCalls h = mgCalls g) (\<lambda>_ _. False) g"
    unfolding finishShutdown_def wp_then by (rule wp_mono) (simp_all add: wp_modify)
  then show ?thesis by (auto simp: wp_def Let_def split: prod.splits sum.splits)
qed

section \<open>Witnesses\<close>

theorem saved_profile_has_one_session_witness:
  "(''ses_0'', 0) \<in> set (mgSessions demoWork) \<and> lockOf (mgMade demoWork ! 0) = Some ''work'' \<and> ''ses_0'' = ''ses_0'' \<and> (0::nat) = 0"
proof -
  have "(''ses_0'', 0) \<in> set (mgSessions demoWork)" "lockOf (mgMade demoWork ! 0) = Some ''work''"
    using demo_work(2) by (simp, cases "mgMade demoWork") auto
  then show ?thesis
    using saved_profile_has_one_session [OF demo_ok(1) demo_work(1), of "''ses_0''" 0 "''ses_0''" 0 "''work''"] by simp
qed

lemma sessions_without_profile_bounded_witness:
  "withoutProfile (startedWith (demoManager 1) None emptyManager) = 1
   \<and> int (withoutProfile (startedWith (demoManager 1) None emptyManager)) \<le> 1"
proof -
  have reached: "managerReaches (demoManager 1) (startedWith (demoManager 1) None emptyManager)"
    unfolding startedWith_def by (intro demo_reach_start reach_new)
  have "withoutProfile (startedWith (demoManager 1) None emptyManager) = 1"
    by (simp add: run_defs run_texts withoutProfile_def profiled_def sessionOptions_def)
  then show ?thesis
    using sessions_without_profile_bounded [OF demo_ok(1) reached] by (simp add: demo_ok)
qed

end
