(* ===== verification/Spec2Isabelle.thy ===== *)
theory Spec2Isabelle
  imports Prelude ControlLease LeaseSafety Domain RuntimeGuard IpAddress HostRules UrlPolicy TaskTypes TaskQueue
    MemoryQueue MemoryQueueSpec RedisStore RedisQueue RedisQueueSpec RedisLeases RedisUrls QueueAdapter
    Scheduler SchedulerSpec Worker WorkerSpec ServerConfig JsonText Workflow WorkflowSpec WorkflowReport WorkflowRun WorkflowBound WorkflowSafety SnapshotHistory SnapshotSpec
    SemanticTargets TargetRegistry TargetSpec BrowserPool PoolSpec SessionOptions OptionSpec
    SessionManager SessionSpec SessionSafety
begin

text \<open>
  Verification of the antigravity browser automation server (TypeScript, sources under \<open>src/\<close>).

  The program.  An agent drives browser sessions through tools.  A tool call passes the runtime
  guard (\<open>mcp/runtime-guard.ts\<close>: rate, hard stops, revisions); its URLs pass the destination policy
  (\<open>policy/url-policy.ts\<close>); while a person is asked for help the handoff lease of the session
  (\<open>browser/control-lease.ts\<close>) decides who may write.  An element is named by an opaque reference of
  the target registry (\<open>browser/target-registry.ts\<close>), observations are kept and compared by the
  snapshot history (\<open>browser/snapshot-history.ts\<close>), and several actions run as one workflow
  (\<open>browser/workflow.ts\<close>).  Batches of URLs are tasks: the scheduler submits them to a queue, in
  memory or on Redis, and worker daemons claim, run and settle them (\<open>distributed/\<close>).  The session
  manager starts, expires and stops the sessions, keeps their workspaces apart by tenant and lets
  through what may reach a session (\<open>browser/session-manager.ts\<close>).  The control plane keeps a pool of
  browser instances and the bridges to them (\<open>control-plane/browser-pool.ts\<close>).

  The model.  A JavaScript value is a \<open>jsval\<close>, a number a \<open>jsnum\<close> with an exact rational (results of
  arithmetic are not rounded), a text a list of code units below 256, a \<open>Map\<close> an association list
  in insertion order.  A call is an action \<open>'s \<Rightarrow> ('e + 'a) \<times> 's\<close>: a throw is an \<open>Inl\<close>
  and keeps the writes made before it.  Clocks, random bytes, UUIDs, hashes, \<open>new URL\<close>, the page and
  the network are parameters, numbered by how often they were read where they can answer
  differently each time.  Calls that wait are cut at their awaits wherever other calls can come
  between (lease timers, worker, browser pool, session manager); a workflow run is one sequence of calls.
  The prelude holds this vocabulary, weakest preconditions (\<open>wp_rules\<close>), actions that keep a
  predicate (\<open>keep_rules\<close>) and results that satisfy one (\<open>ok_rules\<close>).

  Theories and sources.
  \<^item> \<open>ControlLease\<close>, \<open>LeaseSafety\<close>: \<open>ControlLeaseManager\<close>.  The state has the control owner, the
    phase of the handoff, the lease record with the token digest, and the armed timers; one operation
    per method and timer callback.  Shown: the invariant over any interleaving, refinement of the
    machine of phases, and that neither the agent nor time ends a hard stop.
  \<^item> \<open>Domain\<close>: the error codes and the redaction of \<open>domain.ts\<close>.
  \<^item> \<open>RuntimeGuard\<close>: token bucket and admission of \<open>mcp/runtime-guard.ts\<close>.
  \<^item> \<open>HostRules\<close>, \<open>IpAddress\<close>, \<open>UrlPolicy\<close>: host rules, address literals, the policy with its DNS
    cache (\<open>config.ts\<close>, \<open>policy/url-policy.ts\<close>).  The blocked IPv4 ranges are proved equal to a list of
    CIDR blocks, the canonical IPv6 text parses back, and every address returned was permitted.
  \<^item> \<open>ServerConfig\<close>: the policy profiles and \<open>loadConfig\<close> (\<open>automation-policy.ts\<close>, \<open>config.ts\<close>).
  \<^item> \<open>TaskTypes\<close>, \<open>TaskQueue\<close>, \<open>QueueAdapter\<close>: tasks, tenants, and the adapter interface; the laws a
    worker relies on are the locales of \<open>TaskQueue\<close>, interpreted by both adapters.
  \<^item> \<open>MemoryQueue\<close>, \<open>MemoryQueueSpec\<close>: \<open>MemoryQueueAdapter\<close>, a refinement of abstract per-tenant
    queues.
  \<^item> \<open>RedisStore\<close>, \<open>RedisQueue\<close>, \<open>RedisQueueSpec\<close>, \<open>RedisLeases\<close>, \<open>RedisUrls\<close>: \<open>RedisQueueAdapter\<close>; each
    Lua script is one atomic function on the store.  Shown: the life of a task (waiting or leased,
    never both, a live lease kept, an expired one recovered, stale workers fenced), its order of
    priority, URL claims and key separation.
  \<^item> \<open>Scheduler\<close>, \<open>SchedulerSpec\<close>, \<open>Worker\<close>, \<open>WorkerSpec\<close>: submission with its compensation, and the
    daemon: claim rounds, settling, recovery and shutdown, for any adapter.
  \<^item> \<open>Workflow\<close>, \<open>WorkflowReport\<close>, \<open>WorkflowRun\<close>, \<open>WorkflowSpec\<close>, \<open>WorkflowBound\<close>, \<open>WorkflowSafety\<close>:
    validation, reports, execution and the byte budget of \<open>browser/workflow.ts\<close>.
  \<^item> \<open>JsonText\<close>: \<open>JSON.stringify\<close>, UTF-8 lengths and white space, shared by the parts below.
  \<^item> \<open>SnapshotHistory\<close>, \<open>SnapshotSpec\<close>: limits, eviction, expiry and differences of observations.
  \<^item> \<open>SemanticTargets\<close>, \<open>TargetRegistry\<close>, \<open>TargetSpec\<close>: references, their resolution on the live page,
    the enumeration of a page and the compact text of a snapshot.
  \<^item> \<open>BrowserPool\<close>, \<open>PoolSpec\<close>: \<open>BrowserPoolManager\<close>: instances, the sockets of bridge extensions, the
    calls over them, site bindings and the saved file.  Shown: a call is settled at most once, a
    command sent passed the field and URL checks, the naming loops end, a restart restores the pool.
  \<^item> \<open>SessionOptions\<close>, \<open>OptionSpec\<close>: workspace names (\<open>browser/workspace.ts\<close>), proxies
    (\<open>proxy/validator.ts\<close>), places (\<open>geoip/\<close>) and the options a session is started with.  Shown: a
    caller replaces no option of the server.
  \<^item> \<open>SessionManager\<close>, \<open>SessionSpec\<close>, \<open>SessionSafety\<close>: \<open>SessionManager\<close>.  The state has the maps of
    sessions, profile locks, workspaces, leases and timers; a session object is a number whose answers
    are arguments.  Shown: the invariant over any interleaving of calls, answers and timers, one session
    for a saved profile, the checks before every call on a session, the lease a return needs, and that
    a stop frees slot and profile however it ends.

  Bounds and fuel.  Recursion is structural or has a measure, with these exceptions.  The reduction
  of a workflow result (\<open>boundLoop\<close>) gets its own weight as fuel, and \<open>result_reduction_ends\<close> shows
  that every round that does not fit lowers the weight.  The byte count that counts itself
  (\<open>measureLoop\<close>) has the eight attempts of the code; four reach the fixed point.  A snapshot
  identifier is drawn at most eight times, as in the code.  The loops that make the name and the
  identifier of a bridge unique get one round more than there are instances, and
  \<open>unique_loops_end\<close> shows that this is enough.

  Not modelled.  The page, browser processes, sockets and files (\<open>browser/browser-session.ts\<close>, the
  launchers, \<open>raw-cdp-connection.ts\<close>, the stores): input and output around the decisions modelled
  here.  \<open>api/server.ts\<close>, \<open>mcp/server.ts\<close> and \<open>mcp/schemas.ts\<close> register routes and zod schemas over the
  components.  \<open>fingerprint/stealth-scripts.ts\<close> is text run inside pages, \<open>public/app.js\<close> is the
  dashboard.  Two concurrent workflow runs under one action identifier share a promise in the code;
  the model runs them one after the other.  Floating-point rounding and code units from 256 on are
  outside the model.
\<close>

end
